(* ===== verification/JsObject.thy ===== *)
theory JsObject
  imports Prelude
begin

text \<open>
  JavaScript objects used as dictionaries, as association lists in enumeration order: keys that
  are array indices come first, in numeric order, then the others in insertion order. The order
  is visible through \<open>Object.values\<close> and \<open>Object.entries\<close>; it survives a write to disk and a
  read back, because JSON text is written and read in this order.
\<close>

type_synonym 'a obj = "(string \<times> 'a) list"

definition is_index_key :: "string \<Rightarrow> bool" where
  "is_index_key k \<longleftrightarrow> k \<noteq> [] \<and> list_all is_digit k \<and> (k = ''0'' \<or> hd k \<noteq> CHR ''0'')
     \<and> int_of_digits k < 4294967295"

fun insert_key :: "string \<Rightarrow> 'a \<Rightarrow> 'a obj \<Rightarrow> 'a obj" where
  "insert_key k v [] = [(k, v)]"
| "insert_key k v ((k', v') # o') =
     (if is_index_key k \<and> (\<not> is_index_key k' \<or> int_of_digits k < int_of_digits k')
      then (k, v) # (k', v') # o'
      else (k', v') # insert_key k v o')"

definition obj_get :: "'a obj \<Rightarrow> string \<Rightarrow> 'a option" where
  "obj_get o' k = map_of o' k"

definition obj_set :: "string \<Rightarrow> 'a \<Rightarrow> 'a obj \<Rightarrow> 'a obj" where
  "obj_set k v o' =
     (if k \<in> fst ` set o' then map (\<lambda>(k', v'). (k', if k' = k then v else v')) o'
      else insert_key k v o')"

definition obj_del :: "string \<Rightarrow> 'a obj \<Rightarrow> 'a obj" where
  "obj_del k o' = filter (\<lambda>(k', _). k' \<noteq> k) o'"

definition obj_keys :: "'a obj \<Rightarrow> string list" where
  "obj_keys o' = map fst o'"

definition obj_values :: "'a obj \<Rightarrow> 'a list" where
  "obj_values o' = map snd o'"

section \<open>Dictionary laws\<close>

lemma set_insert_key [simp]: "set (insert_key k v o') = insert (k, v) (set o')"
  by (induction k v o' rule: insert_key.induct) auto

lemma map_of_insert_key:
  "k \<notin> fst ` set o' \<Longrightarrow> map_of (insert_key k v o') = (map_of o')(k \<mapsto> v)"
proof (induction k v o' rule: insert_key.induct)
  case (1 k v)
  then show ?case by simp
next
  case (2 k v k' v' o')
  then have "k \<noteq> k'" by auto
  with 2 show ?case by (auto simp: fun_eq_iff)
qed

lemma map_of_map_upd:
  "map_of (map (\<lambda>(k', v'). (k', if k' = k then v else v')) o') =
     (if k \<in> fst ` set o' then (map_of o')(k \<mapsto> v) else map_of o')"
  by (induction o') (auto simp: fun_eq_iff)

lemma obj_get_Nil [simp]: "obj_get [] k = None"
  by (simp add: obj_get_def)

lemma obj_get_set: "obj_get (obj_set k v o') k' = (if k' = k then Some v else obj_get o' k')"
  by (auto simp: obj_set_def obj_get_def map_of_map_upd map_of_insert_key)

lemma obj_get_del: "obj_get (obj_del k o') k' = (if k' = k then None else obj_get o' k')"
  by (induction o') (auto simp: obj_get_def obj_del_def)

lemma obj_keys_set: "set (obj_keys (obj_set k v o')) = insert k (set (obj_keys o'))"
  by (auto simp: obj_keys_def obj_set_def image_iff split: prod.splits if_splits) force+

lemma obj_keys_del: "set (obj_keys (obj_del k o')) = set (obj_keys o') - {k}"
  by (auto simp: obj_keys_def obj_del_def image_iff)

lemma obj_get_None_iff: "obj_get o' k = None \<longleftrightarrow> k \<notin> set (obj_keys o')"
  by (simp add: obj_get_def obj_keys_def map_of_eq_None_iff)

definition obj_wf :: "'a obj \<Rightarrow> bool" where
  "obj_wf o' \<longleftrightarrow> distinct (obj_keys o')"

lemma distinct_insert_key:
  "distinct (map fst o') \<Longrightarrow> k \<notin> fst ` set o' \<Longrightarrow> distinct (map fst (insert_key k v o'))"
  by (induction k v o' rule: insert_key.induct) auto

lemma obj_wf_Nil [simp]: "obj_wf []"
  by (simp add: obj_wf_def obj_keys_def)

lemma map_fst_upd: "map fst (map (\<lambda>(k', v'). (k', if k' = k then v else v')) o') = map fst o'"
  by (induction o') auto

lemma obj_wf_set [intro]: "obj_wf o' \<Longrightarrow> obj_wf (obj_set k v o')"
  unfolding obj_wf_def obj_keys_def obj_set_def
  by (simp only: map_fst_upd distinct_insert_key split: if_split) (simp add: distinct_insert_key)

lemma obj_wf_del [intro]: "obj_wf o' \<Longrightarrow> obj_wf (obj_del k o')"
  by (induction o') (auto simp: obj_wf_def obj_keys_def obj_del_def image_iff)

lemma obj_values_iff: "obj_wf o' \<Longrightarrow> v \<in> set (obj_values o') \<longleftrightarrow> (\<exists>k. obj_get o' k = Some v)"
  by (force simp: obj_wf_def obj_keys_def obj_values_def obj_get_def)

lemma obj_entries_iff: "obj_wf o' \<Longrightarrow> (k, v) \<in> set o' \<longleftrightarrow> obj_get o' k = Some v"
  by (auto simp: obj_wf_def obj_keys_def obj_get_def)

lemma length_obj_set:
  "length (obj_set k v o') = (if k \<in> set (obj_keys o') then length o' else Suc (length o'))"
proof -
  have "length (insert_key k v o') = Suc (length o')" for o' :: "'a obj"
    by (induction k v o' rule: insert_key.induct) auto
  then show ?thesis by (simp add: obj_set_def obj_keys_def)
qed

text \<open>
  What a client of a dictionary relies on. \<open>inv\<close> is the client's property of an entry; a
  property that holds of every stored entry survives stores of good entries and deletions.
\<close>

locale dictionary =
  fixes get :: "'d \<Rightarrow> 'k \<Rightarrow> 'v option"
    and put :: "'k \<Rightarrow> 'v \<Rightarrow> 'd \<Rightarrow> 'd"
    and del :: "'k \<Rightarrow> 'd \<Rightarrow> 'd"
  assumes get_put: "get (put k v d) k' = (if k' = k then Some v else get d k')"
    and get_del: "get (del k d) k' = (if k' = k then None else get d k')"
begin

definition all_entries :: "('k \<Rightarrow> 'v \<Rightarrow> bool) \<Rightarrow> 'd \<Rightarrow> bool" where
  "all_entries P d \<longleftrightarrow> (\<forall>k v. get d k = Some v \<longrightarrow> P k v)"

lemma all_entries_put: "all_entries P d \<Longrightarrow> P k v \<Longrightarrow> all_entries P (put k v d)"
  by (simp add: all_entries_def get_put)

lemma all_entries_del: "all_entries P d \<Longrightarrow> all_entries P (del k d)"
  by (simp add: all_entries_def get_del)

lemma all_entriesD: "all_entries P d \<Longrightarrow> get d k = Some v \<Longrightarrow> P k v"
  by (simp add: all_entries_def)

definition pairwise_entries :: "('v \<Rightarrow> 'v \<Rightarrow> bool) \<Rightarrow> 'd \<Rightarrow> bool" where
  "pairwise_entries R d \<longleftrightarrow>
     (\<forall>k k' v v'. get d k = Some v \<longrightarrow> get d k' = Some v' \<longrightarrow> k \<noteq> k' \<longrightarrow> R v v')"

lemma pairwise_entries_del: "pairwise_entries R d \<Longrightarrow> pairwise_entries R (del k d)"
  by (simp add: pairwise_entries_def get_del)

lemma pairwise_entries_put:
  assumes "pairwise_entries R d"
    and "\<And>k' v'. get d k' = Some v' \<Longrightarrow> k' \<noteq> k \<Longrightarrow> R v v' \<and> R v' v"
  shows "pairwise_entries R (put k v d)"
  using assms by (auto simp: pairwise_entries_def get_put)

end

interpretation obj: dictionary obj_get obj_set obj_del
  by unfold_locales (simp_all add: obj_get_set obj_get_del)

end
