(* ===== verification/JsNum.thy ===== *)
theory JsNum
  imports Prelude
begin

text \<open>
  JavaScript numbers. A finite number is the rational it denotes; \<open>fl\<close> rounds an exact result to
  the nearest binary64 value, ties to even, as every arithmetic operation of the language does.
  Subnormal results and overflow to infinity are outside the ranges the sources compute with and
  are not modelled, and the two zeros are one value.
\<close>

datatype jsnum = NaN | PosInf | NegInf | Fin rat

definition is_finite_num :: "jsnum \<Rightarrow> bool" where
  "is_finite_num x \<longleftrightarrow> (case x of Fin _ \<Rightarrow> True | _ \<Rightarrow> False)"

definition max_safe :: int where
  "max_safe = 9007199254740991"

text \<open>\<open>Number.isSafeInteger\<close>, with the integer it found.\<close>

definition safe_integer :: "jsnum \<Rightarrow> int option" where
  "safe_integer x = (case x of
       Fin q \<Rightarrow> (if q = of_int \<lfloor>q\<rfloor> \<and> \<bar>\<lfloor>q\<rfloor>\<bar> \<le> max_safe then Some \<lfloor>q\<rfloor> else None)
     | _ \<Rightarrow> None)"

lemma safe_integer_of_int: "\<bar>n\<bar> \<le> max_safe \<Longrightarrow> safe_integer (Fin (of_int n)) = Some n"
  by (simp add: safe_integer_def)

lemma safe_integer_SomeD:
  "safe_integer x = Some n \<Longrightarrow> x = Fin (of_int n) \<and> \<bar>n\<bar> \<le> max_safe"
  by (auto simp: safe_integer_def split: jsnum.splits if_splits)

text \<open>The guard \<open>Number.isSafeInteger(v) && v >= 0\<close>.\<close>

definition safe_count :: "jsnum \<Rightarrow> int option" where
  "safe_count x = (case safe_integer x of
       Some n \<Rightarrow> if 0 \<le> n then Some n else None
     | None \<Rightarrow> None)"

lemma safe_count_SomeD:
  "safe_count x = Some n \<Longrightarrow> x = Fin (of_int n) \<and> 0 \<le> n \<and> n \<le> max_safe"
  by (auto simp: safe_count_def split: option.splits if_splits dest!: safe_integer_SomeD)

lemma safe_count_of_int: "0 \<le> n \<Longrightarrow> n \<le> max_safe \<Longrightarrow> safe_count (Fin (of_int n)) = Some n"
  by (simp add: safe_count_def safe_integer_of_int)

section \<open>Rounding to binary64\<close>

fun ilog2 :: "int \<Rightarrow> int" where
  "ilog2 n = (if n < 2 then 0 else 1 + ilog2 (n div 2))"

declare ilog2.simps [simp del]

definition pow2 :: "int \<Rightarrow> rat" where
  "pow2 e = (if 0 \<le> e then 2 ^ nat e else 1 / 2 ^ nat (- e))"

text \<open>The exponent \<open>e\<close> with \<open>2^e \<le> q < 2^(e+1)\<close>, for positive \<open>q\<close>.\<close>

definition binary_exponent :: "rat \<Rightarrow> int" where
  "binary_exponent q =
     (let (n, d) = quotient_of q; e = ilog2 n - ilog2 d
      in if pow2 e \<le> q then e else e - 1)"

definition round_half_even :: "rat \<Rightarrow> int" where
  "round_half_even q =
     (let f = \<lfloor>q\<rfloor>; r = q - of_int f
      in if r < 1 / 2 then f else if r > 1 / 2 then f + 1 else if even f then f else f + 1)"

definition fl :: "rat \<Rightarrow> rat" where
  "fl q = (if q = 0 then 0
     else let u = pow2 (binary_exponent \<bar>q\<bar> - 52)
          in (if q < 0 then -1 else 1) * of_int (round_half_even (\<bar>q\<bar> / u)) * u)"

text \<open>
  \<open>Number(x.toFixed(2))\<close>: the integer nearest to \<open>100 * x\<close> (the larger one on a tie), then the
  binary64 value of the two-digit decimal.
\<close>

definition to_fixed2 :: "rat \<Rightarrow> int" where
  "to_fixed2 x = \<lfloor>100 * x + 1 / 2\<rfloor>"

definition round2 :: "rat \<Rightarrow> rat" where
  "round2 x = fl (of_int (to_fixed2 x) / 100)"

lemma fl_zero [simp]: "fl 0 = 0"
  by (simp add: fl_def)


section \<open>Facts about rounding\<close>

lemma pow2_add_one: "pow2 (e + 1) = 2 * pow2 e"
proof (cases "0 \<le> e")
  case True
  then have "nat (e + 1) = Suc (nat e)" by simp
  with True show ?thesis by (simp add: pow2_def)
next
  case False
  then have "nat (- e) = Suc (nat (- (e + 1)))" by simp
  with False show ?thesis by (auto simp: pow2_def)
qed

lemma pow2_pos [simp]: "0 < pow2 e"
  by (simp add: pow2_def)

lemma pow2_of_nat: "pow2 (int n) = 2 ^ n"
  by (simp add: pow2_def)

lemma pow2_plus_nat: "pow2 (e + int n) = 2 ^ n * pow2 e"
proof (induction n)
  case 0
  then show ?case by simp
next
  case (Suc n)
  have "pow2 (e + int (Suc n)) = pow2 (e + int n + 1)" by (simp add: algebra_simps)
  with Suc show ?case by (simp add: pow2_add_one)
qed

lemma pow2_mono: "a \<le> b \<Longrightarrow> pow2 a \<le> pow2 b"
  using pow2_plus_nat [of a "nat (b - a)"] by simp

lemma pow2_less_imp: "pow2 a < pow2 b \<Longrightarrow> a < b"
  using pow2_mono [of b a] by force

lemma ilog2_bounds: "1 \<le> n \<Longrightarrow> 0 \<le> ilog2 n \<and> pow2 (ilog2 n) \<le> of_int n \<and> of_int n < pow2 (ilog2 n + 1)"
proof (induction n rule: ilog2.induct)
  case (1 n)
  show ?case
  proof (cases "n < 2")
    case True
    with 1 have "n = 1" by simp
    then show ?thesis by (simp add: ilog2.simps [of 1] pow2_def)
  next
    case False
    with 1 have IH: "0 \<le> ilog2 (n div 2)" "pow2 (ilog2 (n div 2)) \<le> of_int (n div 2)"
      "of_int (n div 2) < pow2 (ilog2 (n div 2) + 1)" by auto
    let ?k = "ilog2 (n div 2)"
    have p: "pow2 ?k = of_int (2 ^ nat ?k)" "pow2 (?k + 1) = of_int (2 ^ nat (?k + 1))"
      using IH(1) by (simp_all add: pow2_def)
    have "(2 :: int) ^ nat ?k \<le> n div 2" "n div 2 < 2 ^ nat (?k + 1)"
      using IH(2,3) unfolding p by (simp_all only: of_int_le_iff of_int_less_iff)
    then have i: "2 * (2 :: int) ^ nat ?k \<le> n" "n < 2 * 2 ^ nat (?k + 1)" by linarith+
    have "ilog2 n = ?k + 1" using False by (simp add: ilog2.simps [of n])
    moreover have "2 * pow2 ?k \<le> of_int n" "of_int n < 2 * pow2 (?k + 1)"
      using i unfolding p by (simp_all only: of_int_mult [symmetric] of_int_numeral [symmetric, where 'a = rat]
          of_int_le_iff of_int_less_iff)
    moreover have "pow2 (?k + 1 + 1) = 2 * pow2 (?k + 1)" by (rule pow2_add_one)
    ultimately show ?thesis using IH(1) pow2_add_one [of ?k] by (simp only: add_nonneg_nonneg zero_le_one simp_thms)
  qed
qed

lemma binary_exponent_bounds:
  assumes "0 < q"
  shows "pow2 (binary_exponent q) \<le> q \<and> q < pow2 (binary_exponent q + 1)"
proof -
  obtain n d where q: "quotient_of q = (n, d)" by (cases "quotient_of q")
  have d: "0 < d" using quotient_of_denom_pos [OF q] .
  have qd: "q = of_int n / of_int d" using quotient_of_div [OF q] .
  with assms d have n: "0 < n" by (simp add: zero_less_divide_iff)
  let ?a = "ilog2 n" and ?b = "ilog2 d"
  have a: "0 \<le> ?a" "pow2 ?a \<le> of_int n" "of_int n < pow2 (?a + 1)" and b: "0 \<le> ?b" "pow2 ?b \<le> of_int d" "of_int d < pow2 (?b + 1)"
    using ilog2_bounds [of n] ilog2_bounds [of d] n d by auto
  have s: "pow2 (?a - ?b) * pow2 ?b = pow2 ?a"
    using pow2_plus_nat [of "?a - ?b" "nat ?b"] b(1) by (simp add: pow2_def)
  have "q * of_int d = of_int n" using qd d by simp
  have up: "q < pow2 (?a - ?b + 1)"
  proof -
    have "q * pow2 ?b \<le> q * of_int d" using b(2) assms by simp
    also have "\<dots> < 2 * pow2 (?a - ?b) * pow2 ?b" using a(3) s qd d by (simp add: pow2_add_one)
    finally show ?thesis by (simp add: pow2_add_one)
  qed
  have lo: "pow2 (?a - ?b - 1) \<le> q"
  proof -
    have "pow2 (?a - ?b) * pow2 ?b \<le> q * of_int d" using a(2) s qd d by simp
    also have "\<dots> \<le> q * (2 * pow2 ?b)" using b(3) assms by (simp add: pow2_add_one)
    finally have "pow2 (?a - ?b) \<le> 2 * q" by simp
    then show ?thesis using pow2_add_one [of "?a - ?b - 1"] by simp
  qed
  show ?thesis using up lo by (auto simp: binary_exponent_def q Let_def)
qed

lemma round_half_even_le: "q \<le> of_int m \<Longrightarrow> round_half_even q \<le> m"
proof -
  assume q: "q \<le> of_int m"
  have f: "of_int \<lfloor>q\<rfloor> \<le> q" "\<lfloor>q\<rfloor> \<le> m" using q by (simp, linarith)
  show ?thesis
  proof (cases "\<lfloor>q\<rfloor> = m")
    case True
    with q f have "q - of_int \<lfloor>q\<rfloor> \<le> 0" by simp
    with True show ?thesis by (simp add: round_half_even_def Let_def)
  next
    case False
    with f have "\<lfloor>q\<rfloor> + 1 \<le> m" by simp
    then show ?thesis by (simp add: round_half_even_def Let_def)
  qed
qed

lemma round_half_even_ge: "0 \<le> q \<Longrightarrow> 0 \<le> round_half_even q"
  by (simp add: round_half_even_def Let_def)

lemma fl_unit:
  assumes "0 \<le> q" "q \<le> 1"
  shows "0 \<le> fl q \<and> fl q \<le> 1"
proof (cases "q = 0")
  case True
  then show ?thesis by simp
next
  case False
  with assms have q: "0 < q" by simp
  let ?e = "binary_exponent q"
  let ?u = "pow2 (?e - 52)"
  have e: "pow2 ?e \<le> q" "q < pow2 (?e + 1)" using binary_exponent_bounds [OF q] by auto
  have u: "pow2 ?e = 2 ^ 52 * ?u" using pow2_plus_nat [of "?e - 52" 52] by simp
  have f: "fl q = of_int (round_half_even (q / ?u)) * ?u" using q by (simp add: fl_def Let_def)
  have ge: "0 \<le> round_half_even (q / ?u)" using q by (intro round_half_even_ge) (simp add: less_imp_le)
  have "of_int (round_half_even (q / ?u)) * ?u \<le> 1"
  proof (cases "?e < 0")
    case True
    have "q / ?u \<le> of_int (2 ^ 53)" using e(2) u by (simp add: pow2_add_one divide_le_eq)
    then have "(of_int (round_half_even (q / ?u)) :: rat) \<le> of_int (2 ^ 53)"
      using round_half_even_le of_int_le_iff by blast
    then have "of_int (round_half_even (q / ?u)) * ?u \<le> of_int (2 ^ 53) * ?u" by (intro mult_right_mono) (simp_all add: less_imp_le)
    also have "\<dots> = pow2 (?e + 1)" using u by (simp add: pow2_add_one)
    also have "\<dots> \<le> pow2 0" using True by (intro pow2_mono) simp
    finally show ?thesis by (simp add: pow2_def)
  next
    case False
    have "1 \<le> pow2 ?e" using pow2_mono [of 0 ?e] False by (simp add: pow2_def)
    with e(1) assms(2) have "q = 1" "pow2 ?e = 1" by auto
    then have "q / ?u = of_int (2 ^ 52)" using u by (simp add: field_simps)
    then have "round_half_even (q / ?u) \<le> 2 ^ 52" by (intro round_half_even_le) simp
    then have "(of_int (round_half_even (q / ?u)) :: rat) \<le> of_int (2 ^ 52)" by (simp only: of_int_le_iff)
    then have "of_int (round_half_even (q / ?u)) * ?u \<le> of_int (2 ^ 52) * ?u" by (intro mult_right_mono) (simp_all add: less_imp_le)
    also have "\<dots> = 1" using u \<open>pow2 ?e = 1\<close> by simp
    finally show ?thesis .
  qed
  moreover have "0 \<le> of_int (round_half_even (q / ?u)) * ?u"
    using ge by (intro mult_nonneg_nonneg) (simp_all add: less_imp_le)
  ultimately show ?thesis unfolding f by blast
qed

end
