(* ===== verification/JsDate.thy ===== *)
theory JsDate
  imports Prelude
begin

text \<open>
  The part of \<open>Date\<close> the sources use: \<open>Date.parse\<close> on the two formats ECMA-262 fixes (the ISO
  date-time format and the format of \<open>toUTCString\<close>), \<open>toISOString\<close>, and day arithmetic. An
  instant is its number of milliseconds since 1970. Other strings, which the language leaves to
  the implementation, are NaN here, and so are ISO strings without a time or a zone, which no
  caller produces. The calendar formulas are those of ECMA-262.

  The main facts are \<open>date_parse_to_iso\<close> (writing an instant and parsing it back) and
  \<open>date_parse_contract\<close> (the same through the seconds format of the lease contract).
\<close>

section \<open>The calendar\<close>

definition ms_per_day :: int where
  "ms_per_day = 86400000"

definition leap_year :: "int \<Rightarrow> bool" where
  "leap_year y \<longleftrightarrow> y mod 4 = 0 \<and> (y mod 100 \<noteq> 0 \<or> y mod 400 = 0)"

definition day_from_year :: "int \<Rightarrow> int" where
  "day_from_year y =
     365 * (y - 1970) + (y - 1969) div 4 - (y - 1901) div 100 + (y - 1601) div 400"

definition month_start :: "bool \<Rightarrow> int \<Rightarrow> int" where
  "month_start l m =
     (if m \<le> 1 then 0 else if m = 2 then 31
      else (if l then 1 else 0)
        + (if m = 3 then 59 else if m = 4 then 90 else if m = 5 then 120 else if m = 6 then 151
           else if m = 7 then 181 else if m = 8 then 212 else if m = 9 then 243
           else if m = 10 then 273 else if m = 11 then 304 else 334))"

definition day_of_date :: "int \<Rightarrow> int \<Rightarrow> int \<Rightarrow> int" where
  "day_of_date y m d = day_from_year y + month_start (leap_year y) m + d - 1"

text \<open>The year of a day: an estimate from the mean length of a year, put right by one.\<close>

definition year_from_day :: "int \<Rightarrow> int" where
  "year_from_day z =
     (let y = 1970 + (400 * z) div 146097
      in if z < day_from_year y then y - 1
         else if day_from_year (y + 1) \<le> z then y + 1 else y)"

definition month_from_doy :: "bool \<Rightarrow> int \<Rightarrow> int" where
  "month_from_doy l k =
     (if k < month_start l 2 then 1 else if k < month_start l 3 then 2
      else if k < month_start l 4 then 3 else if k < month_start l 5 then 4
      else if k < month_start l 6 then 5 else if k < month_start l 7 then 6
      else if k < month_start l 8 then 7 else if k < month_start l 9 then 8
      else if k < month_start l 10 then 9 else if k < month_start l 11 then 10
      else if k < month_start l 12 then 11 else 12)"

definition date_of_day :: "int \<Rightarrow> int \<times> int \<times> int" where
  "date_of_day z =
     (let y = year_from_day z; k = z - day_from_year y; l = leap_year y; m = month_from_doy l k
      in (y, m, k - month_start l m + 1))"

lemma div_succ:
  fixes n c :: int
  assumes "0 < c"
  shows "(n + 1) div c = n div c + (if (n + 1) mod c = 0 then 1 else 0)"
proof -
  define q r where "q = n div c" and "r = n mod c"
  have n: "n = c * q + r" and r: "0 \<le> r" "r < c" using assms by (auto simp: q_def r_def)
  show ?thesis
  proof (cases "r + 1 = c")
    case True
    then have "n + 1 = c * (q + 1)" using n by (simp add: algebra_simps)
    then have "(n + 1) div c = q + 1" "(n + 1) mod c = 0" using assms by simp_all
    then show ?thesis by (simp add: q_def)
  next
    case False
    then have "(n + 1) div c = q" "(n + 1) mod c = r + 1"
      using n r assms by (auto intro!: int_div_pos_eq [where r = "r + 1"] int_mod_pos_eq [where q = q])
    then show ?thesis using r by (simp add: q_def)
  qed
qed

lemma dvd_diff_left_iff_int: "c dvd k \<Longrightarrow> c dvd n - k \<longleftrightarrow> c dvd (n :: int)"
  by (metis diff_add_cancel dvd_add_left_iff)

lemma day_from_year_succ:
  "day_from_year (y + 1) = day_from_year y + 365 + (if leap_year y then 1 else 0)"
proof -
  have a: "(y + 1 - 1969) div 4 = (y - 1969) div 4 + (if y mod 4 = 0 then 1 else 0)"
    using div_succ [of 4 "y - 1969"] dvd_diff_commute by (simp add: algebra_simps mod_eq_0_iff_dvd) presburger
  have b: "(y + 1 - 1901) div 100 = (y - 1901) div 100 + (if y mod 100 = 0 then 1 else 0)"
    using div_succ [of 100 "y - 1901"] dvd_diff_left_iff_int [of 100 1900 y] by (simp add: algebra_simps mod_eq_0_iff_dvd)
  have c: "(y + 1 - 1601) div 400 = (y - 1601) div 400 + (if y mod 400 = 0 then 1 else 0)"
    using div_succ [of 400 "y - 1601"] dvd_diff_left_iff_int [of 400 1600 y] by (simp add: algebra_simps mod_eq_0_iff_dvd)
  have i: "y mod 400 = 0 \<longrightarrow> y mod 100 = 0" "y mod 100 = 0 \<longrightarrow> y mod 4 = 0"
    using dvd_trans [of 100 400 y] dvd_trans [of 4 100 y] by (simp_all add: mod_eq_0_iff_dvd)
  define p q r where "p \<longleftrightarrow> y mod 4 = 0" and "q \<longleftrightarrow> y mod 100 = 0" and "r \<longleftrightarrow> y mod 400 = 0"
  show ?thesis
    using i unfolding day_from_year_def leap_year_def a b c p_def [symmetric] q_def [symmetric] r_def [symmetric]
    by (cases p; cases q; cases r; simp)
qed

lemma div_bounds: "0 < c \<Longrightarrow> c * (n div c) \<le> n \<and> n < c * (n div c) + (c :: int)"
  using mult_div_mod_eq [of c n] pos_mod_bound [of c n] pos_mod_sign [of c n] by linarith

lemma day_from_year_bounds:
  "400 * day_from_year y \<le> 146097 * (y - 1970) + 800 \<and> 146097 * (y - 1970) - 800 \<le> 400 * day_from_year y"
proof -
  define a b c where "a = (y - 1969) div 4" and "b = (y - 1901) div 100" and "c = (y - 1601) div 400"
  have "4 * a \<le> y - 1969 \<and> y - 1969 < 4 * a + 4" "100 * b \<le> y - 1901 \<and> y - 1901 < 100 * b + 100"
    "400 * c \<le> y - 1601 \<and> y - 1601 < 400 * c + 400"
    unfolding a_def b_def c_def by (rule div_bounds; simp)+
  then show ?thesis
    unfolding day_from_year_def a_def [symmetric] b_def [symmetric] c_def [symmetric]
    by auto
qed

lemma year_from_day:
  "day_from_year (year_from_day z) \<le> z" "z < day_from_year (year_from_day z + 1)"
proof -
  define e where "e = (400 * z) div 146097"
  define y where "y = 1970 + e"
  have e: "146097 * e \<le> 400 * z" "400 * z < 146097 * e + 146097" unfolding e_def by linarith+
  note s = day_from_year_succ [of y] day_from_year_succ [of "y - 1"] day_from_year_succ [of "y + 1"]
  note b = day_from_year_bounds [of y] day_from_year_bounds [of "y + 1"]
  have "day_from_year (y - 1) \<le> z" "z < day_from_year (y + 1 + 1)"
    using e s b by (auto simp: y_def split: if_splits)
  then show "day_from_year (year_from_day z) \<le> z" "z < day_from_year (year_from_day z + 1)"
    unfolding year_from_day_def Let_def e_def [symmetric] y_def [symmetric] by auto
qed

lemma month_from_doy:
  assumes "0 \<le> k" "k < 365 + (if l then 1 else 0)"
  shows "1 \<le> month_from_doy l k" "month_from_doy l k \<le> 12"
    "1 \<le> k - month_start l (month_from_doy l k) + 1"
    "k - month_start l (month_from_doy l k) + 1 \<le> 31"
proof -
  have "1 \<le> month_from_doy l k \<and> month_from_doy l k \<le> 12
      \<and> 1 \<le> k - month_start l (month_from_doy l k) + 1 \<and> k - month_start l (month_from_doy l k) + 1 \<le> 31"
    using assms unfolding month_from_doy_def
    by (cases l) (simp_all add: month_start_def)
  then show "1 \<le> month_from_doy l k" "month_from_doy l k \<le> 12"
    "1 \<le> k - month_start l (month_from_doy l k) + 1"
    "k - month_start l (month_from_doy l k) + 1 \<le> 31" by blast+
qed

lemma day_from_year_mono: "y \<le> y' \<Longrightarrow> day_from_year y \<le> day_from_year y'"
proof (induction y' rule: int_ge_induct)
  case base
  then show ?case by simp
next
  case (step i)
  then show ?case by (simp add: day_from_year_succ)
qed

text \<open>The calendar date of a day is a real one, and the day can be computed back from it.\<close>

lemma date_of_day:
  assumes "date_of_day z = (y, m, d)"
  shows "1 \<le> m" "m \<le> 12" "1 \<le> d" "d \<le> 31" "day_of_date y m d = z" "y = year_from_day z"
proof -
  define k where "k = z - day_from_year y"
  from assms have y: "y = year_from_day z" and m: "m = month_from_doy (leap_year y) k"
    and d: "d = k - month_start (leap_year y) m + 1"
    by (auto simp: date_of_day_def Let_def k_def)
  have "0 \<le> k" "k < 365 + (if leap_year y then 1 else 0)"
    using year_from_day [of z] day_from_year_succ [of y] by (simp_all add: y k_def split: if_splits)
  note month_from_doy [OF this]
  then show "1 \<le> m" "m \<le> 12" "1 \<le> d" "d \<le> 31" unfolding m d by blast+
  show "day_of_date y m d = z" by (simp add: day_of_date_def d k_def)
  show "y = year_from_day z" by (fact y)
qed

section \<open>Reading and writing ISO date-times\<close>

definition eat :: "char \<Rightarrow> string \<Rightarrow> string option" where
  "eat c s = (case s of [] \<Rightarrow> None | c' # r \<Rightarrow> if c' = c then Some r else None)"

definition take_num :: "nat \<Rightarrow> string \<Rightarrow> (int \<times> string) option" where
  "take_num w s =
     (if w \<le> length s \<and> list_all is_digit (take w s)
      then Some (int_of_digits (take w s), drop w s) else None)"

definition parse_year :: "string \<Rightarrow> (int \<times> string) option" where
  "parse_year s = (case s of [] \<Rightarrow> None
     | c # r \<Rightarrow>
         if c = CHR ''+'' then take_num 6 r
         else if c = CHR ''-'' then
           Option.bind (take_num 6 r) (\<lambda>(y, r'). if y = 0 then None else Some (- y, r'))
         else take_num 4 s)"

definition parse_date :: "string \<Rightarrow> ((int \<times> int \<times> int) \<times> string) option" where
  "parse_date s =
     Option.bind (parse_year s) (\<lambda>(y, s).
     Option.bind (eat CHR ''-'' s) (\<lambda>s.
     Option.bind (take_num 2 s) (\<lambda>(m, s).
     Option.bind (eat CHR ''-'' s) (\<lambda>s.
     Option.bind (take_num 2 s) (\<lambda>(d, s). Some ((y, m, d), s))))))"

text \<open>Seconds and their fraction are optional; digits after the third are dropped.\<close>

definition parse_fraction :: "string \<Rightarrow> (int \<times> string) option" where
  "parse_fraction s = (case eat CHR ''.'' s of
       None \<Rightarrow> Some (0, s)
     | Some r \<Rightarrow>
         let ds = takeWhile is_digit r
         in if ds = [] then None
            else Some (int_of_digits (take 3 (ds @ ''00'')), dropWhile is_digit r))"

definition parse_seconds :: "string \<Rightarrow> ((int \<times> int) \<times> string) option" where
  "parse_seconds s = (case eat CHR '':'' s of
       None \<Rightarrow> Some ((0, 0), s)
     | Some r \<Rightarrow>
         Option.bind (take_num 2 r) (\<lambda>(sec, r).
         Option.bind (parse_fraction r) (\<lambda>(ms, r). Some ((sec, ms), r))))"

definition parse_time :: "string \<Rightarrow> ((int \<times> int \<times> int \<times> int) \<times> string) option" where
  "parse_time s =
     Option.bind (take_num 2 s) (\<lambda>(h, s).
     Option.bind (eat CHR '':'' s) (\<lambda>s.
     Option.bind (take_num 2 s) (\<lambda>(mi, s).
     Option.bind (parse_seconds s) (\<lambda>((sec, ms), s). Some ((h, mi, sec, ms), s)))))"

text \<open>The zone, in minutes east of Greenwich; the colon may be missing.\<close>

definition parse_zone :: "string \<Rightarrow> int option" where
  "parse_zone s =
     (if s = ''Z'' then Some 0
      else case s of [] \<Rightarrow> None
      | c # r \<Rightarrow>
          if c = CHR ''+'' \<or> c = CHR ''-'' then
            Option.bind (take_num 2 r) (\<lambda>(h, r).
            Option.bind (take_num 2 (or_else (eat CHR '':'' r) r)) (\<lambda>(mi, r).
              if r = [] \<and> h \<le> 23 \<and> mi \<le> 59
              then Some ((if c = CHR ''-'' then -1 else 1) * (60 * h + mi)) else None))
          else None)"

definition time_clip :: "int \<Rightarrow> int option" where
  "time_clip t = (if \<bar>t\<bar> \<le> 8640000000000000 then Some t else None)"

definition make_time :: "int \<Rightarrow> int \<Rightarrow> int \<Rightarrow> int \<Rightarrow> int" where
  "make_time h mi s ms = 3600000 * h + 60000 * mi + 1000 * s + ms"

definition time_fields_ok :: "int \<Rightarrow> int \<Rightarrow> int \<Rightarrow> int \<Rightarrow> bool" where
  "time_fields_ok h mi s ms \<longleftrightarrow>
     mi \<le> 59 \<and> s \<le> 59 \<and> (h \<le> 23 \<or> h = 24 \<and> mi = 0 \<and> s = 0 \<and> ms = 0)"

definition iso_parse :: "string \<Rightarrow> int option" where
  "iso_parse s =
     Option.bind (parse_date s) (\<lambda>((y, m, d), s).
     Option.bind (eat CHR ''T'' s) (\<lambda>s.
     Option.bind (parse_time s) (\<lambda>((h, mi, sec, ms), s).
     Option.bind (parse_zone s) (\<lambda>z.
       if 1 \<le> m \<and> m \<le> 12 \<and> 1 \<le> d \<and> d \<le> 31 \<and> time_fields_ok h mi sec ms
       then time_clip (ms_per_day * day_of_date y m d + make_time h mi sec ms - 60000 * z)
       else None))))"

text \<open>The format of \<open>toUTCString\<close>, as in \<open>Sun, 06 Nov 1994 08:49:37 GMT\<close>; the weekday is not looked at.\<close>

definition month_names :: "string list" where
  "month_names = [''Jan'', ''Feb'', ''Mar'', ''Apr'', ''May'', ''Jun'', ''Jul'', ''Aug'', ''Sep'',
     ''Oct'', ''Nov'', ''Dec'']"

fun position :: "'a \<Rightarrow> 'a list \<Rightarrow> int option" where
  "position x [] = None"
| "position x (y # ys) = (if x = y then Some 1 else map_option (\<lambda>i. i + 1) (position x ys))"

definition utc_parse :: "string \<Rightarrow> int option" where
  "utc_parse s =
     (if length s = 29 \<and> take 2 (drop 3 s) = '', '' \<and> drop 25 s = '' GMT'' then
        Option.bind (take_num 2 (drop 5 s)) (\<lambda>(d, r1).
        Option.bind (eat CHR '' '' r1) (\<lambda>r2.
        Option.bind (position (take 3 r2) month_names) (\<lambda>m.
        Option.bind (eat CHR '' '' (drop 3 r2)) (\<lambda>r3.
        Option.bind (take_num 4 r3) (\<lambda>(y, r4).
        Option.bind (eat CHR '' '' r4) (\<lambda>r5.
        Option.bind (parse_time r5) (\<lambda>((h, mi, sec, ms), r6).
          if r6 = '' GMT'' \<and> 1 \<le> d \<and> d \<le> 31 \<and> h \<le> 23 \<and> mi \<le> 59 \<and> sec \<le> 59
          then time_clip (ms_per_day * day_of_date y m d + make_time h mi sec ms) else None)))))))
      else None)"

text \<open>The separators may be written in lower case.\<close>

definition iso_upper :: "char \<Rightarrow> char" where
  "iso_upper c = (if c = CHR ''t'' then CHR ''T'' else if c = CHR ''z'' then CHR ''Z'' else c)"

text \<open>The date-only forms, a year, a month or a day, taken as midnight UTC.\<close>

definition iso_date_fields :: "string \<Rightarrow> (int \<times> int \<times> int) option" where
  "iso_date_fields s =
     Option.bind (parse_year s) (\<lambda>(y, s).
       if s = [] then Some (y, 1, 1) else
       Option.bind (eat CHR ''-'' s) (\<lambda>s.
       Option.bind (take_num 2 s) (\<lambda>(m, s).
         if s = [] then Some (y, m, 1) else
         Option.bind (eat CHR ''-'' s) (\<lambda>s.
         Option.bind (take_num 2 s) (\<lambda>(d, s). if s = [] then Some (y, m, d) else None)))))"

definition iso_date_parse :: "string \<Rightarrow> int option" where
  "iso_date_parse s = Option.bind (iso_date_fields s) (\<lambda>(y, m, d).
     if 1 \<le> m \<and> m \<le> 12 \<and> 1 \<le> d \<and> d \<le> 31 then time_clip (ms_per_day * day_of_date y m d) else None)"

text \<open>\<open>Date.parse\<close>; \<open>None\<close> is NaN. Texts in the other formats an engine may accept on its own
  account are read as NaN.\<close>

definition date_parse :: "string \<Rightarrow> int option" where
  "date_parse s = or_opt (iso_parse s) (or_opt (iso_parse (map iso_upper s))
     (or_opt (iso_date_parse s) (utc_parse s)))"

definition iso_year :: "int \<Rightarrow> string" where
  "iso_year y =
     (if 0 \<le> y \<and> y \<le> 9999 then digits 4 y
      else (if y < 0 then CHR ''-'' else CHR ''+'') # digits 6 \<bar>y\<bar>)"

text \<open>Everything of \<open>toISOString\<close> before the milliseconds.\<close>

definition iso_seconds :: "int \<Rightarrow> string" where
  "iso_seconds t =
     (let (y, m, d) = date_of_day (t div ms_per_day); r = t mod ms_per_day
      in iso_year y @ ''-'' @ digits 2 m @ ''-'' @ digits 2 d @ ''T''
         @ digits 2 (r div 3600000) @ '':'' @ digits 2 (r div 60000 mod 60) @ '':''
         @ digits 2 (r div 1000 mod 60))"

definition to_iso :: "int \<Rightarrow> string" where
  "to_iso t = iso_seconds t @ ''.'' @ digits 3 (t mod 1000) @ ''Z''"

text \<open>\<open>new Date(t).toISOString()\<close>: a \<open>RangeError\<close> (here \<open>None\<close>) for NaN.\<close>

definition date_to_iso :: "int option \<Rightarrow> string option" where
  "date_to_iso t = map_option to_iso (Option.bind t time_clip)"

text \<open>\<open>replace(/\.\d{3}Z$/, "Z")\<close>.\<close>

definition strip_millis :: "string \<Rightarrow> string" where
  "strip_millis s =
     (let p = take (length s - 5) s; q = drop (length s - 5) s
      in if 5 \<le> length s \<and> hd q = CHR ''.'' \<and> list_all is_digit (take 3 (tl q)) \<and> drop 4 q = ''Z''
         then p @ ''Z'' else s)"

section \<open>Round trips\<close>

lemma eat_Cons [simp]: "eat c (c' # s) = (if c' = c then Some s else None)"
  by (simp add: eat_def)

lemma eat_Nil [simp]: "eat c [] = None"
  by (simp add: eat_def)

lemma take_num_digits:
  "0 \<le> n \<Longrightarrow> n < 10 ^ w \<Longrightarrow> take_num w (digits w n @ s) = Some (n, s)"
  by (simp add: take_num_def digits_all_digit int_of_digits_digits)

lemma digits_head_plain:
  assumes "0 < w" "0 \<le> n"
  shows "\<exists>c r. digits w n = c # r \<and> is_digit c"
proof -
  obtain c r where "digits w n = c # r" using assms(1) length_digits [of w n]
    by (cases "digits w n") auto
  with digits_all_digit [of w n] show ?thesis by auto
qed

definition year_in_range :: "int \<Rightarrow> bool" where
  "year_in_range t \<longleftrightarrow> -62167219200000 \<le> t \<and> t < 253402300800000"

lemma year_from_day_range:
  assumes "year_in_range t"
  shows "0 \<le> year_from_day (t div ms_per_day)" "year_from_day (t div ms_per_day) \<le> 9999"
proof -
  let ?z = "t div ms_per_day" and ?y = "year_from_day (t div ms_per_day)"
  have t: "-62167219200000 \<le> t" "t < 253402300800000" using assms by (simp_all add: year_in_range_def)
  then have z: "-719528 \<le> ?z" "?z < 2932897" unfolding ms_per_day_def by linarith+
  have e: "day_from_year 0 = -719528" "day_from_year 10000 = 2932897"
    by (simp_all add: day_from_year_def)
  show "0 \<le> ?y"
  proof (rule ccontr)
    assume "\<not> 0 \<le> ?y"
    then have "day_from_year (?y + 1) \<le> day_from_year 0" by (intro day_from_year_mono) simp
    with year_from_day [of ?z] z e show False by simp
  qed
  show "?y \<le> 9999"
  proof (rule ccontr)
    assume "\<not> ?y \<le> 9999"
    then have "day_from_year 10000 \<le> day_from_year ?y" by (intro day_from_year_mono) simp
    with year_from_day [of ?z] z e show False by simp
  qed
qed

lemma parse_year_digits:
  assumes "0 \<le> y" "y \<le> 9999"
  shows "parse_year (digits 4 y @ s) = Some (y, s)"
proof -
  obtain c r where d: "digits 4 y = c # r" "is_digit c" using digits_head_plain [of 4 y] assms by auto
  then have "c \<noteq> CHR ''+''" "c \<noteq> CHR ''-''" by (auto simp: is_digit_iff_code)
  with d show ?thesis using take_num_digits [of y 4 s] assms by (simp add: parse_year_def)
qed

lemma parse_date_digits:
  assumes "0 \<le> y" "y \<le> 9999" "1 \<le> m" "m \<le> 12" "1 \<le> d" "d \<le> 31"
  shows "parse_date (digits 4 y @ CHR ''-'' # digits 2 m @ CHR ''-'' # digits 2 d @ s) = Some ((y, m, d), s)"
  using assms take_num_digits [of m 2 "CHR ''-'' # digits 2 d @ s"] take_num_digits [of d 2 s]
  by (simp add: parse_date_def parse_year_digits)

lemma parse_time_digits:
  assumes "0 \<le> h" "h < 100" "0 \<le> mi" "mi < 100" "0 \<le> sec" "sec < 100"
    and "parse_fraction s = Some (ms, r)"
  shows "parse_time (digits 2 h @ CHR '':'' # digits 2 mi @ CHR '':'' # digits 2 sec @ s)
    = Some ((h, mi, sec, ms), r)"
  using assms take_num_digits [of h 2 "CHR '':'' # digits 2 mi @ CHR '':'' # digits 2 sec @ s"]
    take_num_digits [of mi 2 "CHR '':'' # digits 2 sec @ s"] take_num_digits [of sec 2 s]
  by (simp add: parse_time_def parse_seconds_def)

lemma parse_fraction_Z: "parse_fraction ''Z'' = Some (0, ''Z'')"
  by (simp add: parse_fraction_def)

lemma parse_fraction_digits:
  assumes "0 \<le> ms" "ms < 1000"
  shows "parse_fraction (''.'' @ digits 3 ms @ ''Z'') = Some (ms, ''Z'')"
proof -
  have z: "\<not> is_digit CHR ''Z''" by (simp add: is_digit_iff_code)
  have a: "\<forall>c \<in> set (digits 3 ms). is_digit c" using digits_all_digit [of 3 ms] by (simp add: list_all_iff)
  have "takeWhile is_digit (digits 3 ms @ ''Z'') = digits 3 ms"
    "dropWhile is_digit (digits 3 ms @ ''Z'') = ''Z''"
    using a z by (simp_all add: takeWhile_append dropWhile_append)
  moreover have "digits 3 ms \<noteq> []" using length_digits [of 3 ms] by fastforce
  ultimately show ?thesis using assms
    by (simp add: parse_fraction_def Let_def int_of_digits_digits)
qed

text \<open>The shared step: an instant whose text ends in a fraction \<open>f\<close> worth \<open>ms\<close>.\<close>

lemma iso_parse_seconds:
  assumes "year_in_range t" "parse_fraction (f @ ''Z'') = Some (ms, ''Z'')" "0 \<le> ms" "ms < 1000"
  shows "iso_parse (iso_seconds t @ f @ ''Z'') = Some (t - t mod 1000 + ms)"
proof -
  obtain y m d where c: "date_of_day (t div ms_per_day) = (y, m, d)" by (metis prod_cases3)
  note dd = date_of_day [OF c]
  have y: "0 \<le> y" "y \<le> 9999" using year_from_day_range [OF assms(1)] dd(6) by simp_all
  define r where "r = t mod ms_per_day"
  define h mi sec where "h = r div 3600000" and "mi = r div 60000 mod 60" and "sec = r div 1000 mod 60"
  have r: "0 \<le> r" "r < ms_per_day" unfolding r_def by (simp_all add: ms_per_day_def)
  have b: "0 \<le> h" "h < 24" "0 \<le> mi" "mi < 60" "0 \<le> sec" "sec < 60"
    using r by (auto simp: h_def mi_def sec_def ms_per_day_def)
  have t: "t = ms_per_day * (t div ms_per_day) + r" by (simp add: r_def)
  have hm: "3600000 * h + 60000 * mi + 1000 * sec = r - r mod 1000"
  proof -
    have "r div 60000 = 60 * h + mi" "r div 1000 = 60 * (r div 60000) + sec"
      unfolding h_def mi_def sec_def
      using div_mult2_eq' [of r 60000 60] zdiv_zmult2_eq [of 60 r 60000] zdiv_zmult2_eq [of 60 r 1000]
      by simp_all
    then show ?thesis using minus_mod_eq_mult_div [of r 1000] by simp
  qed
  have rm: "r mod 1000 = t mod 1000" unfolding r_def ms_per_day_def
    by (simp add: mod_mod_cancel)
  have "iso_seconds t @ f @ ''Z'' = digits 4 y @ CHR ''-'' # digits 2 m @ CHR ''-'' # digits 2 d
      @ CHR ''T'' # digits 2 h @ CHR '':'' # digits 2 mi @ CHR '':'' # digits 2 sec @ (f @ ''Z'')"
    using y by (simp add: iso_seconds_def c Let_def iso_year_def r_def h_def mi_def sec_def)
  moreover have "time_fields_ok h mi sec ms" using b by (simp add: time_fields_ok_def)
  moreover have "ms_per_day * day_of_date y m d + make_time h mi sec ms = t - t mod 1000 + ms"
    using t hm rm dd(5) by (simp add: make_time_def)
  moreover have "time_clip (t - t mod 1000 + ms) = Some (t - t mod 1000 + ms)"
  proof -
    have "0 \<le> t mod 1000" "t mod 1000 < 1000" "-62167219200000 \<le> t" "t < 253402300800000"
      using assms(1) by (simp_all add: year_in_range_def)
    then have "\<bar>t - t mod 1000 + ms\<bar> \<le> 8640000000000000" using assms(3,4) by linarith
    then show ?thesis by (simp add: time_clip_def)
  qed
  ultimately show ?thesis
    using dd y b parse_time_digits [OF _ _ _ _ _ _ assms(2), of h mi sec]
    by (simp add: iso_parse_def parse_date_digits parse_zone_def)
qed

text \<open>Writing an instant and parsing it back.\<close>

lemma iso_parse_to_iso: "year_in_range t \<Longrightarrow> iso_parse (to_iso t) = Some t"
  using iso_parse_seconds [of t "''.'' @ digits 3 (t mod 1000)" "t mod 1000"]
    parse_fraction_digits [of "t mod 1000"]
  by (simp add: to_iso_def)

lemma date_parse_to_iso: "year_in_range t \<Longrightarrow> date_parse (to_iso t) = Some t"
  by (simp add: date_parse_def iso_parse_to_iso)

lemma strip_millis_to_iso: "strip_millis (to_iso t) = iso_seconds t @ ''Z''"
proof -
  have "to_iso t = iso_seconds t @ (CHR ''.'' # digits 3 (t mod 1000) @ ''Z'')"
    by (simp add: to_iso_def)
  then show ?thesis
    using digits_all_digit [of 3 "t mod 1000"] by (simp add: strip_millis_def Let_def)
qed

text \<open>\<open>toContractTimestamp\<close>: the ISO text of an instant without its milliseconds.\<close>

definition contract_timestamp :: "int \<Rightarrow> string" where
  "contract_timestamp t = strip_millis (to_iso t)"

lemma date_parse_contract:
  "year_in_range t \<Longrightarrow> date_parse (contract_timestamp t) = Some (t - t mod 1000)"
  using iso_parse_seconds [of t "[]" 0] parse_fraction_Z
  by (simp add: contract_timestamp_def strip_millis_to_iso date_parse_def)

definition to_contract_timestamp :: "string \<Rightarrow> string option" where
  "to_contract_timestamp s = map_option strip_millis (date_to_iso (date_parse s))"

lemma time_clip_SomeD: "time_clip t = Some u \<Longrightarrow> u = t \<and> \<bar>t\<bar> \<le> 8640000000000000"
  by (auto simp: time_clip_def split: if_splits)

lemma parses_clipped:
  "iso_parse s = Some t \<Longrightarrow> \<bar>t\<bar> \<le> 8640000000000000"
  "iso_date_parse s = Some t \<Longrightarrow> \<bar>t\<bar> \<le> 8640000000000000"
  "utc_parse s = Some t \<Longrightarrow> \<bar>t\<bar> \<le> 8640000000000000"
  by (auto simp: iso_parse_def iso_date_parse_def utc_parse_def bind_eq_Some_conv
      split: option.splits if_splits dest!: time_clip_SomeD)

lemma date_parse_clipped: "date_parse s = Some t \<Longrightarrow> time_clip t = Some t"
  using parses_clipped [of s t] parses_clipped(1) [of "map iso_upper s" t]
  by (auto simp: date_parse_def or_opt_def time_clip_def split: option.splits)

lemma to_contract_timestamp_eq:
  "to_contract_timestamp s = map_option contract_timestamp (date_parse s)"
  using date_parse_clipped [of s]
  by (cases "date_parse s") (simp_all add: to_contract_timestamp_def date_to_iso_def contract_timestamp_def)

end
