(* ===== verification/Json.thy ===== *)
theory Json
  imports JsNum JsObject
begin

text \<open>JSON values, for data the sources hold as \<open>unknown\<close> or as a record of unknown values.\<close>

datatype json = J_null | J_bool bool | J_num jsnum | J_str string | J_arr "json list" | J_obj "(string \<times> json) list"

type_synonym json_record = "(string \<times> json) list"

text \<open>\<open>typeof r.k === "string" ? r.k : undefined\<close>, and \<open>Array.isArray(r.k)\<close>.\<close>

definition field_text :: "json_record \<Rightarrow> string \<Rightarrow> string option" where
  "field_text r k = (case map_of r k of Some (J_str s) \<Rightarrow> Some s | _ \<Rightarrow> None)"

definition field_array :: "json_record \<Rightarrow> string \<Rightarrow> json list option" where
  "field_array r k = (case map_of r k of Some (J_arr xs) \<Rightarrow> Some xs | _ \<Rightarrow> None)"

end
