(* ===== verification/RuntimeCore.thy ===== *)
theory RuntimeCore
  imports JsObject JsNum JsDate Json
begin

text \<open>
  The data of the runtime contract (\<open>packages/core-contracts/src\<close>: \<open>types.ts\<close>, \<open>errors.ts\<close>,
  \<open>events.ts\<close>, \<open>rate-limit.ts\<close>, \<open>route-decision.ts\<close>, \<open>identity-profile.ts\<close>, \<open>worktree.ts\<close>,
  \<open>state-ledger.ts\<close>): enumerations as datatypes with the text of each member, interfaces as
  records, and the values code may throw. Provider families and harnesses are strings with a
  membership test, as the code compares them with plain strings. Fields that no modelled
  operation reads or writes (diagnostics, cause chains, excerpts of headers) are left out.
\<close>

section \<open>Failures\<close>

datatype failure_category = Validation | Transport | Protocol | Auth | Billing | Rate_limit
  | Concurrency_limit | Policy_denied | Approval_required | Approval_denied | Timeout | Cancelled
  | Harness_unavailable | Backend_unavailable | Backend_version_mismatch
  | Backend_capability_missing | Sandbox_denied | Malformed_response | State_conflict | Internal

datatype failure_actor = Caller | Provider | Harness | Omnigent | Network | Policy | Unknown_actor

datatype failure_scope = Scope_request | Scope_turn | Scope_session | Scope_identity_profile
  | Scope_provider_family | Scope_worktree | Scope_system

record runtime_failure =
  rf_category :: failure_category
  rf_retryable :: bool
  rf_actor :: failure_actor
  rf_scope :: failure_scope
  rf_message :: string
  rf_retry_after_seconds :: "jsnum option"
  rf_reset_at :: "string option"

definition create_runtime_failure ::
  "failure_actor \<Rightarrow> failure_category \<Rightarrow> string \<Rightarrow> bool \<Rightarrow> failure_scope \<Rightarrow> runtime_failure" where
  "create_runtime_failure actor category message retryable scope =
     \<lparr>rf_category = category, rf_retryable = retryable, rf_actor = actor, rf_scope = scope,
      rf_message = message, rf_retry_after_seconds = None, rf_reset_at = None\<rparr>"

datatype backend_cause = Cause_authentication | Cause_permission | Cause_timeout | Cause_transport
  | Cause_validation | Cause_malformed_response | Cause_unavailable | Cause_capacity

text \<open>What modelled code can throw. \<open>Schema_error\<close> is a rejected \<open>parse\<close> of a schema.\<close>

datatype thrown = Runtime_failure runtime_failure | Type_error string | Range_error string
  | Plain_error string | Schema_error | Leasing_error string | Backend_error backend_cause

section \<open>Session and turn states\<close>

datatype agent_session_state = S_created | S_starting | S_idle | S_turn_active
  | S_blocked_on_approval | S_cancelling | S_closed | S_failed

datatype turn_state = T_accepted | T_queued | T_running | T_blocked_on_tool_approval
  | T_cancelling | T_cancelled | T_timed_out | T_completed | T_failed

definition agent_session_states :: "agent_session_state list" where
  "agent_session_states = [S_created, S_starting, S_idle, S_turn_active, S_blocked_on_approval,
     S_cancelling, S_closed, S_failed]"

definition turn_states :: "turn_state list" where
  "turn_states = [T_accepted, T_queued, T_running, T_blocked_on_tool_approval, T_cancelling,
     T_cancelled, T_timed_out, T_completed, T_failed]"

fun session_state_label :: "agent_session_state \<Rightarrow> string" where
  "session_state_label S_created = ''created''"
| "session_state_label S_starting = ''starting''"
| "session_state_label S_idle = ''idle''"
| "session_state_label S_turn_active = ''turn_active''"
| "session_state_label S_blocked_on_approval = ''blocked_on_approval''"
| "session_state_label S_cancelling = ''cancelling''"
| "session_state_label S_closed = ''closed''"
| "session_state_label S_failed = ''failed''"

fun turn_state_label :: "turn_state \<Rightarrow> string" where
  "turn_state_label T_accepted = ''accepted''"
| "turn_state_label T_queued = ''queued''"
| "turn_state_label T_running = ''running''"
| "turn_state_label T_blocked_on_tool_approval = ''blocked_on_tool_approval''"
| "turn_state_label T_cancelling = ''cancelling''"
| "turn_state_label T_cancelled = ''cancelled''"
| "turn_state_label T_timed_out = ''timed_out''"
| "turn_state_label T_completed = ''completed''"
| "turn_state_label T_failed = ''failed''"

lemma set_agent_session_states: "set agent_session_states = UNIV"
  by (auto simp: agent_session_states_def) (metis agent_session_state.exhaust)

lemma set_turn_states: "set turn_states = UNIV"
  by (auto simp: turn_states_def) (metis turn_state.exhaust)

section \<open>Identifiers\<close>

definition harness_ids :: "string list" where
  "harness_ids = [''claude-code'', ''codex'', ''gemini-antigravity'', ''opencode'', ''pi'', ''custom'']"

definition provider_family_ids :: "string list" where
  "provider_family_ids =
     [''anthropic'', ''openai'', ''google'', ''zai'', ''minimax'', ''local'', ''custom'']"

section \<open>Limit classifications\<close>

datatype limit_type = No_limit | Burst_rate_limit | Token_rate_limit | Concurrency_cap
  | Fixed_window_usage_cap | Monthly_spend_or_quota_cap | Acceleration_limit
  | Overload_or_transient | Auth_or_billing_problem | Abuse_or_policy_block | Unknown_limit

fun limit_type_label :: "limit_type \<Rightarrow> string" where
  "limit_type_label No_limit = ''none''"
| "limit_type_label Burst_rate_limit = ''burst_rate_limit''"
| "limit_type_label Token_rate_limit = ''token_rate_limit''"
| "limit_type_label Concurrency_cap = ''concurrency_limit''"
| "limit_type_label Fixed_window_usage_cap = ''fixed_window_usage_cap''"
| "limit_type_label Monthly_spend_or_quota_cap = ''monthly_spend_or_quota_cap''"
| "limit_type_label Acceleration_limit = ''acceleration_limit''"
| "limit_type_label Overload_or_transient = ''overload_or_transient''"
| "limit_type_label Auth_or_billing_problem = ''auth_or_billing_problem''"
| "limit_type_label Abuse_or_policy_block = ''abuse_or_policy_block''"
| "limit_type_label Unknown_limit = ''unknown_limit''"

lemma limit_type_label_inject [simp]: "limit_type_label a = limit_type_label b \<longleftrightarrow> a = b"
  by (cases a; cases b; simp)

datatype limit_scope = L_session | L_identity_profile | L_provider_family | L_model | L_project
  | L_organization | L_global | L_unknown

datatype account_switch = Switch_forbidden | Switch_manual_confirmation_required
  | Switch_allowed_by_policy

record routing_action =
  ra_retry_same_session :: bool
  ra_reduce_concurrency :: bool
  ra_route_new_work_elsewhere :: bool
  ra_migrate_existing_portable_work :: bool
  ra_require_manual_review :: bool
  ra_same_provider_account_switch :: account_switch

record raw_signal =
  rs_status_code :: "int option"
  rs_exit_code :: "int option"
  rs_stderr_excerpt :: "string option"
  rs_stdout_excerpt :: "string option"
  rs_headers :: "string obj option"

record limit_classification =
  lc_type :: limit_type
  lc_scope :: limit_scope
  lc_confidence :: rat
  lc_provider :: "string option"
  lc_harness :: "string option"
  lc_identity_profile_id :: "string option"
  lc_session_id :: "string option"
  lc_retry_after_seconds :: "jsnum option"
  lc_reset_at :: "string option"
  lc_raw_signal :: raw_signal
  lc_routing_action :: routing_action
  lc_notes :: "string list option"

section \<open>Runtime events\<close>

datatype session_closed_reason = Closed_logical | Closed_deleted | Closed_failed

record tool_call =
  tc_tool_call_id :: string
  tc_session_id :: string
  tc_turn_id :: string
  tc_tool_name :: string
  tc_arguments :: "json option"
  tc_approval_required :: bool

text \<open>The payload decides the type of an event; payload fields no operation reads are left out.\<close>

datatype event_payload =
    Session_created agent_session_state string
  | Turn_started string turn_state
  | Text_delta string
  | Tool_call tool_call
  | Tool_result string "json option"
  | Approval_request string
  | Limit_event limit_classification
  | Turn_completed "string option"
  | Turn_failed runtime_failure
  | Turn_cancelled "string option"
  | Turn_timed_out "int option"
  | Session_closed session_closed_reason
  | Heartbeat int

record runtime_event =
  ev_event_id :: string
  ev_sequence :: int
  ev_session_id :: string
  ev_turn_id :: "string option"
  ev_occurred_at :: string
  ev_payload :: event_payload
  ev_terminal :: bool

section \<open>Identities and cooldowns\<close>

record cooldown_state =
  cd_active :: bool
  cd_reason :: string
  cd_reset_at :: "string option"

record identity_profile =
  ip_id :: string
  ip_provider :: string
  ip_harness :: string
  ip_max_open_sessions :: jsnum
  ip_max_active_turns :: jsnum
  ip_provider_family_cooldown :: "cooldown_state option"
  ip_identity_cooldown :: "cooldown_state option"

datatype identity_status_value = Id_ready | Id_cooldown | Id_degraded | Id_blocked

record identity_profile_status =
  is_profile_id :: string
  is_provider :: string
  is_harness :: string
  is_status :: identity_status_value
  is_active_sessions :: jsnum
  is_active_turns :: jsnum
  is_reason :: "string option"
  is_cooldown :: "cooldown_state option"

datatype cooldown_source = From_limit_classification | From_manual | From_transport_failure | From_replay

record provider_family_cooldown =
  pc_provider :: string
  pc_active :: bool
  pc_reason :: string
  pc_observed_at :: string
  pc_reset_at :: "string option"
  pc_source :: cooldown_source

section \<open>Evidence and route decisions\<close>

record evidence_ref =
  er_kind :: string
  er_label :: string
  er_path :: "string option"
  er_excerpt :: "string option"

datatype launch_gate_action = Gate_allowed | Gate_wait_for_reset
  | Gate_manual_confirmation_required | Gate_blocked

record preferred_target =
  pt_provider :: "string option"
  pt_harness :: "string option"
  pt_identity_profile_id :: "string option"

record decision_cooldown =
  dc_provider_family_blocked :: bool
  dc_identity_blocked :: bool
  dc_reason :: "string option"
  dc_reset_at :: "string option"
  dc_same_provider_account_switch :: account_switch

record launch_gate =
  lg_action :: launch_gate_action
  lg_reason :: string
  lg_route_decision_persisted :: bool
  lg_labels_match :: bool
  lg_manual_confirmation_provided :: bool

datatype arbitration_status = Arb_not_requested | Arb_acquired | Arb_soft_conflict
  | Arb_blocked_hard_conflict | Arb_expired_reclaimed | Arb_coordination_unavailable

datatype lease_mode = Soft | Hard

datatype granularity = G_repo | G_path_set | G_symbol

record lease_scope =
  sc_granularity :: granularity
  sc_selector :: "string list"

record lease_arbitration =
  la_status :: arbitration_status
  la_mode :: lease_mode
  la_lease_id :: "string option"
  la_conflict_lease_id :: "string option"
  la_holder :: "string option"
  la_scope :: lease_scope

datatype portability_level = Port_low | Port_medium | Port_high

datatype route_reason = Explicit_override | Capability_fit | Load_balance | Provider_cooldown
  | Usage_cap | Transient_failure | Manual_route

record route_decision =
  rd_task_id :: string
  rd_selected_provider :: string
  rd_selected_harness :: string
  rd_selected_identity_profile_id :: "string option"
  rd_preferred_provider :: "string option"
  rd_preferred_harness :: "string option"
  rd_fallback_used :: bool
  rd_fallback_reason :: "string option"
  rd_capability_fit :: rat
  rd_provider_health :: jsnum
  rd_current_capacity :: rat
  rd_preferred_target :: "preferred_target option"
  rd_context_portability :: portability_level
  rd_portability_score :: "rat option"
  rd_active_turn_target :: "int option"
  rd_cooldown_state :: "decision_cooldown option"
  rd_launch_gate :: "launch_gate option"
  rd_lease_arbitration :: "lease_arbitration option"
  rd_route_reason :: route_reason
  rd_evidence_refs :: "evidence_ref list option"

section \<open>Worktree leases\<close>

datatype worktree_mode = Exclusive_write | Read_only | Sequential_continue

datatype dirty_state = Clean | Dirty | Dirty_unknown

record worktree_lease_request =
  wr_repo_id :: string
  wr_repo_root :: "string option"
  wr_base_ref :: "string option"
  wr_branch_name :: string
  wr_task_id :: string
  wr_mode :: worktree_mode
  wr_allow_reuse_existing :: "bool option"
  wr_requested_ttl_seconds :: "jsnum option"

record lease_holder =
  lh_process_id :: int
  lh_host :: string
  lh_session_id :: "string option"
  lh_turn_id :: "string option"

datatype release_cause = Holder_release | Reconciliation | Recovery

record worktree_lease_release =
  wl_cause :: release_cause
  wl_actor :: string
  wl_released_at :: string

record worktree_lease =
  wl_id :: string
  wl_fencing_token :: string
  wl_repo_id :: string
  wl_path :: string
  wl_branch_name :: string
  wl_mode :: worktree_mode
  wl_holder :: lease_holder
  wl_acquired_at :: string
  wl_renewed_at :: string
  wl_expires_at :: string
  wl_dirty_state :: dirty_state
  wl_release :: "worktree_lease_release option"

end
