(* ===== verification/StateMachines.thy ===== *)
theory StateMachines
  imports RuntimeCore
begin

text \<open>
  \<open>packages/core-contracts/src/state-machines.ts\<close>: the transition tables of sessions and turns,
  the checked transitions, the reduction of an event list to a turn state and the check for
  several terminal events. The tables are also read as step relations; the reduction is shown
  to stay on paths of the turn table, except where the code jumps to a terminal state on the
  word of an event.
\<close>

section \<open>The tables\<close>

fun session_transition_table :: "agent_session_state \<Rightarrow> agent_session_state list" where
  "session_transition_table S_created = [S_starting, S_failed]"
| "session_transition_table S_starting = [S_idle, S_failed]"
| "session_transition_table S_idle = [S_turn_active, S_cancelling, S_closed, S_failed]"
| "session_transition_table S_turn_active = [S_blocked_on_approval, S_cancelling, S_idle, S_failed]"
| "session_transition_table S_blocked_on_approval = [S_turn_active, S_cancelling, S_idle, S_failed]"
| "session_transition_table S_cancelling = [S_idle, S_closed, S_failed]"
| "session_transition_table S_closed = []"
| "session_transition_table S_failed = []"

fun turn_transition_table :: "turn_state \<Rightarrow> turn_state list" where
  "turn_transition_table T_accepted = [T_queued, T_running, T_failed, T_cancelled]"
| "turn_transition_table T_queued = [T_running, T_cancelling, T_timed_out, T_failed, T_cancelled]"
| "turn_transition_table T_running =
     [T_blocked_on_tool_approval, T_cancelling, T_completed, T_timed_out, T_failed]"
| "turn_transition_table T_blocked_on_tool_approval = [T_running, T_cancelling, T_timed_out, T_failed]"
| "turn_transition_table T_cancelling = [T_cancelled, T_failed]"
| "turn_transition_table T_cancelled = []"
| "turn_transition_table T_timed_out = []"
| "turn_transition_table T_completed = []"
| "turn_transition_table T_failed = []"

definition can_transition_session :: "agent_session_state \<Rightarrow> agent_session_state \<Rightarrow> bool" where
  "can_transition_session from to \<longleftrightarrow> to \<in> set (session_transition_table from)"

definition can_transition_turn :: "turn_state \<Rightarrow> turn_state \<Rightarrow> bool" where
  "can_transition_turn from to \<longleftrightarrow> to \<in> set (turn_transition_table from)"

definition assert_session_transition ::
  "agent_session_state \<Rightarrow> agent_session_state \<Rightarrow> (thrown, unit) result" where
  "assert_session_transition from to =
     ensure (can_transition_session from to)
       (Runtime_failure (create_runtime_failure Provider State_conflict
          (''Invalid session transition '' @ session_state_label from @ '' -> ''
             @ session_state_label to @ ''.'') False Scope_session))"

definition assert_turn_transition :: "turn_state \<Rightarrow> turn_state \<Rightarrow> (thrown, unit) result" where
  "assert_turn_transition from to =
     ensure (can_transition_turn from to)
       (Runtime_failure (create_runtime_failure Provider State_conflict
          (''Invalid turn transition '' @ turn_state_label from @ '' -> ''
             @ turn_state_label to @ ''.'') False Scope_turn))"

definition apply_session_transition ::
  "agent_session_state \<Rightarrow> agent_session_state \<Rightarrow> (thrown, agent_session_state) result" where
  "apply_session_transition from to = bindr (assert_session_transition from to) (\<lambda>_. Inr to)"

definition apply_turn_transition :: "turn_state \<Rightarrow> turn_state \<Rightarrow> (thrown, turn_state) result" where
  "apply_turn_transition from to = bindr (assert_turn_transition from to) (\<lambda>_. Inr to)"

section \<open>Reducing events\<close>

text \<open>The body of the loop: the new state, or a \<open>return\<close> of the whole function.\<close>

datatype loop_step = Continue turn_state | Return turn_state

definition reduce_step :: "turn_state \<Rightarrow> event_payload \<Rightarrow> (thrown, loop_step) result" where
  "reduce_step state ev = (case ev of
       Turn_started _ _ \<Rightarrow>
         if state = T_accepted \<or> state = T_queued
         then bindr (apply_turn_transition state T_running) (\<lambda>s. Inr (Continue s))
         else Inr (Continue state)
     | Approval_request _ \<Rightarrow>
         if state = T_running
         then bindr (apply_turn_transition state T_blocked_on_tool_approval) (\<lambda>s. Inr (Continue s))
         else Inr (Continue state)
     | Turn_completed _ \<Rightarrow> Inr (Return T_completed)
     | Turn_failed _ \<Rightarrow> Inr (Return T_failed)
     | Turn_cancelled _ \<Rightarrow>
         bindr (if state = T_running \<or> state = T_blocked_on_tool_approval
                then apply_turn_transition state T_cancelling else Inr state)
           (\<lambda>s. if s = T_cancelling
                then bindr (apply_turn_transition s T_cancelled) (\<lambda>s'. Inr (Return s'))
                else Inr (Return T_cancelled))
     | Turn_timed_out _ \<Rightarrow> Inr (Return T_timed_out)
     | _ \<Rightarrow> Inr (Continue state))"

fun reduce_events :: "turn_state \<Rightarrow> event_payload list \<Rightarrow> (thrown, turn_state) result" where
  "reduce_events state [] = Inr state"
| "reduce_events state (ev # evs) = bindr (reduce_step state ev) (\<lambda>r. case r of
       Return s \<Rightarrow> Inr s
     | Continue s \<Rightarrow> reduce_events s evs)"

definition reduce_turn_state :: "runtime_event list \<Rightarrow> (thrown, turn_state) result" where
  "reduce_turn_state events = reduce_events T_accepted (map ev_payload events)"

fun terminal_payload :: "event_payload \<Rightarrow> bool" where
  "terminal_payload (Turn_completed _) = True"
| "terminal_payload (Turn_failed _) = True"
| "terminal_payload (Turn_cancelled _) = True"
| "terminal_payload (Turn_timed_out _) = True"
| "terminal_payload _ = False"

definition require_single_terminal_event :: "runtime_event list \<Rightarrow> runtime_failure option" where
  "require_single_terminal_event events =
     (if length (filter (\<lambda>e. terminal_payload (ev_payload e)) events) \<le> 1 then None
      else Some (create_runtime_failure Provider Protocol
             ''Multiple normalized terminal turn events were emitted.'' False Scope_turn))"

section \<open>The tables as step relations\<close>

inductive session_step :: "agent_session_state \<Rightarrow> agent_session_state \<Rightarrow> bool" where
  "apply_session_transition from to = Inr s \<Longrightarrow> session_step from s"

inductive turn_step :: "turn_state \<Rightarrow> turn_state \<Rightarrow> bool" where
  "apply_turn_transition from to = Inr s \<Longrightarrow> turn_step from s"

lemma apply_session_transition_Inr [simp]:
  "apply_session_transition from to = Inr s \<longleftrightarrow> s = to \<and> can_transition_session from to"
  by (auto simp: apply_session_transition_def assert_session_transition_def res_simps)

lemma apply_turn_transition_Inr [simp]:
  "apply_turn_transition from to = Inr s \<longleftrightarrow> s = to \<and> can_transition_turn from to"
  by (auto simp: apply_turn_transition_def assert_turn_transition_def res_simps)

lemma apply_turn_transition_ok:
  "can_transition_turn from to \<Longrightarrow> apply_turn_transition from to = Inr to"
  by simp

lemma session_step_iff: "session_step s t \<longleftrightarrow> can_transition_session s t"
  by (auto simp: session_step.simps)

lemma turn_step_iff: "turn_step s t \<longleftrightarrow> can_transition_turn s t"
  by (auto simp: turn_step.simps)

definition session_terminal :: "agent_session_state \<Rightarrow> bool" where
  "session_terminal s \<longleftrightarrow> s = S_closed \<or> s = S_failed"

definition turn_terminal :: "turn_state \<Rightarrow> bool" where
  "turn_terminal s \<longleftrightarrow> s \<in> {T_cancelled, T_timed_out, T_completed, T_failed}"

lemmas session_table_simps = can_transition_session_def session_terminal_def
lemmas turn_table_simps = can_transition_turn_def turn_terminal_def

text \<open>
  Both machines share a contract: the terminal states are exactly the stuck ones, every state is
  reached from the start state, and a terminal state is in reach from everywhere.
\<close>

locale lifecycle =
  fixes step :: "'s \<Rightarrow> 's \<Rightarrow> bool"
    and init :: 's
    and terminal :: "'s \<Rightarrow> bool"
    and rank :: "'s \<Rightarrow> nat"
  assumes terminal_iff_stuck: "terminal s \<longleftrightarrow> (\<forall>t. \<not> step s t)"
    and all_reachable: "step\<^sup>*\<^sup>* init s"
    and rank_down: "\<not> terminal s \<Longrightarrow> \<exists>t. step s t \<and> rank t < rank s"
begin

lemma terminal_absorbing:
  assumes "step\<^sup>*\<^sup>* s t" "terminal s"
  shows "t = s"
  using assms(1,2)
proof (induction rule: converse_rtranclp_induct)
  case base
  then show ?case by simp
next
  case (step y z)
  then show ?case using terminal_iff_stuck by blast
qed

lemma terminal_in_reach: "\<exists>t. step\<^sup>*\<^sup>* s t \<and> terminal t"
proof (induction "rank s" arbitrary: s rule: less_induct)
  case less
  show ?case
  proof (cases "terminal s")
    case True
    then show ?thesis by blast
  next
    case False
    then obtain t where "step s t" "rank t < rank s" using rank_down by blast
    with less show ?thesis by (meson converse_rtranclp_into_rtranclp)
  qed
qed

end

fun session_rank :: "agent_session_state \<Rightarrow> nat" where
  "session_rank S_closed = 0"
| "session_rank S_failed = 0"
| "session_rank _ = 1"

fun turn_rank :: "turn_state \<Rightarrow> nat" where
  "turn_rank s = (if turn_terminal s then 0 else 1)"

lemma session_all_reachable: "session_step\<^sup>*\<^sup>* S_created s"
proof -
  note into = rtranclp.rtrancl_into_rtrancl [of session_step S_created]
  have "session_step\<^sup>*\<^sup>* S_created S_starting"
    by (rule r_into_rtranclp) (simp add: session_step_iff can_transition_session_def)
  then have i: "session_step\<^sup>*\<^sup>* S_created S_idle"
    by (rule into) (simp add: session_step_iff can_transition_session_def)
  then have a: "session_step\<^sup>*\<^sup>* S_created S_turn_active"
    by (rule into) (simp add: session_step_iff can_transition_session_def)
  show ?thesis
    by (cases s) (auto simp: session_step_iff can_transition_session_def
        intro: into [OF i] into [OF a] r_into_rtranclp)
qed

lemma turn_all_reachable: "turn_step\<^sup>*\<^sup>* T_accepted s"
proof -
  note into = rtranclp.rtrancl_into_rtrancl [of turn_step T_accepted]
  have r: "turn_step\<^sup>*\<^sup>* T_accepted T_running"
    by (rule r_into_rtranclp) (simp add: turn_step_iff can_transition_turn_def)
  show ?thesis
    by (cases s) (auto simp: turn_step_iff can_transition_turn_def
        intro: into [OF r] r_into_rtranclp)
qed

interpretation session: lifecycle session_step S_created session_terminal session_rank
proof
  fix s
  show "session_terminal s \<longleftrightarrow> (\<forall>t. \<not> session_step s t)"
    by (cases s) (auto simp: session_step_iff session_table_simps)
  show "session_step\<^sup>*\<^sup>* S_created s" by (rule session_all_reachable)
  show "\<exists>t. session_step s t \<and> session_rank t < session_rank s" if "\<not> session_terminal s"
    using that by (cases s)
      (auto simp: session_step_iff session_table_simps intro!: exI [of _ S_failed])
qed

interpretation turn: lifecycle turn_step T_accepted turn_terminal turn_rank
proof
  fix s
  show "turn_terminal s \<longleftrightarrow> (\<forall>t. \<not> turn_step s t)"
    by (cases s) (auto simp: turn_step_iff turn_table_simps)
  show "turn_step\<^sup>*\<^sup>* T_accepted s" by (rule turn_all_reachable)
  show "\<exists>t. turn_step s t \<and> turn_rank t < turn_rank s" if "\<not> turn_terminal s"
    using that by (cases s)
      (auto simp: turn_step_iff turn_table_simps intro!: exI [of _ T_failed])
qed

section \<open>Facts of the reduction\<close>

text \<open>The guards before each checked transition make every one of them legal.\<close>

lemma reduce_step_total: "\<exists>r. reduce_step s e = Inr r"
  by (cases e) (auto simp: reduce_step_def apply_turn_transition_ok can_transition_turn_def)

lemma reduce_step_Continue:
  "reduce_step s e = Inr (Continue t) \<Longrightarrow> \<not> terminal_payload e \<and> (t = s \<or> turn_step s t)"
  by (cases e) (auto simp: reduce_step_def res_simps turn_step_iff split: if_splits)

lemma reduce_step_nonterminal:
  "\<not> terminal_payload e \<Longrightarrow> \<exists>t. reduce_step s e = Inr (Continue t)"
  by (cases e) (auto simp: reduce_step_def apply_turn_transition_ok can_transition_turn_def)

text \<open>The state a terminal event names.\<close>

fun terminal_state_of :: "event_payload \<Rightarrow> turn_state" where
  "terminal_state_of (Turn_completed _) = T_completed"
| "terminal_state_of (Turn_failed _) = T_failed"
| "terminal_state_of (Turn_cancelled _) = T_cancelled"
| "terminal_state_of (Turn_timed_out _) = T_timed_out"
| "terminal_state_of _ = T_accepted"

lemma reduce_step_terminal:
  "terminal_payload e \<Longrightarrow> reduce_step s e = Inr (Return (terminal_state_of e))"
  by (cases e) (auto simp: reduce_step_def apply_turn_transition_ok can_transition_turn_def)

lemma reduce_events_no_terminal:
  "list_all (\<lambda>e. \<not> terminal_payload e) es \<Longrightarrow> reduce_events s es = Inr t \<Longrightarrow> turn_step\<^sup>*\<^sup>* s t"
proof (induction es arbitrary: s)
  case Nil
  then show ?case by simp
next
  case (Cons e es)
  then obtain u where u: "reduce_step s e = Inr (Continue u)" using reduce_step_nonterminal by fastforce
  with Cons have "turn_step\<^sup>*\<^sup>* u t" by simp
  with reduce_step_Continue [OF u] show ?case by (auto intro: converse_rtranclp_into_rtranclp)
qed

lemma reduce_events_terminal:
  "list_all (\<lambda>e. \<not> terminal_payload e) es \<Longrightarrow> terminal_payload e \<Longrightarrow>
   reduce_events s (es @ e # rest) = Inr (terminal_state_of e)"
proof (induction es arbitrary: s)
  case Nil
  then show ?case by (simp add: reduce_step_terminal)
next
  case (Cons e' es)
  then obtain u where "reduce_step s e' = Inr (Continue u)" using reduce_step_nonterminal by fastforce
  with Cons show ?case by simp
qed

section \<open>Properties\<close>

text \<open>Without a terminal event only two kinds of events count: the first start, and a request of an
  approval after it.\<close>

fun starts_turn :: "event_payload \<Rightarrow> bool" where
  "starts_turn (Turn_started _ _) = True"
| "starts_turn _ = False"

fun requests_approval :: "event_payload \<Rightarrow> bool" where
  "requests_approval (Approval_request _) = True"
| "requests_approval _ = False"

definition open_turn_state_of :: "event_payload list \<Rightarrow> turn_state" where
  "open_turn_state_of es = (case dropWhile (\<lambda>e. \<not> starts_turn e) es of
       [] \<Rightarrow> T_accepted
     | _ # later \<Rightarrow> if list_ex requests_approval later then T_blocked_on_tool_approval else T_running)"

lemma reduce_blocked:
  "list_all (\<lambda>e. \<not> terminal_payload e) es \<Longrightarrow> reduce_events T_blocked_on_tool_approval es = Inr T_blocked_on_tool_approval"
proof (induction es)
  case (Cons e es)
  then show ?case by (cases e) (auto simp: reduce_step_def)
qed simp

lemma reduce_running:
  "list_all (\<lambda>e. \<not> terminal_payload e) es \<Longrightarrow> reduce_events T_running es =
     Inr (if list_ex requests_approval es then T_blocked_on_tool_approval else T_running)"
proof (induction es)
  case (Cons e es)
  then show ?case
    using reduce_blocked [of es] by (cases e) (auto simp: reduce_step_def apply_turn_transition_ok can_transition_turn_def)
qed simp

lemma reduce_accepted:
  "list_all (\<lambda>e. \<not> terminal_payload e) es \<Longrightarrow> reduce_events T_accepted es = Inr (open_turn_state_of es)"
proof (induction es)
  case (Cons e es)
  then show ?case
    using reduce_running [of es]
    by (cases e) (auto simp: open_turn_state_of_def reduce_step_def apply_turn_transition_ok can_transition_turn_def)
qed (simp add: open_turn_state_of_def)

text \<open>C21: The reduction of the events of a turn never throws. The first terminal event decides the state,
  whatever comes before or after it. Without one the turn is accepted until its first start, then running,
  and blocked from the first request of an approval after that start on; nothing else changes the state,
  and the state is reached by steps of the transition table.\<close>

theorem reduce_turn_state_exact:
  "case List.find (\<lambda>e. terminal_payload (ev_payload e)) events of
     Some e \<Rightarrow> reduce_turn_state events = Inr (terminal_state_of (ev_payload e))
   | None \<Rightarrow> reduce_turn_state events = Inr (open_turn_state_of (map ev_payload events))
       \<and> turn_step\<^sup>*\<^sup>* T_accepted (open_turn_state_of (map ev_payload events))"
proof (cases "List.find (\<lambda>e. terminal_payload (ev_payload e)) events")
  case None
  then have n: "list_all (\<lambda>e. \<not> terminal_payload e) (map ev_payload events)"
    by (simp add: find_None_iff list_all_iff)
  note t = reduce_accepted [OF n]
  with None show ?thesis
    using reduce_events_no_terminal [OF n t] by (simp add: reduce_turn_state_def)
next
  case (Some e)
  then obtain i where i: "i < length events" "e = events ! i" "terminal_payload (ev_payload e)"
    "\<forall>j<i. \<not> terminal_payload (ev_payload (events ! j))"
    by (auto simp: find_Some_iff)
  let ?p = "map ev_payload events"
  have "list_all (\<lambda>e. \<not> terminal_payload e) (take i ?p)"
    using i by (auto simp: list_all_length)
  moreover have "?p = take i ?p @ ev_payload e # drop (Suc i) ?p"
    using i id_take_nth_drop [of i ?p] by simp
  ultimately have "reduce_events T_accepted ?p = Inr (terminal_state_of (ev_payload e))"
    using reduce_events_terminal [OF _ i(3)] by metis
  with Some show ?thesis by (simp add: reduce_turn_state_def)
qed

text \<open>C38: the life cycles: a session or turn can be moved on exactly when its state is not terminal;
  a refused move throws a state conflict; every state is reached from the first one; and from
  every state a terminal one can still be reached, never left again.\<close>

theorem lifecycles_sound:
  "(session_terminal s \<longleftrightarrow> (\<forall>t. \<exists>f. apply_session_transition s t = Inl (Runtime_failure f) \<and> rf_category f = State_conflict))
   \<and> (turn_terminal u \<longleftrightarrow> (\<forall>t. \<exists>f. apply_turn_transition u t = Inl (Runtime_failure f) \<and> rf_category f = State_conflict))
   \<and> (session_step\<^sup>*\<^sup>* S_created s \<and> (\<exists>t. session_step\<^sup>*\<^sup>* s t \<and> session_terminal t \<and> {v. session_step\<^sup>*\<^sup>* t v} = {t}))
   \<and> (turn_step\<^sup>*\<^sup>* T_accepted u \<and> (\<exists>t. turn_step\<^sup>*\<^sup>* u t \<and> turn_terminal t \<and> {v. turn_step\<^sup>*\<^sup>* t v} = {t}))"
proof -
  have a: "(\<exists>f. apply_session_transition s t = Inl (Runtime_failure f) \<and> rf_category f = State_conflict)
      \<longleftrightarrow> \<not> session_step s t" for t
    by (auto simp: session_step_iff apply_session_transition_def assert_session_transition_def
        create_runtime_failure_def res_simps)
  have 1: "session_terminal s \<longleftrightarrow> (\<forall>t. \<exists>f. apply_session_transition s t = Inl (Runtime_failure f) \<and> rf_category f = State_conflict)"
    by (simp add: a session.terminal_iff_stuck)
  have b: "(\<exists>f. apply_turn_transition u t = Inl (Runtime_failure f) \<and> rf_category f = State_conflict)
      \<longleftrightarrow> \<not> turn_step u t" for t
    by (auto simp: turn_step_iff apply_turn_transition_def assert_turn_transition_def
        create_runtime_failure_def res_simps)
  have 2: "turn_terminal u \<longleftrightarrow> (\<forall>t. \<exists>f. apply_turn_transition u t = Inl (Runtime_failure f) \<and> rf_category f = State_conflict)"
    by (simp add: b turn.terminal_iff_stuck)
  have 3: "session_step\<^sup>*\<^sup>* S_created s \<and> (\<exists>t. session_step\<^sup>*\<^sup>* s t \<and> session_terminal t \<and> {v. session_step\<^sup>*\<^sup>* t v} = {t})"
    using session.all_reachable session.terminal_in_reach [of s] session.terminal_absorbing by blast
  have 4: "turn_step\<^sup>*\<^sup>* T_accepted u \<and> (\<exists>t. turn_step\<^sup>*\<^sup>* u t \<and> turn_terminal t \<and> {v. turn_step\<^sup>*\<^sup>* t v} = {t})"
    using turn.all_reachable turn.terminal_in_reach [of u] turn.terminal_absorbing by blast
  show ?thesis by (rule conjI [OF 1 conjI [OF 2 conjI [OF 3 4]]])
qed

end
