(* ===== verification/LeaseScope.thy ===== *)
theory LeaseScope
  imports RuntimeCore
begin

text \<open>
  The lease contract (\<open>packages/core-contracts/src/coordination-contract.ts\<close>) and the scopes of a
  lease (\<open>packages/worktree-leasing/src/lease-store.ts\<close>): the schema of a lease, normalisation of
  selectors, the overlap of scopes, expiry, and the making of a lease from a request.

  A schema is a predicate on the parsed value; \<open>parse\<close> of a value that fails it throws
  \<open>Schema_error\<close>.
\<close>

section \<open>The lease and its schema\<close>

record consiliency_lease =
  cl_lease_id :: string
  cl_holder :: string
  cl_acquired_at :: string
  cl_ttl_seconds :: int
  cl_heartbeat_at :: string
  cl_mode :: lease_mode
  cl_scope :: lease_scope
  cl_phase :: string

definition char_between :: "char \<Rightarrow> char \<Rightarrow> char \<Rightarrow> bool" where
  "char_between lo hi c \<longleftrightarrow> lo \<le> c \<and> c \<le> hi"

definition is_lower_alnum :: "char \<Rightarrow> bool" where
  "is_lower_alnum c \<longleftrightarrow> char_between CHR ''a'' CHR ''z'' c \<or> is_digit c"

definition is_letter :: "char \<Rightarrow> bool" where
  "is_letter c \<longleftrightarrow> char_between CHR ''a'' CHR ''z'' c \<or> char_between CHR ''A'' CHR ''Z'' c"

text \<open>\<open>/^[a-z0-9][a-z0-9_.:-]*$/\<close>\<close>

definition lease_id_text :: "string \<Rightarrow> bool" where
  "lease_id_text s = (case s of [] \<Rightarrow> False
     | c # r \<Rightarrow> is_lower_alnum c \<and> list_all (\<lambda>d. is_lower_alnum d \<or> d \<in> set ''_.:-'') r)"

text \<open>\<open>/^[0-9]{4}-[0-9]{2}-[0-9]{2}T[0-9]{2}:[0-9]{2}:[0-9]{2}Z$/\<close>\<close>

definition iso_seconds_text :: "string \<Rightarrow> bool" where
  "iso_seconds_text s \<longleftrightarrow> length s = 20 \<and> list_all2 (\<lambda>p c. if p = CHR ''d'' then is_digit c else c = p)
     ''dddd-dd-ddTdd:dd:ddZ'' s"

fun split_on :: "char \<Rightarrow> string \<Rightarrow> string list" where
  "split_on c [] = [[]]"
| "split_on c (d # s) = (if d = c then [] # split_on c s
     else case split_on c s of [] \<Rightarrow> [[d]] | w # ws \<Rightarrow> (d # w) # ws)"

text \<open>The three refinements of a selector: not absolute, no parent segment, no drive letter.\<close>

definition selector_text :: "string \<Rightarrow> bool" where
  "selector_text s \<longleftrightarrow> s \<noteq> [] \<and> \<not> starts_with ''/'' s \<and> ''..'' \<notin> set (split_on CHR ''/'' s)
     \<and> \<not> (case s of a # b # c # _ \<Rightarrow> is_letter a \<and> b = CHR '':'' \<and> c \<in> {CHR ''/'', CHR 0x5C} | _ \<Rightarrow> False)"

definition lease_scope_ok :: "lease_scope \<Rightarrow> bool" where
  "lease_scope_ok sc \<longleftrightarrow> sc_selector sc \<noteq> [] \<and> list_all selector_text (sc_selector sc)"

definition consiliency_lease_ok :: "consiliency_lease \<Rightarrow> bool" where
  "consiliency_lease_ok l \<longleftrightarrow> lease_id_text (cl_lease_id l) \<and> cl_holder l \<noteq> []
     \<and> iso_seconds_text (cl_acquired_at l) \<and> 1 \<le> cl_ttl_seconds l \<and> cl_ttl_seconds l \<le> 7200
     \<and> iso_seconds_text (cl_heartbeat_at l) \<and> lease_scope_ok (cl_scope l) \<and> cl_phase l \<noteq> []"

definition parse_lease :: "consiliency_lease \<Rightarrow> (thrown, consiliency_lease) result" where
  "parse_lease l = (if consiliency_lease_ok l then Inr l else Inl Schema_error)"

text \<open>\<open>z.number().int().min(lo).max(hi)\<close>\<close>

definition int_in_range :: "int \<Rightarrow> int \<Rightarrow> jsnum \<Rightarrow> int option" where
  "int_in_range lo hi x = (case x of
       Fin q \<Rightarrow> if q = of_int \<lfloor>q\<rfloor> \<and> lo \<le> \<lfloor>q\<rfloor> \<and> \<lfloor>q\<rfloor> \<le> hi then Some \<lfloor>q\<rfloor> else None
     | _ \<Rightarrow> None)"

section \<open>Expiry\<close>

definition expires_at_for_lease :: "consiliency_lease \<Rightarrow> (thrown, string) result" where
  "expires_at_for_lease l =
     (case date_to_iso (map_option (\<lambda>t. t + cl_ttl_seconds l * 1000) (date_parse (cl_heartbeat_at l))) of
        None \<Rightarrow> Inl (Range_error ''Invalid time value'')
      | Some s \<Rightarrow> Inr s)"

definition is_lease_expired :: "consiliency_lease \<Rightarrow> string \<Rightarrow> (thrown, bool) result" where
  "is_lease_expired l now = bindr (expires_at_for_lease l) (\<lambda>e.
     Inr (case (date_parse now, date_parse e) of
            (Some n, Some x) \<Rightarrow> n \<ge> x
          | _ \<Rightarrow> False))"

section \<open>Scopes\<close>

definition strip_trailing_slashes :: "string \<Rightarrow> string" where
  "strip_trailing_slashes s = rev (dropWhile (\<lambda>c. c = CHR ''/'') (rev s))"

definition normalize_selector :: "string list \<Rightarrow> string list" where
  "normalize_selector sel = sort (filter (\<lambda>e. e \<noteq> []) (uniq (map strip_trailing_slashes sel)))"

definition normalize_lease_scope :: "lease_scope \<Rightarrow> lease_scope" where
  "normalize_lease_scope sc =
     \<lparr>sc_granularity = sc_granularity sc, sc_selector = normalize_selector (sc_selector sc)\<rparr>"

definition path_overlaps :: "string \<Rightarrow> string \<Rightarrow> bool" where
  "path_overlaps left right \<longleftrightarrow> left = right \<or> starts_with (right @ ''/'') left \<or> starts_with (left @ ''/'') right"

definition lease_scopes_overlap :: "lease_scope \<Rightarrow> lease_scope \<Rightarrow> bool" where
  "lease_scopes_overlap left right =
     (let l = normalize_lease_scope left; r = normalize_lease_scope right in
      if sc_granularity l = G_repo \<or> sc_granularity r = G_repo then True
      else if sc_granularity l \<noteq> sc_granularity r then False
      else if sc_granularity l = G_symbol
        then list_ex (\<lambda>s. s \<in> set (sc_selector r)) (sc_selector l)
      else list_ex (\<lambda>s. list_ex (\<lambda>t. path_overlaps s t) (sc_selector r)) (sc_selector l))"

section \<open>Making a lease\<close>

record lease_acquire_request =
  aq_lease_id :: "string option"
  aq_holder :: string
  aq_ttl_seconds :: jsnum
  aq_mode :: lease_mode
  aq_scope :: lease_scope
  aq_phase :: string
  aq_now :: "string option"

text \<open>\<open>toContractTimestamp\<close> throws on an invalid date.\<close>

definition contract_now :: "string \<Rightarrow> (thrown, string) result" where
  "contract_now s = (case to_contract_timestamp s of
       None \<Rightarrow> Inl (Range_error ''Invalid time value'')
     | Some t \<Rightarrow> Inr t)"

text \<open>\<open>clock\<close> is what \<open>nowIsoString()\<close> returns and \<open>uuid\<close> what \<open>randomUUID()\<close> returns.\<close>

definition create_lease_from_acquire_request ::
  "string \<Rightarrow> string \<Rightarrow> lease_acquire_request \<Rightarrow> (thrown, consiliency_lease) result" where
  "create_lease_from_acquire_request clock uuid req =
     bindr (contract_now (or_else (aq_now req) clock)) (\<lambda>now.
       case int_in_range 1 7200 (aq_ttl_seconds req) of
         None \<Rightarrow> Inl Schema_error
       | Some ttl \<Rightarrow> parse_lease
           \<lparr>cl_lease_id = or_else (aq_lease_id req) (''lease:'' @ uuid), cl_holder = aq_holder req,
            cl_acquired_at = now, cl_ttl_seconds = ttl, cl_heartbeat_at = now, cl_mode = aq_mode req,
            cl_scope = normalize_lease_scope (aq_scope req), cl_phase = aq_phase req\<rparr>)"

section \<open>Facts about scopes\<close>

lemma path_overlaps_sym: "path_overlaps a b \<longleftrightarrow> path_overlaps b a"
  by (auto simp: path_overlaps_def)

lemma path_overlaps_refl [simp]: "path_overlaps a a"
  by (simp add: path_overlaps_def)

lemma lease_scopes_overlap_sym: "lease_scopes_overlap a b \<longleftrightarrow> lease_scopes_overlap b a"
proof -
  have "lease_scopes_overlap x y" if "lease_scopes_overlap y x" for x y
    using that unfolding lease_scopes_overlap_def Let_def list_ex_iff
    by (metis (full_types) path_overlaps_sym)
  then show ?thesis by blast
qed

lemma strip_trailing_slashes_idem [simp]:
  "strip_trailing_slashes (strip_trailing_slashes s) = strip_trailing_slashes s"
  unfolding strip_trailing_slashes_def rev_rev_ident
  by (metis dropWhile_eq_self_iff hd_dropWhile dropWhile_eq_Nil_conv)

lemma set_normalize_selector:
  "set (normalize_selector sel) = strip_trailing_slashes ` set sel - {[]}"
  by (auto simp: normalize_selector_def)

lemma normalize_selector_idem [simp]:
  "normalize_selector (normalize_selector sel) = normalize_selector sel"
proof -
  let ?n = "normalize_selector sel"
  have s: "map strip_trailing_slashes ?n = ?n"
    by (rule map_idI) (auto simp: set_normalize_selector)
  have "distinct ?n" "[] \<notin> set ?n" "sorted ?n"
    by (auto simp: normalize_selector_def distinct_filter)
  moreover from this have f: "filter (\<lambda>e. e \<noteq> []) ?n = ?n"
    by (auto simp: filter_id_conv)
  ultimately show ?thesis
    using s f by (subst normalize_selector_def) (simp add: uniq_idem sorted_sort_id)
qed

lemma normalize_lease_scope_idem [simp]:
  "normalize_lease_scope (normalize_lease_scope sc) = normalize_lease_scope sc"
  by (simp add: normalize_lease_scope_def)

lemma normalize_lease_scope_granularity [simp]:
  "sc_granularity (normalize_lease_scope sc) = sc_granularity sc"
  by (simp add: normalize_lease_scope_def)

lemma lease_scopes_overlap_refl:
  assumes "lease_scope_ok (normalize_lease_scope sc)"
  shows "lease_scopes_overlap sc sc"
proof -
  have "sc_selector (normalize_lease_scope sc) \<noteq> []"
    using assms by (simp add: lease_scope_ok_def)
  then obtain s where "s \<in> set (sc_selector (normalize_lease_scope sc))"
    by (cases "sc_selector (normalize_lease_scope sc)") auto
  then show ?thesis
    by (cases "sc_granularity sc")
      (auto simp: lease_scopes_overlap_def Let_def list_ex_iff intro!: bexI [of _ s])
qed

end
