(* ===== verification/LeaseStore.thy ===== *)
theory LeaseStore
  imports LeaseScope "HOL-Library.AList"
begin

text \<open>
  The local lease store (\<open>packages/worktree-leasing/src/lease-store.ts\<close>, class
  \<open>LocalLeaseStore\<close>) and the paging of coordination reads
  (\<open>packages/state-ledger/src/coordination-channel.ts\<close>).

  The state is the file \<open>consiliency-leases.json\<close>: \<open>None\<close> when it does not exist. Each operation
  runs under the coordination lock and writes the file at most once, by an atomic replacement, as
  its last action; so an operation maps a file to a thrown value (file untouched) or to a result
  and the file after it. \<open>dt\<close> stands for zod's \<open>datetime({offset: true})\<close> test; the fields of
  \<open>call_env\<close> for what the clock and \<open>randomUUID\<close> return during one call.
\<close>

section \<open>State\<close>

datatype lease_event_type = Event_acquire | Event_renew | Event_release | Event_expire

record lease_event =
  le_event_id :: string
  le_event_type :: lease_event_type
  le_lease_id :: string
  le_holder :: string
  le_lease :: "consiliency_lease option"
  le_recorded_at :: string
  le_reason :: "string option"

record local_lease_store_state =
  ls_updated_at :: string
  ls_leases :: "consiliency_lease obj"
  ls_events :: "lease_event list"

type_synonym lease_file = "local_lease_store_state option"

record call_env =
  ce_outer_clock :: string
  ce_clock :: string
  ce_lease_uuid :: string
  ce_uuid :: "nat \<Rightarrow> string"

datatype lease_store_failure = Fail_conflict | Fail_not_holder | Fail_not_found | Fail_expired
  | Fail_backend_unavailable

record lease_acquire_result =
  lar_granted :: bool
  lar_lease :: "consiliency_lease option"
  lar_conflict :: "consiliency_lease option"
  lar_failure :: "lease_store_failure option"
  lar_cause :: "backend_cause option"

record lease_renew_result =
  lrr_renewed :: bool
  lrr_lease :: "consiliency_lease option"
  lrr_failure :: "lease_store_failure option"
  lrr_cause :: "backend_cause option"

record lease_release_result =
  lsr_released :: bool
  lsr_failure :: "lease_store_failure option"
  lsr_cause :: "backend_cause option"

record lease_query =
  lq_limit :: "jsnum option"
  lq_cursor :: "(string \<times> string) option"
  lq_lease_id :: "string option"
  lq_scope :: "lease_scope option"
  lq_include_expired :: bool
  lq_now :: "string option"
  lq_mode :: "lease_mode option"

section \<open>Reading and writing the file\<close>

definition empty_state :: "string \<Rightarrow> local_lease_store_state" where
  "empty_state now = \<lparr>ls_updated_at = now, ls_leases = [], ls_events = []\<rparr>"

definition lease_event_ok :: "(string \<Rightarrow> bool) \<Rightarrow> lease_event \<Rightarrow> bool" where
  "lease_event_ok dt e \<longleftrightarrow> le_event_id e \<noteq> [] \<and> le_lease_id e \<noteq> [] \<and> le_holder e \<noteq> []
     \<and> (case le_lease e of None \<Rightarrow> True | Some l \<Rightarrow> consiliency_lease_ok l) \<and> dt (le_recorded_at e)"

definition local_state_ok :: "(string \<Rightarrow> bool) \<Rightarrow> local_lease_store_state \<Rightarrow> bool" where
  "local_state_ok dt st \<longleftrightarrow> dt (ls_updated_at st)
     \<and> list_all (\<lambda>e. consiliency_lease_ok (snd e)) (ls_leases st)
     \<and> list_all (lease_event_ok dt) (ls_events st)"

definition read_state ::
  "(string \<Rightarrow> bool) \<Rightarrow> string \<Rightarrow> lease_file \<Rightarrow> (thrown, local_lease_store_state) result" where
  "read_state dt now f = (case f of
       None \<Rightarrow> Inr (empty_state now)
     | Some st \<Rightarrow>
         if \<not> local_state_ok dt st then Inl Schema_error
         else if list_ex (\<lambda>(k, l). k \<noteq> cl_lease_id l) (ls_leases st)
           then Inl (Leasing_error ''corrupt_lease_store'')
         else Inr st)"

text \<open>The two maps of \<open>writeState\<close>: for each stored lease the index of its last event and of its
  last matching acquisition.\<close>

fun event_indices :: "consiliency_lease obj \<Rightarrow> int \<Rightarrow> lease_event list
    \<Rightarrow> (string \<times> int) list \<times> (string \<times> int) list \<Rightarrow> (string \<times> int) list \<times> (string \<times> int) list" where
  "event_indices ls i [] (latest, acqs) = (latest, acqs)"
| "event_indices ls i (e # es) (latest, acqs) =
     (case obj_get ls (le_lease_id e) of
        None \<Rightarrow> event_indices ls (i + 1) es (latest, acqs)
      | Some l \<Rightarrow> event_indices ls (i + 1) es
          (AList.update (cl_lease_id l) i latest,
           if le_event_type e = Event_acquire
               \<and> map_option cl_acquired_at (le_lease e) = Some (cl_acquired_at l)
               \<and> le_holder e = cl_holder l
             then AList.update (cl_lease_id l) i acqs else acqs))"

definition protected_indices :: "consiliency_lease obj \<Rightarrow> lease_event list \<Rightarrow> int list" where
  "protected_indices ls es = (case event_indices ls 0 es ([], []) of
     (latest, acqs) \<Rightarrow> uniq (map snd latest @ map snd acqs))"

text \<open>The \<open>filter\<close> with the counter \<open>remove\<close>: the oldest unprotected events go first.\<close>

fun prune_events :: "int \<Rightarrow> int \<Rightarrow> int list \<Rightarrow> lease_event list \<Rightarrow> lease_event list" where
  "prune_events remove i prot [] = []"
| "prune_events remove i prot (e # es) =
     (if remove > 0 \<and> i \<notin> set prot then prune_events (remove - 1) (i + 1) prot es
      else e # prune_events remove (i + 1) prot es)"

definition write_state ::
  "local_lease_store_state \<Rightarrow> string \<Rightarrow> (thrown, local_lease_store_state) result" where
  "write_state st now =
     (if int (length (obj_keys (ls_leases st))) > 10000 then Inl (Backend_error Cause_capacity)
      else let prot = protected_indices (ls_leases st) (ls_events st) in
        if int (length prot) > 10000 then Inl (Backend_error Cause_capacity)
        else Inr (st\<lparr>ls_events :=
                    prune_events (max 0 (int (length (ls_events st)) - 10000)) 0 prot (ls_events st),
                    ls_updated_at := now\<rparr>))"

definition commit ::
  "local_lease_store_state \<Rightarrow> string \<Rightarrow> 'r \<Rightarrow> (thrown, 'r \<times> lease_file) result" where
  "commit st now r = bindr (write_state st now) (\<lambda>st'. Inr (r, Some st'))"

section \<open>Expiry of the stored leases\<close>

definition push_event ::
  "string \<Rightarrow> lease_event_type \<Rightarrow> string \<Rightarrow> string \<Rightarrow> consiliency_lease \<Rightarrow> string \<Rightarrow> string option
    \<Rightarrow> local_lease_store_state \<Rightarrow> local_lease_store_state" where
  "push_event uid ty lease_id holder l now reason st = st\<lparr>ls_events := ls_events st @
     [\<lparr>le_event_id = uid, le_event_type = ty, le_lease_id = lease_id, le_holder = holder,
       le_lease = Some l, le_recorded_at = now, le_reason = reason\<rparr>]\<rparr>"

fun expire_entries :: "string \<Rightarrow> (nat \<Rightarrow> string) \<Rightarrow> consiliency_lease obj
    \<Rightarrow> local_lease_store_state \<Rightarrow> nat \<Rightarrow> (thrown, local_lease_store_state \<times> nat) result" where
  "expire_entries now uuid [] st n = Inr (st, n)"
| "expire_entries now uuid ((k, l) # es) st n = bindr (is_lease_expired l now) (\<lambda>x.
     if x then expire_entries now uuid es
       (push_event (uuid n) Event_expire k (cl_holder l) l now (Some ''ttl_expired'')
         (st\<lparr>ls_leases := obj_del k (ls_leases st)\<rparr>)) (n + 1)
     else expire_entries now uuid es st n)"

definition expire_state :: "string \<Rightarrow> (nat \<Rightarrow> string) \<Rightarrow> local_lease_store_state
    \<Rightarrow> (thrown, local_lease_store_state \<times> nat) result" where
  "expire_state now uuid st = expire_entries now uuid (ls_leases st) st 0"

section \<open>Operations\<close>

definition granted_result :: "consiliency_lease \<Rightarrow> lease_acquire_result" where
  "granted_result l = \<lparr>lar_granted = True, lar_lease = Some l, lar_conflict = None,
     lar_failure = None, lar_cause = None\<rparr>"

definition conflict_result :: "consiliency_lease \<Rightarrow> lease_acquire_result" where
  "conflict_result c = \<lparr>lar_granted = False, lar_lease = None, lar_conflict = Some c,
     lar_failure = Some Fail_conflict, lar_cause = None\<rparr>"

definition acquire :: "(string \<Rightarrow> bool) \<Rightarrow> call_env \<Rightarrow> lease_acquire_request \<Rightarrow> lease_file
    \<Rightarrow> (thrown, lease_acquire_result \<times> lease_file) result" where
  "acquire dt env req f =
     bindr (create_lease_from_acquire_request (ce_outer_clock env) (ce_lease_uuid env) req) (\<lambda>prepared.
     bindr (contract_now (or_else (aq_now req) (ce_clock env))) (\<lambda>now.
     bindr (parse_lease (prepared\<lparr>cl_acquired_at := now, cl_heartbeat_at := now\<rparr>)) (\<lambda>lease.
     bindr (read_state dt now f) (\<lambda>st0.
     bindr (expire_state now (ce_uuid env) st0) (\<lambda>(st, n).
       case obj_get (ls_leases st) (cl_lease_id lease) of
         Some existing \<Rightarrow> commit st now (conflict_result existing)
       | None \<Rightarrow>
         (case List.find (\<lambda>e. cl_mode e = Hard \<and> cl_mode lease = Hard
                            \<and> lease_scopes_overlap (cl_scope e) (cl_scope lease))
                 (obj_values (ls_leases st)) of
            Some conflict \<Rightarrow> commit st now (conflict_result conflict)
          | None \<Rightarrow> commit
              (push_event (ce_uuid env n) Event_acquire (cl_lease_id lease) (cl_holder lease) lease now None
                (st\<lparr>ls_leases := obj_set (cl_lease_id lease) lease (ls_leases st)\<rparr>))
              now (granted_result lease)))))))"

definition parse_now_option :: "(string \<Rightarrow> bool) \<Rightarrow> string option \<Rightarrow> (thrown, unit) result" where
  "parse_now_option dt now = ensure (case now of None \<Rightarrow> True | Some s \<Rightarrow> dt s) Schema_error"

definition renew :: "(string \<Rightarrow> bool) \<Rightarrow> call_env \<Rightarrow> string \<Rightarrow> string \<Rightarrow> jsnum option \<Rightarrow> string option
    \<Rightarrow> lease_file \<Rightarrow> (thrown, lease_renew_result \<times> lease_file) result" where
  "renew dt env lease_id holder ttl_option now_option f =
     bindr (ensure (lease_id \<noteq> []) Schema_error) (\<lambda>_.
     bindr (ensure (holder \<noteq> []) Schema_error) (\<lambda>_.
     bindr (case ttl_option of None \<Rightarrow> Inr None
            | Some x \<Rightarrow> (case int_in_range 1 7200 x of None \<Rightarrow> Inl Schema_error | Some i \<Rightarrow> Inr (Some i))) (\<lambda>ttl.
     bindr (parse_now_option dt now_option) (\<lambda>_.
     bindr (contract_now (or_else now_option (ce_clock env))) (\<lambda>now.
     bindr (read_state dt now f) (\<lambda>st0.
     bindr (expire_state now (ce_uuid env) st0) (\<lambda>(st, n).
       case obj_get (ls_leases st) lease_id of
         None \<Rightarrow> commit st now \<lparr>lrr_renewed = False, lrr_lease = None,
                   lrr_failure = Some Fail_not_found, lrr_cause = None\<rparr>
       | Some existing \<Rightarrow>
           if cl_holder existing \<noteq> holder
           then Inr (\<lparr>lrr_renewed = False, lrr_lease = None, lrr_failure = Some Fail_not_holder,
                      lrr_cause = None\<rparr>, f)
           else bindr (is_lease_expired existing now) (\<lambda>expired.
             if expired
             then commit (st\<lparr>ls_leases := obj_del lease_id (ls_leases st)\<rparr>) now
                   \<lparr>lrr_renewed = False, lrr_lease = None, lrr_failure = Some Fail_expired, lrr_cause = None\<rparr>
             else bindr (parse_lease (existing\<lparr>cl_ttl_seconds := or_else ttl (cl_ttl_seconds existing),
                                               cl_heartbeat_at := now\<rparr>)) (\<lambda>lease.
               commit (push_event (ce_uuid env n) Event_renew lease_id holder lease now None
                        (st\<lparr>ls_leases := obj_set lease_id lease (ls_leases st)\<rparr>)) now
                 \<lparr>lrr_renewed = True, lrr_lease = Some lease, lrr_failure = None, lrr_cause = None\<rparr>)))))))))"

definition release :: "(string \<Rightarrow> bool) \<Rightarrow> call_env \<Rightarrow> string \<Rightarrow> string \<Rightarrow> string option
    \<Rightarrow> lease_file \<Rightarrow> (thrown, lease_release_result \<times> lease_file) result" where
  "release dt env lease_id holder now_option f =
     bindr (ensure (lease_id \<noteq> []) Schema_error) (\<lambda>_.
     bindr (ensure (holder \<noteq> []) Schema_error) (\<lambda>_.
     bindr (parse_now_option dt now_option) (\<lambda>_.
     bindr (contract_now (or_else now_option (ce_clock env))) (\<lambda>now.
     bindr (read_state dt now f) (\<lambda>st0.
     bindr (expire_state now (ce_uuid env) st0) (\<lambda>(st, n).
       case obj_get (ls_leases st) lease_id of
         None \<Rightarrow> commit st now \<lparr>lsr_released = True, lsr_failure = Some Fail_not_found, lsr_cause = None\<rparr>
       | Some existing \<Rightarrow>
           if cl_holder existing \<noteq> holder
           then Inr (\<lparr>lsr_released = False, lsr_failure = Some Fail_not_holder, lsr_cause = None\<rparr>, f)
           else commit (push_event (ce_uuid env n) Event_release lease_id holder existing now None
                         (st\<lparr>ls_leases := obj_del lease_id (ls_leases st)\<rparr>)) now
                  \<lparr>lsr_released = True, lsr_failure = None, lsr_cause = None\<rparr>))))))"

definition expire :: "(string \<Rightarrow> bool) \<Rightarrow> call_env \<Rightarrow> string option \<Rightarrow> lease_file
    \<Rightarrow> (thrown, nat \<times> lease_file) result" where
  "expire dt env now_value f =
     bindr (contract_now (or_else now_value (ce_outer_clock env))) (\<lambda>now.
     bindr (read_state dt now f) (\<lambda>st0.
     bindr (expire_state now (ce_uuid env) st0) (\<lambda>(st, n). commit st now n)))"

section \<open>Queries\<close>

text \<open>\<open>validateCoordinationPage\<close>: the limit and the cursor with its timestamp in contract form.\<close>

definition validate_coordination_page :: "(string \<Rightarrow> bool) \<Rightarrow> jsnum option \<Rightarrow> (string \<times> string) option
    \<Rightarrow> (thrown, int \<times> (string \<times> string) option) result" where
  "validate_coordination_page dt limit cursor =
     bindr (case limit of None \<Rightarrow> Inr 100
            | Some x \<Rightarrow> (case int_in_range 1 500 x of None \<Rightarrow> Inl Schema_error | Some n \<Rightarrow> Inr n)) (\<lambda>n.
     case cursor of
       None \<Rightarrow> Inr (n, None)
     | Some (ts, i) \<Rightarrow>
         if dt ts \<and> i \<noteq> [] then bindr (contract_now ts) (\<lambda>t. Inr (n, Some (t, i)))
         else Inl Schema_error)"

text \<open>\<open>lc\<close> is \<open>String.prototype.localeCompare\<close>, whose order the language leaves to the locale.\<close>

definition compare_coordination_tuple ::
  "(string \<Rightarrow> string \<Rightarrow> int) \<Rightarrow> string \<times> string \<Rightarrow> string \<times> string \<Rightarrow> int" where
  "compare_coordination_tuple lc a b =
     (if lc (fst a) (fst b) \<noteq> 0 then lc (fst a) (fst b) else buffer_compare (snd a) (snd b))"

definition lease_tuple :: "consiliency_lease \<Rightarrow> string \<times> string" where
  "lease_tuple l = (cl_acquired_at l, cl_lease_id l)"

text \<open>A filter whose test may throw.\<close>

fun filter_result :: "('a \<Rightarrow> (thrown, bool) result) \<Rightarrow> 'a list \<Rightarrow> (thrown, 'a list) result" where
  "filter_result p [] = Inr []"
| "filter_result p (x # xs) = bindr (p x) (\<lambda>b. bindr (filter_result p xs) (\<lambda>ys.
     Inr (if b then x # ys else ys)))"

text \<open>The chain of filters and the sort of a query, on the leases that are not expired or asked for.\<close>

definition query_rows :: "(string \<Rightarrow> string \<Rightarrow> int) \<Rightarrow> lease_query \<Rightarrow> (string \<times> string) option
    \<Rightarrow> consiliency_lease list \<Rightarrow> consiliency_lease list" where
  "query_rows lc q cursor ls =
     filter (\<lambda>l. case cursor of None \<Rightarrow> True
                  | Some c \<Rightarrow> compare_coordination_tuple lc (lease_tuple l) c > 0)
     (sort_by (\<lambda>a b. compare_coordination_tuple lc (lease_tuple a) (lease_tuple b))
     (filter (\<lambda>l. case lq_mode q of None \<Rightarrow> True | Some m \<Rightarrow> cl_mode l = m)
     (filter (\<lambda>l. case lq_scope q of None \<Rightarrow> True | Some s \<Rightarrow> lease_scopes_overlap (cl_scope l) s)
     (filter (\<lambda>l. case lq_lease_id q of None \<Rightarrow> True | Some i \<Rightarrow> cl_lease_id l = i) ls))))"

definition query_leases :: "(string \<Rightarrow> bool) \<Rightarrow> (string \<Rightarrow> string \<Rightarrow> int) \<Rightarrow> call_env \<Rightarrow> lease_query
    \<Rightarrow> lease_file \<Rightarrow> (thrown, consiliency_lease list) result" where
  "query_leases dt lc env q f =
     bindr (validate_coordination_page dt (lq_limit q) (lq_cursor q)) (\<lambda>(limit, cursor).
     bindr (contract_now (or_else (lq_now q) (ce_clock env))) (\<lambda>now.
     bindr (read_state dt now f) (\<lambda>st.
     bindr (filter_result (\<lambda>l. if lq_include_expired q then Inr True
                               else bindr (is_lease_expired l now) (\<lambda>x. Inr (\<not> x)))
              (obj_values (ls_leases st))) (\<lambda>ls.
     Inr (take (nat limit) (query_rows lc q cursor ls))))))"

definition lease_store_failure_label :: "lease_store_failure \<Rightarrow> string" where
  "lease_store_failure_label x = (case x of Fail_conflict \<Rightarrow> ''conflict'' | Fail_not_holder \<Rightarrow> ''not-holder''
     | Fail_not_found \<Rightarrow> ''not-found'' | Fail_expired \<Rightarrow> ''expired''
     | Fail_backend_unavailable \<Rightarrow> ''backend-unavailable'')"

definition assert_lease_store_granted :: "lease_acquire_result \<Rightarrow> (thrown, consiliency_lease) result" where
  "assert_lease_store_granted r = (case (lar_granted r, lar_lease r) of
       (True, Some l) \<Rightarrow> Inr l
     | _ \<Rightarrow> Inl (Leasing_error (case lar_failure r of Some x \<Rightarrow> lease_store_failure_label x
                               | None \<Rightarrow> ''lease_not_granted'')))"

end
