(* ===== verification/LeaseFacts.thy ===== *)
theory LeaseFacts
  imports LeaseStore
begin

text \<open>
  What the local lease store promises: the files it can leave behind, mutual exclusion of
  overlapping hard leases, exactly when a lease is granted, that nobody touches the unexpired
  lease of another holder, and that pruning of the event log keeps what live leases need.
\<close>

section \<open>Reading, expiring, writing\<close>

definition file_leases :: "lease_file \<Rightarrow> consiliency_lease obj" where
  "file_leases f = (case f of None \<Rightarrow> [] | Some st \<Rightarrow> ls_leases st)"

lemma file_leases_simps [simp]: "file_leases None = []" "file_leases (Some st) = ls_leases st"
  by (simp_all add: file_leases_def)

lemma read_stateD:
  "read_state dt now f = Inr st \<Longrightarrow> ls_leases st = file_leases f
     \<and> (\<forall>k l. (k, l) \<in> set (ls_leases st) \<longrightarrow> cl_lease_id l = k \<and> consiliency_lease_ok l)"
  by (cases f) (auto simp: read_state_def empty_state_def local_state_ok_def list_all_iff list_ex_iff
      split: if_splits)

lemma push_event_leases [simp]: "ls_leases (push_event u ty i h l now r st) = ls_leases st"
  by (simp add: push_event_def)

lemma write_state_leases: "write_state st now = Inr st' \<Longrightarrow> ls_leases st' = ls_leases st"
  by (auto simp: write_state_def Let_def split: if_splits)

lemma commitD: "commit st now r = Inr (r', f') \<Longrightarrow> r' = r \<and> file_leases f' = ls_leases st"
  by (auto simp: commit_def res_simps dest: write_state_leases)

lemma expire_entries_spec:
  assumes "expire_entries now uuid es st n = Inr (st', n')"
  shows "obj_get (ls_leases st') k =
      (if \<exists>l. (k, l) \<in> set es \<and> is_lease_expired l now = Inr True then None else obj_get (ls_leases st) k)"
    and "(k, l) \<in> set es \<Longrightarrow> is_lease_expired l now = Inr True \<or> is_lease_expired l now = Inr False"
    and "obj_wf (ls_leases st) \<Longrightarrow> obj_wf (ls_leases st')"
  using assms
proof (induction es arbitrary: st n)
  case Nil
  {
    case 1 then show ?case by simp
  next
    case 2 then show ?case by simp
  next
    case 3 then show ?case by simp
  }
next
  case (Cons e es)
  obtain k0 l0 where e: "e = (k0, l0)" by (cases e)
  note IH = Cons.IH
  {
    case 1
    then obtain x where x: "is_lease_expired l0 now = Inr x"
      by (auto simp: e res_simps)
    with 1 show ?case
      by (cases x) (auto simp: e obj_get_del dest!: IH(1))
  next
    case 2
    then obtain x where "is_lease_expired l0 now = Inr x"
      by (auto simp: e res_simps)
    with 2 show ?case by (cases x) (auto simp: e dest: IH(2))
  next
    case 3
    then obtain x where "is_lease_expired l0 now = Inr x"
      by (auto simp: e res_simps)
    moreover let ?s = "push_event (uuid n) Event_expire k0 (cl_holder l0) l0 now (Some ''ttl_expired'')
           (st\<lparr>ls_leases := obj_del k0 (ls_leases st)\<rparr>)"
    have "obj_wf (ls_leases ?s)" using 3(1) by auto
    ultimately show ?case using 3 by (cases x) (auto simp: e dest: IH(3) [rotated])
  }
qed

lemma expire_state_get:
  assumes "expire_state now uuid st = Inr (st', n)" "obj_wf (ls_leases st)"
  shows "obj_get (ls_leases st') k = (case obj_get (ls_leases st) k of
      None \<Rightarrow> None | Some l \<Rightarrow> if is_lease_expired l now = Inr False then Some l else None)"
  using expire_entries_spec(1,2) [OF assms(1) [unfolded expire_state_def], of k] assms(2)
  by (auto simp: obj_entries_iff split: option.splits)

lemma expire_state_wf:
  "expire_state now uuid st = Inr (st', n) \<Longrightarrow> obj_wf (ls_leases st) \<Longrightarrow> obj_wf (ls_leases st')"
  by (simp add: expire_state_def expire_entries_spec(3))

section \<open>The files the store leaves behind\<close>

definition hard_clash :: "consiliency_lease \<Rightarrow> consiliency_lease \<Rightarrow> bool" where
  "hard_clash a b \<longleftrightarrow> cl_mode a = Hard \<and> cl_mode b = Hard \<and> lease_scopes_overlap (cl_scope a) (cl_scope b)"

lemma hard_clash_sym: "hard_clash a b \<longleftrightarrow> hard_clash b a"
  by (auto simp: hard_clash_def lease_scopes_overlap_sym)

definition lease_file_ok :: "lease_file \<Rightarrow> bool" where
  "lease_file_ok f \<longleftrightarrow> obj_wf (file_leases f)
     \<and> obj.all_entries (\<lambda>k l. cl_lease_id l = k) (file_leases f)
     \<and> obj.pairwise_entries (\<lambda>a b. \<not> hard_clash a b) (file_leases f)"

lemma lease_file_ok_None: "lease_file_ok None"
  by (simp add: lease_file_ok_def obj.all_entries_def obj.pairwise_entries_def)

text \<open>What an operation does before it looks at its own lease.\<close>

definition opened :: "string \<Rightarrow> lease_file \<Rightarrow> local_lease_store_state \<Rightarrow> bool" where
  "opened now f st \<longleftrightarrow> obj_wf (ls_leases st)
     \<and> (\<forall>k. obj_get (ls_leases st) k = (case obj_get (file_leases f) k of
         None \<Rightarrow> None | Some l \<Rightarrow> if is_lease_expired l now = Inr False then Some l else None))"

lemma openedI:
  "read_state dt now f = Inr st0 \<Longrightarrow> expire_state now uuid st0 = Inr (st, n) \<Longrightarrow> obj_wf (file_leases f)
     \<Longrightarrow> opened now f st"
  by (drule read_stateD) (simp add: opened_def expire_state_get expire_state_wf)

lemma opened_Some:
  "opened now f st \<Longrightarrow> obj_get (ls_leases st) k = Some l
     \<Longrightarrow> obj_get (file_leases f) k = Some l \<and> is_lease_expired l now = Inr False"
  by (auto simp: opened_def split: option.splits if_splits)

lemma opened_keep:
  "opened now f st \<Longrightarrow> obj_get (file_leases f) k = Some l \<Longrightarrow> is_lease_expired l now = Inr False
     \<Longrightarrow> obj_get (ls_leases st) k = Some l"
  by (simp add: opened_def)

lemma opened_None:
  "opened now f st \<Longrightarrow> obj_get (ls_leases st) k = None
     \<longleftrightarrow> (\<forall>l. obj_get (file_leases f) k = Some l \<longrightarrow> is_lease_expired l now \<noteq> Inr False)"
  by (auto simp: opened_def split: option.splits)

lemma opened_ok:
  assumes "opened now f st" "lease_file_ok f" "file_leases f' = ls_leases st"
  shows "lease_file_ok f'"
proof -
  note S = opened_Some [OF assms(1), THEN conjunct1]
  have "obj_wf (file_leases f')" using assms(1,3) by (simp add: opened_def)
  moreover have "obj.all_entries (\<lambda>k l. cl_lease_id l = k) (file_leases f')"
    using assms(2) S unfolding lease_file_ok_def obj.all_entries_def assms(3) by blast
  moreover have "obj.pairwise_entries (\<lambda>a b. \<not> hard_clash a b) (file_leases f')"
    using assms(2) S unfolding lease_file_ok_def obj.pairwise_entries_def assms(3)
    by (intro allI impI) (elim conjE, drule S, drule S, blast)
  ultimately show ?thesis by (simp add: lease_file_ok_def)
qed

lemma ok_after_delete:
  assumes "lease_file_ok f" "file_leases f' = obj_del k (file_leases f)"
  shows "lease_file_ok f'"
  using assms by (auto simp: lease_file_ok_def intro: obj.all_entries_del obj.pairwise_entries_del)

lemma ok_after_set:
  assumes "lease_file_ok f" "file_leases f' = obj_set k l (file_leases f)" "cl_lease_id l = k"
    and "\<And>k' l'. obj_get (file_leases f) k' = Some l' \<Longrightarrow> k' \<noteq> k \<Longrightarrow> \<not> hard_clash l l'"
  shows "lease_file_ok f'"
  using assms
  by (auto simp: lease_file_ok_def hard_clash_sym intro!: obj.all_entries_put obj.pairwise_entries_put)

section \<open>The operations, in one step\<close>

text \<open>
  Each operation that returns has one of a few outcomes; these lemmas list them over the file as
  it was (\<open>opened\<close> hides the expiry of old leases), and every property rests on them.
\<close>

inductive acquire_outcome :: "local_lease_store_state \<Rightarrow> consiliency_lease \<Rightarrow> lease_acquire_result
    \<Rightarrow> lease_file \<Rightarrow> bool" for st lease where
  same_id: "obj_get (ls_leases st) (cl_lease_id lease) = Some c \<Longrightarrow> file_leases f' = ls_leases st
    \<Longrightarrow> acquire_outcome st lease (conflict_result c) f'"
| clash: "obj_get (ls_leases st) (cl_lease_id lease) = None \<Longrightarrow> c \<in> set (obj_values (ls_leases st))
    \<Longrightarrow> hard_clash c lease \<Longrightarrow> file_leases f' = ls_leases st
    \<Longrightarrow> acquire_outcome st lease (conflict_result c) f'"
| granted: "obj_get (ls_leases st) (cl_lease_id lease) = None
    \<Longrightarrow> (\<And>c. c \<in> set (obj_values (ls_leases st)) \<Longrightarrow> \<not> hard_clash c lease)
    \<Longrightarrow> file_leases f' = obj_set (cl_lease_id lease) lease (ls_leases st)
    \<Longrightarrow> acquire_outcome st lease (granted_result lease) f'"

inductive renew_outcome :: "local_lease_store_state \<Rightarrow> lease_file \<Rightarrow> string \<Rightarrow> string \<Rightarrow> string
    \<Rightarrow> jsnum option \<Rightarrow> lease_renew_result \<Rightarrow> lease_file \<Rightarrow> bool" for st f now i h ttl where
  renew_missing: "obj_get (ls_leases st) i = None \<Longrightarrow> \<not> lrr_renewed r \<Longrightarrow> lrr_failure r = Some Fail_not_found
    \<Longrightarrow> file_leases f' = ls_leases st \<Longrightarrow> renew_outcome st f now i h ttl r f'"
| renew_other: "obj_get (ls_leases st) i = Some e \<Longrightarrow> cl_holder e \<noteq> h \<Longrightarrow> \<not> lrr_renewed r
    \<Longrightarrow> lrr_failure r = Some Fail_not_holder \<Longrightarrow> renew_outcome st f now i h ttl r f"
| renewed: "obj_get (ls_leases st) i = Some e \<Longrightarrow> cl_holder e = h \<Longrightarrow> lrr_renewed r
    \<Longrightarrow> lrr_failure r = None \<Longrightarrow> l = e\<lparr>cl_ttl_seconds := t, cl_heartbeat_at := now\<rparr>
    \<Longrightarrow> lrr_lease r = Some l \<Longrightarrow> consiliency_lease_ok l
    \<Longrightarrow> (case ttl of None \<Rightarrow> t = cl_ttl_seconds e | Some x \<Rightarrow> x = Fin (of_int t))
    \<Longrightarrow> file_leases f' = obj_set i l (ls_leases st) \<Longrightarrow> renew_outcome st f now i h ttl r f'"

inductive release_outcome :: "local_lease_store_state \<Rightarrow> lease_file \<Rightarrow> string \<Rightarrow> string
    \<Rightarrow> lease_release_result \<Rightarrow> lease_file \<Rightarrow> bool" for st f i h where
  release_missing: "obj_get (ls_leases st) i = None \<Longrightarrow> lsr_released r \<Longrightarrow> lsr_failure r = Some Fail_not_found
    \<Longrightarrow> file_leases f' = ls_leases st \<Longrightarrow> release_outcome st f i h r f'"
| release_other: "obj_get (ls_leases st) i = Some e \<Longrightarrow> cl_holder e \<noteq> h \<Longrightarrow> \<not> lsr_released r
    \<Longrightarrow> lsr_failure r = Some Fail_not_holder \<Longrightarrow> release_outcome st f i h r f"
| released: "obj_get (ls_leases st) i = Some e \<Longrightarrow> cl_holder e = h \<Longrightarrow> lsr_released r
    \<Longrightarrow> lsr_failure r = None \<Longrightarrow> file_leases f' = obj_del i (ls_leases st) \<Longrightarrow> release_outcome st f i h r f'"

lemma create_leaseD:
  assumes "create_lease_from_acquire_request clock uuid req = Inr l"
  shows "cl_mode l = aq_mode req \<and> cl_scope l = normalize_lease_scope (aq_scope req)
     \<and> cl_holder l = aq_holder req \<and> cl_lease_id l = or_else (aq_lease_id req) (''lease:'' @ uuid)"
  using assms unfolding create_lease_from_acquire_request_def bindr_Inr_iff
  by (elim exE conjE) (simp add: parse_lease_def split: option.split_asm if_split_asm; force)

lemma acquire_cases:
  assumes "acquire dt env req f = Inr (r, f')" "obj_wf (file_leases f)"
  obtains now lease st where
    "contract_now (or_else (aq_now req) (ce_clock env)) = Inr now"
    "consiliency_lease_ok lease" "cl_mode lease = aq_mode req"
    "cl_scope lease = normalize_lease_scope (aq_scope req)" "cl_holder lease = aq_holder req"
    "cl_lease_id lease = or_else (aq_lease_id req) (''lease:'' @ ce_lease_uuid env)"
    "cl_acquired_at lease = now" "cl_heartbeat_at lease = now" "opened now f st"
    "acquire_outcome st lease r f'"
proof -
  from assms(1) obtain prepared now lease st0 st n where
    *: "create_lease_from_acquire_request (ce_outer_clock env) (ce_lease_uuid env) req = Inr prepared"
      "contract_now (or_else (aq_now req) (ce_clock env)) = Inr now"
      "parse_lease (prepared\<lparr>cl_acquired_at := now, cl_heartbeat_at := now\<rparr>) = Inr lease"
      "read_state dt now f = Inr st0" "expire_state now (ce_uuid env) st0 = Inr (st, n)"
    and body: "(case obj_get (ls_leases st) (cl_lease_id lease) of
         Some existing \<Rightarrow> commit st now (conflict_result existing)
       | None \<Rightarrow>
         (case List.find (\<lambda>e. cl_mode e = Hard \<and> cl_mode lease = Hard
                            \<and> lease_scopes_overlap (cl_scope e) (cl_scope lease))
                 (obj_values (ls_leases st)) of
            Some conflict \<Rightarrow> commit st now (conflict_result conflict)
          | None \<Rightarrow> commit
              (push_event (ce_uuid env n) Event_acquire (cl_lease_id lease) (cl_holder lease) lease now None
                (st\<lparr>ls_leases := obj_set (cl_lease_id lease) lease (ls_leases st)\<rparr>))
              now (granted_result lease))) = Inr (r, f')"
    by (auto simp: acquire_def res_simps)
  have p: "cl_mode prepared = aq_mode req" "cl_scope prepared = normalize_lease_scope (aq_scope req)"
    "cl_holder prepared = aq_holder req"
    "cl_lease_id prepared = or_else (aq_lease_id req) (''lease:'' @ ce_lease_uuid env)"
    using create_leaseD [OF *(1)] by simp_all
  have l: "lease = prepared\<lparr>cl_acquired_at := now, cl_heartbeat_at := now\<rparr>" "consiliency_lease_ok lease"
    using *(3) by (auto simp: parse_lease_def split: if_splits)
  have o: "opened now f st" using openedI *(4,5) assms(2) by blast
  show thesis
  proof (rule that)
    show "acquire_outcome st lease r f'"
      using body
      unfolding hard_clash_def [symmetric]
      by (auto simp: find_None_iff split: option.splits dest!: commitD find_SomeD
          intro: acquire_outcome.intros)
  qed (use * p l o in simp_all)
qed

lemma renew_cases:
  assumes "renew dt env i h ttl nw f = Inr (r, f')" "obj_wf (file_leases f)"
  obtains now st where
    "contract_now (or_else nw (ce_clock env)) = Inr now" "opened now f st"
    "renew_outcome st f now i h ttl r f'"
proof -
  from assms(1) obtain now st0 st n where
    *: "contract_now (or_else nw (ce_clock env)) = Inr now"
      "read_state dt now f = Inr st0" "expire_state now (ce_uuid env) st0 = Inr (st, n)"
    by (auto simp: renew_def res_simps)
  have o: "opened now f st" using openedI *(2,3) assms(2) by blast
  have live: "is_lease_expired e now = Inr False" if "obj_get (ls_leases st) i = Some e" for e
    using opened_Some [OF o that] by simp
  from assms(1) obtain t where t: "(case ttl of None \<Rightarrow> Inr None
      | Some x \<Rightarrow> (case int_in_range 1 7200 x of None \<Rightarrow> Inl Schema_error | Some i \<Rightarrow> Inr (Some i))) = Inr t"
    by (auto simp: renew_def res_simps)
  from assms(1) have g: "i \<noteq> []" "h \<noteq> []" "parse_now_option dt nw = Inr ()"
    by (auto simp: renew_def res_simps)
  show thesis
  proof (cases "obj_get (ls_leases st) i")
    case None
    show thesis
      by (rule that [OF *(1) o]) (use assms(1) None * in \<open>auto simp: renew_def res_simps dest!: commitD intro: renew_missing\<close>)
  next
    case (Some e)
    note s = this live [OF this]
    show thesis
    proof (cases "cl_holder e = h")
      case False
      show thesis
        by (rule that [OF *(1) o]) (use assms(1) s False * in \<open>auto simp: renew_def res_simps intro: renew_other\<close>)
    next
      case True
      let ?l = "e\<lparr>cl_ttl_seconds := or_else t (cl_ttl_seconds e), cl_heartbeat_at := now\<rparr>"
      have "bindr (parse_lease ?l) (\<lambda>lease.
               commit (push_event (ce_uuid env n) Event_renew i h lease now None
                        (st\<lparr>ls_leases := obj_set i lease (ls_leases st)\<rparr>)) now
                 \<lparr>lrr_renewed = True, lrr_lease = Some lease, lrr_failure = None, lrr_cause = None\<rparr>)
             = Inr (r, f')"
        using assms(1) True by (simp add: renew_def * t g s)
      then have "consiliency_lease_ok ?l \<and> lrr_renewed r \<and> lrr_failure r = None \<and> lrr_lease r = Some ?l
          \<and> file_leases f' = obj_set i ?l (ls_leases st)"
        by (auto simp: parse_lease_def res_simps split: if_splits dest!: commitD)
      moreover have "case ttl of None \<Rightarrow> or_else t (cl_ttl_seconds e) = cl_ttl_seconds e
          | Some x \<Rightarrow> x = Fin (of_int (or_else t (cl_ttl_seconds e)))"
        using t by (auto simp: int_in_range_def split: option.splits jsnum.splits if_splits)
      ultimately show thesis
        using s(1) True by (intro that [OF *(1) o] renewed [OF s(1) True, where l = ?l]) auto
    qed
  qed
qed

lemma release_cases:
  assumes "release dt env i h nw f = Inr (r, f')" "obj_wf (file_leases f)"
  obtains now st where
    "contract_now (or_else nw (ce_clock env)) = Inr now" "opened now f st"
    "release_outcome st f i h r f'"
proof -
  from assms(1) obtain now st0 st n where
    *: "contract_now (or_else nw (ce_clock env)) = Inr now"
      "read_state dt now f = Inr st0" "expire_state now (ce_uuid env) st0 = Inr (st, n)"
    by (auto simp: release_def res_simps)
  have o: "opened now f st" using openedI *(2,3) assms(2) by blast
  show thesis
    by (rule that [OF *(1) o])
      (use assms(1) * in \<open>auto simp: release_def res_simps split: option.splits if_splits dest!: commitD
        intro: release_outcome.intros\<close>)
qed

lemma expire_cases:
  assumes "expire dt env nw f = Inr (r, f')" "obj_wf (file_leases f)"
  obtains now st where "contract_now (or_else nw (ce_outer_clock env)) = Inr now" "opened now f st"
    "file_leases f' = ls_leases st"
  using assms by (auto simp: expire_def res_simps dest!: commitD dest: openedI)

end
