(* ===== verification/LeaseProperties.thy ===== *)
theory LeaseProperties
  imports LeaseFacts
begin

text \<open>
  The properties of the local lease store, over files reachable by any sequence of its
  operations, in any order and with any clock readings.
\<close>

section \<open>Reachable files\<close>

inductive lease_reachable :: "(string \<Rightarrow> bool) \<Rightarrow> lease_file \<Rightarrow> bool" for dt where
  reach_init: "lease_reachable dt None"
| reach_acquire: "lease_reachable dt f \<Longrightarrow> acquire dt env req f = Inr (r, f') \<Longrightarrow> lease_reachable dt f'"
| reach_renew: "lease_reachable dt f \<Longrightarrow> renew dt env i h ttl nw f = Inr (rr, f') \<Longrightarrow> lease_reachable dt f'"
| reach_release: "lease_reachable dt f \<Longrightarrow> release dt env i h nw f = Inr (rl, f') \<Longrightarrow> lease_reachable dt f'"
| reach_expire: "lease_reachable dt f \<Longrightarrow> expire dt env nw f = Inr (n, f') \<Longrightarrow> lease_reachable dt f'"

lemma lease_file_okD:
  assumes "lease_file_ok f"
  shows "obj_wf (file_leases f)"
    and "obj_get (file_leases f) k = Some l \<Longrightarrow> cl_lease_id l = k"
    and "obj_get (file_leases f) k = Some a \<Longrightarrow> obj_get (file_leases f) k' = Some b \<Longrightarrow> k \<noteq> k'
      \<Longrightarrow> \<not> hard_clash a b"
  using assms by (auto simp: lease_file_ok_def obj.all_entries_def obj.pairwise_entries_def)

lemma opened_file_ok:
  assumes "opened now f st" "lease_file_ok f"
  shows "lease_file_ok (Some st)"
  using assms by (rule opened_ok) simp

lemma acquire_preserves:
  assumes "lease_file_ok f" "acquire dt env req f = Inr (r, f')"
  shows "lease_file_ok f'"
  using assms(2) lease_file_okD(1) [OF assms(1)]
proof (rule acquire_cases)
  fix now lease st
  assume o: "opened now f st" and c: "acquire_outcome st lease r f'"
  from o have "obj_wf (ls_leases st)" by (simp add: opened_def)
  note v = obj_values_iff [OF this]
  from c show ?thesis
  proof cases
    case granted
    show ?thesis
    proof (rule ok_after_set [OF opened_file_ok [OF o assms(1)]])
      show "\<not> hard_clash lease l'" if "obj_get (file_leases (Some st)) k' = Some l'" for k' l'
        using granted(3) that v by (auto simp: hard_clash_sym)
    qed (use granted in simp_all)
  qed (auto intro: opened_ok [OF o assms(1)])
qed

lemma renew_preserves:
  assumes "lease_file_ok f" "renew dt env i h ttl nw f = Inr (r, f')"
  shows "lease_file_ok f'"
  using assms(2) lease_file_okD(1) [OF assms(1)]
proof (rule renew_cases)
  fix now st
  assume o: "opened now f st" and c: "renew_outcome st f now i h ttl r f'"
  note ok = opened_file_ok [OF o assms(1)]
  from c show ?thesis
  proof cases
    case (renewed e l t)
    show ?thesis
    proof (rule ok_after_set [OF ok])
      show "cl_lease_id l = i" using lease_file_okD(2) [OF ok, of i e] renewed by simp
      show "\<not> hard_clash l l'" if "obj_get (file_leases (Some st)) k' = Some l'" "k' \<noteq> i" for k' l'
        using lease_file_okD(3) [OF ok, of i e k' l'] that renewed by (simp add: hard_clash_def)
    qed (use renewed in simp)
  qed (use assms(1) in \<open>auto intro: opened_ok [OF o assms(1)]\<close>)
qed

lemma release_preserves:
  assumes "lease_file_ok f" "release dt env i h nw f = Inr (r, f')"
  shows "lease_file_ok f'"
  using assms(2) lease_file_okD(1) [OF assms(1)]
  by (rule release_cases) (erule release_outcome.cases,
    use assms(1) in \<open>auto intro: opened_ok ok_after_delete [OF opened_file_ok]\<close>)

lemma expire_preserves:
  assumes "lease_file_ok f" "expire dt env nw f = Inr (r, f')"
  shows "lease_file_ok f'"
  using assms(2) lease_file_okD(1) [OF assms(1)]
  by (rule expire_cases) (use assms(1) in \<open>auto intro: opened_ok\<close>)

lemma reachable_ok: "lease_reachable dt f \<Longrightarrow> lease_file_ok f"
  by (induction rule: lease_reachable.induct)
    (auto intro: lease_file_ok_None acquire_preserves renew_preserves release_preserves expire_preserves)

lemma reachable_wf: "lease_reachable dt f \<Longrightarrow> obj_wf (file_leases f)"
  by (simp add: lease_file_okD(1) reachable_ok)


section \<open>Mutual exclusion\<close>

text \<open>C1: in every reachable file, two different stored leases that are both hard have scopes that
  do not overlap, and each lease is stored under its own id: overlapping hard work is never
  granted to two holders, whatever the order of the calls and whatever the clocks say.\<close>

theorem hard_leases_exclusive:
  assumes "lease_reachable dt f"
    and "obj_get (file_leases f) k = Some a" "obj_get (file_leases f) k' = Some b" "k \<noteq> k'"
  shows "cl_lease_id a = k \<and> cl_lease_id b = k'
    \<and> (cl_mode a = Hard \<longrightarrow> cl_mode b = Hard \<longrightarrow> \<not> lease_scopes_overlap (cl_scope a) (cl_scope b))"
  using lease_file_okD(2,3) [OF reachable_ok [OF assms(1)]] assms(2-4)
  by (simp add: hard_clash_def)

section \<open>When a lease is granted\<close>

definition live :: "string \<Rightarrow> lease_file \<Rightarrow> consiliency_lease \<Rightarrow> bool" where
  "live now f l \<longleftrightarrow> l \<in> set (obj_values (file_leases f)) \<and> is_lease_expired l now = Inr False"

lemma opened_values:
  assumes "opened now f st" "obj_wf (file_leases f)"
  shows "l \<in> set (obj_values (ls_leases st)) \<longleftrightarrow> live now f l"
proof -
  have "obj_wf (ls_leases st)" using assms(1) by (simp add: opened_def)
  then have "l \<in> set (obj_values (ls_leases st)) \<longleftrightarrow> (\<exists>k. obj_get (ls_leases st) k = Some l)"
    by (rule obj_values_iff)
  also have "\<dots> \<longleftrightarrow> (\<exists>k. obj_get (file_leases f) k = Some l) \<and> is_lease_expired l now = Inr False"
    using opened_Some [OF assms(1)] opened_keep [OF assms(1)] by blast
  finally show ?thesis by (simp add: live_def obj_values_iff [OF assms(2)])
qed

lemma opened_get:
  assumes "opened now f st" "lease_file_ok f"
  shows "obj_get (ls_leases st) j = Some l \<Longrightarrow> live now f l \<and> cl_lease_id l = j"
    and "live now f l \<Longrightarrow> obj_get (ls_leases st) (cl_lease_id l) = Some l"
proof -
  have wf: "obj_wf (ls_leases st)" using assms(1) by (simp add: opened_def)
  note v = opened_values [OF assms(1) lease_file_okD(1) [OF assms(2)]]
  show k: "obj_get (ls_leases st) j = Some l \<Longrightarrow> live now f l \<and> cl_lease_id l = j" for j
    using lease_file_okD(2) [OF opened_file_ok [OF assms], of j l] obj_values_iff [OF wf, of l] v [of l]
    by auto
  show "live now f l \<Longrightarrow> obj_get (ls_leases st) (cl_lease_id l) = Some l"
    using obj_values_iff [OF wf, of l] v [of l] k by auto
qed

definition requested_id :: "call_env \<Rightarrow> lease_acquire_request \<Rightarrow> string" where
  "requested_id env req = or_else (aq_lease_id req) (''lease:'' @ ce_lease_uuid env)"

text \<open>C2: an acquire that returns is granted exactly when no unexpired lease has the requested id
  and, for a hard request, no unexpired hard lease overlaps its scope. A refusal names an unexpired
  lease of the file that has the id or clashes.\<close>

theorem acquire_decision:
  assumes "lease_reachable dt f" "acquire dt env req f = Inr (r, f')"
    and "contract_now (or_else (aq_now req) (ce_clock env)) = Inr now"
  shows "(lar_granted r \<longleftrightarrow> \<not> (\<exists>l. live now f l \<and> (cl_lease_id l = requested_id env req
             \<or> aq_mode req = Hard \<and> cl_mode l = Hard \<and> lease_scopes_overlap (cl_scope l) (aq_scope req))))
    \<and> (\<not> lar_granted r \<longrightarrow> (\<exists>l. lar_conflict r = Some l \<and> lar_failure r = Some Fail_conflict \<and> live now f l))"
  using assms(2) reachable_wf [OF assms(1)]
proof (rule acquire_cases)
  fix now' lease st
  assume a: "contract_now (or_else (aq_now req) (ce_clock env)) = Inr now'" "cl_mode lease = aq_mode req"
    "cl_scope lease = normalize_lease_scope (aq_scope req)"
    "cl_lease_id lease = or_else (aq_lease_id req) (''lease:'' @ ce_lease_uuid env)" "opened now' f st"
    and c: "acquire_outcome st lease r f'"
  have n: "now' = now" using a(1) assms(3) by simp
  note v = opened_values [OF a(5) reachable_wf [OF assms(1)], unfolded n]
  note k = opened_get [OF a(5) reachable_ok [OF assms(1)], unfolded n]
  have i: "obj_get (ls_leases st) (requested_id env req) = None \<Longrightarrow> live now f l \<Longrightarrow> cl_lease_id l \<noteq> requested_id env req" for l
    using k(2) by fastforce
  have h: "hard_clash l lease \<longleftrightarrow> aq_mode req = Hard \<and> cl_mode l = Hard
      \<and> lease_scopes_overlap (cl_scope l) (aq_scope req)" for l
    by (auto simp: hard_clash_def a(2,3) lease_scopes_overlap_def)
  from c show ?thesis
  proof cases
    case (same_id c)
    with k show ?thesis by (auto simp: conflict_result_def a(4) requested_id_def)
  next
    case (clash c)
    with v h show ?thesis by (auto simp: conflict_result_def)
  next
    case granted
    with v h i show ?thesis by (auto simp: granted_result_def a(4) requested_id_def)
  qed
qed


section \<open>Leases of others\<close>

lemma acquire_frame:
  assumes "obj_wf (file_leases f)" "acquire dt env req f = Inr (r, f')"
    and "contract_now (or_else (aq_now req) (ce_clock env)) = Inr now"
    and "obj_get (file_leases f) k = Some l" "is_lease_expired l now = Inr False"
  shows "obj_get (file_leases f') k = Some l"
  using assms(2,1)
proof (rule acquire_cases)
  fix now' lease st
  assume a: "contract_now (or_else (aq_now req) (ce_clock env)) = Inr now'" "opened now' f st"
    "acquire_outcome st lease r f'"
  then have "obj_get (ls_leases st) k = Some l" using assms(3-5) opened_keep by simp
  with a(3) show ?thesis by cases (auto simp: obj_get_set)
qed

lemma renew_frame:
  assumes "obj_wf (file_leases f)" "renew dt env i h ttl nw f = Inr (r, f')"
    and "contract_now (or_else nw (ce_clock env)) = Inr now"
    and "obj_get (file_leases f) k = Some l" "is_lease_expired l now = Inr False" "cl_holder l \<noteq> h"
  shows "obj_get (file_leases f') k = Some l"
  using assms(2,1)
proof (rule renew_cases)
  fix now' st
  assume a: "contract_now (or_else nw (ce_clock env)) = Inr now'" "opened now' f st"
    "renew_outcome st f now' i h ttl r f'"
  then have "obj_get (ls_leases st) k = Some l" using assms(3-5) opened_keep by simp
  with a(3) assms(4,6) show ?thesis by cases (auto simp: obj_get_set)
qed

lemma release_frame:
  assumes "obj_wf (file_leases f)" "release dt env i h nw f = Inr (r, f')"
    and "contract_now (or_else nw (ce_clock env)) = Inr now"
    and "obj_get (file_leases f) k = Some l" "is_lease_expired l now = Inr False" "cl_holder l \<noteq> h"
  shows "obj_get (file_leases f') k = Some l"
  using assms(2,1)
proof (rule release_cases)
  fix now' st
  assume a: "contract_now (or_else nw (ce_clock env)) = Inr now'" "opened now' f st"
    "release_outcome st f i h r f'"
  then have "obj_get (ls_leases st) k = Some l" using assms(3-5) opened_keep by simp
  with a(3) assms(4,6) show ?thesis by cases (auto simp: obj_get_del)
qed

text \<open>C14: no call by one holder changes or removes the unexpired lease of another: after an
  acquire by anybody, and after a renew or release by a holder \<open>h\<close>, every lease of a different
  holder that is not expired at the time of the call is still stored, unchanged.\<close>

theorem unexpired_leases_of_others_kept:
  assumes "lease_reachable dt f" "obj_get (file_leases f) k = Some l" "is_lease_expired l now = Inr False"
  shows "(acquire dt env req f = Inr (ra, f') \<longrightarrow> contract_now (or_else (aq_now req) (ce_clock env)) = Inr now
           \<longrightarrow> obj_get (file_leases f') k = Some l)
    \<and> (renew dt env i h ttl nw f = Inr (rr, f') \<longrightarrow> contract_now (or_else nw (ce_clock env)) = Inr now
           \<longrightarrow> cl_holder l \<noteq> h \<longrightarrow> obj_get (file_leases f') k = Some l)
    \<and> (release dt env i h nw f = Inr (rl, f') \<longrightarrow> contract_now (or_else nw (ce_clock env)) = Inr now
           \<longrightarrow> cl_holder l \<noteq> h \<longrightarrow> obj_get (file_leases f') k = Some l)"
  using acquire_frame renew_frame release_frame reachable_wf [OF assms(1)] assms(2,3) by meson

section \<open>Renewal and release\<close>

text \<open>C37: a renewal that returns succeeds exactly when an unexpired lease with that id belongs to the
  caller; it then stores the lease with the new heartbeat and, when given, the new term, all else
  unchanged. A refusal says \<open>not-found\<close> or \<open>not-holder\<close>; the answer \<open>expired\<close> of the source is
  never given, because expired leases are removed first.\<close>

theorem renew_outcome_exact:
  assumes "lease_reachable dt f" "renew dt env i h ttl nw f = Inr (r, f')"
    and "contract_now (or_else nw (ce_clock env)) = Inr now"
  shows "(lrr_renewed r \<longleftrightarrow> (\<exists>l. live now f l \<and> cl_lease_id l = i \<and> cl_holder l = h))
    \<and> (lrr_renewed r \<longrightarrow> (\<exists>l t. live now f l \<and> cl_lease_id l = i
         \<and> lrr_lease r = Some (l\<lparr>cl_ttl_seconds := t, cl_heartbeat_at := now\<rparr>)
         \<and> (case ttl of None \<Rightarrow> t = cl_ttl_seconds l | Some x \<Rightarrow> x = Fin (of_int t)) \<and> 1 \<le> t \<and> t \<le> 7200
         \<and> obj_get (file_leases f') i = lrr_lease r))
    \<and> (\<not> lrr_renewed r \<longrightarrow> lrr_failure r \<in> {Some Fail_not_found, Some Fail_not_holder})"
  using assms(2) reachable_wf [OF assms(1)]
proof (rule renew_cases)
  fix now' st
  assume a: "contract_now (or_else nw (ce_clock env)) = Inr now'" "opened now' f st"
    "renew_outcome st f now' i h ttl r f'"
  have n: "now' = now" using a(1) assms(3) by simp
  note k = opened_get [OF a(2) reachable_ok [OF assms(1)], unfolded n]
  from a(3) show ?thesis
  proof cases
    case renew_missing
    with k(2) show ?thesis by fastforce
  next
    case (renew_other e)
    with k(2) show ?thesis by fastforce
  next
    case (renewed e l t)
    then have "1 \<le> t \<and> t \<le> 7200" by (simp add: consiliency_lease_ok_def)
    then show ?thesis
      using renewed k(1) [OF renewed(1)] n
      by (intro conjI) (auto simp: obj_get_set split: option.splits intro!: exI [of _ e])
  qed
qed

text \<open>a release that returns reports success exactly when no unexpired lease with that id
  belongs to somebody else; after a reported success no lease with that id is stored.\<close>

theorem release_outcome_exact:
  assumes "lease_reachable dt f" "release dt env i h nw f = Inr (r, f')"
    and "contract_now (or_else nw (ce_clock env)) = Inr now"
  shows "(lsr_released r \<longleftrightarrow> (\<forall>l. live now f l \<longrightarrow> cl_lease_id l = i \<longrightarrow> cl_holder l = h))
    \<and> (lsr_released r \<longrightarrow> obj_get (file_leases f') i = None)
    \<and> (\<not> lsr_released r \<longrightarrow> lsr_failure r = Some Fail_not_holder \<and> f' = f)"
  using assms(2) reachable_wf [OF assms(1)]
proof (rule release_cases)
  fix now' st
  assume a: "contract_now (or_else nw (ce_clock env)) = Inr now'" "opened now' f st"
    "release_outcome st f i h r f'"
  have n: "now' = now" using a(1) assms(3) by simp
  note k = opened_get [OF a(2) reachable_ok [OF assms(1)], unfolded n]
  from a(3) show ?thesis
  proof cases
    case release_missing
    with k(2) show ?thesis by force
  next
    case (release_other e)
    with k(1) [OF release_other(2)] show ?thesis by auto
  next
    case released
    with k(2) show ?thesis by (force simp: obj_get_del)
  qed
qed


section \<open>The event log\<close>

fun unprotected :: "int \<Rightarrow> int list \<Rightarrow> lease_event list \<Rightarrow> nat" where
  "unprotected i prot [] = 0"
| "unprotected i prot (e # es) = (if i \<in> set prot then 0 else 1) + unprotected (i + 1) prot es"

lemma length_prune_events:
  "int (length (prune_events r i prot es)) = int (length es) - min (max 0 r) (int (unprotected i prot es))"
  by (induction r i prot es rule: prune_events.induct) auto

lemma unprotected_bound: "int (length es) \<le> int (unprotected i prot es) + int (card (set prot \<inter> {i..<i + int (length es)}))"
proof (induction es arbitrary: i)
  case Nil
  then show ?case by simp
next
  case (Cons e es)
  let ?S = "set prot \<inter> {i + 1..<i + 1 + int (length es)}"
  have "{i..<i + int (length (e # es))} = insert i {i + 1..<i + 1 + int (length es)}"
    by auto
  then have s: "set prot \<inter> {i..<i + int (length (e # es))} = (if i \<in> set prot then insert i ?S else ?S)"
    by simp
  have "i \<notin> ?S" by simp
  then show ?case using Cons.IH [of "i + 1"] unfolding s by simp
qed

lemma length_prune_le:
  assumes "distinct prot" "int (length prot) \<le> 10000"
  shows "int (length (prune_events (max 0 (int (length es) - 10000)) 0 prot es)) = min (int (length es)) 10000"
proof -
  have "card (set prot \<inter> {0..<0 + int (length es)}) \<le> length prot"
    using card_mono [of "set prot"] distinct_card [OF assms(1)] by (metis inf_le1 List.finite_set)
  then show ?thesis
    using unprotected_bound [of es 0 prot] assms(2) by (auto simp: length_prune_events)
qed

lemma prune_events_keeps:
  "j < length es \<Longrightarrow> i + int j \<in> set prot \<Longrightarrow> es ! j \<in> set (prune_events r i prot es)"
proof (induction r i prot es arbitrary: j rule: prune_events.induct)
  case (1 r i prot)
  then show ?case by simp
next
  case (2 r i prot e es)
  show ?case
  proof (cases j)
    case 0
    with "2.prems" show ?thesis by simp
  next
    case (Suc j')
    with "2.prems" have "j' < length es" "i + 1 + int j' \<in> set prot" by (auto simp: algebra_simps)
    with "2.IH" Suc show ?thesis by (cases "r > 0 \<and> i \<notin> set prot") auto
  qed
qed

lemma subseq_prune_events: "set (prune_events r i prot es) \<subseteq> set es"
  by (induction r i prot es rule: prune_events.induct) auto

text \<open>The index of the last event of a live lease is recorded.\<close>

lemma event_indices_snoc:
  "event_indices ls i (es @ [e]) la =
     (case obj_get ls (le_lease_id e) of None \<Rightarrow> event_indices ls i es la
      | Some l \<Rightarrow> (case event_indices ls i es la of (latest, acqs) \<Rightarrow>
          (AList.update (cl_lease_id l) (i + int (length es)) latest,
           if le_event_type e = Event_acquire
               \<and> map_option cl_acquired_at (le_lease e) = Some (cl_acquired_at l)
               \<and> le_holder e = cl_holder l
             then AList.update (cl_lease_id l) (i + int (length es)) acqs else acqs)))"
  by (induction ls i es la rule: event_indices.induct) (auto split: option.splits prod.splits simp: add.assoc)

lemma event_indices_latest:
  assumes "\<And>k l. obj_get ls k = Some l \<Longrightarrow> cl_lease_id l = k"
    and "obj_get ls k \<noteq> None" "j < length es" "le_lease_id (es ! j) = k"
    and "\<And>j'. j < j' \<Longrightarrow> j' < length es \<Longrightarrow> le_lease_id (es ! j') \<noteq> k"
  shows "map_of (fst (event_indices ls 0 es ([], []))) k = Some (int j)"
  using assms(3-5)
proof (induction es arbitrary: j rule: rev_induct)
  case Nil
  then show ?case by simp
next
  case (snoc e es)
  show ?case
  proof (cases "j = length es")
    case True
    with snoc.prems assms(1,2) show ?thesis
      by (auto simp: event_indices_snoc update_conv' split: option.splits prod.splits)
  next
    case False
    with snoc.prems have j: "j < length es" "le_lease_id (es ! j) = k"
      by (auto simp: nth_append)
    have "le_lease_id e \<noteq> k" using snoc.prems(3) [of "length es"] j by simp
    moreover have "le_lease_id (es ! j') \<noteq> k" if "j < j'" "j' < length es" for j'
      using snoc.prems(3) [of j'] that by (simp add: nth_append)
    ultimately show ?thesis
      using snoc.IH [OF j] assms(1)
      by (auto simp: event_indices_snoc update_conv' split: option.splits prod.splits)
  qed
qed

text \<open>a write keeps at most 10000 events: it writes all of them up to that number, and beyond it
  exactly 10000, none of them new, and the last event of every stored lease is among them; the
  leases themselves are written as they are. Nothing is written for more than 10000 leases.\<close>

theorem write_state_retention:
  assumes "write_state st now = Inr st'"
    and "\<And>k l. obj_get (ls_leases st) k = Some l \<Longrightarrow> cl_lease_id l = k"
  shows "ls_leases st' = ls_leases st \<and> length (ls_leases st) \<le> 10000
    \<and> length (ls_events st') = min (length (ls_events st)) 10000
    \<and> set (ls_events st') \<subseteq> set (ls_events st)
    \<and> (\<forall>j k. obj_get (ls_leases st) k \<noteq> None \<longrightarrow> j < length (ls_events st)
         \<longrightarrow> le_lease_id (ls_events st ! j) = k
         \<longrightarrow> (\<forall>j'. j < j' \<and> j' < length (ls_events st) \<longrightarrow> le_lease_id (ls_events st ! j') \<noteq> k)
         \<longrightarrow> ls_events st ! j \<in> set (ls_events st'))"
proof -
  let ?prot = "protected_indices (ls_leases st) (ls_events st)"
  have w: "length (ls_leases st) \<le> 10000" "int (length ?prot) \<le> 10000"
    "ls_events st' = prune_events (max 0 (int (length (ls_events st)) - 10000)) 0 ?prot (ls_events st)"
    using assms(1) by (auto simp: write_state_def Let_def obj_keys_def split: if_splits)
  have d: "distinct ?prot" by (simp add: protected_indices_def split: prod.splits)
  have "int (length (ls_events st')) = min (int (length (ls_events st))) 10000"
    unfolding w(3) by (rule length_prune_le [OF d w(2)])
  moreover have "ls_events st ! j \<in> set (ls_events st')"
    if "obj_get (ls_leases st) k \<noteq> None" "j < length (ls_events st)" "le_lease_id (ls_events st ! j) = k"
      "\<forall>j'. j < j' \<and> j' < length (ls_events st) \<longrightarrow> le_lease_id (ls_events st ! j') \<noteq> k" for j k
  proof -
    have "map_of (fst (event_indices (ls_leases st) 0 (ls_events st) ([], []))) k = Some (int j)"
      using event_indices_latest [OF assms(2) that(1-3)] that(4) by blast
    then have "int j \<in> set ?prot"
      by (cases "event_indices (ls_leases st) 0 (ls_events st) ([], [])")
        (fastforce simp: protected_indices_def image_iff dest!: map_of_SomeD)
    then show ?thesis unfolding w(3) using that(2) by (intro prune_events_keeps) auto
  qed
  ultimately show ?thesis
    using write_state_leases [OF assms(1)] w(1,3) subseq_prune_events by auto
qed

section \<open>The boundary of expiry\<close>

text \<open>for times in the years the format can write, a lease is expired from the very second at
  which its term ends, and not before: at \<open>n\<close> seconds it is expired iff \<open>n\<close> is at least the
  heartbeat plus the term.\<close>

theorem lease_expiry_boundary:
  assumes "cl_heartbeat_at l = contract_timestamp h" "year_in_range h" "year_in_range n"
    and "year_in_range (h - h mod 1000 + cl_ttl_seconds l * 1000)"
  shows "is_lease_expired l (contract_timestamp n) = Inr (n div 1000 \<ge> h div 1000 + cl_ttl_seconds l)"
proof -
  let ?x = "h - h mod 1000 + cl_ttl_seconds l * 1000"
  have p: "date_parse (to_iso ?x) = Some ?x" using assms(4) by (rule date_parse_to_iso)
  moreover have "date_to_iso (Some ?x) = Some (to_iso ?x)"
    using date_parse_clipped [OF p] by (auto simp: date_to_iso_def)
  ultimately show ?thesis
    using date_parse_contract [OF assms(2)] date_parse_contract [OF assms(3)] assms(1)
    by (auto simp: is_lease_expired_def expires_at_for_lease_def minus_mod_eq_mult_div)
qed


section \<open>Queries\<close>

lemma filter_result_Inr:
  "filter_result p xs = Inr ys \<Longrightarrow> ys = filter (\<lambda>x. p x = Inr True) xs"
  by (induction xs arbitrary: ys) (auto simp: res_simps)

context collation
begin

lemma compare_tuple_total:
  "compare_coordination_tuple cmp a b \<le> 0 \<or> compare_coordination_tuple cmp b a \<le> 0"
  using cmp_antisym [of "fst a" "fst b"] cmp_antisym [of "fst b" "fst a"] buffer.cmp_total [of "snd a" "snd b"]
  unfolding compare_coordination_tuple_def by (smt (verit))

lemma compare_tuple_trans:
  assumes "compare_coordination_tuple cmp a b \<le> 0" "compare_coordination_tuple cmp b c \<le> 0"
  shows "compare_coordination_tuple cmp a c \<le> 0"
proof -
  have le: "cmp (fst a) (fst b) \<le> 0" "cmp (fst b) (fst c) \<le> 0"
    using assms by (auto simp: compare_coordination_tuple_def split: if_splits)
  then have ac: "cmp (fst a) (fst c) \<le> 0" by (rule cmp_trans)
  show ?thesis
  proof (cases "cmp (fst a) (fst c) = 0")
    case True
    then have "cmp (fst c) (fst a) = 0" by (rule cmp_zero)
    then have "cmp (fst c) (fst b) \<le> 0" "cmp (fst b) (fst a) \<le> 0"
      using cmp_trans le by (metis order_refl)+
    then have "cmp (fst a) (fst b) = 0" "cmp (fst b) (fst c) = 0"
      using le cmp_antisym cmp_zero by (meson antisym not_le_imp_less less_le_not_le)+
    then have "buffer_compare (snd a) (snd b) \<le> 0" "buffer_compare (snd b) (snd c) \<le> 0"
      using assms by (simp_all add: compare_coordination_tuple_def)
    then show ?thesis using True buffer.cmp_trans by (simp add: compare_coordination_tuple_def)
  qed (use ac in \<open>simp add: compare_coordination_tuple_def\<close>)
qed

sublocale lease_order: comparator
  "\<lambda>a b. compare_coordination_tuple cmp (lease_tuple a) (lease_tuple b)"
  by standard (rule compare_tuple_total, erule (1) compare_tuple_trans)

lemma sorted_leases:
  "sorted_wrt (\<lambda>a b. compare_coordination_tuple cmp (lease_tuple a) (lease_tuple b) \<le> 0)
     (sort_by (\<lambda>a b. compare_coordination_tuple cmp (lease_tuple a) (lease_tuple b)) ls)"
  by (rule lease_order.sorted_sort_by)

end

text \<open>What a query asks of a lease.\<close>

definition query_match :: "(string \<Rightarrow> string \<Rightarrow> int) \<Rightarrow> string \<Rightarrow> lease_query \<Rightarrow> (string \<times> string) option
    \<Rightarrow> consiliency_lease \<Rightarrow> bool" where
  "query_match lc now q cursor l \<longleftrightarrow> (lq_include_expired q \<or> is_lease_expired l now = Inr False)
     \<and> (\<forall>i. lq_lease_id q = Some i \<longrightarrow> cl_lease_id l = i)
     \<and> (\<forall>s. lq_scope q = Some s \<longrightarrow> lease_scopes_overlap (cl_scope l) s)
     \<and> (\<forall>m. lq_mode q = Some m \<longrightarrow> cl_mode l = m)
     \<and> (\<forall>c. cursor = Some c \<longrightarrow> compare_coordination_tuple lc (lease_tuple l) c > 0)"

lemma sorted_take_rest:
  assumes "sorted_wrt P xs" "x \<in> set xs" "x \<notin> set (take n xs)"
  shows "length (take n xs) = n \<and> (\<forall>y \<in> set (take n xs). P y x)"
proof -
  have "x \<in> set (drop n xs)" using assms(2,3) by (metis Un_iff append_take_drop_id set_append)
  moreover from this have "n < length xs" by (cases "n < length xs") auto
  moreover have "sorted_wrt P (take n xs @ drop n xs)" using assms(1) by simp
  ultimately show ?thesis unfolding sorted_wrt_append by auto
qed

lemma case_option_True: "(case x of None \<Rightarrow> True | Some i \<Rightarrow> P i) \<longleftrightarrow> (\<forall>i. x = Some i \<longrightarrow> P i)"
  by (simp split: option.split)

text \<open>a query that returns gives a page of stored leases: each matches the query, they are
  sorted by acquisition time and id, there are at most as many as the validated limit (at most
  500), and a stored lease that matches is missing only when the page is full of leases that do
  not come after it.\<close>

theorem query_page_exact:
  assumes "collation lc" "query_leases dt lc env q f = Inr ls"
    and "contract_now (or_else (lq_now q) (ce_clock env)) = Inr now"
    and "validate_coordination_page dt (lq_limit q) (lq_cursor q) = Inr (limit, cursor)"
  shows "sorted_wrt (\<lambda>a b. compare_coordination_tuple lc (lease_tuple a) (lease_tuple b) \<le> 0) ls
    \<and> int (length ls) \<le> limit \<and> limit \<le> 500
    \<and> (\<forall>l \<in> set ls. l \<in> set (obj_values (file_leases f)) \<and> query_match lc now q cursor l)
    \<and> (\<forall>l \<in> set (obj_values (file_leases f)). query_match lc now q cursor l \<longrightarrow> l \<notin> set ls
         \<longrightarrow> int (length ls) = limit
           \<and> (\<forall>a \<in> set ls. compare_coordination_tuple lc (lease_tuple a) (lease_tuple l) \<le> 0))"
proof -
  let ?P = "\<lambda>a b. compare_coordination_tuple lc (lease_tuple a) (lease_tuple b) \<le> 0"
  obtain st us where q: "read_state dt now f = Inr st"
    "filter_result (\<lambda>l. if lq_include_expired q then Inr True
        else bindr (is_lease_expired l now) (\<lambda>x. Inr (\<not> x))) (obj_values (ls_leases st)) = Inr us"
    and ls: "ls = take (nat limit) (query_rows lc q cursor us)"
    using assms(2) by (auto simp: query_leases_def assms(3,4) bindr_Inr_iff)
  let ?vs = "query_rows lc q cursor us"
  have sorted: "sorted_wrt ?P ?vs"
    unfolding query_rows_def by (intro sorted_wrt_filter collation.sorted_leases assms(1))
  have us: "set us = {l \<in> set (obj_values (file_leases f)).
      lq_include_expired q \<or> is_lease_expired l now = Inr False}"
    using filter_result_Inr [OF q(2)] read_stateD [OF q(1)] by (cases "lq_include_expired q") (auto simp: res_simps)
  have rows: "set ?vs = {l \<in> set (obj_values (file_leases f)). query_match lc now q cursor l}"
    unfolding query_rows_def query_match_def case_option_True set_filter set_sort_by us by blast
  have lim: "1 \<le> limit \<and> limit \<le> 500"
    using assms(4) by (auto simp: validate_coordination_page_def res_simps int_in_range_def
        split: option.splits jsnum.splits if_splits prod.splits)
  have "int (length ls) = limit \<and> (\<forall>a \<in> set ls. ?P a l)"
    if "l \<in> set (obj_values (file_leases f))" "query_match lc now q cursor l" "l \<notin> set ls" for l
    using sorted_take_rest [OF sorted, of l "nat limit"] that rows lim ls by auto
  moreover have "sorted_wrt ?P ls" "int (length ls) \<le> limit" "set ls \<subseteq> set ?vs"
    using sorted lim unfolding ls by (auto intro: sorted_wrt_take dest: in_set_takeD)
  ultimately show ?thesis using lim rows by blast
qed


section \<open>Concrete runs\<close>

definition demo_env :: call_env where
  "demo_env = \<lparr>ce_outer_clock = ''2026-01-01T00:00:00Z'', ce_clock = ''2026-01-01T00:00:00Z'',
     ce_lease_uuid = ''u'', ce_uuid = (\<lambda>_. ''e'')\<rparr>"

definition demo_request :: "string \<Rightarrow> string \<Rightarrow> string \<Rightarrow> lease_acquire_request" where
  "demo_request i h p = \<lparr>aq_lease_id = Some i, aq_holder = h, aq_ttl_seconds = Fin 60, aq_mode = Hard,
     aq_scope = \<lparr>sc_granularity = G_path_set, sc_selector = [p]\<rparr>, aq_phase = ''build'', aq_now = None\<rparr>"

definition demo_lease :: "string \<Rightarrow> string \<Rightarrow> string \<Rightarrow> consiliency_lease" where
  "demo_lease i h p = \<lparr>cl_lease_id = i, cl_holder = h, cl_acquired_at = ''2026-01-01T00:00:00Z'',
     cl_ttl_seconds = 60, cl_heartbeat_at = ''2026-01-01T00:00:00Z'', cl_mode = Hard,
     cl_scope = \<lparr>sc_granularity = G_path_set, sc_selector = [p]\<rparr>, cl_phase = ''build''\<rparr>"

definition demo_event :: "string \<Rightarrow> string \<Rightarrow> string \<Rightarrow> lease_event" where
  "demo_event i h p = \<lparr>le_event_id = ''e'', le_event_type = Event_acquire, le_lease_id = i, le_holder = h,
     le_lease = Some (demo_lease i h p), le_recorded_at = ''2026-01-01T00:00:00Z'', le_reason = None\<rparr>"

definition demo_file1 :: lease_file where
  "demo_file1 = Some \<lparr>ls_updated_at = ''2026-01-01T00:00:00Z'',
     ls_leases = [(''l1'', demo_lease ''l1'' ''alice'' ''src/a'')],
     ls_events = [demo_event ''l1'' ''alice'' ''src/a'']\<rparr>"

definition demo_file2 :: lease_file where
  "demo_file2 = Some \<lparr>ls_updated_at = ''2026-01-01T00:00:00Z'',
     ls_leases = [(''l1'', demo_lease ''l1'' ''alice'' ''src/a''), (''l2'', demo_lease ''l2'' ''bob'' ''src/b'')],
     ls_events = [demo_event ''l1'' ''alice'' ''src/a'', demo_event ''l2'' ''bob'' ''src/b'']\<rparr>"

lemma demo_acquire1:
  "acquire (\<lambda>_. True) demo_env (demo_request ''l1'' ''alice'' ''src/a'') None
     = Inr (granted_result (demo_lease ''l1'' ''alice'' ''src/a''), demo_file1)"
  by code_simp

lemma demo_acquire2:
  "acquire (\<lambda>_. True) demo_env (demo_request ''l2'' ''bob'' ''src/b'') demo_file1
     = Inr (granted_result (demo_lease ''l2'' ''bob'' ''src/b''), demo_file2)"
  by code_simp

lemma demo_conflict:
  "acquire (\<lambda>_. True) demo_env (demo_request ''l3'' ''carol'' ''src/b/x'') demo_file2
     = Inr (conflict_result (demo_lease ''l2'' ''bob'' ''src/b''), demo_file2)"
  by code_simp

lemma demo_reachable: "lease_reachable (\<lambda>_. True) demo_file1" "lease_reachable (\<lambda>_. True) demo_file2"
  using reach_acquire [OF reach_init demo_acquire1] reach_acquire [OF _ demo_acquire2] by blast+

lemma demo_now: "contract_now ''2026-01-01T00:00:00Z'' = Inr ''2026-01-01T00:00:00Z''"
  by code_simp


definition demo_renewed :: consiliency_lease where
  "demo_renewed = (demo_lease ''l1'' ''alice'' ''src/a'')\<lparr>cl_ttl_seconds := 90\<rparr>"

definition demo_query :: lease_query where
  "demo_query = \<lparr>lq_limit = Some (Fin 1), lq_cursor = None, lq_lease_id = None, lq_scope = None,
     lq_include_expired = False, lq_now = None, lq_mode = Some Hard\<rparr>"

lemma demo_file_leases: "file_leases demo_file1 = [(''l1'', demo_lease ''l1'' ''alice'' ''src/a'')]"
  "file_leases demo_file2 = [(''l1'', demo_lease ''l1'' ''alice'' ''src/a''), (''l2'', demo_lease ''l2'' ''bob'' ''src/b'')]"
  by (simp_all add: demo_file1_def demo_file2_def)

lemma demo_live: "is_lease_expired (demo_lease ''l1'' ''alice'' ''src/a'') ''2026-01-01T00:00:00Z'' = Inr False"
  by code_simp

lemma demo_renew: "map_sum id fst (renew (\<lambda>_. True) demo_env ''l1'' ''alice'' (Some (Fin 90)) None demo_file2)
    = Inr \<lparr>lrr_renewed = True, lrr_lease = Some demo_renewed, lrr_failure = None, lrr_cause = None\<rparr>"
  by code_simp

lemma demo_release: "map_sum id (\<lambda>x. (fst x, file_leases (snd x)))
      (release (\<lambda>_. True) demo_env ''l1'' ''alice'' None demo_file2)
    = Inr (\<lparr>lsr_released = True, lsr_failure = None, lsr_cause = None\<rparr>,
           [(''l2'', demo_lease ''l2'' ''bob'' ''src/b'')])"
  by code_simp

lemma demo_query_result: "query_leases (\<lambda>_. True) buffer_compare demo_env demo_query demo_file2
    = Inr [demo_lease ''l1'' ''alice'' ''src/a'']"
  by code_simp

lemma map_sum_InrD: "map_sum id g x = Inr y \<Longrightarrow> \<exists>z. x = Inr z \<and> g z = y"
  by (cases x) auto

section \<open>Witnesses\<close>

lemma hard_leases_exclusive_witness:
  "\<not> lease_scopes_overlap (cl_scope (demo_lease ''l1'' ''alice'' ''src/a'')) (cl_scope (demo_lease ''l2'' ''bob'' ''src/b''))"
  using hard_leases_exclusive [OF demo_reachable(2), of "''l1''" "demo_lease ''l1'' ''alice'' ''src/a''"
      "''l2''" "demo_lease ''l2'' ''bob'' ''src/b''"]
  by (simp add: demo_file_leases obj_get_def) (simp add: demo_lease_def)

lemma acquire_decision_witness:
  "\<exists>l. live ''2026-01-01T00:00:00Z'' demo_file2 l \<and> lar_conflict (conflict_result (demo_lease ''l2'' ''bob'' ''src/b'')) = Some l"
  using acquire_decision [OF demo_reachable(2) demo_conflict, of "''2026-01-01T00:00:00Z''"] demo_now
  by (auto simp: demo_request_def demo_env_def conflict_result_def)

lemma unexpired_leases_of_others_kept_witness:
  "obj_get (file_leases demo_file2) ''l1'' = Some (demo_lease ''l1'' ''alice'' ''src/a'')"
  using unexpired_leases_of_others_kept [OF demo_reachable(1) _ demo_live, of "''l1''"
      demo_env "demo_request ''l2'' ''bob'' ''src/b''"] demo_acquire2 demo_now
  by (auto simp: demo_file_leases(1) obj_get_def demo_request_def demo_env_def)

lemma renew_outcome_exact_witness:
  "\<exists>l. live ''2026-01-01T00:00:00Z'' demo_file2 l \<and> cl_lease_id l = ''l1'' \<and> cl_holder l = ''alice''"
proof -
  obtain f' where "renew (\<lambda>_. True) demo_env ''l1'' ''alice'' (Some (Fin 90)) None demo_file2
     = Inr (\<lparr>lrr_renewed = True, lrr_lease = Some demo_renewed, lrr_failure = None, lrr_cause = None\<rparr>, f')"
    using map_sum_InrD [OF demo_renew] by auto
  from renew_outcome_exact [OF demo_reachable(2) this, of "''2026-01-01T00:00:00Z''"] demo_now
  show ?thesis by (simp add: demo_env_def)
qed

lemma release_outcome_exact_witness:
  "\<exists>f'. release (\<lambda>_. True) demo_env ''l1'' ''alice'' None demo_file2
     = Inr (\<lparr>lsr_released = True, lsr_failure = None, lsr_cause = None\<rparr>, f')
     \<and> obj_get (file_leases f') ''l1'' = None"
proof -
  obtain f' where r: "release (\<lambda>_. True) demo_env ''l1'' ''alice'' None demo_file2
     = Inr (\<lparr>lsr_released = True, lsr_failure = None, lsr_cause = None\<rparr>, f')"
    using map_sum_InrD [OF demo_release] by auto
  from release_outcome_exact [OF demo_reachable(2) r, of "''2026-01-01T00:00:00Z''"] demo_now r
  show ?thesis by (auto simp: demo_env_def)
qed

lemma write_state_retention_witness:
  "\<exists>st'. write_state (the demo_file2) ''2026-01-01T00:00:00Z'' = Inr st' \<and> length (ls_events st') = 2"
proof -
  have "write_state (the demo_file2) ''2026-01-01T00:00:00Z'' = Inr (the demo_file2)"
    by code_simp
  from write_state_retention [OF this] this show ?thesis
    by (auto simp: demo_file2_def obj_get_def demo_lease_def split: if_splits)
qed

lemma lease_expiry_boundary_witness:
  "is_lease_expired (demo_lease ''l1'' ''alice'' ''src/a'') (contract_timestamp 1767225660000) = Inr True"
proof -
  have "cl_heartbeat_at (demo_lease ''l1'' ''alice'' ''src/a'') = contract_timestamp 1767225600000"
    by code_simp
  from lease_expiry_boundary [OF this, of 1767225660000] show ?thesis
    by (simp add: year_in_range_def demo_lease_def)
qed

lemma query_page_exact_witness:
  "lease_tuple (demo_lease ''l1'' ''alice'' ''src/a'') = (''2026-01-01T00:00:00Z'', ''l1'')
   \<and> compare_coordination_tuple buffer_compare (lease_tuple (demo_lease ''l1'' ''alice'' ''src/a''))
       (lease_tuple (demo_lease ''l2'' ''bob'' ''src/b'')) \<le> 0"
proof -
  have m: "query_match buffer_compare ''2026-01-01T00:00:00Z'' demo_query None (demo_lease ''l2'' ''bob'' ''src/b'')"
  proof -
    have "is_lease_expired (demo_lease ''l2'' ''bob'' ''src/b'') ''2026-01-01T00:00:00Z'' = Inr False"
      by code_simp
    then show ?thesis by (simp add: query_match_def demo_query_def demo_lease_def)
  qed
  have p: "validate_coordination_page (\<lambda>_. True) (lq_limit demo_query) (lq_cursor demo_query) = Inr (1, None)"
    by code_simp
  have "contract_now (or_else (lq_now demo_query) (ce_clock demo_env)) = Inr ''2026-01-01T00:00:00Z''"
    using demo_now by (simp add: demo_query_def demo_env_def)
  from query_page_exact [OF buffer.collation_axioms demo_query_result this p] m show ?thesis
    by (auto simp: demo_file_leases obj_values_def) (simp_all add: lease_tuple_def demo_lease_def)
qed

end
