(* ===== verification/RateLimitActions.thy ===== *)
theory RateLimitActions
  imports RuntimeCore
begin

text \<open>
  The routing action of each limit type and the retry guardrails of the rate-limit catalogue
  (\<open>packages/rate-limit-catalog/src\<close>: \<open>routing-action.ts\<close>, \<open>retry-guardrails.ts\<close>, and
  \<open>dedupeNotes\<close> of \<open>rules.ts\<close>).
\<close>

section \<open>Routing actions\<close>

fun routing_action_matrix :: "limit_type \<Rightarrow> routing_action" where
  "routing_action_matrix No_limit =
     \<lparr>ra_retry_same_session = False, ra_reduce_concurrency = False, ra_route_new_work_elsewhere = False,
      ra_migrate_existing_portable_work = False, ra_require_manual_review = False,
      ra_same_provider_account_switch = Switch_forbidden\<rparr>"
| "routing_action_matrix Burst_rate_limit =
     \<lparr>ra_retry_same_session = True, ra_reduce_concurrency = True, ra_route_new_work_elsewhere = True,
      ra_migrate_existing_portable_work = False, ra_require_manual_review = False,
      ra_same_provider_account_switch = Switch_forbidden\<rparr>"
| "routing_action_matrix Token_rate_limit =
     \<lparr>ra_retry_same_session = True, ra_reduce_concurrency = True, ra_route_new_work_elsewhere = True,
      ra_migrate_existing_portable_work = True, ra_require_manual_review = False,
      ra_same_provider_account_switch = Switch_forbidden\<rparr>"
| "routing_action_matrix Concurrency_cap =
     \<lparr>ra_retry_same_session = True, ra_reduce_concurrency = True, ra_route_new_work_elsewhere = False,
      ra_migrate_existing_portable_work = False, ra_require_manual_review = False,
      ra_same_provider_account_switch = Switch_forbidden\<rparr>"
| "routing_action_matrix Fixed_window_usage_cap =
     \<lparr>ra_retry_same_session = False, ra_reduce_concurrency = False, ra_route_new_work_elsewhere = True,
      ra_migrate_existing_portable_work = True, ra_require_manual_review = False,
      ra_same_provider_account_switch = Switch_manual_confirmation_required\<rparr>"
| "routing_action_matrix Monthly_spend_or_quota_cap =
     \<lparr>ra_retry_same_session = False, ra_reduce_concurrency = False, ra_route_new_work_elsewhere = True,
      ra_migrate_existing_portable_work = True, ra_require_manual_review = True,
      ra_same_provider_account_switch = Switch_manual_confirmation_required\<rparr>"
| "routing_action_matrix Acceleration_limit =
     \<lparr>ra_retry_same_session = True, ra_reduce_concurrency = True, ra_route_new_work_elsewhere = True,
      ra_migrate_existing_portable_work = False, ra_require_manual_review = False,
      ra_same_provider_account_switch = Switch_forbidden\<rparr>"
| "routing_action_matrix Overload_or_transient =
     \<lparr>ra_retry_same_session = True, ra_reduce_concurrency = True, ra_route_new_work_elsewhere = True,
      ra_migrate_existing_portable_work = False, ra_require_manual_review = False,
      ra_same_provider_account_switch = Switch_forbidden\<rparr>"
| "routing_action_matrix Auth_or_billing_problem =
     \<lparr>ra_retry_same_session = False, ra_reduce_concurrency = False, ra_route_new_work_elsewhere = True,
      ra_migrate_existing_portable_work = True, ra_require_manual_review = True,
      ra_same_provider_account_switch = Switch_forbidden\<rparr>"
| "routing_action_matrix Abuse_or_policy_block =
     \<lparr>ra_retry_same_session = False, ra_reduce_concurrency = False, ra_route_new_work_elsewhere = True,
      ra_migrate_existing_portable_work = False, ra_require_manual_review = True,
      ra_same_provider_account_switch = Switch_forbidden\<rparr>"
| "routing_action_matrix Unknown_limit =
     \<lparr>ra_retry_same_session = False, ra_reduce_concurrency = False, ra_route_new_work_elsewhere = False,
      ra_migrate_existing_portable_work = False, ra_require_manual_review = True,
      ra_same_provider_account_switch = Switch_manual_confirmation_required\<rparr>"

text \<open>\<open>RoutingActionOverrides\<close>: a field that is absent keeps the value of the matrix.\<close>

record routing_action_overrides =
  ro_retry_same_session :: "bool option"
  ro_reduce_concurrency :: "bool option"
  ro_route_new_work_elsewhere :: "bool option"
  ro_migrate_existing_portable_work :: "bool option"
  ro_require_manual_review :: "bool option"
  ro_same_provider_account_switch :: "account_switch option"

definition no_overrides :: routing_action_overrides where
  "no_overrides = \<lparr>ro_retry_same_session = None, ro_reduce_concurrency = None,
     ro_route_new_work_elsewhere = None, ro_migrate_existing_portable_work = None,
     ro_require_manual_review = None, ro_same_provider_account_switch = None\<rparr>"

definition override_action :: "routing_action \<Rightarrow> routing_action_overrides \<Rightarrow> routing_action" where
  "override_action a u =
     \<lparr>ra_retry_same_session = or_else (ro_retry_same_session u) (ra_retry_same_session a),
      ra_reduce_concurrency = or_else (ro_reduce_concurrency u) (ra_reduce_concurrency a),
      ra_route_new_work_elsewhere = or_else (ro_route_new_work_elsewhere u) (ra_route_new_work_elsewhere a),
      ra_migrate_existing_portable_work =
        or_else (ro_migrate_existing_portable_work u) (ra_migrate_existing_portable_work a),
      ra_require_manual_review = or_else (ro_require_manual_review u) (ra_require_manual_review a),
      ra_same_provider_account_switch =
        or_else (ro_same_provider_account_switch u) (ra_same_provider_account_switch a)\<rparr>"

definition create_routing_action_for_limit_type ::
  "limit_type \<Rightarrow> routing_action_overrides \<Rightarrow> routing_action" where
  "create_routing_action_for_limit_type ty u = override_action (routing_action_matrix ty) u"

lemma override_action_none [simp]: "override_action a no_overrides = a"
  by (simp add: override_action_def no_overrides_def)

section \<open>Notes\<close>

definition dedupe_notes :: "string option list \<Rightarrow> string list option" where
  "dedupe_notes notes =
     (let u = uniq (filter (\<lambda>n. n \<noteq> []) (map the (filter (\<lambda>n. n \<noteq> None) notes)))
      in if u = [] then None else Some u)"

section \<open>Retry guardrails\<close>

definition hard_stop_types :: "limit_type list" where
  "hard_stop_types = [Fixed_window_usage_cap, Monthly_spend_or_quota_cap, Auth_or_billing_problem,
     Abuse_or_policy_block, Unknown_limit]"

fun retry_budget_by_type :: "limit_type \<Rightarrow> int option" where
  "retry_budget_by_type Acceleration_limit = Some 1"
| "retry_budget_by_type Burst_rate_limit = Some 2"
| "retry_budget_by_type Concurrency_cap = Some 2"
| "retry_budget_by_type Overload_or_transient = Some 3"
| "retry_budget_by_type Token_rate_limit = Some 2"
| "retry_budget_by_type _ = None"

datatype guardrail_reason = Retry_allowed | Hard_cap | Wait_for_reset_reason
  | Classification_blocks_retry | Retry_storm_guardrail

fun guardrail_reason_label :: "guardrail_reason \<Rightarrow> string" where
  "guardrail_reason_label Retry_allowed = ''retry_allowed''"
| "guardrail_reason_label Hard_cap = ''hard_cap''"
| "guardrail_reason_label Wait_for_reset_reason = ''wait_for_reset''"
| "guardrail_reason_label Classification_blocks_retry = ''classification_blocks_retry''"
| "guardrail_reason_label Retry_storm_guardrail = ''retry_storm_guardrail''"

record guardrail_decision =
  gd_classification :: limit_classification
  gd_allow_retry :: bool
  gd_next_delay_seconds :: int
  gd_reason :: guardrail_reason

definition with_guardrail_update ::
  "limit_classification \<Rightarrow> string \<Rightarrow> routing_action_overrides \<Rightarrow> limit_classification" where
  "with_guardrail_update c note u = c\<lparr>
     lc_notes := dedupe_notes (map Some (or_else (lc_notes c) []) @ [Some note]),
     lc_routing_action := override_action (lc_routing_action c) u\<rparr>"

definition retry_count_error :: thrown where
  "retry_count_error = Type_error ''Retry counts must be nonnegative safe integers''"

definition check_count :: "thrown \<Rightarrow> jsnum \<Rightarrow> (thrown, int) result" where
  "check_count e x = (case safe_count x of None \<Rightarrow> Inl e | Some n \<Rightarrow> Inr n)"

lemma check_count_Inr [res_simps]: "check_count e x = Inr n \<longleftrightarrow> safe_count x = Some n"
  by (auto simp: check_count_def split: option.splits)

lemma check_count_Inl [res_simps]: "check_count e x = Inl e' \<longleftrightarrow> safe_count x = None \<and> e' = e"
  by (auto simp: check_count_def split: option.splits)

text \<open>\<open>Math.min(300, 2 ** Math.min(9, n))\<close>\<close>

definition backoff_delay :: "int \<Rightarrow> int" where
  "backoff_delay n = min 300 (2 ^ nat (min 9 n))"

definition valid_delay :: "limit_classification \<Rightarrow> int option" where
  "valid_delay c = Option.bind (lc_retry_after_seconds c) safe_count"

text \<open>What follows the two checks, with the counts as integers.\<close>

definition guardrail_outcome :: "limit_classification \<Rightarrow> int \<Rightarrow> int option \<Rightarrow> guardrail_decision" where
  "guardrail_outcome c n max_attempts =
     (let delay = (case valid_delay c of Some d \<Rightarrow> min 300 d | None \<Rightarrow> backoff_delay n) in
      if lc_type c \<in> set hard_stop_types
      then \<lparr>gd_classification = c, gd_allow_retry = False, gd_next_delay_seconds = delay,
            gd_reason = (if date_parse (or_else (lc_reset_at c) []) \<noteq> None \<or> valid_delay c \<noteq> None
                         then Wait_for_reset_reason else Hard_cap)\<rparr>
      else if \<not> ra_retry_same_session (lc_routing_action c)
      then \<lparr>gd_classification = c, gd_allow_retry = False, gd_next_delay_seconds = delay,
            gd_reason = Classification_blocks_retry\<rparr>
      else
        let budget = or_else (retry_budget_by_type (lc_type c)) 0;
            limit = (case max_attempts of None \<Rightarrow> budget | Some m \<Rightarrow> min m budget) in
        if n \<ge> limit
        then \<lparr>gd_classification = with_guardrail_update c
                (''Retry storm guardrail stopped attempt '' @ show_int (n + 1) @ ''.'')
                (no_overrides\<lparr>ro_require_manual_review := Some True,
                   ro_retry_same_session := Some False, ro_route_new_work_elsewhere := Some True\<rparr>),
              gd_allow_retry = False, gd_next_delay_seconds = delay, gd_reason = Retry_storm_guardrail\<rparr>
        else \<lparr>gd_classification = c, gd_allow_retry = True, gd_next_delay_seconds = delay,
              gd_reason = Retry_allowed\<rparr>)"

definition apply_retry_guardrails ::
  "limit_classification \<Rightarrow> jsnum \<Rightarrow> jsnum option \<Rightarrow> (thrown, guardrail_decision) result" where
  "apply_retry_guardrails c attempts max_attempts =
     bindr (check_count retry_count_error attempts) (\<lambda>n.
     bindr (check_count retry_count_error (or_else max_attempts (Fin 0))) (\<lambda>m.
     Inr (guardrail_outcome c n (map_option (\<lambda>_. m) max_attempts))))"

section \<open>Facts\<close>

lemma backoff_delay_bounds: "0 \<le> n \<Longrightarrow> 1 \<le> backoff_delay n \<and> backoff_delay n \<le> 300"
  by (simp add: backoff_delay_def)

lemma backoff_delay_mono:
  assumes "0 \<le> m" "m \<le> n"
  shows "backoff_delay m \<le> backoff_delay n"
proof -
  have "(2 :: int) ^ nat (min 9 m) \<le> 2 ^ nat (min 9 n)"
    using assms by (intro power_increasing) auto
  then show ?thesis unfolding backoff_delay_def by (rule min.mono [OF order_refl])
qed

lemma valid_delay_bounds: "valid_delay c = Some d \<Longrightarrow> 0 \<le> d"
  by (auto simp: valid_delay_def bind_eq_Some_conv dest: safe_count_SomeD)

lemma retry_budget_bounds: "retry_budget_by_type t = Some b \<Longrightarrow> 1 \<le> b \<and> b \<le> 3"
  by (cases t) auto

lemma hard_stop_iff: "t \<in> set hard_stop_types \<longleftrightarrow> t \<noteq> No_limit \<and> retry_budget_by_type t = None"
  by (cases t) (auto simp: hard_stop_types_def)

text \<open>When the guardrails let a retry through.\<close>

lemma guardrail_outcome_allows:
  "gd_allow_retry (guardrail_outcome c n m) \<longleftrightarrow> lc_type c \<notin> set hard_stop_types
     \<and> ra_retry_same_session (lc_routing_action c) \<and> n < or_else (retry_budget_by_type (lc_type c)) 0
     \<and> (\<forall>k. m = Some k \<longrightarrow> n < k)"
  by (cases m) (auto simp: guardrail_outcome_def Let_def min_le_iff_disj not_le)

lemma guardrail_outcome_delay:
  assumes "0 \<le> n"
  shows "0 \<le> gd_next_delay_seconds (guardrail_outcome c n m) \<and> gd_next_delay_seconds (guardrail_outcome c n m) \<le> 300"
  using backoff_delay_bounds [OF assms] valid_delay_bounds [of c]
  by (cases "valid_delay c") (simp_all add: guardrail_outcome_def Let_def)

lemma guardrail_outcome_reason:
  "gd_allow_retry (guardrail_outcome c n m) \<longleftrightarrow> gd_reason (guardrail_outcome c n m) = Retry_allowed"
  by (simp add: guardrail_outcome_def Let_def)

lemma apply_retry_guardrails_Inr [res_simps]:
  "apply_retry_guardrails c attempts max_attempts = Inr d \<longleftrightarrow>
     (\<exists>n m. safe_count attempts = Some n \<and> safe_count (or_else max_attempts (Fin 0)) = Some m
        \<and> d = guardrail_outcome c n (map_option (\<lambda>_. m) max_attempts))"
  by (auto simp: apply_retry_guardrails_def res_simps)

end
