(* ===== verification/RetryPolicy.thy ===== *)
theory RetryPolicy
  imports RateLimitActions
begin

text \<open>
  The coordinator's reaction to limits and failures (\<open>packages/coordinator/src\<close>: \<open>cooldowns.ts\<close>,
  \<open>retry-guardrails.ts\<close>, \<open>failure-policy.ts\<close>, with the types of \<open>types.ts\<close>).
\<close>

section \<open>Cooldowns\<close>

definition provider_cooldown_types :: "limit_type list" where
  "provider_cooldown_types = [Fixed_window_usage_cap, Monthly_spend_or_quota_cap,
     Auth_or_billing_problem, Abuse_or_policy_block, Unknown_limit]"

definition is_provider_family_id :: "string option \<Rightarrow> bool" where
  "is_provider_family_id v = (case v of None \<Rightarrow> False | Some s \<Rightarrow> s \<in> set provider_family_ids)"

definition derive_provider_family_cooldown ::
  "limit_classification \<Rightarrow> string \<Rightarrow> provider_family_cooldown option" where
  "derive_provider_family_cooldown c observed_at =
     (if lc_type c \<notin> set provider_cooldown_types \<or> \<not> is_provider_family_id (lc_provider c) then None
      else Some \<lparr>pc_provider = the (lc_provider c), pc_active = True,
             pc_reason = limit_type_label (lc_type c), pc_observed_at = observed_at,
             pc_reset_at = lc_reset_at c, pc_source = From_limit_classification\<rparr>)"

text \<open>A \<open>now\<close> of \<open>None\<close> is NaN: no reset lies before it.\<close>

definition reset_bound_cooldown_expired :: "string option \<Rightarrow> string option \<Rightarrow> int option \<Rightarrow> bool" where
  "reset_bound_cooldown_expired reason reset_at now =
     (if reason \<notin> {Some ''fixed_window_usage_cap'', Some ''monthly_spend_or_quota_cap'', Some ''unknown_limit''}
      then False
      else case (date_parse (or_else reset_at []), now) of
             (Some r, Some n) \<Rightarrow> r \<le> n
           | _ \<Rightarrow> False)"

text \<open>The profile is given by its id, provider and harness; without a clock nothing has expired,
  and the same holds for a clock that is NaN.\<close>

definition effective_route_classification :: "limit_classification option \<Rightarrow> string \<Rightarrow> string \<Rightarrow> string
    \<Rightarrow> int option \<Rightarrow> limit_classification option" where
  "effective_route_classification classification pid provider harness now = (case classification of
       None \<Rightarrow> None
     | Some c \<Rightarrow>
         if lc_provider c \<noteq> Some provider \<or> lc_harness c \<noteq> Some harness
            \<or> (lc_identity_profile_id c \<noteq> None \<and> lc_identity_profile_id c \<noteq> Some pid)
            \<or> lc_session_id c \<noteq> None \<or> lc_scope c = L_session
            \<or> reset_bound_cooldown_expired (Some (limit_type_label (lc_type c))) (lc_reset_at c) now
         then None else Some c)"

definition effective_for_profile :: "limit_classification option \<Rightarrow> identity_profile \<Rightarrow> int option
    \<Rightarrow> limit_classification option" where
  "effective_for_profile c p now = effective_route_classification c (ip_id p) (ip_provider p) (ip_harness p) now"

record cooldown_evaluation = decision_cooldown +
  cv_blocked :: bool

text \<open>The two kinds of sources, seen through the fields the evaluation reads.\<close>

definition cooldown_of_state :: "cooldown_state \<Rightarrow> bool \<times> string \<times> string option" where
  "cooldown_of_state c = (cd_active c, cd_reason c, cd_reset_at c)"

definition cooldown_of_family :: "provider_family_cooldown \<Rightarrow> bool \<times> string \<times> string option" where
  "cooldown_of_family c = (pc_active c, pc_reason c, pc_reset_at c)"

definition active_source :: "int \<Rightarrow> (bool \<times> string \<times> string option) option \<Rightarrow> bool" where
  "active_source now src = (case src of None \<Rightarrow> False
     | Some (act, reason, reset_at) \<Rightarrow> act \<and> \<not> reset_bound_cooldown_expired (Some reason) reset_at (Some now))"

definition evaluate_cooldown_state :: "string \<Rightarrow> identity_profile \<Rightarrow> identity_profile_status option
    \<Rightarrow> provider_family_cooldown option \<Rightarrow> limit_classification option \<Rightarrow> string option
    \<Rightarrow> (thrown, cooldown_evaluation) result" where
  "evaluate_cooldown_state clock profile status provider_cooldown classification now_option =
     (case date_parse (or_else now_option clock) of
        None \<Rightarrow> Inl (Type_error ''Invalid cooldown clock'')
      | Some now \<Rightarrow>
          let eff = effective_for_profile classification profile (Some now);
              provider_sources = filter (active_source now)
                [map_option cooldown_of_family provider_cooldown,
                 map_option cooldown_of_state (ip_provider_family_cooldown profile)];
              identity_sources = filter (active_source now)
                [map_option cooldown_of_state (Option.bind status is_cooldown),
                 map_option cooldown_of_state (ip_identity_cooldown profile)];
              sources = map the (identity_sources @ provider_sources)
          in Inr \<lparr>dc_provider_family_blocked = (provider_sources \<noteq> []),
                  dc_identity_blocked = (identity_sources \<noteq> []),
                  dc_reason = map_option (fst \<circ> snd) (List.find (\<lambda>_. True) sources),
                  dc_reset_at = Option.bind (List.find (\<lambda>s. snd (snd s) \<noteq> None) sources) (snd \<circ> snd),
                  dc_same_provider_account_switch = (case eff of None \<Rightarrow> Switch_forbidden
                    | Some c \<Rightarrow> ra_same_provider_account_switch (lc_routing_action c)),
                  cv_blocked = (provider_sources \<noteq> [] \<or> identity_sources \<noteq> [])\<rparr>)"

section \<open>Retry guardrails of the coordinator\<close>

datatype retry_action = Retry_same_session | Route_new_work_elsewhere | Wait_for_reset | Manual_review

record retry_guardrail_input =
  ri_failure :: runtime_failure
  ri_classification :: "limit_classification option"
  ri_repeated_failures :: jsnum
  ri_max_repeated_failures :: "jsnum option"
  ri_idempotency_safe :: "bool option"
  ri_mutation :: "bool option"

record retry_guardrail_decision =
  rt_allow_retry :: bool
  rt_action :: retry_action
  rt_reason :: string
  rt_retry_after_seconds :: "int option"
  rt_same_provider_account_switch :: "account_switch option"

definition manual_categories :: "failure_category list" where
  "manual_categories = [Auth, Billing, Policy_denied, Approval_required, Approval_denied]"

fun failure_category_label :: "failure_category \<Rightarrow> string" where
  "failure_category_label Validation = ''validation''"
| "failure_category_label Transport = ''transport''"
| "failure_category_label Protocol = ''protocol''"
| "failure_category_label Auth = ''auth''"
| "failure_category_label Billing = ''billing''"
| "failure_category_label Rate_limit = ''rate_limit''"
| "failure_category_label Concurrency_limit = ''concurrency_limit''"
| "failure_category_label Policy_denied = ''policy_denied''"
| "failure_category_label Approval_required = ''approval_required''"
| "failure_category_label Approval_denied = ''approval_denied''"
| "failure_category_label Timeout = ''timeout''"
| "failure_category_label Cancelled = ''cancelled''"
| "failure_category_label Harness_unavailable = ''harness_unavailable''"
| "failure_category_label Backend_unavailable = ''backend_unavailable''"
| "failure_category_label Backend_version_mismatch = ''backend_version_mismatch''"
| "failure_category_label Backend_capability_missing = ''backend_capability_missing''"
| "failure_category_label Sandbox_denied = ''sandbox_denied''"
| "failure_category_label Malformed_response = ''malformed_response''"
| "failure_category_label State_conflict = ''state_conflict''"
| "failure_category_label Internal = ''internal''"

definition simple_retry :: "bool \<Rightarrow> retry_action \<Rightarrow> string \<Rightarrow> retry_guardrail_decision" where
  "simple_retry allow action reason =
     \<lparr>rt_allow_retry = allow, rt_action = action, rt_reason = reason, rt_retry_after_seconds = None,
      rt_same_provider_account_switch = None\<rparr>"

definition not_retryable :: retry_guardrail_decision where
  "not_retryable = simple_retry False Manual_review ''Runtime failure is not retryable''"

text \<open>The branch with a classification, from the answer of the catalogue's guardrails.\<close>

definition classified_retry :: "retry_guardrail_input \<Rightarrow> limit_classification \<Rightarrow> int \<Rightarrow> guardrail_decision
    \<Rightarrow> retry_guardrail_decision" where
  "classified_retry i c n r =
     (if gd_allow_retry r then
        if \<not> rf_retryable (ri_failure i) then not_retryable
        else \<lparr>rt_allow_retry = True,
              rt_action = (if n > 0 \<and> ra_route_new_work_elsewhere (lc_routing_action c)
                           then Route_new_work_elsewhere else Retry_same_session),
              rt_reason = guardrail_reason_label (gd_reason r),
              rt_retry_after_seconds = Some (gd_next_delay_seconds r),
              rt_same_provider_account_switch = Some (ra_same_provider_account_switch (lc_routing_action c))\<rparr>
      else \<lparr>rt_allow_retry = False,
            rt_action = (if gd_reason r = Wait_for_reset_reason then Wait_for_reset
                         else if ra_require_manual_review (lc_routing_action c) then Manual_review
                         else Route_new_work_elsewhere),
            rt_reason = guardrail_reason_label (gd_reason r),
            rt_retry_after_seconds = Some (gd_next_delay_seconds r),
            rt_same_provider_account_switch =
              Some (ra_same_provider_account_switch (lc_routing_action (gd_classification r)))\<rparr>)"

text \<open>The \<open>switch\<close> on the category, without a classification.\<close>

definition unclassified_retry :: "retry_guardrail_input \<Rightarrow> int \<Rightarrow> int option \<Rightarrow> retry_guardrail_decision" where
  "unclassified_retry i n m =
     (let cat = rf_category (ri_failure i) in
      if cat \<in> set manual_categories
      then simple_retry False Manual_review (failure_category_label cat @ '' requires manual review'')
      else if cat \<in> {Backend_unavailable, Transport, Timeout, Concurrency_limit, Rate_limit} then
        if \<not> rf_retryable (ri_failure i) then not_retryable
        else if n \<ge> min (or_else m 2) 2
        then simple_retry False Route_new_work_elsewhere ''retry storm guardrail stopped repeated backend failures''
        else (simple_retry True Retry_same_session ''retryable runtime failure'')
               \<lparr>rt_retry_after_seconds := Some (backoff_delay n)\<rparr>
      else simple_retry False Manual_review ''retry guardrail requires manual review'')"

text \<open>The guard that asks for a person whatever the limit.\<close>

definition unsafe_retry :: "retry_guardrail_input \<Rightarrow> bool" where
  "unsafe_retry i \<longleftrightarrow> rf_category (ri_failure i) \<in> set manual_categories \<or> ri_idempotency_safe i = Some False
     \<or> (ri_mutation i = Some True \<and> ri_idempotency_safe i \<noteq> Some True)"

definition evaluate_retry_guardrails ::
  "retry_guardrail_input \<Rightarrow> (thrown, retry_guardrail_decision) result" where
  "evaluate_retry_guardrails i =
     bindr (check_count retry_count_error (ri_repeated_failures i)) (\<lambda>n.
     bindr (check_count retry_count_error (or_else (ri_max_repeated_failures i) (Fin 0))) (\<lambda>m.
     if unsafe_retry i
     then Inr (simple_retry False Manual_review ''Failure or mutation requires manual review before retry'')
     else case ri_classification i of
       Some c \<Rightarrow> bindr (apply_retry_guardrails c (ri_repeated_failures i) (ri_max_repeated_failures i))
                   (\<lambda>r. Inr (classified_retry i c n r))
     | None \<Rightarrow> Inr (unclassified_retry i n (map_option (\<lambda>_. m) (ri_max_repeated_failures i)))))"

section \<open>Failure policy\<close>

datatype failure_policy_action = Do_retry_action retry_action | Pause_provider_family

record failure_policy_decision =
  fp_allow_retry :: bool
  fp_action :: failure_policy_action
  fp_reason :: string
  fp_retry_after_seconds :: "int option"
  fp_provider_cooldown :: "provider_family_cooldown option"
  fp_same_provider_account_switch :: "account_switch option"

definition evaluate_failure_policy ::
  "retry_guardrail_input \<Rightarrow> string \<Rightarrow> (thrown, failure_policy_decision) result" where
  "evaluate_failure_policy i observed_at =
     bindr (evaluate_retry_guardrails i) (\<lambda>r.
     let cool = (case ri_classification i of None \<Rightarrow> None
                 | Some c \<Rightarrow> derive_provider_family_cooldown c observed_at)
     in Inr \<lparr>fp_allow_retry = rt_allow_retry r,
             fp_action = (if cool \<noteq> None \<and> \<not> rt_allow_retry r then Pause_provider_family
                          else Do_retry_action (rt_action r)),
             fp_reason = rt_reason r, fp_retry_after_seconds = rt_retry_after_seconds r,
             fp_provider_cooldown = cool,
             fp_same_provider_account_switch = rt_same_provider_account_switch r\<rparr>)"

section \<open>Facts\<close>

lemma provider_cooldown_types_hard: "set provider_cooldown_types = set hard_stop_types"
  by (auto simp: provider_cooldown_types_def hard_stop_types_def)

lemma evaluate_retry_cases:
  assumes "evaluate_retry_guardrails i = Inr r"
  obtains (unsafe) "unsafe_retry i" "\<not> rt_allow_retry r"
    | (evaluated) n m where "\<not> unsafe_retry i" "safe_count (ri_repeated_failures i) = Some n" "0 \<le> n"
      "\<And>x k. ri_max_repeated_failures i = Some x \<Longrightarrow> safe_count x = Some k \<Longrightarrow> k = m"
      "r = (case ri_classification i of
         Some c \<Rightarrow> classified_retry i c n (guardrail_outcome c n (map_option (\<lambda>_. m) (ri_max_repeated_failures i)))
       | None \<Rightarrow> unclassified_retry i n (map_option (\<lambda>_. m) (ri_max_repeated_failures i)))"
proof -
  obtain n m where n: "safe_count (ri_repeated_failures i) = Some n"
    and m: "safe_count (or_else (ri_max_repeated_failures i) (Fin 0)) = Some m"
    using assms unfolding evaluate_retry_guardrails_def bindr_Inr_iff check_count_Inr by blast
  have c: "check_count retry_count_error (ri_repeated_failures i) = Inr n"
    "check_count retry_count_error (or_else (ri_max_repeated_failures i) (Fin 0)) = Inr m"
    using n m by (simp_all add: check_count_Inr)
  show thesis
  proof (cases "unsafe_retry i")
    case True
    with assms c have "\<not> rt_allow_retry r"
      by (auto simp: evaluate_retry_guardrails_def simple_retry_def)
    with True show thesis by (rule unsafe)
  next
    case False
    have "apply_retry_guardrails cl (ri_repeated_failures i) (ri_max_repeated_failures i)
        = Inr (guardrail_outcome cl n (map_option (\<lambda>_. m) (ri_max_repeated_failures i)))" for cl
      using c by (simp add: apply_retry_guardrails_def)
    then have "r = (case ri_classification i of
         Some c \<Rightarrow> classified_retry i c n (guardrail_outcome c n (map_option (\<lambda>_. m) (ri_max_repeated_failures i)))
       | None \<Rightarrow> unclassified_retry i n (map_option (\<lambda>_. m) (ri_max_repeated_failures i)))"
      using assms c False by (cases "ri_classification i") (simp_all add: evaluate_retry_guardrails_def)
    moreover have "0 \<le> n" using n by (auto dest: safe_count_SomeD)
    moreover have "k = m" if "ri_max_repeated_failures i = Some x" "safe_count x = Some k" for x k
      using m that by simp
    ultimately show thesis using n False by (intro evaluated)
  qed
qed

section \<open>Properties\<close>

text \<open>C26: the coordinator allows a retry only for a failure that is marked retryable, of a category
  that does not need a person, that is not an unsafe mutation, whose limit type (if any) is no hard
  stop; fewer times than the caller's maximum and than the budget of the limit type - once for an
  acceleration limit, three times for an overload, twice for the others and without a classification;
  and after a delay between 0 and 300 seconds.\<close>

theorem retry_allowed_only_if_safe:
  assumes "evaluate_retry_guardrails i = Inr r" "rt_allow_retry r"
  shows "rf_retryable (ri_failure i) \<and> rf_category (ri_failure i) \<notin> set manual_categories
    \<and> ri_idempotency_safe i \<noteq> Some False \<and> (ri_mutation i = Some True \<longrightarrow> ri_idempotency_safe i = Some True)
    \<and> (\<forall>c. ri_classification i = Some c \<longrightarrow>
         lc_type c \<notin> set hard_stop_types \<and> ra_retry_same_session (lc_routing_action c))
    \<and> (\<exists>n. safe_count (ri_repeated_failures i) = Some n
         \<and> (case ri_classification i of None \<Rightarrow> n < 2
            | Some c \<Rightarrow> (lc_type c, n) \<in> {(Acceleration_limit, 0), (Burst_rate_limit, 0), (Burst_rate_limit, 1),
                (Concurrency_cap, 0), (Concurrency_cap, 1), (Token_rate_limit, 0), (Token_rate_limit, 1),
                (Overload_or_transient, 0), (Overload_or_transient, 1), (Overload_or_transient, 2)})
         \<and> (\<forall>x m. ri_max_repeated_failures i = Some x \<longrightarrow> safe_count x = Some m \<longrightarrow> n < m))
    \<and> (\<exists>d. rt_retry_after_seconds r = Some d \<and> 0 \<le> d \<and> d \<le> 300)"
  using assms(1)
proof (cases rule: evaluate_retry_cases)
  case unsafe
  with assms(2) show ?thesis by simp
next
  case (evaluated n m)
  note safe = evaluated(1) [unfolded unsafe_retry_def]
  show ?thesis
  proof (cases "ri_classification i")
    case (Some c)
    let ?g = "guardrail_outcome c n (map_option (\<lambda>_. m) (ri_max_repeated_failures i))"
    have "r = classified_retry i c n ?g" using evaluated(5) Some by simp
    then have a: "gd_allow_retry ?g" "rf_retryable (ri_failure i)" "rt_retry_after_seconds r = Some (gd_next_delay_seconds ?g)"
      using assms(2) by (auto simp: classified_retry_def not_retryable_def simple_retry_def split: if_splits)
    note g = a(1) [unfolded guardrail_outcome_allows]
    have "(lc_type c, n) \<in> {(Acceleration_limit, 0), (Burst_rate_limit, 0), (Burst_rate_limit, 1),
                (Concurrency_cap, 0), (Concurrency_cap, 1), (Token_rate_limit, 0), (Token_rate_limit, 1),
                (Overload_or_transient, 0), (Overload_or_transient, 1), (Overload_or_transient, 2)}"
      using g evaluated(3) by (cases "lc_type c") auto
    moreover have "n < k" if "ri_max_repeated_failures i = Some x" "safe_count x = Some k" for x k
      using g evaluated(4) [OF that] that by simp
    ultimately show ?thesis
      using a(2,3) g evaluated(2) safe Some guardrail_outcome_delay [OF evaluated(3), of c] by auto
  next
    case None
    then have "r = unclassified_retry i n (map_option (\<lambda>_. m) (ri_max_repeated_failures i))"
      using evaluated(5) by simp
    with assms(2) have u: "rf_retryable (ri_failure i)"
      "n < min (or_else (map_option (\<lambda>_. m) (ri_max_repeated_failures i)) 2) 2"
      "rt_retry_after_seconds r = Some (backoff_delay n)"
      by (auto simp: unclassified_retry_def simple_retry_def not_retryable_def Let_def split: if_splits)
    have "n < k" if "ri_max_repeated_failures i = Some x" "safe_count x = Some k" for x k
      using u(2) evaluated(4) [OF that] that by simp
    with None u evaluated(2) safe backoff_delay_bounds [OF evaluated(3)] show ?thesis by auto
  qed
qed

definition demo_failure :: runtime_failure where
  "demo_failure = \<lparr>rf_category = Timeout, rf_retryable = True, rf_actor = Provider, rf_scope = Scope_turn,
     rf_message = ''timed out'', rf_retry_after_seconds = None, rf_reset_at = None\<rparr>"

definition demo_input :: retry_guardrail_input where
  "demo_input = \<lparr>ri_failure = demo_failure, ri_classification = None, ri_repeated_failures = Fin 1,
     ri_max_repeated_failures = None, ri_idempotency_safe = None, ri_mutation = None\<rparr>"

lemma retry_allowed_only_if_safe_witness:
  "\<exists>r d. evaluate_retry_guardrails demo_input = Inr r \<and> rt_retry_after_seconds r = Some d \<and> d \<le> 300"
proof -
  have r: "evaluate_retry_guardrails demo_input = Inr ((simple_retry True Retry_same_session
      ''retryable runtime failure'')\<lparr>rt_retry_after_seconds := Some 2\<rparr>)"
    by code_simp
  from retry_allowed_only_if_safe [OF this] r show ?thesis
    by (auto simp: simple_retry_def)
qed

text \<open>the failure policy pauses a provider family exactly when the classification gives a
  cooldown for it, and then it never allows a retry; otherwise it does what the guardrails say.\<close>

theorem failure_policy_pause:
  assumes "evaluate_failure_policy i observed_at = Inr d"
  shows "(fp_action d = Pause_provider_family \<longleftrightarrow> fp_provider_cooldown d \<noteq> None)
    \<and> (fp_provider_cooldown d \<noteq> None \<longleftrightarrow> (\<exists>c p. ri_classification i = Some c
         \<and> lc_type c \<in> set hard_stop_types \<and> lc_provider c = Some p \<and> p \<in> set provider_family_ids))
    \<and> (fp_provider_cooldown d \<noteq> None \<longrightarrow> \<not> fp_allow_retry d)"
proof -
  obtain r where r: "evaluate_retry_guardrails i = Inr r"
    and d: "fp_allow_retry d = rt_allow_retry r"
      "fp_provider_cooldown d = (case ri_classification i of None \<Rightarrow> None
         | Some c \<Rightarrow> derive_provider_family_cooldown c observed_at)"
      "fp_action d = (if fp_provider_cooldown d \<noteq> None \<and> \<not> rt_allow_retry r then Pause_provider_family
                      else Do_retry_action (rt_action r))"
    using assms by (auto simp: evaluate_failure_policy_def res_simps Let_def)
  have cool: "fp_provider_cooldown d \<noteq> None \<longleftrightarrow> (\<exists>c p. ri_classification i = Some c
         \<and> lc_type c \<in> set hard_stop_types \<and> lc_provider c = Some p \<and> p \<in> set provider_family_ids)"
    unfolding d(2) by (auto simp: derive_provider_family_cooldown_def provider_cooldown_types_hard
        is_provider_family_id_def split: option.splits)
  have "\<not> rt_allow_retry r" if "fp_provider_cooldown d \<noteq> None"
    using r
  proof (cases rule: evaluate_retry_cases)
    case unsafe
    then show ?thesis by simp
  next
    case (evaluated n m)
    from that cool obtain c where "ri_classification i = Some c" "lc_type c \<in> set hard_stop_types" by blast
    with evaluated(5) show ?thesis
      by (simp add: classified_retry_def guardrail_outcome_allows)
  qed
  with cool d(1,3) show ?thesis by auto
qed

definition demo_classification :: "limit_type \<Rightarrow> limit_classification" where
  "demo_classification ty = \<lparr>lc_type = ty, lc_scope = L_project, lc_confidence = 0,
     lc_provider = Some ''openai'', lc_harness = Some ''codex'', lc_identity_profile_id = None,
     lc_session_id = None, lc_retry_after_seconds = None, lc_reset_at = None,
     lc_raw_signal = \<lparr>rs_status_code = None, rs_exit_code = None, rs_stderr_excerpt = None,
       rs_stdout_excerpt = None, rs_headers = None\<rparr>,
     lc_routing_action = routing_action_matrix ty, lc_notes = None\<rparr>"

lemma failure_policy_pause_witness:
  "\<exists>d. evaluate_failure_policy (demo_input\<lparr>ri_classification := Some (demo_classification Fixed_window_usage_cap)\<rparr>)
        ''2026-01-01T00:00:00Z'' = Inr d \<and> fp_action d = Pause_provider_family"
proof -
  let ?i = "demo_input\<lparr>ri_classification := Some (demo_classification Fixed_window_usage_cap)\<rparr>"
  have "\<not> isl (evaluate_failure_policy (demo_input\<lparr>ri_classification :=
      Some (demo_classification Fixed_window_usage_cap)\<rparr>) ''2026-01-01T00:00:00Z'')"
    by code_simp
  then obtain d where d: "evaluate_failure_policy ?i ''2026-01-01T00:00:00Z'' = Inr d"
    by (cases "evaluate_failure_policy ?i ''2026-01-01T00:00:00Z''") auto
  from failure_policy_pause [OF d] d show ?thesis
    by (auto simp: demo_classification_def hard_stop_types_def provider_family_ids_def)
qed

end
