(* ===== verification/ActiveTurns.thy ===== *)
theory ActiveTurns
  imports RateLimitActions "HOL-Library.AList"
begin

text \<open>
  Counting of active turns (\<open>packages/coordinator/src/active-turns.ts\<close>): the snapshot built from
  profile statuses, its increments and decrements, and the accounting object that owns each turn
  once. Counts are JavaScript numbers until \<open>normalizeCount\<close> accepts them; a sum of two accepted
  counts is exact whenever it is accepted, since a sum above the safe range is still above it
  after rounding.
\<close>

section \<open>Snapshots\<close>

record active_turn_snapshot =
  ats_total_active_turns :: jsnum
  ats_by_profile_id :: "jsnum obj"
  ats_by_provider :: "jsnum obj"
  ats_by_session_id :: "jsnum obj"

record turn_options =
  to_profile_id :: string
  to_provider :: string
  to_session_id :: "string option"
  to_delta :: "jsnum option"

definition active_count_error :: thrown where
  "active_count_error = Type_error ''Active turn counts must be nonnegative safe integers''"

definition normalize_count :: "jsnum option \<Rightarrow> (thrown, int) result" where
  "normalize_count v = (case v of None \<Rightarrow> Inr 0 | Some x \<Rightarrow> check_count active_count_error x)"

definition js_int :: "int \<Rightarrow> jsnum" where
  "js_int n = Fin (of_int n)"

definition add_counts :: "int \<Rightarrow> int \<Rightarrow> (thrown, int) result" where
  "add_counts a b = normalize_count (Some (js_int (a + b)))"

definition create_empty_active_turn_snapshot :: active_turn_snapshot where
  "create_empty_active_turn_snapshot = \<lparr>ats_total_active_turns = js_int 0, ats_by_profile_id = [],
     ats_by_provider = [], ats_by_session_id = []\<rparr>"

fun build_snapshot_loop :: "identity_profile_status list \<Rightarrow> jsnum obj \<Rightarrow> jsnum obj \<Rightarrow> int
    \<Rightarrow> (thrown, active_turn_snapshot) result" where
  "build_snapshot_loop [] by_profile by_provider tot =
     Inr \<lparr>ats_total_active_turns = js_int tot, ats_by_profile_id = by_profile,
          ats_by_provider = by_provider, ats_by_session_id = []\<rparr>"
| "build_snapshot_loop (s # ss) by_profile by_provider tot =
     bindr (normalize_count (Some (is_active_turns s))) (\<lambda>n.
     bindr (normalize_count (obj_get by_provider (is_provider s))) (\<lambda>p.
     bindr (add_counts p n) (\<lambda>p'.
     bindr (add_counts tot n) (\<lambda>t'.
       build_snapshot_loop ss (obj_set (is_profile_id s) (js_int n) by_profile)
         (obj_set (is_provider s) (js_int p') by_provider) t'))))"

definition build_active_turn_snapshot ::
  "identity_profile_status list \<Rightarrow> (thrown, active_turn_snapshot) result" where
  "build_active_turn_snapshot statuses = build_snapshot_loop statuses [] [] 0"

text \<open>\<open>obj[k] = normalizeCount(normalizeCount(obj[k]) + delta)\<close>\<close>

definition bump :: "string \<Rightarrow> int \<Rightarrow> jsnum obj \<Rightarrow> (thrown, jsnum obj) result" where
  "bump k delta ob = bindr (normalize_count (obj_get ob k)) (\<lambda>n.
     bindr (add_counts n delta) (\<lambda>n'. Inr (obj_set k (js_int n') ob)))"

definition increment_active_turns ::
  "active_turn_snapshot \<Rightarrow> turn_options \<Rightarrow> (thrown, active_turn_snapshot) result" where
  "increment_active_turns s opt =
     bindr (normalize_count (Some (or_else (to_delta opt) (js_int 1)))) (\<lambda>delta.
     bindr (bump (to_profile_id opt) delta (ats_by_profile_id s)) (\<lambda>by_profile.
     bindr (bump (to_provider opt) delta (ats_by_provider s)) (\<lambda>by_provider.
     bindr (case to_session_id opt of None \<Rightarrow> Inr (ats_by_session_id s)
            | Some sid \<Rightarrow> bump sid delta (ats_by_session_id s)) (\<lambda>by_session.
     bindr (normalize_count (Some (ats_total_active_turns s))) (\<lambda>t.
     bindr (add_counts t delta) (\<lambda>t'.
       Inr \<lparr>ats_total_active_turns = js_int t', ats_by_profile_id = by_profile,
            ats_by_provider = by_provider, ats_by_session_id = by_session\<rparr>))))))"

definition settlement_error :: thrown where
  "settlement_error = Type_error ''Active turn settlement exceeds owned counts''"

definition decrement_active_turns ::
  "active_turn_snapshot \<Rightarrow> turn_options \<Rightarrow> (thrown, active_turn_snapshot) result" where
  "decrement_active_turns s opt =
     bindr (normalize_count (Some (or_else (to_delta opt) (js_int 1)))) (\<lambda>delta.
     bindr (normalize_count (obj_get (ats_by_profile_id s) (to_profile_id opt))) (\<lambda>profile.
     bindr (normalize_count (obj_get (ats_by_provider s) (to_provider opt))) (\<lambda>provider.
     bindr (case to_session_id opt of None \<Rightarrow> Inr None
            | Some sid \<Rightarrow> bindr (normalize_count (obj_get (ats_by_session_id s) sid)) (\<lambda>n. Inr (Some n))) (\<lambda>session.
     bindr (normalize_count (Some (ats_total_active_turns s))) (\<lambda>tot.
     if profile < delta \<or> provider < delta \<or> tot < delta
        \<or> (case session of None \<Rightarrow> False | Some n \<Rightarrow> n < delta)
     then Inl settlement_error
     else Inr \<lparr>ats_total_active_turns = js_int (tot - delta),
               ats_by_profile_id = obj_set (to_profile_id opt) (js_int (profile - delta)) (ats_by_profile_id s),
               ats_by_provider = obj_set (to_provider opt) (js_int (provider - delta)) (ats_by_provider s),
               ats_by_session_id = (case (to_session_id opt, session) of
                  (Some sid, Some n) \<Rightarrow> obj_set sid (js_int (n - delta)) (ats_by_session_id s)
                | _ \<Rightarrow> ats_by_session_id s)\<rparr>)))))"

section \<open>Accounting\<close>

text \<open>The key is \<open>JSON.stringify([sessionId ?? null, turnId])\<close>, one text per pair.\<close>

type_synonym turn_key = "string option \<times> string"

record turn_accounting =
  ta_current :: active_turn_snapshot
  ta_turns :: "(turn_key \<times> (turn_options \<times> bool)) list"

definition new_accounting :: "active_turn_snapshot option \<Rightarrow> turn_accounting" where
  "new_accounting s = \<lparr>ta_current = or_else s create_empty_active_turn_snapshot, ta_turns = []\<rparr>"

text \<open>A throw leaves the object as it was.\<close>

definition begin_turn :: "turn_accounting \<Rightarrow> string \<Rightarrow> turn_options \<Rightarrow> (thrown, turn_accounting) result" where
  "begin_turn st turn_id opt =
     (let key = (to_session_id opt, turn_id) in
      if turn_id = [] \<or> map_of (ta_turns st) key \<noteq> None
      then Inl (Type_error ''Turn accounting identity must be new'')
      else let owned = opt\<lparr>to_delta := Some (js_int 1)\<rparr> in
        bindr (increment_active_turns (ta_current st) owned) (\<lambda>s.
          Inr \<lparr>ta_current = s, ta_turns = AList.update key (owned, False) (ta_turns st)\<rparr>))"

definition settle_turn :: "turn_accounting \<Rightarrow> string \<Rightarrow> string option \<Rightarrow> (thrown, turn_accounting) result" where
  "settle_turn st turn_id session_id =
     (let key = (session_id, turn_id) in
      case map_of (ta_turns st) key of
        None \<Rightarrow> Inl (Type_error ''Turn accounting identity is not owned'')
      | Some (owned, settled) \<Rightarrow>
          if settled then Inr st
          else bindr (decrement_active_turns (ta_current st) owned) (\<lambda>s.
            Inr \<lparr>ta_current = s, ta_turns = AList.update key (owned, True) (ta_turns st)\<rparr>))"

inductive accounting_reachable :: "turn_accounting \<Rightarrow> bool" where
  acc_new: "accounting_reachable (new_accounting None)"
| acc_begin: "accounting_reachable st \<Longrightarrow> begin_turn st t opt = Inr st' \<Longrightarrow> accounting_reachable st'"
| acc_settle: "accounting_reachable st \<Longrightarrow> settle_turn st t sid = Inr st' \<Longrightarrow> accounting_reachable st'"

section \<open>Facts about counts\<close>

lemma normalize_count_None [simp]: "normalize_count None = Inr 0"
  by (simp add: normalize_count_def)

lemma normalize_count_js_int [res_simps]: "normalize_count (Some (js_int n)) = Inr m \<longleftrightarrow> m = n \<and> 0 \<le> n \<and> n \<le> max_safe"
  by (auto simp: normalize_count_def js_int_def check_count_Inr safe_count_def safe_integer_def split: if_splits)

lemma add_counts_Inr [res_simps]: "add_counts a b = Inr c \<longleftrightarrow> c = a + b \<and> 0 \<le> a + b \<and> a + b \<le> max_safe"
  by (auto simp: add_counts_def normalize_count_js_int)

text \<open>\<open>counts ob f\<close>: the object holds the count \<open>f k\<close> under each key, a missing key standing for 0.\<close>

definition counts :: "jsnum obj \<Rightarrow> (string \<Rightarrow> int) \<Rightarrow> bool" where
  "counts ob f \<longleftrightarrow> (\<forall>k. normalize_count (obj_get ob k) = Inr (f k))"

lemma counts_Nil: "counts [] (\<lambda>_. 0)"
  by (simp add: counts_def)

lemma countsD: "counts ob f \<Longrightarrow> normalize_count (obj_get ob k) = Inr (f k)"
  by (simp add: counts_def)

lemma counts_set: "counts ob f \<Longrightarrow> 0 \<le> n \<Longrightarrow> n \<le> max_safe \<Longrightarrow> counts (obj_set k (js_int n) ob) (f(k := n))"
  by (simp add: counts_def obj_get_set normalize_count_js_int)

lemma counts_bump: "counts ob f \<Longrightarrow> bump k d ob = Inr ob' \<Longrightarrow> counts ob' (f(k := f k + d))"
  by (auto simp: bump_def res_simps countsD intro: counts_set)

section \<open>The open turns\<close>

definition open_turns :: "(turn_options \<Rightarrow> bool) \<Rightarrow> (turn_key \<times> (turn_options \<times> bool)) list \<Rightarrow> int" where
  "open_turns P ts = int (length (filter (\<lambda>(_, (opt, settled)). \<not> settled \<and> P opt) ts))"

lemma open_turns_Nil [simp]: "open_turns P [] = 0"
  by (simp add: open_turns_def)

lemma open_turns_Cons [simp]:
  "open_turns P ((k, (opt, settled)) # ts) = (if \<not> settled \<and> P opt then 1 else 0) + open_turns P ts"
  by (simp add: open_turns_def)

lemma open_turns_nonneg [simp]: "0 \<le> open_turns P ts"
  by (simp add: open_turns_def)

lemma open_turns_begin:
  "map_of ts key = None \<Longrightarrow>
   open_turns P (AList.update key (opt, False) ts) = open_turns P ts + (if P opt then 1 else 0)"
  by (induction ts) auto

lemma open_turns_settle:
  "map_of ts key = Some (opt, False) \<Longrightarrow>
   open_turns P (AList.update key (opt, True) ts) = open_turns P ts - (if P opt then 1 else 0)"
  by (induction ts) (auto split: if_splits)

lemma open_turns_pos: "map_of ts key = Some (opt, False) \<Longrightarrow> P opt \<Longrightarrow> 1 \<le> open_turns P ts"
  by (induction ts) (auto split: if_splits)

lemma open_turns_le: "open_turns P ts \<le> open_turns (\<lambda>_. True) ts"
  by (induction ts) auto

text \<open>The object agrees with its map of turns.\<close>

definition accounting_ok :: "turn_accounting \<Rightarrow> bool" where
  "accounting_ok st \<longleftrightarrow>
     ats_total_active_turns (ta_current st) = js_int (open_turns (\<lambda>_. True) (ta_turns st))
     \<and> open_turns (\<lambda>_. True) (ta_turns st) \<le> max_safe
     \<and> counts (ats_by_profile_id (ta_current st)) (\<lambda>k. open_turns (\<lambda>p. to_profile_id p = k) (ta_turns st))
     \<and> counts (ats_by_provider (ta_current st)) (\<lambda>k. open_turns (\<lambda>p. to_provider p = k) (ta_turns st))
     \<and> counts (ats_by_session_id (ta_current st)) (\<lambda>k. open_turns (\<lambda>p. to_session_id p = Some k) (ta_turns st))
     \<and> (\<forall>key p s. map_of (ta_turns st) key = Some (p, s) \<longrightarrow> to_delta p = Some (js_int 1) \<and> to_session_id p = fst key)"

lemma accounting_ok_new: "accounting_ok (new_accounting None)"
  by (simp add: accounting_ok_def new_accounting_def create_empty_active_turn_snapshot_def counts_Nil max_safe_def)

lemma accounting_ok_begin:
  assumes "accounting_ok st" "begin_turn st t opt = Inr st'"
  shows "accounting_ok st'"
proof -
  let ?o = "opt\<lparr>to_delta := Some (js_int 1)\<rparr>" and ?key = "(to_session_id opt, t)"
  obtain s where new: "map_of (ta_turns st) ?key = None"
    and s: "increment_active_turns (ta_current st) ?o = Inr s"
    and st': "st' = \<lparr>ta_current = s, ta_turns = AList.update ?key (?o, False) (ta_turns st)\<rparr>"
    using assms(2)
    by (cases "map_of (ta_turns st) ?key") (auto simp: begin_turn_def Let_def res_simps split: if_splits)
  note upd = open_turns_begin [OF new]
  obtain bp bv bs where b: "bump (to_profile_id opt) 1 (ats_by_profile_id (ta_current st)) = Inr bp"
    "bump (to_provider opt) 1 (ats_by_provider (ta_current st)) = Inr bv"
    "(case to_session_id opt of None \<Rightarrow> Inr (ats_by_session_id (ta_current st))
       | Some sid \<Rightarrow> bump sid 1 (ats_by_session_id (ta_current st))) = Inr bs"
    "open_turns (\<lambda>_. True) (ta_turns st) + 1 \<le> max_safe"
    "s = \<lparr>ats_total_active_turns = js_int (open_turns (\<lambda>_. True) (ta_turns st) + 1), ats_by_profile_id = bp,
          ats_by_provider = bv, ats_by_session_id = bs\<rparr>"
    using s assms(1) by (auto simp: increment_active_turns_def accounting_ok_def res_simps)
  have "counts bp (\<lambda>k. open_turns (\<lambda>p. to_profile_id p = k) (AList.update ?key (?o, False) (ta_turns st)))"
    using counts_bump [OF _ b(1)] assms(1) unfolding upd accounting_ok_def
    by (elim conjE) (rule back_subst [of "counts bp"], blast, auto)
  moreover have "counts bv (\<lambda>k. open_turns (\<lambda>p. to_provider p = k) (AList.update ?key (?o, False) (ta_turns st)))"
    using counts_bump [OF _ b(2)] assms(1) unfolding upd accounting_ok_def
    by (elim conjE) (rule back_subst [of "counts bv"], blast, auto)
  moreover have "counts bs (\<lambda>k. open_turns (\<lambda>p. to_session_id p = Some k) (AList.update ?key (?o, False) (ta_turns st)))"
  proof (cases "to_session_id opt")
    case None
    with b(3) assms(1) show ?thesis unfolding upd by (simp add: accounting_ok_def)
  next
    case (Some sid)
    then have "bump sid 1 (ats_by_session_id (ta_current st)) = Inr bs" using b(3) by simp
    then show ?thesis
      using counts_bump [of "ats_by_session_id (ta_current st)" _ sid 1 bs] assms(1) Some
      unfolding upd accounting_ok_def
      by (elim conjE) (rule back_subst [of "counts bs"], blast, auto)
  qed
  ultimately show ?thesis
    using assms(1) b(4) by (auto simp: accounting_ok_def st' b(5) upd update_conv' split: if_splits)
qed

lemma decrement_owned:
  assumes "accounting_ok st" "map_of (ta_turns st) key = Some (opt, False)"
  obtains s where "decrement_active_turns (ta_current st) opt = Inr s"
    "accounting_ok \<lparr>ta_current = s, ta_turns = AList.update key (opt, True) (ta_turns st)\<rparr>"
proof -
  let ?ts = "AList.update key (opt, True) (ta_turns st)"
  note ok = assms(1) [unfolded accounting_ok_def]
  note upd = open_turns_settle [OF assms(2)]
  note pos = open_turns_pos [OF assms(2)]
  have le: "open_turns P (ta_turns st) \<le> max_safe" for P
    using ok open_turns_le [of P "ta_turns st"] by linarith
  have okkeys: "to_delta p = Some (js_int 1) \<and> to_session_id p = fst k" if "map_of (ta_turns st) k = Some (p, x)" for k p x
    using ok that by blast
  then have nd: "to_delta opt = Some (js_int 1)" using assms(2) by blast
  have p: "normalize_count (obj_get (ats_by_profile_id (ta_current st)) (to_profile_id opt))
      = Inr (open_turns (\<lambda>p. to_profile_id p = to_profile_id opt) (ta_turns st))"
    and v: "normalize_count (obj_get (ats_by_provider (ta_current st)) (to_provider opt))
      = Inr (open_turns (\<lambda>p. to_provider p = to_provider opt) (ta_turns st))"
    and s: "\<And>k. normalize_count (obj_get (ats_by_session_id (ta_current st)) k)
      = Inr (open_turns (\<lambda>p. to_session_id p = Some k) (ta_turns st))"
    and t: "normalize_count (Some (ats_total_active_turns (ta_current st))) = Inr (open_turns (\<lambda>_. True) (ta_turns st))"
    using ok by (auto simp: counts_def normalize_count_js_int)
  have d: "normalize_count (Some (js_int 1)) = Inr 1"
    by (simp add: normalize_count_js_int max_safe_def)
  define bs where "bs = (case to_session_id opt of None \<Rightarrow> ats_by_session_id (ta_current st)
      | Some k \<Rightarrow> obj_set k (js_int (open_turns (\<lambda>p. to_session_id p = Some k) (ta_turns st) - 1)) (ats_by_session_id (ta_current st)))"
  define s' where "s' = \<lparr>ats_total_active_turns = js_int (open_turns (\<lambda>_. True) (ta_turns st) - 1),
     ats_by_profile_id = obj_set (to_profile_id opt)
       (js_int (open_turns (\<lambda>p. to_profile_id p = to_profile_id opt) (ta_turns st) - 1)) (ats_by_profile_id (ta_current st)),
     ats_by_provider = obj_set (to_provider opt)
       (js_int (open_turns (\<lambda>p. to_provider p = to_provider opt) (ta_turns st) - 1)) (ats_by_provider (ta_current st)),
     ats_by_session_id = bs\<rparr>"
  show thesis
  proof (rule that [of s'])
    show "decrement_active_turns (ta_current st) opt = Inr s'"
      using p v s t d nd pos [of "\<lambda>_. True"] pos [of "\<lambda>p. to_profile_id p = to_profile_id opt"]
        pos [of "\<lambda>p. to_provider p = to_provider opt"] pos [of "\<lambda>p. to_session_id p = to_session_id opt"]
      by (cases "to_session_id opt") (simp_all add: decrement_active_turns_def s'_def bs_def)
  next
    note set = counts_set [where n = "open_turns P (ta_turns st) - 1" for P]
    have "counts (ats_by_profile_id s') (\<lambda>k. open_turns (\<lambda>p. to_profile_id p = k) ?ts)"
      unfolding s'_def upd using ok pos [of "\<lambda>p. to_profile_id p = to_profile_id opt"] le [of "\<lambda>p. to_profile_id p = to_profile_id opt"]
      by (auto simp: counts_def obj_get_set normalize_count_js_int)
    moreover have "counts (ats_by_provider s') (\<lambda>k. open_turns (\<lambda>p. to_provider p = k) ?ts)"
      unfolding s'_def upd using ok pos [of "\<lambda>p. to_provider p = to_provider opt"] le [of "\<lambda>p. to_provider p = to_provider opt"]
      by (auto simp: counts_def obj_get_set normalize_count_js_int)
    moreover have "counts (ats_by_session_id s') (\<lambda>k. open_turns (\<lambda>p. to_session_id p = Some k) ?ts)"
      unfolding s'_def bs_def upd using ok pos [of "\<lambda>p. to_session_id p = to_session_id opt"]
        le [of "\<lambda>p. to_session_id p = to_session_id opt"]
      by (cases "to_session_id opt") (auto simp: counts_def obj_get_set normalize_count_js_int)
    moreover have keys: "to_delta p = Some (js_int 1) \<and> to_session_id p = fst k"
      if "map_of ?ts k = Some (p, x)" for k p x
      using that okkeys [of k] okkeys [OF assms(2)] by (cases "k = key") (auto simp: update_conv')
    moreover have tot: "ats_total_active_turns s' = js_int (open_turns (\<lambda>_. True) ?ts) \<and> open_turns (\<lambda>_. True) ?ts \<le> max_safe"
      using ok by (simp add: s'_def upd)
    ultimately show "accounting_ok \<lparr>ta_current = s', ta_turns = ?ts\<rparr>"
      using keys tot by (simp add: accounting_ok_def)
  qed
qed

lemma accounting_ok_settle:
  assumes "accounting_ok st" "settle_turn st t sid = Inr st'"
  shows "accounting_ok st'"
proof (cases "map_of (ta_turns st) (sid, t)")
  case None
  with assms(2) show ?thesis by (simp add: settle_turn_def Let_def)
next
  case (Some e)
  obtain opt settled where e: "e = (opt, settled)" by (cases e)
  show ?thesis
  proof (cases settled)
    case True
    with assms Some e show ?thesis by (simp add: settle_turn_def Let_def)
  next
    case False
    with Some e have m: "map_of (ta_turns st) (sid, t) = Some (opt, False)" by simp
    obtain s where "decrement_active_turns (ta_current st) opt = Inr s"
      "accounting_ok \<lparr>ta_current = s, ta_turns = AList.update (sid, t) (opt, True) (ta_turns st)\<rparr>"
      using decrement_owned [OF assms(1) m] by blast
    with assms(2) m show ?thesis by (simp add: settle_turn_def Let_def)
  qed
qed

lemma reachable_accounting_ok: "accounting_reachable st \<Longrightarrow> accounting_ok st"
  by (induction rule: accounting_reachable.induct)
    (auto intro: accounting_ok_new accounting_ok_begin accounting_ok_settle)

section \<open>Properties\<close>

text \<open>C13: an accounting object that starts empty always reports exactly the turns that were begun
  and not yet settled: in total, per profile, per provider and per session.\<close>

theorem accounting_exact:
  assumes "accounting_reachable st"
  shows "ats_total_active_turns (ta_current st) = js_int (open_turns (\<lambda>_. True) (ta_turns st))
    \<and> normalize_count (obj_get (ats_by_profile_id (ta_current st)) k) = Inr (open_turns (\<lambda>p. to_profile_id p = k) (ta_turns st))
    \<and> normalize_count (obj_get (ats_by_provider (ta_current st)) k) = Inr (open_turns (\<lambda>p. to_provider p = k) (ta_turns st))
    \<and> normalize_count (obj_get (ats_by_session_id (ta_current st)) k) = Inr (open_turns (\<lambda>p. to_session_id p = Some k) (ta_turns st))"
  using reachable_accounting_ok [OF assms] by (simp add: accounting_ok_def counts_def)

text \<open>a turn that was begun can always be settled, and settling it a second time changes
  nothing: the counts go down once per turn.\<close>

theorem settle_once:
  assumes "accounting_reachable st" "map_of (ta_turns st) (sid, t) \<noteq> None"
  shows "\<exists>st'. settle_turn st t sid = Inr st' \<and> settle_turn st' t sid = Inr st'
    \<and> (\<forall>P. open_turns P (ta_turns st') \<le> open_turns P (ta_turns st))"
proof -
  from assms(2) obtain opt settled where m: "map_of (ta_turns st) (sid, t) = Some (opt, settled)" by auto
  show ?thesis
  proof (cases settled)
    case True
    with m show ?thesis by (auto simp: settle_turn_def Let_def)
  next
    case False
    with m have m: "map_of (ta_turns st) (sid, t) = Some (opt, False)" by simp
    obtain s where "decrement_active_turns (ta_current st) opt = Inr s"
      using decrement_owned [OF reachable_accounting_ok [OF assms(1)] m] by blast
    with m show ?thesis
      by (auto simp: settle_turn_def Let_def update_conv' open_turns_settle)
  qed
qed

definition demo_turn :: turn_options where
  "demo_turn = \<lparr>to_profile_id = ''p1'', to_provider = ''openai'', to_session_id = Some ''s1'', to_delta = None\<rparr>"

definition demo_accounting :: turn_accounting where
  "demo_accounting = \<lparr>ta_current = \<lparr>ats_total_active_turns = Fin 1, ats_by_profile_id = [(''p1'', Fin 1)],
       ats_by_provider = [(''openai'', Fin 1)], ats_by_session_id = [(''s1'', Fin 1)]\<rparr>,
     ta_turns = [((Some ''s1'', ''t1''), (demo_turn\<lparr>to_delta := Some (Fin 1)\<rparr>, False))]\<rparr>"

lemma demo_begin: "begin_turn (new_accounting None) ''t1'' demo_turn = Inr demo_accounting"
  by code_simp

lemma demo_accounting_reachable: "accounting_reachable demo_accounting"
  using acc_begin [OF acc_new demo_begin] .

lemma accounting_exact_witness:
  "normalize_count (obj_get (ats_by_session_id (ta_current demo_accounting)) ''s1'') = Inr 1"
  using accounting_exact [OF demo_accounting_reachable, of "''s1''"]
  by (simp add: demo_accounting_def demo_turn_def open_turns_def js_int_def)

lemma settle_once_witness:
  "\<exists>st'. settle_turn demo_accounting ''t1'' (Some ''s1'') = Inr st' \<and> settle_turn st' ''t1'' (Some ''s1'') = Inr st'"
  using settle_once [OF demo_accounting_reachable, of "Some ''s1''" "''t1''"]
  by (auto simp: demo_accounting_def)

end
