(* ===== verification/IdentityPool.thy ===== *)
theory IdentityPool
  imports RetryPolicy ActiveTurns "HOL-Library.Multiset"
begin

text \<open>
  The adaptive target of active turns (\<open>packages/coordinator/src/adaptive-concurrency.ts\<close>) and the
  pool of candidate identities (\<open>packages/coordinator/src/identity-pool.ts\<close>). \<open>lc\<close> stands for
  \<open>localeCompare\<close>.
\<close>

section \<open>Adaptive concurrency\<close>

record adaptive_concurrency_decision =
  acd_target_active_turns :: int
  acd_available_turn_slots :: int
  acd_current_capacity :: rat
  acd_reduced :: bool
  acd_reasons :: "string list"

definition concurrency_count_error :: thrown where
  "concurrency_count_error = Type_error ''Concurrency counts must be nonnegative safe integers''"

definition clamp_int :: "int \<Rightarrow> int \<Rightarrow> int \<Rightarrow> int" where
  "clamp_int v lo hi = min hi (max lo v)"

text \<open>\<open>Number.isFinite(h) && 0 <= h <= 1\<close>, for an optional number.\<close>

definition check_health :: "jsnum option \<Rightarrow> (thrown, rat option) result" where
  "check_health h = (case h of
       None \<Rightarrow> Inr None
     | Some (Fin q) \<Rightarrow> if 0 \<le> q \<and> q \<le> 1 then Inr (Some q)
                       else Inl (Type_error ''Provider health must be between zero and one'')
     | Some _ \<Rightarrow> Inl (Type_error ''Provider health must be between zero and one''))"

text \<open>The steps that lower the target, on checked values: first the health, then the limit.\<close>

definition health_target :: "int \<Rightarrow> rat option \<Rightarrow> int \<times> string list" where
  "health_target base h = (case h of
       None \<Rightarrow> (base, [])
     | Some q \<Rightarrow>
         if q < 1 / 2 \<and> max 1 \<lfloor>fl (of_int base * q)\<rfloor> < base
         then (max 1 \<lfloor>fl (of_int base * q)\<rfloor>, [''provider health reduced the active-turn target''])
         else (base, []))"

definition limit_target :: "limit_classification option \<Rightarrow> int \<times> string list \<Rightarrow> int \<times> string list" where
  "limit_target c tr = (case tr of (t, rs) \<Rightarrow> (case c of
       None \<Rightarrow> (t, rs)
     | Some c \<Rightarrow>
         if lc_type c \<in> set hard_stop_types
         then (0, rs @ [limit_type_label (lc_type c) @ '' paused active turns''])
         else if ra_reduce_concurrency (lc_routing_action c) \<and> max 1 (t - 1) < t
         then (max 1 (t - 1), rs @ [limit_type_label (lc_type c) @ '' reduced concurrency''])
         else (t, rs)))"

definition evaluate_adaptive_concurrency :: "jsnum \<Rightarrow> jsnum \<Rightarrow> jsnum \<Rightarrow> limit_classification option
    \<Rightarrow> jsnum option \<Rightarrow> (thrown, adaptive_concurrency_decision) result" where
  "evaluate_adaptive_concurrency base_target max_turns active_turns classification health =
     bindr (check_count concurrency_count_error max_turns) (\<lambda>mx.
     bindr (check_count concurrency_count_error base_target) (\<lambda>b.
     bindr (check_count concurrency_count_error active_turns) (\<lambda>a.
     bindr (check_health health) (\<lambda>h.
     let base = clamp_int b 0 mx; act = clamp_int a 0 mx in
     case limit_target classification (health_target base h) of (target, reasons) \<Rightarrow>
       let slots = max 0 (target - act) in
       Inr \<lparr>acd_target_active_turns = target, acd_available_turn_slots = slots,
            acd_current_capacity = (if mx = 0 then 0 else fl (of_int slots / of_int mx)),
            acd_reduced = (target < base), acd_reasons = reasons\<rparr>))))"

section \<open>Candidates\<close>

record identity_pool_member =
  im_profile :: identity_profile
  im_status :: "identity_profile_status option"
  im_provider_cooldown :: "provider_family_cooldown option"
  im_cooldown_state :: cooldown_evaluation
  im_active_sessions :: jsnum
  im_active_turns :: jsnum
  im_target_active_turns :: int
  im_available_turn_slots :: int
  im_current_capacity :: rat
  im_provider_health :: jsnum
  im_capability_fit :: rat
  im_available :: bool
  im_reasons :: "string list"

record identity_pool_snapshot =
  sp_evaluated_at :: string
  sp_candidates :: "identity_pool_member list"

text \<open>A classification stored for a profile may be \<open>undefined\<close>; it still hides the provider's.\<close>

record build_pool_input =
  bp_profiles :: "identity_profile list"
  bp_statuses :: "identity_profile_status list"
  bp_provider_cooldowns :: "provider_family_cooldown list"
  bp_active_turns :: "active_turn_snapshot option"
  bp_classification_by_provider :: "limit_classification obj"
  bp_classification_by_profile_id :: "limit_classification option obj"
  bp_capability_fit_by_profile_id :: "rat obj"
  bp_provider_health :: "jsnum obj"
  bp_now :: "string option"

text \<open>\<open>new Map(xs.map((x) => [key(x), x]))\<close>: the last element with a key wins.\<close>

definition map_statuses :: "identity_profile_status list \<Rightarrow> string \<Rightarrow> identity_profile_status option" where
  "map_statuses ss k = map_of (rev (map (\<lambda>s. (is_profile_id s, s)) ss)) k"

definition map_provider_cooldowns :: "provider_family_cooldown list \<Rightarrow> string \<Rightarrow> provider_family_cooldown option" where
  "map_provider_cooldowns cs k = map_of (rev (map (\<lambda>c. (pc_provider c, c)) cs)) k"

text \<open>\<open><\<close> on numbers; a comparison with NaN is false.\<close>

fun js_less :: "jsnum \<Rightarrow> jsnum \<Rightarrow> bool" where
  "js_less (Fin a) (Fin b) = (a < b)"
| "js_less NaN _ = False"
| "js_less _ NaN = False"
| "js_less NegInf NegInf = False"
| "js_less NegInf _ = True"
| "js_less (Fin _) PosInf = True"
| "js_less (Fin _) NegInf = False"
| "js_less PosInf _ = False"

fun js_ge :: "jsnum \<Rightarrow> jsnum \<Rightarrow> bool" where
  "js_ge NaN _ = False"
| "js_ge _ NaN = False"
| "js_ge a b = (\<not> js_less a b)"

text \<open>Reads such as \<open>record?.[id]\<close> are lookups of own keys: ids are not names of members that every
  object inherits.\<close>

definition candidate_classification :: "identity_profile \<Rightarrow> build_pool_input \<Rightarrow> string \<Rightarrow> limit_classification option" where
  "candidate_classification p i now = effective_for_profile
     (case obj_get (bp_classification_by_profile_id i) (ip_id p) of
        Some c \<Rightarrow> c
      | None \<Rightarrow> obj_get (bp_classification_by_provider i) (ip_provider p)) p (date_parse now)"

definition build_candidate :: "build_pool_input \<Rightarrow> string \<Rightarrow> identity_profile \<Rightarrow> (thrown, identity_pool_member) result" where
  "build_candidate i now p =
     (let status = map_statuses (bp_statuses i) (ip_id p);
          snapshot = or_else (bp_active_turns i) create_empty_active_turn_snapshot;
          active_turns = or_else (or_opt (obj_get (ats_by_profile_id snapshot) (ip_id p))
                                         (map_option is_active_turns status)) (js_int 0);
          active_sessions = or_else (map_option is_active_sessions status) (js_int 0);
          provider_cooldown = map_provider_cooldowns (bp_provider_cooldowns i) (ip_provider p);
          classification = candidate_classification p i now;
          health = or_else (obj_get (bp_provider_health i) (ip_provider p)) (js_int 1);
          blocked = (map_option is_status status = Some Id_blocked) in
      bindr (evaluate_cooldown_state now p status provider_cooldown classification (Some now)) (\<lambda>cool.
      bindr (evaluate_adaptive_concurrency (ip_max_active_turns p) (ip_max_active_turns p) active_turns
               classification (Some health)) (\<lambda>conc.
      Inr \<lparr>im_profile = p, im_status = status, im_provider_cooldown = provider_cooldown,
           im_cooldown_state = cool, im_active_sessions = active_sessions, im_active_turns = active_turns,
           im_target_active_turns = acd_target_active_turns conc,
           im_available_turn_slots = acd_available_turn_slots conc,
           im_current_capacity = acd_current_capacity conc, im_provider_health = health,
           im_capability_fit = or_else (obj_get (bp_capability_fit_by_profile_id i) (ip_id p)) 1,
           im_available = (\<not> blocked \<and> \<not> cv_blocked cool \<and> js_less active_sessions (ip_max_open_sessions p)
                           \<and> acd_available_turn_slots conc > 0),
           im_reasons = (if blocked then [or_else (Option.bind status is_reason) ''identity status is blocked''] else [])
             @ acd_reasons conc
             @ (case dc_reason cool of Some r \<Rightarrow> if r \<noteq> [] then [r] else [] | None \<Rightarrow> [])
             @ (if js_ge active_sessions (ip_max_open_sessions p) then [''open-session limit reached''] else [])\<rparr>)))"

definition compare_candidates :: "(string \<Rightarrow> string \<Rightarrow> int) \<Rightarrow> identity_pool_member \<Rightarrow> identity_pool_member \<Rightarrow> int" where
  "compare_candidates lc l r =
     (if im_available l \<noteq> im_available r then (if im_available l then -1 else 1)
      else if im_capability_fit l \<noteq> im_capability_fit r then (if im_capability_fit r < im_capability_fit l then -1 else 1)
      else if im_current_capacity l \<noteq> im_current_capacity r
        then (if im_current_capacity r < im_current_capacity l then -1 else 1)
      else lc (ip_id (im_profile l)) (ip_id (im_profile r)))"

definition build_identity_pool :: "(string \<Rightarrow> string \<Rightarrow> int) \<Rightarrow> string \<Rightarrow> build_pool_input
    \<Rightarrow> (thrown, identity_pool_snapshot) result" where
  "build_identity_pool lc clock i =
     (let now = or_else (bp_now i) clock in
      if date_parse now = None then Inl (Type_error ''Invalid identity pool clock'')
      else bindr (map_result (build_candidate i now) (bp_profiles i)) (\<lambda>cs.
        Inr \<lparr>sp_evaluated_at = now, sp_candidates = sort_by (compare_candidates lc) cs\<rparr>))"


section \<open>Facts\<close>

lemma check_health_Inr: "check_health h = Inr q \<longleftrightarrow>
    (case h of None \<Rightarrow> q = None | Some x \<Rightarrow> (\<exists>r. x = Fin r \<and> 0 \<le> r \<and> r \<le> 1 \<and> q = Some r))"
  by (auto simp: check_health_def split: option.splits jsnum.splits)

lemma health_target_bounds: "0 \<le> b \<Longrightarrow> health_target b h = (t, rs) \<Longrightarrow> 0 \<le> t \<and> t \<le> b \<and> (1 \<le> b \<longrightarrow> 1 \<le> t)"
  by (auto simp: health_target_def split: option.splits if_splits)

lemma limit_target_bounds:
  "limit_target c (t, rs) = (t', rs') \<Longrightarrow> 0 \<le> t \<Longrightarrow> 0 \<le> t' \<and> t' \<le> t
     \<and> ((\<exists>x. c = Some x \<and> lc_type x \<in> set hard_stop_types) \<longrightarrow> t' = 0)
     \<and> (1 \<le> t \<longrightarrow> \<not> (\<exists>x. c = Some x \<and> lc_type x \<in> set hard_stop_types) \<longrightarrow> 1 \<le> t')"
  by (auto simp: limit_target_def split: option.splits if_splits)

text \<open>What an evaluation that returns has computed.\<close>

lemma adaptive_concurrency_cases:
  assumes "evaluate_adaptive_concurrency b0 m0 a0 c h = Inr d"
  obtains b m a q t rs where
    "safe_count b0 = Some b" "safe_count m0 = Some m" "safe_count a0 = Some a" "check_health h = Inr q"
    "limit_target c (health_target (min b m) q) = (t, rs)"
    "d = \<lparr>acd_target_active_turns = t, acd_available_turn_slots = max 0 (t - min a m),
          acd_current_capacity = (if m = 0 then 0 else fl (of_int (max 0 (t - min a m)) / of_int m)),
          acd_reduced = (t < min b m), acd_reasons = rs\<rparr>" "0 \<le> b" "0 \<le> m" "0 \<le> a"
proof -
  obtain b m a q where *: "safe_count b0 = Some b" "safe_count m0 = Some m" "safe_count a0 = Some a" "check_health h = Inr q"
    using assms unfolding evaluate_adaptive_concurrency_def bindr_Inr_iff check_count_Inr by blast
  then have p: "0 \<le> b" "0 \<le> m" "0 \<le> a" by (auto dest: safe_count_SomeD)
  then have cl: "clamp_int b 0 m = min b m" "clamp_int a 0 m = min a m" by (auto simp: clamp_int_def)
  obtain t rs where t: "limit_target c (health_target (min b m) q) = (t, rs)" by fastforce
  have cc: "check_count concurrency_count_error b0 = Inr b" "check_count concurrency_count_error m0 = Inr m"
    "check_count concurrency_count_error a0 = Inr a" using * by (simp_all add: check_count_Inr)
  show thesis
    using assms unfolding evaluate_adaptive_concurrency_def cc *(4) bindr.simps Let_def cl t prod.case
    by (intro that [OF * t _ p]) simp
qed

lemma capacity_unit:
  assumes "0 \<le> s" "s \<le> m"
  shows "0 \<le> (if m = 0 then 0 else fl (of_int s / of_int m)) \<and> (if m = 0 then 0 else fl (of_int s / of_int m)) \<le> 1"
proof (cases "m = 0")
  case True
  then show ?thesis by simp
next
  case False
  with assms have "0 \<le> (of_int s / of_int m :: rat)" "(of_int s / of_int m :: rat) \<le> 1"
    by (auto simp: divide_le_eq_1 zero_le_divide_iff)
  with False fl_unit show ?thesis by simp
qed

context collation
begin

lemma compare_candidates_total: "compare_candidates cmp a b \<le> 0 \<or> compare_candidates cmp b a \<le> 0"
  using cmp_total by (auto simp: compare_candidates_def)

lemma compare_candidates_trans:
  "compare_candidates cmp a b \<le> 0 \<Longrightarrow> compare_candidates cmp b c \<le> 0 \<Longrightarrow> compare_candidates cmp a c \<le> 0"
  by (auto simp: compare_candidates_def split: if_splits intro: cmp_trans)

sublocale candidate_order: comparator "compare_candidates cmp"
  by standard (rule compare_candidates_total, erule (1) compare_candidates_trans)

lemma sorted_candidates:
  "sorted_wrt (\<lambda>a b. compare_candidates cmp a b \<le> 0) (sort_by (compare_candidates cmp) cs)"
  by (rule candidate_order.sorted_sort_by)

end

lemma build_candidate_facts:
  assumes "build_candidate i now p = Inr m"
  shows "im_profile m = p"
    and "im_available m \<Longrightarrow> map_option is_status (map_statuses (bp_statuses i) (ip_id p)) \<noteq> Some Id_blocked
      \<and> \<not> cv_blocked (im_cooldown_state m) \<and> js_less (im_active_sessions m) (ip_max_open_sessions p)
      \<and> (\<forall>c. candidate_classification p i now = Some c \<longrightarrow> lc_type c \<notin> set hard_stop_types)
      \<and> (\<exists>a. safe_count (im_active_turns m) = Some a \<and> a < im_target_active_turns m)"
    and "0 \<le> im_current_capacity m \<and> im_current_capacity m \<le> 1"
proof -
  obtain cool conc where ev: "evaluate_cooldown_state now p (map_statuses (bp_statuses i) (ip_id p))
      (map_provider_cooldowns (bp_provider_cooldowns i) (ip_provider p)) (candidate_classification p i now) (Some now) = Inr cool"
    and co: "evaluate_adaptive_concurrency (ip_max_active_turns p) (ip_max_active_turns p) (im_active_turns m)
      (candidate_classification p i now) (Some (im_provider_health m)) = Inr conc"
    and m: "im_profile m = p" "im_cooldown_state m = cool" "im_target_active_turns m = acd_target_active_turns conc"
      "im_available_turn_slots m = acd_available_turn_slots conc" "im_current_capacity m = acd_current_capacity conc"
      "im_available m \<longleftrightarrow> map_option is_status (map_statuses (bp_statuses i) (ip_id p)) \<noteq> Some Id_blocked
         \<and> \<not> cv_blocked cool \<and> js_less (im_active_sessions m) (ip_max_open_sessions p) \<and> acd_available_turn_slots conc > 0"
    using assms by (auto simp: build_candidate_def Let_def bindr_Inr_iff)
  show "im_profile m = p" by (rule m)
  obtain b x a q t rs where c: "safe_count (ip_max_active_turns p) = Some b" "safe_count (ip_max_active_turns p) = Some x"
    "safe_count (im_active_turns m) = Some a" "limit_target (candidate_classification p i now) (health_target (min b x) q) = (t, rs)"
    "conc = \<lparr>acd_target_active_turns = t, acd_available_turn_slots = max 0 (t - min a x),
          acd_current_capacity = (if x = 0 then 0 else fl (of_int (max 0 (t - min a x)) / of_int x)),
          acd_reduced = (t < min b x), acd_reasons = rs\<rparr>" "0 \<le> b" "0 \<le> x" "0 \<le> a"
    using adaptive_concurrency_cases [OF co] by metis
  obtain t0 rs0 where h: "health_target (min b x) q = (t0, rs0)" by fastforce
  have t0: "0 \<le> t0" "t0 \<le> min b x" using health_target_bounds [OF _ h] c(6,7) by auto
  note t = limit_target_bounds [OF c(4) [unfolded h] t0(1)]
  show "0 \<le> im_current_capacity m \<and> im_current_capacity m \<le> 1"
    using capacity_unit [of "max 0 (t - min a x)" x] t t0 c(5-8) m(5) by auto
  show "map_option is_status (map_statuses (bp_statuses i) (ip_id p)) \<noteq> Some Id_blocked
      \<and> \<not> cv_blocked (im_cooldown_state m) \<and> js_less (im_active_sessions m) (ip_max_open_sessions p)
      \<and> (\<forall>c. candidate_classification p i now = Some c \<longrightarrow> lc_type c \<notin> set hard_stop_types)
      \<and> (\<exists>a. safe_count (im_active_turns m) = Some a \<and> a < im_target_active_turns m)"
    if "im_available m"
  proof -
    have s: "0 < t - min a x" using that m(6) c(5) by auto
    then have "min a x = a" using t t0 by linarith
    with s have "a < t" by linarith
    moreover have "\<forall>c. candidate_classification p i now = Some c \<longrightarrow> lc_type c \<notin> set hard_stop_types"
      using t s c(8,7) by auto
    ultimately show ?thesis using that m c(3,5) by auto
  qed
qed

section \<open>Properties\<close>

text \<open>C36: the adaptive target never exceeds the configured maximum; a hard stop makes it 0, and
  nothing else does when the base is positive; the open slots are the target less the active turns;
  and the capacity, computed in binary64, stays between 0 and 1.\<close>

theorem adaptive_concurrency_bounds:
  assumes "evaluate_adaptive_concurrency base mx act c h = Inr d"
  shows "\<exists>b m a. safe_count base = Some b \<and> safe_count mx = Some m \<and> safe_count act = Some a
    \<and> 0 \<le> acd_target_active_turns d \<and> acd_target_active_turns d \<le> min b m
    \<and> (acd_target_active_turns d = 0 \<longleftrightarrow> min b m = 0 \<or> (\<exists>x. c = Some x \<and> lc_type x \<in> set hard_stop_types))
    \<and> acd_available_turn_slots d = max 0 (acd_target_active_turns d - min a m)
    \<and> 0 \<le> acd_current_capacity d \<and> acd_current_capacity d \<le> 1
    \<and> (acd_reduced d \<longleftrightarrow> acd_target_active_turns d < min b m)"
  using assms
proof (rule adaptive_concurrency_cases)
  fix b m a q t rs
  assume c: "safe_count base = Some b" "safe_count mx = Some m" "safe_count act = Some a"
    "limit_target c (health_target (min b m) q) = (t, rs)" "0 \<le> b" "0 \<le> m" "0 \<le> a"
    and d: "d = \<lparr>acd_target_active_turns = t, acd_available_turn_slots = max 0 (t - min a m),
          acd_current_capacity = (if m = 0 then 0 else fl (of_int (max 0 (t - min a m)) / of_int m)),
          acd_reduced = (t < min b m), acd_reasons = rs\<rparr>"
  obtain t0 rs0 where h: "health_target (min b m) q = (t0, rs0)" by fastforce
  have t0: "0 \<le> t0" "t0 \<le> min b m" "1 \<le> min b m \<longrightarrow> 1 \<le> t0" using health_target_bounds [OF _ h] c(5,6) by auto
  note t = limit_target_bounds [OF c(4) [unfolded h] t0(1)]
  have "0 \<le> acd_current_capacity d \<and> acd_current_capacity d \<le> 1"
    using capacity_unit [of "max 0 (t - min a m)" m] t t0 c(5-7) d by auto
  moreover have "t = 0 \<longleftrightarrow> min b m = 0 \<or> (\<exists>x. c = Some x \<and> lc_type x \<in> set hard_stop_types)"
    using t t0 c(5,6) by (smt (verit))
  ultimately show ?thesis using t t0 c d by auto
qed

lemma mset_insert_by [simp]: "mset (insert_by c x xs) = add_mset x (mset xs)"
  by (induction xs) auto

lemma mset_sort_by [simp]: "mset (sort_by c xs) = mset xs"
  by (induction xs) auto

lemma build_candidates:
  "map_result (build_candidate i now) ps = Inr ms \<Longrightarrow>
     map im_profile ms = ps \<and> (\<forall>m \<in> set ms. build_candidate i now (im_profile m) = Inr m)"
proof (induction ps arbitrary: ms)
  case Nil
  then show ?case by simp
next
  case (Cons p ps)
  then obtain m ms' where "build_candidate i now p = Inr m" "map_result (build_candidate i now) ps = Inr ms'"
    "ms = m # ms'"
    by (auto simp: res_simps)
  with Cons.IH build_candidate_facts(1) [of i now p m] show ?case by simp
qed

text \<open>C34: a pool that is built holds one candidate per profile, in the order of availability, then fit,
  then capacity, then id; so if any candidate is available the first one is. An available candidate
  is not blocked, has no active cooldown and no hard limit, has room for a session, and runs fewer
  turns than its target. Every capacity lies between 0 and 1.\<close>

theorem identity_pool_exact:
  assumes "collation lc" "build_identity_pool lc clock i = Inr pool"
  shows "image_mset im_profile (mset (sp_candidates pool)) = mset (bp_profiles i)
    \<and> sorted_wrt (\<lambda>a b. compare_candidates lc a b \<le> 0) (sp_candidates pool)
    \<and> ((\<exists>m \<in> set (sp_candidates pool). im_available m) \<longleftrightarrow>
         sp_candidates pool \<noteq> [] \<and> im_available (hd (sp_candidates pool)))
    \<and> (\<forall>m \<in> set (sp_candidates pool). 0 \<le> im_current_capacity m \<and> im_current_capacity m \<le> 1
         \<and> (im_available m \<longrightarrow>
              map_option is_status (map_statuses (bp_statuses i) (ip_id (im_profile m))) \<noteq> Some Id_blocked
              \<and> \<not> cv_blocked (im_cooldown_state m)
              \<and> js_less (im_active_sessions m) (ip_max_open_sessions (im_profile m))
              \<and> (\<forall>c. candidate_classification (im_profile m) i (sp_evaluated_at pool) = Some c
                   \<longrightarrow> lc_type c \<notin> set hard_stop_types)
              \<and> (\<exists>a. safe_count (im_active_turns m) = Some a \<and> a < im_target_active_turns m)))"
proof -
  obtain ms where ms: "map_result (build_candidate i (or_else (bp_now i) clock)) (bp_profiles i) = Inr ms"
    and pool: "pool = \<lparr>sp_evaluated_at = or_else (bp_now i) clock, sp_candidates = sort_by (compare_candidates lc) ms\<rparr>"
    using assms(2) by (auto simp: build_identity_pool_def Let_def res_simps split: if_splits)
  note b = build_candidates [OF ms]
  have sorted: "sorted_wrt (\<lambda>a b. compare_candidates lc a b \<le> 0) (sp_candidates pool)"
    unfolding pool using collation.sorted_candidates [OF assms(1)] by simp
  have first: "im_available (hd (sp_candidates pool))" if "m \<in> set (sp_candidates pool)" "im_available m" for m
    using sorted that by (cases "sp_candidates pool") (auto simp: compare_candidates_def split: if_splits)
  have prof: "image_mset im_profile (mset (sp_candidates pool)) = mset (bp_profiles i)"
    unfolding pool using b by simp (metis mset_map)
  have mem: "build_candidate i (sp_evaluated_at pool) (im_profile m) = Inr m" if "m \<in> set (sp_candidates pool)" for m
    using that b by (simp add: pool)
  show ?thesis
    using sorted prof first build_candidate_facts(2,3) [OF mem]
    by (intro conjI ballI impI) (auto intro: list.set_sel)
qed

section \<open>A concrete pool\<close>

definition demo_profile :: "string \<Rightarrow> string \<Rightarrow> identity_profile" where
  "demo_profile i p = \<lparr>ip_id = i, ip_provider = p, ip_harness = ''codex'', ip_max_open_sessions = Fin 2,
     ip_max_active_turns = Fin 4, ip_provider_family_cooldown = None, ip_identity_cooldown = None\<rparr>"

definition demo_pool_input :: build_pool_input where
  "demo_pool_input = \<lparr>bp_profiles = [demo_profile ''a'' ''openai'', demo_profile ''b'' ''anthropic''],
     bp_statuses = [], bp_provider_cooldowns = [], bp_active_turns = None,
     bp_classification_by_provider = [(''openai'', demo_classification Fixed_window_usage_cap)],
     bp_classification_by_profile_id = [], bp_capability_fit_by_profile_id = [], bp_provider_health = [],
     bp_now = Some ''2026-01-01T00:00:00Z''\<rparr>"

definition demo_pool :: identity_pool_snapshot where
  "demo_pool = (case build_identity_pool buffer_compare [] demo_pool_input of Inr p \<Rightarrow> p
     | Inl _ \<Rightarrow> \<lparr>sp_evaluated_at = [], sp_candidates = []\<rparr>)"

lemma demo_pool_built: "build_identity_pool buffer_compare [] demo_pool_input = Inr demo_pool"
proof -
  have "\<not> isl (build_identity_pool buffer_compare [] demo_pool_input)" by code_simp
  then show ?thesis unfolding demo_pool_def
    by (cases "build_identity_pool buffer_compare [] demo_pool_input") auto
qed

lemma demo_pool_order:
  "map (\<lambda>m. (ip_id (im_profile m), im_available m)) (sp_candidates demo_pool) = [(''b'', True), (''a'', False)]"
  by code_simp

lemma identity_pool_exact_witness:
  "im_available (hd (sp_candidates demo_pool)) \<and> image_mset im_profile (mset (sp_candidates demo_pool))
     = {#demo_profile ''a'' ''openai'', demo_profile ''b'' ''anthropic''#}"
proof -
  have "\<exists>m \<in> set (sp_candidates demo_pool). im_available m"
    using demo_pool_order by (cases "sp_candidates demo_pool") auto
  with identity_pool_exact [OF buffer.collation_axioms demo_pool_built] show ?thesis
    by (simp add: demo_pool_input_def)
qed

definition demo_concurrency :: adaptive_concurrency_decision where
  "demo_concurrency = \<lparr>acd_target_active_turns = 1, acd_available_turn_slots = 0, acd_current_capacity = 0,
     acd_reduced = True, acd_reasons = [''provider health reduced the active-turn target'']\<rparr>"

lemma adaptive_concurrency_bounds_witness:
  "acd_reduced demo_concurrency \<longleftrightarrow> acd_target_active_turns demo_concurrency < 4"
proof -
  have "evaluate_adaptive_concurrency (Fin 4) (Fin 4) (Fin 1) None (Some (Fin (1 / 4))) = Inr demo_concurrency"
    by code_simp
  from adaptive_concurrency_bounds [OF this] show ?thesis
    by (auto simp: safe_count_def safe_integer_def max_safe_def)
qed

end
