(* ===== verification/Portability.thy ===== *)
theory Portability
  imports RuntimeCore
begin

text \<open>
  Scoring how portable a task is (\<open>packages/coordinator/src/portability.ts\<close>). The score is a sum
  of binary64 constants with a rounding at every step, as the code computes it. An optional flag
  that is absent counts as false, except \<open>allowCrossProviderMigration\<close>, where only an explicit
  \<open>false\<close> forbids.
\<close>

record portability_input =
  pi_session_continuation :: bool
  pi_handoff_evidence :: bool
  pi_worktree_lease :: bool
  pi_raw_history_attached :: bool
  pi_local_filesystem_dependency :: bool
  pi_allow_cross_provider_migration :: "bool option"

record portability_score =
  ps_score :: rat
  ps_level :: portability_level
  ps_migrate_across_providers :: bool
  ps_reasons :: "string list"

definition clamp01 :: "rat \<Rightarrow> rat" where
  "clamp01 v = min 1 (max 0 v)"

definition score_delta :: "bool \<Rightarrow> int \<Rightarrow> int \<Rightarrow> rat \<Rightarrow> rat" where
  "score_delta b yes no score =
     (let d = (if b then yes else no) in
      if d = 0 then score
      else if d < 0 then fl (score - fl (of_int (- d) / 100)) else fl (score + fl (of_int d / 100)))"

definition raw_score :: "portability_input \<Rightarrow> rat" where
  "raw_score i =
     (let s = score_delta (pi_local_filesystem_dependency i) (-20) 0
            (score_delta (pi_raw_history_attached i) (-15) 0
            (score_delta (pi_worktree_lease i) 15 (-5)
            (score_delta (pi_handoff_evidence i) 10 (-10)
            (score_delta (pi_session_continuation i) (-35) 15 (1 / 2)))))
      in if pi_allow_cross_provider_migration i = Some False then min s (fl (39 / 100)) else s)"

definition portability_reasons :: "portability_input \<Rightarrow> string list" where
  "portability_reasons i =
     [if pi_session_continuation i then ''active session continuation prefers the current provider''
      else ''new work can move without session affinity'',
      if pi_handoff_evidence i then ''handoff evidence supports migration''
      else ''missing handoff evidence weakens portability'',
      if pi_worktree_lease i then ''worktree lease keeps repo context portable''
      else ''missing worktree evidence reduces portability'']
     @ (if pi_raw_history_attached i then [''raw history attachments reduce portability''] else [])
     @ (if pi_local_filesystem_dependency i then [''local filesystem dependency pins execution''] else [])
     @ (if pi_allow_cross_provider_migration i = Some False
        then [''policy forbids cross-provider migration''] else [])"

definition score_task_portability :: "portability_input \<Rightarrow> portability_score" where
  "score_task_portability i =
     (let c = clamp01 (raw_score i);
          level = (if c \<ge> fl (75 / 100) then Port_high else if c \<ge> fl (40 / 100) then Port_medium else Port_low)
      in \<lparr>ps_score = c, ps_level = level,
          ps_migrate_across_providers =
            (level = Port_high \<and> pi_allow_cross_provider_migration i \<noteq> Some False),
          ps_reasons = portability_reasons i\<rparr>)"

section \<open>The exact decimal score\<close>

text \<open>What the constants of the source say, in hundredths, without rounding.\<close>

definition decimal_score :: "portability_input \<Rightarrow> int" where
  "decimal_score i =
     50 + (if pi_session_continuation i then -35 else 15) + (if pi_handoff_evidence i then 10 else -10)
     + (if pi_worktree_lease i then 15 else -5) + (if pi_raw_history_attached i then -15 else 0)
     + (if pi_local_filesystem_dependency i then -20 else 0)"

definition decimal_level :: "portability_input \<Rightarrow> portability_level" where
  "decimal_level i =
     (let d = (if pi_allow_cross_provider_migration i = Some False then min (decimal_score i) 39 else decimal_score i)
      in if d \<ge> 75 then Port_high else if d \<ge> 40 then Port_medium else Port_low)"

section \<open>Rounded sums\<close>

text \<open>Every rounding the score can meet, evaluated once.\<close>

lemma fl_table1:
  "fl (- (3152519739159347 / 9007199254740992)) = - (3152519739159347 / 9007199254740992)"
  "fl (- (14411518807585587 / 72057594037927936)) = - (3602879701896397 / 18014398509481984)"
  "fl (- (5404319552844595 / 36028797018963968)) = - (5404319552844595 / 36028797018963968)"
  "fl (- (10808639105689189 / 72057594037927936)) = - (2702159776422297 / 18014398509481984)"
  "fl ((1 / 72057594037927936)) = (1 / 72057594037927936)"
  "fl ((900719925474099 / 18014398509481984)) = (900719925474099 / 18014398509481984)"
  "fl ((1 / 20)) = (3602879701896397 / 72057594037927936)"
  "fl ((1801439850948199 / 36028797018963968)) = (1801439850948199 / 36028797018963968)"
  by code_simp+

lemma fl_table2:
  "fl ((1 / 10)) = (3602879701896397 / 36028797018963968)"
  "fl ((2702159776422297 / 18014398509481984)) = (2702159776422297 / 18014398509481984)"
  "fl ((3 / 20)) = (5404319552844595 / 36028797018963968)"
  "fl ((1351079888211149 / 9007199254740992)) = (1351079888211149 / 9007199254740992)"
  "fl ((14411518807585587 / 72057594037927936)) = (3602879701896397 / 18014398509481984)"
  "fl ((1 / 5)) = (3602879701896397 / 18014398509481984)"
  "fl ((3602879701896397 / 18014398509481984)) = (3602879701896397 / 18014398509481984)"
  "fl ((9007199254740993 / 36028797018963968)) = (1 / 4)"
  by code_simp+

lemma fl_table3:
  "fl ((5404319552844595 / 18014398509481984)) = (5404319552844595 / 18014398509481984)"
  "fl ((6305039478318693 / 18014398509481984)) = (6305039478318693 / 18014398509481984)"
  "fl ((7 / 20)) = (3152519739159347 / 9007199254740992)"
  "fl ((12610078956637389 / 36028797018963968)) = (3152519739159347 / 9007199254740992)"
  "fl ((6305039478318695 / 18014398509481984)) = (6305039478318695 / 18014398509481984)"
  "fl ((39 / 100)) = (3512807709348987 / 9007199254740992)"
  "fl ((14411518807585587 / 36028797018963968)) = (3602879701896397 / 9007199254740992)"
  "fl ((2 / 5)) = (3602879701896397 / 9007199254740992)"
  by code_simp+

lemma fl_table4:
  "fl ((9007199254740991 / 18014398509481984)) = (9007199254740991 / 18014398509481984)"
  "fl ((36028797018963971 / 72057594037927936)) = (1 / 2)"
  "fl ((9007199254740993 / 18014398509481984)) = (1 / 2)"
  "fl ((19815838360430181 / 36028797018963968)) = (4953959590107545 / 9007199254740992)"
  "fl ((9907919180215091 / 18014398509481984)) = (2476979795053773 / 4503599627370496)"
  "fl ((19815838360430183 / 36028797018963968)) = (2476979795053773 / 4503599627370496)"
  "fl ((19815838360430185 / 36028797018963968)) = (2476979795053773 / 4503599627370496)"
  "fl ((23418718062326579 / 36028797018963968)) = (5854679515581645 / 9007199254740992)"
  by code_simp+

lemma fl_table5:
  "fl ((50440315826549555 / 72057594037927936)) = (3152519739159347 / 4503599627370496)"
  "fl ((12610078956637389 / 18014398509481984)) = (3152519739159347 / 4503599627370496)"
  "fl ((25220157913274779 / 36028797018963968)) = (6305039478318695 / 9007199254740992)"
  "fl ((3 / 4)) = (3 / 4)"
  "fl ((27021597764222977 / 36028797018963968)) = (3 / 4)"
  "fl ((32425917317067571 / 36028797018963968)) = (8106479329266893 / 9007199254740992)"
  by code_simp+

lemmas fl_table = fl_table1 fl_table2 fl_table3 fl_table4 fl_table5

section \<open>Properties\<close>

text \<open>C35: rounding never changes a decision: for every input the level the code computes with binary64
  sums is the level of the exact decimal score, the score lies between 0 and 1, and a task may
  migrate exactly when it continues no session, has handoff evidence and a worktree lease, depends
  on no local files and the policy does not forbid it.\<close>

theorem portability_exact:
  "ps_level (score_task_portability i) = decimal_level i
   \<and> 0 \<le> ps_score (score_task_portability i) \<and> ps_score (score_task_portability i) \<le> 1
   \<and> (ps_migrate_across_providers (score_task_portability i) \<longleftrightarrow>
        \<not> pi_session_continuation i \<and> pi_handoff_evidence i \<and> pi_worktree_lease i
        \<and> \<not> pi_local_filesystem_dependency i \<and> pi_allow_cross_provider_migration i \<noteq> Some False)"
proof -
  have "clamp01 x \<le> 1" "0 \<le> clamp01 x" for x by (auto simp: clamp01_def)
  moreover have "ps_level (score_task_portability i) = decimal_level i"
    by (cases "pi_session_continuation i"; cases "pi_handoff_evidence i"; cases "pi_worktree_lease i";
        cases "pi_raw_history_attached i"; cases "pi_local_filesystem_dependency i";
        cases "pi_allow_cross_provider_migration i = Some False";
        simp add: score_task_portability_def raw_score_def score_delta_def clamp01_def Let_def fl_table
          decimal_level_def decimal_score_def)
  ultimately show ?thesis
    by (auto simp: score_task_portability_def Let_def decimal_level_def decimal_score_def split: if_splits)
qed

end
