(* ===== verification/RoutePlanner.thy ===== *)
theory RoutePlanner
  imports IdentityPool Portability
begin

text \<open>
  The route planner (\<open>packages/coordinator/src/route-planner.ts\<close>): the preferred candidate, the
  fallback when it is not available, the launch gate and the route decision.
\<close>

section \<open>Inputs and results\<close>

record route_planner_input =
  rp_task_id :: string
  rp_identity_pool :: identity_pool_snapshot
  rp_portability :: "portability_score option"
  rp_portability_input :: "portability_input option"
  rp_preferred_provider :: "string option"
  rp_preferred_harness :: "string option"
  rp_preferred_identity_profile_id :: "string option"
  rp_latest_classification :: "limit_classification option"
  rp_provider_health :: "jsnum obj"
  rp_capability_fit_by_profile_id :: "rat obj"
  rp_evidence_refs :: "evidence_ref list option"
  rp_manual_confirmation_provided :: bool
  rp_lease_arbitration :: "lease_arbitration option"

record planned_route =
  pr_candidate :: identity_pool_member
  pr_portability :: portability_score
  pr_decision :: route_decision

abbreviation member_id :: "identity_pool_member \<Rightarrow> string" where
  "member_id c \<equiv> ip_id (im_profile c)"

abbreviation member_provider :: "identity_pool_member \<Rightarrow> string" where
  "member_provider c \<equiv> ip_provider (im_profile c)"

section \<open>The planner\<close>

definition empty_portability_input :: portability_input where
  "empty_portability_input = \<lparr>pi_session_continuation = False, pi_handoff_evidence = False,
     pi_worktree_lease = False, pi_raw_history_attached = False, pi_local_filesystem_dependency = False,
     pi_allow_cross_provider_migration = None\<rparr>"

definition build_portability :: "route_planner_input \<Rightarrow> portability_score" where
  "build_portability i = or_else (rp_portability i)
     (score_task_portability (or_else (rp_portability_input i) empty_portability_input))"

definition matches_preference :: "route_planner_input \<Rightarrow> identity_pool_member \<Rightarrow> bool" where
  "matches_preference i c \<longleftrightarrow>
     (rp_preferred_identity_profile_id i = None \<or> rp_preferred_identity_profile_id i = Some (member_id c))
     \<and> (rp_preferred_provider i = None \<or> rp_preferred_provider i = Some (member_provider c))
     \<and> (rp_preferred_harness i = None \<or> rp_preferred_harness i = Some (ip_harness (im_profile c)))"

definition find_preferred_candidate :: "route_planner_input \<Rightarrow> identity_pool_member option" where
  "find_preferred_candidate i = List.find (matches_preference i) (sp_candidates (rp_identity_pool i))"

definition same_provider_switch_allowed :: "identity_pool_member \<Rightarrow> identity_pool_member option
    \<Rightarrow> limit_classification option \<Rightarrow> bool \<Rightarrow> bool" where
  "same_provider_switch_allowed c preferred classification confirmed =
     (case preferred of
        None \<Rightarrow> True
      | Some p \<Rightarrow>
          if member_provider c \<noteq> member_provider p \<or> member_id c = member_id p then True
          else
            let switch = (case classification of
                  Some x \<Rightarrow> ra_same_provider_account_switch (lc_routing_action x)
                | None \<Rightarrow> dc_same_provider_account_switch (im_cooldown_state c))
            in if switch = Switch_allowed_by_policy then True
               else if switch = Switch_manual_confirmation_required then confirmed
               else False)"

definition sibling_account :: "identity_pool_member \<Rightarrow> identity_pool_member option \<Rightarrow> bool" where
  "sibling_account c preferred = (case preferred of None \<Rightarrow> False
     | Some p \<Rightarrow> member_provider c = member_provider p \<and> member_id c \<noteq> member_id p)"

definition pick_fallback_candidate :: "route_planner_input \<Rightarrow> identity_pool_member option
    \<Rightarrow> portability_score \<Rightarrow> identity_pool_member option" where
  "pick_fallback_candidate i preferred portability =
     (if \<not> ps_migrate_across_providers portability
         \<or> map_option (\<lambda>c. ra_route_new_work_elsewhere (lc_routing_action c)) (rp_latest_classification i) \<noteq> Some True
      then None
      else
        let switch_ok = (\<lambda>c. same_provider_switch_allowed c preferred (rp_latest_classification i)
                               (rp_manual_confirmation_provided i));
            cands = sp_candidates (rp_identity_pool i)
        in case List.find (\<lambda>c. im_available c \<and> switch_ok c \<and> \<not> sibling_account c preferred) cands of
             Some c \<Rightarrow> Some c
           | None \<Rightarrow> List.find (\<lambda>c. im_available c \<and> switch_ok c) cands)"

definition needs_confirmation :: "identity_pool_member \<Rightarrow> identity_pool_member option \<Rightarrow> route_planner_input \<Rightarrow> bool" where
  "needs_confirmation c preferred i \<longleftrightarrow> sibling_account c preferred
     \<and> dc_same_provider_account_switch (im_cooldown_state c) = Switch_manual_confirmation_required
     \<and> \<not> rp_manual_confirmation_provided i"

definition determine_launch_gate :: "identity_pool_member \<Rightarrow> identity_pool_member option \<Rightarrow> bool
    \<Rightarrow> route_planner_input \<Rightarrow> launch_gate_action \<times> string" where
  "determine_launch_gate c preferred fallback_used i =
     (if map_option la_status (rp_lease_arbitration i) = Some Arb_blocked_hard_conflict
      then (Gate_blocked, case Option.bind (rp_lease_arbitration i) la_conflict_lease_id of
              None \<Rightarrow> ''hard coordination lease conflict blocks launch''
            | Some l \<Rightarrow> ''hard coordination lease conflict '' @ l @ '' blocks launch'')
      else if map_option la_status (rp_lease_arbitration i) = Some Arb_coordination_unavailable
              \<and> map_option la_mode (rp_lease_arbitration i) = Some Hard
      then (Gate_blocked, ''hard coordination lease backend is unavailable'')
      else if \<not> im_available c then
        if needs_confirmation c preferred i
        then (Gate_manual_confirmation_required,
              ''provider-family cooldown requires manual confirmation before same-provider account switching'')
        else if cv_blocked (im_cooldown_state c)
        then (Gate_wait_for_reset, or_else (dc_reason (im_cooldown_state c)) ''provider cooldown blocks launch'')
        else (Gate_blocked, case im_reasons c of r # _ \<Rightarrow> r | [] \<Rightarrow> ''no launchable candidate is available'')
      else if fallback_used \<and> needs_confirmation c preferred i
      then (Gate_manual_confirmation_required,
            ''same-provider account switching requires manual confirmation for this cooldown class'')
      else (Gate_allowed, ''route decision is persisted before launch''))"

definition determine_route_reason :: "route_planner_input \<Rightarrow> bool \<Rightarrow> identity_pool_member option
    \<Rightarrow> identity_pool_member \<Rightarrow> route_reason" where
  "determine_route_reason i fallback_used preferred c =
     (let ty = map_option lc_type (rp_latest_classification i) in
      if rp_preferred_identity_profile_id i \<notin> {None, Some []} \<and> \<not> fallback_used then Explicit_override
      else if ty = Some Fixed_window_usage_cap then Usage_cap
      else if ty = Some Monthly_spend_or_quota_cap then Usage_cap
      else if dc_provider_family_blocked (im_cooldown_state c) then Provider_cooldown
      else if ty \<in> {Some Overload_or_transient, Some Acceleration_limit, Some Unknown_limit} then Transient_failure
      else if fallback_used \<and> preferred \<noteq> None then Load_balance
      else Capability_fit)"

definition determine_fallback_reason :: "identity_pool_member option \<Rightarrow> identity_pool_member
    \<Rightarrow> limit_classification option \<Rightarrow> string option" where
  "determine_fallback_reason preferred c classification = (case preferred of
       None \<Rightarrow> None
     | Some p \<Rightarrow>
         if member_id c = member_id p \<and> member_provider c = member_provider p then None
         else Some (or_else (or_opt (dc_reason (im_cooldown_state p))
                (map_option (\<lambda>x. limit_type_label (lc_type x)) classification))
                ''preferred target had lower capacity''))"

definition build_decision :: "route_planner_input \<Rightarrow> identity_pool_member \<Rightarrow> identity_pool_member option
    \<Rightarrow> portability_score \<Rightarrow> bool \<Rightarrow> route_decision" where
  "build_decision i c preferred portability fallback_used =
     (let (action, reason) = determine_launch_gate c preferred fallback_used i in
      \<lparr>rd_task_id = rp_task_id i, rd_selected_provider = member_provider c,
       rd_selected_harness = ip_harness (im_profile c),
       rd_selected_identity_profile_id = Some (member_id c),
       rd_preferred_provider = rp_preferred_provider i, rd_preferred_harness = rp_preferred_harness i,
       rd_fallback_used = fallback_used,
       rd_fallback_reason = determine_fallback_reason preferred c (rp_latest_classification i),
       rd_capability_fit = or_else (obj_get (rp_capability_fit_by_profile_id i) (member_id c)) (im_capability_fit c),
       rd_provider_health = or_else (obj_get (rp_provider_health i) (member_provider c)) (im_provider_health c),
       rd_current_capacity = im_current_capacity c,
       rd_preferred_target = map_option (\<lambda>p. \<lparr>pt_provider = Some (member_provider p),
          pt_harness = Some (ip_harness (im_profile p)), pt_identity_profile_id = Some (member_id p)\<rparr>) preferred,
       rd_context_portability = ps_level portability, rd_portability_score = Some (ps_score portability),
       rd_active_turn_target = Some (im_target_active_turns c),
       rd_cooldown_state = Some (decision_cooldown.truncate (im_cooldown_state c)),
       rd_launch_gate = Some \<lparr>lg_action = action, lg_reason = reason, lg_route_decision_persisted = False,
          lg_labels_match = True, lg_manual_confirmation_provided = rp_manual_confirmation_provided i\<rparr>,
       rd_lease_arbitration = rp_lease_arbitration i,
       rd_route_reason = determine_route_reason i fallback_used preferred c,
       rd_evidence_refs = (if rp_evidence_refs i \<in> {None, Some []} then None else rp_evidence_refs i)\<rparr>)"

definition plan_route :: "route_planner_input \<Rightarrow> (thrown, planned_route) result" where
  "plan_route i0 =
     (if sp_candidates (rp_identity_pool i0) = []
      then Inl (Plain_error ''identityPool must contain at least one candidate'')
      else
        let portability = build_portability i0 in
        case find_preferred_candidate i0 of
          None \<Rightarrow> Inl (Type_error ''Unknown or contradictory preferred route target'')
        | Some preferred \<Rightarrow>
            let i = i0\<lparr>rp_latest_classification := effective_for_profile (rp_latest_classification i0)
                  (im_profile preferred) (date_parse (sp_evaluated_at (rp_identity_pool i0)))\<rparr>;
                fallback = pick_fallback_candidate i (Some preferred) portability;
                selected = (if im_available preferred then preferred else or_else fallback preferred);
                fallback_used = (member_id selected \<noteq> member_id preferred)
            in Inr \<lparr>pr_candidate = selected, pr_portability = portability,
                    pr_decision = build_decision i selected (Some preferred) portability fallback_used\<rparr>)"

section \<open>Facts\<close>

lemma pick_fallback_SomeD:
  assumes "pick_fallback_candidate i preferred portability = Some c"
  shows "c \<in> set (sp_candidates (rp_identity_pool i)) \<and> im_available c
    \<and> same_provider_switch_allowed c preferred (rp_latest_classification i) (rp_manual_confirmation_provided i)
    \<and> ps_migrate_across_providers portability
    \<and> (\<exists>x. rp_latest_classification i = Some x \<and> ra_route_new_work_elsewhere (lc_routing_action x))"
  using assms by (auto simp: pick_fallback_candidate_def Let_def split: if_splits option.splits dest!: find_SomeD)

lemma gate_allowed_iff:
  "fst (determine_launch_gate c preferred fb i) = Gate_allowed \<longleftrightarrow>
     map_option la_status (rp_lease_arbitration i) \<noteq> Some Arb_blocked_hard_conflict
     \<and> \<not> (map_option la_status (rp_lease_arbitration i) = Some Arb_coordination_unavailable
          \<and> map_option la_mode (rp_lease_arbitration i) = Some Hard)
     \<and> im_available c \<and> \<not> (fb \<and> needs_confirmation c preferred i)"
  by (simp add: determine_launch_gate_def)

lemma build_decision_gate:
  "map_option lg_action (rd_launch_gate (build_decision i c p s fb)) = Some (fst (determine_launch_gate c p fb i))"
  by (simp add: build_decision_def split: prod.split)

lemma plan_route_cases:
  assumes "plan_route i0 = Inr r"
  obtains preferred i where
    "find_preferred_candidate i0 = Some preferred"
    "i = i0\<lparr>rp_latest_classification := effective_for_profile (rp_latest_classification i0)
                  (im_profile preferred) (date_parse (sp_evaluated_at (rp_identity_pool i0)))\<rparr>"
    "pr_portability r = build_portability i0"
    "pr_decision r = build_decision i (pr_candidate r) (Some preferred) (build_portability i0)
        (member_id (pr_candidate r) \<noteq> member_id preferred)"
    "pr_candidate r = preferred \<and> (im_available preferred \<or> pick_fallback_candidate i (Some preferred) (build_portability i0) = None)
     \<or> \<not> im_available preferred \<and> pick_fallback_candidate i (Some preferred) (build_portability i0) = Some (pr_candidate r)"
proof -
  obtain preferred where p: "find_preferred_candidate i0 = Some preferred" and ne: "sp_candidates (rp_identity_pool i0) \<noteq> []"
    using assms by (auto simp: plan_route_def Let_def split: if_splits option.splits)
  define i where "i = i0\<lparr>rp_latest_classification := effective_for_profile (rp_latest_classification i0)
                  (im_profile preferred) (date_parse (sp_evaluated_at (rp_identity_pool i0)))\<rparr>"
  let ?fb = "pick_fallback_candidate i (Some preferred) (build_portability i0)"
  let ?sel = "if im_available preferred then preferred else or_else ?fb preferred"
  have r: "r = \<lparr>pr_candidate = ?sel, pr_portability = build_portability i0,
     pr_decision = build_decision i ?sel (Some preferred) (build_portability i0) (member_id ?sel \<noteq> member_id preferred)\<rparr>"
    using assms p ne unfolding plan_route_def Let_def i_def by simp
  show thesis
    by (rule that [OF p i_def]) (use r in \<open>auto split: if_splits simp: or_else_def split: option.splits\<close>)
qed

section \<open>Properties\<close>

text \<open>C11: whatever the planner selects is a candidate of the pool. Without a fallback it is the first
  candidate that meets every stated preference; a fallback is only used when that one is not
  available, the task may migrate, the limit sends new work elsewhere, the fallback itself is
  available, and another account of the same provider is only taken by policy or on confirmation.\<close>

theorem plan_route_selection:
  assumes "plan_route i = Inr r"
  shows "\<exists>p. find_preferred_candidate i = Some p \<and> matches_preference i p
    \<and> pr_candidate r \<in> set (sp_candidates (rp_identity_pool i))
    \<and> (rd_fallback_used (pr_decision r) \<longleftrightarrow> member_id (pr_candidate r) \<noteq> member_id p)
    \<and> (pr_candidate r = p \<or> \<not> im_available p \<and> im_available (pr_candidate r)
         \<and> ps_migrate_across_providers (pr_portability r)
         \<and> (\<exists>x. rp_latest_classification i = Some x \<and> ra_route_new_work_elsewhere (lc_routing_action x)
              \<and> lc_session_id x = None \<and> lc_provider x = Some (member_provider p)
              \<and> (sibling_account (pr_candidate r) (Some p) \<longrightarrow>
                   ra_same_provider_account_switch (lc_routing_action x) = Switch_allowed_by_policy
                   \<or> ra_same_provider_account_switch (lc_routing_action x) = Switch_manual_confirmation_required
                     \<and> rp_manual_confirmation_provided i)))"
  using assms
proof (rule plan_route_cases)
  fix p j
  assume p: "find_preferred_candidate i = Some p"
    and j: "j = i\<lparr>rp_latest_classification := effective_for_profile (rp_latest_classification i)
                  (im_profile p) (date_parse (sp_evaluated_at (rp_identity_pool i)))\<rparr>"
    and port: "pr_portability r = build_portability i"
    and dec: "pr_decision r = build_decision j (pr_candidate r) (Some p) (build_portability i)
        (member_id (pr_candidate r) \<noteq> member_id p)"
    and sel: "pr_candidate r = p \<and> (im_available p \<or> pick_fallback_candidate j (Some p) (build_portability i) = None)
     \<or> \<not> im_available p \<and> pick_fallback_candidate j (Some p) (build_portability i) = Some (pr_candidate r)"
  have pm: "p \<in> set (sp_candidates (rp_identity_pool i))" "matches_preference i p"
    using p by (auto simp: find_preferred_candidate_def dest: find_SomeD)
  have fb: "rd_fallback_used (pr_decision r) \<longleftrightarrow> member_id (pr_candidate r) \<noteq> member_id p"
    unfolding dec by (simp add: build_decision_def split: prod.split)
  from sel show ?thesis
  proof
    assume "pr_candidate r = p \<and> (im_available p \<or> pick_fallback_candidate j (Some p) (build_portability i) = None)"
    with p pm fb show ?thesis by auto
  next
    assume s: "\<not> im_available p \<and> pick_fallback_candidate j (Some p) (build_portability i) = Some (pr_candidate r)"
    note f = pick_fallback_SomeD [of j "Some p" "build_portability i" "pr_candidate r"]
    from s f obtain x where x: "rp_latest_classification j = Some x" "ra_route_new_work_elsewhere (lc_routing_action x)"
      and c: "pr_candidate r \<in> set (sp_candidates (rp_identity_pool i))" "im_available (pr_candidate r)"
        "ps_migrate_across_providers (build_portability i)"
        "same_provider_switch_allowed (pr_candidate r) (Some p) (Some x) (rp_manual_confirmation_provided i)"
      by (auto simp: j)
    have e: "rp_latest_classification i = Some x \<and> lc_session_id x = None \<and> lc_provider x = Some (member_provider p)"
      using x(1) by (auto simp: j effective_for_profile_def effective_route_classification_def
          split: option.splits if_splits)
    have "sibling_account (pr_candidate r) (Some p) \<longrightarrow>
        ra_same_provider_account_switch (lc_routing_action x) = Switch_allowed_by_policy
        \<or> ra_same_provider_account_switch (lc_routing_action x) = Switch_manual_confirmation_required
          \<and> rp_manual_confirmation_provided i"
      using c(4) by (auto simp: same_provider_switch_allowed_def sibling_account_def Let_def split: if_splits)
    with p pm fb s x(2) c e port show ?thesis by auto
  qed
qed

text \<open>C16: the launch gate of a decision is open only when the selected candidate is available and no
  hard lease conflict and no failing hard coordination backend was reported; in particular work
  that conflicts with a hard lease is always blocked.\<close>

theorem plan_route_gate:
  assumes "plan_route i = Inr r"
  shows "\<exists>g. rd_launch_gate (pr_decision r) = Some g \<and> \<not> lg_route_decision_persisted g
    \<and> (lg_action g = Gate_allowed \<longrightarrow> im_available (pr_candidate r))
    \<and> (\<forall>a. rp_lease_arbitration i = Some a \<longrightarrow>
         la_status a = Arb_blocked_hard_conflict \<or> la_status a = Arb_coordination_unavailable \<and> la_mode a = Hard
         \<longrightarrow> lg_action g = Gate_blocked)
    \<and> rd_selected_provider (pr_decision r) = member_provider (pr_candidate r)
    \<and> rd_selected_harness (pr_decision r) = ip_harness (im_profile (pr_candidate r))
    \<and> rd_selected_identity_profile_id (pr_decision r) = Some (member_id (pr_candidate r))"
  using assms
proof (rule plan_route_cases)
  fix p j
  assume j: "j = i\<lparr>rp_latest_classification := effective_for_profile (rp_latest_classification i)
                  (im_profile p) (date_parse (sp_evaluated_at (rp_identity_pool i)))\<rparr>"
    and dec: "pr_decision r = build_decision j (pr_candidate r) (Some p) (build_portability i)
        (member_id (pr_candidate r) \<noteq> member_id p)"
  obtain act reason where g: "determine_launch_gate (pr_candidate r) (Some p) (member_id (pr_candidate r) \<noteq> member_id p) j
      = (act, reason)" by fastforce
  have a: "act = Gate_allowed \<longrightarrow> im_available (pr_candidate r)"
    using gate_allowed_iff [of "pr_candidate r" "Some p" _ j] g by (metis fst_conv)
  have b: "act = Gate_blocked" if "rp_lease_arbitration i = Some a"
    "la_status a = Arb_blocked_hard_conflict \<or> la_status a = Arb_coordination_unavailable \<and> la_mode a = Hard" for a
    using g that by (auto simp: determine_launch_gate_def j)
  show ?thesis using a b by (auto simp: dec build_decision_def g)
qed

section \<open>A concrete plan\<close>

definition demo_route_input :: route_planner_input where
  "demo_route_input = \<lparr>rp_task_id = ''t1'', rp_identity_pool = demo_pool, rp_portability = None,
     rp_portability_input = None, rp_preferred_provider = Some ''openai'', rp_preferred_harness = None,
     rp_preferred_identity_profile_id = None, rp_latest_classification = None, rp_provider_health = [],
     rp_capability_fit_by_profile_id = [], rp_evidence_refs = None, rp_manual_confirmation_provided = False,
     rp_lease_arbitration = Some \<lparr>la_status = Arb_blocked_hard_conflict, la_mode = Hard, la_lease_id = None,
       la_conflict_lease_id = Some ''l9'', la_holder = None,
       la_scope = \<lparr>sc_granularity = G_repo, sc_selector = [''src'']\<rparr>\<rparr>\<rparr>"

lemma demo_route_planned: "\<exists>r. plan_route demo_route_input = Inr r"
proof -
  have "\<not> isl (plan_route demo_route_input)" by code_simp
  then show ?thesis by (cases "plan_route demo_route_input") auto
qed

lemma plan_route_selection_witness:
  "\<exists>r p. plan_route demo_route_input = Inr r \<and> matches_preference demo_route_input p
     \<and> pr_candidate r \<in> set (sp_candidates demo_pool)"
proof -
  obtain r where r: "plan_route demo_route_input = Inr r" using demo_route_planned by blast
  from plan_route_selection [OF r] r show ?thesis by (auto simp: demo_route_input_def)
qed

lemma plan_route_gate_witness:
  "\<exists>r g. plan_route demo_route_input = Inr r \<and> rd_launch_gate (pr_decision r) = Some g \<and> lg_action g = Gate_blocked"
proof -
  obtain r where r: "plan_route demo_route_input = Inr r" using demo_route_planned by blast
  from plan_route_gate [OF r] r show ?thesis by (auto simp: demo_route_input_def)
qed

end
