(* ===== verification/HandoffData.thy ===== *)
theory HandoffData
  imports RuntimeCore
begin

text \<open>
  The data of a handoff packet (\<open>core-contracts/src/handoff-packet.ts\<close>), with every field of the
  interfaces. The \<open>schema\<close> literals and the other constant fields are left out.
\<close>

section \<open>Enumerations\<close>

datatype handoff_reason = HR_manual_handoff | HR_provider_rate_limit | HR_provider_usage_cap
  | HR_provider_outage | HR_session_continuation | HR_review | HR_debug | HR_failover | HR_routing_policy

datatype handoff_status = HS_not_started | HS_in_progress | HS_blocked | HS_complete | HS_failed | HS_unknown

datatype raw_history_speaker = Sp_system | Sp_developer | Sp_operator | Sp_user | Sp_assistant
  | Sp_tool | Sp_unknown

datatype test_status = Test_passed | Test_failed | Test_skipped

section \<open>Evidence\<close>

record redacted_text =
  rt_reason :: string
  rt_content :: string
  rt_byte_length :: int

record command_evidence =
  ce_command :: string
  ce_exit_code :: int
  ce_summary :: string
  ce_output :: "redacted_text option"

record test_evidence =
  te_name :: string
  te_status :: test_status
  te_summary :: "string option"
  te_details :: "redacted_text option"

record diff_evidence =
  de_path :: string
  de_summary :: string
  de_excerpt :: "redacted_text option"

record log_evidence =
  lo_path :: string
  lo_summary :: string
  lo_excerpt :: "redacted_text option"

record prior_agent_summary_evidence =
  pa_label :: string
  pa_summary :: string
  pa_excerpt :: redacted_text

record raw_history_evidence =
  rh_speaker :: raw_history_speaker
  rh_occurred_at :: "string option"
  rh_excerpt :: redacted_text

record handoff_diff_summary =
  ds_dirty_state :: dirty_state
  ds_changed_paths :: "string list"
  ds_file_count :: int
  ds_additions :: int
  ds_deletions :: int
  ds_truncated :: bool

record worktree_lease_ref =
  wlr_id :: string
  wlr_path :: "string option"
  wlr_branch_name :: "string option"
  wlr_mode :: "worktree_mode option"
  wlr_fencing_token :: "string option"

section \<open>The packet\<close>

record handoff_context_policy =
  hc_raw_history_allowed :: bool
  hc_raw_history_max_items :: "int option"
  hc_may_edit_files :: bool
  hc_may_run_commands :: bool
  hc_may_use_network :: bool
  hc_may_switch_provider :: bool
  hc_max_metadata_items :: "int option"
  hc_max_evidence_excerpt_bytes :: "int option"

record handoff_task_contract =
  tc_must :: "string list option"
  tc_must_not :: "string list option"
  tc_acceptance_criteria :: "string list option"
  tc_constraints :: "string list option"

record handoff_workspace =
  hw_repo_root :: "string option"
  hw_branch :: "string option"
  hw_worktree_path :: "string option"
  hw_base_ref :: "string option"
  hw_diff_ref :: "string option"

record handoff_evidence =
  he_worktree_lease :: "worktree_lease_ref option"
  he_diff_summary :: "handoff_diff_summary option"
  he_changed_files :: "string list option"
  he_inspected_files :: "string list option"
  he_commands_run :: "command_evidence list option"
  he_test_results :: "test_evidence list option"
  he_diffs :: "diff_evidence list option"
  he_logs :: "log_evidence list option"
  he_prior_agent_summaries :: "prior_agent_summary_evidence list option"
  he_raw_history :: "raw_history_evidence list option"
  he_raw_history_omitted_count :: "int option"

record handoff_required_output =
  ho_schema :: "string option"
  ho_instructions :: "string option"

record handoff_packet =
  hp_packet_id :: string
  hp_created_at :: string
  hp_source_session_ids :: "string list"
  hp_source_harnesses :: "string list"
  hp_target_harness :: "string option"
  hp_target_provider :: "string option"
  hp_reason :: handoff_reason
  hp_objective :: string
  hp_current_status :: handoff_status
  hp_task_contract :: "handoff_task_contract option"
  hp_workspace :: "handoff_workspace option"
  hp_facts :: "string list option"
  hp_evidence :: handoff_evidence
  hp_decisions :: "string list option"
  hp_assumptions :: "string list option"
  hp_failed_attempts :: "string list option"
  hp_risks :: "string list option"
  hp_open_questions :: "string list option"
  hp_next_recommended_action :: "string option"
  hp_context_policy :: handoff_context_policy
  hp_required_output :: "handoff_required_output option"

end
