(* ===== verification/LedgerData.thy ===== *)
theory LedgerData
  imports HandoffData
begin

text \<open>
  Sessions, turns and approvals (\<open>core-contracts/src/types.ts\<close>, \<open>events.ts\<close>) and the records of the
  state ledger (\<open>core-contracts/src/state-ledger.ts\<close>). The kind of a record is the constructor of
  its payload. Free-form metadata of a session is read by nothing that is modelled and left out.
\<close>

section \<open>Sessions, turns, approvals\<close>

record agent_session =
  as_id :: string
  as_runtime :: string
  as_target_harness :: string
  as_target_provider :: "string option"
  as_identity_profile_id :: "string option"
  as_title :: string
  as_state :: agent_session_state
  as_created_at :: string
  as_updated_at :: string
  as_correlation_id :: "string option"
  as_repo_root :: "string option"
  as_parent_session_id :: "string option"
  as_root_session_id :: "string option"
  as_worktree :: "worktree_lease_ref option"
  as_handoff_packet :: "handoff_packet option"

record turn_handle =
  th_session_id :: string
  th_turn_id :: string
  th_idempotency_key :: string
  th_state :: turn_state
  th_created_at :: string
  th_updated_at :: string
  th_event_cursor :: "int option"

datatype approval_risk = Risk_low | Risk_medium | Risk_high

record approval_request =
  aq_approval_request_id :: string
  aq_tool_call_id :: "string option"
  aq_session_id :: string
  aq_turn_id :: string
  aq_requested_action :: string
  aq_risk :: approval_risk
  aq_allowed_approvers :: "string list"
  aq_expires_at :: "string option"

datatype approval_decision = Approved | Denied | Approval_timed_out | Approval_cancelled

record approval_response =
  ap_approval_request_id :: string
  ap_decision :: approval_decision
  ap_decided_by :: "string option"
  ap_decided_at :: string
  ap_reason :: "string option"

section \<open>Capabilities\<close>

record omnigent_capabilities =
  oc_can_create_session :: bool
  oc_can_send_turn :: bool
  oc_can_read_history :: bool
  oc_can_stream_events :: bool
  oc_can_cancel :: bool
  oc_can_close :: bool
  oc_can_list_sessions :: bool
  oc_can_spawn_child_sessions :: bool
  oc_can_use_harness_override :: bool

record capability_snapshot =
  cp_runtime :: string
  cp_captured_at :: string
  cp_supported_harnesses :: "string list"
  cp_capabilities :: omnigent_capabilities
  cp_version :: "string option"
  cp_git_sha :: "string option"
  cp_endpoint :: "string option"

section \<open>Ledger records\<close>

text \<open>An optional string that is neither \<open>undefined\<close> nor empty.\<close>

definition truthy :: "string option \<Rightarrow> bool" where
  "truthy x \<longleftrightarrow> x \<noteq> None \<and> x \<noteq> Some []"

datatype ledger_payload = P_session agent_session | P_turn turn_handle | P_event runtime_event
  | P_route route_decision | P_limit limit_classification | P_identity identity_profile_status
  | P_cooldown provider_family_cooldown | P_lease worktree_lease | P_request approval_request
  | P_response approval_response | P_capabilities capability_snapshot | P_evidence evidence_ref

datatype ledger_kind = K_session | K_turn | K_runtime_event | K_route_decision | K_limit_classification
  | K_identity_profile_status | K_provider_cooldown | K_worktree_lease | K_approval_request
  | K_approval_response | K_capability_snapshot | K_evidence_ref

definition state_ledger_record_kinds :: "ledger_kind list" where
  "state_ledger_record_kinds = [K_session, K_turn, K_runtime_event, K_route_decision,
     K_limit_classification, K_identity_profile_status, K_provider_cooldown, K_worktree_lease,
     K_approval_request, K_approval_response, K_capability_snapshot, K_evidence_ref]"

fun payload_kind :: "ledger_payload \<Rightarrow> ledger_kind" where
  "payload_kind (P_session _) = K_session"
| "payload_kind (P_turn _) = K_turn"
| "payload_kind (P_event _) = K_runtime_event"
| "payload_kind (P_route _) = K_route_decision"
| "payload_kind (P_limit _) = K_limit_classification"
| "payload_kind (P_identity _) = K_identity_profile_status"
| "payload_kind (P_cooldown _) = K_provider_cooldown"
| "payload_kind (P_lease _) = K_worktree_lease"
| "payload_kind (P_request _) = K_approval_request"
| "payload_kind (P_response _) = K_approval_response"
| "payload_kind (P_capabilities _) = K_capability_snapshot"
| "payload_kind (P_evidence _) = K_evidence_ref"

record ledger_record =
  lr_record_id :: string
  lr_sequence :: int
  lr_schema_version :: int
  lr_recorded_at :: string
  lr_session_id :: "string option"
  lr_turn_id :: "string option"
  lr_task_id :: "string option"
  lr_payload :: ledger_payload

definition lr_kind :: "ledger_record \<Rightarrow> ledger_kind" where
  "lr_kind r = payload_kind (lr_payload r)"

lemma set_state_ledger_record_kinds: "set state_ledger_record_kinds = UNIV"
  by (auto simp: state_ledger_record_kinds_def) (metis ledger_kind.exhaust)

text \<open>The payloads of one kind, with their records: \<open>records.filter(r => r.kind === ...)\<close>.\<close>

definition of_kind :: "(ledger_payload \<Rightarrow> 'p option) \<Rightarrow> ledger_record list \<Rightarrow> (ledger_record \<times> 'p) list" where
  "of_kind sel rs = List.map_filter (\<lambda>r. map_option (Pair r) (sel (lr_payload r))) rs"

fun as_session :: "ledger_payload \<Rightarrow> agent_session option" where
  "as_session (P_session s) = Some s" | "as_session _ = None"

fun as_turn :: "ledger_payload \<Rightarrow> turn_handle option" where
  "as_turn (P_turn t) = Some t" | "as_turn _ = None"

fun as_event :: "ledger_payload \<Rightarrow> runtime_event option" where
  "as_event (P_event e) = Some e" | "as_event _ = None"

fun as_route :: "ledger_payload \<Rightarrow> route_decision option" where
  "as_route (P_route d) = Some d" | "as_route _ = None"

fun as_limit :: "ledger_payload \<Rightarrow> limit_classification option" where
  "as_limit (P_limit c) = Some c" | "as_limit _ = None"

fun as_cooldown :: "ledger_payload \<Rightarrow> provider_family_cooldown option" where
  "as_cooldown (P_cooldown c) = Some c" | "as_cooldown _ = None"

fun as_lease :: "ledger_payload \<Rightarrow> worktree_lease option" where
  "as_lease (P_lease l) = Some l" | "as_lease _ = None"

fun as_request :: "ledger_payload \<Rightarrow> approval_request option" where
  "as_request (P_request q) = Some q" | "as_request _ = None"

fun as_response :: "ledger_payload \<Rightarrow> approval_response option" where
  "as_response (P_response a) = Some a" | "as_response _ = None"

fun as_evidence :: "ledger_payload \<Rightarrow> evidence_ref option" where
  "as_evidence (P_evidence e) = Some e" | "as_evidence _ = None"

lemma set_of_kind: "set (of_kind sel rs) = {(r, p). r \<in> set rs \<and> sel (lr_payload r) = Some p}"
  by (force simp: of_kind_def map_filter_def image_iff)

lemma of_kind_Cons: "of_kind sel (r # rs) =
    (case sel (lr_payload r) of None \<Rightarrow> of_kind sel rs | Some p \<Rightarrow> (r, p) # of_kind sel rs)"
  by (simp add: of_kind_def map_filter_simps split: option.splits)

lemma of_kind_Nil [simp]: "of_kind sel [] = []"
  by (simp add: of_kind_def map_filter_simps)

end
