(* ===== verification/RouteStore.thy ===== *)
theory RouteStore
  imports LedgerData
begin

text \<open>
  The schema of a route decision (\<open>core-contracts/src/route-decision.ts\<close>) and its persistence
  (\<open>coordinator/src/route-store.ts\<close>).

  The metadata rules of \<open>core-contracts/src/redaction.ts\<close> are arguments, gathered in a record:
  zod's datetime test, the refinements of decisions and evidence, and the two sanitisers.
\<close>

record metadata_rules =
  mr_datetime :: "string \<Rightarrow> bool"
  mr_decision_safe :: "route_decision \<Rightarrow> bool"
  mr_evidence_safe :: "evidence_ref \<Rightarrow> bool"
  mr_sanitize_text :: "string \<Rightarrow> (thrown, string) result"
  mr_sanitize_path :: "string \<Rightarrow> (thrown, string) result"

section \<open>The schema of a decision\<close>

definition nonempty_if :: "string option \<Rightarrow> bool" where
  "nonempty_if x \<longleftrightarrow> x \<noteq> Some []"

definition opt_all :: "('a \<Rightarrow> bool) \<Rightarrow> 'a option \<Rightarrow> bool" where
  "opt_all p x = (case x of None \<Rightarrow> True | Some v \<Rightarrow> p v)"

definition unit_num :: "jsnum \<Rightarrow> bool" where
  "unit_num x = (case x of Fin q \<Rightarrow> 0 \<le> q \<and> q \<le> 1 | _ \<Rightarrow> False)"

definition preferred_target_ok :: "preferred_target \<Rightarrow> bool" where
  "preferred_target_ok t \<longleftrightarrow> nonempty_if (pt_provider t) \<and> nonempty_if (pt_harness t)
     \<and> nonempty_if (pt_identity_profile_id t)"

definition decision_cooldown_ok :: "(string \<Rightarrow> bool) \<Rightarrow> decision_cooldown \<Rightarrow> bool" where
  "decision_cooldown_ok dt c \<longleftrightarrow> nonempty_if (dc_reason c) \<and> opt_all dt (dc_reset_at c)"

definition launch_gate_ok :: "launch_gate \<Rightarrow> bool" where
  "launch_gate_ok g \<longleftrightarrow> lg_reason g \<noteq> []"

definition lease_arbitration_ok :: "lease_arbitration \<Rightarrow> bool" where
  "lease_arbitration_ok a \<longleftrightarrow> nonempty_if (la_lease_id a) \<and> nonempty_if (la_conflict_lease_id a)
     \<and> nonempty_if (la_holder a) \<and> list_all (\<lambda>s. s \<noteq> []) (sc_selector (la_scope a))"

definition evidence_ref_ok :: "metadata_rules \<Rightarrow> evidence_ref \<Rightarrow> bool" where
  "evidence_ref_ok mr e \<longleftrightarrow> er_kind e \<in> {''file'', ''log'', ''command'', ''test'', ''diff''} \<and> er_label e \<noteq> []
     \<and> nonempty_if (er_path e) \<and> nonempty_if (er_excerpt e) \<and> mr_evidence_safe mr e"

definition route_decision_ok :: "metadata_rules \<Rightarrow> route_decision \<Rightarrow> bool" where
  "route_decision_ok mr d \<longleftrightarrow> rd_task_id d \<noteq> [] \<and> rd_selected_provider d \<noteq> [] \<and> rd_selected_harness d \<noteq> []
     \<and> nonempty_if (rd_selected_identity_profile_id d) \<and> nonempty_if (rd_preferred_provider d)
     \<and> nonempty_if (rd_preferred_harness d) \<and> nonempty_if (rd_fallback_reason d)
     \<and> unit_num (Fin (rd_capability_fit d)) \<and> unit_num (rd_provider_health d)
     \<and> unit_num (Fin (rd_current_capacity d)) \<and> opt_all preferred_target_ok (rd_preferred_target d)
     \<and> opt_all (\<lambda>q. unit_num (Fin q)) (rd_portability_score d) \<and> opt_all (\<lambda>n. 0 \<le> n) (rd_active_turn_target d)
     \<and> opt_all (decision_cooldown_ok (mr_datetime mr)) (rd_cooldown_state d)
     \<and> opt_all launch_gate_ok (rd_launch_gate d) \<and> opt_all lease_arbitration_ok (rd_lease_arbitration d)
     \<and> opt_all (list_all (evidence_ref_ok mr)) (rd_evidence_refs d) \<and> mr_decision_safe mr d"

definition parse_route_decision :: "metadata_rules \<Rightarrow> route_decision \<Rightarrow> (thrown, route_decision) result" where
  "parse_route_decision mr d = (if route_decision_ok mr d then Inr d else Inl Schema_error)"

section \<open>Persistence\<close>

definition sanitize_opt :: "(string \<Rightarrow> (thrown, string) result) \<Rightarrow> string option \<Rightarrow> (thrown, string option) result" where
  "sanitize_opt f x = (case x of None \<Rightarrow> Inr None | Some s \<Rightarrow> bindr (f s) (\<lambda>t. Inr (Some t)))"

definition sanitize_evidence_refs ::
  "metadata_rules \<Rightarrow> evidence_ref list option \<Rightarrow> (thrown, evidence_ref list option) result" where
  "sanitize_evidence_refs mr refs = (case refs of
       None \<Rightarrow> Inr None
     | Some es \<Rightarrow> bindr (map_result (\<lambda>e.
           bindr (mr_sanitize_text mr (er_label e)) (\<lambda>label.
           bindr (sanitize_opt (mr_sanitize_path mr) (er_path e)) (\<lambda>path.
           bindr (sanitize_opt (mr_sanitize_text mr) (er_excerpt e)) (\<lambda>excerpt.
             Inr (e\<lparr>er_label := label, er_path := path, er_excerpt := excerpt\<rparr>))))) es)
         (\<lambda>es'. Inr (Some es')))"

text \<open>The decision that is written: sanitised evidence and a gate marked as persisted.\<close>

definition prepare_route_decision :: "metadata_rules \<Rightarrow> route_decision \<Rightarrow> (thrown, route_decision) result" where
  "prepare_route_decision mr d =
     bindr (sanitize_evidence_refs mr (rd_evidence_refs d)) (\<lambda>refs.
     parse_route_decision mr (d\<lparr>rd_evidence_refs := refs, rd_launch_gate := Some
       \<lparr>lg_action = or_else (map_option lg_action (rd_launch_gate d)) Gate_allowed,
        lg_reason = or_else (map_option lg_reason (rd_launch_gate d)) ''route decision is persisted before launch'',
        lg_route_decision_persisted = True,
        lg_labels_match = or_else (map_option lg_labels_match (rd_launch_gate d)) True,
        lg_manual_confirmation_provided =
          or_else (map_option lg_manual_confirmation_provided (rd_launch_gate d)) False\<rparr>\<rparr>))"

text \<open>The reader parses every payload of the kind \<open>route_decision\<close>; the first that is rejected throws.\<close>

definition list_persisted_route_decisions ::
  "metadata_rules \<Rightarrow> ledger_record list \<Rightarrow> (thrown, route_decision list) result" where
  "list_persisted_route_decisions mr records = map_result (\<lambda>p. parse_route_decision mr (snd p)) (of_kind as_route records)"

section \<open>The schema of a limit classification\<close>

definition limit_classification_ok :: "(string \<Rightarrow> bool) \<Rightarrow> limit_classification \<Rightarrow> bool" where
  "limit_classification_ok dt c \<longleftrightarrow> unit_num (Fin (lc_confidence c)) \<and> nonempty_if (lc_provider c)
     \<and> nonempty_if (lc_harness c) \<and> nonempty_if (lc_identity_profile_id c) \<and> nonempty_if (lc_session_id c)
     \<and> opt_all (\<lambda>x. case x of Fin q \<Rightarrow> q = of_int \<lfloor>q\<rfloor> \<and> 0 \<le> q | _ \<Rightarrow> False) (lc_retry_after_seconds c)
     \<and> opt_all dt (lc_reset_at c) \<and> opt_all (\<lambda>n. 0 \<le> n) (rs_status_code (lc_raw_signal c))
     \<and> nonempty_if (rs_stderr_excerpt (lc_raw_signal c)) \<and> nonempty_if (rs_stdout_excerpt (lc_raw_signal c))
     \<and> opt_all (list_all (\<lambda>n. n \<noteq> [])) (lc_notes c)"

definition parse_limit_classification :: "metadata_rules \<Rightarrow> limit_classification \<Rightarrow> (thrown, limit_classification) result" where
  "parse_limit_classification mr c = (if limit_classification_ok (mr_datetime mr) c then Inr c else Inl Schema_error)"

section \<open>Facts\<close>

lemma parse_route_decision_Inr [res_simps]: "parse_route_decision mr d = Inr d' \<longleftrightarrow> d' = d \<and> route_decision_ok mr d"
  by (auto simp: parse_route_decision_def)

lemma prepare_route_decision_Inr:
  assumes "prepare_route_decision mr d = Inr d'"
  shows "route_decision_ok mr d' \<and> (\<exists>g. rd_launch_gate d' = Some g \<and> lg_route_decision_persisted g
      \<and> lg_action g = or_else (map_option lg_action (rd_launch_gate d)) Gate_allowed)
    \<and> rd_task_id d' = rd_task_id d \<and> rd_selected_provider d' = rd_selected_provider d
    \<and> rd_selected_harness d' = rd_selected_harness d
    \<and> rd_selected_identity_profile_id d' = rd_selected_identity_profile_id d"
  using assms by (auto simp: prepare_route_decision_def res_simps)

end
