(* ===== verification/LaunchGate.thy ===== *)
theory LaunchGate
  imports RouteStore
begin

text \<open>
  The launch gate (\<open>coordinator/src/launch-gate.ts\<close>). What it calls on the route store and the
  provider is recorded in a trace; the answer to a call depends on the trace so far and is given by
  the environment, so that any store and any provider is covered, including ones that throw.
\<close>

section \<open>Requests, sessions and calls\<close>

record create_session_request =
  cs_target_harness :: string
  cs_idempotency_key :: string
  cs_correlation_id :: "string option"
  cs_target_provider :: "string option"
  cs_identity_profile_id :: "string option"
  cs_title :: string
  cs_repo_root :: "string option"
  cs_initial_message :: "string option"

record send_turn_request =
  st_session_id :: string
  st_turn_id :: "string option"
  st_idempotency_key :: string
  st_correlation_id :: "string option"
  st_message :: string
  st_timeout_ms :: "int option"

datatype launch_call = Append_route_decision route_decision | Create_session create_session_request
  | Get_session_info string | Send_turn send_turn_request

record launch_env =
  lx_append :: "launch_call list \<Rightarrow> route_decision \<Rightarrow> (thrown, unit) result"
  lx_create :: "launch_call list \<Rightarrow> create_session_request \<Rightarrow> (thrown, agent_session) result"
  lx_info :: "launch_call list \<Rightarrow> string \<Rightarrow> (thrown, agent_session) result"
  lx_send :: "launch_call list \<Rightarrow> send_turn_request \<Rightarrow> (thrown, turn_handle) result"

text \<open>The schemas of the requests; the fields for worktrees, agent specs, handoff packets, files and
  metadata pass through unread and their schemas are the tests \<open>rest\<close>.\<close>

definition create_session_request_ok :: "(create_session_request \<Rightarrow> bool) \<Rightarrow> create_session_request \<Rightarrow> bool" where
  "create_session_request_ok rest r \<longleftrightarrow> cs_target_harness r \<in> set harness_ids \<and> cs_idempotency_key r \<noteq> []
     \<and> nonempty_if (cs_correlation_id r) \<and> opt_all (\<lambda>p. p \<in> set provider_family_ids) (cs_target_provider r)
     \<and> nonempty_if (cs_identity_profile_id r) \<and> cs_title r \<noteq> [] \<and> nonempty_if (cs_repo_root r)
     \<and> nonempty_if (cs_initial_message r) \<and> rest r"

definition send_turn_request_ok :: "(send_turn_request \<Rightarrow> bool) \<Rightarrow> send_turn_request \<Rightarrow> bool" where
  "send_turn_request_ok rest r \<longleftrightarrow> st_session_id r \<noteq> [] \<and> nonempty_if (st_turn_id r) \<and> st_idempotency_key r \<noteq> []
     \<and> nonempty_if (st_correlation_id r) \<and> opt_all (\<lambda>n. 0 < n) (st_timeout_ms r) \<and> rest r"

section \<open>The checks\<close>

definition policy_conflict :: "string \<Rightarrow> thrown" where
  "policy_conflict msg = Runtime_failure (create_runtime_failure Policy State_conflict msg False Scope_turn)"

definition gate_action :: "route_decision \<Rightarrow> launch_gate_action" where
  "gate_action d = or_else (map_option lg_action (rd_launch_gate d)) Gate_allowed"

definition assert_launch_decision :: "route_decision \<Rightarrow> (thrown, unit) result" where
  "assert_launch_decision d =
     (let reason = map_option lg_reason (rd_launch_gate d) in
      case gate_action d of
        Gate_allowed \<Rightarrow> Inr ()
      | Gate_manual_confirmation_required \<Rightarrow> Inl (Runtime_failure (create_runtime_failure Policy
          Approval_required (or_else reason ''manual confirmation is required'') False Scope_turn))
      | Gate_wait_for_reset \<Rightarrow> Inl (Runtime_failure (create_runtime_failure Provider Rate_limit
          (or_else reason ''cooldown blocks launch'') False
          (if map_option dc_provider_family_blocked (rd_cooldown_state d) = Some True
           then Scope_provider_family else Scope_identity_profile)))
      | Gate_blocked \<Rightarrow> Inl (policy_conflict (or_else reason ''launch gate blocked execution'')))"

definition assert_create_session_labels :: "route_decision \<Rightarrow> create_session_request \<Rightarrow> (thrown, unit) result" where
  "assert_create_session_labels d r =
     (if rd_selected_harness d \<noteq> cs_target_harness r
      then Inl (policy_conflict ''Launch gate blocked a silent harness downgrade before provider launch.'')
      else if cs_target_provider r \<noteq> None \<and> Some (rd_selected_provider d) \<noteq> cs_target_provider r
      then Inl (policy_conflict ''Launch gate blocked a silent provider downgrade before provider launch.'')
      else if cs_identity_profile_id r \<noteq> None \<and> rd_selected_identity_profile_id d \<noteq> cs_identity_profile_id r
      then Inl (policy_conflict ''Launch gate blocked a silent identity downgrade before provider launch.'')
      else Inr ())"

definition session_matches :: "route_decision \<Rightarrow> send_turn_request \<Rightarrow> agent_session \<Rightarrow> bool" where
  "session_matches d r s \<longleftrightarrow> as_id s = st_session_id r \<and> as_target_harness s \<in> set harness_ids
     \<and> (\<exists>p \<in> set provider_family_ids. as_target_provider s = Some p)
     \<and> as_target_harness s = rd_selected_harness d
     \<and> as_target_provider s = Some (rd_selected_provider d)
     \<and> as_identity_profile_id s = rd_selected_identity_profile_id d"

section \<open>The guarded operations\<close>

text \<open>A computation over the trace: a call is recorded whether it returns or throws.\<close>

type_synonym 'a traced = "launch_call list \<Rightarrow> (thrown, 'a) result \<times> launch_call list"

definition lift_traced :: "(thrown, 'a) result \<Rightarrow> 'a traced" where
  "lift_traced r tr = (r, tr)"

definition bind_traced :: "'a traced \<Rightarrow> ('a \<Rightarrow> 'b traced) \<Rightarrow> 'b traced" where
  "bind_traced c k tr = (case c tr of (Inl e, tr') \<Rightarrow> (Inl e, tr') | (Inr x, tr') \<Rightarrow> k x tr')"

definition call_traced :: "launch_call \<Rightarrow> (launch_call list \<Rightarrow> (thrown, 'a) result) \<Rightarrow> 'a traced" where
  "call_traced c f tr = (f tr, tr @ [c])"

definition persist_route_decision :: "metadata_rules \<Rightarrow> launch_env \<Rightarrow> route_decision \<Rightarrow> route_decision traced" where
  "persist_route_decision mr env d =
     bind_traced (lift_traced (prepare_route_decision mr d)) (\<lambda>p.
     bind_traced (call_traced (Append_route_decision p) (\<lambda>tr. lx_append env tr p)) (\<lambda>_.
     lift_traced (Inr p)))"

definition create_session_with_route_decision :: "metadata_rules \<Rightarrow> (create_session_request \<Rightarrow> bool)
    \<Rightarrow> launch_env \<Rightarrow> route_decision \<Rightarrow> create_session_request \<Rightarrow> agent_session traced" where
  "create_session_with_route_decision mr rest env d r =
     bind_traced (lift_traced (ensure (create_session_request_ok rest r) Schema_error)) (\<lambda>_.
     bind_traced (lift_traced (parse_route_decision mr d)) (\<lambda>d.
     bind_traced (lift_traced (assert_create_session_labels d r)) (\<lambda>_.
     bind_traced (lift_traced (assert_launch_decision d)) (\<lambda>_.
     bind_traced (persist_route_decision mr env d) (\<lambda>_.
     call_traced (Create_session r) (\<lambda>tr. lx_create env tr r))))))"

definition send_turn_with_route_decision :: "metadata_rules \<Rightarrow> (send_turn_request \<Rightarrow> bool)
    \<Rightarrow> launch_env \<Rightarrow> route_decision \<Rightarrow> send_turn_request \<Rightarrow> turn_handle traced" where
  "send_turn_with_route_decision mr rest env d r =
     bind_traced (lift_traced (ensure (send_turn_request_ok rest r) Schema_error)) (\<lambda>_.
     bind_traced (lift_traced (parse_route_decision mr d)) (\<lambda>d.
     bind_traced (lift_traced (assert_launch_decision d)) (\<lambda>_.
     bind_traced (call_traced (Get_session_info (st_session_id r)) (\<lambda>tr. lx_info env tr (st_session_id r))) (\<lambda>s.
     bind_traced (lift_traced (ensure (session_matches d r s)
       (policy_conflict ''Established session does not match the route target''))) (\<lambda>_.
     bind_traced (persist_route_decision mr env d) (\<lambda>_.
     call_traced (Send_turn r) (\<lambda>tr. lx_send env tr r)))))))"

section \<open>Facts\<close>

lemmas traced_defs = bind_traced_def lift_traced_def call_traced_def

lemma assert_launch_decision_Inr [res_simps]: "assert_launch_decision d = Inr u \<longleftrightarrow> gate_action d = Gate_allowed"
  by (auto simp: assert_launch_decision_def Let_def split: launch_gate_action.splits)

lemma assert_create_session_labels_Inr [res_simps]:
  "assert_create_session_labels d r = Inr u \<longleftrightarrow> rd_selected_harness d = cs_target_harness r
     \<and> (\<forall>p. cs_target_provider r = Some p \<longrightarrow> rd_selected_provider d = p)
     \<and> (\<forall>i. cs_identity_profile_id r = Some i \<longrightarrow> rd_selected_identity_profile_id d = Some i)"
  by (cases "cs_target_provider r"; cases "cs_identity_profile_id r")
    (simp_all add: assert_create_session_labels_def)

text \<open>Persistence writes at most one call, and returns only after a successful one.\<close>

lemma persist_trace:
  "persist_route_decision mr env d tr = (res, tr') \<Longrightarrow>
     (tr' = tr \<and> (\<exists>e. res = Inl e)) \<or>
     (\<exists>p. prepare_route_decision mr d = Inr p \<and> tr' = tr @ [Append_route_decision p]
        \<and> res = (case lx_append env tr p of Inl e \<Rightarrow> Inl e | Inr _ \<Rightarrow> Inr p))"
proof (cases "prepare_route_decision mr d")
  case (Inl e)
  assume a: "persist_route_decision mr env d tr = (res, tr')"
  have "persist_route_decision mr env d tr = (Inl e, tr)"
    by (simp add: persist_route_decision_def traced_defs Inl)
  with a have "res = Inl e" "tr' = tr" by simp_all
  then show ?thesis by blast
next
  case (Inr p)
  assume a: "persist_route_decision mr env d tr = (res, tr')"
  with Inr show ?thesis
    by (cases "lx_append env tr p") (auto simp: persist_route_decision_def traced_defs)
qed

section \<open>Properties\<close>

text \<open>C6: a session is only created after its route decision was stored. The provider is called at
  most once and last; just before it a decision, marked as persisted and with an open gate, was
  appended successfully, whose harness, and provider and identity where asked for, are those of the
  request; and if anything fails the provider is not called.\<close>

theorem create_session_persisted_first:
  assumes "create_session_with_route_decision mr rest env d r [] = (res, tr)"
  shows "(\<forall>q. Create_session q \<notin> set (butlast tr)) \<and> length tr \<le> 2
    \<and> (tr \<noteq> [] \<and> last tr = Create_session r \<longleftrightarrow> length tr = 2)
    \<and> (length tr = 2 \<longrightarrow> (\<exists>p g. tr = [Append_route_decision p, Create_session r]
         \<and> lx_append env [] p = Inr () \<and> res = lx_create env [Append_route_decision p] r
         \<and> route_decision_ok mr p \<and> rd_launch_gate p = Some g \<and> lg_route_decision_persisted g
         \<and> lg_action g = Gate_allowed \<and> rd_selected_harness p = cs_target_harness r
         \<and> (\<forall>x. cs_target_provider r = Some x \<longrightarrow> rd_selected_provider p = x)
         \<and> (\<forall>x. cs_identity_profile_id r = Some x \<longrightarrow> rd_selected_identity_profile_id p = Some x)))
    \<and> (length tr < 2 \<longrightarrow> (\<exists>e. res = Inl e))"
proof (cases "create_session_request_ok rest r \<and> route_decision_ok mr d
    \<and> assert_create_session_labels d r = Inr () \<and> gate_action d = Gate_allowed")
  case False
  then have "tr = [] \<and> (\<exists>e. res = Inl e)"
    using assms by (auto simp: create_session_with_route_decision_def traced_defs parse_route_decision_def
        ensure_def res_simps split: sum.splits if_splits)
  then show ?thesis by auto
next
  case True
  then have l: "assert_launch_decision d = Inr ()" by (simp add: assert_launch_decision_Inr)
  obtain res1 tr1 where p: "persist_route_decision mr env d [] = (res1, tr1)" by fastforce
  have r: "(res, tr) = (case res1 of Inl e \<Rightarrow> (Inl e, tr1) | Inr _ \<Rightarrow> (lx_create env tr1 r, tr1 @ [Create_session r]))"
    using assms True l p by (auto simp: create_session_with_route_decision_def traced_defs parse_route_decision_def
        split: sum.splits)
  from persist_trace [OF p] show ?thesis
  proof
    assume "tr1 = [] \<and> (\<exists>e. res1 = Inl e)"
    with r show ?thesis by auto
  next
    assume "\<exists>q. prepare_route_decision mr d = Inr q \<and> tr1 = [] @ [Append_route_decision q]
        \<and> res1 = (case lx_append env [] q of Inl e \<Rightarrow> Inl e | Inr _ \<Rightarrow> Inr q)"
    then obtain q where q: "prepare_route_decision mr d = Inr q" "tr1 = [Append_route_decision q]"
        "res1 = (case lx_append env [] q of Inl e \<Rightarrow> Inl e | Inr _ \<Rightarrow> Inr q)" by auto
    show ?thesis
      using prepare_route_decision_Inr [OF q(1)] q r True
      by (auto simp: gate_action_def assert_create_session_labels_Inr split: sum.splits)
  qed
qed

text \<open>C15: a turn is only sent to an established session of exactly the routed harness, provider and
  identity, after the decision was stored, through an open gate; otherwise the provider's
  \<open>sendTurn\<close> is not called.\<close>

theorem send_turn_guarded:
  assumes "send_turn_with_route_decision mr rest env d r [] = (res, tr)" "Send_turn q \<in> set tr"
  shows "q = r \<and> (\<exists>s p. tr = [Get_session_info (st_session_id r), Append_route_decision p, Send_turn r]
    \<and> lx_info env [] (st_session_id r) = Inr s \<and> as_id s = st_session_id r
    \<and> as_target_harness s = rd_selected_harness p \<and> as_target_provider s = Some (rd_selected_provider p)
    \<and> as_identity_profile_id s = rd_selected_identity_profile_id p
    \<and> gate_action d = Gate_allowed \<and> map_option lg_route_decision_persisted (rd_launch_gate p) = Some True
    \<and> lx_append env [Get_session_info (st_session_id r)] p = Inr ())"
proof (cases "send_turn_request_ok rest r \<and> route_decision_ok mr d \<and> gate_action d = Gate_allowed")
  case False
  then have "tr = []"
    using assms(1) by (auto simp: send_turn_with_route_decision_def traced_defs parse_route_decision_def
        ensure_def res_simps split: sum.splits if_splits)
  with assms(2) show ?thesis by simp
next
  case True
  then have l: "assert_launch_decision d = Inr ()" by (simp add: assert_launch_decision_Inr)
  let ?g = "Get_session_info (st_session_id r)"
  show ?thesis
  proof (cases "\<exists>s. lx_info env [] (st_session_id r) = Inr s \<and> session_matches d r s")
    case False
    then have "tr = [?g]"
      using assms(1) True l by (auto simp: send_turn_with_route_decision_def traced_defs parse_route_decision_def
          ensure_def split: sum.splits if_splits)
    with assms(2) show ?thesis by simp
  next
    case t: True
    then obtain s where s: "lx_info env [] (st_session_id r) = Inr s" "session_matches d r s" by blast
    obtain res1 tr1 where p: "persist_route_decision mr env d [?g] = (res1, tr1)" by fastforce
    have e: "(res, tr) = (case res1 of Inl e \<Rightarrow> (Inl e, tr1) | Inr _ \<Rightarrow> (lx_send env tr1 r, tr1 @ [Send_turn r]))"
      using assms(1) True l p s by (auto simp: send_turn_with_route_decision_def traced_defs parse_route_decision_def
          split: sum.splits)
    from persist_trace [OF p] show ?thesis
    proof
      assume "tr1 = [?g] \<and> (\<exists>e. res1 = Inl e)"
      with e assms(2) show ?thesis by auto
    next
      assume "\<exists>q. prepare_route_decision mr d = Inr q \<and> tr1 = [?g] @ [Append_route_decision q]
        \<and> res1 = (case lx_append env [?g] q of Inl e \<Rightarrow> Inl e | Inr _ \<Rightarrow> Inr q)"
      then obtain p' where q: "prepare_route_decision mr d = Inr p'" "tr1 = [?g, Append_route_decision p']"
        "res1 = (case lx_append env [?g] p' of Inl e \<Rightarrow> Inl e | Inr _ \<Rightarrow> Inr p')" by auto
      show ?thesis
        using prepare_route_decision_Inr [OF q(1)] q e s True assms(2)
        by (auto simp: session_matches_def split: sum.splits)
    qed
  qed
qed

section \<open>A permissive environment\<close>

definition demo_rules :: metadata_rules where
  "demo_rules = \<lparr>mr_datetime = \<lambda>_. True, mr_decision_safe = \<lambda>_. True, mr_evidence_safe = \<lambda>_. True,
     mr_sanitize_text = Inr, mr_sanitize_path = Inr\<rparr>"

definition demo_decision :: route_decision where
  "demo_decision = \<lparr>rd_task_id = ''t'', rd_selected_provider = ''openai'', rd_selected_harness = ''codex'',
     rd_selected_identity_profile_id = None, rd_preferred_provider = None, rd_preferred_harness = None,
     rd_fallback_used = False, rd_fallback_reason = None, rd_capability_fit = 1, rd_provider_health = Fin 1,
     rd_current_capacity = 1, rd_preferred_target = None, rd_context_portability = Port_high,
     rd_portability_score = None, rd_active_turn_target = None, rd_cooldown_state = None, rd_launch_gate = None,
     rd_lease_arbitration = None, rd_route_reason = Manual_route, rd_evidence_refs = None\<rparr>"

definition demo_session_info :: agent_session where
  "demo_session_info = \<lparr>as_id = ''s'', as_runtime = ''omnigent'', as_target_harness = ''codex'',
     as_target_provider = Some ''openai'', as_identity_profile_id = None, as_title = ''t'', as_state = S_idle,
     as_created_at = ''2026'', as_updated_at = ''2026'', as_correlation_id = None, as_repo_root = None,
     as_parent_session_id = None, as_root_session_id = None, as_worktree = None, as_handoff_packet = None\<rparr>"

definition demo_env :: launch_env where
  "demo_env = \<lparr>lx_append = \<lambda>_ _. Inr (), lx_create = \<lambda>_ _. Inr demo_session_info, lx_info = \<lambda>_ _. Inr demo_session_info,
     lx_send = \<lambda>_ r. Inr \<lparr>th_session_id = st_session_id r, th_turn_id = ''u'', th_idempotency_key = st_idempotency_key r,
       th_state = T_accepted, th_created_at = ''2026'', th_updated_at = ''2026'', th_event_cursor = None\<rparr>\<rparr>"

definition demo_create :: create_session_request where
  "demo_create = \<lparr>cs_target_harness = ''codex'', cs_idempotency_key = ''k'', cs_correlation_id = None,
     cs_target_provider = Some ''openai'', cs_identity_profile_id = None, cs_title = ''t'', cs_repo_root = None,
     cs_initial_message = None\<rparr>"

definition demo_send :: send_turn_request where
  "demo_send = \<lparr>st_session_id = ''s'', st_turn_id = None, st_idempotency_key = ''k'', st_correlation_id = None,
     st_message = ''go'', st_timeout_ms = None\<rparr>"

lemmas demo_defs = demo_rules_def demo_decision_def demo_session_info_def demo_env_def demo_create_def demo_send_def

theorem create_session_persisted_first_witness:
  "\<exists>p. snd (create_session_with_route_decision demo_rules (\<lambda>_. True) demo_env demo_decision demo_create []) =
     [Append_route_decision p, Create_session demo_create] \<and> route_decision_ok demo_rules p"
proof -
  have n: "length (snd (create_session_with_route_decision demo_rules (\<lambda>_. True) demo_env demo_decision demo_create [])) = 2"
    by code_simp
  from create_session_persisted_first [OF prod.collapse [symmetric], of demo_rules "\<lambda>_. True" demo_env demo_decision demo_create] n
  show ?thesis by blast
qed

theorem send_turn_guarded_witness:
  "\<exists>p. snd (send_turn_with_route_decision demo_rules (\<lambda>_. True) demo_env demo_decision demo_send []) =
     [Get_session_info ''s'', Append_route_decision p, Send_turn demo_send]"
proof -
  have "Send_turn demo_send \<in> set (snd (send_turn_with_route_decision demo_rules (\<lambda>_. True) demo_env demo_decision demo_send []))"
    by code_simp
  from send_turn_guarded [OF prod.collapse [symmetric] this] show ?thesis by (auto simp: demo_send_def)
qed

end
