(* ===== verification/RouteReplay.thy ===== *)
theory RouteReplay
  imports RouteStore RetryPolicy
begin

text \<open>
  The replay of the routing of a task (\<open>coordinator/src/replay.ts\<close>): one entry per persisted
  decision, explained with the latest classification recorded before it that applies to its target.
\<close>

section \<open>Explanations\<close>

text \<open>\<open>x.toFixed(2)\<close> of a non-negative number.\<close>

definition fixed2_text :: "rat \<Rightarrow> string" where
  "fixed2_text q = (let n = to_fixed2 q in show_int (n div 100) @ ''.'' @ digits 2 (n mod 100))"

definition explain_route_decision :: "route_decision \<Rightarrow> limit_classification option \<Rightarrow> string" where
  "explain_route_decision d c = join_with ''; ''
     ([''selected provider '' @ rd_selected_provider d, ''selected harness '' @ rd_selected_harness d]
      @ (case rd_selected_identity_profile_id d of None \<Rightarrow> []
           | Some i \<Rightarrow> if i = [] then [] else [''selected identity '' @ i])
      @ (if rd_fallback_used d then [''fallback reason '' @ or_else (rd_fallback_reason d) ''unspecified''] else [])
      @ (case rd_portability_score d of None \<Rightarrow> [] | Some q \<Rightarrow> [''portability score '' @ fixed2_text q])
      @ (case rd_active_turn_target d of None \<Rightarrow> [] | Some n \<Rightarrow> [''active-turn target '' @ show_int n])
      @ (case Option.bind (rd_cooldown_state d) dc_reason of None \<Rightarrow> []
           | Some r \<Rightarrow> if r = [] then [] else [''cooldown '' @ r])
      @ (case c of None \<Rightarrow> [] | Some c' \<Rightarrow> [''limit evidence '' @ limit_type_label (lc_type c')])
      @ (case rd_evidence_refs d of None \<Rightarrow> []
           | Some es \<Rightarrow> if es = [] then [] else [''evidence refs '' @ join_with '', '' (map er_label es)]))"

definition some_list :: "'a option \<Rightarrow> 'a list" where
  "some_list x = (case x of None \<Rightarrow> [] | Some v \<Rightarrow> [v])"

definition format_preferred_target :: "route_decision \<Rightarrow> string option" where
  "format_preferred_target d =
     (let t = rd_preferred_target d;
          parts = some_list (Option.bind t pt_provider) @ some_list (Option.bind t pt_harness)
            @ some_list (Option.bind t pt_identity_profile_id)
      in if parts = [] then None else Some (join_with '' / '' parts))"

section \<open>The loop over the records of a task\<close>

record route_replay_entry =
  re_task_id :: string
  re_selected_provider :: string
  re_selected_harness :: string
  re_selected_identity_profile_id :: "string option"
  re_preferred_target :: "string option"
  re_fallback_reason :: "string option"
  re_portability_score :: "rat option"
  re_active_turn_target :: "int option"
  re_cooldown_state :: "decision_cooldown option"
  re_evidence_refs :: "evidence_ref list"
  re_explanation :: string

definition text_truthy :: "string option \<Rightarrow> bool" where
  "text_truthy x \<longleftrightarrow> x \<noteq> None \<and> x \<noteq> Some []"

definition replay_target :: "route_decision \<Rightarrow> preferred_target option" where
  "replay_target d = or_opt (rd_preferred_target d)
     (if text_truthy (rd_preferred_provider d) \<or> text_truthy (rd_preferred_harness d)
      then Some \<lparr>pt_provider = rd_preferred_provider d, pt_harness = rd_preferred_harness d,
                 pt_identity_profile_id = None\<rparr>
      else None)"

text \<open>Provider, harness and identity a classification has to match.\<close>

definition replay_subject :: "route_decision \<Rightarrow> string \<times> string \<times> string" where
  "replay_subject d = (case replay_target d of
       None \<Rightarrow> (rd_selected_provider d, rd_selected_harness d, or_else (rd_selected_identity_profile_id d) [])
     | Some t \<Rightarrow> (or_else (pt_provider t) [], or_else (pt_harness t) [], or_else (pt_identity_profile_id t) []))"

definition latest_classification :: "limit_classification list \<Rightarrow> route_decision \<Rightarrow> limit_classification option" where
  "latest_classification cs d = (case replay_subject d of (provider, harness, identity) \<Rightarrow>
     List.find (\<lambda>c. effective_route_classification (Some c) identity provider harness None \<noteq> None) (rev cs))"

definition replay_entry :: "limit_classification list \<Rightarrow> route_decision \<Rightarrow> route_replay_entry" where
  "replay_entry cs d =
     \<lparr>re_task_id = rd_task_id d, re_selected_provider = rd_selected_provider d,
      re_selected_harness = rd_selected_harness d,
      re_selected_identity_profile_id = rd_selected_identity_profile_id d,
      re_preferred_target = format_preferred_target d, re_fallback_reason = rd_fallback_reason d,
      re_portability_score = rd_portability_score d, re_active_turn_target = rd_active_turn_target d,
      re_cooldown_state = rd_cooldown_state d, re_evidence_refs = or_else (rd_evidence_refs d) [],
      re_explanation = explain_route_decision d (latest_classification cs d)\<rparr>"

fun replay_loop :: "metadata_rules \<Rightarrow> string \<Rightarrow> limit_classification list \<Rightarrow> route_replay_entry list
    \<Rightarrow> ledger_record list \<Rightarrow> (thrown, route_replay_entry list) result" where
  "replay_loop mr task cs entries [] = Inr entries"
| "replay_loop mr task cs entries (r # rs) = (case lr_payload r of
       P_limit c \<Rightarrow> bindr (parse_limit_classification mr c) (\<lambda>c'. replay_loop mr task (cs @ [c']) entries rs)
     | P_route d \<Rightarrow> bindr (parse_route_decision mr d) (\<lambda>d'.
         bindr (ensure (rd_task_id d' = task) (Type_error ''Route replay task mismatch'')) (\<lambda>_.
         replay_loop mr task cs (entries @ [replay_entry cs d']) rs))
     | _ \<Rightarrow> replay_loop mr task cs entries rs)"

definition replay_task_routing :: "metadata_rules \<Rightarrow> string \<Rightarrow> ledger_record list \<Rightarrow> (thrown, route_replay_entry list) result" where
  "replay_task_routing mr task records = replay_loop mr task [] [] records"

section \<open>Properties\<close>

lemma replay_loop_Inr:
  "replay_loop mr task cs entries rs = Inr out \<longleftrightarrow>
     (\<forall>r \<in> set rs. (\<forall>d. lr_payload r = P_route d \<longrightarrow> route_decision_ok mr d \<and> rd_task_id d = task)
        \<and> (\<forall>c. lr_payload r = P_limit c \<longrightarrow> limit_classification_ok (mr_datetime mr) c))
     \<and> out = entries @ List.map_filter (\<lambda>i. map_option
          (replay_entry (cs @ map snd (of_kind as_limit (take i rs)))) (as_route (lr_payload (rs ! i)))) [0..<length rs]"
proof (induction mr task cs entries rs arbitrary: out rule: replay_loop.induct)
  case (1 mr task cs entries)
  then show ?case by (auto simp: map_filter_simps)
next
  case (2 mr task cs entries r rs)
  have shift: "List.map_filter f [0..<Suc n] = (case f 0 of None \<Rightarrow> [] | Some x \<Rightarrow> [x]) @ List.map_filter (\<lambda>i. f (Suc i)) [0..<n]"
    for f :: "nat \<Rightarrow> route_replay_entry option" and n
  proof -
    have "[0..<Suc n] = 0 # map Suc [0..<n]" by (simp add: map_Suc_upt upt_conv_Cons del: upt_Suc)
    then show ?thesis by (simp add: map_filter_def comp_def filter_map split: option.splits del: upt_Suc)
  qed
  show ?case
    by (cases "lr_payload r")
      (use 2 in \<open>auto simp: shift of_kind_Cons res_simps parse_limit_classification_def parse_route_decision_def
        ensure_def simp del: upt_Suc\<close>)
qed

text \<open>the replay of a task returns exactly when every recorded decision is valid and of that task and
  every recorded classification is valid; then there is one entry per decision, in the order of the
  records, and the explanation of a decision uses only classifications recorded before it.\<close>

theorem replay_task_routing_exact:
  "replay_task_routing mr task rs = Inr out \<longleftrightarrow>
     (\<forall>r \<in> set rs. (\<forall>d. lr_payload r = P_route d \<longrightarrow> route_decision_ok mr d \<and> rd_task_id d = task)
        \<and> (\<forall>c. lr_payload r = P_limit c \<longrightarrow> limit_classification_ok (mr_datetime mr) c))
     \<and> out = List.map_filter (\<lambda>i. map_option
          (replay_entry (map snd (of_kind as_limit (take i rs)))) (as_route (lr_payload (rs ! i)))) [0..<length rs]"
  by (simp add: replay_task_routing_def replay_loop_Inr)

theorem replay_task_routing_exact_witness:
  "replay_task_routing \<lparr>mr_datetime = \<lambda>_. True, mr_decision_safe = \<lambda>_. True, mr_evidence_safe = \<lambda>_. True,
     mr_sanitize_text = Inr, mr_sanitize_path = Inr\<rparr> ''t''
     [\<lparr>lr_record_id = ''r'', lr_sequence = 1, lr_schema_version = 1, lr_recorded_at = ''2026'',
       lr_session_id = None, lr_turn_id = None, lr_task_id = Some ''t'', lr_payload = P_turn
         \<lparr>th_session_id = ''s'', th_turn_id = ''t'', th_idempotency_key = ''k'', th_state = T_queued,
          th_created_at = ''2026'', th_updated_at = ''2026'', th_event_cursor = None\<rparr>\<rparr>] = Inr []"
  by (subst replay_task_routing_exact) (simp add: map_filter_simps)

end
