(* ===== verification/UiData.thy ===== *)
theory UiData
  imports LedgerData
begin

text \<open>
  The read model of the operator interface (\<open>core-contracts/src/ui-read-model.ts\<close>): one record per
  kind of row, with the fields of its schema, and the snapshot that gathers them. The three literal
  fields of a snapshot are left out.
\<close>

record ui_session_summary =
  us_session_id :: string
  us_runtime :: string
  us_target_harness :: string
  us_target_provider :: "string option"
  us_identity_profile_id :: "string option"
  us_title :: string
  us_state :: agent_session_state
  us_created_at :: string
  us_updated_at :: string
  us_parent_session_id :: "string option"
  us_root_session_id :: "string option"
  us_active_turn_count :: int
  us_pending_approval_count :: int
  us_event_count :: int
  us_evidence_ref_count :: int
  us_handoff_packet_id :: "string option"
  us_worktree_lease_id :: "string option"
  us_last_event_type :: "string option"
  us_last_event_at :: "string option"

record ui_session_tree_node =
  un_session_id :: string
  un_parent_session_id :: "string option"
  un_root_session_id :: string
  un_depth :: int
  un_title :: string
  un_state :: agent_session_state
  un_child_session_ids :: "string list"
  un_active_turn_count :: int
  un_pending_approval_count :: int
  un_handoff_packet_id :: "string option"

record ui_active_turn_summary =
  ua_session_id :: string
  ua_turn_id :: string
  ua_state :: turn_state
  ua_created_at :: string
  ua_updated_at :: string
  ua_event_cursor :: "int option"
  ua_last_event_type :: "string option"
  ua_last_event_at :: "string option"
  ua_pending_approval_request_id :: "string option"

record ui_route_decision_summary =
  ur_task_id :: string
  ur_selected_provider :: string
  ur_selected_harness :: string
  ur_selected_identity_profile_id :: "string option"
  ur_preferred_provider :: "string option"
  ur_preferred_harness :: "string option"
  ur_fallback_used :: bool
  ur_fallback_reason :: "string option"
  ur_capability_fit :: rat
  ur_provider_health :: jsnum
  ur_current_capacity :: rat
  ur_context_portability :: portability_level
  ur_portability_score :: "rat option"
  ur_active_turn_target :: "int option"
  ur_route_reason :: route_reason
  ur_cooldown_reason :: "string option"
  ur_cooldown_reset_at :: "string option"
  ur_same_provider_account_switch :: "account_switch option"
  ur_launch_action :: "launch_gate_action option"
  ur_launch_reason :: "string option"
  ur_evidence_refs :: "evidence_ref list option"

datatype ui_approval_status = Status_pending | Status_decided approval_decision

record ui_approval_summary =
  uq_approval_request_id :: string
  uq_tool_call_id :: "string option"
  uq_session_id :: string
  uq_turn_id :: string
  uq_requested_action :: string
  uq_risk :: approval_risk
  uq_allowed_approvers :: "string list"
  uq_expires_at :: "string option"
  uq_status :: ui_approval_status
  uq_decided_by :: "string option"
  uq_decided_at :: "string option"
  uq_reason :: "string option"

record ui_cooldown_summary =
  uc_provider :: string
  uc_active :: bool
  uc_reason :: string
  uc_observed_at :: string
  uc_reset_at :: "string option"
  uc_source :: cooldown_source

record ui_worktree_lease_summary =
  uw_id :: string
  uw_repo_id :: string
  uw_path :: string
  uw_branch_name :: string
  uw_mode :: worktree_mode
  uw_dirty_state :: dirty_state
  uw_holder_host :: string
  uw_holder_process_id :: int
  uw_session_id :: "string option"
  uw_turn_id :: "string option"
  uw_acquired_at :: string
  uw_renewed_at :: string
  uw_expires_at :: string
  uw_release :: "worktree_lease_release option"

record ui_handoff_summary =
  uh_packet_id :: string
  uh_session_id :: string
  uh_source_harnesses :: "string list"
  uh_target_harness :: "string option"
  uh_target_provider :: "string option"
  uh_reason :: handoff_reason
  uh_current_status :: handoff_status
  uh_objective :: string
  uh_branch :: "string option"
  uh_worktree_path :: "string option"
  uh_changed_file_count :: int
  uh_inspected_file_count :: int
  uh_command_count :: int
  uh_test_count :: int
  uh_risk_count :: int
  uh_open_question_count :: int
  uh_next_recommended_action :: "string option"

record ui_limit_classification_summary =
  ul_type :: limit_type
  ul_scope :: limit_scope
  ul_confidence :: rat
  ul_provider :: "string option"
  ul_harness :: "string option"
  ul_identity_profile_id :: "string option"
  ul_session_id :: "string option"
  ul_retry_after_seconds :: "jsnum option"
  ul_reset_at :: "string option"
  ul_status_code :: "int option"
  ul_exit_code :: "int option"
  ul_retry_same_session :: bool
  ul_reduce_concurrency :: bool
  ul_route_new_work_elsewhere :: bool
  ul_migrate_existing_portable_work :: bool
  ul_require_manual_review :: bool
  ul_same_provider_account_switch :: account_switch
  ul_notes :: "string list option"

record ui_control_snapshot =
  ui_generated_at :: string
  ui_sessions :: "ui_session_summary list"
  ui_session_tree :: "ui_session_tree_node list"
  ui_active_turns :: "ui_active_turn_summary list"
  ui_route_decisions :: "ui_route_decision_summary list"
  ui_approvals :: "ui_approval_summary list"
  ui_cooldowns :: "ui_cooldown_summary list"
  ui_worktree_leases :: "ui_worktree_lease_summary list"
  ui_handoffs :: "ui_handoff_summary list"
  ui_limit_classifications :: "ui_limit_classification_summary list"
  ui_evidence_refs :: "evidence_ref list"

end
