(* ===== verification/JsMap.thy ===== *)
theory JsMap
  imports Prelude "HOL-Library.AList"
begin

text \<open>
  \<open>Map\<close> of JavaScript as an association list in insertion order: \<open>set\<close> on a key that is there
  replaces the value and keeps the position, which is what \<open>AList.update\<close> does. The loops
  that fill a map with the latest element of each key and the loops that count per key are shared
  by several components.
\<close>

abbreviation map_set :: "'k \<Rightarrow> 'v \<Rightarrow> ('k \<times> 'v) list \<Rightarrow> ('k \<times> 'v) list" where
  "map_set \<equiv> AList.update"

definition map_values :: "('k \<times> 'v) list \<Rightarrow> 'v list" where
  "map_values m = map snd m"

definition map_latest :: "('a \<Rightarrow> 'k) \<Rightarrow> 'a list \<Rightarrow> ('k \<times> 'a) list" where
  "map_latest key xs = fold (\<lambda>x. map_set (key x) x) xs []"

definition map_bump :: "'k \<Rightarrow> ('k \<times> int) list \<Rightarrow> ('k \<times> int) list" where
  "map_bump k m = map_set k (or_else (map_of m k) 0 + 1) m"

definition map_count :: "('a \<Rightarrow> 'k) \<Rightarrow> 'a list \<Rightarrow> ('k \<times> int) list" where
  "map_count key xs = fold (\<lambda>x. map_bump (key x)) xs []"

definition count_of :: "('k \<times> int) list \<Rightarrow> 'k \<Rightarrow> int" where
  "count_of m k = or_else (map_of m k) 0"

section \<open>The latest element of a key\<close>

definition latest_in :: "('a \<Rightarrow> 'k) \<Rightarrow> 'a list \<Rightarrow> 'k \<Rightarrow> 'a option" where
  "latest_in key xs k = (if k \<in> key ` set xs then Some (last (filter (\<lambda>x. key x = k) xs)) else None)"

lemma latest_in_Nil [simp]: "latest_in key [] k = None"
  by (simp add: latest_in_def)

lemma latest_in_snoc [simp]:
  "latest_in key (xs @ [x]) k = (if key x = k then Some x else latest_in key xs k)"
  by (auto simp: latest_in_def)

lemma latest_inD: "latest_in key xs k = Some x \<Longrightarrow> x \<in> set xs \<and> key x = k"
proof (induction xs rule: rev_induct)
  case (snoc y xs)
  then show ?case by (auto split: if_splits)
qed simp

lemma latest_in_filter: "latest_in key xs k = Some x \<Longrightarrow> P x \<Longrightarrow> latest_in key (filter P xs) k = Some x"
  by (induction xs rule: rev_induct) (auto split: if_splits)

lemma latest_in_None_iff: "latest_in key xs k = None \<longleftrightarrow> k \<notin> key ` set xs"
  by (simp add: latest_in_def)

lemma map_of_map_latest: "map_of (map_latest key xs) k = latest_in key xs k"
  by (induction xs rule: rev_induct) (auto simp: map_latest_def update_conv)

lemma distinct_map_latest: "distinct (map fst (map_latest key xs))"
  by (induction xs rule: rev_induct) (simp_all add: map_latest_def distinct_update)

lemma map_latest_key: "(k, x) \<in> set (map_latest key xs) \<longleftrightarrow> latest_in key xs k = Some x"
  by (metis distinct_map_latest map_of_eq_Some_iff map_of_map_latest)

lemma set_map_values_latest:
  "x \<in> set (map_values (map_latest key xs)) \<longleftrightarrow> latest_in key xs (key x) = Some x"
proof
  assume "x \<in> set (map_values (map_latest key xs))"
  then obtain k where "latest_in key xs k = Some x" by (auto simp: map_values_def map_latest_key)
  then show "latest_in key xs (key x) = Some x" using latest_inD by force
next
  assume "latest_in key xs (key x) = Some x"
  then have "(key x, x) \<in> set (map_latest key xs)" by (simp add: map_latest_key)
  then show "x \<in> set (map_values (map_latest key xs))" by (force simp: map_values_def)
qed

lemma map_key_map_values: "map key (map_values (map_latest key xs)) = map fst (map_latest key xs)"
  unfolding map_values_def by (auto simp: map_latest_key dest!: latest_inD)

lemma distinct_keys_map_values: "distinct (map key (map_values (map_latest key xs)))"
  by (simp add: map_key_map_values distinct_map_latest)

lemma latest_in_distinct: "distinct (map key xs) \<Longrightarrow> latest_in key xs k = Some x \<longleftrightarrow> key x = k \<and> x \<in> set xs"
  by (induction xs rule: rev_induct) (auto simp: rev_image_eqI)

lemma latest_in_values: "latest_in key (map_values (map_latest key xs)) k = latest_in key xs k"
proof -
  have "latest_in key (map_values (map_latest key xs)) k = Some x \<longleftrightarrow> latest_in key xs k = Some x" for x
    using latest_inD [of key xs k x]
    by (auto simp: latest_in_distinct [OF distinct_keys_map_values] set_map_values_latest)
  then show ?thesis by (metis not_Some_eq)
qed

text \<open>In a list whose ranks increase, the latest element is the one of the greatest rank.\<close>

lemma latest_in_greatest:
  assumes "sorted_wrt (\<lambda>x y. rank x < (rank y :: int)) xs"
  shows "latest_in key xs (key x) = Some x \<longleftrightarrow>
    x \<in> set xs \<and> (\<forall>y \<in> set xs. key y = key x \<longrightarrow> rank y \<le> rank x)"
  using assms
proof (induction xs rule: rev_induct)
  case Nil
  then show ?case by simp
next
  case (snoc z xs)
  then have lt: "\<And>y. y \<in> set xs \<Longrightarrow> rank y < rank z" and s: "sorted_wrt (\<lambda>x y. rank x < rank y) xs"
    by (auto simp: sorted_wrt_append)
  then have "z \<notin> set xs" by blast
  show ?case
  proof (cases "key z = key x")
    case True
    with lt show ?thesis by (auto simp: le_less dest: lt)
  next
    case False
    with snoc.IH [OF s] show ?thesis by auto
  qed
qed

section \<open>Counting\<close>

lemma count_of_Nil [simp]: "count_of [] k = 0"
  by (simp add: count_of_def)

lemma count_of_bump: "count_of (map_bump k m) k' = (if k' = k then count_of m k + 1 else count_of m k')"
  by (simp add: count_of_def map_bump_def update_conv)

lemma count_of_map_count: "count_of (map_count key xs) k = int (length (filter (\<lambda>x. key x = k) xs))"
  by (induction xs rule: rev_induct) (auto simp: map_count_def count_of_bump)

end
