(* ===== verification/LedgerReplay.thy ===== *)
theory LedgerReplay
  imports UiData JsMap
begin

text \<open>
  The replay of the ledger (\<open>state-ledger/src/replay.ts\<close>): the projection of all records into the
  control snapshot of the operator interface, and the histories of one session. \<open>localeCompare\<close> is
  the argument \<open>cmp\<close>, the clock the argument \<open>now\<close>. A key built with \<open>JSON.stringify\<close> from a
  list of strings is the tuple of the strings, since the text determines them.
\<close>

section \<open>Generic steps\<close>

definition terminal_turn_states :: "turn_state set" where
  "terminal_turn_states = {T_cancelled, T_timed_out, T_completed, T_failed}"

definition by_sequence :: "ledger_record \<times> 'p \<Rightarrow> ledger_record \<times> 'p \<Rightarrow> int" where
  "by_sequence l r = lr_sequence (fst l) - lr_sequence (fst r)"

definition sort_by_sequence :: "(ledger_record \<times> 'p) list \<Rightarrow> (ledger_record \<times> 'p) list" where
  "sort_by_sequence rs = sort_by by_sequence rs"

definition latest_by_key :: "(ledger_record \<times> 'p \<Rightarrow> 'k) \<Rightarrow> (ledger_record \<times> 'p) list \<Rightarrow> (ledger_record \<times> 'p) list" where
  "latest_by_key key rs = map_values (map_latest key (sort_by_sequence rs))"

definition latest_event_by_key :: "(runtime_event \<Rightarrow> 'k) \<Rightarrow> runtime_event list \<Rightarrow> ('k \<times> runtime_event) list" where
  "latest_event_by_key key es = map_latest key es"

text \<open>\<open>a || b\<close> on numbers.\<close>

definition or_num :: "int \<Rightarrow> int \<Rightarrow> int" where
  "or_num a b = (if a \<noteq> 0 then a else b)"

fun event_type :: "event_payload \<Rightarrow> string" where
  "event_type (Session_created _ _) = ''runtime.session.created''"
| "event_type (Turn_started _ _) = ''runtime.turn.started''"
| "event_type (Text_delta _) = ''runtime.text.delta''"
| "event_type (Tool_call _) = ''runtime.tool.call''"
| "event_type (Tool_result _ _) = ''runtime.tool.result''"
| "event_type (Approval_request _) = ''runtime.approval.request''"
| "event_type (Limit_event _) = ''runtime.limit''"
| "event_type (Turn_completed _) = ''runtime.turn.completed''"
| "event_type (Turn_failed _) = ''runtime.turn.failed''"
| "event_type (Turn_cancelled _) = ''runtime.turn.cancelled''"
| "event_type (Turn_timed_out _) = ''runtime.turn.timed_out''"
| "event_type (Session_closed _) = ''runtime.session.closed''"
| "event_type (Heartbeat _) = ''runtime.heartbeat''"

section \<open>The session tree\<close>

text \<open>Every round of the climb adds an identifier to the ones seen; this is the number left to add.\<close>

definition climb_room :: "(string \<times> agent_session) list \<Rightarrow> string list \<Rightarrow> agent_session \<Rightarrow> nat" where
  "climb_room by_id seen current = card (insert (as_id current) (as_id ` snd ` set by_id) - set seen)"

lemma climb_room_decreases:
  assumes "as_id current \<notin> set seen" "map_of by_id p = Some parent"
  shows "climb_room by_id (as_id current # seen) parent < climb_room by_id seen current"
proof -
  have "as_id parent \<in> as_id ` snd ` set by_id" using map_of_SomeD [OF assms(2)] by force
  then have "insert (as_id parent) (as_id ` snd ` set by_id) = as_id ` snd ` set by_id" by blast
  then show ?thesis
    unfolding climb_room_def using assms(1) by (intro psubset_card_mono) auto
qed

function climb :: "(string \<times> agent_session) list \<Rightarrow> string list \<Rightarrow> int \<Rightarrow> agent_session \<Rightarrow> agent_session option \<times> int" where
  "climb by_id seen depth current =
     (if \<not> truthy (as_parent_session_id current) then (Some current, depth)
      else if as_id current \<in> set seen then (Some current, depth)
      else case map_of by_id (the (as_parent_session_id current)) of
          None \<Rightarrow> (None, depth + 1)
        | Some parent \<Rightarrow> climb by_id (as_id current # seen) (depth + 1) parent)"
  by pat_completeness auto

termination
  by (relation "measure (\<lambda>(by_id, seen, depth, current). climb_room by_id seen current)")
    (auto intro: climb_room_decreases)

declare climb.simps [simp del]

definition session_root_id :: "agent_session \<Rightarrow> (string \<times> agent_session) list \<Rightarrow> string" where
  "session_root_id session by_id =
     (if truthy (as_root_session_id session) then the (as_root_session_id session)
      else or_else (map_option as_id (fst (climb by_id [] 0 session))) (as_id session))"

definition session_depth :: "agent_session \<Rightarrow> (string \<times> agent_session) list \<Rightarrow> int" where
  "session_depth session by_id = snd (climb by_id [] 0 session)"

section \<open>The tables a snapshot is built from\<close>

record ui_tables =
  tb_sessions :: "agent_session list"
  tb_turns :: "turn_handle list"
  tb_requests :: "approval_request list"
  tb_evidence :: "evidence_ref list"
  tb_last_event_by_session :: "(string \<times> runtime_event) list"
  tb_last_event_by_turn :: "((string \<times> string option) \<times> runtime_event) list"
  tb_event_count :: "(string \<times> int) list"
  tb_evidence_count :: "(string \<times> int) list"
  tb_responses :: "((string option \<times> string option \<times> string) \<times> approval_response) list"
  tb_pending_by_turn :: "((string \<times> string) \<times> approval_request) list"
  tb_pending_count :: "(string \<times> int) list"
  tb_active_count :: "(string \<times> int) list"

definition session_records :: "ledger_record list \<Rightarrow> (ledger_record \<times> agent_session) list" where
  "session_records rs = latest_by_key (\<lambda>(_, s). as_id s) (of_kind as_session rs)"

definition turn_records :: "ledger_record list \<Rightarrow> (ledger_record \<times> turn_handle) list" where
  "turn_records rs = latest_by_key (\<lambda>(_, t). (th_session_id t, th_turn_id t)) (of_kind as_turn rs)"

definition approval_request_records :: "ledger_record list \<Rightarrow> (ledger_record \<times> approval_request) list" where
  "approval_request_records rs = sort_by_sequence (of_kind as_request rs)"

definition response_key :: "ledger_record \<times> approval_response \<Rightarrow> string option \<times> string option \<times> string" where
  "response_key = (\<lambda>(r, a). (lr_session_id r, lr_turn_id r, ap_approval_request_id a))"

definition approval_response_records :: "ledger_record list \<Rightarrow> (ledger_record \<times> approval_response) list" where
  "approval_response_records rs = latest_by_key response_key (of_kind as_response rs)"

definition request_key :: "approval_request \<Rightarrow> string option \<times> string option \<times> string" where
  "request_key q = (Some (aq_session_id q), Some (aq_turn_id q), aq_approval_request_id q)"

definition evidence_counts :: "ledger_record list \<Rightarrow> (string \<times> int) list" where
  "evidence_counts rs = fold (\<lambda>r m. case lr_session_id r of None \<Rightarrow> m | Some sid \<Rightarrow> map_bump sid m) rs []"

text \<open>The loop over the requests: those that have an answer are skipped.\<close>

fun pending_loop :: "((string option \<times> string option \<times> string) \<times> approval_response) list \<Rightarrow> approval_request list
    \<Rightarrow> ((string \<times> string) \<times> approval_request) list \<Rightarrow> (string \<times> int) list
    \<Rightarrow> ((string \<times> string) \<times> approval_request) list \<times> (string \<times> int) list" where
  "pending_loop answers [] by_turn counts = (by_turn, counts)"
| "pending_loop answers (q # qs) by_turn counts =
     (if map_of answers (request_key q) \<noteq> None then pending_loop answers qs by_turn counts
      else pending_loop answers qs (map_set (aq_session_id q, aq_turn_id q) q by_turn)
             (map_bump (aq_session_id q) counts))"

fun active_loop :: "turn_handle list \<Rightarrow> (string \<times> int) list \<Rightarrow> (string \<times> int) list" where
  "active_loop [] counts = counts"
| "active_loop (t # ts) counts =
     (if th_state t \<in> terminal_turn_states then active_loop ts counts
      else active_loop ts (map_bump (th_session_id t) counts))"

definition responses_by_id :: "ledger_record list
    \<Rightarrow> ((string option \<times> string option \<times> string) \<times> approval_response) list" where
  "responses_by_id rs = fold (\<lambda>ra. map_set (response_key ra) (snd ra)) (approval_response_records rs) []"

definition runtime_events :: "ledger_record list \<Rightarrow> runtime_event list" where
  "runtime_events rs = map snd (of_kind as_event rs)"

definition ui_tables_of :: "ledger_record list \<Rightarrow> ui_tables" where
  "ui_tables_of rs =
     (let events = runtime_events rs; evidence = sort_by_sequence (of_kind as_evidence rs);
          turns = map snd (turn_records rs); requests = map snd (approval_request_records rs);
          answers = responses_by_id rs; pending = pending_loop answers requests [] []
      in \<lparr>tb_sessions = map snd (session_records rs), tb_turns = turns, tb_requests = requests,
          tb_evidence = map snd evidence,
          tb_last_event_by_session = latest_event_by_key ev_session_id events,
          tb_last_event_by_turn = latest_event_by_key (\<lambda>e. (ev_session_id e, ev_turn_id e))
            (filter (\<lambda>e. ev_turn_id e \<noteq> None) events),
          tb_event_count = map_count ev_session_id events,
          tb_evidence_count = evidence_counts (map fst evidence),
          tb_responses = answers, tb_pending_by_turn = fst pending, tb_pending_count = snd pending,
          tb_active_count = active_loop turns []\<rparr>)"

definition sessions_by_id :: "ui_tables \<Rightarrow> (string \<times> agent_session) list" where
  "sessions_by_id tb = fold (\<lambda>s. map_set (as_id s) s) (tb_sessions tb) []"

section \<open>Rows\<close>

definition session_row :: "ui_tables \<Rightarrow> agent_session \<Rightarrow> ui_session_summary" where
  "session_row tb s =
     (let last_event = map_of (tb_last_event_by_session tb) (as_id s)
      in \<lparr>us_session_id = as_id s, us_runtime = as_runtime s, us_target_harness = as_target_harness s,
          us_target_provider = as_target_provider s, us_identity_profile_id = as_identity_profile_id s,
          us_title = as_title s, us_state = as_state s, us_created_at = as_created_at s,
          us_updated_at = as_updated_at s, us_parent_session_id = as_parent_session_id s,
          us_root_session_id = as_root_session_id s,
          us_active_turn_count = count_of (tb_active_count tb) (as_id s),
          us_pending_approval_count = count_of (tb_pending_count tb) (as_id s),
          us_event_count = count_of (tb_event_count tb) (as_id s),
          us_evidence_ref_count = count_of (tb_evidence_count tb) (as_id s),
          us_handoff_packet_id = map_option hp_packet_id (as_handoff_packet s),
          us_worktree_lease_id = map_option wlr_id (as_worktree s),
          us_last_event_type = map_option (\<lambda>e. event_type (ev_payload e)) last_event,
          us_last_event_at = map_option ev_occurred_at last_event\<rparr>)"

definition session_rows :: "(string \<Rightarrow> string \<Rightarrow> int) \<Rightarrow> ui_tables \<Rightarrow> ui_session_summary list" where
  "session_rows cmp tb = sort_by (\<lambda>l r. or_num (cmp (us_created_at l) (us_created_at r))
       (cmp (us_session_id l) (us_session_id r))) (map (session_row tb) (tb_sessions tb))"

definition tree_row :: "(string \<Rightarrow> string \<Rightarrow> int) \<Rightarrow> ui_tables \<Rightarrow> ui_session_summary list \<Rightarrow> ui_session_summary
    \<Rightarrow> (thrown, ui_session_tree_node) result" where
  "tree_row cmp tb sessions u =
     (case map_of (sessions_by_id tb) (us_session_id u) of
        None \<Rightarrow> Inl (Plain_error (''Missing session payload for '' @ us_session_id u @ ''.''))
      | Some s \<Rightarrow> Inr
          \<lparr>un_session_id = us_session_id u, un_parent_session_id = us_parent_session_id u,
           un_root_session_id = session_root_id s (sessions_by_id tb),
           un_depth = session_depth s (sessions_by_id tb), un_title = us_title u, un_state = us_state u,
           un_child_session_ids = sort_by cmp (map us_session_id
             (filter (\<lambda>c. us_parent_session_id c = Some (us_session_id u)) sessions)),
           un_active_turn_count = us_active_turn_count u,
           un_pending_approval_count = us_pending_approval_count u,
           un_handoff_packet_id = us_handoff_packet_id u\<rparr>)"

definition tree_rows :: "(string \<Rightarrow> string \<Rightarrow> int) \<Rightarrow> ui_tables \<Rightarrow> ui_session_summary list
    \<Rightarrow> (thrown, ui_session_tree_node list) result" where
  "tree_rows cmp tb sessions = bindr (map_result (tree_row cmp tb sessions) sessions) (\<lambda>nodes.
     Inr (sort_by (\<lambda>l r. or_num (un_depth l - un_depth r) (cmp (un_session_id l) (un_session_id r))) nodes))"

definition active_turn_row :: "ui_tables \<Rightarrow> turn_handle \<Rightarrow> ui_active_turn_summary" where
  "active_turn_row tb t =
     (let last_event = map_of (tb_last_event_by_turn tb) (th_session_id t, Some (th_turn_id t))
      in \<lparr>ua_session_id = th_session_id t, ua_turn_id = th_turn_id t, ua_state = th_state t,
          ua_created_at = th_created_at t, ua_updated_at = th_updated_at t, ua_event_cursor = th_event_cursor t,
          ua_last_event_type = map_option (\<lambda>e. event_type (ev_payload e)) last_event,
          ua_last_event_at = map_option ev_occurred_at last_event,
          ua_pending_approval_request_id =
            map_option aq_approval_request_id (map_of (tb_pending_by_turn tb) (th_session_id t, th_turn_id t))\<rparr>)"

definition active_turn_rows :: "(string \<Rightarrow> string \<Rightarrow> int) \<Rightarrow> ui_tables \<Rightarrow> ui_active_turn_summary list" where
  "active_turn_rows cmp tb = sort_by (\<lambda>l r. or_num (cmp (ua_session_id l) (ua_session_id r))
       (cmp (ua_turn_id l) (ua_turn_id r)))
     (map (active_turn_row tb) (filter (\<lambda>t. th_state t \<notin> terminal_turn_states) (tb_turns tb)))"

definition route_row :: "route_decision \<Rightarrow> ui_route_decision_summary" where
  "route_row d =
     \<lparr>ur_task_id = rd_task_id d, ur_selected_provider = rd_selected_provider d,
      ur_selected_harness = rd_selected_harness d,
      ur_selected_identity_profile_id = rd_selected_identity_profile_id d,
      ur_preferred_provider = rd_preferred_provider d, ur_preferred_harness = rd_preferred_harness d,
      ur_fallback_used = rd_fallback_used d, ur_fallback_reason = rd_fallback_reason d,
      ur_capability_fit = rd_capability_fit d, ur_provider_health = rd_provider_health d,
      ur_current_capacity = rd_current_capacity d, ur_context_portability = rd_context_portability d,
      ur_portability_score = rd_portability_score d, ur_active_turn_target = rd_active_turn_target d,
      ur_route_reason = rd_route_reason d,
      ur_cooldown_reason = Option.bind (rd_cooldown_state d) dc_reason,
      ur_cooldown_reset_at = Option.bind (rd_cooldown_state d) dc_reset_at,
      ur_same_provider_account_switch = map_option dc_same_provider_account_switch (rd_cooldown_state d),
      ur_launch_action = map_option lg_action (rd_launch_gate d),
      ur_launch_reason = map_option lg_reason (rd_launch_gate d),
      ur_evidence_refs = rd_evidence_refs d\<rparr>"

definition approval_row :: "ui_tables \<Rightarrow> approval_request \<Rightarrow> ui_approval_summary" where
  "approval_row tb q =
     (let response = map_of (tb_responses tb) (request_key q)
      in \<lparr>uq_approval_request_id = aq_approval_request_id q, uq_tool_call_id = aq_tool_call_id q,
          uq_session_id = aq_session_id q, uq_turn_id = aq_turn_id q,
          uq_requested_action = aq_requested_action q, uq_risk = aq_risk q,
          uq_allowed_approvers = aq_allowed_approvers q, uq_expires_at = aq_expires_at q,
          uq_status = (case response of None \<Rightarrow> Status_pending | Some a \<Rightarrow> Status_decided (ap_decision a)),
          uq_decided_by = Option.bind response ap_decided_by,
          uq_decided_at = map_option ap_decided_at response,
          uq_reason = Option.bind response ap_reason\<rparr>)"

definition approval_rows :: "(string \<Rightarrow> string \<Rightarrow> int) \<Rightarrow> ui_tables \<Rightarrow> ui_approval_summary list" where
  "approval_rows cmp tb = sort_by (\<lambda>l r. or_num (cmp (uq_session_id l) (uq_session_id r))
       (or_num (cmp (uq_turn_id l) (uq_turn_id r)) (cmp (uq_approval_request_id l) (uq_approval_request_id r))))
     (map (approval_row tb) (tb_requests tb))"

definition cooldown_row :: "provider_family_cooldown \<Rightarrow> ui_cooldown_summary" where
  "cooldown_row c = \<lparr>uc_provider = pc_provider c, uc_active = pc_active c, uc_reason = pc_reason c,
     uc_observed_at = pc_observed_at c, uc_reset_at = pc_reset_at c, uc_source = pc_source c\<rparr>"

definition lease_row :: "worktree_lease \<Rightarrow> ui_worktree_lease_summary" where
  "lease_row l =
     \<lparr>uw_id = wl_id l, uw_repo_id = wl_repo_id l, uw_path = wl_path l, uw_branch_name = wl_branch_name l,
      uw_mode = wl_mode l, uw_dirty_state = wl_dirty_state l, uw_holder_host = lh_host (wl_holder l),
      uw_holder_process_id = lh_process_id (wl_holder l), uw_session_id = lh_session_id (wl_holder l),
      uw_turn_id = lh_turn_id (wl_holder l), uw_acquired_at = wl_acquired_at l,
      uw_renewed_at = wl_renewed_at l, uw_expires_at = wl_expires_at l, uw_release = wl_release l\<rparr>"

definition list_count :: "'a list option \<Rightarrow> int" where
  "list_count xs = or_else (map_option (\<lambda>l. int (length l)) xs) 0"

definition handoff_row :: "ui_session_summary \<Rightarrow> handoff_packet \<Rightarrow> ui_handoff_summary" where
  "handoff_row u h =
     \<lparr>uh_packet_id = hp_packet_id h, uh_session_id = us_session_id u,
      uh_source_harnesses = hp_source_harnesses h, uh_target_harness = hp_target_harness h,
      uh_target_provider = hp_target_provider h, uh_reason = hp_reason h,
      uh_current_status = hp_current_status h, uh_objective = hp_objective h,
      uh_branch = Option.bind (hp_workspace h) hw_branch,
      uh_worktree_path = Option.bind (hp_workspace h) hw_worktree_path,
      uh_changed_file_count = list_count (he_changed_files (hp_evidence h)),
      uh_inspected_file_count = list_count (he_inspected_files (hp_evidence h)),
      uh_command_count = list_count (he_commands_run (hp_evidence h)),
      uh_test_count = list_count (he_test_results (hp_evidence h)),
      uh_risk_count = list_count (hp_risks h), uh_open_question_count = list_count (hp_open_questions h),
      uh_next_recommended_action = hp_next_recommended_action h\<rparr>"

definition handoff_rows :: "(string \<Rightarrow> string \<Rightarrow> int) \<Rightarrow> ui_tables \<Rightarrow> ui_session_summary list \<Rightarrow> ui_handoff_summary list" where
  "handoff_rows cmp tb sessions = sort_by (\<lambda>l r. cmp (uh_packet_id l) (uh_packet_id r))
     (List.map_filter (\<lambda>u. map_option (handoff_row u)
        (Option.bind (map_of (sessions_by_id tb) (us_session_id u)) as_handoff_packet)) sessions)"

definition limit_row :: "limit_classification \<Rightarrow> ui_limit_classification_summary" where
  "limit_row c =
     (let a = lc_routing_action c
      in \<lparr>ul_type = lc_type c, ul_scope = lc_scope c, ul_confidence = lc_confidence c,
          ul_provider = lc_provider c, ul_harness = lc_harness c,
          ul_identity_profile_id = lc_identity_profile_id c, ul_session_id = lc_session_id c,
          ul_retry_after_seconds = lc_retry_after_seconds c, ul_reset_at = lc_reset_at c,
          ul_status_code = rs_status_code (lc_raw_signal c), ul_exit_code = rs_exit_code (lc_raw_signal c),
          ul_retry_same_session = ra_retry_same_session a, ul_reduce_concurrency = ra_reduce_concurrency a,
          ul_route_new_work_elsewhere = ra_route_new_work_elsewhere a,
          ul_migrate_existing_portable_work = ra_migrate_existing_portable_work a,
          ul_require_manual_review = ra_require_manual_review a,
          ul_same_provider_account_switch = ra_same_provider_account_switch a, ul_notes = lc_notes c\<rparr>)"

definition limit_sort_key :: "ui_limit_classification_summary \<Rightarrow> string" where
  "limit_sort_key u = or_else (or_opt (ul_provider u) (ul_session_id u)) (limit_type_label (ul_type u))"

section \<open>The snapshot\<close>

text \<open>The object that is handed to \<open>uiControlSnapshotSchema.parse\<close>, from sorted records.\<close>

definition ui_snapshot_rows :: "(string \<Rightarrow> string \<Rightarrow> int) \<Rightarrow> string \<Rightarrow> ledger_record list
    \<Rightarrow> (thrown, ui_control_snapshot) result" where
  "ui_snapshot_rows cmp now rs =
     (let tb = ui_tables_of rs; sessions = session_rows cmp tb
      in bindr (tree_rows cmp tb sessions) (\<lambda>tree. Inr
          \<lparr>ui_generated_at = (if rs = [] then now else lr_recorded_at (last rs)),
           ui_sessions = sessions, ui_session_tree = tree, ui_active_turns = active_turn_rows cmp tb,
           ui_route_decisions = sort_by (\<lambda>l r. cmp (ur_task_id l) (ur_task_id r))
             (map (\<lambda>p. route_row (snd p)) (of_kind as_route rs)),
           ui_approvals = approval_rows cmp tb,
           ui_cooldowns = sort_by (\<lambda>l r. cmp (uc_provider l) (uc_provider r))
             (map (\<lambda>p. cooldown_row (snd p)) (latest_by_key (\<lambda>(_, c). pc_provider c) (of_kind as_cooldown rs))),
           ui_worktree_leases = sort_by (\<lambda>l r. cmp (uw_id l) (uw_id r))
             (map (\<lambda>p. lease_row (snd p)) (latest_by_key (\<lambda>(_, l). wl_id l) (of_kind as_lease rs))),
           ui_handoffs = handoff_rows cmp tb sessions,
           ui_limit_classifications = sort_by (\<lambda>l r. cmp (limit_sort_key l) (limit_sort_key r))
             (map (\<lambda>p. limit_row (snd p)) (sort_by_sequence (of_kind as_limit rs))),
           ui_evidence_refs = tb_evidence tb\<rparr>))"

definition empty_ui_control_snapshot :: "string \<Rightarrow> ui_control_snapshot" where
  "empty_ui_control_snapshot now =
     \<lparr>ui_generated_at = now, ui_sessions = [], ui_session_tree = [], ui_active_turns = [],
      ui_route_decisions = [], ui_approvals = [], ui_cooldowns = [], ui_worktree_leases = [],
      ui_handoffs = [], ui_limit_classifications = [], ui_evidence_refs = []\<rparr>"

definition sort_records :: "ledger_record list \<Rightarrow> ledger_record list" where
  "sort_records rs = sort_by (\<lambda>l r. lr_sequence l - lr_sequence r) rs"

definition build_ui_control_snapshot :: "(ui_control_snapshot \<Rightarrow> (thrown, ui_control_snapshot) result)
    \<Rightarrow> (string \<Rightarrow> string \<Rightarrow> int) \<Rightarrow> string \<Rightarrow> ledger_record list \<Rightarrow> (thrown, ui_control_snapshot) result" where
  "build_ui_control_snapshot ui_parse cmp now rs =
     (if rs = [] then ui_parse (empty_ui_control_snapshot now)
      else bindr (ui_snapshot_rows cmp now (sort_records rs)) ui_parse)"

section \<open>Histories\<close>

record session_history =
  sh_session_id :: string
  sh_events :: "runtime_event list"
  sh_next_cursor :: "int option"

definition history_from_records :: "ledger_record list \<Rightarrow> string \<Rightarrow> session_history" where
  "history_from_records rs sid =
     (let events = map snd (filter (\<lambda>p. lr_session_id (fst p) = Some sid) (of_kind as_event rs))
      in \<lparr>sh_session_id = sid, sh_events = events,
          sh_next_cursor = (if events = [] then None
            else Some (foldl (\<lambda>m e. max m (ev_sequence e)) 0 events + 1))\<rparr>)"

record session_replay =
  sr_session :: "agent_session option"
  sr_turns :: "turn_handle list"
  sr_history :: session_history
  sr_route_decisions :: "route_decision list"
  sr_approval_requests :: "approval_request list"
  sr_approval_responses :: "approval_response list"
  sr_evidence_refs :: "evidence_ref list"

definition replay_session :: "ledger_record list \<Rightarrow> string \<Rightarrow> session_replay" where
  "replay_session all_records sid =
     (let records = filter (\<lambda>r. lr_session_id r = Some sid) all_records;
          task_ids = List.map_filter (\<lambda>r. if truthy (lr_task_id r) then lr_task_id r else None) records;
          sessions = of_kind as_session records
      in \<lparr>sr_session = (if sessions = [] then None else Some (snd (last sessions))),
          sr_turns = map snd (latest_by_key (\<lambda>(r, _). (lr_session_id r, lr_turn_id r)) (of_kind as_turn records)),
          sr_history = history_from_records records sid,
          sr_route_decisions = map snd (filter (\<lambda>(r, _). lr_session_id r = Some sid
            \<or> (lr_session_id r = None \<and> (\<exists>t. lr_task_id r = Some t \<and> t \<in> set task_ids)))
            (of_kind as_route all_records)),
          sr_approval_requests = map snd (latest_by_key
            (\<lambda>(r, q). (lr_session_id r, lr_turn_id r, aq_approval_request_id q)) (of_kind as_request records)),
          sr_approval_responses = map snd (latest_by_key response_key (of_kind as_response records)),
          sr_evidence_refs = map snd (of_kind as_evidence records)\<rparr>)"

definition replay_route_decisions :: "ledger_record list \<Rightarrow> string option \<Rightarrow> route_decision list" where
  "replay_route_decisions rs task = map snd (filter (\<lambda>(r, _). task = None \<or> lr_task_id r = task) (of_kind as_route rs))"

end
