(* ===== verification/ReplayProperties.thy ===== *)
theory ReplayProperties
  imports LedgerReplay
begin

text \<open>
  What the control snapshot shows of a ledger. The records of a ledger have increasing sequence
  numbers; under that invariant the sorting steps of the code do nothing and every table is the
  latest record of each key.
\<close>

section \<open>Ordered ledgers\<close>

definition ledger_ordered :: "ledger_record list \<Rightarrow> bool" where
  "ledger_ordered rs \<longleftrightarrow> sorted_wrt (\<lambda>a b. lr_sequence a < lr_sequence b) rs"

lemma ledger_ordered_Cons: "ledger_ordered (r # rs) \<longleftrightarrow>
    (\<forall>x \<in> set rs. lr_sequence r < lr_sequence x) \<and> ledger_ordered rs"
  by (simp add: ledger_ordered_def)

lemma ledger_ordered_inj:
  assumes "ledger_ordered rs" "a \<in> set rs" "b \<in> set rs" "lr_sequence a = lr_sequence b"
  shows "a = b"
  using assms
proof (induction rs)
  case (Cons r rs)
  then have "\<forall>x \<in> set rs. lr_sequence r < lr_sequence x" "ledger_ordered rs" by (simp_all add: ledger_ordered_Cons)
  with Cons show ?case by fastforce
qed simp

lemma of_kind_ordered:
  "ledger_ordered rs \<Longrightarrow> sorted_wrt (\<lambda>a b. lr_sequence (fst a) < lr_sequence (fst b)) (of_kind sel rs)"
  by (induction rs) (auto simp: ledger_ordered_Cons of_kind_Cons set_of_kind split: option.splits)

lemma sort_by_sequence_of_kind [simp]:
  assumes "ledger_ordered rs"
  shows "sort_by_sequence (of_kind sel rs) = of_kind sel rs"
proof -
  have "sorted_wrt (\<lambda>x y. by_sequence x y \<le> 0) (of_kind sel rs)"
    by (rule sorted_wrt_mono_rel [OF _ of_kind_ordered [OF assms]]) (simp add: by_sequence_def)
  then show ?thesis by (simp add: sort_by_sequence_def sort_by_sorted)
qed

text \<open>A payload is current when no later record of its kind has the same key.\<close>

definition current_payload :: "(ledger_payload \<Rightarrow> 'p option) \<Rightarrow> (ledger_record \<times> 'p \<Rightarrow> 'k) \<Rightarrow> ledger_record list
    \<Rightarrow> ledger_record \<Rightarrow> 'p \<Rightarrow> bool" where
  "current_payload sel key rs r p \<longleftrightarrow> r \<in> set rs \<and> sel (lr_payload r) = Some p
     \<and> (\<forall>r' \<in> set rs. \<forall>p'. sel (lr_payload r') = Some p' \<and> key (r', p') = key (r, p)
          \<longrightarrow> lr_sequence r' \<le> lr_sequence r)"

lemma set_latest_by_key:
  assumes "ledger_ordered rs"
  shows "(r, p) \<in> set (latest_by_key key (of_kind sel rs)) \<longleftrightarrow> current_payload sel key rs r p"
proof -
  have "latest_in key (of_kind sel rs) (key (r, p)) = Some (r, p) \<longleftrightarrow> (r, p) \<in> set (of_kind sel rs)
    \<and> (\<forall>y \<in> set (of_kind sel rs). key y = key (r, p) \<longrightarrow> lr_sequence (fst y) \<le> lr_sequence (fst (r, p)))"
    by (rule latest_in_greatest [where rank = "\<lambda>x. lr_sequence (fst x)"]) (rule of_kind_ordered [OF assms])
  then show ?thesis
    by (simp add: latest_by_key_def assms set_map_values_latest current_payload_def set_of_kind) blast
qed

lemma distinct_latest_by_key:
  assumes "ledger_ordered rs"
  shows "distinct (map key (latest_by_key key (of_kind sel rs)))"
  by (simp add: latest_by_key_def assms distinct_keys_map_values)

lemma current_payload_fun:
  assumes "ledger_ordered rs" "current_payload sel key rs r p" "current_payload sel key rs r' p'"
    "key (r, p) = key (r', p')"
  shows "r = r' \<and> p = p'"
proof -
  have "lr_sequence r = lr_sequence r'"
    using assms(2,3,4) unfolding current_payload_def by (metis order_antisym)
  then have "r = r'" using assms(2,3) ledger_ordered_inj [OF assms(1)] by (simp add: current_payload_def)
  with assms(2,3) show ?thesis by (simp add: current_payload_def)
qed

section \<open>The tables\<close>

lemma tables_simps [simp]:
  assumes "ledger_ordered rs"
  shows "tb_sessions (ui_tables_of rs) = map snd (session_records rs)"
    and "tb_turns (ui_tables_of rs) = map snd (turn_records rs)"
    and "tb_requests (ui_tables_of rs) = map snd (of_kind as_request rs)"
    and "tb_evidence (ui_tables_of rs) = map snd (of_kind as_evidence rs)"
    and "tb_event_count (ui_tables_of rs) = map_count ev_session_id (runtime_events rs)"
    and "tb_last_event_by_session (ui_tables_of rs) = map_latest ev_session_id (runtime_events rs)"
    and "tb_active_count (ui_tables_of rs) = active_loop (map snd (turn_records rs)) []"
    and "tb_responses (ui_tables_of rs) = responses_by_id rs"
    and "tb_pending_count (ui_tables_of rs) =
      snd (pending_loop (responses_by_id rs) (map snd (of_kind as_request rs)) [] [])"
    and "tb_pending_by_turn (ui_tables_of rs) =
      fst (pending_loop (responses_by_id rs) (map snd (of_kind as_request rs)) [] [])"
    and "tb_evidence_count (ui_tables_of rs) = evidence_counts (map fst (of_kind as_evidence rs))"
  using assms by (simp_all add: ui_tables_of_def Let_def approval_request_records_def latest_event_by_key_def)

lemma active_loop_count: "count_of (active_loop ts m) k = count_of m k
    + int (length (filter (\<lambda>t. th_session_id t = k \<and> th_state t \<notin> terminal_turn_states) ts))"
  by (induction ts arbitrary: m) (auto simp: count_of_bump)

lemma pending_loop_count: "count_of (snd (pending_loop answers qs by_turn m)) k = count_of m k
    + int (length (filter (\<lambda>q. aq_session_id q = k \<and> map_of answers (request_key q) = None) qs))"
  by (induction answers qs by_turn m rule: pending_loop.induct) (auto simp: count_of_bump)

lemma pending_loop_turn: "map_of (fst (pending_loop answers qs by_turn m)) k =
    (case latest_in (\<lambda>q. (aq_session_id q, aq_turn_id q)) (filter (\<lambda>q. map_of answers (request_key q) = None) qs) k of
       None \<Rightarrow> map_of by_turn k | Some q \<Rightarrow> Some q)"
proof -
  have snoc: "latest_in key (x # xs) k = (case latest_in key xs k of None \<Rightarrow> if key x = k then Some x else None | Some y \<Rightarrow> Some y)"
    for key :: "approval_request \<Rightarrow> string \<times> string" and x xs
    by (auto simp: latest_in_def split: option.splits)
      (metis (mono_tags, lifting) empty_filter_conv image_eqI)+
  show ?thesis
    by (induction answers qs by_turn m rule: pending_loop.induct)
      (auto simp: snoc update_conv split: option.splits)
qed

lemma map_of_responses:
  assumes "ledger_ordered rs"
  shows "map_of (responses_by_id rs) k = map_option snd (latest_in response_key (of_kind as_response rs) k)"
proof -
  have fold_snd: "map_of (fold (\<lambda>ra. map_set (response_key ra) (snd ra)) xs []) k = map_option snd (latest_in response_key xs k)" for xs
    by (induction xs rule: rev_induct) (auto simp: update_conv)
  with assms show ?thesis by (simp add: responses_by_id_def fold_snd approval_response_records_def latest_by_key_def latest_in_values)
qed

lemma sessions_by_id_iff:
  assumes "ledger_ordered rs"
  shows "map_of (sessions_by_id (ui_tables_of rs)) k = Some s \<longleftrightarrow> as_id s = k \<and> s \<in> set (map snd (session_records rs))"
proof -
  have d: "distinct (map as_id (map snd (session_records rs)))"
    using distinct_latest_by_key [OF assms, of "\<lambda>(_, s). as_id s" as_session]
    by (simp add: session_records_def case_prod_unfold comp_def)
  from latest_in_distinct [OF d] show ?thesis
    by (simp add: sessions_by_id_def assms map_of_map_latest [unfolded map_latest_def])
qed

section \<open>The session tree\<close>

lemma climb_step:
  "climb by_id seen depth s =
     (if \<not> truthy (as_parent_session_id s) \<or> as_id s \<in> set seen then (Some s, depth)
      else case map_of by_id (the (as_parent_session_id s)) of None \<Rightarrow> (None, depth + 1)
        | Some p \<Rightarrow> climb by_id (as_id s # seen) (depth + 1) p)"
  by (subst climb.simps) simp

text \<open>The parents of a session, nearest first, up to one that has none.\<close>

fun ancestor_path :: "(string \<times> agent_session) list \<Rightarrow> agent_session \<Rightarrow> agent_session list \<Rightarrow> bool" where
  "ancestor_path by_id s [] \<longleftrightarrow> \<not> truthy (as_parent_session_id s)"
| "ancestor_path by_id s (p # ps) \<longleftrightarrow> truthy (as_parent_session_id s)
     \<and> map_of by_id (the (as_parent_session_id s)) = Some p \<and> ancestor_path by_id p ps"

lemma ancestor_path_unique: "ancestor_path m s ps \<Longrightarrow> ancestor_path m s qs \<Longrightarrow> ps = qs"
proof (induction ps arbitrary: s qs)
  case Nil
  then show ?case by (cases qs) auto
next
  case (Cons p ps)
  then show ?case by (cases qs) auto
qed

lemma ancestor_path_drop:
  "ancestor_path m s ps \<Longrightarrow> p \<in> set ps \<Longrightarrow> \<exists>qs. ancestor_path m p qs \<and> length qs < length ps"
proof (induction ps arbitrary: s)
  case (Cons q ps)
  show ?case
  proof (cases "p = q")
    case True
    with Cons.prems show ?thesis by auto
  next
    case False
    with Cons obtain qs where "ancestor_path m p qs" "length qs < length ps" by auto
    then show ?thesis by (auto intro!: exI [of _ qs])
  qed
qed simp

lemma ancestor_path_acyclic: "ancestor_path m s ps \<Longrightarrow> s \<notin> set ps"
  using ancestor_path_drop ancestor_path_unique by (metis less_irrefl)

lemma climb_path:
  assumes "ancestor_path m s ps" "map_of m (as_id s) = Some s"
    and key: "\<And>k x. map_of m k = Some x \<Longrightarrow> as_id x = k"
    and "set seen \<inter> as_id ` set (s # ps) = {}"
  shows "climb m seen d s = (Some (last (s # ps)), d + int (length ps))"
  using assms(1,2,4)
proof (induction ps arbitrary: s seen d)
  case Nil
  then show ?case by (subst climb_step) simp
next
  case (Cons p ps)
  then have p: "map_of m (the (as_parent_session_id s)) = Some p" "ancestor_path m p ps"
    "truthy (as_parent_session_id s)" "as_id s \<notin> set seen" by auto
  have in_map: "map_of m (as_id x) = Some x" if "x \<in> set (p # ps)" for x
  proof -
    have "ancestor_path m a bs \<Longrightarrow> map_of m (as_id a) = Some a \<Longrightarrow> x \<in> set bs \<Longrightarrow> map_of m (as_id x) = Some x" for a bs
      using key by (induction bs arbitrary: a) fastforce+
    from this [OF Cons.prems(1,2)] that show ?thesis by simp
  qed
  have "as_id s \<notin> as_id ` set (p # ps)"
    using in_map Cons.prems(2) ancestor_path_acyclic [OF Cons.prems(1)] by (metis imageE option.inject)
  with Cons.prems(3) p(4) have "set (as_id s # seen) \<inter> as_id ` set (p # ps) = {}" by auto
  from Cons.IH [OF p(2) _ this] in_map p show ?case by (subst climb_step) simp
qed

lemma climb_bound:
  "d \<le> snd (climb m seen d s) \<and> snd (climb m seen d s) \<le> d + int (climb_room m seen s)"
proof (induction m seen d s rule: climb.induct)
  case (1 m seen d s)
  show ?case
  proof (cases "\<not> truthy (as_parent_session_id s) \<or> as_id s \<in> set seen")
    case True
    then show ?thesis by (subst (1 2) climb_step) auto
  next
    case False
    show ?thesis
    proof (cases "map_of m (the (as_parent_session_id s))")
      case None
      have "0 < climb_room m seen s"
        using False by (auto simp: climb_room_def card_gt_0_iff)
      with False None show ?thesis by (subst (1 2) climb_step) simp
    next
      case (Some p)
      have "climb_room m (as_id s # seen) p < climb_room m seen s"
        using climb_room_decreases [OF _ Some] False by blast
      with 1 [OF _ _ Some] False Some show ?thesis by (subst (1 2) climb_step) auto
    qed
  qed
qed

lemma session_depth_bound: "0 \<le> session_depth s m \<and> session_depth s m \<le> 1 + int (length m)"
proof -
  have "card (insert (as_id s) (as_id ` snd ` set m)) \<le> Suc (card (as_id ` snd ` set m))" by (rule card_insert_le_m1) auto
  also have "card (as_id ` snd ` set m) \<le> length m"
    using card_image_le [of "snd ` set m" as_id] card_image_le [of "set m" snd] card_length [of m] by simp
  finally have "climb_room m [] s \<le> Suc (length m)" by (simp add: climb_room_def)
  with climb_bound [of 0 m "[]" s] show ?thesis by (simp add: session_depth_def)
qed

section \<open>The rows\<close>

lemma comparator_on: "comparator c \<Longrightarrow> comparator (\<lambda>x y. c (h x) (h y))"
  unfolding comparator_def by blast

context collation
begin

lemma or_num_le: "or_num a b \<le> 0 \<longleftrightarrow> a < 0 \<or> (a = 0 \<and> b \<le> 0)"
  by (auto simp: or_num_def)

sublocale pair_order: comparator "\<lambda>l r. or_num (cmp (fst l) (fst r)) (cmp (snd l) (snd r))"
proof
  fix x y z :: "string \<times> string"
  show "or_num (cmp (fst x) (fst y)) (cmp (snd x) (snd y)) \<le> 0 \<or> or_num (cmp (fst y) (fst x)) (cmp (snd y) (snd x)) \<le> 0"
    using cmp_antisym [of "fst x" "fst y"] cmp_antisym [of "fst y" "fst x"] cmp_total [of "snd x" "snd y"]
    by (auto simp: or_num_le)
  assume a: "or_num (cmp (fst x) (fst y)) (cmp (snd x) (snd y)) \<le> 0" "or_num (cmp (fst y) (fst z)) (cmp (snd y) (snd z)) \<le> 0"
  then have "cmp (fst x) (fst y) \<le> 0" "cmp (fst y) (fst z) \<le> 0" by (auto simp: or_num_le)
  then have t: "cmp (fst x) (fst z) \<le> 0" by (rule cmp_trans)
  show "or_num (cmp (fst x) (fst z)) (cmp (snd x) (snd z)) \<le> 0"
  proof (cases "cmp (fst x) (fst z) = 0")
    case True
    then have "cmp (fst z) (fst x) \<le> 0" using cmp_zero by simp
    with a have "cmp (fst y) (fst x) \<le> 0" "cmp (fst z) (fst y) \<le> 0"
      using cmp_trans [of "fst y" "fst z" "fst x"] cmp_trans [of "fst z" "fst x" "fst y"] by (auto simp: or_num_le)
    with a have "cmp (snd x) (snd y) \<le> 0" "cmp (snd y) (snd z) \<le> 0"
      using cmp_antisym [of "fst y" "fst x"] cmp_antisym [of "fst z" "fst y"] by (auto simp: or_num_le)
    with True show ?thesis using cmp_trans by (auto simp: or_num_le)
  next
    case False
    with t show ?thesis by (simp add: or_num_le)
  qed
qed

lemma sorted_pairs: "sorted_wrt (\<lambda>l r. or_num (cmp (f l) (f r)) (cmp (g l) (g r)) \<le> 0)
    (sort_by (\<lambda>l r. or_num (cmp (f l) (f r)) (cmp (g l) (g r))) xs)"
  using comparator.sorted_sort_by [OF comparator_on [OF pair_order.comparator_axioms, of "\<lambda>x. (f x, g x)"]]
  by simp

end

lemma map_result_set:
  assumes "\<And>x. x \<in> set xs \<Longrightarrow> \<exists>y. f x = Inr y"
  shows "\<exists>ys. map_result f xs = Inr ys \<and> (\<forall>y. y \<in> set ys \<longleftrightarrow> (\<exists>x \<in> set xs. f x = Inr y)) \<and> length ys = length xs"
  using assms
proof (induction xs)
  case (Cons x xs)
  obtain y where "f x = Inr y" using Cons.prems [of x] by auto
  moreover obtain ys where "map_result f xs = Inr ys" "length ys = length xs"
    "\<forall>y. y \<in> set ys \<longleftrightarrow> (\<exists>x \<in> set xs. f x = Inr y)" using Cons by auto
  ultimately show ?case by auto
qed simp

lemma map_of_tables_sessions:
  assumes "ledger_ordered rs" "s \<in> set (tb_sessions (ui_tables_of rs))"
  shows "map_of (sessions_by_id (ui_tables_of rs)) (as_id s) = Some s"
  using assms sessions_by_id_iff [OF assms(1)] by simp

lemma session_row_id [simp]: "us_session_id (session_row tb s) = as_id s"
  by (simp add: session_row_def Let_def)

lemma set_session_rows: "set (session_rows cmp tb) = session_row tb ` set (tb_sessions tb)"
  by (simp add: session_rows_def)

lemma tree_row_id: "tree_row cmp tb us u = Inr n \<Longrightarrow> un_session_id n = us_session_id u"
  by (auto simp: tree_row_def split: option.splits)

lemma tree_row_total:
  assumes "ledger_ordered rs" "u \<in> set (session_rows cmp (ui_tables_of rs))"
  shows "\<exists>n. tree_row cmp (ui_tables_of rs) us u = Inr n"
  using assms(2) map_of_tables_sessions [OF assms(1)] by (auto simp: set_session_rows tree_row_def)

lemma approval_row_simps [simp]:
  "uq_status (approval_row tb q) = Status_pending \<longleftrightarrow> map_of (tb_responses tb) (request_key q) = None"
  "uq_session_id (approval_row tb q) = aq_session_id q"
  by (simp_all add: approval_row_def Let_def split: option.splits)

text \<open>Every row of the list of sessions has its node: the error for a missing session is never thrown.\<close>

lemma tree_rows_total:
  assumes "ledger_ordered rs"
  shows "\<exists>nodes. tree_rows cmp (ui_tables_of rs) (session_rows cmp (ui_tables_of rs)) = Inr nodes
    \<and> (\<forall>n. n \<in> set nodes \<longleftrightarrow> (\<exists>u \<in> set (session_rows cmp (ui_tables_of rs)).
          tree_row cmp (ui_tables_of rs) (session_rows cmp (ui_tables_of rs)) u = Inr n))
    \<and> length nodes = length (session_rows cmp (ui_tables_of rs))"
proof -
  let ?tb = "ui_tables_of rs" let ?us = "session_rows cmp ?tb"
  from map_result_set [OF tree_row_total [OF assms]] show ?thesis by (force simp: tree_rows_def)
qed

lemma snapshot_total:
  assumes "ledger_ordered rs"
  obtains snap nodes where "ui_snapshot_rows cmp now rs = Inr snap"
    "tree_rows cmp (ui_tables_of rs) (session_rows cmp (ui_tables_of rs)) = Inr nodes"
    "ui_session_tree snap = nodes" "ui_sessions snap = session_rows cmp (ui_tables_of rs)"
    "ui_active_turns snap = active_turn_rows cmp (ui_tables_of rs)"
    "ui_approvals snap = approval_rows cmp (ui_tables_of rs)"
  using tree_rows_total [OF assms, of cmp] by (auto simp: ui_snapshot_rows_def Let_def)

section \<open>Properties\<close>

text \<open>the snapshot of a ledger can always be built; its sessions are exactly the latest record of
  every session, each once, in the order of creation and then of identifiers; and the tree has
  exactly one node per session.\<close>

theorem snapshot_sessions_exact:
  assumes "ledger_ordered rs" "collation cmp"
  shows "\<exists>snap. ui_snapshot_rows cmp now rs = Inr snap
    \<and> (\<forall>u. u \<in> set (ui_sessions snap) \<longleftrightarrow>
         (\<exists>r s. current_payload as_session (\<lambda>(_, s). as_id s) rs r s \<and> u = session_row (ui_tables_of rs) s))
    \<and> distinct (map us_session_id (ui_sessions snap))
    \<and> sorted_wrt (\<lambda>l r. or_num (cmp (us_created_at l) (us_created_at r)) (cmp (us_session_id l) (us_session_id r)) \<le> 0)
        (ui_sessions snap)
    \<and> length (ui_session_tree snap) = length (ui_sessions snap)
    \<and> un_session_id ` set (ui_session_tree snap) = us_session_id ` set (ui_sessions snap)"
proof -
  let ?tb = "ui_tables_of rs"
  obtain snap nodes where snap: "ui_snapshot_rows cmp now rs = Inr snap"
      "tree_rows cmp ?tb (session_rows cmp ?tb) = Inr nodes" "ui_session_tree snap = nodes"
      "ui_sessions snap = session_rows cmp ?tb"
    using snapshot_total [OF assms(1)] by metis
  have "s \<in> set (tb_sessions ?tb) \<longleftrightarrow> (\<exists>r. current_payload as_session (\<lambda>(_, s). as_id s) rs r s)" for s
    using set_latest_by_key [OF assms(1)] by (force simp: assms(1) session_records_def)
  then have sessions: "u \<in> set (ui_sessions snap) \<longleftrightarrow>
      (\<exists>r s. current_payload as_session (\<lambda>(_, s). as_id s) rs r s \<and> u = session_row ?tb s)" for u
    unfolding snap(4) set_session_rows by blast
  have "distinct (map as_id (tb_sessions ?tb))"
    using distinct_latest_by_key [OF assms(1), of "\<lambda>(_, s). as_id s" as_session] assms(1)
    by (simp add: session_records_def case_prod_unfold comp_def)
  then have d: "distinct (map us_session_id (ui_sessions snap))"
    by (simp add: snap(4) session_rows_def map_sort_by_distinct comp_def)
  have nodes: "length nodes = length (session_rows cmp ?tb)"
      "n \<in> set nodes \<longleftrightarrow> (\<exists>u \<in> set (session_rows cmp ?tb). tree_row cmp ?tb (session_rows cmp ?tb) u = Inr n)" for n
    using tree_rows_total [OF assms(1), of cmp] snap(2) by auto
  have "un_session_id ` set nodes = us_session_id ` set (session_rows cmp ?tb)" (is "?A = ?B")
  proof
    show "?A \<subseteq> ?B" using nodes(2) tree_row_id by blast
    show "?B \<subseteq> ?A"
    proof
      fix x assume "x \<in> ?B"
      then obtain u n where "u \<in> set (session_rows cmp ?tb)" "x = us_session_id u"
        "tree_row cmp ?tb (session_rows cmp ?tb) u = Inr n"
        using tree_row_total [OF assms(1)] by blast
      then show "x \<in> ?A" using nodes(2) tree_row_id by (metis imageI)
    qed
  qed
  with snap nodes(1) sessions d show ?thesis
    using collation.sorted_pairs [OF assms(2)] by (auto simp: session_rows_def)
qed


text \<open>C28: the counters of a session agree with the rest of the snapshot: the active turns and the
  pending approvals it counts are the rows listed for it, its events and evidence are those of the
  ledger, and its node in the tree shows the same numbers.\<close>

theorem snapshot_counts_agree:
  assumes "ledger_ordered rs" "ui_snapshot_rows cmp now rs = Inr snap" "u \<in> set (ui_sessions snap)"
  shows "us_active_turn_count u = int (length (filter (\<lambda>t. ua_session_id t = us_session_id u) (ui_active_turns snap)))
    \<and> us_pending_approval_count u = int (length (filter (\<lambda>a. uq_session_id a = us_session_id u
        \<and> uq_status a = Status_pending) (ui_approvals snap)))
    \<and> us_event_count u = int (length (filter (\<lambda>e. ev_session_id e = us_session_id u) (runtime_events rs)))
    \<and> us_evidence_ref_count u = int (length (filter (\<lambda>p. lr_session_id (fst p) = Some (us_session_id u))
        (of_kind as_evidence rs)))
    \<and> (\<forall>n \<in> set (ui_session_tree snap). un_session_id n = us_session_id u \<longrightarrow>
        un_active_turn_count n = us_active_turn_count u \<and> un_pending_approval_count n = us_pending_approval_count u)"
proof -
  let ?tb = "ui_tables_of rs"
  obtain nodes where snap: "tree_rows cmp ?tb (session_rows cmp ?tb) = Inr nodes" "ui_session_tree snap = nodes"
      "ui_sessions snap = session_rows cmp ?tb" "ui_active_turns snap = active_turn_rows cmp ?tb"
      "ui_approvals snap = approval_rows cmp ?tb"
    using snapshot_total [OF assms(1), of cmp now] assms(2) by (metis sum.inject(2))
  obtain s where u: "u = session_row ?tb s" "s \<in> set (tb_sessions ?tb)"
    using assms(3) by (auto simp: snap(3) set_session_rows)
  have active: "us_active_turn_count u = int (length (filter (\<lambda>t. ua_session_id t = us_session_id u) (ui_active_turns snap)))"
    by (simp add: u snap(4) session_row_def active_turn_rows_def Let_def assms(1) active_loop_count
        filter_map comp_def active_turn_row_def conj_commute)
  have pending: "us_pending_approval_count u = int (length (filter (\<lambda>a. uq_session_id a = us_session_id u
        \<and> uq_status a = Status_pending) (ui_approvals snap)))"
    by (simp add: u snap(5) session_row_def approval_rows_def Let_def assms(1) pending_loop_count
        filter_map comp_def)
  have events: "us_event_count u = int (length (filter (\<lambda>e. ev_session_id e = us_session_id u) (runtime_events rs)))"
    by (simp add: u session_row_def Let_def assms(1) count_of_map_count)
  have "count_of (evidence_counts xs) k = int (length (filter (\<lambda>r. lr_session_id r = Some k) xs))" for xs k
    by (induction xs rule: rev_induct) (auto simp: evidence_counts_def count_of_bump split: option.splits)
  then have evidence: "us_evidence_ref_count u = int (length (filter (\<lambda>p. lr_session_id (fst p) = Some (us_session_id u))
        (of_kind as_evidence rs)))"
    by (simp add: u session_row_def Let_def assms(1) filter_map comp_def)
  have tree: "un_active_turn_count n = us_active_turn_count u \<and> un_pending_approval_count n = us_pending_approval_count u"
    if "n \<in> set nodes" "un_session_id n = us_session_id u" for n
  proof -
    obtain v where v: "v \<in> set (session_rows cmp ?tb)" "tree_row cmp ?tb (session_rows cmp ?tb) v = Inr n"
      using tree_rows_total [OF assms(1), of cmp] snap(1) \<open>n \<in> set nodes\<close> by auto
    then obtain s' where s': "v = session_row ?tb s'" "s' \<in> set (tb_sessions ?tb)" by (auto simp: set_session_rows)
    from v(2) that(2) u(1) s'(1) have "as_id s' = as_id s" by (auto simp: tree_row_def split: option.splits)
    with s'(2) u(2) map_of_tables_sessions [OF assms(1)] have "s' = s" by (metis option.inject)
    with v(2) s'(1) u(1) show ?thesis by (auto simp: tree_row_def split: option.splits)
  qed
  from active pending events evidence tree show ?thesis by (simp add: snap(2))
qed

text \<open>the active turns of the snapshot are exactly the turns whose latest record is not in a
  terminal state, each once; a row names a pending approval exactly when a request of that turn has no
  answer, and then it names such a request.\<close>

theorem snapshot_active_turns_exact:
  assumes "ledger_ordered rs" "ui_snapshot_rows cmp now rs = Inr snap"
  shows "(\<forall>row. row \<in> set (ui_active_turns snap) \<longleftrightarrow>
      (\<exists>r t. current_payload as_turn (\<lambda>(_, t). (th_session_id t, th_turn_id t)) rs r t
         \<and> th_state t \<notin> terminal_turn_states \<and> row = active_turn_row (ui_tables_of rs) t))
    \<and> distinct (map (\<lambda>row. (ua_session_id row, ua_turn_id row)) (ui_active_turns snap))
    \<and> (\<forall>row \<in> set (ui_active_turns snap).
        let pending = filter (\<lambda>q. aq_session_id q = ua_session_id row \<and> aq_turn_id q = ua_turn_id row
              \<and> map_of (responses_by_id rs) (request_key q) = None) (map snd (of_kind as_request rs))
        in ua_pending_approval_request_id row = (if pending = [] then None else Some (aq_approval_request_id (last pending))))"
proof -
  let ?tb = "ui_tables_of rs"
  have snap: "ui_active_turns snap = active_turn_rows cmp ?tb"
    using snapshot_total [OF assms(1), of cmp now] assms(2) by (metis sum.inject(2))
  have turns: "t \<in> set (tb_turns ?tb) \<longleftrightarrow> (\<exists>r. current_payload as_turn (\<lambda>(_, t). (th_session_id t, th_turn_id t)) rs r t)" for t
    using set_latest_by_key [OF assms(1)] by (force simp: assms(1) turn_records_def)
  have rows: "set (ui_active_turns snap) = active_turn_row ?tb ` {t \<in> set (tb_turns ?tb). th_state t \<notin> terminal_turn_states}"
    by (auto simp: snap active_turn_rows_def)
  have "distinct (map (\<lambda>t. (th_session_id t, th_turn_id t)) (tb_turns ?tb))"
    using distinct_latest_by_key [OF assms(1), of "\<lambda>(_, t). (th_session_id t, th_turn_id t)" as_turn] assms(1)
    by (simp add: turn_records_def case_prod_unfold comp_def)
  then have d: "distinct (map (\<lambda>row. (ua_session_id row, ua_turn_id row)) (ui_active_turns snap))"
    by (simp add: snap active_turn_rows_def map_sort_by_distinct comp_def active_turn_row_def Let_def distinct_map_filter)
  have p: "ua_pending_approval_request_id (active_turn_row ?tb t) = (if pending = [] then None else Some (aq_approval_request_id (last pending)))"
    if "pending = filter (\<lambda>q. aq_session_id q = th_session_id t \<and> aq_turn_id q = th_turn_id t
        \<and> map_of (responses_by_id rs) (request_key q) = None) (map snd (of_kind as_request rs))" for t pending
  proof -
    have "latest_in key (filter P qs) k = (if filter (\<lambda>q. key q = k \<and> P q) qs = [] then None
        else Some (last (filter (\<lambda>q. key q = k \<and> P q) qs)))" for key :: "approval_request \<Rightarrow> string \<times> string" and P qs k
      by (auto simp: latest_in_def filter_empty_conv conj_commute)
    then show ?thesis
      by (simp add: that active_turn_row_def Let_def assms(1) pending_loop_turn split: option.splits)
  qed
  have ids: "ua_session_id (active_turn_row ?tb t) = th_session_id t" "ua_turn_id (active_turn_row ?tb t) = th_turn_id t" for t
    by (simp_all add: active_turn_row_def Let_def)
  have exact: "row \<in> set (ui_active_turns snap) \<longleftrightarrow>
      (\<exists>r t. current_payload as_turn (\<lambda>(_, t). (th_session_id t, th_turn_id t)) rs r t
         \<and> th_state t \<notin> terminal_turn_states \<and> row = active_turn_row ?tb t)" for row
    unfolding rows using turns by blast
  have named: "let pending = filter (\<lambda>q. aq_session_id q = ua_session_id row \<and> aq_turn_id q = ua_turn_id row
              \<and> map_of (responses_by_id rs) (request_key q) = None) (map snd (of_kind as_request rs))
        in ua_pending_approval_request_id row = (if pending = [] then None else Some (aq_approval_request_id (last pending)))"
    if "row \<in> set (ui_active_turns snap)" for row
    using that p [OF refl] unfolding rows Let_def by (elim imageE) (simp only: ids)
  from exact d named show ?thesis by blast
qed

text \<open>there is one approval row per recorded request, and a row is pending exactly when no response
  to it was recorded for its session and turn; otherwise it shows the decision of the last response.\<close>

theorem snapshot_approvals_exact:
  assumes "ledger_ordered rs" "ui_snapshot_rows cmp now rs = Inr snap"
  shows "length (ui_approvals snap) = length (of_kind as_request rs)
    \<and> set (ui_approvals snap) = {approval_row (ui_tables_of rs) q | q. \<exists>r \<in> set rs. lr_payload r = P_request q}
    \<and> (\<forall>row \<in> set (ui_approvals snap).
        let key = (Some (uq_session_id row), Some (uq_turn_id row), uq_approval_request_id row)
        in (uq_status row = Status_pending \<longleftrightarrow>
              \<not> (\<exists>r \<in> set rs. \<exists>a. lr_payload r = P_response a \<and> response_key (r, a) = key))
          \<and> (\<forall>d. uq_status row = Status_decided d \<longleftrightarrow>
              (\<exists>r a. current_payload as_response response_key rs r a \<and> response_key (r, a) = key \<and> ap_decision a = d)))"
proof -
  let ?tb = "ui_tables_of rs"
  have snap: "ui_approvals snap = approval_rows cmp ?tb"
    using snapshot_total [OF assms(1), of cmp now] assms(2) by (metis sum.inject(2))
  have req: "as_request p = Some q \<longleftrightarrow> p = P_request q" for p q by (cases p) auto
  have resp: "as_response p = Some a \<longleftrightarrow> p = P_response a" for p a by (cases p) auto
  have rows: "set (ui_approvals snap) = {approval_row ?tb q | q. \<exists>r \<in> set rs. lr_payload r = P_request q}"
    by (force simp: snap approval_rows_def assms(1) set_of_kind req)
  have key: "(Some (uq_session_id (approval_row ?tb q)), Some (uq_turn_id (approval_row ?tb q)),
      uq_approval_request_id (approval_row ?tb q)) = request_key q" for q
    by (simp add: approval_row_def Let_def request_key_def)
  have pending: "uq_status (approval_row ?tb q) = Status_pending \<longleftrightarrow>
      \<not> (\<exists>r \<in> set rs. \<exists>a. lr_payload r = P_response a \<and> response_key (r, a) = request_key q)" for q
    by (force simp: assms(1) map_of_responses latest_in_None_iff set_of_kind resp)
  have latest: "latest_in response_key (of_kind as_response rs) k = Some (r, a) \<longleftrightarrow>
      current_payload as_response response_key rs r a \<and> response_key (r, a) = k" for k r a
    using set_latest_by_key [OF assms(1), of r a response_key as_response] latest_inD [of response_key _ k "(r, a)"]
    by (auto simp: latest_by_key_def assms(1) set_map_values_latest)
  have "uq_status (approval_row ?tb q) = Status_decided d \<longleftrightarrow>
      (\<exists>r a. latest_in response_key (of_kind as_response rs) (request_key q) = Some (r, a) \<and> ap_decision a = d)" for q d
    by (auto simp: approval_row_def Let_def assms(1) map_of_responses split: option.splits)
  then have decided: "uq_status (approval_row ?tb q) = Status_decided d \<longleftrightarrow>
      (\<exists>r a. current_payload as_response response_key rs r a \<and> response_key (r, a) = request_key q \<and> ap_decision a = d)" for q d
    unfolding latest by simp
  have "\<forall>row \<in> set (ui_approvals snap).
        let key = (Some (uq_session_id row), Some (uq_turn_id row), uq_approval_request_id row)
        in (uq_status row = Status_pending \<longleftrightarrow>
              \<not> (\<exists>r \<in> set rs. \<exists>a. lr_payload r = P_response a \<and> response_key (r, a) = key))
          \<and> (\<forall>d. uq_status row = Status_decided d \<longleftrightarrow>
              (\<exists>r a. current_payload as_response response_key rs r a \<and> response_key (r, a) = key \<and> ap_decision a = d))"
  proof
    fix row assume "row \<in> set (ui_approvals snap)"
    then obtain q where "row = approval_row ?tb q" using rows by blast
    then show "let key = (Some (uq_session_id row), Some (uq_turn_id row), uq_approval_request_id row)
        in (uq_status row = Status_pending \<longleftrightarrow>
              \<not> (\<exists>r \<in> set rs. \<exists>a. lr_payload r = P_response a \<and> response_key (r, a) = key))
          \<and> (\<forall>d. uq_status row = Status_decided d \<longleftrightarrow>
              (\<exists>r a. current_payload as_response response_key rs r a \<and> response_key (r, a) = key \<and> ap_decision a = d))"
      using pending [of q] decided [of q] by (simp only: Let_def key) simp
  qed
  moreover have "length (ui_approvals snap) = length (of_kind as_request rs)"
    by (simp add: snap approval_rows_def assms(1))
  ultimately show ?thesis using rows by blast
qed

text \<open>C29: every chain of parents ends, also a cyclic one: the depth of a node is at most the number of
  sessions. When the chain reaches a session without parent, the depth is its length and the root is
  that session, unless the session names its root itself. The children of a node are exactly the
  sessions that name it as parent.\<close>

theorem session_tree_exact:
  assumes "ledger_ordered rs" "ui_snapshot_rows cmp now rs = Inr snap" "n \<in> set (ui_session_tree snap)"
  shows "\<exists>s. map_of (sessions_by_id (ui_tables_of rs)) (un_session_id n) = Some s
    \<and> 0 \<le> un_depth n \<and> un_depth n \<le> int (length (ui_sessions snap))
    \<and> (\<forall>ps. ancestor_path (sessions_by_id (ui_tables_of rs)) s ps \<longrightarrow> un_depth n = int (length ps)
         \<and> un_root_session_id n = (if truthy (as_root_session_id s) then the (as_root_session_id s)
             else as_id (last (s # ps))))
    \<and> set (un_child_session_ids n) =
        us_session_id ` {u \<in> set (ui_sessions snap). us_parent_session_id u = Some (un_session_id n)}"
proof -
  let ?tb = "ui_tables_of rs" let ?m = "sessions_by_id ?tb"
  obtain nodes where snap: "tree_rows cmp ?tb (session_rows cmp ?tb) = Inr nodes" "ui_session_tree snap = nodes"
      "ui_sessions snap = session_rows cmp ?tb"
    using snapshot_total [OF assms(1), of cmp now] assms(2) by (metis sum.inject(2))
  obtain u where u: "u \<in> set (session_rows cmp ?tb)" "tree_row cmp ?tb (session_rows cmp ?tb) u = Inr n"
    using tree_rows_total [OF assms(1), of cmp] snap(1,2) assms(3) by auto
  then obtain s where s: "map_of ?m (us_session_id u) = Some s" and
      n: "un_root_session_id n = session_root_id s ?m" "un_depth n = session_depth s ?m"
        "un_session_id n = us_session_id u" "set (un_child_session_ids n) =
          us_session_id ` {c \<in> set (session_rows cmp ?tb). us_parent_session_id c = Some (us_session_id u)}"
    by (auto simp: tree_row_def split: option.splits)
  have key: "map_of ?m k = Some x \<Longrightarrow> as_id x = k" for k x using sessions_by_id_iff [OF assms(1)] by blast
  have "snd ` set ?m \<subseteq> set (tb_sessions ?tb)"
  proof
    fix x assume "x \<in> snd ` set ?m"
    then obtain k where "(k, x) \<in> set (map_latest as_id (tb_sessions ?tb))"
      by (auto simp: sessions_by_id_def map_latest_def)
    then show "x \<in> set (tb_sessions ?tb)" using latest_inD by (fastforce simp: map_latest_key)
  qed
  moreover have "s \<in> set (map snd (session_records rs))" using s sessions_by_id_iff [OF assms(1)] by blast
  then have "as_id s \<in> as_id ` set (tb_sessions ?tb)" by (intro imageI) (simp only: tables_simps(1) [OF assms(1)])
  ultimately have "insert (as_id s) (as_id ` snd ` set ?m) \<subseteq> as_id ` set (tb_sessions ?tb)" by blast
  then have "climb_room ?m [] s \<le> card (as_id ` set (tb_sessions ?tb))"
    unfolding climb_room_def by (intro card_mono) auto
  also have "\<dots> \<le> length (tb_sessions ?tb)" using card_image_le card_length le_trans by blast
  finally have bound: "0 \<le> un_depth n" "un_depth n \<le> int (length (ui_sessions snap))"
    using climb_bound [of 0 ?m "[]" s] by (auto simp: n(2) session_depth_def snap(3) session_rows_def)
  have "un_depth n = int (length ps) \<and> un_root_session_id n = (if truthy (as_root_session_id s)
      then the (as_root_session_id s) else as_id (last (s # ps)))" if "ancestor_path ?m s ps" for ps
    using climb_path [OF that _ key, of "[]" 0] s key [OF s] by (simp add: n session_depth_def session_root_id_def)
  with s n(3,4) bound show ?thesis unfolding snap(3) by (intro exI [of _ s]) (simp add: snap(3))
qed

section \<open>A ledger with two sessions, a turn and two requests\<close>

definition demo_session :: "string \<Rightarrow> string option \<Rightarrow> agent_session" where
  "demo_session i parent = \<lparr>as_id = i, as_runtime = ''omnigent'', as_target_harness = ''codex'',
     as_target_provider = None, as_identity_profile_id = None, as_title = ''t'', as_state = S_idle,
     as_created_at = ''2026-01-01'', as_updated_at = ''2026-01-01'', as_correlation_id = None,
     as_repo_root = None, as_parent_session_id = parent, as_root_session_id = None,
     as_worktree = None, as_handoff_packet = None\<rparr>"

definition demo_turn :: turn_handle where
  "demo_turn = \<lparr>th_session_id = ''b'', th_turn_id = ''t'', th_idempotency_key = ''k'', th_state = T_running,
     th_created_at = ''2026-01-01'', th_updated_at = ''2026-01-01'', th_event_cursor = None\<rparr>"

definition demo_request :: "string \<Rightarrow> approval_request" where
  "demo_request i = \<lparr>aq_approval_request_id = i, aq_tool_call_id = None, aq_session_id = ''b'', aq_turn_id = ''t'',
     aq_requested_action = ''run'', aq_risk = Risk_low, aq_allowed_approvers = [''op''], aq_expires_at = None\<rparr>"

definition demo_record :: "int \<Rightarrow> string option \<Rightarrow> string option \<Rightarrow> ledger_payload \<Rightarrow> ledger_record" where
  "demo_record n sid tid p = \<lparr>lr_record_id = show_int n, lr_sequence = n, lr_schema_version = 1,
     lr_recorded_at = ''2026-01-01'', lr_session_id = sid, lr_turn_id = tid, lr_task_id = None, lr_payload = p\<rparr>"

definition demo_records :: "ledger_record list" where
  "demo_records =
     [demo_record 1 (Some ''a'') None (P_session (demo_session ''a'' None)),
      demo_record 2 (Some ''b'') None (P_session (demo_session ''b'' (Some ''a''))),
      demo_record 3 (Some ''b'') (Some ''t'') (P_turn demo_turn),
      demo_record 4 (Some ''b'') (Some ''t'') (P_request (demo_request ''q1'')),
      demo_record 5 (Some ''b'') (Some ''t'') (P_request (demo_request ''q2'')),
      demo_record 6 (Some ''b'') (Some ''t'') (P_response \<lparr>ap_approval_request_id = ''q1'', ap_decision = Approved,
        ap_decided_by = None, ap_decided_at = ''2026-01-01'', ap_reason = None\<rparr>)]"

definition demo_snapshot :: ui_control_snapshot where
  "demo_snapshot = projr (ui_snapshot_rows buffer_compare ''now'' demo_records)"

lemma demo_ordered: "ledger_ordered demo_records"
  by (simp add: ledger_ordered_def demo_records_def demo_record_def)

lemma demo_snapshot_ok: "ui_snapshot_rows buffer_compare ''now'' demo_records = Inr demo_snapshot"
  using snapshot_total [OF demo_ordered, of buffer_compare "''now''"] unfolding demo_snapshot_def by (metis sum.sel(2))

lemma demo_snapshot_rows:
  "map us_session_id (ui_sessions demo_snapshot) = [''a'', ''b'']"
  "map un_session_id (ui_session_tree demo_snapshot) = [''a'', ''b'']"
  "map un_depth (ui_session_tree demo_snapshot) = [0, 1]"
  by code_simp+

theorem snapshot_sessions_exact_witness:
  "\<exists>snap. ui_snapshot_rows buffer_compare ''now'' demo_records = Inr snap
    \<and> length (ui_session_tree snap) = length (ui_sessions snap) \<and> distinct (map us_session_id (ui_sessions snap))"
  using snapshot_sessions_exact [OF demo_ordered buffer.collation_axioms, of "''now''"] by blast

theorem snapshot_counts_agree_witness:
  "us_pending_approval_count (ui_sessions demo_snapshot ! 1) = int (length (filter (\<lambda>a. uq_session_id a = ''b''
      \<and> uq_status a = Status_pending) (ui_approvals demo_snapshot)))"
proof -
  have l: "length (ui_sessions demo_snapshot) = 2" "us_session_id (ui_sessions demo_snapshot ! 1) = ''b''"
    using demo_snapshot_rows(1) by (simp_all add: list_eq_iff_nth_eq nth_Cons' numeral_2_eq_2)
  then have "ui_sessions demo_snapshot ! 1 \<in> set (ui_sessions demo_snapshot)" by (simp add: nth_mem)
  from snapshot_counts_agree [OF demo_ordered demo_snapshot_ok this] l(2) show ?thesis by simp
qed

theorem snapshot_active_turns_exact_witness:
  "distinct (map (\<lambda>row. (ua_session_id row, ua_turn_id row)) (ui_active_turns demo_snapshot))"
  using snapshot_active_turns_exact [OF demo_ordered demo_snapshot_ok] by blast

theorem snapshot_approvals_exact_witness: "length (ui_approvals demo_snapshot) = length (of_kind as_request demo_records)"
  using snapshot_approvals_exact [OF demo_ordered demo_snapshot_ok] by blast

theorem session_tree_exact_witness:
  "un_depth (ui_session_tree demo_snapshot ! 1) \<le> int (length (ui_sessions demo_snapshot))"
proof -
  have "length (ui_session_tree demo_snapshot) = 2"
    using arg_cong [OF demo_snapshot_rows(2), of length] by simp
  then have "ui_session_tree demo_snapshot ! 1 \<in> set (ui_session_tree demo_snapshot)" by (simp add: nth_mem)
  from session_tree_exact [OF demo_ordered demo_snapshot_ok this] show ?thesis by blast
qed

end
