(* ===== verification/Retention.thy ===== *)
theory Retention
  imports LedgerData JsMap JsNum JsDate
begin

text \<open>
  Which records a compaction keeps (\<open>state-ledger/src/retention.ts\<close>). The sets of the code are sets
  here; the fixpoint loop ends because every round that reports a change adds a sequence number or a
  task of the ledger. A key built with \<open>JSON.stringify\<close> from strings is the list of the strings,
  with \<open>None\<close> where the code passes \<open>undefined\<close>. The keep count is an integer.
\<close>

section \<open>Keys\<close>

type_synonym entity_key = "string option list"

fun entity_key_of :: "ledger_record \<Rightarrow> ledger_payload \<Rightarrow> entity_key" where
  "entity_key_of r (P_session s) = [Some ''session'', Some (as_id s)]"
| "entity_key_of r (P_turn t) = [Some ''turn'', Some (th_session_id t), Some (th_turn_id t)]"
| "entity_key_of r (P_lease l) = [Some ''lease'', Some (wl_id l)]"
| "entity_key_of r (P_request q) =
     [Some ''request'', Some (aq_session_id q), Some (aq_turn_id q), Some (aq_approval_request_id q)]"
| "entity_key_of r (P_response a) =
     [Some ''response'', lr_session_id r, lr_turn_id r, Some (ap_approval_request_id a)]"
| "entity_key_of r (P_cooldown c) = [Some ''cooldown'', Some (pc_provider c)]"
| "entity_key_of r (P_identity i) = [Some ''identity'', Some (is_profile_id i)]"
| "entity_key_of r _ = [Some ''record'', Some (lr_record_id r)]"

definition entity_key :: "ledger_record \<Rightarrow> entity_key" where
  "entity_key r = entity_key_of r (lr_payload r)"

section \<open>The policy and the roots\<close>

record retention_policy =
  rp_prune_kinds :: "ledger_kind list option"
  rp_max_age_ms :: "int option"
  rp_keep_latest_per_kind :: "int option"
  rp_protected_record_ids :: "string list option"
  rp_non_root_kinds :: "ledger_kind list option"

definition non_roots :: "retention_policy \<Rightarrow> ledger_kind list" where
  "non_roots p = or_else (rp_non_root_kinds p) []"

definition prune_kinds :: "retention_policy \<Rightarrow> ledger_kind list" where
  "prune_kinds p = or_else (rp_prune_kinds p) state_ledger_record_kinds"

text \<open>\<open>Date.parse(s) >= bound\<close> and \<open>Date.parse(s) > bound\<close>: an unreadable date compares false.\<close>

definition date_at_least :: "string \<Rightarrow> int \<Rightarrow> bool" where
  "date_at_least s bound = (case date_parse s of None \<Rightarrow> False | Some t \<Rightarrow> bound \<le> t)"

definition date_after :: "string \<Rightarrow> int \<Rightarrow> bool" where
  "date_after s bound = (case date_parse s of None \<Rightarrow> False | Some t \<Rightarrow> bound < t)"

definition initially_kept :: "retention_policy \<Rightarrow> int \<Rightarrow> ledger_record \<Rightarrow> bool" where
  "initially_kept p now r \<longleftrightarrow> lr_record_id r \<in> set (or_else (rp_protected_record_ids p) [])
     \<or> (lr_kind r \<notin> set (non_roots p)
        \<and> (lr_kind r \<notin> set (prune_kinds p)
           \<or> (case rp_max_age_ms p of None \<Rightarrow> True | Some age \<Rightarrow> date_at_least (lr_recorded_at r) (now - age))))"

definition last_of :: "int \<Rightarrow> 'a list \<Rightarrow> 'a list" where
  "last_of n xs = (if 0 < n then drop (length xs - nat n) xs else [])"

definition initial_keep :: "retention_policy \<Rightarrow> int \<Rightarrow> ledger_record list \<Rightarrow> int set" where
  "initial_keep p now records =
     lr_sequence ` set (filter (initially_kept p now) records)
     \<union> lr_sequence ` set (concat (map (\<lambda>k. last_of (or_else (rp_keep_latest_per_kind p) 0)
          (filter (\<lambda>r. lr_kind r = k) records)) (filter (\<lambda>k. k \<notin> set (non_roots p)) (prune_kinds p))))"

record retention_roots =
  rr_sessions :: "string set"
  rr_turns :: "(string option \<times> string option) set"
  rr_leases :: "string set"
  rr_requests :: "(string \<times> string \<times> string) set"

definition open_session_states :: "agent_session_state \<Rightarrow> bool" where
  "open_session_states s \<longleftrightarrow> s \<notin> {S_closed, S_failed}"

definition open_turn_state :: "turn_state \<Rightarrow> bool" where
  "open_turn_state s \<longleftrightarrow> s \<notin> {T_cancelled, T_timed_out, T_completed, T_failed}"

definition option_set :: "string option \<Rightarrow> string set" where
  "option_set x = (if truthy x then {the x} else {})"

text \<open>What the latest record of an entity adds to the roots.\<close>

fun add_roots :: "int \<Rightarrow> (entity_key \<times> ledger_record) list \<Rightarrow> ledger_payload \<Rightarrow> retention_roots \<Rightarrow> retention_roots" where
  "add_roots now latest (P_session s) m =
     (if open_session_states (as_state s) then m\<lparr>rr_sessions := insert (as_id s) (rr_sessions m)\<rparr> else m)"
| "add_roots now latest (P_turn t) m =
     (if open_turn_state (th_state t)
      then m\<lparr>rr_turns := insert (Some (th_session_id t), Some (th_turn_id t)) (rr_turns m),
             rr_sessions := insert (th_session_id t) (rr_sessions m)\<rparr> else m)"
| "add_roots now latest (P_lease l) m =
     (if date_after (wl_expires_at l) now
      then m\<lparr>rr_leases := insert (wl_id l) (rr_leases m),
             rr_sessions := option_set (lh_session_id (wl_holder l)) \<union> rr_sessions m,
             rr_turns := (if truthy (lh_turn_id (wl_holder l))
               then {(lh_session_id (wl_holder l), lh_turn_id (wl_holder l))} else {}) \<union> rr_turns m\<rparr>
      else m)"
| "add_roots now latest (P_request q) m =
     (if map_of latest [Some ''response'', Some (aq_session_id q), Some (aq_turn_id q), Some (aq_approval_request_id q)] = None
      then m\<lparr>rr_requests := insert (aq_session_id q, aq_turn_id q, aq_approval_request_id q) (rr_requests m),
             rr_sessions := insert (aq_session_id q) (rr_sessions m),
             rr_turns := insert (Some (aq_session_id q), Some (aq_turn_id q)) (rr_turns m)\<rparr>
      else m)"
| "add_roots now latest _ m = m"

definition no_retention_roots :: retention_roots where
  "no_retention_roots = \<lparr>rr_sessions = {}, rr_turns = {}, rr_leases = {}, rr_requests = {}\<rparr>"

definition retention_roots_of :: "retention_policy \<Rightarrow> int \<Rightarrow> (entity_key \<times> ledger_record) list \<Rightarrow> retention_roots" where
  "retention_roots_of p now latest =
     fold (\<lambda>r m. if lr_kind r \<in> set (non_roots p) then m else add_roots now latest (lr_payload r) m)
       (map_values latest) no_retention_roots"

section \<open>The fixpoint loop\<close>

record retention_context =
  rc_records :: "ledger_record list"
  rc_latest :: "(entity_key \<times> ledger_record) list"
  rc_non_roots :: "ledger_kind list"
  rc_roots :: retention_roots

record retention_state =
  rs_keep :: "int set"
  rs_tasks :: "string set"
  rs_changed :: bool

definition keep_sequence :: "int \<Rightarrow> retention_state \<Rightarrow> retention_state" where
  "keep_sequence n st = (if n \<in> rs_keep st then st
     else st\<lparr>rs_keep := insert n (rs_keep st), rs_changed := True\<rparr>)"

definition add_task :: "string option \<Rightarrow> retention_state \<Rightarrow> retention_state" where
  "add_task t st = (if truthy t \<and> the t \<notin> rs_tasks st
     then st\<lparr>rs_tasks := insert (the t) (rs_tasks st), rs_changed := True\<rparr> else st)"

definition reference :: "retention_context \<Rightarrow> entity_key \<Rightarrow> retention_state \<Rightarrow> retention_state" where
  "reference c k st = (case map_of (rc_latest c) k of None \<Rightarrow> st | Some d \<Rightarrow> keep_sequence (lr_sequence d) st)"

definition scoped_session :: "ledger_record \<Rightarrow> string option" where
  "scoped_session r = (case as_session (lr_payload r) of Some s \<Rightarrow> Some (as_id s) | None \<Rightarrow> lr_session_id r)"

definition protected_history :: "retention_context \<Rightarrow> string set \<Rightarrow> ledger_record \<Rightarrow> bool" where
  "protected_history c tasks r \<longleftrightarrow> lr_kind r \<notin> set (rc_non_roots c)
     \<and> ((truthy (scoped_session r) \<and> the (scoped_session r) \<in> rr_sessions (rc_roots c))
        \<or> (lr_session_id r, lr_turn_id r) \<in> rr_turns (rc_roots c)
        \<or> (truthy (lr_task_id r) \<and> the (lr_task_id r) \<in> tasks)
        \<or> (case as_lease (lr_payload r) of None \<Rightarrow> False | Some l \<Rightarrow> wl_id l \<in> rr_leases (rc_roots c))
        \<or> (case as_request (lr_payload r) of None \<Rightarrow> False
           | Some q \<Rightarrow> (aq_session_id q, aq_turn_id q, aq_approval_request_id q) \<in> rr_requests (rc_roots c)))"

fun payload_references :: "ledger_record \<Rightarrow> ledger_payload \<Rightarrow> entity_key list" where
  "payload_references r (P_session s) =
     [[Some ''session'', as_parent_session_id s], [Some ''session'', as_root_session_id s],
      [Some ''lease'', map_option wlr_id (as_worktree s)]]
     @ map (\<lambda>i. [Some ''session'', Some i])
         (case as_handoff_packet s of None \<Rightarrow> [] | Some h \<Rightarrow> hp_source_session_ids h)"
| "payload_references r (P_lease l) =
     [[Some ''session'', lh_session_id (wl_holder l)]]
     @ (if truthy (lh_turn_id (wl_holder l))
        then [[Some ''turn'', lh_session_id (wl_holder l), lh_turn_id (wl_holder l)]] else [])"
| "payload_references r (P_response a) =
     [[Some ''request'', lr_session_id r, lr_turn_id r, Some (ap_approval_request_id a)]]"
| "payload_references r (P_request q) =
     [[Some ''response'', Some (aq_session_id q), Some (aq_turn_id q), Some (aq_approval_request_id q)]]"
| "payload_references r _ = []"

text \<open>The keys that a record refers to, in the order of the code.\<close>

definition references_of :: "ledger_record \<Rightarrow> entity_key list" where
  "references_of r =
     (if truthy (scoped_session r) then [[Some ''session'', scoped_session r]] else [])
     @ (if truthy (lr_turn_id r) then [[Some ''turn'', lr_session_id r, lr_turn_id r]] else [])
     @ payload_references r (lr_payload r)"

definition retain_record :: "retention_context \<Rightarrow> ledger_record \<Rightarrow> retention_state \<Rightarrow> retention_state" where
  "retain_record c r st =
     (let protected = protected_history c (rs_tasks st) r;
          st1 = (if protected then keep_sequence (lr_sequence r) st else st)
      in if lr_sequence r \<notin> rs_keep st1 then st1
         else fold (reference c) (references_of r)
           ((if protected then add_task (lr_task_id r) else id) (reference c (entity_key r) st1)))"

definition retain_pass :: "retention_context \<Rightarrow> retention_state \<Rightarrow> retention_state" where
  "retain_pass c st = fold (retain_record c) (rc_records c) (st\<lparr>rs_changed := False\<rparr>)"

subsection \<open>Every step only adds, and marks what it adds\<close>

text \<open>What a round can still add.\<close>

definition retention_room :: "retention_context \<Rightarrow> retention_state \<Rightarrow> (int + string) set" where
  "retention_room c st =
     Inl ` (lr_sequence ` (set (rc_records c) \<union> snd ` set (rc_latest c)) - rs_keep st)
     \<union> Inr ` ((the \<circ> lr_task_id) ` set (rc_records c) - rs_tasks st)"

text \<open>A step to \<open>t\<close> stays within what the ledger has, and has set the flag if it added anything.\<close>

definition grows :: "retention_context \<Rightarrow> retention_state \<Rightarrow> retention_state \<Rightarrow> bool" where
  "grows c st t \<longleftrightarrow> rs_keep st \<subseteq> rs_keep t \<and> rs_tasks st \<subseteq> rs_tasks t \<and> (rs_changed st \<longrightarrow> rs_changed t)
     \<and> (rs_changed t \<longrightarrow> \<not> rs_changed st \<longrightarrow> retention_room c t \<subset> retention_room c st)
     \<and> (\<not> rs_changed t \<longrightarrow> t = st)"

lemma room_mono: "rs_keep st \<subseteq> rs_keep t \<Longrightarrow> rs_tasks st \<subseteq> rs_tasks t \<Longrightarrow> retention_room c t \<subseteq> retention_room c st"
  unfolding retention_room_def by blast

lemma finite_room: "finite (retention_room c st)"
  by (simp add: retention_room_def)

lemma grows_refl [simp, intro]: "grows c st st"
  by (simp add: grows_def)

lemma grows_trans: "grows c s t \<Longrightarrow> grows c t u \<Longrightarrow> grows c s u"
  unfolding grows_def by (metis order_trans psubset_subset_trans room_mono subset_psubset_trans)

lemma grows_keep:
  assumes "r \<in> set (rc_records c) \<union> snd ` set (rc_latest c)"
  shows "grows c st (keep_sequence (lr_sequence r) st)"
proof (cases "lr_sequence r \<in> rs_keep st")
  case False
  let ?t = "keep_sequence (lr_sequence r) st"
  have "Inl (lr_sequence r) \<in> retention_room c st" "Inl (lr_sequence r) \<notin> retention_room c ?t"
    using False assms by (auto simp: retention_room_def keep_sequence_def)
  moreover have "rs_keep st \<subseteq> rs_keep ?t" "rs_tasks st \<subseteq> rs_tasks ?t" "rs_changed ?t"
    using False by (auto simp: keep_sequence_def)
  ultimately show ?thesis using room_mono [of st ?t c] unfolding grows_def by blast
qed (simp add: keep_sequence_def)

lemma grows_task:
  assumes "r \<in> set (rc_records c)"
  shows "grows c st (add_task (lr_task_id r) st)"
proof (cases "truthy (lr_task_id r) \<and> the (lr_task_id r) \<notin> rs_tasks st")
  case True
  let ?t = "add_task (lr_task_id r) st"
  have "Inr (the (lr_task_id r)) \<in> retention_room c st" "Inr (the (lr_task_id r)) \<notin> retention_room c ?t"
    using True assms by (auto simp: retention_room_def add_task_def)
  moreover have "rs_keep st \<subseteq> rs_keep ?t" "rs_tasks st \<subseteq> rs_tasks ?t" "rs_changed ?t"
    using True by (auto simp: add_task_def)
  ultimately show ?thesis using room_mono [of st ?t c] unfolding grows_def by blast
qed (auto simp: add_task_def)

lemma grows_reference: "grows c st (reference c k st)"
  by (auto simp: reference_def split: option.splits intro!: grows_keep dest!: map_of_SomeD) force

lemma grows_fold:
  assumes "\<And>x s. x \<in> set xs \<Longrightarrow> grows c s (f x s)"
  shows "grows c st (fold f xs st)"
  using assms by (induction xs arbitrary: st) (auto intro: grows_trans)

lemma grows_retain_record:
  assumes "r \<in> set (rc_records c)"
  shows "grows c st (retain_record c r st)"
proof -
  define st1 where "st1 = (if protected_history c (rs_tasks st) r then keep_sequence (lr_sequence r) st else st)"
  define f where "f = (if protected_history c (rs_tasks st) r then add_task (lr_task_id r) else id)"
  have st1: "grows c st st1" using assms by (simp add: st1_def grows_keep)
  have f: "grows c s (f s)" for s using grows_task [OF assms] by (simp add: f_def)
  have refs: "grows c s (fold (reference c) ks s)" for s ks by (rule grows_fold) (rule grows_reference)
  show ?thesis unfolding retain_record_def Let_def st1_def [symmetric] f_def [symmetric]
    using st1 grows_trans [OF st1 grows_trans [OF grows_reference grows_trans [OF f refs]]] by simp
qed

lemma grows_pass: "grows c (st\<lparr>rs_changed := False\<rparr>) (retain_pass c st)"
  unfolding retain_pass_def by (rule grows_fold) (rule grows_retain_record)

subsection \<open>The loop\<close>

function retain_loop :: "retention_context \<Rightarrow> retention_state \<Rightarrow> retention_state" where
  "retain_loop c st = (let st' = retain_pass c st in if rs_changed st' then retain_loop c st' else st')"
  by pat_completeness auto
termination
proof (relation "measure (\<lambda>(c, st). card (retention_room c st))")
  fix c st st'
  assume "st' = retain_pass c st" "rs_changed st'"
  moreover have "retention_room c (st\<lparr>rs_changed := False\<rparr>) = retention_room c st" by (simp add: retention_room_def)
  ultimately have "retention_room c st' \<subset> retention_room c st" using grows_pass [of c st] by (simp add: grows_def)
  then show "((c, st'), (c, st)) \<in> measure (\<lambda>(c, st). card (retention_room c st))"
    by (simp add: psubset_card_mono finite_room)
qed simp

declare retain_loop.simps [simp del]

definition retention_context_of :: "retention_policy \<Rightarrow> int \<Rightarrow> ledger_record list \<Rightarrow> retention_context" where
  "retention_context_of p now records =
     (let latest = map_latest entity_key records in
      \<lparr>rc_records = records, rc_latest = latest, rc_non_roots = non_roots p, rc_roots = retention_roots_of p now latest\<rparr>)"

definition select_retention_sequences :: "ledger_record list \<Rightarrow> retention_policy \<Rightarrow> int \<Rightarrow> int set" where
  "select_retention_sequences records p now =
     rs_keep (retain_loop (retention_context_of p now records)
       \<lparr>rs_keep = initial_keep p now records, rs_tasks = {}, rs_changed = True\<rparr>)"

end
