(* ===== verification/LedgerScope.thy ===== *)
theory LedgerScope
  imports LedgerData
begin

text \<open>The scope of a ledger record (\<open>normalizeLedgerScope\<close> of \<open>state-ledger/src/schema.ts\<close>): the
  session, turn and task of the envelope must agree with the payload and are filled in from it.\<close>

fun payload_scope :: "ledger_payload \<Rightarrow> string option \<times> string option \<times> string option" where
  "payload_scope (P_session s) = (Some (as_id s), None, None)"
| "payload_scope (P_turn t) = (Some (th_session_id t), Some (th_turn_id t), None)"
| "payload_scope (P_request q) = (Some (aq_session_id q), Some (aq_turn_id q), None)"
| "payload_scope (P_event e) = (Some (ev_session_id e), ev_turn_id e, None)"
| "payload_scope (P_lease l) = (lh_session_id (wl_holder l), lh_turn_id (wl_holder l), None)"
| "payload_scope (P_limit c) = (lc_session_id c, None, None)"
| "payload_scope (P_route d) = (None, None, Some (rd_task_id d))"
| "payload_scope _ = (None, None, None)"

definition scope_agrees :: "string option \<Rightarrow> string option \<Rightarrow> bool" where
  "scope_agrees envelope payload \<longleftrightarrow> envelope = None \<or> payload = None \<or> envelope = payload"

definition normalize_ledger_scope :: "ledger_record \<Rightarrow> (thrown, ledger_record) result" where
  "normalize_ledger_scope r = (case payload_scope (lr_payload r) of (s, t, k) \<Rightarrow>
     if scope_agrees (lr_session_id r) s \<and> scope_agrees (lr_turn_id r) t \<and> scope_agrees (lr_task_id r) k
     then Inr (r\<lparr>lr_session_id := or_opt (lr_session_id r) s, lr_turn_id := or_opt (lr_turn_id r) t,
                lr_task_id := or_opt (lr_task_id r) k\<rparr>)
     else Inl (Plain_error ''Ledger envelope scope conflicts with payload scope.''))"

text \<open>A normalized record: what the payload says of its scope, the envelope says too.\<close>

definition scoped_record :: "ledger_record \<Rightarrow> bool" where
  "scoped_record r \<longleftrightarrow> (case payload_scope (lr_payload r) of (s, t, k) \<Rightarrow>
     (s \<noteq> None \<longrightarrow> lr_session_id r = s) \<and> (t \<noteq> None \<longrightarrow> lr_turn_id r = t) \<and> (k \<noteq> None \<longrightarrow> lr_task_id r = k))"

lemma or_opt_agrees: "scope_agrees e p \<Longrightarrow> p \<noteq> None \<Longrightarrow> or_opt e p = p"
  by (cases e) (auto simp: scope_agrees_def)

lemma normalize_ledger_scope_Inr:
  assumes "normalize_ledger_scope r = Inr r'"
  shows "scoped_record r' \<and> lr_payload r' = lr_payload r \<and> lr_record_id r' = lr_record_id r
    \<and> lr_sequence r' = lr_sequence r \<and> lr_schema_version r' = lr_schema_version r"
  using assms by (auto simp: normalize_ledger_scope_def scoped_record_def or_opt_agrees split: prod.splits if_splits)

lemma normalize_scoped: "scoped_record r \<Longrightarrow> normalize_ledger_scope r = Inr r"
  by (cases "lr_session_id r"; cases "lr_turn_id r"; cases "lr_task_id r")
    (auto simp: normalize_ledger_scope_def scoped_record_def scope_agrees_def split: prod.splits)

lemma normalize_scoped_iff: "normalize_ledger_scope r = Inr r \<longleftrightarrow> scoped_record r"
  using normalize_scoped normalize_ledger_scope_Inr by blast

end
