(* ===== verification/RetentionProperties.thy ===== *)
theory RetentionProperties
  imports Retention LedgerScope
begin

text \<open>
  What a compaction keeps: exactly the least set of records that holds the roots and is closed under
  history, newest records and references. From this follow the protection of live work and that
  pruning does not change what the kept records say.
\<close>

section \<open>The least closed set\<close>

inductive_set retained :: "retention_context \<Rightarrow> int set \<Rightarrow> (int + string) set" for c K where
  initial: "n \<in> K \<Longrightarrow> Inl n \<in> retained c K"
| root: "r \<in> set (rc_records c) \<Longrightarrow> protected_history c {} r \<Longrightarrow> Inl (lr_sequence r) \<in> retained c K"
| root_task: "r \<in> set (rc_records c) \<Longrightarrow> protected_history c {} r \<Longrightarrow> truthy (lr_task_id r)
    \<Longrightarrow> Inr (the (lr_task_id r)) \<in> retained c K"
| task: "r \<in> set (rc_records c) \<Longrightarrow> lr_kind r \<notin> set (rc_non_roots c) \<Longrightarrow> truthy (lr_task_id r)
    \<Longrightarrow> Inr (the (lr_task_id r)) \<in> retained c K \<Longrightarrow> Inl (lr_sequence r) \<in> retained c K"
| link: "r \<in> set (rc_records c) \<Longrightarrow> Inl (lr_sequence r) \<in> retained c K
    \<Longrightarrow> k \<in> set (entity_key r # references_of r) \<Longrightarrow> map_of (rc_latest c) k = Some d
    \<Longrightarrow> Inl (lr_sequence d) \<in> retained c K"

lemma protected_history_task:
  "protected_history c tasks r \<longleftrightarrow> protected_history c {} r
     \<or> (lr_kind r \<notin> set (rc_non_roots c) \<and> truthy (lr_task_id r) \<and> the (lr_task_id r) \<in> tasks)"
  by (auto simp: protected_history_def)

subsection \<open>Nothing else is kept\<close>

definition all_retained :: "retention_context \<Rightarrow> int set \<Rightarrow> retention_state \<Rightarrow> bool" where
  "all_retained c K st \<longleftrightarrow> Inl ` rs_keep st \<subseteq> retained c K \<and> Inr ` rs_tasks st \<subseteq> retained c K"

lemma all_retained_keep: "all_retained c K st \<Longrightarrow> Inl n \<in> retained c K \<Longrightarrow> all_retained c K (keep_sequence n st)"
  by (auto simp: all_retained_def keep_sequence_def)

lemma all_retained_changed [simp]: "all_retained c K (st\<lparr>rs_changed := b\<rparr>) \<longleftrightarrow> all_retained c K st"
  by (simp add: all_retained_def)

lemma all_retained_reference:
  assumes "all_retained c K st" "r \<in> set (rc_records c)" "Inl (lr_sequence r) \<in> retained c K"
    "k \<in> set (entity_key r # references_of r)"
  shows "all_retained c K (reference c k st)"
  using assms retained.link [OF assms(2-4)]
  by (auto simp: reference_def split: option.splits intro!: all_retained_keep)

lemma all_retained_fold:
  assumes "all_retained c K st" "\<And>x s. x \<in> set xs \<Longrightarrow> all_retained c K s \<Longrightarrow> all_retained c K (f x s)"
  shows "all_retained c K (fold f xs st)"
  using assms by (induction xs arbitrary: st) auto

lemma all_retained_protected:
  assumes "all_retained c K st" "r \<in> set (rc_records c)" "protected_history c (rs_tasks st) r"
  shows "Inl (lr_sequence r) \<in> retained c K \<and> (truthy (lr_task_id r) \<longrightarrow> Inr (the (lr_task_id r)) \<in> retained c K)"
  using assms protected_history_task [of c "rs_tasks st" r]
  by (auto simp: all_retained_def intro: retained.root retained.root_task retained.task)

lemma all_retained_retain_record:
  assumes st: "all_retained c K st" and r: "r \<in> set (rc_records c)"
  shows "all_retained c K (retain_record c r st)"
proof -
  define p where "p = protected_history c (rs_tasks st) r"
  define st1 where "st1 = (if p then keep_sequence (lr_sequence r) st else st)"
  define f where "f = (if p then add_task (lr_task_id r) else id)"
  have p: "p \<Longrightarrow> Inl (lr_sequence r) \<in> retained c K \<and> (truthy (lr_task_id r) \<longrightarrow> Inr (the (lr_task_id r)) \<in> retained c K)"
    using all_retained_protected [OF st r] by (simp add: p_def)
  have st1: "all_retained c K st1" using st p by (simp add: st1_def all_retained_keep)
  have f: "all_retained c K s \<Longrightarrow> all_retained c K (f s)" for s using p by (auto simp: f_def add_task_def all_retained_def)
  have "all_retained c K (fold (reference c) (references_of r) (f (reference c (entity_key r) st1)))"
    if "lr_sequence r \<in> rs_keep st1"
  proof -
    have "Inl (lr_sequence r) \<in> retained c K" using that st1 by (auto simp: all_retained_def)
    then have ref: "all_retained c K s \<Longrightarrow> k \<in> set (entity_key r # references_of r) \<Longrightarrow> all_retained c K (reference c k s)" for k s
      using all_retained_reference r by blast
    have "all_retained c K (f (reference c (entity_key r) st1))" using f ref [of st1 "entity_key r"] st1 by simp
    then show ?thesis by (rule all_retained_fold) (simp add: ref)
  qed
  then show ?thesis using st1 unfolding retain_record_def Let_def p_def [symmetric] st1_def [symmetric] f_def [symmetric]
    by simp
qed

lemma all_retained_pass: "all_retained c K st \<Longrightarrow> all_retained c K (retain_pass c st)"
  unfolding retain_pass_def by (rule all_retained_fold) (auto intro: all_retained_retain_record)

lemma all_retained_loop: "all_retained c K st \<Longrightarrow> all_retained c K (retain_loop c st)"
proof (induction c st rule: retain_loop.induct)
  case (1 c st)
  then show ?case using all_retained_pass [of c K st] by (subst retain_loop.simps) (simp add: Let_def)
qed

subsection \<open>All of it is kept\<close>

lemma fold_unchanged:
  assumes "\<And>x s. x \<in> set xs \<Longrightarrow> grows c s (f x s)" "\<not> rs_changed (fold f xs st)"
  shows "\<not> rs_changed st \<and> (\<forall>x \<in> set xs. f x st = st)"
  using assms
proof (induction xs arbitrary: st)
  case (Cons x xs)
  have "\<not> rs_changed (f x st) \<and> (\<forall>y \<in> set xs. f y (f x st) = f x st)"
    using Cons.prems by (intro Cons.IH) auto
  with Cons.prems(1) [of x st] show ?case by (auto simp: grows_def)
qed simp

definition closed_under :: "retention_context \<Rightarrow> retention_state \<Rightarrow> bool" where
  "closed_under c st \<longleftrightarrow> (\<forall>r \<in> set (rc_records c).
     (protected_history c (rs_tasks st) r \<longrightarrow> lr_sequence r \<in> rs_keep st
        \<and> (truthy (lr_task_id r) \<longrightarrow> the (lr_task_id r) \<in> rs_tasks st))
     \<and> (lr_sequence r \<in> rs_keep st \<longrightarrow> (\<forall>k \<in> set (entity_key r # references_of r).
          \<forall>d. map_of (rc_latest c) k = Some d \<longrightarrow> lr_sequence d \<in> rs_keep st)))"

lemma keep_sequence_fixed: "\<not> rs_changed (keep_sequence n st) \<Longrightarrow> n \<in> rs_keep st"
  by (auto simp: keep_sequence_def split: if_splits)

lemma add_task_fixed: "\<not> rs_changed (add_task t st) \<Longrightarrow> truthy t \<Longrightarrow> the t \<in> rs_tasks st"
  by (auto simp: add_task_def split: if_splits)

lemma reference_fixed:
  "\<not> rs_changed (reference c k st) \<Longrightarrow> map_of (rc_latest c) k = Some d \<Longrightarrow> lr_sequence d \<in> rs_keep st"
  by (auto simp: reference_def dest: keep_sequence_fixed)

lemma unchanged_back: "grows c st t \<Longrightarrow> \<not> rs_changed t \<Longrightarrow> t = st"
  by (simp add: grows_def)

lemma retain_record_fixed:
  assumes r: "r \<in> set (rc_records c)" and fixed: "\<not> rs_changed (retain_record c r st)"
  shows "(protected_history c (rs_tasks st) r \<longrightarrow> lr_sequence r \<in> rs_keep st
        \<and> (truthy (lr_task_id r) \<longrightarrow> the (lr_task_id r) \<in> rs_tasks st))
     \<and> (lr_sequence r \<in> rs_keep st \<longrightarrow> (\<forall>k \<in> set (entity_key r # references_of r).
          \<forall>d. map_of (rc_latest c) k = Some d \<longrightarrow> lr_sequence d \<in> rs_keep st))"
proof -
  define p where "p = protected_history c (rs_tasks st) r"
  define st1 where "st1 = (if p then keep_sequence (lr_sequence r) st else st)"
  define f where "f = (if p then add_task (lr_task_id r) else id)"
  define st2 where "st2 = reference c (entity_key r) st1"
  have unf: "retain_record c r st = (if lr_sequence r \<notin> rs_keep st1 then st1 else fold (reference c) (references_of r) (f st2))"
    unfolding retain_record_def Let_def p_def [symmetric] st1_def [symmetric] f_def [symmetric] st2_def [symmetric] ..
  have g1: "grows c st st1" using r by (simp add: st1_def grows_keep)
  have g2: "grows c st1 st2" by (simp add: st2_def grows_reference)
  have g3: "grows c st2 (f st2)" using grows_task [OF r] by (simp add: f_def)
  show ?thesis
  proof (cases "lr_sequence r \<in> rs_keep st1")
    case False
    then have "st1 = st" "\<not> p" using fixed g1 unchanged_back unf by (fastforce simp: st1_def keep_sequence_def split: if_splits)+
    with False show ?thesis by (simp add: p_def)
  next
    case True
    then have n: "\<not> rs_changed (fold (reference c) (references_of r) (f st2))" using fixed unf by simp
    note u = fold_unchanged [OF grows_reference n]
    have e: "f st2 = st2" "st2 = st1" "st1 = st"
      using u unchanged_back [OF g3] unchanged_back [OF g2] unchanged_back [OF g1] by auto
    then have "\<not> rs_changed (reference c (entity_key r) st)" "\<forall>k \<in> set (references_of r). \<not> rs_changed (reference c k st)"
      using u by (auto simp: st2_def)
    then have "\<forall>k \<in> set (entity_key r # references_of r). \<forall>d. map_of (rc_latest c) k = Some d \<longrightarrow> lr_sequence d \<in> rs_keep st"
      using reference_fixed by auto
    moreover have "p \<Longrightarrow> truthy (lr_task_id r) \<Longrightarrow> the (lr_task_id r) \<in> rs_tasks st"
      using u add_task_fixed [of "lr_task_id r" st2] e by (auto simp: f_def)
    ultimately show ?thesis using True e by (auto simp: p_def)
  qed
qed

lemma closed_loop: "closed_under c (retain_loop c st) \<and> rs_keep st \<subseteq> rs_keep (retain_loop c st)"
proof (induction c st rule: retain_loop.induct)
  case (1 c st)
  have sub: "rs_keep st \<subseteq> rs_keep (retain_pass c st)" using grows_pass [of c st] by (simp add: grows_def)
  show ?case
  proof (cases "rs_changed (retain_pass c st)")
    case True
    with 1 sub show ?thesis by (subst (1 2) retain_loop.simps) (auto simp: Let_def)
  next
    case False
    let ?s = "st\<lparr>rs_changed := False\<rparr>"
    have "\<forall>r \<in> set (rc_records c). retain_record c r ?s = ?s"
      using fold_unchanged [of "rc_records c" c "retain_record c" ?s] grows_retain_record False unfolding retain_pass_def by blast
    then have "closed_under c ?s" unfolding closed_under_def by (intro ballI retain_record_fixed) simp_all
    moreover have "retain_pass c st = ?s" using unchanged_back [OF grows_pass] False by blast
    ultimately show ?thesis using False by (subst (1 2) retain_loop.simps) (simp add: Let_def)
  qed
qed

lemma closed_link:
  assumes "closed_under c st" "r \<in> set (rc_records c)" "lr_sequence r \<in> rs_keep st"
    "k \<in> set (entity_key r # references_of r)" "map_of (rc_latest c) k = Some d"
  shows "lr_sequence d \<in> rs_keep st"
  using assms unfolding closed_under_def by blast

lemma closed_contains:
  assumes closed: "closed_under c st" and K: "K \<subseteq> rs_keep st"
  shows "x \<in> retained c K \<Longrightarrow> (case x of Inl n \<Rightarrow> n \<in> rs_keep st | Inr t \<Rightarrow> t \<in> rs_tasks st)"
proof (induction rule: retained.induct)
  case (initial n)
  with K show ?case by auto
next
  case (root r)
  with closed show ?case unfolding closed_under_def protected_history_task [of c "rs_tasks st"] by simp
next
  case (root_task r)
  with closed show ?case unfolding closed_under_def protected_history_task [of c "rs_tasks st"] by simp
next
  case (task r)
  with closed show ?case unfolding closed_under_def protected_history_task [of c "rs_tasks st"] by simp
next
  case (link r k d)
  then have "lr_sequence r \<in> rs_keep st" by simp
  from closed_link [OF closed link(1) this link(3,4)] show ?case by simp
qed

lemma select_eq_retained:
  "select_retention_sequences records p now =
     {n. Inl n \<in> retained (retention_context_of p now records) (initial_keep p now records)}"
proof -
  define c where "c = retention_context_of p now records"
  define K where "K = initial_keep p now records"
  define st where "st = \<lparr>rs_keep = K, rs_tasks = {}, rs_changed = True\<rparr>"
  have "all_retained c K st" by (auto simp: all_retained_def st_def intro: retained.initial)
  then have "all_retained c K (retain_loop c st)" by (rule all_retained_loop)
  then have "rs_keep (retain_loop c st) \<subseteq> {n. Inl n \<in> retained c K}" by (auto simp: all_retained_def)
  moreover have closed: "closed_under c (retain_loop c st)" "K \<subseteq> rs_keep (retain_loop c st)"
    using closed_loop [of c st] by (simp_all add: st_def)
  have "{n. Inl n \<in> retained c K} \<subseteq> rs_keep (retain_loop c st)"
    using closed_contains [OF closed, of "Inl _"] by auto
  ultimately have "rs_keep (retain_loop c st) = {n. Inl n \<in> retained c K}" by (rule equalityI)
  then show ?thesis by (simp add: select_retention_sequences_def c_def K_def st_def)
qed

section \<open>Where the roots come from\<close>

definition protects :: "retention_roots \<Rightarrow> ledger_record \<Rightarrow> bool" where
  "protects m r \<longleftrightarrow> (truthy (scoped_session r) \<and> the (scoped_session r) \<in> rr_sessions m)
     \<or> (lr_session_id r, lr_turn_id r) \<in> rr_turns m
     \<or> (case as_lease (lr_payload r) of None \<Rightarrow> False | Some l \<Rightarrow> wl_id l \<in> rr_leases m)
     \<or> (case as_request (lr_payload r) of None \<Rightarrow> False
        | Some q \<Rightarrow> (aq_session_id q, aq_turn_id q, aq_approval_request_id q) \<in> rr_requests m)"

definition contribution :: "int \<Rightarrow> (entity_key \<times> ledger_record) list \<Rightarrow> ledger_record \<Rightarrow> retention_roots" where
  "contribution now latest d = add_roots now latest (lr_payload d) no_retention_roots"

definition roots_union :: "retention_roots \<Rightarrow> retention_roots \<Rightarrow> retention_roots" where
  "roots_union a b = \<lparr>rr_sessions = rr_sessions a \<union> rr_sessions b, rr_turns = rr_turns a \<union> rr_turns b,
     rr_leases = rr_leases a \<union> rr_leases b, rr_requests = rr_requests a \<union> rr_requests b\<rparr>"

lemma add_roots_union: "add_roots now latest q m = roots_union (add_roots now latest q no_retention_roots) m"
  by (cases q; cases m) (simp_all add: roots_union_def no_retention_roots_def)

lemma protects_union [simp]: "protects (roots_union a b) r \<longleftrightarrow> protects a r \<or> protects b r"
  by (auto simp: protects_def roots_union_def split: option.splits)

lemma protects_none [simp]: "\<not> protects no_retention_roots r"
  by (auto simp: protects_def no_retention_roots_def split: option.splits)

lemma protects_roots:
  "protects (retention_roots_of p now latest) r \<longleftrightarrow>
     (\<exists>d \<in> set (map_values latest). lr_kind d \<notin> set (non_roots p) \<and> protects (contribution now latest d) r)"
proof -
  have "protects (fold (\<lambda>r m. if lr_kind r \<in> set (non_roots p) then m else add_roots now latest (lr_payload r) m) ds m) r
      \<longleftrightarrow> protects m r \<or> (\<exists>d \<in> set ds. lr_kind d \<notin> set (non_roots p) \<and> protects (contribution now latest d) r)" for ds m
  proof (induction ds arbitrary: m)
    case (Cons d ds)
    show ?case using add_roots_union [of now latest "lr_payload d" m] by (auto simp: Cons.IH contribution_def)
  qed simp
  then show ?thesis by (simp add: retention_roots_of_def)
qed

lemma protected_history_roots:
  "protected_history c {} r \<longleftrightarrow> lr_kind r \<notin> set (rc_non_roots c) \<and> protects (rc_roots c) r"
  by (simp add: protected_history_def protects_def)

lemma context_simps [simp]:
  "rc_records (retention_context_of p now rs) = rs" "rc_latest (retention_context_of p now rs) = map_latest entity_key rs"
  "rc_non_roots (retention_context_of p now rs) = non_roots p"
  "rc_roots (retention_context_of p now rs) = retention_roots_of p now (map_latest entity_key rs)"
  by (simp_all add: retention_context_of_def Let_def)

lemma entity_key_heads:
  "entity_key d = [Some ''session'', Some i] \<Longrightarrow> \<exists>s. lr_payload d = P_session s \<and> as_id s = i"
  "entity_key d = [Some ''turn'', Some i, Some j] \<Longrightarrow> \<exists>t. lr_payload d = P_turn t \<and> th_session_id t = i \<and> th_turn_id t = j"
  "entity_key d = [Some ''lease'', Some i] \<Longrightarrow> \<exists>l. lr_payload d = P_lease l \<and> wl_id l = i"
  by (cases "lr_payload d"; simp add: entity_key_def)+

text \<open>A record is live work when it belongs to an open session or an open turn, or is a lease that has
  not expired or a request without an answer.\<close>

definition live_record :: "ledger_record list \<Rightarrow> retention_policy \<Rightarrow> int \<Rightarrow> ledger_record \<Rightarrow> bool" where
  "live_record records p now r \<longleftrightarrow>
     (\<exists>d s. K_session \<notin> set (non_roots p) \<and> truthy (scoped_session r)
        \<and> latest_in entity_key records [Some ''session'', scoped_session r] = Some d
        \<and> lr_payload d = P_session s \<and> as_state s \<notin> {S_closed, S_failed})
     \<or> (\<exists>d t. K_turn \<notin> set (non_roots p) \<and> lr_turn_id r \<noteq> None \<and> lr_session_id r \<noteq> None
        \<and> latest_in entity_key records [Some ''turn'', lr_session_id r, lr_turn_id r] = Some d
        \<and> lr_payload d = P_turn t \<and> th_state t \<notin> {T_cancelled, T_timed_out, T_completed, T_failed})
     \<or> (\<exists>l d l'. lr_payload r = P_lease l \<and> latest_in entity_key records [Some ''lease'', Some (wl_id l)] = Some d
        \<and> lr_payload d = P_lease l' \<and> date_after (wl_expires_at l') now)
     \<or> (\<exists>q. lr_payload r = P_request q \<and> latest_in entity_key records
          [Some ''response'', Some (aq_session_id q), Some (aq_turn_id q), Some (aq_approval_request_id q)] = None)"

lemma live_protects:
  assumes r: "r \<in> set records" "lr_kind r \<notin> set (non_roots p)" and live: "live_record records p now r"
  shows "protects (retention_roots_of p now (map_latest entity_key records)) r"
proof -
  let ?l = "map_latest entity_key records"
  have in_latest: "d \<in> set (map_values ?l)" if "latest_in entity_key records k = Some d" for d k
    using that latest_inD [OF that] by (simp add: set_map_values_latest)
  have "\<exists>d \<in> set (map_values ?l). lr_kind d \<notin> set (non_roots p) \<and> protects (contribution now ?l d) r"
    using live unfolding live_record_def
  proof (elim disjE exE conjE)
    fix d s assume s: "K_session \<notin> set (non_roots p)" "truthy (scoped_session r)"
      "latest_in entity_key records [Some ''session'', scoped_session r] = Some d"
      "lr_payload d = P_session s" "as_state s \<notin> {S_closed, S_failed}"
    have "scoped_session r = Some (as_id s)" using latest_inD [OF s(3)] s(4) by (simp add: entity_key_def)
    with s show ?thesis
      by (intro bexI [of _ d] in_latest [of _ d]) (auto simp: lr_kind_def contribution_def protects_def open_session_states_def)
  next
    fix d t assume t: "K_turn \<notin> set (non_roots p)" "latest_in entity_key records [Some ''turn'', lr_session_id r, lr_turn_id r] = Some d"
      "lr_payload d = P_turn t" "th_state t \<notin> {T_cancelled, T_timed_out, T_completed, T_failed}"
    have "lr_session_id r = Some (th_session_id t)" "lr_turn_id r = Some (th_turn_id t)"
      using latest_inD [OF t(2)] t(3) by (simp_all add: entity_key_def)
    with t show ?thesis
      by (intro bexI [of _ d] in_latest [of _ d]) (auto simp: lr_kind_def contribution_def protects_def open_turn_state_def)
  next
    fix l d l' assume l: "lr_payload r = P_lease l" "latest_in entity_key records [Some ''lease'', Some (wl_id l)] = Some d"
      "lr_payload d = P_lease l'" "date_after (wl_expires_at l') now"
    have "wl_id l' = wl_id l" using latest_inD [OF l(2)] l(3) by (simp add: entity_key_def)
    with l r show ?thesis
      by (intro bexI [of _ d] in_latest [of _ d]) (auto simp: lr_kind_def contribution_def protects_def)
  next
    fix q assume q: "lr_payload r = P_request q" "latest_in entity_key records
        [Some ''response'', Some (aq_session_id q), Some (aq_turn_id q), Some (aq_approval_request_id q)] = None"
    then obtain d where d: "latest_in entity_key records (entity_key r) = Some d"
      using r(1) by (metis imageI latest_in_None_iff not_None_eq)
    then have "entity_key d = entity_key r" using latest_inD by fast
    with q obtain q' where "lr_payload d = P_request q'" "aq_session_id q' = aq_session_id q" "aq_turn_id q' = aq_turn_id q"
      "aq_approval_request_id q' = aq_approval_request_id q" by (cases "lr_payload d") (auto simp: entity_key_def)
    with q d r show ?thesis
      by (intro bexI [of _ d] in_latest) (auto simp: lr_kind_def contribution_def protects_def map_of_map_latest)
  qed
  then show ?thesis by (simp add: protects_roots)
qed

section \<open>Selecting again\<close>

lemma kept_latest:
  assumes "kept = filter (\<lambda>r. lr_sequence r \<in> select_retention_sequences records p now) records"
    and "r \<in> set kept" "k \<in> set (entity_key r # references_of r)"
  shows "latest_in entity_key kept k = latest_in entity_key records k"
proof (cases "latest_in entity_key records k")
  case None
  then have "k \<notin> entity_key ` set kept" using assms(1) by (auto simp: latest_in_None_iff)
  with None show ?thesis by (simp add: latest_in_def)
next
  case (Some d)
  let ?c = "retention_context_of p now records"
  have "map_of (rc_latest ?c) k = Some d" using Some by (simp add: map_of_map_latest)
  moreover have "r \<in> set (rc_records ?c)" "Inl (lr_sequence r) \<in> retained ?c (initial_keep p now records)"
    using assms by (auto simp: select_eq_retained)
  ultimately have "lr_sequence d \<in> select_retention_sequences records p now"
    using retained.link assms(3) unfolding select_eq_retained by blast
  then show ?thesis using latest_in_filter [OF Some] Some assms(1) by simp
qed

lemma set_last_of: "set (last_of n xs) \<subseteq> set xs"
  by (auto simp: last_of_def dest: in_set_dropD)

lemma last_of_filter:
  assumes "\<forall>x \<in> set (last_of n xs). P x"
  shows "set (last_of n xs) \<subseteq> set (last_of n (filter P xs))"
proof (cases "0 < n")
  case True
  define a b where "a = take (length xs - nat n) xs" and "b = drop (length xs - nat n) xs"
  have xs: "xs = a @ b" "last_of n xs = b" "length b \<le> nat n" using True by (simp_all add: a_def b_def last_of_def)
  with assms have "filter P xs = filter P a @ b" by (simp add: filter_id_conv)
  then show ?thesis using xs True by (auto simp: last_of_def)
qed (simp add: last_of_def)

lemma initial_keep_sequences: "initial_keep p now records \<subseteq> lr_sequence ` set records"
  unfolding initial_keep_def using set_last_of by fastforce

lemma initial_keep_filter:
  assumes "initial_keep p now records \<subseteq> S"
  shows "initial_keep p now records \<subseteq> initial_keep p now (filter (\<lambda>r. lr_sequence r \<in> S) records)"
proof -
  let ?n = "or_else (rp_keep_latest_per_kind p) 0"
  let ?ks = "filter (\<lambda>k. k \<notin> set (non_roots p)) (prune_kinds p)"
  let ?kept = "filter (\<lambda>r. lr_sequence r \<in> S) records"
  have latest: "set (last_of ?n (filter (\<lambda>r. lr_kind r = k) records)) \<subseteq> set (last_of ?n (filter (\<lambda>r. lr_kind r = k) ?kept))"
    if k: "k \<in> set ?ks" for k
  proof -
    have "\<forall>r \<in> set (last_of ?n (filter (\<lambda>r. lr_kind r = k) records)). lr_sequence r \<in> S"
    proof
      fix r assume "r \<in> set (last_of ?n (filter (\<lambda>r. lr_kind r = k) records))"
      with k have "lr_sequence r \<in> initial_keep p now records" unfolding initial_keep_def by (auto intro!: imageI)
      with assms show "lr_sequence r \<in> S" by blast
    qed
    from last_of_filter [OF this] show ?thesis by (simp add: conj_commute)
  qed
  have "lr_sequence ` set (filter (initially_kept p now) records) \<subseteq> lr_sequence ` set (filter (initially_kept p now) ?kept)"
    using assms unfolding initial_keep_def by auto
  with latest show ?thesis unfolding initial_keep_def by (simp add: image_Un) blast
qed

lemma retained_sequence:
  "x \<in> retained (retention_context_of p now rs) (initial_keep p now rs) \<Longrightarrow> (\<forall>n. x = Inl n \<longrightarrow> n \<in> lr_sequence ` set rs)"
  by (induction rule: retained.induct)
    (use initial_keep_sequences [of p now rs] in \<open>auto simp: map_of_map_latest dest!: latest_inD\<close>)

lemma protects_fields:
  "protects \<lparr>rr_sessions = S, rr_turns = T, rr_leases = L, rr_requests = Q\<rparr> r \<longleftrightarrow>
     (truthy (scoped_session r) \<and> the (scoped_session r) \<in> S) \<or> (lr_session_id r, lr_turn_id r) \<in> T
     \<or> (\<exists>l. lr_payload r = P_lease l \<and> wl_id l \<in> L)
     \<or> (\<exists>q. lr_payload r = P_request q \<and> (aq_session_id q, aq_turn_id q, aq_approval_request_id q) \<in> Q)"
  by (cases "lr_payload r") (auto simp: protects_def)

lemma truthy_the: "truthy x \<Longrightarrow> the x = y \<Longrightarrow> truthy (Some y)"
  by (cases x) (auto simp: truthy_def)

lemma contribution_self:
  assumes "scoped_record d" "protects (contribution now latest d) r"
  shows "protects (contribution now latest d) d"
  using assms
  by (cases "lr_payload d") (auto simp: contribution_def protects_fields no_retention_roots_def scoped_record_def
      scoped_session_def split: if_split_asm dest: truthy_the)

lemma contribution_fewer:
  assumes "protects (contribution now latest d) r" "\<And>k. map_of latest k = None \<Longrightarrow> map_of latest' k = None"
  shows "protects (contribution now latest' d) r"
proof -
  have "contribution now latest' d = contribution now latest d \<or> contribution now latest d = no_retention_roots"
    using assms(2) by (cases "lr_payload d") (auto simp: contribution_def)
  with assms(1) show ?thesis by auto
qed

lemma selection_again:
  assumes scoped: "\<forall>r \<in> set records. scoped_record r"
    and kept: "kept = filter (\<lambda>r. lr_sequence r \<in> select_retention_sequences records p now) records"
  shows "select_retention_sequences kept p now = select_retention_sequences records p now"
proof
  let ?sel = "select_retention_sequences records p now"
  let ?c = "retention_context_of p now records" and ?K = "initial_keep p now records"
  let ?c' = "retention_context_of p now kept" and ?K' = "initial_keep p now kept"
  have sel: "n \<in> ?sel \<longleftrightarrow> Inl n \<in> retained ?c ?K" for n by (simp add: select_eq_retained)
  show "select_retention_sequences kept p now \<subseteq> ?sel"
    using retained_sequence [of _ p now kept] kept unfolding select_eq_retained [of kept] by fastforce
  have "?K \<subseteq> ?sel" by (auto simp: sel intro: retained.initial)
  then have K: "?K \<subseteq> ?K'" using initial_keep_filter kept by blast
  have in_kept: "r \<in> set kept" if "r \<in> set records" "Inl (lr_sequence r) \<in> retained ?c ?K" for r
    using that kept sel by simp
  have latest: "latest_in entity_key kept k = Some d" if "latest_in entity_key records k = Some d" "lr_sequence d \<in> ?sel" for k d
    using latest_in_filter [OF that(1)] that(2) kept by simp
  have history: "protected_history ?c' {} r" if r: "r \<in> set records" "protected_history ?c {} r" for r
  proof -
    obtain d where d: "d \<in> set (map_values (map_latest entity_key records))" "lr_kind d \<notin> set (non_roots p)"
      "protects (contribution now (map_latest entity_key records) d) r"
      using r by (auto simp: protected_history_roots protects_roots)
    then have latest_d: "latest_in entity_key records (entity_key d) = Some d" by (simp add: set_map_values_latest)
    then have "d \<in> set records" using latest_inD by fast
    moreover have "protects (retention_roots_of p now (map_latest entity_key records)) d"
      using d contribution_self scoped \<open>d \<in> set records\<close> by (auto simp: protects_roots)
    ultimately have "lr_sequence d \<in> ?sel" using d(2) by (simp add: sel retained.root protected_history_roots)
    then have "d \<in> set (map_values (map_latest entity_key kept))"
      using latest [OF latest_d] by (simp add: set_map_values_latest)
    moreover have "protects (contribution now (map_latest entity_key kept) d) r"
      by (rule contribution_fewer [OF d(3)]) (auto simp: map_of_map_latest latest_in_None_iff kept)
    ultimately show ?thesis using d(2) r by (auto simp: protected_history_roots protects_roots)
  qed
  have "x \<in> retained ?c ?K \<Longrightarrow> x \<in> retained ?c' ?K'" for x
  proof (induction rule: retained.induct)
    case (initial n)
    with K show ?case by (auto intro: retained.initial)
  next
    case (root r)
    then have "r \<in> set kept" using in_kept retained.root by simp
    with root history show ?case by (simp add: retained.root)
  next
    case (root_task r)
    then have "r \<in> set kept" using in_kept retained.root by simp
    with root_task history show ?case by (simp add: retained.root_task)
  next
    case (task r)
    then have "r \<in> set kept" using in_kept retained.task by simp
    with task show ?case by (simp add: retained.task)
  next
    case (link r k d)
    then have r: "r \<in> set kept" using in_kept by simp
    have "lr_sequence d \<in> ?sel" using link(1-4) sel retained.link by blast
    then have "latest_in entity_key kept k = Some d" using latest link(4) by (simp add: map_of_map_latest)
    then have "map_of (rc_latest ?c') k = Some d" by (simp add: map_of_map_latest)
    with r link show ?case using retained.link [of r ?c' ?K' k d] by simp
  qed
  then show "?sel \<subseteq> select_retention_sequences kept p now" unfolding select_eq_retained by blast
qed

section \<open>A ledger of two sessions\<close>

text \<open>A closed session and an open child of it, under a policy by which every record is too old.\<close>

definition two_sessions :: "ledger_record list" where
  "two_sessions = map (\<lambda>(n, i, parent, state).
     \<lparr>lr_record_id = i, lr_sequence = n, lr_schema_version = 1, lr_recorded_at = ''long ago'', lr_session_id = Some i,
      lr_turn_id = None, lr_task_id = None, lr_payload = P_session
       \<lparr>as_id = i, as_runtime = ''omnigent'', as_target_harness = ''codex'', as_target_provider = None,
        as_identity_profile_id = None, as_title = ''t'', as_state = state, as_created_at = ''2026-01-01'',
        as_updated_at = ''2026-01-01'', as_correlation_id = None, as_repo_root = None, as_parent_session_id = parent,
        as_root_session_id = None, as_worktree = None, as_handoff_packet = None\<rparr>\<rparr>)
     [(1, ''a'', None, S_closed), (2, ''b'', Some ''a'', S_idle)]"

definition short_policy :: retention_policy where
  "short_policy = \<lparr>rp_prune_kinds = None, rp_max_age_ms = Some 0, rp_keep_latest_per_kind = None,
     rp_protected_record_ids = None, rp_non_root_kinds = None\<rparr>"

lemma open_child_live: "lr_kind (two_sessions ! 1) \<notin> set (non_roots short_policy)
    \<and> live_record two_sessions short_policy 0 (two_sessions ! 1)"
  by (simp add: live_record_def two_sessions_def latest_in_def entity_key_def scoped_session_def truthy_def
      short_policy_def non_roots_def lr_kind_def)

lemma two_sessions_kept:
  "two_sessions ! 1 \<in> set (filter (\<lambda>r. lr_sequence r \<in> select_retention_sequences two_sessions short_policy 0) two_sessions)"
proof -
  have r: "two_sessions ! 1 \<in> set two_sessions" by (simp add: two_sessions_def)
  have "protected_history (retention_context_of short_policy 0 two_sessions) {} (two_sessions ! 1)"
    using live_protects [OF r] open_child_live by (simp add: protected_history_roots)
  with r show ?thesis by (simp add: select_eq_retained retained.root)
qed

section \<open>Properties\<close>

text \<open>C30: a compaction keeps exactly the least set of sequence numbers that holds the pinned, young,
  unprunable and latest records and that is closed under the history of live work, under tasks with
  protected records, under the newest record of an entity and under the references of records.\<close>

theorem retention_least:
  "select_retention_sequences records p now =
     {n. Inl n \<in> retained (retention_context_of p now records) (initial_keep p now records)}"
  by (rule select_eq_retained)

text \<open>a compaction never prunes a pinned record, nor a record of live work whose kind is a root:
  all history of an open session or turn, unexpired leases and unanswered requests.\<close>

theorem retention_protects_live_work:
  assumes "r \<in> set records"
    and "lr_record_id r \<in> set (or_else (rp_protected_record_ids p) [])
      \<or> (lr_kind r \<notin> set (non_roots p) \<and> live_record records p now r)"
  shows "lr_sequence r \<in> select_retention_sequences records p now"
  using assms(2)
proof
  assume "lr_record_id r \<in> set (or_else (rp_protected_record_ids p) [])"
  then have "lr_sequence r \<in> initial_keep p now records" using assms(1) by (auto simp: initial_keep_def initially_kept_def)
  then show ?thesis unfolding select_eq_retained by (simp add: retained.initial)
next
  assume "lr_kind r \<notin> set (non_roots p) \<and> live_record records p now r"
  then have "protected_history (retention_context_of p now records) {} r"
    using live_protects assms(1) by (simp add: protected_history_roots)
  then show ?thesis unfolding select_eq_retained using assms(1) by (simp add: retained.root)
qed

theorem retention_protects_live_work_witness:
  "lr_sequence (two_sessions ! 1) \<in> select_retention_sequences two_sessions short_policy 0"
  by (rule retention_protects_live_work [OF _ disjI2 [OF open_child_live]]) (simp add: two_sessions_def)

text \<open>pruning does not change what the kept records say: for a kept record, the newest record of its
  entity and of every key it refers to is the same in the pruned ledger as before, or absent in both.\<close>

theorem retention_keeps_meaning:
  assumes "kept = filter (\<lambda>r. lr_sequence r \<in> select_retention_sequences records p now) records"
    and "r \<in> set kept" "k \<in> set (entity_key r # references_of r)"
  shows "latest_in entity_key kept k = latest_in entity_key records k"
  by (rule kept_latest [OF assms])

theorem retention_keeps_meaning_witness:
  "latest_in entity_key (filter (\<lambda>r. lr_sequence r \<in> select_retention_sequences two_sessions short_policy 0) two_sessions)
     [Some ''session'', Some ''a''] = Some (hd two_sessions)"
proof -
  have "[Some ''session'', Some ''a''] \<in> set (entity_key (two_sessions ! 1) # references_of (two_sessions ! 1))"
    by (simp add: two_sessions_def references_of_def)
  from retention_keeps_meaning [OF refl two_sessions_kept this] show ?thesis
    by (simp add: two_sessions_def latest_in_def entity_key_def)
qed

text \<open>selecting again on what was kept keeps all of it, with the same policy and clock.\<close>

theorem retention_idempotent:
  assumes "\<forall>r \<in> set records. scoped_record r"
    and "kept = filter (\<lambda>r. lr_sequence r \<in> select_retention_sequences records p now) records"
  shows "select_retention_sequences kept p now = select_retention_sequences records p now"
  by (rule selection_again [OF assms])

theorem retention_idempotent_witness:
  "select_retention_sequences (filter (\<lambda>r. lr_sequence r \<in> select_retention_sequences two_sessions short_policy 0)
     two_sessions) short_policy 0 = select_retention_sequences two_sessions short_policy 0"
  by (rule retention_idempotent [OF _ refl]) (simp add: two_sessions_def scoped_record_def)

end
