(* ===== verification/JsString.thy ===== *)
theory JsString
  imports Prelude
begin

text \<open>
  String operations of JavaScript the sources use: trimming, lower case, searching and splitting.
  A char is a code unit below 256, so white space and case are those of that range.
\<close>

definition js_space :: "char \<Rightarrow> bool" where
  "js_space c \<longleftrightarrow> (let n = of_char c :: int in (9 \<le> n \<and> n \<le> 13) \<or> n = 32 \<or> n = 160)"

definition js_trim :: "string \<Rightarrow> string" where
  "js_trim s = rev (dropWhile js_space (rev (dropWhile js_space s)))"

definition js_lower_char :: "char \<Rightarrow> char" where
  "js_lower_char c = (let n = of_char c :: int in
     if (65 \<le> n \<and> n \<le> 90) \<or> (192 \<le> n \<and> n \<le> 222 \<and> n \<noteq> 215) then char_of (n + 32) else c)"

definition js_lower :: "string \<Rightarrow> string" where
  "js_lower s = map js_lower_char s"

text \<open>\<open>s.indexOf(c)\<close>, with \<open>None\<close> for -1.\<close>

fun index_of :: "char \<Rightarrow> string \<Rightarrow> nat option" where
  "index_of c [] = None"
| "index_of c (d # s) = (if d = c then Some 0 else map_option Suc (index_of c s))"

text \<open>\<open>s.indexOf(p)\<close> for a text \<open>p\<close>.\<close>

fun index_of_text :: "string \<Rightarrow> string \<Rightarrow> nat option" where
  "index_of_text p [] = (if p = [] then Some 0 else None)"
| "index_of_text p (c # s) = (if starts_with p (c # s) then Some 0 else map_option Suc (index_of_text p s))"

lemma index_of_None: "index_of c s = None \<longleftrightarrow> c \<notin> set s"
  by (induction s) auto

lemma index_of_append: "c \<notin> set s \<Longrightarrow> index_of c (s @ c # t) = Some (length s)"
  by (induction s) auto

lemma js_trim_ends: "js_trim s = [] \<or> (\<not> js_space (hd (js_trim s)) \<and> \<not> js_space (last (js_trim s)))"
proof (cases "js_trim s = []")
  case False
  let ?t = "dropWhile js_space s"
  obtain a where "rev ?t = a @ dropWhile js_space (rev ?t)" by (metis takeWhile_dropWhile_id)
  then have t: "?t = js_trim s @ rev a" unfolding js_trim_def by (metis rev_append rev_rev_ident)
  with False have "hd ?t = hd (js_trim s)" "?t \<noteq> []" by (simp_all add: hd_append)
  then have "\<not> js_space (hd (js_trim s))" using hd_dropWhile by metis
  moreover have "\<not> js_space (last (js_trim s))"
    using False hd_dropWhile [of js_space "rev ?t"] by (simp add: js_trim_def last_rev)
  ultimately show ?thesis by blast
qed simp

end
