(* ===== verification/ParseArgs.thy ===== *)
theory ParseArgs
  imports JsString
begin

text \<open>
  \<open>util.parseArgs\<close> of the Node library in the mode the command line uses: strict, with positionals,
  long options only (no option has a one-letter name). A failure is a \<open>TypeError\<close>, whose text is
  the library's and is not modelled.
\<close>

datatype option_type = Opt_string | Opt_boolean | Opt_strings

type_synonym option_config = "(string \<times> option_type) list"

datatype option_value = V_string string | V_true | V_strings "string list"

datatype arg_token = Tok_option string "string option" bool | Tok_positional string

type_synonym option_values = "(string \<times> option_value) list"

section \<open>Tokens\<close>

definition takes_value :: "option_config \<Rightarrow> string \<Rightarrow> bool" where
  "takes_value cfg name \<longleftrightarrow> map_of cfg name = Some Opt_string \<or> map_of cfg name = Some Opt_strings"

text \<open>An argument that begins with one dash is an unknown one-letter option (a group begins with one).\<close>

fun args_to_tokens :: "option_config \<Rightarrow> string list \<Rightarrow> arg_token list" where
  "args_to_tokens cfg [] = []"
| "args_to_tokens cfg (a # rest) =
     (if a = ''--'' then map Tok_positional rest
      else if 2 \<le> length a \<and> a ! 0 = CHR ''-'' \<and> a ! 1 \<noteq> CHR ''-''
      then Tok_option [a ! 1] None False # args_to_tokens cfg rest
      else if 2 < length a \<and> starts_with ''--'' a \<and> CHR ''='' \<notin> set (drop 3 a)
      then (case rest of
              v # rest' \<Rightarrow> if takes_value cfg (drop 2 a) then Tok_option (drop 2 a) (Some v) False # args_to_tokens cfg rest'
                else Tok_option (drop 2 a) None False # args_to_tokens cfg rest
            | [] \<Rightarrow> [Tok_option (drop 2 a) None False])
      else if 2 < length a \<and> starts_with ''--'' a
      then (case index_of CHR ''='' a of
              Some i \<Rightarrow> Tok_option (drop 2 (take i a)) (Some (drop (Suc i) a)) True # args_to_tokens cfg rest
            | None \<Rightarrow> Tok_positional a # args_to_tokens cfg rest)
      else Tok_positional a # args_to_tokens cfg rest)"

section \<open>Values\<close>

text \<open>A value after a blank that looks like an option is ambiguous.\<close>

definition option_like :: "string \<Rightarrow> bool" where
  "option_like v \<longleftrightarrow> 1 < length v \<and> hd v = CHR ''-''"

definition token_ok :: "option_config \<Rightarrow> arg_token \<Rightarrow> bool" where
  "token_ok cfg t = (case t of
       Tok_positional _ \<Rightarrow> True
     | Tok_option name v inline \<Rightarrow> (case map_of cfg name of
           None \<Rightarrow> False
         | Some Opt_boolean \<Rightarrow> v = None
         | Some _ \<Rightarrow> (case v of None \<Rightarrow> False | Some s \<Rightarrow> inline \<or> \<not> option_like s)))"

definition store_option :: "option_config \<Rightarrow> string \<Rightarrow> string option \<Rightarrow> option_values \<Rightarrow> option_values" where
  "store_option cfg name v vals = (case (map_of cfg name, v) of
       (Some Opt_strings, Some s) \<Rightarrow> (name, V_strings
          ((case map_of vals name of Some (V_strings ss) \<Rightarrow> ss | _ \<Rightarrow> []) @ [s])) # vals
     | (_, Some s) \<Rightarrow> (name, V_string s) # vals
     | (_, None) \<Rightarrow> (name, V_true) # vals)"

fun store_tokens :: "option_config \<Rightarrow> arg_token list \<Rightarrow> option_values \<Rightarrow> string list
    \<Rightarrow> (option_values \<times> string list) option" where
  "store_tokens cfg [] vals positionals = Some (vals, positionals)"
| "store_tokens cfg (t # ts) vals positionals =
     (if \<not> token_ok cfg t then None
      else case t of
          Tok_positional p \<Rightarrow> store_tokens cfg ts vals (positionals @ [p])
        | Tok_option name v _ \<Rightarrow> store_tokens cfg ts (store_option cfg name v vals) positionals)"

definition parse_args :: "option_config \<Rightarrow> string list \<Rightarrow> (option_values \<times> string list) option" where
  "parse_args cfg args = store_tokens cfg (args_to_tokens cfg args) [] []"

text \<open>Reading a value as the declared type; \<open>vals[name] === true\<close>.\<close>

definition value_text :: "option_values \<Rightarrow> string \<Rightarrow> string option" where
  "value_text vals name = (case map_of vals name of Some (V_string s) \<Rightarrow> Some s | _ \<Rightarrow> None)"

definition value_flag :: "option_values \<Rightarrow> string \<Rightarrow> bool" where
  "value_flag vals name \<longleftrightarrow> map_of vals name = Some V_true"

definition value_texts :: "option_values \<Rightarrow> string \<Rightarrow> string list option" where
  "value_texts vals name = (case map_of vals name of Some (V_strings ss) \<Rightarrow> Some ss | _ \<Rightarrow> None)"

section \<open>Facts\<close>

lemma store_tokens_append: "store_tokens cfg (ts @ us) vals ps =
    Option.bind (store_tokens cfg ts vals ps) (\<lambda>(vals', ps'). store_tokens cfg us vals' ps')"
  by (induction cfg ts vals ps rule: store_tokens.induct) (auto split: arg_token.splits)

text \<open>Writing options back: text options with their value in one argument, flags alone.\<close>

fun render_option :: "string \<times> option_value \<Rightarrow> string list" where
  "render_option (name, V_string s) = [''--'' @ name @ ''='' @ s]"
| "render_option (name, V_true) = [''--'' @ name]"
| "render_option (name, V_strings ss) = map (\<lambda>s. ''--'' @ name @ ''='' @ s) ss"

definition option_fits :: "option_config \<Rightarrow> string \<times> option_value \<Rightarrow> bool" where
  "option_fits cfg o' = (fst o' \<noteq> [] \<and> CHR ''='' \<notin> set (fst o') \<and> (case snd o' of
       V_string _ \<Rightarrow> map_of cfg (fst o') = Some Opt_string
     | V_true \<Rightarrow> map_of cfg (fst o') = Some Opt_boolean
     | V_strings ss \<Rightarrow> map_of cfg (fst o') = Some Opt_strings \<and> ss \<noteq> []))"

lemma tokens_inline:
  assumes "name \<noteq> []" "CHR ''='' \<notin> set name"
  shows "args_to_tokens cfg ((''--'' @ name @ ''='' @ s) # rest) = Tok_option name (Some s) True # args_to_tokens cfg rest"
proof -
  obtain c n where "name = c # n" using assms(1) by (cases name) auto
  moreover have "index_of CHR ''='' (''--'' @ name @ ''='' @ s) = Some (length (''--'' @ name))"
    using index_of_append [of "CHR ''=''" "''--'' @ name" s] assms(2) by simp
  ultimately show ?thesis using assms(2) by (simp add: starts_with_def)
qed

lemma tokens_flag:
  assumes "name \<noteq> []" "CHR ''='' \<notin> set name" "map_of cfg name = Some Opt_boolean"
  shows "args_to_tokens cfg ((''--'' @ name) # rest) = Tok_option name None False # args_to_tokens cfg rest"
proof -
  obtain c n where "name = c # n" using assms(1) by (cases name) auto
  with assms show ?thesis by (cases rest) (auto simp: starts_with_def takes_value_def)
qed

declare args_to_tokens.simps(2) [simp del]

lemmas tokens_render_simps = tokens_inline [simplified] tokens_flag [simplified]

fun option_tokens :: "string \<times> option_value \<Rightarrow> arg_token list" where
  "option_tokens (name, V_string s) = [Tok_option name (Some s) True]"
| "option_tokens (name, V_true) = [Tok_option name None False]"
| "option_tokens (name, V_strings ss) = map (\<lambda>s. Tok_option name (Some s) True) ss"

lemma tokens_render:
  assumes "option_fits cfg o'"
  shows "args_to_tokens cfg (render_option o' @ rest) = option_tokens o' @ args_to_tokens cfg rest"
proof (cases o' rule: option_tokens.cases)
  case (3 name ss)
  with assms have "name \<noteq> []" "CHR ''='' \<notin> set name" by (auto simp: option_fits_def)
  then have "args_to_tokens cfg (map (\<lambda>s. ''--'' @ name @ ''='' @ s) ss @ rest) =
      map (\<lambda>s. Tok_option name (Some s) True) ss @ args_to_tokens cfg rest"
    by (induction ss) (simp_all add: tokens_render_simps)
  with 3 show ?thesis by simp
qed (use assms in \<open>simp_all add: option_fits_def tokens_render_simps\<close>)

lemma store_option_tokens:
  assumes "option_fits cfg o'" "map_of vals (fst o') = None"
  shows "\<exists>vals'. store_tokens cfg (option_tokens o') vals ps = Some (vals', ps)
    \<and> map_of vals' = (map_of vals)(fst o' \<mapsto> snd o')"
proof (cases o' rule: option_tokens.cases)
  case (3 name ss)
  have *: "\<exists>vals'. store_tokens cfg (map (\<lambda>s. Tok_option name (Some s) True) xs) vs ps = Some (vals', ps)
      \<and> map_of vals' = (map_of vs)(name \<mapsto> V_strings (old @ xs))"
    if "map_of cfg name = Some Opt_strings" "map_of vs name = Some (V_strings old)" for xs vs old
    using that
  proof (induction xs arbitrary: vs old)
    case (Cons x xs)
    from Cons.IH [of "(name, V_strings (old @ [x])) # vs" "old @ [x]"] Cons.prems
    show ?case by (auto simp: token_ok_def store_option_def fun_eq_iff)
  qed (auto simp: fun_upd_idem)
  from assms 3 obtain x xs where ss: "ss = x # xs" "map_of cfg name = Some Opt_strings"
    by (cases ss) (auto simp: option_fits_def)
  with assms 3 *[of "(name, V_strings [x]) # vals" "[x]" xs] show ?thesis
    by (auto simp: token_ok_def store_option_def)
qed (use assms in \<open>auto simp: option_fits_def token_ok_def store_option_def\<close>)

lemma parse_args_render:
  assumes "distinct (map fst os)" "\<forall>o' \<in> set os. option_fits cfg o'"
  shows "\<exists>vals. parse_args cfg (concat (map render_option os)) = Some (vals, []) \<and> map_of vals = map_of (rev os)"
proof -
  have "args_to_tokens cfg (concat (map render_option os)) = concat (map option_tokens os)"
    using assms(2) by (induction os) (simp_all add: tokens_render)
  moreover
  have "\<exists>vals'. store_tokens cfg (concat (map option_tokens os)) vals ps = Some (vals', ps)
      \<and> map_of vals' = map_of vals ++ map_of (rev os)"
    if "\<forall>o' \<in> set os. map_of vals (fst o') = None" for vals ps
    using assms that
  proof (induction os arbitrary: vals)
    case (Cons o' os)
    from Cons.prems store_option_tokens [of cfg o' vals ps] obtain v1 where v1:
      "store_tokens cfg (option_tokens o') vals ps = Some (v1, ps)" "map_of v1 = (map_of vals)(fst o' \<mapsto> snd o')" by auto
    with Cons.prems have "\<forall>o'' \<in> set os. map_of v1 (fst o'') = None" by (auto simp: image_iff)
    from Cons.IH [OF _ _ this] Cons.prems obtain v2 where v2:
      "store_tokens cfg (concat (map option_tokens os)) v1 ps = Some (v2, ps)" "map_of v2 = map_of v1 ++ map_of (rev os)" by auto
    have "map_of v2 = map_of vals ++ map_of (rev (o' # os))"
      unfolding v2(2) v1(2) by (cases o') (simp add: map_add_assoc)
    moreover have "store_tokens cfg (concat (map option_tokens (o' # os))) vals ps = Some (v2, ps)"
      unfolding list.map concat.simps store_tokens_append v1(1) by (simp add: v2(1))
    ultimately show ?case by blast
  qed simp
  from this [of "[]" "[]"] obtain vals' where "store_tokens cfg (concat (map option_tokens os)) [] [] = Some (vals', [])"
    "map_of vals' = map_of (rev os)" by auto
  ultimately show ?thesis by (simp add: parse_args_def)
qed

end
