(* ===== verification/CoordinationInbox.thy ===== *)
theory CoordinationInbox
  imports LeaseStore JsString
begin

text \<open>
  The local coordination inbox (\<open>state-ledger/src/coordination-channel.ts\<close>): messages between the
  holders of leases, and the cause reported for a failed backend. The state is the content of
  \<open>coordination-inbox.json\<close>. A body is any JSON value, here a type parameter. The metadata rules of
  redaction.ts are functions of the record \<open>inbox_rules\<close>; the clock is the time in milliseconds.
\<close>

section \<open>Messages\<close>

datatype coordination_message_type = Request_yield | Announce_intent | Handoff_message | Done_message

record 'b coordination_message =
  cm_message_id :: string
  cm_type :: coordination_message_type
  cm_sender :: string
  cm_created_at :: string
  cm_scope :: lease_scope
  cm_target_holder :: "string option"
  cm_lease_id :: "string option"
  cm_handoff_packet_id :: "string option"
  cm_body :: "'b option"

record 'b message_input =
  mi_type :: coordination_message_type
  mi_sender :: string
  mi_scope :: lease_scope
  mi_target_holder :: "string option"
  mi_lease_id :: "string option"
  mi_handoff_packet_id :: "string option"
  mi_body :: "'b option"
  mi_now :: "string option"

record message_receipt =
  mt_message_id :: string
  mt_created_at :: string

record 'b inbox_state =
  ib_updated_at :: string
  ib_messages :: "'b coordination_message list"

type_synonym 'b inbox_file = "'b inbox_state option"

record 'b inbox_rules =
  ir_datetime :: "string \<Rightarrow> bool"
  ir_assert_inert :: "'b message_input \<Rightarrow> (thrown, unit) result"
  ir_assert :: "'b message_input \<Rightarrow> (thrown, unit) result"
  ir_project :: "'b message_input \<Rightarrow> (thrown, 'b message_input) result"
  ir_message_safe :: "'b coordination_message \<Rightarrow> bool"

record message_query =
  mq_limit :: "jsnum option"
  mq_cursor :: "(string \<times> string) option"
  mq_scope :: "lease_scope option"
  mq_type :: "coordination_message_type option"

definition optional_text :: "string option \<Rightarrow> bool" where
  "optional_text x \<longleftrightarrow> x \<noteq> Some []"

definition coordination_message_ok :: "'b inbox_rules \<Rightarrow> 'b coordination_message \<Rightarrow> bool" where
  "coordination_message_ok rules m \<longleftrightarrow> cm_message_id m \<noteq> [] \<and> cm_sender m \<noteq> [] \<and> ir_datetime rules (cm_created_at m)
     \<and> lease_scope_ok (cm_scope m) \<and> optional_text (cm_target_holder m) \<and> optional_text (cm_lease_id m)
     \<and> optional_text (cm_handoff_packet_id m) \<and> ir_message_safe rules m"

definition message_input_ok :: "'b message_input \<Rightarrow> bool" where
  "message_input_ok i \<longleftrightarrow> mi_sender i \<noteq> [] \<and> lease_scope_ok (mi_scope i) \<and> optional_text (mi_target_holder i)
     \<and> optional_text (mi_lease_id i) \<and> optional_text (mi_handoff_packet_id i)"

definition inbox_state_ok :: "'b inbox_rules \<Rightarrow> 'b inbox_state \<Rightarrow> bool" where
  "inbox_state_ok rules st \<longleftrightarrow> ir_datetime rules (ib_updated_at st)
     \<and> list_all (coordination_message_ok rules) (ib_messages st)"

section \<open>The cause of a failure\<close>

text \<open>\<open>/p/i.test(s)\<close> for a pattern without operators, given in lower case.\<close>

definition mentions :: "string \<Rightarrow> string \<Rightarrow> bool" where
  "mentions p s \<longleftrightarrow> str_includes p (js_lower s)"

text \<open>\<open>/^Metadata contains [a-z ]+\.$/\<close>\<close>

definition metadata_message :: "string \<Rightarrow> bool" where
  "metadata_message s \<longleftrightarrow> (let r = drop (length ''Metadata contains '') s in
     starts_with ''Metadata contains '' s \<and> 2 \<le> length r \<and> last r = CHR ''.''
     \<and> list_all (\<lambda>c. char_between CHR ''a'' CHR ''z'' c \<or> c = CHR '' '') (butlast r))"

text \<open>The \<open>message\<close> of a thrown \<open>Error\<close>. Those of leasing errors are fixed texts that no test matches.\<close>

fun error_text :: "thrown \<Rightarrow> string" where
  "error_text (Type_error m) = m"
| "error_text (Range_error m) = m"
| "error_text (Plain_error m) = m"
| "error_text _ = []"

definition code_cause :: "string \<Rightarrow> backend_cause option" where
  "code_cause c = (if c \<in> {''PGRST301'', ''PGRST302''} then Some Cause_authentication
     else if c = ''42501'' then Some Cause_permission
     else if starts_with ''22'' c \<or> starts_with ''23'' c then Some Cause_validation
     else if c \<in> {''57014'', ''55P03''} then Some Cause_timeout else None)"

definition timeout_text :: "string \<Rightarrow> bool" where
  "timeout_text m \<longleftrightarrow> mentions ''aborterror'' m \<or> mentions ''timeouterror'' m \<or> mentions ''timed out'' m"

definition coordination_failure_cause :: "thrown \<Rightarrow> backend_cause" where
  "coordination_failure_cause e = (case e of
       Backend_error c \<Rightarrow> c
     | Schema_error \<Rightarrow> Cause_validation
     | Leasing_error c \<Rightarrow> or_else (code_cause c) Cause_transport
     | Runtime_failure f \<Rightarrow> if timeout_text (rf_message f) then Cause_timeout else Cause_transport
     | _ \<Rightarrow>
         if (case e of Type_error m \<Rightarrow> mentions ''url'' m | _ \<Rightarrow> False) \<or> metadata_message (error_text e) then Cause_validation
         else if timeout_text (error_text e) then Cause_timeout
         else Cause_transport)"

section \<open>Matching\<close>

definition selectors_intersect :: "string list \<Rightarrow> string list \<Rightarrow> bool" where
  "selectors_intersect left right \<longleftrightarrow> list_ex (\<lambda>s. s \<in> set right) left"

definition scope_matches :: "lease_scope \<Rightarrow> lease_scope option \<Rightarrow> bool" where
  "scope_matches m q = (case q of None \<Rightarrow> True | Some sc \<Rightarrow>
     if sc_granularity m = G_repo \<or> sc_granularity sc = G_repo then True
     else sc_granularity m = sc_granularity sc
       \<and> (if sc_granularity m = G_path_set
          then list_ex (\<lambda>l. list_ex (\<lambda>r. path_overlaps l r) (sc_selector sc)) (sc_selector m)
          else selectors_intersect (sc_selector m) (sc_selector sc)))"

section \<open>Operations\<close>

definition inbox_ttl_ms :: int where
  "inbox_ttl_ms = 7 * 24 * 60 * 60 * 1000"

text \<open>\<open>toContractTimestamp\<close> of a \<open>Date\<close>.\<close>

definition contract_clock :: "int option \<Rightarrow> (thrown, string) result" where
  "contract_clock t = (case date_to_iso t of
       None \<Rightarrow> Inl (Range_error ''Invalid time value'') | Some s \<Rightarrow> Inr (strip_millis s))"

definition inbox_read_state :: "'b inbox_rules \<Rightarrow> string \<Rightarrow> 'b inbox_file \<Rightarrow> (thrown, 'b inbox_state) result" where
  "inbox_read_state rules now f = (case f of
       None \<Rightarrow> Inr \<lparr>ib_updated_at = now, ib_messages = []\<rparr>
     | Some st \<Rightarrow> if inbox_state_ok rules st then Inr st else Inl Schema_error)"

definition build_message :: "'b inbox_rules \<Rightarrow> string \<Rightarrow> 'b message_input \<Rightarrow> string \<Rightarrow> (thrown, 'b coordination_message) result" where
  "build_message rules uuid i now =
     bindr (ir_assert_inert rules i) (\<lambda>_.
     bindr (ir_assert rules i) (\<lambda>_.
     bindr (contract_now now) (\<lambda>created.
     let m = \<lparr>cm_message_id = ''msg:'' @ uuid, cm_type = mi_type i, cm_sender = mi_sender i, cm_created_at = created,
              cm_scope = mi_scope i, cm_target_holder = mi_target_holder i, cm_lease_id = mi_lease_id i,
              cm_handoff_packet_id = mi_handoff_packet_id i, cm_body = mi_body i\<rparr>
     in if coordination_message_ok rules m then Inr m else Inl Schema_error)))"

text \<open>\<open>Date.parse(a) > Date.parse(b) - d\<close>\<close>

definition parsed_after :: "string \<Rightarrow> string \<Rightarrow> int \<Rightarrow> bool" where
  "parsed_after a b d = (case (date_parse a, date_parse b) of (Some x, Some y) \<Rightarrow> x > y - d | _ \<Rightarrow> False)"

definition normalize_message :: "string \<Rightarrow> 'b coordination_message \<Rightarrow> (thrown, 'b coordination_message) result" where
  "normalize_message now m =
     bindr (if parsed_after (cm_created_at m) now 0 then Inr now else contract_now (cm_created_at m)) (\<lambda>created.
     Inr (m\<lparr>cm_created_at := created\<rparr>))"

definition fresh_message :: "string \<Rightarrow> 'b coordination_message \<Rightarrow> bool" where
  "fresh_message now m \<longleftrightarrow> parsed_after (cm_created_at m) now inbox_ttl_ms"

definition inbox_send :: "'b inbox_rules \<Rightarrow> int option \<Rightarrow> string \<Rightarrow> 'b message_input \<Rightarrow> 'b inbox_file
    \<Rightarrow> (thrown, message_receipt) result \<times> 'b inbox_file" where
  "inbox_send rules clock uuid i0 f = (case
     (bindr (ir_assert_inert rules i0) (\<lambda>_.
      bindr (ir_assert rules i0) (\<lambda>_.
      bindr (ir_project rules i0) (\<lambda>i.
      bindr (ensure (message_input_ok i) Schema_error) (\<lambda>_.
      bindr (ir_assert_inert rules i) (\<lambda>_.
      bindr (contract_clock clock) (\<lambda>now.
      bindr (inbox_read_state rules now f) (\<lambda>st.
      bindr (build_message rules uuid i now) (\<lambda>built.
      bindr (map_result (normalize_message now) (ib_messages st)) (\<lambda>ms.
      Inr (now, st, built, ms))))))))))) of
       Inl e \<Rightarrow> (Inl e, f)
     | Inr (now, st, built, ms) \<Rightarrow>
        let live = filter (fresh_message now) ms;
            normalized = map cm_created_at ms \<noteq> map cm_created_at (ib_messages st)
        in if 10000 \<le> int (length live)
           then (Inl (Backend_error Cause_capacity),
                 if normalized then Some \<lparr>ib_updated_at = now, ib_messages = live\<rparr> else f)
           else (Inr \<lparr>mt_message_id = cm_message_id built, mt_created_at = cm_created_at built\<rparr>,
                 Some \<lparr>ib_updated_at = now, ib_messages = live @ [built]\<rparr>))"

definition message_tuple :: "'b coordination_message \<Rightarrow> string \<times> string" where
  "message_tuple m = (cm_created_at m, cm_message_id m)"

definition inbox_rows :: "(string \<Rightarrow> string \<Rightarrow> int) \<Rightarrow> message_query \<Rightarrow> (string \<times> string) option \<Rightarrow> string
    \<Rightarrow> 'b coordination_message list \<Rightarrow> 'b coordination_message list" where
  "inbox_rows lc q cursor now ms =
     filter (\<lambda>m. case cursor of None \<Rightarrow> True | Some c \<Rightarrow> compare_coordination_tuple lc (message_tuple m) c > 0)
     (sort_by (\<lambda>a b. compare_coordination_tuple lc (message_tuple a) (message_tuple b))
     (filter (\<lambda>m. scope_matches (cm_scope m) (mq_scope q))
     (filter (\<lambda>m. case mq_type q of None \<Rightarrow> True | Some t \<Rightarrow> cm_type m = t)
     (filter (fresh_message now) ms))))"

definition inbox_list :: "'b inbox_rules \<Rightarrow> (string \<Rightarrow> string \<Rightarrow> int) \<Rightarrow> int option \<Rightarrow> message_query \<Rightarrow> 'b inbox_file
    \<Rightarrow> (thrown, 'b coordination_message list) result" where
  "inbox_list rules lc clock q f =
     bindr (validate_coordination_page (ir_datetime rules) (mq_limit q) (mq_cursor q)) (\<lambda>(limit, cursor).
     bindr (contract_clock clock) (\<lambda>now.
     bindr (inbox_read_state rules now f) (\<lambda>st.
     bindr (map_result (\<lambda>m. bindr (contract_now (cm_created_at m)) (\<lambda>c. Inr (m\<lparr>cm_created_at := c\<rparr>))) (ib_messages st)) (\<lambda>ms.
     Inr (take (nat limit) (inbox_rows lc q cursor now ms))))))"

end
