(* ===== verification/CliArgs.thy ===== *)
theory CliArgs
  imports ParseArgs CoordinationInbox
begin

text \<open>
  The command line (\<open>cli/src/args.ts\<close>, \<open>cli/src/errors.ts\<close>): errors and their exit codes, the
  global options, and the request each command line denotes. An absolute path is the list of its
  segments. The environment record holds what lies outside: the file system test, the process's
  directory and variable, \<open>JSON.parse\<close> on a cursor, and \<open>sanitizeWorkspacePath\<close> of redaction.ts.
\<close>

section \<open>Errors\<close>

datatype cli_error_category = Argument_error | Missing_record | Validation_failure | Policy_block
  | Cleanup_block | Route_block | Internal_failure

fun cli_exit_code :: "cli_error_category \<Rightarrow> int" where
  "cli_exit_code Internal_failure = 1"
| "cli_exit_code Argument_error = 2"
| "cli_exit_code Missing_record = 3"
| "cli_exit_code Validation_failure = 4"
| "cli_exit_code Policy_block = 5"
| "cli_exit_code Cleanup_block = 6"
| "cli_exit_code Route_block = 7"

record cli_error =
  er_category :: cli_error_category
  er_code :: int
  er_message :: string

text \<open>The text of an error: one of ours, or the one of a failed \<open>parseArgs\<close>.\<close>

datatype cli_message = Msg string | Msg_parse_args

definition cli_error_payload :: "(cli_message \<Rightarrow> string) \<Rightarrow> cli_error_category \<Rightarrow> cli_message \<Rightarrow> cli_error" where
  "cli_error_payload sanitize category message =
     \<lparr>er_category = category, er_code = cli_exit_code category, er_message = sanitize message\<rparr>"

definition map_runtime_failure_category :: "failure_category \<Rightarrow> cli_error_category" where
  "map_runtime_failure_category c = (case c of
       Validation \<Rightarrow> Validation_failure | Malformed_response \<Rightarrow> Validation_failure
     | Backend_version_mismatch \<Rightarrow> Validation_failure | Backend_capability_missing \<Rightarrow> Validation_failure
     | Policy_denied \<Rightarrow> Policy_block | Approval_required \<Rightarrow> Policy_block | Approval_denied \<Rightarrow> Policy_block
     | Auth \<Rightarrow> Policy_block | Billing \<Rightarrow> Policy_block
     | Rate_limit \<Rightarrow> Route_block | Concurrency_limit \<Rightarrow> Route_block | Transport \<Rightarrow> Route_block | Timeout \<Rightarrow> Route_block
     | State_conflict \<Rightarrow> Cleanup_block
     | _ \<Rightarrow> Internal_failure)"

datatype cli_thrown = Cli_error cli_error_category cli_message | Cli_other thrown

definition normalize_cli_error :: "(cli_message \<Rightarrow> string) \<Rightarrow> cli_thrown \<Rightarrow> cli_error" where
  "normalize_cli_error sanitize e = (case e of
       Cli_error c m \<Rightarrow> cli_error_payload sanitize c m
     | Cli_other (Backend_error _) \<Rightarrow> cli_error_payload sanitize Route_block (Msg ''Coordination backend failed.'')
     | Cli_other Schema_error \<Rightarrow> cli_error_payload sanitize Validation_failure (Msg ''Validation failed.'')
     | Cli_other (Runtime_failure f) \<Rightarrow>
         cli_error_payload sanitize (map_runtime_failure_category (rf_category f)) (Msg (rf_message f))
     | Cli_other (Type_error m) \<Rightarrow> cli_error_payload sanitize Internal_failure (Msg m)
     | Cli_other (Range_error m) \<Rightarrow> cli_error_payload sanitize Internal_failure (Msg m)
     | Cli_other (Plain_error m) \<Rightarrow> cli_error_payload sanitize Internal_failure (Msg m)
     | Cli_other (Leasing_error m) \<Rightarrow> cli_error_payload sanitize Internal_failure (Msg m))"

definition argument_error :: "string \<Rightarrow> cli_thrown" where
  "argument_error m = Cli_error Argument_error (Msg m)"

section \<open>Environment and paths\<close>

type_synonym path = "string list"

record cli_env =
  cx_exists :: "path \<Rightarrow> bool"
  cx_process_cwd :: path
  cx_backend_variable :: "string option"
  cx_sanitize_path :: "string \<Rightarrow> (thrown, string) result"
  cx_json_cursor :: "string \<Rightarrow> (string \<times> string) option"
  cx_datetime :: "string \<Rightarrow> bool"

definition show_path :: "path \<Rightarrow> string" where
  "show_path p = CHR ''/'' # join_with ''/'' p"

fun apply_segments :: "path \<Rightarrow> string list \<Rightarrow> path" where
  "apply_segments p [] = p"
| "apply_segments p (s # ss) =
     (if s = [] \<or> s = ''.'' then apply_segments p ss
      else if s = ''..'' then apply_segments (butlast p) ss
      else apply_segments (p @ [s]) ss)"

definition resolve_path :: "path \<Rightarrow> string \<Rightarrow> path" where
  "resolve_path cwd value = apply_segments (if starts_with ''/'' value then [] else cwd) (split_on CHR ''/'' value)"

function find_up :: "(path \<Rightarrow> bool) \<Rightarrow> path \<Rightarrow> path option" where
  "find_up has p = (if has (p @ [''pnpm-workspace.yaml'']) then Some p else if p = [] then None else find_up has (butlast p))"
  by pat_completeness auto
termination
  by (relation "measure (\<lambda>(_, p). length p)") auto

definition find_repo_root :: "cli_env \<Rightarrow> path \<Rightarrow> path" where
  "find_repo_root env start = or_else (find_up (cx_exists env) start) start"

text \<open>Relative paths are taken from the directory of the process, whatever \<open>cwd\<close> was passed.\<close>

definition sanitize_path :: "cli_env \<Rightarrow> string \<Rightarrow> (cli_thrown, string) result" where
  "sanitize_path env value = (case cx_sanitize_path env (show_path (resolve_path (cx_process_cwd env) value)) of
       Inl e \<Rightarrow> Inl (Cli_other e) | Inr p \<Rightarrow> Inr p)"

section \<open>Parsing values\<close>

definition parse_integer :: "string option \<Rightarrow> string \<Rightarrow> int \<Rightarrow> int option \<Rightarrow> (cli_thrown, int option) result" where
  "parse_integer value label minimum maximum = (case value of
       None \<Rightarrow> Inr None
     | Some s \<Rightarrow>
         if s \<noteq> [] \<and> list_all is_digit s \<and> int_of_digits s \<le> max_safe \<and> minimum \<le> int_of_digits s
            \<and> (case maximum of None \<Rightarrow> True | Some m \<Rightarrow> int_of_digits s \<le> m)
         then Inr (Some (int_of_digits s))
         else Inl (argument_error (label @ '' must be an integer '' @
           (case maximum of None \<Rightarrow> ''>= '' @ show_int minimum | Some m \<Rightarrow> show_int minimum @ ''..'' @ show_int m) @ ''.'')))"

record page_args =
  pg_limit :: int
  pg_cursor :: "(string \<times> string) option"

definition page_error :: cli_thrown where
  "page_error = argument_error ''limit must be 1..500 and cursor must contain a valid timestamp and id.''"

text \<open>With \<open>milliseconds\<close> the timestamp of the cursor keeps its milliseconds.\<close>

definition parse_page :: "cli_env \<Rightarrow> option_values \<Rightarrow> bool \<Rightarrow> (cli_thrown, page_args) result" where
  "parse_page env vals milliseconds = (case parse_integer (value_text vals ''limit'') ''limit'' 1 None of
       Inl _ \<Rightarrow> Inl page_error
     | Inr limit \<Rightarrow>
        (case value_text vals ''cursor'' of
           None \<Rightarrow> (case validate_coordination_page (cx_datetime env) (map_option (\<lambda>n. Fin (of_int n)) limit) None of
               Inl _ \<Rightarrow> Inl page_error | Inr (n, c) \<Rightarrow> Inr \<lparr>pg_limit = n, pg_cursor = c\<rparr>)
         | Some text \<Rightarrow> (case cx_json_cursor env text of
             None \<Rightarrow> Inl page_error
           | Some (ts, i) \<Rightarrow>
              (case validate_coordination_page (cx_datetime env) (map_option (\<lambda>n. Fin (of_int n)) limit) (Some (ts, i)) of
                 Inl _ \<Rightarrow> Inl page_error
               | Inr (n, c) \<Rightarrow>
                   if milliseconds then (case date_to_iso (date_parse ts) of
                       None \<Rightarrow> Inl page_error | Some stamp \<Rightarrow> Inr \<lparr>pg_limit = n, pg_cursor = Some (stamp, i)\<rparr>)
                   else Inr \<lparr>pg_limit = n, pg_cursor = c\<rparr>))))"

definition parse_target :: "string option \<Rightarrow> string list \<Rightarrow> string \<Rightarrow> (cli_thrown, string option) result" where
  "parse_target value allowed label = (case value of
       None \<Rightarrow> Inr None
     | Some v \<Rightarrow> if v \<in> set allowed then Inr (Some v) else Inl (argument_error (''Unknown '' @ label @ ''.'')))"

datatype coordination_backend = Backend_local | Backend_supabase

definition parse_coordination_backend :: "cli_env \<Rightarrow> string option \<Rightarrow> (cli_thrown, coordination_backend) result" where
  "parse_coordination_backend env value =
     (let resolved = or_opt value (cx_backend_variable env) in
      if resolved = None \<or> resolved = Some ''local'' then Inr Backend_local
      else if resolved = Some ''supabase'' then Inr Backend_supabase
      else Inl (argument_error ''backend must be local or supabase.''))"

definition parse_coordination_mode :: "string option \<Rightarrow> (cli_thrown, lease_mode) result" where
  "parse_coordination_mode value =
     (if value = Some ''soft'' then Inr Soft else if value = Some ''hard'' then Inr Hard
      else Inl (argument_error ''mode must be soft or hard.''))"

definition parse_coordination_message_type :: "string option \<Rightarrow> (cli_thrown, coordination_message_type) result" where
  "parse_coordination_message_type value =
     (if value = Some ''request-yield'' then Inr Request_yield
      else if value = Some ''announce-intent'' then Inr Announce_intent
      else if value = Some ''handoff'' then Inr Handoff_message
      else if value = Some ''done'' then Inr Done_message
      else Inl (argument_error ''type must be request-yield, announce-intent, handoff, or done.''))"

text \<open>An empty string counts as absent in the truth tests, but \<open>??\<close> keeps it.\<close>

definition present :: "string option \<Rightarrow> bool" where
  "present x \<longleftrightarrow> x \<noteq> None \<and> x \<noteq> Some []"

definition first_of :: "'a list \<Rightarrow> 'a option" where
  "first_of xs = (case xs of [] \<Rightarrow> None | x # _ \<Rightarrow> Some x)"

definition pick_required_identifier :: "string option \<Rightarrow> string list \<Rightarrow> string \<Rightarrow> (cli_thrown, string) result" where
  "pick_required_identifier option_value positionals label =
     (let positional = first_of positionals; resolved = or_opt option_value positional in
      if present option_value \<and> present positional \<and> option_value \<noteq> positional
      then Inl (argument_error (label @ '' was provided twice with different values.''))
      else if \<not> present resolved then Inl (argument_error (label @ '' is required.''))
      else if 1 < length positionals
      then Inl (argument_error (''Unexpected extra positional arguments for '' @ label @ ''.''))
      else Inr (the resolved))"

definition assert_no_positionals :: "string list \<Rightarrow> string \<Rightarrow> (cli_thrown, unit) result" where
  "assert_no_positionals positionals command =
     ensure (positionals = []) (argument_error (''Unexpected positional arguments for '' @ command @ ''.''))"

definition header_error :: cli_thrown where
  "header_error = argument_error ''Headers must be passed as key=value pairs.''"

definition parse_header :: "string \<Rightarrow> (cli_thrown, string \<times> string) result" where
  "parse_header value = (case index_of CHR ''='' value of
       None \<Rightarrow> Inl header_error
     | Some 0 \<Rightarrow> Inl header_error
     | Some i \<Rightarrow>
         let key = js_lower (js_trim (take i value)); header_value = js_trim (drop (Suc i) value)
         in if key = [] \<or> header_value = [] then Inl header_error else Inr (key, header_value))"

definition parse_headers :: "string list option \<Rightarrow> (cli_thrown, string obj) result" where
  "parse_headers vals = (case vals of
       None \<Rightarrow> Inr []
     | Some hs \<Rightarrow> bindr (map_result parse_header hs) (\<lambda>kvs. Inr (fold (\<lambda>(k, v). obj_set k v) kvs [])))"

definition parse_command_args :: "string list \<Rightarrow> option_config \<Rightarrow> (cli_thrown, option_values \<times> string list) result" where
  "parse_command_args args cfg = (case parse_args cfg args of
       None \<Rightarrow> Inl (Cli_error Argument_error Msg_parse_args) | Some r \<Rightarrow> Inr r)"

section \<open>Global options\<close>

record cli_globals =
  cg_remaining :: "string list"
  cg_json :: bool
  cg_state_root :: "string option"
  cg_profiles_dir :: "string option"

fun strip_loop :: "string list \<Rightarrow> cli_globals \<Rightarrow> (cli_thrown, cli_globals) result" where
  "strip_loop [] g = Inr g"
| "strip_loop (token # rest) g =
     (if token = ''--json'' then strip_loop rest (g\<lparr>cg_json := True\<rparr>)
      else if token = ''--state-root'' then (case rest of
          [] \<Rightarrow> Inl (argument_error ''--state-root requires a value.'')
        | v # rest' \<Rightarrow> strip_loop rest' (g\<lparr>cg_state_root := Some v\<rparr>))
      else if starts_with ''--state-root='' token
      then strip_loop rest (g\<lparr>cg_state_root := Some (drop (length ''--state-root='') token)\<rparr>)
      else if token = ''--profiles-dir'' then (case rest of
          [] \<Rightarrow> Inl (argument_error ''--profiles-dir requires a value.'')
        | v # rest' \<Rightarrow> strip_loop rest' (g\<lparr>cg_profiles_dir := Some v\<rparr>))
      else if starts_with ''--profiles-dir='' token
      then strip_loop rest (g\<lparr>cg_profiles_dir := Some (drop (length ''--profiles-dir='') token)\<rparr>)
      else strip_loop rest (g\<lparr>cg_remaining := cg_remaining g @ [token]\<rparr>))"

definition strip_global_options :: "string list \<Rightarrow> (cli_thrown, cli_globals) result" where
  "strip_global_options args =
     strip_loop args \<lparr>cg_remaining = [], cg_json = False, cg_state_root = None, cg_profiles_dir = None\<rparr>"

record cli_base =
  cb_json :: bool
  cb_repo_root :: string
  cb_state_root :: string
  cb_profiles_dir :: string

definition build_base :: "cli_env \<Rightarrow> path \<Rightarrow> cli_globals \<Rightarrow> (cli_thrown, cli_base) result" where
  "build_base env cwd g =
     (let root = find_repo_root env cwd in
      bindr (sanitize_path env (or_else (cg_state_root g) (show_path (root @ [''.omniagent-plus'', ''state''])))) (\<lambda>state.
      bindr (sanitize_path env (or_else (cg_profiles_dir g) (show_path (root @ [''fixtures'', ''identity'', ''profiles''])))) (\<lambda>profiles.
      Inr \<lparr>cb_json = cg_json g, cb_repo_root = show_path root, cb_state_root = state, cb_profiles_dir = profiles\<rparr>)))"

end
