(* ===== verification/CliRequests.thy ===== *)
theory CliRequests
  imports CliArgs
begin

text \<open>The requests of the command line and the function from arguments to requests (\<open>parseCliArgs\<close>).\<close>

section \<open>Requests\<close>

record preflight_args =
  pf_profile_id :: string
  pf_auth_available :: "bool option"
  pf_active_sessions :: "int option"
  pf_active_turns :: "int option"
  pf_blocked_reason :: "string option"

record cleanup_args =
  cn_lease_id :: string
  cn_current_host :: "string option"
  cn_allow_read_only_cleanup :: bool
  cn_managed_root :: "string option"
  cn_holder_process_id :: int
  cn_holder_host :: string
  cn_holder_session_id :: "string option"
  cn_holder_turn_id :: "string option"
  cn_fencing_token :: string

record acquire_args =
  ac_backend :: coordination_backend
  ac_holder :: string
  ac_scope :: string
  ac_mode :: lease_mode
  ac_ttl_seconds :: int
  ac_phase :: string
  ac_lease_id :: "string option"

record inbox_send_args =
  ix_backend :: coordination_backend
  ix_type :: coordination_message_type
  ix_sender :: string
  ix_scope :: string
  ix_target_holder :: "string option"
  ix_lease_id :: "string option"
  ix_handoff_packet_id :: "string option"

record classify_args =
  ca_provider :: "string option"
  ca_harness :: "string option"
  ca_status_code :: "int option"
  ca_exit_code :: "int option"
  ca_body_text :: "string option"
  ca_stderr_text :: "string option"
  ca_stdout_text :: "string option"
  ca_headers :: "string obj"
  ca_session_id :: "string option"
  ca_identity_profile_id :: "string option"
  ca_task_id :: "string option"
  ca_record :: bool

record route_args =
  rt_task_id :: string
  rt_preferred_provider :: "string option"
  rt_preferred_harness :: "string option"
  rt_preferred_identity_profile_id :: "string option"
  rt_classification_task_id :: "string option"
  rt_worktree_lease_id :: "string option"
  rt_manual_confirmation_provided :: bool
  rt_session_continuation :: bool
  rt_handoff_evidence :: bool
  rt_raw_history_attached :: bool
  rt_local_filesystem_dependency :: bool
  rt_allow_cross_provider_migration :: "bool option"
  rt_coordination_backend :: coordination_backend
  rt_coordination_scope :: "string option"
  rt_coordination_holder :: "string option"
  rt_coordination_mode :: lease_mode
  rt_coordination_ttl_seconds :: int
  rt_coordination_request_yield :: bool
  rt_record :: bool

datatype cli_request =
    Health cli_base
  | Sessions_list cli_base "int option"
  | Sessions_show cli_base string
  | Control_snapshot cli_base
  | Identities_list cli_base
  | Identities_preflight cli_base preflight_args
  | Worktrees_list cli_base page_args
  | Worktrees_cleanup cli_base cleanup_args
  | Leases_list cli_base page_args coordination_backend "string option"
  | Leases_acquire cli_base acquire_args
  | Leases_renew cli_base coordination_backend string string "int option"
  | Leases_release cli_base coordination_backend string string
  | Inbox_send cli_base inbox_send_args
  | Inbox_list cli_base page_args coordination_backend "coordination_message_type option" "string option"
  | Classify_limit cli_base classify_args
  | Route_task cli_base route_args

section \<open>One function per command\<close>

definition strings :: "string list \<Rightarrow> option_config" where
  "strings names = map (\<lambda>n. (n, Opt_string)) names"

definition booleans :: "string list \<Rightarrow> option_config" where
  "booleans names = map (\<lambda>n. (n, Opt_boolean)) names"

text \<open>The commands without arguments of their own.\<close>

definition parse_plain :: "string \<Rightarrow> (cli_base \<Rightarrow> cli_request) \<Rightarrow> cli_env \<Rightarrow> path \<Rightarrow> cli_globals \<Rightarrow> string list
    \<Rightarrow> (cli_thrown, cli_request) result" where
  "parse_plain command req env cwd g rest =
     bindr (build_base env cwd g) (\<lambda>base.
     bindr (parse_command_args rest []) (\<lambda>(_, positionals).
     bindr (assert_no_positionals positionals command) (\<lambda>_. Inr (req base))))"

definition parse_sessions_list :: "cli_env \<Rightarrow> path \<Rightarrow> cli_globals \<Rightarrow> string list \<Rightarrow> (cli_thrown, cli_request) result" where
  "parse_sessions_list env cwd g rest =
     bindr (build_base env cwd g) (\<lambda>base.
     bindr (parse_command_args rest (strings [''limit''])) (\<lambda>(vals, positionals).
     bindr (assert_no_positionals positionals ''sessions list'') (\<lambda>_.
     bindr (parse_integer (value_text vals ''limit'') ''limit'' 1 None) (\<lambda>limit. Inr (Sessions_list base limit)))))"

definition parse_sessions_show :: "cli_env \<Rightarrow> path \<Rightarrow> cli_globals \<Rightarrow> string list \<Rightarrow> (cli_thrown, cli_request) result" where
  "parse_sessions_show env cwd g rest =
     bindr (build_base env cwd g) (\<lambda>base.
     bindr (parse_command_args rest (strings [''session-id''])) (\<lambda>(vals, positionals).
     bindr (pick_required_identifier (value_text vals ''session-id'') positionals ''session-id'') (\<lambda>i.
     Inr (Sessions_show base i))))"

definition parse_identities_preflight :: "cli_env \<Rightarrow> path \<Rightarrow> cli_globals \<Rightarrow> string list \<Rightarrow> (cli_thrown, cli_request) result" where
  "parse_identities_preflight env cwd g rest =
     bindr (build_base env cwd g) (\<lambda>base.
     bindr (parse_command_args rest (strings [''profile-id'', ''active-sessions'', ''active-turns'', ''blocked-reason'']
        @ booleans [''auth-available'', ''auth-unavailable''])) (\<lambda>(vals, positionals).
     let auth_available = (if value_flag vals ''auth-available'' then Some True
           else if value_flag vals ''auth-unavailable'' then Some False else None) in
     bindr (ensure (\<not> (value_flag vals ''auth-available'' \<and> value_flag vals ''auth-unavailable''))
        (argument_error ''Choose either --auth-available or --auth-unavailable.'')) (\<lambda>_.
     bindr (pick_required_identifier (value_text vals ''profile-id'') positionals ''profile-id'') (\<lambda>i.
     bindr (parse_integer (value_text vals ''active-sessions'') ''active-sessions'' 0 None) (\<lambda>sessions.
     bindr (parse_integer (value_text vals ''active-turns'') ''active-turns'' 0 None) (\<lambda>turns.
     Inr (Identities_preflight base \<lparr>pf_profile_id = i, pf_auth_available = auth_available,
       pf_active_sessions = sessions, pf_active_turns = turns,
       pf_blocked_reason = value_text vals ''blocked-reason''\<rparr>)))))))"

definition parse_worktrees_list :: "cli_env \<Rightarrow> path \<Rightarrow> cli_globals \<Rightarrow> string list \<Rightarrow> (cli_thrown, cli_request) result" where
  "parse_worktrees_list env cwd g rest =
     bindr (build_base env cwd g) (\<lambda>base.
     bindr (parse_command_args rest (strings [''limit'', ''cursor''])) (\<lambda>(vals, positionals).
     bindr (assert_no_positionals positionals ''worktrees list'') (\<lambda>_.
     bindr (parse_page env vals True) (\<lambda>page. Inr (Worktrees_list base page)))))"

definition parse_worktrees_cleanup :: "cli_env \<Rightarrow> path \<Rightarrow> cli_globals \<Rightarrow> string list \<Rightarrow> (cli_thrown, cli_request) result" where
  "parse_worktrees_cleanup env cwd g rest =
     bindr (build_base env cwd g) (\<lambda>base.
     bindr (parse_command_args rest (strings [''lease-id'', ''current-host'', ''managed-root'', ''holder-process-id'',
        ''holder-host'', ''holder-session-id'', ''holder-turn-id'', ''fencing-token''] @ booleans [''allow-read-only-cleanup''])) (\<lambda>(vals, positionals).
     bindr (ensure (present (value_text vals ''holder-process-id'') \<and> present (value_text vals ''holder-host'')
          \<and> present (value_text vals ''fencing-token''))
        (argument_error ''Cleanup requires independent holder-process-id, holder-host and fencing-token.'')) (\<lambda>_.
     bindr (pick_required_identifier (value_text vals ''lease-id'') positionals ''lease-id'') (\<lambda>i.
     bindr (case value_text vals ''managed-root'' of None \<Rightarrow> Inr None
        | Some dir \<Rightarrow> bindr (sanitize_path env dir) (\<lambda>p. Inr (Some p))) (\<lambda>managed.
     bindr (parse_integer (value_text vals ''holder-process-id'') ''holder-process-id'' 1 None) (\<lambda>pid.
     Inr (Worktrees_cleanup base \<lparr>cn_lease_id = i, cn_current_host = value_text vals ''current-host'',
       cn_allow_read_only_cleanup = value_flag vals ''allow-read-only-cleanup'', cn_managed_root = managed,
       cn_holder_process_id = the pid, cn_holder_host = the (value_text vals ''holder-host''),
       cn_holder_session_id = value_text vals ''holder-session-id'',
       cn_holder_turn_id = value_text vals ''holder-turn-id'',
       cn_fencing_token = the (value_text vals ''fencing-token'')\<rparr>)))))))"

definition parse_leases_list :: "cli_env \<Rightarrow> path \<Rightarrow> cli_globals \<Rightarrow> string list \<Rightarrow> (cli_thrown, cli_request) result" where
  "parse_leases_list env cwd g rest =
     bindr (build_base env cwd g) (\<lambda>base.
     bindr (parse_command_args rest (strings [''backend'', ''scope'', ''limit'', ''cursor''])) (\<lambda>(vals, positionals).
     bindr (assert_no_positionals positionals ''coordination leases list'') (\<lambda>_.
     bindr (parse_page env vals False) (\<lambda>page.
     bindr (parse_coordination_backend env (value_text vals ''backend'')) (\<lambda>backend.
     Inr (Leases_list base page backend (value_text vals ''scope'')))))))"

definition parse_leases_acquire :: "cli_env \<Rightarrow> path \<Rightarrow> cli_globals \<Rightarrow> string list \<Rightarrow> (cli_thrown, cli_request) result" where
  "parse_leases_acquire env cwd g rest =
     bindr (build_base env cwd g) (\<lambda>base.
     bindr (parse_command_args rest (strings [''backend'', ''holder'', ''scope'', ''mode'', ''ttl-seconds'', ''phase'', ''lease-id''])) (\<lambda>(vals, positionals).
     bindr (assert_no_positionals positionals ''coordination leases acquire'') (\<lambda>_.
     bindr (ensure (present (value_text vals ''holder'') \<and> present (value_text vals ''scope'') \<and> present (value_text vals ''ttl-seconds''))
        (argument_error ''holder, scope, and ttl-seconds are required.'')) (\<lambda>_.
     bindr (parse_coordination_backend env (value_text vals ''backend'')) (\<lambda>backend.
     bindr (parse_coordination_mode (value_text vals ''mode'')) (\<lambda>mode.
     bindr (parse_integer (value_text vals ''ttl-seconds'') ''ttl-seconds'' 1 (Some 7200)) (\<lambda>ttl.
     Inr (Leases_acquire base \<lparr>ac_backend = backend, ac_holder = the (value_text vals ''holder''),
       ac_scope = the (value_text vals ''scope''), ac_mode = mode, ac_ttl_seconds = the ttl,
       ac_phase = or_else (value_text vals ''phase'') ''CS-2.2'', ac_lease_id = value_text vals ''lease-id''\<rparr>))))))))"

definition parse_leases_renew :: "cli_env \<Rightarrow> path \<Rightarrow> cli_globals \<Rightarrow> string list \<Rightarrow> (cli_thrown, cli_request) result" where
  "parse_leases_renew env cwd g rest =
     bindr (build_base env cwd g) (\<lambda>base.
     bindr (parse_command_args rest (strings [''backend'', ''lease-id'', ''holder'', ''ttl-seconds''])) (\<lambda>(vals, positionals).
     bindr (assert_no_positionals positionals ''coordination leases renew'') (\<lambda>_.
     bindr (ensure (present (value_text vals ''lease-id'') \<and> present (value_text vals ''holder''))
        (argument_error ''lease-id and holder are required.'')) (\<lambda>_.
     bindr (parse_coordination_backend env (value_text vals ''backend'')) (\<lambda>backend.
     bindr (parse_integer (value_text vals ''ttl-seconds'') ''ttl-seconds'' 1 (Some 7200)) (\<lambda>ttl.
     Inr (Leases_renew base backend (the (value_text vals ''lease-id'')) (the (value_text vals ''holder'')) ttl)))))))"

definition parse_leases_release :: "cli_env \<Rightarrow> path \<Rightarrow> cli_globals \<Rightarrow> string list \<Rightarrow> (cli_thrown, cli_request) result" where
  "parse_leases_release env cwd g rest =
     bindr (build_base env cwd g) (\<lambda>base.
     bindr (parse_command_args rest (strings [''backend'', ''lease-id'', ''holder''])) (\<lambda>(vals, positionals).
     bindr (assert_no_positionals positionals ''coordination leases release'') (\<lambda>_.
     bindr (ensure (present (value_text vals ''lease-id'') \<and> present (value_text vals ''holder''))
        (argument_error ''lease-id and holder are required.'')) (\<lambda>_.
     bindr (parse_coordination_backend env (value_text vals ''backend'')) (\<lambda>backend.
     Inr (Leases_release base backend (the (value_text vals ''lease-id'')) (the (value_text vals ''holder'')))))))) "

definition parse_inbox_send :: "cli_env \<Rightarrow> path \<Rightarrow> cli_globals \<Rightarrow> string list \<Rightarrow> (cli_thrown, cli_request) result" where
  "parse_inbox_send env cwd g rest =
     bindr (build_base env cwd g) (\<lambda>base.
     bindr (parse_command_args rest (strings [''backend'', ''type'', ''sender'', ''scope'', ''target-holder'', ''lease-id'', ''handoff-packet-id''])) (\<lambda>(vals, positionals).
     bindr (assert_no_positionals positionals ''coordination inbox send'') (\<lambda>_.
     bindr (ensure (present (value_text vals ''type'') \<and> present (value_text vals ''sender'') \<and> present (value_text vals ''scope''))
        (argument_error ''type, sender, and scope are required.'')) (\<lambda>_.
     bindr (parse_coordination_backend env (value_text vals ''backend'')) (\<lambda>backend.
     bindr (parse_coordination_message_type (value_text vals ''type'')) (\<lambda>ty.
     Inr (Inbox_send base \<lparr>ix_backend = backend, ix_type = ty, ix_sender = the (value_text vals ''sender''),
       ix_scope = the (value_text vals ''scope''), ix_target_holder = value_text vals ''target-holder'',
       ix_lease_id = value_text vals ''lease-id'', ix_handoff_packet_id = value_text vals ''handoff-packet-id''\<rparr>)))))))"

definition parse_inbox_list :: "cli_env \<Rightarrow> path \<Rightarrow> cli_globals \<Rightarrow> string list \<Rightarrow> (cli_thrown, cli_request) result" where
  "parse_inbox_list env cwd g rest =
     bindr (build_base env cwd g) (\<lambda>base.
     bindr (parse_command_args rest (strings [''backend'', ''type'', ''scope'', ''limit'', ''cursor''])) (\<lambda>(vals, positionals).
     bindr (assert_no_positionals positionals ''coordination inbox list'') (\<lambda>_.
     bindr (parse_page env vals False) (\<lambda>page.
     bindr (parse_coordination_backend env (value_text vals ''backend'')) (\<lambda>backend.
     bindr (case value_text vals ''type'' of None \<Rightarrow> Inr None
        | Some t \<Rightarrow> bindr (parse_coordination_message_type (Some t)) (\<lambda>ty. Inr (Some ty))) (\<lambda>ty.
     Inr (Inbox_list base page backend ty (value_text vals ''scope''))))))))"

definition classify_providers :: "string list" where
  "classify_providers = provider_family_ids @ [''openai-api'', ''anthropic-api'', ''google-api'',
     ''generic-openai-compatible'', ''minimax'', ''zai'', ''generic'']"

definition parse_classify_limit :: "cli_env \<Rightarrow> path \<Rightarrow> cli_globals \<Rightarrow> string list \<Rightarrow> (cli_thrown, cli_request) result" where
  "parse_classify_limit env cwd g rest =
     bindr (build_base env cwd g) (\<lambda>base.
     bindr (parse_command_args (filter (\<lambda>s. s \<noteq> []) rest) (strings [''provider'', ''harness'', ''status-code'', ''exit-code'',
        ''body-text'', ''stderr-text'', ''stdout-text'', ''session-id'', ''identity-profile-id'', ''task-id'']
        @ [(''header'', Opt_strings)] @ booleans [''record''])) (\<lambda>(vals, positionals).
     bindr (assert_no_positionals positionals ''classify-limit'') (\<lambda>_.
     bindr (parse_target (value_text vals ''provider'') classify_providers ''provider'') (\<lambda>provider.
     bindr (parse_target (value_text vals ''harness'') harness_ids ''harness'') (\<lambda>harness.
     bindr (parse_integer (value_text vals ''status-code'') ''status-code'' 0 None) (\<lambda>status.
     bindr (parse_integer (value_text vals ''exit-code'') ''exit-code'' 0 None) (\<lambda>exit_code.
     bindr (parse_headers (value_texts vals ''header'')) (\<lambda>headers.
     Inr (Classify_limit base \<lparr>ca_provider = provider, ca_harness = harness, ca_status_code = status,
       ca_exit_code = exit_code, ca_body_text = value_text vals ''body-text'',
       ca_stderr_text = value_text vals ''stderr-text'', ca_stdout_text = value_text vals ''stdout-text'',
       ca_headers = headers, ca_session_id = value_text vals ''session-id'',
       ca_identity_profile_id = value_text vals ''identity-profile-id'', ca_task_id = value_text vals ''task-id'',
       ca_record = value_flag vals ''record''\<rparr>)))))))))"

definition parse_route_task :: "cli_env \<Rightarrow> path \<Rightarrow> cli_globals \<Rightarrow> string list \<Rightarrow> (cli_thrown, cli_request) result" where
  "parse_route_task env cwd g rest =
     bindr (build_base env cwd g) (\<lambda>base.
     bindr (parse_command_args (filter (\<lambda>s. s \<noteq> []) rest) (strings [''task-id'', ''preferred-provider'', ''preferred-harness'',
        ''preferred-identity-profile-id'', ''classification-task-id'', ''worktree-lease-id'', ''coordination-backend'',
        ''coordination-scope'', ''coordination-holder'', ''coordination-mode'', ''coordination-ttl-seconds'']
        @ booleans [''manual-confirmation'', ''session-continuation'', ''handoff-evidence'', ''raw-history-attached'',
        ''local-filesystem-dependency'', ''allow-cross-provider-migration'', ''coordination-request-yield'', ''record''])) (\<lambda>(vals, positionals).
     bindr (assert_no_positionals positionals ''route-task'') (\<lambda>_.
     bindr (ensure (present (value_text vals ''task-id'')) (argument_error ''task-id is required.'')) (\<lambda>_.
     bindr (parse_target (value_text vals ''preferred-provider'') provider_family_ids ''preferred provider'') (\<lambda>provider.
     bindr (parse_target (value_text vals ''preferred-harness'') harness_ids ''preferred harness'') (\<lambda>harness.
     bindr (parse_coordination_backend env (value_text vals ''coordination-backend'')) (\<lambda>backend.
     bindr (if value_text vals ''coordination-mode'' = None then Inr Hard
            else parse_coordination_mode (value_text vals ''coordination-mode'')) (\<lambda>mode.
     bindr (parse_integer (value_text vals ''coordination-ttl-seconds'') ''coordination-ttl-seconds'' 1 (Some 7200)) (\<lambda>ttl.
     Inr (Route_task base \<lparr>rt_task_id = the (value_text vals ''task-id''), rt_preferred_provider = provider,
       rt_preferred_harness = harness,
       rt_preferred_identity_profile_id = value_text vals ''preferred-identity-profile-id'',
       rt_classification_task_id = value_text vals ''classification-task-id'',
       rt_worktree_lease_id = value_text vals ''worktree-lease-id'',
       rt_manual_confirmation_provided = value_flag vals ''manual-confirmation'',
       rt_session_continuation = value_flag vals ''session-continuation'',
       rt_handoff_evidence = value_flag vals ''handoff-evidence'',
       rt_raw_history_attached = value_flag vals ''raw-history-attached'',
       rt_local_filesystem_dependency = value_flag vals ''local-filesystem-dependency'',
       rt_allow_cross_provider_migration =
         (if value_flag vals ''allow-cross-provider-migration'' then Some True else None),
       rt_coordination_backend = backend, rt_coordination_scope = value_text vals ''coordination-scope'',
       rt_coordination_holder = value_text vals ''coordination-holder'', rt_coordination_mode = mode,
       rt_coordination_ttl_seconds = or_else ttl 300,
       rt_coordination_request_yield = value_flag vals ''coordination-request-yield'',
       rt_record = value_flag vals ''record''\<rparr>))))))))))"

section \<open>The dispatch\<close>

definition unknown_command :: "string \<Rightarrow> string option \<Rightarrow> (cli_thrown, cli_request) result" where
  "unknown_command c1 c2 = Inl (argument_error (''Unknown command: '' @ c1
     @ (if present c2 then '' '' @ the c2 else []) @ ''.''))"

definition dispatch_coordination :: "cli_env \<Rightarrow> path \<Rightarrow> cli_globals \<Rightarrow> string option \<Rightarrow> string list \<Rightarrow> (cli_thrown, cli_request) result" where
  "dispatch_coordination env cwd g c2 rest =
     (let action = first_of rest; args = tl rest in
      if c2 = Some ''leases'' \<and> action = Some ''list'' then parse_leases_list env cwd g args
      else if c2 = Some ''leases'' \<and> action = Some ''acquire'' then parse_leases_acquire env cwd g args
      else if c2 = Some ''leases'' \<and> action = Some ''renew'' then parse_leases_renew env cwd g args
      else if c2 = Some ''leases'' \<and> action = Some ''release'' then parse_leases_release env cwd g args
      else if c2 = Some ''inbox'' \<and> action = Some ''send'' then parse_inbox_send env cwd g args
      else if c2 = Some ''inbox'' \<and> action = Some ''list'' then parse_inbox_list env cwd g args
      else unknown_command ''coordination'' c2)"

text \<open>The second word is taken off before the options, also where the command has only one word.\<close>

definition dispatch_command :: "cli_env \<Rightarrow> path \<Rightarrow> cli_globals \<Rightarrow> string \<Rightarrow> string list \<Rightarrow> (cli_thrown, cli_request) result" where
  "dispatch_command env cwd g c1 words =
     (let c2 = first_of words; rest = tl words in
      if c1 = ''health'' then parse_plain ''health'' Health env cwd g rest
      else if c1 = ''sessions'' \<and> c2 = Some ''list'' then parse_sessions_list env cwd g rest
      else if c1 = ''sessions'' \<and> c2 = Some ''show'' then parse_sessions_show env cwd g rest
      else if c1 = ''control'' \<and> c2 = Some ''snapshot'' then parse_plain ''control snapshot'' Control_snapshot env cwd g rest
      else if c1 = ''identities'' \<and> c2 = Some ''list'' then parse_plain ''identities list'' Identities_list env cwd g rest
      else if c1 = ''identities'' \<and> c2 = Some ''preflight'' then parse_identities_preflight env cwd g rest
      else if c1 = ''worktrees'' \<and> c2 = Some ''list'' then parse_worktrees_list env cwd g rest
      else if c1 = ''worktrees'' \<and> c2 = Some ''cleanup'' then parse_worktrees_cleanup env cwd g rest
      else if c1 = ''coordination'' then dispatch_coordination env cwd g c2 rest
      else if c1 = ''classify-limit'' then parse_classify_limit env cwd g words
      else if c1 = ''route-task'' then parse_route_task env cwd g words
      else unknown_command c1 c2)"

definition parse_cli_args :: "cli_env \<Rightarrow> path \<Rightarrow> string list \<Rightarrow> (cli_thrown, cli_request) result" where
  "parse_cli_args env cwd argv =
     bindr (strip_global_options argv) (\<lambda>g.
     case cg_remaining g of
       [] \<Rightarrow> Inl (argument_error ''A command is required.'')
     | c1 # words \<Rightarrow> dispatch_command env cwd g c1 words)"

end
