(* ===== verification/CliProperties.thy ===== *)
theory CliProperties
  imports CliRequests "HOL-Library.Sublist"
begin

text \<open>
  What the command line guarantees: which errors it raises, the bounds of accepted requests, that
  global options may stand anywhere, and that options can be written back and read again.
\<close>

section \<open>Errors\<close>

text \<open>A failure is an argument error, or was thrown by the test of a path.\<close>

definition argument_failure :: "cli_env \<Rightarrow> cli_thrown \<Rightarrow> bool" where
  "argument_failure env e \<longleftrightarrow> (\<exists>m. e = Cli_error Argument_error m)
     \<or> (\<exists>p x. cx_sanitize_path env p = Inl x \<and> e = Cli_other x)"

named_theorems failure_intros

lemma failure_Cli [failure_intros, intro]: "argument_failure env (Cli_error Argument_error m)"
  by (simp add: argument_failure_def)

lemma failure_argument_error [failure_intros, intro, simp]: "argument_failure env (argument_error m)"
  by (simp add: argument_failure_def argument_error_def)

lemma failure_sanitize [failure_intros]: "sanitize_path env v = Inl e \<Longrightarrow> argument_failure env e"
  by (auto simp: sanitize_path_def argument_failure_def split: sum.splits)

lemma failure_base [failure_intros]: "build_base env cwd g = Inl e \<Longrightarrow> argument_failure env e"
  by (auto simp: build_base_def Let_def bindr_Inl_iff dest: failure_sanitize)

lemma failure_args [failure_intros]: "parse_command_args args cfg = Inl e \<Longrightarrow> argument_failure env e"
  by (auto simp: parse_command_args_def split: option.splits)

lemma failure_positionals [failure_intros]: "assert_no_positionals ps c = Inl e \<Longrightarrow> argument_failure env e"
  by (auto simp: assert_no_positionals_def ensure_def split: if_splits)

lemma failure_integer [failure_intros]: "parse_integer v l mn mx = Inl e \<Longrightarrow> argument_failure env e"
  by (auto simp: parse_integer_def split: option.splits if_splits)

lemma failure_page [failure_intros]: "parse_page env' vals ms = Inl e \<Longrightarrow> argument_failure env e"
  by (auto simp: parse_page_def page_error_def split: sum.splits option.splits prod.splits if_splits)

lemma failure_target [failure_intros]: "parse_target v al l = Inl e \<Longrightarrow> argument_failure env e"
  by (auto simp: parse_target_def split: option.splits if_splits)

lemma failure_backend [failure_intros]: "parse_coordination_backend env' v = Inl e \<Longrightarrow> argument_failure env e"
  by (auto simp: parse_coordination_backend_def Let_def split: if_splits)

lemma failure_mode [failure_intros]: "parse_coordination_mode v = Inl e \<Longrightarrow> argument_failure env e"
  by (auto simp: parse_coordination_mode_def split: if_splits)

lemma failure_type [failure_intros]: "parse_coordination_message_type v = Inl e \<Longrightarrow> argument_failure env e"
  by (auto simp: parse_coordination_message_type_def split: if_splits)

lemma failure_identifier [failure_intros]: "pick_required_identifier v ps l = Inl e \<Longrightarrow> argument_failure env e"
  by (auto simp: pick_required_identifier_def Let_def split: if_splits)

lemma failure_headers [failure_intros]:
  assumes "parse_headers v = Inl e"
  shows "argument_failure env e"
proof -
  have "map_result parse_header hs = Inl e \<Longrightarrow> argument_failure env e" for hs
    by (induction hs) (auto simp: bindr_Inl_iff parse_header_def header_error_def Let_def
        split: option.splits nat.splits if_splits)
  with assms show ?thesis by (auto simp: parse_headers_def bindr_Inl_iff split: option.splits)
qed

lemmas strip_loop_Cons = strip_loop.simps(2)
declare strip_loop.simps(2) [simp del]

lemma failure_strip [failure_intros]: "strip_loop args g = Inl e \<Longrightarrow> argument_failure env e"
proof (induction args g rule: strip_loop.induct)
  case (2 token rest g)
  from "2.prems" show ?case
    by (simp only: strip_loop_Cons split: if_split_asm list.split_asm)
      (simp_all only: "2.IH" sum.inject failure_argument_error simp_thms, (metis failure_argument_error)+)
qed simp

lemma failure_bindr: "bindr r f = Inl e \<Longrightarrow> (r = Inl e \<Longrightarrow> argument_failure env e)
    \<Longrightarrow> (\<And>x. r = Inr x \<Longrightarrow> f x = Inl e \<Longrightarrow> argument_failure env e) \<Longrightarrow> argument_failure env e"
  by (auto simp: bindr_Inl_iff)

lemmas command_defs = parse_plain_def parse_sessions_list_def parse_sessions_show_def parse_identities_preflight_def
  parse_worktrees_list_def parse_worktrees_cleanup_def parse_leases_list_def parse_leases_acquire_def
  parse_leases_renew_def parse_leases_release_def parse_inbox_send_def parse_inbox_list_def
  parse_classify_limit_def parse_route_task_def

lemma command_failures:
  "parse_plain c q env cwd g r = Inl e \<Longrightarrow> argument_failure env e"
  "parse_sessions_list env cwd g r = Inl e \<Longrightarrow> argument_failure env e"
  "parse_sessions_show env cwd g r = Inl e \<Longrightarrow> argument_failure env e"
  "parse_identities_preflight env cwd g r = Inl e \<Longrightarrow> argument_failure env e"
  "parse_worktrees_list env cwd g r = Inl e \<Longrightarrow> argument_failure env e"
  "parse_worktrees_cleanup env cwd g r = Inl e \<Longrightarrow> argument_failure env e"
  "parse_leases_list env cwd g r = Inl e \<Longrightarrow> argument_failure env e"
  "parse_leases_acquire env cwd g r = Inl e \<Longrightarrow> argument_failure env e"
  "parse_leases_renew env cwd g r = Inl e \<Longrightarrow> argument_failure env e"
  "parse_leases_release env cwd g r = Inl e \<Longrightarrow> argument_failure env e"
  "parse_inbox_send env cwd g r = Inl e \<Longrightarrow> argument_failure env e"
  "parse_inbox_list env cwd g r = Inl e \<Longrightarrow> argument_failure env e"
  "parse_classify_limit env cwd g r = Inl e \<Longrightarrow> argument_failure env e"
  "parse_route_task env cwd g r = Inl e \<Longrightarrow> argument_failure env e"
  unfolding command_defs
  by (auto simp: bindr_Inl_iff Let_def ensure_Inl_iff split: option.splits if_splits intro: failure_intros)

lemma parse_cli_args_failure:
  assumes "parse_cli_args env cwd argv = Inl e"
  shows "argument_failure env e"
proof -
  have "dispatch_coordination env cwd g c2 r = Inl e \<Longrightarrow> argument_failure env e" for g c2 r
    by (auto simp: dispatch_coordination_def Let_def unknown_command_def split: if_splits intro: command_failures)
  then have *: "dispatch_command env cwd g c ws = Inl e \<Longrightarrow> argument_failure env e" for g c ws
    by (auto simp: dispatch_command_def Let_def unknown_command_def split: if_splits intro: command_failures)
  consider "strip_global_options argv = Inl e"
    | g where "(case cg_remaining g of [] \<Rightarrow> Inl (argument_error ''A command is required.'')
        | c # ws \<Rightarrow> dispatch_command env cwd g c ws) = Inl e"
    using assms unfolding parse_cli_args_def bindr_Inl_iff by blast
  then show ?thesis
  proof cases
    case 1
    then show ?thesis unfolding strip_global_options_def by (rule failure_strip)
  next
    case (2 g)
    with * show ?thesis by (cases "cg_remaining g") auto
  qed
qed

section \<open>Bounds of accepted requests\<close>

definition page_ok :: "page_args \<Rightarrow> bool" where
  "page_ok p \<longleftrightarrow> 1 \<le> pg_limit p \<and> pg_limit p \<le> 500 \<and> (\<forall>ts i. pg_cursor p = Some (ts, i) \<longrightarrow> i \<noteq> [])"

definition request_ok :: "cli_request \<Rightarrow> bool" where
  "request_ok req \<longleftrightarrow> (case req of
       Sessions_list _ limit \<Rightarrow> (\<forall>n. limit = Some n \<longrightarrow> 1 \<le> n)
     | Sessions_show _ i \<Rightarrow> i \<noteq> []
     | Identities_preflight _ a \<Rightarrow> pf_profile_id a \<noteq> [] \<and> (\<forall>n. pf_active_sessions a = Some n \<longrightarrow> 0 \<le> n)
         \<and> (\<forall>n. pf_active_turns a = Some n \<longrightarrow> 0 \<le> n)
     | Worktrees_list _ p \<Rightarrow> page_ok p
     | Worktrees_cleanup _ a \<Rightarrow> cn_lease_id a \<noteq> [] \<and> 1 \<le> cn_holder_process_id a \<and> cn_holder_host a \<noteq> []
         \<and> cn_fencing_token a \<noteq> []
     | Leases_list _ p _ _ \<Rightarrow> page_ok p
     | Leases_acquire _ a \<Rightarrow> ac_holder a \<noteq> [] \<and> ac_scope a \<noteq> [] \<and> 1 \<le> ac_ttl_seconds a \<and> ac_ttl_seconds a \<le> 7200
     | Leases_renew _ _ i h ttl \<Rightarrow> i \<noteq> [] \<and> h \<noteq> [] \<and> (\<forall>n. ttl = Some n \<longrightarrow> 1 \<le> n \<and> n \<le> 7200)
     | Leases_release _ _ i h \<Rightarrow> i \<noteq> [] \<and> h \<noteq> []
     | Inbox_send _ a \<Rightarrow> ix_sender a \<noteq> [] \<and> ix_scope a \<noteq> []
     | Inbox_list _ p _ _ _ \<Rightarrow> page_ok p
     | Classify_limit _ a \<Rightarrow> (\<forall>x. ca_provider a = Some x \<longrightarrow> x \<in> set classify_providers)
         \<and> (\<forall>x. ca_harness a = Some x \<longrightarrow> x \<in> set harness_ids)
         \<and> (\<forall>n. ca_status_code a = Some n \<longrightarrow> 0 \<le> n) \<and> (\<forall>n. ca_exit_code a = Some n \<longrightarrow> 0 \<le> n)
     | Route_task _ a \<Rightarrow> rt_task_id a \<noteq> [] \<and> 1 \<le> rt_coordination_ttl_seconds a \<and> rt_coordination_ttl_seconds a \<le> 7200
         \<and> (\<forall>x. rt_preferred_provider a = Some x \<longrightarrow> x \<in> set provider_family_ids)
         \<and> (\<forall>x. rt_preferred_harness a = Some x \<longrightarrow> x \<in> set harness_ids)
     | _ \<Rightarrow> True)"

lemma parse_integer_Inr: "parse_integer v l mn mx = Inr r \<Longrightarrow>
    (r = None \<longleftrightarrow> v = None) \<and> (\<forall>n. r = Some n \<longrightarrow> mn \<le> n \<and> n \<le> max_safe \<and> (\<forall>m. mx = Some m \<longrightarrow> n \<le> m))"
  by (auto simp: parse_integer_def split: option.splits if_splits)

lemma parse_target_Inr: "parse_target v al l = Inr r \<Longrightarrow> r = v \<and> (\<forall>x. r = Some x \<longrightarrow> x \<in> set al)"
  by (auto simp: parse_target_def split: option.splits if_splits)

lemma pick_required_Inr: "pick_required_identifier v ps l = Inr r \<Longrightarrow> r \<noteq> [] \<and> or_opt v (first_of ps) = Some r \<and> length ps \<le> 1"
  by (auto simp: pick_required_identifier_def present_def Let_def split: if_splits)

lemma parse_page_Inr: "parse_page env vals ms = Inr p \<Longrightarrow> page_ok p"
  by (auto simp: parse_page_def page_ok_def validate_coordination_page_def bindr_Inr_iff int_in_range_def
      split: sum.splits option.splits prod.splits if_splits jsnum.splits dest!: safe_integer_SomeD)

lemma presentD: "present v \<Longrightarrow> the v \<noteq> [] \<and> v \<noteq> None"
  by (auto simp: present_def)

lemmas parse_dests = parse_integer_Inr parse_target_Inr pick_required_Inr parse_page_Inr

lemma command_requests:
  "parse_sessions_list env cwd g r = Inr q \<Longrightarrow> request_ok q"
  "parse_sessions_show env cwd g r = Inr q \<Longrightarrow> request_ok q"
  "parse_identities_preflight env cwd g r = Inr q \<Longrightarrow> request_ok q"
  "parse_worktrees_list env cwd g r = Inr q \<Longrightarrow> request_ok q"
  "parse_leases_list env cwd g r = Inr q \<Longrightarrow> request_ok q"
  "parse_leases_renew env cwd g r = Inr q \<Longrightarrow> request_ok q"
  "parse_leases_release env cwd g r = Inr q \<Longrightarrow> request_ok q"
  "parse_inbox_send env cwd g r = Inr q \<Longrightarrow> request_ok q"
  "parse_inbox_list env cwd g r = Inr q \<Longrightarrow> request_ok q"
  "parse_classify_limit env cwd g r = Inr q \<Longrightarrow> request_ok q"
  unfolding command_defs
  by (auto simp: request_ok_def bindr_Inr_iff Let_def ensure_Inr_iff dest!: parse_dests presentD split: prod.splits)

lemma parse_leases_acquire_request: "parse_leases_acquire env cwd g r = Inr q \<Longrightarrow> request_ok q"
  unfolding command_defs
  by (fastforce simp: request_ok_def bindr_Inr_iff ensure_Inr_iff dest!: parse_dests presentD split: prod.splits)

lemma parse_worktrees_cleanup_request: "parse_worktrees_cleanup env cwd g r = Inr q \<Longrightarrow> request_ok q"
  unfolding command_defs
  by (fastforce simp: request_ok_def bindr_Inr_iff ensure_Inr_iff dest!: parse_dests presentD split: prod.splits)

lemma parse_route_task_request: "parse_route_task env cwd g r = Inr q \<Longrightarrow> request_ok q"
  unfolding command_defs
  by (fastforce simp: request_ok_def bindr_Inr_iff ensure_Inr_iff or_else_def dest!: parse_dests presentD
      split: prod.splits option.splits)

lemma parse_plain_request:
  assumes "parse_plain c f env cwd g r = Inr q" "f = Health \<or> f = Control_snapshot \<or> f = Identities_list"
  shows "request_ok q"
  using assms unfolding parse_plain_def by (auto simp: bindr_Inr_iff request_ok_def split: prod.splits)

lemma dispatch_request:
  assumes "dispatch_command env cwd g c ws = Inr q"
  shows "request_ok q"
proof -
  have "dispatch_coordination env cwd g c2 r = Inr q \<Longrightarrow> request_ok q" for c2 r
    by (auto simp: dispatch_coordination_def Let_def unknown_command_def split: if_splits
        intro: command_requests parse_leases_acquire_request)
  with assms show ?thesis
    by (auto simp: dispatch_command_def Let_def unknown_command_def split: if_splits
        intro: command_requests parse_plain_request parse_worktrees_cleanup_request parse_route_task_request)
qed

section \<open>Global options\<close>

definition global_option :: "string \<Rightarrow> bool" where
  "global_option t \<longleftrightarrow> t = ''--json'' \<or> t = ''--state-root'' \<or> starts_with ''--state-root='' t
     \<or> t = ''--profiles-dir'' \<or> starts_with ''--profiles-dir='' t"

text \<open>One round of the loop, as an update of the result and the tokens that are left; the tests
  of the token are arguments, so that the case analysis does not compute with the names.\<close>

definition strip_round :: "bool \<Rightarrow> bool \<Rightarrow> bool \<Rightarrow> bool \<Rightarrow> bool \<Rightarrow> string \<Rightarrow> string \<Rightarrow> string \<Rightarrow> string list \<Rightarrow>
    (cli_thrown, (cli_globals \<Rightarrow> cli_globals) \<times> string list) result" where
  "strip_round json root_next root_eq dir_next dir_eq v1 v2 t rest =
     (if json then Inr (cg_json_update (\<lambda>_. True), rest)
      else if root_next then (case rest of
          [] \<Rightarrow> Inl (argument_error ''--state-root requires a value.'')
        | v # r \<Rightarrow> Inr (cg_state_root_update (\<lambda>_. Some v), r))
      else if root_eq then Inr (cg_state_root_update (\<lambda>_. Some v1), rest)
      else if dir_next then (case rest of
          [] \<Rightarrow> Inl (argument_error ''--profiles-dir requires a value.'')
        | v # r \<Rightarrow> Inr (cg_profiles_dir_update (\<lambda>_. Some v), r))
      else if dir_eq then Inr (cg_profiles_dir_update (\<lambda>_. Some v2), rest)
      else Inr (cg_remaining_update (\<lambda>ts. ts @ [t]), rest))"

definition strip_step :: "string \<Rightarrow> string list \<Rightarrow> (cli_thrown, (cli_globals \<Rightarrow> cli_globals) \<times> string list) result" where
  "strip_step t rest = strip_round (t = ''--json'') (t = ''--state-root'') (starts_with ''--state-root='' t)
     (t = ''--profiles-dir'') (starts_with ''--profiles-dir='' t)
     (drop (length ''--state-root='') t) (drop (length ''--profiles-dir='') t) t rest"

lemma remaining_update: "cg_remaining_update f g = g\<lparr>cg_remaining := f (cg_remaining g)\<rparr>"
  by (cases g) simp

lemma strip_loop_step: "strip_loop (t # rest) g = (case strip_step t rest of Inl e \<Rightarrow> Inl e | Inr (u, r) \<Rightarrow> strip_loop r (u g))"
  unfolding strip_loop_Cons [of t rest g] strip_step_def strip_round_def
  by (cases rest) (simp_all only: list.case if_distrib [where f = "case_sum _ _"] sum.case prod.case remaining_update [of "\<lambda>ts. ts @ [t]"] split: if_split)

lemma strip_round_facts:
  assumes "strip_round a b c d e v w t rest = Inr (u, r)"
  shows "suffix r rest"
    and "strip_round a b c d e v w t (rest @ ys) = Inr (u, r @ ys)"
    and "u (g\<lparr>cg_json := True\<rparr>) = (u g)\<lparr>cg_json := True\<rparr>"
    and "cg_remaining (u g) = cg_remaining g @ (if a \<or> b \<or> c \<or> d \<or> e then [] else [t])"
  using assms unfolding strip_round_def
  by (cases rest; auto simp: suffix_ConsI split: if_split_asm)+

lemma strip_step_suffix: "strip_step t rest = Inr (u, r) \<Longrightarrow> suffix r rest"
  unfolding strip_step_def by (rule strip_round_facts)

lemma strip_step_append: "strip_step t rest = Inr (u, r) \<Longrightarrow> strip_step t (rest @ ys) = Inr (u, r @ ys)"
  unfolding strip_step_def by (rule strip_round_facts)

lemma strip_step_json: "strip_step t rest = Inr (u, r) \<Longrightarrow> u (g\<lparr>cg_json := True\<rparr>) = (u g)\<lparr>cg_json := True\<rparr>"
  unfolding strip_step_def by (rule strip_round_facts)

lemma strip_step_remaining:
  "strip_step t rest = Inr (u, r) \<Longrightarrow> cg_remaining (u g) = cg_remaining g @ (if global_option t then [] else [t])"
  unfolding strip_step_def global_option_def by (rule strip_round_facts)

lemma strip_step_length: "strip_step t rest = Inr (u, r) \<Longrightarrow> length r < length (t # rest)"
  using suffix_length_le [OF strip_step_suffix] by fastforce

lemma strip_loop_append: "strip_loop xs g = Inr g' \<Longrightarrow> strip_loop (xs @ ys) g = strip_loop ys g'"
proof (induction xs arbitrary: g rule: length_induct)
  case (1 xs)
  show ?case
  proof (cases xs)
    case Nil
    with 1 show ?thesis by simp
  next
    case (Cons t rest)
    with "1.prems" obtain u r where s: "strip_step t rest = Inr (u, r)" "strip_loop r (u g) = Inr g'"
      by (auto simp: strip_loop_step split: sum.splits)
    then have "strip_loop (r @ ys) (u g) = strip_loop ys g'" using "1.IH" Cons strip_step_length by blast
    with Cons strip_step_append [OF s(1)] show ?thesis by (simp add: strip_loop_step)
  qed
qed

lemma strip_loop_json: "strip_loop ys (g\<lparr>cg_json := True\<rparr>) = map_sum id (\<lambda>h. h\<lparr>cg_json := True\<rparr>) (strip_loop ys g)"
proof (induction ys arbitrary: g rule: length_induct)
  case (1 ys)
  show ?case
  proof (cases ys)
    case (Cons t rest)
    show ?thesis
    proof (cases "strip_step t rest")
      case (Inr p)
      obtain u r where p: "p = (u, r)" by fastforce
      with Inr have s: "strip_step t rest = Inr (u, r)" by simp
      then have "strip_loop r ((u g)\<lparr>cg_json := True\<rparr>) = map_sum id (\<lambda>h. h\<lparr>cg_json := True\<rparr>) (strip_loop r (u g))"
        using "1.IH" Cons strip_step_length by blast
      with s strip_step_json [OF s] Cons show ?thesis by (simp add: strip_loop_step id_def)
    qed (simp add: Cons strip_loop_step)
  qed simp
qed

lemma strip_loop_remaining:
  "strip_loop xs g = Inr g' \<Longrightarrow> \<exists>ts. cg_remaining g' = cg_remaining g @ ts \<and> subseq ts xs \<and> list_all (\<lambda>t. \<not> global_option t) ts"
proof (induction xs arbitrary: g rule: length_induct)
  case (1 xs)
  show ?case
  proof (cases xs)
    case Nil
    with 1 show ?thesis by simp
  next
    case (Cons t rest)
    with "1.prems" obtain u r where s: "strip_step t rest = Inr (u, r)" "strip_loop r (u g) = Inr g'"
      by (auto simp: strip_loop_step split: sum.splits)
    then obtain ts where ts: "cg_remaining g' = cg_remaining (u g) @ ts" "subseq ts r" "list_all (\<lambda>t. \<not> global_option t) ts"
      using "1.IH" Cons strip_step_length by blast
    have "subseq ts rest" using ts(2) suffix_imp_subseq [OF strip_step_suffix [OF s(1)]] by (rule subseq_order.trans)
    with ts strip_step_remaining [OF s(1)] Cons show ?thesis
      by (intro exI [of _ "(if global_option t then [] else [t]) @ ts"]) auto
  qed
qed

text \<open>A repository at \<open>/repo\<close>, where every path is fine and no cursor can be read.\<close>

definition demo_cli :: cli_env where
  "demo_cli = \<lparr>cx_exists = (\<lambda>p. p = [''repo'', ''pnpm-workspace.yaml'']), cx_process_cwd = [''repo''],
     cx_backend_variable = None, cx_sanitize_path = Inr, cx_json_cursor = (\<lambda>_. None), cx_datetime = (\<lambda>_. False)\<rparr>"

section \<open>Properties\<close>

text \<open>C40: the command line fails only with an argument error, exit code 2, unless the test of a path
  threw; in particular it never fails with an error of the code's own assertions.\<close>

theorem cli_argument_errors:
  assumes "parse_cli_args env cwd argv = Inl e"
  shows "er_code (normalize_cli_error sanitize e) = 2 \<or> (\<exists>p x. cx_sanitize_path env p = Inl x \<and> e = Cli_other x)"
  using parse_cli_args_failure [OF assms]
  by (auto simp: argument_failure_def normalize_cli_error_def cli_error_payload_def)

lemma demo_bare_failure: "parse_cli_args demo_cli [''repo''] [] = Inl (argument_error ''A command is required.'')"
  by code_simp

theorem cli_argument_errors_witness:
  "er_code (normalize_cli_error (\<lambda>_. ''message'') (argument_error ''A command is required.'')) = 2
     \<or> (\<exists>p x. cx_sanitize_path demo_cli p = Inl x \<and> argument_error ''A command is required.'' = Cli_other x)"
  by (rule cli_argument_errors [OF demo_bare_failure])

text \<open>C39: every accepted request is within its bounds: terms of leases between 1 and 7200 seconds,
  pages of 1 to 500 rows, identifiers, holders and tokens that are not empty, counts that are not
  negative, and providers and harnesses from the lists.\<close>

theorem cli_requests_bounded:
  assumes "parse_cli_args env cwd argv = Inr req"
  shows "request_ok req"
  using assms by (auto simp: parse_cli_args_def bindr_Inr_iff neq_Nil_conv split: list.split_asm intro: dispatch_request)

definition demo_show :: cli_request where
  "demo_show = Sessions_show \<lparr>cb_json = True, cb_repo_root = ''/repo'', cb_state_root = ''/repo/.omniagent-plus/state'',
     cb_profiles_dir = ''/repo/fixtures/identity/profiles''\<rparr> ''s1''"

lemma demo_show_accepted: "parse_cli_args demo_cli [''repo'', ''src''] [''sessions'', ''show'', ''--json'', ''s1''] = Inr demo_show"
  by code_simp

theorem cli_requests_bounded_witness: "request_ok demo_show"
  by (rule cli_requests_bounded [OF demo_show_accepted])

text \<open>what the commands see are the arguments without the global options, in order, and the switch
  \<open>--json\<close> may stand at any place where an argument ends.\<close>

theorem global_options_anywhere:
  assumes "strip_global_options xs = Inr g"
  shows "subseq (cg_remaining g) xs \<and> list_all (\<lambda>t. \<not> global_option t) (cg_remaining g)
    \<and> strip_global_options (xs @ ''--json'' # ys) =
        map_sum id (\<lambda>h. h\<lparr>cg_json := True\<rparr>) (strip_global_options (xs @ ys))"
proof -
  define g0 where "g0 = \<lparr>cg_remaining = [], cg_json = False, cg_state_root = None, cg_profiles_dir = None\<rparr>"
  have g: "strip_loop xs g0 = Inr g" using assms by (simp add: strip_global_options_def g0_def)
  have "strip_step ''--json'' ys = Inr (cg_json_update (\<lambda>_. True), ys)" by (simp add: strip_step_def strip_round_def)
  then have "strip_loop (''--json'' # ys) g = map_sum id (\<lambda>h. h\<lparr>cg_json := True\<rparr>) (strip_loop ys g)"
    by (simp add: strip_loop_step strip_loop_json id_def)
  then show ?thesis using strip_loop_remaining [OF g] strip_loop_append [OF g]
    by (auto simp: strip_global_options_def g0_def)
qed

lemma demo_strip: "strip_global_options [''health'', ''--state-root'', ''/s''] =
    Inr \<lparr>cg_remaining = [''health''], cg_json = False, cg_state_root = Some ''/s'', cg_profiles_dir = None\<rparr>"
  by code_simp

theorem global_options_anywhere_witness:
  "strip_global_options ([''health'', ''--state-root'', ''/s''] @ ''--json'' # [''x'']) =
     map_sum id (\<lambda>h. h\<lparr>cg_json := True\<rparr>) (strip_global_options ([''health'', ''--state-root'', ''/s''] @ [''x'']))"
  using global_options_anywhere [OF demo_strip] by blast

text \<open>options that are written back in one argument each are read again with the same values, for
  every list of options that fits the configuration of a command.\<close>

theorem command_args_roundtrip:
  assumes "distinct (map fst os)" "\<forall>o' \<in> set os. option_fits cfg o'"
  shows "\<exists>vals. parse_command_args (concat (map render_option os)) cfg = Inr (vals, [])
    \<and> (\<forall>name v. map_of vals name = Some v \<longleftrightarrow> (name, v) \<in> set os)"
proof -
  obtain vals where "parse_args cfg (concat (map render_option os)) = Some (vals, [])" "map_of vals = map_of (rev os)"
    using parse_args_render [OF assms] by blast
  then show ?thesis using assms(1)
    by (intro exI [of _ vals]) (simp add: parse_command_args_def map_of_eq_Some_iff rev_map [symmetric])
qed

definition demo_options :: "(string \<times> option_value) list" where
  "demo_options = [(''task-id'', V_string ''t1''), (''record'', V_true)]"

definition demo_config :: option_config where
  "demo_config = strings [''task-id''] @ booleans [''record'']"

lemma demo_options_fit: "distinct (map fst demo_options)" "\<forall>o' \<in> set demo_options. option_fits demo_config o'"
  by code_simp+

theorem command_args_roundtrip_witness:
  "\<exists>vals. parse_command_args (concat (map render_option demo_options)) demo_config = Inr (vals, [])
    \<and> (\<forall>name v. map_of vals name = Some v \<longleftrightarrow> (name, v) \<in> set demo_options)"
  by (rule command_args_roundtrip [OF demo_options_fit])

section \<open>Two lines that are read differently from what their text says\<close>

text \<open>\<open>health\<close> takes no argument, and says so of a second one, but it drops the first one unseen.\<close>

lemma health_ignores_first_argument:
  "parse_cli_args env cwd [''health'', x] =
     (if global_option x then parse_cli_args env cwd [''health'', x] else parse_cli_args env cwd [''health''])"
proof (cases "global_option x")
  case False
  have "strip_step ''health'' rest = Inr (cg_remaining_update (\<lambda>ts. ts @ [''health'']), rest)" for rest
    by (simp add: strip_step_def strip_round_def starts_with_def)
  moreover have "strip_step x rest = Inr (cg_remaining_update (\<lambda>ts. ts @ [x]), rest)" for rest
    using False by (simp add: strip_step_def strip_round_def global_option_def)
  ultimately have "strip_global_options [''health'', x] = Inr \<lparr>cg_remaining = [''health'', x], cg_json = False, cg_state_root = None, cg_profiles_dir = None\<rparr>"
    "strip_global_options [''health''] = Inr \<lparr>cg_remaining = [''health''], cg_json = False, cg_state_root = None, cg_profiles_dir = None\<rparr>"
    by (simp_all add: strip_global_options_def strip_loop_step)
  then show ?thesis using False
    by (simp add: parse_cli_args_def dispatch_command_def parse_plain_def build_base_def Let_def)
qed simp

text \<open>\<open>route-task\<close> drops empty arguments first, so that an empty value takes the next word.\<close>

lemma route_task_empty_value:
  "\<exists>req. parse_cli_args demo_cli [''repo''] [''route-task'', ''--task-id'', [], ''other''] = Inr req
    \<and> (\<forall>base a. req = Route_task base a \<longrightarrow> rt_task_id a = ''other'')"
proof -
  have "(case parse_cli_args demo_cli [''repo''] [''route-task'', ''--task-id'', [], ''other''] of
      Inr (Route_task base a) \<Rightarrow> rt_task_id a = ''other'' | _ \<Rightarrow> False)"
    by code_simp
  then show ?thesis by (auto split: sum.splits cli_request.splits)
qed

end
