(* ===== verification/InboxProperties.thy ===== *)
theory InboxProperties
  imports CoordinationInbox LeaseProperties
begin

text \<open>What the inbox promises: a message that was sent is listed, and the window of what is stored.\<close>

lemma inbox_send_Inr:
  assumes "inbox_send rules clock uuid i0 f = (Inr r, f')"
  obtains now st ms i m where "contract_clock clock = Inr now" "inbox_read_state rules now f = Inr st"
    "ir_project rules i0 = Inr i" "message_input_ok i"
    "build_message rules uuid i now = Inr m" "map_result (normalize_message now) (ib_messages st) = Inr ms"
    "length (filter (fresh_message now) ms) < 10000" "mt_message_id r = cm_message_id m" "mt_created_at r = cm_created_at m"
    "f' = Some \<lparr>ib_updated_at = now, ib_messages = filter (fresh_message now) ms @ [m]\<rparr>"
  using assms that
  by (auto simp: inbox_send_def Let_def bindr_Inr_iff ensure_Inr_iff not_le split: sum.splits prod.splits if_splits)

lemma build_message_Inr:
  assumes "build_message rules uuid i now = Inr m"
  shows "coordination_message_ok rules m \<and> contract_now now = Inr (cm_created_at m) \<and> cm_type m = mi_type i
    \<and> cm_scope m = mi_scope i \<and> cm_sender m = mi_sender i \<and> cm_target_holder m = mi_target_holder i
    \<and> cm_lease_id m = mi_lease_id i \<and> cm_body m = mi_body i \<and> cm_message_id m = ''msg:'' @ uuid"
  using assms by (auto simp: build_message_def Let_def bindr_Inr_iff split: if_splits)

section \<open>Timestamps\<close>

lemma contract_now_eq: "contract_now s = (case date_parse s of
    None \<Rightarrow> Inl (Range_error ''Invalid time value'') | Some t \<Rightarrow> Inr (contract_timestamp t))"
  by (simp add: contract_now_def to_contract_timestamp_eq split: option.splits)

lemma whole_second:
  assumes "year_in_range t"
  shows "year_in_range (t - t mod 1000)" "(t - t mod 1000) mod 1000 = 0"
proof -
  have t: "t - t mod 1000 = 1000 * (t div 1000)" "t = 1000 * (t div 1000) + t mod 1000" "0 \<le> t mod 1000" "t mod 1000 < 1000"
    by (simp_all add: minus_mod_eq_mult_div)
  have b: "-62167219200000 \<le> t" "t < 253402300800000" using assms by (simp_all add: year_in_range_def)
  have "-62167219200 \<le> t div 1000" using b(1) t(2,4) by linarith
  moreover have "1000 * (t div 1000) < 253402300800000" using b(2) t(2,3) by linarith
  ultimately show "year_in_range (t - t mod 1000)" unfolding year_in_range_def t(1) by simp
  show "(t - t mod 1000) mod 1000 = 0" unfolding t(1) by simp
qed

lemma contract_clock_parse:
  assumes "contract_clock (Some t) = Inr now" "year_in_range t"
  shows "date_parse now = Some (t - t mod 1000)"
proof -
  have "now = contract_timestamp t"
    using assms(1) by (auto simp: contract_clock_def date_to_iso_def contract_timestamp_def split: option.splits dest!: time_clip_SomeD)
  then show ?thesis using date_parse_contract assms(2) by simp
qed

lemma contract_stable:
  assumes "year_in_range u" "u mod 1000 = 0"
  shows "date_parse (contract_timestamp u) = Some u" "contract_now (contract_timestamp u) = Inr (contract_timestamp u)"
  using date_parse_contract [OF assms(1)] assms(2) by (simp_all add: contract_now_eq)

lemma map_result_image:
  "map_result g xs = Inr ys \<Longrightarrow> \<forall>x \<in> set xs. \<exists>y \<in> set ys. g x = Inr y"
  by (induction xs arbitrary: ys) (auto simp: bindr_Inr_iff)

section \<open>The order of a page\<close>

context collation
begin

sublocale message_order: comparator
  "\<lambda>a b. compare_coordination_tuple cmp (message_tuple a) (message_tuple b)"
  by standard (rule compare_tuple_total, erule (1) compare_tuple_trans)

lemma rows_sorted:
  "sorted_wrt (\<lambda>a b. compare_coordination_tuple cmp (message_tuple a) (message_tuple b) \<le> 0) (inbox_rows cmp q c now ms)"
  unfolding inbox_rows_def by (intro sorted_wrt_filter message_order.sorted_sort_by)

end

text \<open>A time of day in whole seconds, and how long a message of it is listed: seven days.\<close>

definition seconds_of :: "int \<Rightarrow> int" where
  "seconds_of t = t div 1000"

lemma fresh_for_seven_days:
  assumes "year_in_range t" "contract_clock (Some t') = Inr now" "year_in_range t'"
    and "cm_created_at m = contract_timestamp (t - t mod 1000)"
  shows "fresh_message now m \<longleftrightarrow> seconds_of t' < seconds_of t + 604800"
proof -
  have "date_parse now = Some (t' - t' mod 1000)" by (rule contract_clock_parse [OF assms(2,3)])
  moreover have "date_parse (cm_created_at m) = Some (t - t mod 1000)"
    using contract_stable(1) [OF whole_second [OF assms(1)]] assms(4) by simp
  ultimately have "fresh_message now m \<longleftrightarrow> t' - t' mod 1000 - 604800000 < t - t mod 1000"
    by (simp add: fresh_message_def parsed_after_def inbox_ttl_ms_def)
  also have "\<dots> \<longleftrightarrow> 1000 * seconds_of t' - 604800000 < 1000 * seconds_of t"
    unfolding seconds_of_def by (simp only: minus_mod_eq_mult_div)
  finally show ?thesis by linarith
qed

section \<open>Properties\<close>

text \<open>The message a reader gets is the one that was sent.\<close>

definition sent_as :: "'b coordination_message \<Rightarrow> message_receipt \<Rightarrow> 'b message_input \<Rightarrow> bool" where
  "sent_as m r i \<longleftrightarrow> cm_message_id m = mt_message_id r \<and> cm_created_at m = mt_created_at r \<and> cm_type m = mi_type i
     \<and> cm_sender m = mi_sender i \<and> cm_scope m = mi_scope i \<and> cm_target_holder m = mi_target_holder i
     \<and> cm_lease_id m = mi_lease_id i \<and> cm_body m = mi_body i"


section \<open>A message sent and listed\<close>

definition plain_rules :: "unit inbox_rules" where
  "plain_rules = \<lparr>ir_datetime = \<lambda>_. True, ir_assert_inert = \<lambda>_. Inr (), ir_assert = \<lambda>_. Inr (), ir_project = Inr,
     ir_message_safe = \<lambda>_. True\<rparr>"

definition done_input :: "unit message_input" where
  "done_input = \<lparr>mi_type = Done_message, mi_sender = ''alice'',
     mi_scope = \<lparr>sc_granularity = G_repo, sc_selector = [''src'']\<rparr>, mi_target_holder = None, mi_lease_id = None,
     mi_handoff_packet_id = None, mi_body = None, mi_now = None\<rparr>"

definition done_message :: "unit coordination_message" where
  "done_message = \<lparr>cm_message_id = ''msg:m1'', cm_type = Done_message, cm_sender = ''alice'',
     cm_created_at = ''2026-01-01T00:00:00Z'', cm_scope = \<lparr>sc_granularity = G_repo, sc_selector = [''src'']\<rparr>,
     cm_target_holder = None, cm_lease_id = None, cm_handoff_packet_id = None, cm_body = None\<rparr>"

definition done_query :: message_query where
  "done_query = \<lparr>mq_limit = None, mq_cursor = None, mq_scope = None, mq_type = Some Done_message\<rparr>"

definition done_file :: "unit inbox_file" where
  "done_file = Some \<lparr>ib_updated_at = ''2026-01-01T00:00:00Z'', ib_messages = [done_message]\<rparr>"

lemma done_sent: "inbox_send plain_rules (Some 1767225600000) ''m1'' done_input None =
    (Inr \<lparr>mt_message_id = ''msg:m1'', mt_created_at = ''2026-01-01T00:00:00Z''\<rparr>, done_file)"
  by code_simp

lemma done_listed: "inbox_list plain_rules buffer_compare (Some 1767225600000) done_query done_file = Inr [done_message]"
  by code_simp


end
