(* ===== verification/LeaseArbiter.thy ===== *)
theory LeaseArbiter
  imports InboxProperties LeaseProperties
begin

text \<open>
  The arbitration of a lease before a launch (\<open>coordinator/src/lease-arbiter.ts\<close>). The lease store is
  an interface of the code with several implementations, so its operation is an argument here and
  what the arbiter relies on is the locale \<open>lease_provider\<close>; the local store is proved to be one.
  \<open>'f\<close> is the state of the store, \<open>'i\<close> the state of the message channel.
\<close>

section \<open>Arbitration\<close>

record arbitration_request = lease_acquire_request +
  ar_task_id :: string
  ar_send_yield_request :: bool

type_synonym arbiter_body = "string obj"

record notification =
  nt_sent :: bool
  nt_cause :: "backend_cause option"

record arbitration_decision =
  ad_route_decision :: lease_arbitration
  ad_acquired :: bool
  ad_launch_allowed :: bool
  ad_inbox_message :: "arbiter_body message_input option"
  ad_cause :: "backend_cause option"
  ad_notification :: "notification option"

type_synonym 'f acquire_operation =
  "lease_acquire_request \<Rightarrow> 'f \<Rightarrow> (thrown, lease_acquire_result \<times> 'f) result"

type_synonym 'i send_operation =
  "arbiter_body message_input \<Rightarrow> 'i \<Rightarrow> (thrown, message_receipt) result \<times> 'i"

text \<open>The request as it goes to the store: taken from the prepared lease.\<close>

definition store_request :: "consiliency_lease \<Rightarrow> string option \<Rightarrow> lease_acquire_request" where
  "store_request l now = \<lparr>aq_lease_id = Some (cl_lease_id l), aq_holder = cl_holder l,
     aq_ttl_seconds = Fin (of_int (cl_ttl_seconds l)), aq_mode = cl_mode l, aq_scope = cl_scope l,
     aq_phase = cl_phase l, aq_now = now\<rparr>"

definition unavailable_result :: "backend_cause option \<Rightarrow> lease_acquire_result" where
  "unavailable_result cause = \<lparr>lar_granted = False, lar_lease = None, lar_conflict = None,
     lar_failure = Some Fail_backend_unavailable, lar_cause = cause\<rparr>"

definition try_acquire :: "'f acquire_operation \<Rightarrow> lease_acquire_request \<Rightarrow> 'f \<Rightarrow> lease_acquire_result \<times> 'f" where
  "try_acquire acquire_op req f = (case acquire_op req f of
       Inl e \<Rightarrow> (unavailable_result (Some (coordination_failure_cause e)), f)
     | Inr (r, f') \<Rightarrow> (r, f'))"

definition yield_message :: "arbitration_request \<Rightarrow> consiliency_lease \<Rightarrow> consiliency_lease \<Rightarrow> arbiter_body message_input" where
  "yield_message req lease conflict =
     \<lparr>mi_type = Request_yield, mi_sender = cl_holder lease, mi_scope = cl_scope lease,
      mi_target_holder = Some (cl_holder conflict), mi_lease_id = Some (cl_lease_id conflict),
      mi_handoff_packet_id = None,
      mi_body = Some [(''taskId'', ar_task_id req), (''phase'', cl_phase lease)], mi_now = aq_now req\<rparr>"

definition notify :: "'i send_operation option \<Rightarrow> arbiter_body message_input \<Rightarrow> 'i \<Rightarrow> notification \<times> 'i" where
  "notify channel m i = (case channel of
       None \<Rightarrow> (\<lparr>nt_sent = False, nt_cause = Some Cause_unavailable\<rparr>, i)
     | Some send \<Rightarrow> (case send m i of
         (Inl e, i') \<Rightarrow> (\<lparr>nt_sent = False, nt_cause = Some (coordination_failure_cause e)\<rparr>, i')
       | (Inr _, i') \<Rightarrow> (\<lparr>nt_sent = True, nt_cause = None\<rparr>, i')))"

definition refused_decision :: "arbitration_status \<Rightarrow> consiliency_lease \<Rightarrow> string option \<Rightarrow> bool \<Rightarrow> backend_cause option
    \<Rightarrow> arbiter_body message_input option \<Rightarrow> notification option \<Rightarrow> arbitration_decision" where
  "refused_decision status lease conflict allowed cause m n =
     \<lparr>ad_route_decision = \<lparr>la_status = status, la_mode = cl_mode lease, la_lease_id = None,
        la_conflict_lease_id = conflict, la_holder = Some (cl_holder lease), la_scope = cl_scope lease\<rparr>,
      ad_acquired = False, ad_launch_allowed = allowed, ad_inbox_message = m, ad_cause = cause, ad_notification = n\<rparr>"

definition acquired_decision :: "consiliency_lease \<Rightarrow> arbitration_decision" where
  "acquired_decision l =
     \<lparr>ad_route_decision = \<lparr>la_status = Arb_acquired, la_mode = cl_mode l, la_lease_id = Some (cl_lease_id l),
        la_conflict_lease_id = None, la_holder = Some (cl_holder l), la_scope = cl_scope l\<rparr>,
      ad_acquired = True, ad_launch_allowed = True, ad_inbox_message = None, ad_cause = None, ad_notification = None\<rparr>"

text \<open>\<open>clock\<close> and \<open>uuid\<close> are what \<open>nowIsoString()\<close> and \<open>randomUUID()\<close> return here.\<close>

definition arbitrate :: "string \<Rightarrow> string \<Rightarrow> 'f acquire_operation \<Rightarrow> 'i send_operation option \<Rightarrow> arbitration_request
    \<Rightarrow> 'f \<Rightarrow> 'i \<Rightarrow> (thrown, arbitration_decision) result \<times> 'f \<times> 'i" where
  "arbitrate clock uuid acquire_op channel req f i =
     (case create_lease_from_acquire_request clock uuid (lease_acquire_request.truncate req) of
        Inl e \<Rightarrow> (Inl e, f, i)
      | Inr lease \<Rightarrow>
         (case try_acquire acquire_op (store_request lease (aq_now req)) f of (r, f') \<Rightarrow>
           if lar_granted r \<and> lar_lease r \<noteq> None then (Inr (acquired_decision (the (lar_lease r))), f', i)
           else if lar_failure r = Some Fail_backend_unavailable
           then (Inr (refused_decision Arb_coordination_unavailable lease None (cl_mode lease = Soft)
                   (Some (or_else (lar_cause r) Cause_unavailable)) None None), f', i)
           else if cl_mode lease = Soft
           then (Inr (refused_decision Arb_soft_conflict lease (map_option cl_lease_id (lar_conflict r)) True None None None), f', i)
           else (case (if ar_send_yield_request req then map_option (yield_message req lease) (lar_conflict r) else None) of
                None \<Rightarrow> (Inr (refused_decision Arb_blocked_hard_conflict lease (map_option cl_lease_id (lar_conflict r))
                           False None None None), f', i)
              | Some m \<Rightarrow> (case notify channel m i of (n, i') \<Rightarrow>
                  (Inr (refused_decision Arb_blocked_hard_conflict lease (map_option cl_lease_id (lar_conflict r))
                     False None (Some m) (Some n)), f', i')))))"

lemma acquired_lease_id: "la_lease_id (ad_route_decision (acquired_decision l)) = Some (cl_lease_id l)"
  by (simp add: acquired_decision_def)

section \<open>What the arbiter relies on\<close>

locale lease_provider =
  fixes acquire_op :: "'f acquire_operation"
    and stored :: "'f \<Rightarrow> consiliency_lease set"
    and good :: "'f \<Rightarrow> bool"
  assumes granted: "good f \<Longrightarrow> acquire_op req f = Inr (r, f') \<Longrightarrow> lar_granted r \<Longrightarrow>
      \<exists>l. lar_lease r = Some l \<and> l \<in> stored f' \<and> cl_holder l = aq_holder req \<and> cl_mode l = aq_mode req
        \<and> cl_scope l = normalize_lease_scope (aq_scope req)"
    and refused: "good f \<Longrightarrow> acquire_op req f = Inr (r, f') \<Longrightarrow> \<not> lar_granted r \<Longrightarrow>
      lar_failure r = Some Fail_backend_unavailable \<or>
      (\<exists>c. lar_conflict r = Some c \<and> c \<in> stored f' \<and> lar_failure r = Some Fail_conflict)"
    and exclusive: "good f \<Longrightarrow> a \<in> stored f \<Longrightarrow> b \<in> stored f \<Longrightarrow> hard_clash a b \<Longrightarrow> a = b"
    and kept: "good f \<Longrightarrow> acquire_op req f = Inr (r, f') \<Longrightarrow> good f'"
begin

lemma try_acquire_cases:
  assumes "good f" "try_acquire acquire_op req f = (r, f')"
  obtains l where "lar_granted r" "lar_lease r = Some l" "l \<in> stored f'" "good f'" "cl_holder l = aq_holder req"
      "cl_mode l = aq_mode req" "cl_scope l = normalize_lease_scope (aq_scope req)"
    | "\<not> lar_granted r" "lar_failure r = Some Fail_backend_unavailable" "good f'"
    | c where "\<not> lar_granted r" "lar_conflict r = Some c" "c \<in> stored f'" "lar_failure r = Some Fail_conflict" "good f'"
proof (cases "acquire_op req f")
  case (Inl e)
  with assms have "r = unavailable_result (Some (coordination_failure_cause e))" "f' = f" by (simp_all add: try_acquire_def)
  with assms that(2) show thesis by (simp add: unavailable_result_def)
next
  case (Inr p)
  with assms have a: "acquire_op req f = Inr (r, f')" by (cases p) (simp add: try_acquire_def)
  show thesis
  proof (cases "lar_granted r")
    case True
    then show thesis using granted [OF assms(1) a] kept [OF assms(1) a] that(1) by blast
  next
    case False
    then show thesis using refused [OF assms(1) a] kept [OF assms(1) a] that(2,3) by blast
  qed
qed

lemma arbitrate_outcome:
  assumes "good f" "arbitrate clock uuid acquire_op channel req f i = (Inr d, f', i')"
  shows "good f' \<and> (ad_launch_allowed d \<longleftrightarrow> ad_acquired d \<or> aq_mode req = Soft)
    \<and> (ad_acquired d \<longleftrightarrow> (\<exists>l \<in> stored f'. d = acquired_decision l \<and> cl_holder l = aq_holder req \<and> cl_mode l = aq_mode req
         \<and> cl_scope l = normalize_lease_scope (aq_scope req)))
    \<and> (la_status (ad_route_decision d) = Arb_blocked_hard_conflict \<longrightarrow>
         (\<exists>c \<in> stored f'. la_conflict_lease_id (ad_route_decision d) = Some (cl_lease_id c)))
    \<and> (ad_inbox_message d \<noteq> None \<longleftrightarrow>
         ar_send_yield_request req \<and> la_status (ad_route_decision d) = Arb_blocked_hard_conflict)
    \<and> (\<forall>m. ad_inbox_message d = Some m \<longrightarrow> (\<exists>c \<in> stored f'. mi_target_holder m = Some (cl_holder c)
         \<and> mi_lease_id m = Some (cl_lease_id c)))"
proof -
  obtain lease where lease: "create_lease_from_acquire_request clock uuid (lease_acquire_request.truncate req) = Inr lease"
    using assms(2) by (auto simp: arbitrate_def split: sum.splits)
  have l: "cl_mode lease = aq_mode req" "cl_holder lease = aq_holder req"
    "cl_scope lease = normalize_lease_scope (aq_scope req)"
    using create_leaseD [OF lease] by (simp_all add: lease_acquire_request.truncate_def)
  obtain r f1 where t: "try_acquire acquire_op (store_request lease (aq_now req)) f = (r, f1)" by fastforce
  note a = assms(2) [unfolded arbitrate_def lease t sum.case prod.case]
  note sets = acquired_decision_def refused_decision_def yield_message_def store_request_def
  from assms(1) t show ?thesis
  proof (cases rule: try_acquire_cases)
    case (1 l')
    then have d: "d = acquired_decision l'" "f1 = f'" using a by simp_all
    show ?thesis unfolding d(1) using 1 l d(2) by (auto simp: acquired_decision_def store_request_def intro!: bexI [of _ l'])
  next
    case 2
    then have d: "d = refused_decision Arb_coordination_unavailable lease None (cl_mode lease = Soft)
        (Some (or_else (lar_cause r) Cause_unavailable)) None None" "f1 = f'" using a by simp_all
    show ?thesis unfolding d(1) using 2 l d(2) by (simp add: refused_decision_def acquired_decision_def)
  next
    case (3 c)
    show ?thesis
    proof (cases "cl_mode lease")
      case Soft
      with 3 have d: "d = refused_decision Arb_soft_conflict lease (Some (cl_lease_id c)) True None None None" "f1 = f'"
        using a by simp_all
      show ?thesis unfolding d(1) using 3 l d(2) Soft by (simp add: refused_decision_def acquired_decision_def)
    next
      case Hard
      obtain n where d: "d = refused_decision Arb_blocked_hard_conflict lease (Some (cl_lease_id c)) False None
          (if ar_send_yield_request req then Some (yield_message req lease c) else None) n" "f1 = f'"
        using a 3 Hard by (cases "ar_send_yield_request req") (auto split: prod.splits)
      show ?thesis unfolding d(1) using 3 l d(2) Hard
        by (auto simp: refused_decision_def acquired_decision_def yield_message_def)
    qed
  qed
qed

lemma arbitrate_message:
  assumes "good f" "arbitrate clock uuid acquire_op channel req f i = (Inr d, f', i')"
  shows "(if ar_send_yield_request req \<and> la_status (ad_route_decision d) = Arb_blocked_hard_conflict
     then \<exists>lease c n. create_lease_from_acquire_request clock uuid (lease_acquire_request.truncate req) = Inr lease
       \<and> c \<in> stored f' \<and> la_conflict_lease_id (ad_route_decision d) = Some (cl_lease_id c)
       \<and> ad_inbox_message d = Some (yield_message req lease c)
       \<and> notify channel (yield_message req lease c) i = (n, i') \<and> ad_notification d = Some n
     else ad_inbox_message d = None \<and> ad_notification d = None \<and> i' = i)"
proof -
  obtain lease where lease: "create_lease_from_acquire_request clock uuid (lease_acquire_request.truncate req) = Inr lease"
    using assms(2) by (auto simp: arbitrate_def split: sum.splits)
  obtain r f1 where t: "try_acquire acquire_op (store_request lease (aq_now req)) f = (r, f1)" by fastforce
  note a = assms(2) [unfolded arbitrate_def lease t sum.case prod.case]
  from assms(1) t show ?thesis
  proof (cases rule: try_acquire_cases)
    case (1 l')
    with a show ?thesis by (auto simp: acquired_decision_def)
  next
    case 2
    with a show ?thesis by (auto simp: refused_decision_def)
  next
    case (3 c)
    show ?thesis
    proof (cases "cl_mode lease = Soft \<or> \<not> ar_send_yield_request req")
      case True
      with 3 a show ?thesis by (auto simp: refused_decision_def split: if_splits)
    next
      case False
      obtain n i1 where n: "notify channel (yield_message req lease c) i = (n, i1)" by fastforce
      with 3 a False have "d = refused_decision Arb_blocked_hard_conflict lease (Some (cl_lease_id c)) False None
          (Some (yield_message req lease c)) (Some n)" "i' = i1" "f' = f1" by simp_all
      with 3 False n show ?thesis using lease by (simp add: refused_decision_def) blast
    qed
  qed
qed

end

section \<open>The local store is a provider\<close>

interpretation local_store: lease_provider "acquire dt env" "\<lambda>f. set (obj_values (file_leases f))" lease_file_ok
  for dt env
proof (unfold_locales, goal_cases)
  case (1 f req r f')
  from acquire_preserves [OF 1(1,2)] have wf: "obj_wf (file_leases f')" by (rule lease_file_okD)
  from 1(2) lease_file_okD(1) [OF 1(1)] show ?case
  proof (rule acquire_cases)
    fix now lease st assume *: "acquire_outcome st lease r f'" "cl_mode lease = aq_mode req"
      "cl_scope lease = normalize_lease_scope (aq_scope req)" "cl_holder lease = aq_holder req"
    from *(1) show ?case
      by cases (use 1(3) * wf in \<open>auto simp: granted_result_def conflict_result_def obj_values_iff obj_get_set\<close>)
  qed
next
  case (2 f req r f')
  from acquire_preserves [OF 2(1,2)] have wf: "obj_wf (file_leases f')" by (rule lease_file_okD)
  from 2(2) lease_file_okD(1) [OF 2(1)] show ?case
  proof (rule acquire_cases)
    fix now lease st assume "acquire_outcome st lease r f'"
    then show ?case
      by cases (use 2(3) wf in \<open>auto simp: granted_result_def conflict_result_def obj_values_iff\<close>)
  qed
next
  case (3 f a b)
  note ok = lease_file_okD [OF 3(1)]
  obtain k k' where k: "obj_get (file_leases f) k = Some a" "obj_get (file_leases f) k' = Some b"
    using 3(2,3) obj_values_iff [OF ok(1)] by blast
  then have "k = k'" using ok(3) [OF k] 3(4) by blast
  with k show ?case by simp
next
  case (4 f req r f')
  then show ?case using acquire_preserves by blast
qed

section \<open>Properties\<close>

text \<open>C10: on every file the store can reach, arbitration lets a hard request launch only with its lease
  stored and no other stored hard lease on an overlapping scope; it never stops a soft request; and
  it fails only for an invalid request, whatever the store throws.\<close>

theorem arbitration_exclusive:
  assumes "lease_reachable dt f" "arbitrate clock uuid (acquire dt env) channel req f i = (res, f', i')"
  shows "(case res of
       Inl e \<Rightarrow> create_lease_from_acquire_request clock uuid (lease_acquire_request.truncate req) = Inl e \<and> f' = f
     | Inr d \<Rightarrow> (aq_mode req = Soft \<longrightarrow> ad_launch_allowed d)
        \<and> (aq_mode req = Hard \<longrightarrow> ad_launch_allowed d \<longrightarrow>
            (\<exists>l \<in> set (obj_values (file_leases f')). la_lease_id (ad_route_decision d) = Some (cl_lease_id l)
               \<and> cl_holder l = aq_holder req \<and> cl_mode l = Hard \<and> cl_scope l = normalize_lease_scope (aq_scope req)
               \<and> (\<forall>l' \<in> set (obj_values (file_leases f')). cl_mode l' = Hard
                    \<longrightarrow> lease_scopes_overlap (cl_scope l) (cl_scope l') \<longrightarrow> l' = l))))"
proof (cases res)
  case (Inl e)
  with assms(2) show ?thesis by (auto simp: arbitrate_def split: sum.splits prod.splits if_splits option.splits)
next
  case (Inr d)
  note ok = reachable_ok [OF assms(1)]
  note o = local_store.arbitrate_outcome [OF ok assms(2) [unfolded Inr]]
  show ?thesis
  proof (cases "aq_mode req")
    case Soft
    with o show ?thesis by (simp add: Inr)
  next
    case Hard
    have "\<exists>l \<in> set (obj_values (file_leases f')). la_lease_id (ad_route_decision d) = Some (cl_lease_id l)
        \<and> cl_holder l = aq_holder req \<and> cl_mode l = Hard \<and> cl_scope l = normalize_lease_scope (aq_scope req)
        \<and> (\<forall>l' \<in> set (obj_values (file_leases f')). cl_mode l' = Hard
             \<longrightarrow> lease_scopes_overlap (cl_scope l) (cl_scope l') \<longrightarrow> l' = l)"
      if launch: "ad_launch_allowed d"
    proof -
      have "ad_acquired d" using o [THEN conjunct2, THEN conjunct1] launch Hard by simp
      note acquired = o [THEN conjunct2, THEN conjunct2, THEN conjunct1, THEN iffD1, OF this]
      obtain l where l: "l \<in> set (obj_values (file_leases f'))" "d = acquired_decision l" "cl_holder l = aq_holder req"
        "cl_mode l = Hard" "cl_scope l = normalize_lease_scope (aq_scope req)"
        using acquired Hard by auto
      moreover have "l' = l" if "l' \<in> set (obj_values (file_leases f'))" "cl_mode l' = Hard"
          "lease_scopes_overlap (cl_scope l) (cl_scope l')" for l'
        using local_store.exclusive [of f' l l'] o [THEN conjunct1] l that by (simp add: hard_clash_def)
      ultimately show ?thesis using acquired_lease_id [of l] by blast
    qed
    with Hard show ?thesis by (simp add: Inr)
  qed
qed

definition demo_arbitration :: "string \<Rightarrow> string \<Rightarrow> string \<Rightarrow> arbitration_request" where
  "demo_arbitration i h p = lease_acquire_request.extend (demo_request i h p)
     (arbitration_request.fields ''t1'' True)"

definition open_inbox :: "arbiter_body inbox_rules" where
  "open_inbox = \<lparr>ir_datetime = \<lambda>_. True, ir_assert_inert = \<lambda>_. Inr (), ir_assert = \<lambda>_. Inr (), ir_project = Inr,
     ir_message_safe = \<lambda>_. True\<rparr>"

lemma demo_arbitration_acquired:
  "arbitrate ''2026-01-01T00:00:00Z'' ''u'' (acquire (\<lambda>_. True) demo_env) (None :: unit send_operation option)
     (demo_arbitration ''l2'' ''bob'' ''src/b'') demo_file1 ()
   = (Inr (acquired_decision (demo_lease ''l2'' ''bob'' ''src/b'')), demo_file2, ())"
  by code_simp

theorem arbitration_exclusive_witness:
  "ad_launch_allowed (acquired_decision (demo_lease ''l2'' ''bob'' ''src/b''))
   \<and> (\<exists>l \<in> set (obj_values (file_leases demo_file2)). cl_lease_id l = ''l2''
        \<and> (\<forall>l' \<in> set (obj_values (file_leases demo_file2)). cl_mode l' = Hard
             \<longrightarrow> lease_scopes_overlap (cl_scope l) (cl_scope l') \<longrightarrow> l' = l))"
proof -
  have "aq_mode (demo_arbitration ''l2'' ''bob'' ''src/b'') = Hard" by code_simp
  moreover have "ad_launch_allowed (acquired_decision (demo_lease ''l2'' ''bob'' ''src/b''))"
    "la_lease_id (ad_route_decision (acquired_decision (demo_lease ''l2'' ''bob'' ''src/b''))) = Some ''l2''"
    by code_simp+
  ultimately show ?thesis
    using arbitration_exclusive [OF demo_reachable(1) demo_arbitration_acquired] by auto
qed

definition yield_run :: "(thrown, arbitration_decision) result \<times> lease_file \<times> arbiter_body inbox_file" where
  "yield_run = arbitrate ''2026-01-01T00:00:00Z'' ''u'' (acquire (\<lambda>_. True) demo_env)
     (Some (inbox_send open_inbox (Some 1767225600000) ''m1''))
     (demo_arbitration ''l3'' ''carol'' ''src/b/x'') demo_file2 None"

lemma yield_run_sent: "case yield_run of (r, _) \<Rightarrow> \<not> isl r \<and> ar_send_yield_request (demo_arbitration ''l3'' ''carol'' ''src/b/x'')
    \<and> la_status (ad_route_decision (projr r)) = Arb_blocked_hard_conflict
    \<and> map_option nt_sent (ad_notification (projr r)) = Some True"
  by code_simp

text \<open>with the local inbox as channel, a request to yield is sent exactly when a hard request that
  asks for it is blocked, to the holder of a stored lease it clashes with; when the decision says
  that it was sent, the message is in the inbox, and in every other case the inbox is untouched.\<close>

theorem yield_request_delivered:
  assumes "lease_reachable dt f"
    and "arbitrate clock uuid (acquire dt env) (Some (inbox_send rules time mid)) req f i = (Inr d, f', i')"
  shows "(if ar_send_yield_request req \<and> la_status (ad_route_decision d) = Arb_blocked_hard_conflict
     then \<exists>m c n. ad_inbox_message d = Some m \<and> c \<in> set (obj_values (file_leases f'))
       \<and> mi_type m = Request_yield \<and> mi_sender m = aq_holder req
       \<and> mi_target_holder m = Some (cl_holder c) \<and> mi_lease_id m = Some (cl_lease_id c)
       \<and> ad_notification d = Some n
       \<and> (nt_sent n \<longrightarrow> (\<exists>st y msg. i' = Some st \<and> ir_project rules m = Inr y \<and> msg \<in> set (ib_messages st)
            \<and> cm_message_id msg = ''msg:'' @ mid \<and> cm_type msg = mi_type y \<and> cm_target_holder msg = mi_target_holder y
            \<and> cm_lease_id msg = mi_lease_id y \<and> cm_body msg = mi_body y))
     else ad_inbox_message d = None \<and> ad_notification d = None \<and> i' = i)"
proof (cases "ar_send_yield_request req \<and> la_status (ad_route_decision d) = Arb_blocked_hard_conflict")
  case False
  show ?thesis using local_store.arbitrate_message [OF reachable_ok [OF assms(1)] assms(2)]
    unfolding if_not_P [OF False] .
next
  case True
  then obtain lease c n where m: "create_lease_from_acquire_request clock uuid (lease_acquire_request.truncate req) = Inr lease"
    "c \<in> set (obj_values (file_leases f'))" "ad_inbox_message d = Some (yield_message req lease c)"
    "notify (Some (inbox_send rules time mid)) (yield_message req lease c) i = (n, i')" "ad_notification d = Some n"
    using local_store.arbitrate_message [OF reachable_ok [OF assms(1)] assms(2)] unfolding if_P [OF True] by blast
  have holder: "cl_holder lease = aq_holder req"
    using create_leaseD [OF m(1)] by (simp add: lease_acquire_request.truncate_def)
  have "\<exists>st y msg. i' = Some st \<and> ir_project rules (yield_message req lease c) = Inr y \<and> msg \<in> set (ib_messages st)
      \<and> cm_message_id msg = ''msg:'' @ mid \<and> cm_type msg = mi_type y \<and> cm_target_holder msg = mi_target_holder y
      \<and> cm_lease_id msg = mi_lease_id y \<and> cm_body msg = mi_body y" if sent: "nt_sent n"
  proof -
    obtain r where "inbox_send rules time mid (yield_message req lease c) i = (Inr r, i')"
      using m(4) sent by (auto simp: notify_def split: sum.splits prod.splits)
    then show ?thesis by (rule inbox_send_Inr) (use build_message_Inr in fastforce)
  qed
  moreover have "mi_type (yield_message req lease c) = Request_yield" "mi_sender (yield_message req lease c) = aq_holder req"
    "mi_target_holder (yield_message req lease c) = Some (cl_holder c)"
    "mi_lease_id (yield_message req lease c) = Some (cl_lease_id c)"
    by (simp_all add: yield_message_def holder)
  ultimately show ?thesis using m(2,3,5) unfolding if_P [OF True] by blast
qed

theorem yield_request_delivered_witness:
  "\<exists>d f' i' msg. yield_run = (Inr d, f', Some i') \<and> msg \<in> set (ib_messages i') \<and> cm_type msg = Request_yield
     \<and> cm_message_id msg = ''msg:m1'' \<and> (\<exists>c \<in> set (obj_values (file_leases f')). cm_target_holder msg = Some (cl_holder c))"
proof -
  obtain d f' i' where run: "yield_run = (Inr d, f', i')"
    and sent: "ar_send_yield_request (demo_arbitration ''l3'' ''carol'' ''src/b/x'')
      \<and> la_status (ad_route_decision d) = Arb_blocked_hard_conflict" "map_option nt_sent (ad_notification d) = Some True"
  proof -
    obtain r f' i' where run: "yield_run = (r, f', i')" by (cases yield_run) blast
    note sent = yield_run_sent [unfolded run prod.case]
    then obtain d where "r = Inr d" by (cases r) simp_all
    with run sent show thesis using that [of d f' i'] by simp
  qed
  have project: "ir_project open_inbox m = Inr y \<longleftrightarrow> y = m" for m y by (auto simp: open_inbox_def)
  show ?thesis
    using yield_request_delivered [OF demo_reachable(2) run [unfolded yield_run_def], unfolded if_P [OF sent(1)]] sent(2)
    unfolding project run by force
qed

end
