(* ===== verification/EventMapper.thy ===== *)
theory EventMapper
  imports RouteStore StateMachines JsString
begin

text \<open>
  The mapping of raw Omnigent stream events to runtime events
  (\<open>omnigent-transport/src/event-mapper.ts\<close>, class \<open>OmnigentEventMapper\<close>) and the schema every runtime
  event passes (\<open>core-contracts/src/events.ts\<close>). The object is the record \<open>event_mapper\<close>; a call of
  \<open>map\<close> returns a thrown value or the events, and the object after it, since a call that throws has
  already changed the object. A \<open>Map\<close> whose order nothing reads is a partial function.
\<close>

section \<open>The schema of runtime events\<close>

definition runtime_failure_ok :: "(string \<Rightarrow> bool) \<Rightarrow> runtime_failure \<Rightarrow> bool" where
  "runtime_failure_ok dt f \<longleftrightarrow> rf_message f \<noteq> []
     \<and> opt_all (\<lambda>x. case x of Fin q \<Rightarrow> q = of_int \<lfloor>q\<rfloor> \<and> 0 \<le> q | _ \<Rightarrow> False) (rf_retry_after_seconds f)
     \<and> opt_all dt (rf_reset_at f)"

fun event_payload_ok :: "(string \<Rightarrow> bool) \<Rightarrow> event_payload \<Rightarrow> bool" where
  "event_payload_ok dt (Session_created s title) \<longleftrightarrow> s \<in> {S_created, S_starting, S_idle, S_failed} \<and> title \<noteq> []"
| "event_payload_ok dt (Turn_started _ _) \<longleftrightarrow> True"
| "event_payload_ok dt (Text_delta _) \<longleftrightarrow> True"
| "event_payload_ok dt (Tool_call c) \<longleftrightarrow> tc_tool_call_id c \<noteq> [] \<and> tc_session_id c \<noteq> [] \<and> tc_turn_id c \<noteq> [] \<and> tc_tool_name c \<noteq> []"
| "event_payload_ok dt (Tool_result i _) \<longleftrightarrow> i \<noteq> []"
| "event_payload_ok dt (Approval_request i) \<longleftrightarrow> i \<noteq> []"
| "event_payload_ok dt (Limit_event c) \<longleftrightarrow> limit_classification_ok dt c"
| "event_payload_ok dt (Turn_completed s) \<longleftrightarrow> s \<noteq> Some []"
| "event_payload_ok dt (Turn_failed f) \<longleftrightarrow> runtime_failure_ok dt f"
| "event_payload_ok dt (Turn_cancelled r) \<longleftrightarrow> r \<noteq> Some []"
| "event_payload_ok dt (Turn_timed_out ms) \<longleftrightarrow> opt_all (\<lambda>n. 0 < n) ms"
| "event_payload_ok dt (Session_closed _) \<longleftrightarrow> True"
| "event_payload_ok dt (Heartbeat n) \<longleftrightarrow> 0 \<le> n"

definition runtime_event_ok :: "(string \<Rightarrow> bool) \<Rightarrow> runtime_event \<Rightarrow> bool" where
  "runtime_event_ok dt e \<longleftrightarrow> ev_event_id e \<noteq> [] \<and> 0 < ev_sequence e \<and> ev_session_id e \<noteq> []
     \<and> ev_turn_id e \<noteq> Some [] \<and> dt (ev_occurred_at e) \<and> event_payload_ok dt (ev_payload e)"

definition create_runtime_event :: "(string \<Rightarrow> bool) \<Rightarrow> runtime_event \<Rightarrow> (thrown, runtime_event) result" where
  "create_runtime_event dt e = (if runtime_event_ok dt e then Inr e else Inl Schema_error)"

section \<open>Raw events and the object\<close>

record event_failure =
  ef_category :: "failure_category option"
  ef_message :: string
  ef_status_code :: "int option"
  ef_retry_after_seconds :: "jsnum option"
  ef_reset_at :: "string option"

text \<open>The fields the mapper reads.\<close>

record raw_event =
  re_id :: string
  re_type :: string
  re_turn_id :: "string option"
  re_occurred_at :: string
  re_item_id :: "string option"
  re_turn_alias_id :: "string option"
  re_status :: "string option"
  re_reason :: "string option"
  re_call_id :: "string option"
  re_message :: "string option"
  re_message_id :: "string option"
  re_delta :: "string option"
  re_output_text :: "string option"
  re_failure :: "event_failure option"
  re_item :: "json_record option"

text \<open>A message of the history, with its identifier.\<close>

type_synonym historical_message = "string \<times> string"

record event_mapper =
  em_session_id :: string
  em_seen_item_ids :: "string set"
  em_started_turn_ids :: "string set"
  em_terminal_turn_ids :: "string set"
  em_text_by_message :: "string \<rightharpoonup> string"
  em_text_by_turn :: "string \<rightharpoonup> string"
  em_unidentified_text :: "string \<rightharpoonup> string"
  em_pending_messages :: "string \<rightharpoonup> string list"
  em_historical_messages :: "string \<rightharpoonup> historical_message list"
  em_historical_item_ids :: "string set"
  em_historical_text :: "string \<rightharpoonup> string"
  em_tool_call_ids :: "string set"
  em_tool_result_ids :: "string set"
  em_session_created :: bool
  em_legacy :: bool
  em_next_sequence :: int

record event_mapper_options =
  eo_historical_messages :: "string \<rightharpoonup> historical_message list"
  eo_historical_text_by_message :: "string \<rightharpoonup> string"
  eo_historical_tool_call_ids :: "string list"
  eo_historical_tool_result_ids :: "string list"
  eo_legacy :: bool
  eo_seen_item_ids :: "string list"
  eo_starting_sequence :: int
  eo_started_turn_ids :: "string list"
  eo_terminal_turn_ids :: "string list"

definition no_mapper_options :: event_mapper_options where
  "no_mapper_options = \<lparr>eo_historical_messages = Map.empty, eo_historical_text_by_message = Map.empty,
     eo_historical_tool_call_ids = [], eo_historical_tool_result_ids = [], eo_legacy = False,
     eo_seen_item_ids = [], eo_starting_sequence = 1, eo_started_turn_ids = [], eo_terminal_turn_ids = []\<rparr>"

definition new_event_mapper :: "string \<Rightarrow> event_mapper_options \<Rightarrow> event_mapper" where
  "new_event_mapper session o' = \<lparr>em_session_id = session, em_seen_item_ids = set (eo_seen_item_ids o'),
     em_started_turn_ids = set (eo_started_turn_ids o'), em_terminal_turn_ids = set (eo_terminal_turn_ids o'),
     em_text_by_message = Map.empty, em_text_by_turn = Map.empty, em_unidentified_text = Map.empty,
     em_pending_messages = Map.empty, em_historical_messages = eo_historical_messages o',
     em_historical_item_ids = set (eo_seen_item_ids o'), em_historical_text = eo_historical_text_by_message o',
     em_tool_call_ids = set (eo_historical_tool_call_ids o'), em_tool_result_ids = set (eo_historical_tool_result_ids o'),
     em_session_created = False, em_legacy = eo_legacy o', em_next_sequence = eo_starting_sequence o'\<rparr>"

type_synonym mapped = "(thrown, runtime_event list) result \<times> event_mapper"

definition silent :: "event_mapper \<Rightarrow> mapped" where
  "silent m = (Inr [], m)"

definition create_event :: "(string \<Rightarrow> bool) \<Rightarrow> string \<Rightarrow> string \<Rightarrow> event_payload \<Rightarrow> bool \<Rightarrow> string option \<Rightarrow> event_mapper \<Rightarrow> mapped" where
  "create_event dt event_id occurred_at payload terminal turn_id m =
     (case create_runtime_event dt \<lparr>ev_event_id = event_id, ev_sequence = em_next_sequence m,
             ev_session_id = em_session_id m, ev_turn_id = turn_id, ev_occurred_at = occurred_at,
             ev_payload = payload, ev_terminal = terminal\<rparr> of
        Inl e \<Rightarrow> (Inl e, m)
      | Inr e \<Rightarrow> (Inr [e], m\<lparr>em_next_sequence := em_next_sequence m + 1\<rparr>))"

section \<open>The cases\<close>

definition session_created_state :: "raw_event \<Rightarrow> agent_session_state" where
  "session_created_state r =
     (if re_status r = Some ''failed'' then S_failed
      else if re_status r = Some ''launching'' \<or> re_status r = Some ''running'' then S_starting
      else if re_type r = ''session.created'' then S_created else S_idle)"

definition default_turn_message :: "raw_event \<Rightarrow> string" where
  "default_turn_message r = or_else (re_message r) (''Omnigent turn '' @ or_else (re_turn_id r) ''unknown'')"

definition block_text :: "json \<Rightarrow> string" where
  "block_text b = (case b of J_obj r \<Rightarrow> or_else (field_text r ''text'') [] | _ \<Rightarrow> [])"

definition assistant_item_text :: "json_record \<Rightarrow> string" where
  "assistant_item_text item =
     (if field_text item ''role'' \<noteq> Some ''assistant'' then []
      else case field_array item ''content'' of None \<Rightarrow> [] | Some blocks \<Rightarrow> concat (map block_text blocks))"

text \<open>\<open>x ? f(x) : d\<close> on an optional string: an empty one counts as absent.\<close>

definition present_text :: "string option \<Rightarrow> string option" where
  "present_text x = (if x = Some [] then None else x)"

definition find_index :: "('a \<Rightarrow> bool) \<Rightarrow> 'a list \<Rightarrow> nat option" where
  "find_index p xs = map_option fst (List.find (\<lambda>(i, x). p x) (enumerate 0 xs))"

definition remove_nth :: "nat \<Rightarrow> 'a list \<Rightarrow> 'a list" where
  "remove_nth i xs = take i xs @ drop (Suc i) xs"

text \<open>The index of the historical message that an incoming message repeats.\<close>

definition compatible_index :: "string \<Rightarrow> string \<Rightarrow> historical_message list \<Rightarrow> nat option" where
  "compatible_index mid delta hs =
     or_opt (find_index (\<lambda>(i, t). i = mid) hs)
    (or_opt (find_index (\<lambda>(i, t). delta \<noteq> [] \<and> t = delta) hs)
     (find_index (\<lambda>(i, t). delta \<noteq> [] \<and> (starts_with delta t \<or> ends_with delta t)) hs))"

text \<open>Takes the historical message of a turn out of the map; the text it leaves is what remains.\<close>

definition claim_history :: "string \<Rightarrow> string \<Rightarrow> string \<Rightarrow> event_mapper \<Rightarrow> event_mapper" where
  "claim_history mid turn delta m =
     (let hs = or_else (em_historical_messages m turn) [] in
      case compatible_index mid delta hs of
        None \<Rightarrow> m
      | Some i \<Rightarrow>
          let hs' = remove_nth i hs;
              m1 = m\<lparr>em_historical_messages := (em_historical_messages m)(turn := if hs' = [] then None else Some hs')\<rparr>
          in if em_historical_text m mid = None
             then m1\<lparr>em_historical_text := (em_historical_text m)(mid \<mapsto> snd (hs ! i))\<rparr> else m1)"

text \<open>The part of a delta that was not in the history: \<open>None\<close> when all of it was.\<close>

definition new_delta :: "string \<Rightarrow> string \<Rightarrow> event_mapper \<Rightarrow> string option \<times> event_mapper" where
  "new_delta mid delta m = (case em_historical_text m mid of
       None \<Rightarrow> (Some delta, m)
     | Some remaining \<Rightarrow>
         if delta \<noteq> [] \<and> starts_with delta remaining
         then (None, m\<lparr>em_historical_text := (em_historical_text m)(mid :=
                 (if drop (length delta) remaining = [] then None else Some (drop (length delta) remaining)))\<rparr>)
         else if delta \<noteq> [] \<and> map_option (\<lambda>i. i + length delta) (index_of_text delta remaining) = Some (length remaining)
         then (None, m\<lparr>em_historical_text := (em_historical_text m)(mid := None)\<rparr>)
         else let m1 = m\<lparr>em_historical_text := (em_historical_text m)(mid := None)\<rparr> in
              if starts_with remaining delta
              then (if drop (length remaining) delta = [] then (None, m1) else (Some (drop (length remaining) delta), m1))
              else (Some delta, m1))"

definition append_text :: "(string \<rightharpoonup> string) \<Rightarrow> string \<Rightarrow> string \<Rightarrow> (string \<rightharpoonup> string)" where
  "append_text f k delta = f(k \<mapsto> or_else (f k) [] @ delta)"

text \<open>The bookkeeping of a delta that is emitted.\<close>

definition record_message_text :: "string \<Rightarrow> string option \<Rightarrow> string \<Rightarrow> event_mapper \<Rightarrow> event_mapper" where
  "record_message_text mid turn delta m =
     (let m1 = m\<lparr>em_text_by_message := append_text (em_text_by_message m) mid delta\<rparr> in
      case turn of
        None \<Rightarrow> m1
      | Some t \<Rightarrow> let p = or_else (em_pending_messages m t) [] in
          if mid \<in> set p then m1 else m1\<lparr>em_pending_messages := (em_pending_messages m)(t \<mapsto> p @ [mid])\<rparr>)"

definition record_turn_text :: "string option \<Rightarrow> string \<Rightarrow> string \<Rightarrow> event_mapper \<Rightarrow> event_mapper" where
  "record_turn_text mid turn delta m =
     (let m1 = m\<lparr>em_text_by_turn := append_text (em_text_by_turn m) turn delta\<rparr> in
      if mid = None then m1\<lparr>em_unidentified_text := append_text (em_unidentified_text m) turn delta\<rparr> else m1)"

definition record_text :: "string option \<Rightarrow> string option \<Rightarrow> string \<Rightarrow> event_mapper \<Rightarrow> event_mapper" where
  "record_text mid turn delta m =
     (let m1 = (case mid of None \<Rightarrow> m | Some i \<Rightarrow> record_message_text i turn delta m)
      in case turn of None \<Rightarrow> m1 | Some t \<Rightarrow> record_turn_text mid t delta m1)"

definition map_text_delta :: "(string \<Rightarrow> bool) \<Rightarrow> raw_event \<Rightarrow> event_mapper \<Rightarrow> mapped" where
  "map_text_delta dt r m =
     (let delta = or_else (re_delta r) []; mid = present_text (re_message_id r); turn = present_text (re_turn_id r)
      in case (case mid of
             None \<Rightarrow> (Some delta, m)
           | Some i \<Rightarrow> new_delta i delta (case turn of None \<Rightarrow> m | Some t \<Rightarrow> claim_history i t delta m)) of
           (None, m1) \<Rightarrow> silent m1
         | (Some d, m1) \<Rightarrow> create_event dt (re_id r) (re_occurred_at r) (Text_delta d) False (re_turn_id r)
             (record_text mid turn d m1))"

text \<open>The text of a finished message that was already emitted, and its place among the pending ones.\<close>

definition pending_index :: "string option \<Rightarrow> string \<Rightarrow> string \<Rightarrow> event_mapper \<Rightarrow> nat option" where
  "pending_index mid turn text m =
     (let pend = or_else (em_pending_messages m turn) [] in
      if Option.bind mid (em_text_by_message m) \<noteq> None then find_index (\<lambda>p. p = or_else mid []) pend
      else find_index (\<lambda>p. let pt = or_else (em_text_by_message m p) [] in
             pt \<noteq> [] \<and> (starts_with pt text \<or> starts_with text pt)) pend)"

definition emitted_text :: "string option \<Rightarrow> string \<Rightarrow> string \<Rightarrow> event_mapper \<Rightarrow> string" where
  "emitted_text mid turn text m = (case mid of
       None \<Rightarrow> or_else (em_text_by_turn m turn) []
     | Some i \<Rightarrow> or_else (or_opt (em_text_by_message m i)
         (or_opt (case pending_index mid turn text m of None \<Rightarrow> None
                  | Some n \<Rightarrow> em_text_by_message m (or_else (em_pending_messages m turn) [] ! n))
           (em_unidentified_text m turn))) [])"

definition rest_of_text :: "string \<Rightarrow> string \<Rightarrow> string" where
  "rest_of_text emitted text =
     (if starts_with emitted text then drop (length emitted) text else if starts_with text emitted then [] else text)"

definition finish_message :: "string option \<Rightarrow> string \<Rightarrow> string \<Rightarrow> event_mapper \<Rightarrow> event_mapper" where
  "finish_message mid turn text m =
     (let m1 = (case pending_index mid turn text m of
            None \<Rightarrow> m
          | Some n \<Rightarrow> let p = remove_nth n (or_else (em_pending_messages m turn) []) in
              m\<lparr>em_pending_messages := (em_pending_messages m)(turn := if p = [] then None else Some p)\<rparr>)
      in case mid of None \<Rightarrow> m1
         | Some i \<Rightarrow> m1\<lparr>em_text_by_message := (em_text_by_message m1)(i \<mapsto> text),
                       em_unidentified_text := (em_unidentified_text m1)(turn := None)\<rparr>)"

definition map_message_item :: "(string \<Rightarrow> bool) \<Rightarrow> raw_event \<Rightarrow> string \<Rightarrow> json_record \<Rightarrow> event_mapper \<Rightarrow> mapped" where
  "map_message_item dt r turn item m =
     (let text = assistant_item_text item; mid = present_text (field_text item ''id'')
      in if text = [] then silent m
         else let delta = rest_of_text (emitted_text mid turn text m) text; m1 = finish_message mid turn text m
           in if delta = [] then silent m1
              else create_event dt (re_id r @ '':text'') (re_occurred_at r) (Text_delta delta) False (re_turn_id r)
                (m1\<lparr>em_text_by_turn := append_text (em_text_by_turn m1) turn delta\<rparr>))"

definition item_call_id :: "raw_event \<Rightarrow> json_record \<Rightarrow> string option" where
  "item_call_id r item = present_text (or_opt (field_text item ''call_id'') (re_call_id r))"

definition map_tool_call :: "(string \<Rightarrow> bool) \<Rightarrow> raw_event \<Rightarrow> string \<Rightarrow> json_record \<Rightarrow> event_mapper \<Rightarrow> mapped" where
  "map_tool_call dt r turn item m = (case (item_call_id r item, present_text (field_text item ''name'')) of
       (Some c, Some name) \<Rightarrow>
         if c \<in> em_tool_call_ids m then silent m
         else create_event dt (re_id r) (re_occurred_at r)
           (Tool_call \<lparr>tc_tool_call_id = c, tc_session_id = em_session_id m, tc_turn_id = turn, tc_tool_name = name,
              tc_arguments = map_of item ''arguments'', tc_approval_required = False\<rparr>)
           False (re_turn_id r) (m\<lparr>em_tool_call_ids := insert c (em_tool_call_ids m)\<rparr>)
     | _ \<Rightarrow> silent m)"

definition map_tool_result :: "(string \<Rightarrow> bool) \<Rightarrow> raw_event \<Rightarrow> json_record \<Rightarrow> event_mapper \<Rightarrow> mapped" where
  "map_tool_result dt r item m = (case item_call_id r item of
       None \<Rightarrow> silent m
     | Some c \<Rightarrow>
         if c \<in> em_tool_result_ids m then silent m
         else create_event dt (re_id r) (re_occurred_at r) (Tool_result c (map_of item ''output'')) False (re_turn_id r)
           (m\<lparr>em_tool_result_ids := insert c (em_tool_result_ids m)\<rparr>))"

definition map_output_item :: "(string \<Rightarrow> bool) \<Rightarrow> raw_event \<Rightarrow> event_mapper \<Rightarrow> mapped" where
  "map_output_item dt r m = (case (re_item r, present_text (re_turn_id r)) of
       (Some item, Some turn) \<Rightarrow>
         let ty = field_text item ''type'' in
         if ty = Some ''message'' then map_message_item dt r turn item m
         else if ty = Some ''function_call'' then map_tool_call dt r turn item m
         else if ty = Some ''function_call_output'' then map_tool_result dt r item m
         else silent m
     | _ \<Rightarrow> silent m)"

text \<open>A terminal event of a turn, once per turn and per alias of it.\<close>

definition map_terminal :: "(string \<Rightarrow> bool) \<Rightarrow> raw_event \<Rightarrow> event_payload \<Rightarrow> event_mapper \<Rightarrow> mapped" where
  "map_terminal dt r payload m = (case present_text (re_turn_id r) of
       None \<Rightarrow> silent m
     | Some t \<Rightarrow>
         let m1 = m\<lparr>em_terminal_turn_ids := insert t (em_terminal_turn_ids m)\<rparr> in
         if t \<in> em_terminal_turn_ids m \<or> (case re_turn_alias_id r of None \<Rightarrow> False | Some a \<Rightarrow> a \<in> em_terminal_turn_ids m)
         then silent m1
         else create_event dt (re_id r) (re_occurred_at r) payload True (re_turn_id r) m1)"

definition mapped_failure :: "raw_event \<Rightarrow> runtime_failure" where
  "mapped_failure r =
     (let category = or_else (Option.bind (re_failure r) ef_category) Backend_unavailable in
      \<lparr>rf_category = category, rf_retryable = (category \<noteq> Backend_capability_missing), rf_actor = Omnigent,
       rf_scope = Scope_turn,
       rf_message = or_else (or_opt (map_option ef_message (re_failure r)) (re_reason r)) ''Omnigent reported a terminal failure.'',
       rf_retry_after_seconds = Option.bind (re_failure r) ef_retry_after_seconds,
       rf_reset_at = Option.bind (re_failure r) ef_reset_at\<rparr>)"

definition map_failed_event :: "(string \<Rightarrow> bool) \<Rightarrow> raw_event \<Rightarrow> event_mapper \<Rightarrow> mapped" where
  "map_failed_event dt r m = map_terminal dt r (Turn_failed (mapped_failure r)) m"

definition map_session_created :: "(string \<Rightarrow> bool) \<Rightarrow> raw_event \<Rightarrow> event_mapper \<Rightarrow> mapped" where
  "map_session_created dt r m =
     (if \<not> em_legacy m \<or> em_session_created m then silent m
      else create_event dt (re_id r) (re_occurred_at r)
        (Session_created (session_created_state r) (or_else (re_message r) ''Omnigent session'')) False None
        (m\<lparr>em_session_created := True\<rparr>))"

definition map_turn_started :: "(string \<Rightarrow> bool) \<Rightarrow> raw_event \<Rightarrow> event_mapper \<Rightarrow> mapped" where
  "map_turn_started dt r m = (case present_text (re_turn_id r) of
       None \<Rightarrow> silent m
     | Some t \<Rightarrow>
         if t \<in> em_started_turn_ids m then silent m
         else create_event dt (re_id r) (re_occurred_at r) (Turn_started (default_turn_message r) T_running) False
           (re_turn_id r) (m\<lparr>em_started_turn_ids := insert t (em_started_turn_ids m)\<rparr>))"

definition reason_includes :: "string \<Rightarrow> raw_event \<Rightarrow> bool" where
  "reason_includes p r = (case re_reason r of None \<Rightarrow> False | Some s \<Rightarrow> str_includes p s)"

section \<open>The mapping\<close>

definition map_by_type :: "(string \<Rightarrow> bool) \<Rightarrow> raw_event \<Rightarrow> event_mapper \<Rightarrow> mapped" where
  "map_by_type dt r m =
     (let ty = re_type r in
      if ty = ''session.created'' then map_session_created dt r m
      else if ty = ''turn.started'' \<or> ty = ''response.created'' then map_turn_started dt r m
      else if ty = ''response.output_text.delta'' then map_text_delta dt r m
      else if ty = ''response.output_item.done'' then map_output_item dt r m
      else if ty = ''response.completed'' \<or> ty = ''turn.completed'' then map_terminal dt r (Turn_completed (re_output_text r)) m
      else if ty = ''response.cancelled'' \<or> ty = ''turn.cancelled'' then map_terminal dt r (Turn_cancelled (re_reason r)) m
      else if ty = ''response.incomplete''
      then (if reason_includes ''interrupt'' r then map_terminal dt r (Turn_cancelled (re_reason r)) m
            else if reason_includes ''timeout'' r then map_terminal dt r (Turn_timed_out None) m
            else map_failed_event dt r m)
      else if ty = ''response.failed'' \<or> ty = ''turn.failed'' then map_failed_event dt r m
      else if ty = ''session.status'' \<and> re_status r = Some ''failed'' then map_failed_event dt r m
      else silent m)"

definition ignored_type :: "string \<Rightarrow> bool" where
  "ignored_type ty \<longleftrightarrow> ty = ''response.elicitation_resolved'' \<or> ty = ''session.permission_mode'' \<or> ty = ''session.title''"

definition item_key :: "raw_event \<Rightarrow> string option" where
  "item_key r = present_text (Some (or_else (re_item_id r) (re_id r)))"

definition map_event :: "(string \<Rightarrow> bool) \<Rightarrow> raw_event \<Rightarrow> event_mapper \<Rightarrow> mapped" where
  "map_event dt r m =
     (if ignored_type (re_type r) then silent m
      else if (case present_text (re_item_id r) of None \<Rightarrow> False | Some i \<Rightarrow> i \<in> em_historical_item_ids m) then silent m
      else case item_key r of
          None \<Rightarrow> map_by_type dt r m
        | Some k \<Rightarrow> if k \<in> em_seen_item_ids m then silent m
            else map_by_type dt r (m\<lparr>em_seen_item_ids := insert k (em_seen_item_ids m)\<rparr>))"

text \<open>\<open>mapOmnigentEventSequence\<close>: the first call that throws ends it.\<close>

fun map_events :: "(string \<Rightarrow> bool) \<Rightarrow> raw_event list \<Rightarrow> event_mapper \<Rightarrow> mapped" where
  "map_events dt [] m = (Inr [], m)"
| "map_events dt (r # rs) m = (case map_event dt r m of
       (Inl e, m1) \<Rightarrow> (Inl e, m1)
     | (Inr es, m1) \<Rightarrow> (case map_events dt rs m1 of (Inl e, m2) \<Rightarrow> (Inl e, m2) | (Inr es', m2) \<Rightarrow> (Inr (es @ es'), m2)))"

definition map_omnigent_event_sequence :: "(string \<Rightarrow> bool) \<Rightarrow> string \<Rightarrow> raw_event list \<Rightarrow> event_mapper_options
    \<Rightarrow> (thrown, runtime_event list) result" where
  "map_omnigent_event_sequence dt session rs o' = fst (map_events dt rs (new_event_mapper session o'))"

end
