(* ===== verification/EventMapperProperties.thy ===== *)
theory EventMapperProperties
  imports EventMapper
begin

text \<open>
  What a mapper guarantees of the events it returns, whatever the stream delivers: they pass the
  schema and carry consecutive sequence numbers, a turn ends and starts at most once and a tool is
  called and answers at most once per call, and an item delivered again changes nothing.
\<close>

section \<open>One step\<close>

fun once_key :: "event_payload \<Rightarrow> string option \<Rightarrow> (nat \<times> string) option" where
  "once_key (Turn_started _ _) t = map_option (Pair 0) t"
| "once_key (Tool_call c) t = Some (1, tc_tool_call_id c)"
| "once_key (Tool_result c _) t = Some (2, c)"
| "once_key p t = (if terminal_payload p then map_option (Pair 3) t else None)"

definition event_once_key :: "runtime_event \<Rightarrow> (nat \<times> string) option" where
  "event_once_key e = once_key (ev_payload e) (ev_turn_id e)"

text \<open>The keys a mapper will not emit again.\<close>

definition used_keys :: "event_mapper \<Rightarrow> (nat \<times> string) set" where
  "used_keys m = Pair 0 ` em_started_turn_ids m \<union> Pair 1 ` em_tool_call_ids m
     \<union> Pair 2 ` em_tool_result_ids m \<union> Pair 3 ` em_terminal_turn_ids m"

definition good_event :: "(string \<Rightarrow> bool) \<Rightarrow> event_mapper \<Rightarrow> runtime_event \<Rightarrow> bool" where
  "good_event dt m e \<longleftrightarrow> runtime_event_ok dt e \<and> ev_session_id e = em_session_id m
     \<and> ev_sequence e = em_next_sequence m \<and> (terminal_payload (ev_payload e) \<longleftrightarrow> ev_terminal e)
     \<and> (ev_terminal e \<longrightarrow> ev_turn_id e \<noteq> None)"

definition same_frame :: "event_mapper \<Rightarrow> event_mapper \<Rightarrow> bool" where
  "same_frame m m' \<longleftrightarrow> em_session_id m' = em_session_id m \<and> used_keys m \<subseteq> used_keys m'
     \<and> em_historical_item_ids m' = em_historical_item_ids m"

definition step_ok :: "(string \<Rightarrow> bool) \<Rightarrow> event_mapper \<Rightarrow> mapped \<Rightarrow> bool" where
  "step_ok dt m out \<longleftrightarrow> same_frame m (snd out) \<and> em_seen_item_ids (snd out) = em_seen_item_ids m \<and>
     (\<forall>es. fst out = Inr es \<longrightarrow>
        (es = [] \<and> em_next_sequence (snd out) = em_next_sequence m) \<or>
        (\<exists>e. es = [e] \<and> good_event dt m e \<and> em_next_sequence (snd out) = em_next_sequence m + 1 \<and>
             (\<forall>k. event_once_key e = Some k \<longrightarrow> k \<notin> used_keys m \<and> k \<in> used_keys (snd out))))"

lemma used_keys_mem [simp]:
  "(0, x) \<in> used_keys m \<longleftrightarrow> x \<in> em_started_turn_ids m"
  "(Suc 0, x) \<in> used_keys m \<longleftrightarrow> x \<in> em_tool_call_ids m"
  "(1, x) \<in> used_keys m \<longleftrightarrow> x \<in> em_tool_call_ids m"
  "(2, x) \<in> used_keys m \<longleftrightarrow> x \<in> em_tool_result_ids m"
  "(3, x) \<in> used_keys m \<longleftrightarrow> x \<in> em_terminal_turn_ids m"
  by (auto simp: used_keys_def)

lemma used_keys_update [simp]:
  "used_keys (m\<lparr>em_seen_item_ids := a\<rparr>) = used_keys m" "used_keys (m\<lparr>em_text_by_message := b\<rparr>) = used_keys m"
  "used_keys (m\<lparr>em_text_by_turn := b\<rparr>) = used_keys m" "used_keys (m\<lparr>em_unidentified_text := b\<rparr>) = used_keys m"
  "used_keys (m\<lparr>em_pending_messages := c\<rparr>) = used_keys m" "used_keys (m\<lparr>em_historical_messages := d\<rparr>) = used_keys m"
  "used_keys (m\<lparr>em_historical_text := b\<rparr>) = used_keys m" "used_keys (m\<lparr>em_session_created := e\<rparr>) = used_keys m"
  "used_keys (m\<lparr>em_next_sequence := n\<rparr>) = used_keys m"
  by (simp_all add: used_keys_def)

lemma used_keys_insert [simp]:
  "used_keys (m\<lparr>em_started_turn_ids := insert t (em_started_turn_ids m)\<rparr>) = insert (0, t) (used_keys m)"
  "used_keys (m\<lparr>em_tool_call_ids := insert t (em_tool_call_ids m)\<rparr>) = insert (1, t) (used_keys m)"
  "used_keys (m\<lparr>em_tool_result_ids := insert t (em_tool_result_ids m)\<rparr>) = insert (2, t) (used_keys m)"
  "used_keys (m\<lparr>em_terminal_turn_ids := insert t (em_terminal_turn_ids m)\<rparr>) = insert (3, t) (used_keys m)"
  by (auto simp: used_keys_def)

lemma step_ok_silent: "same_frame m m' \<Longrightarrow> em_seen_item_ids m' = em_seen_item_ids m \<Longrightarrow>
    em_next_sequence m' = em_next_sequence m \<Longrightarrow> step_ok dt m (silent m')"
  by (simp add: step_ok_def silent_def)

lemma step_ok_create:
  assumes "same_frame m m1" "em_seen_item_ids m1 = em_seen_item_ids m" "em_next_sequence m1 = em_next_sequence m"
    "terminal_payload p \<longleftrightarrow> term" "term \<Longrightarrow> t \<noteq> None"
    "\<And>k. once_key p t = Some k \<Longrightarrow> k \<notin> used_keys m \<and> k \<in> used_keys m1"
  shows "step_ok dt m (create_event dt i oa p term t m1)"
  using assms
  by (auto simp: step_ok_def create_event_def create_runtime_event_def same_frame_def good_event_def
      event_once_key_def split: sum.splits if_splits)

lemma same_frame_refl [simp]: "same_frame m m"
  by (simp add: same_frame_def)

lemma same_frame_text [simp]:
  "same_frame m (m\<lparr>em_text_by_message := a\<rparr>) " "same_frame m (m\<lparr>em_text_by_turn := a\<rparr>)"
  "same_frame m (m\<lparr>em_unidentified_text := a\<rparr>)" "same_frame m (m\<lparr>em_pending_messages := b\<rparr>)"
  "same_frame m (m\<lparr>em_session_created := c\<rparr>)"
  by (simp_all add: same_frame_def)

lemma present_text_Some: "present_text x = Some t \<Longrightarrow> x = Some t"
  by (simp add: present_text_def split: if_splits)

text \<open>The fields the text bookkeeping leaves alone.\<close>

definition text_only :: "event_mapper \<Rightarrow> event_mapper \<Rightarrow> bool" where
  "text_only m m' \<longleftrightarrow> same_frame m m' \<and> em_seen_item_ids m' = em_seen_item_ids m
     \<and> em_next_sequence m' = em_next_sequence m \<and> used_keys m' = used_keys m"

lemma text_only_claim: "text_only m (claim_history i t d m)"
  by (simp add: text_only_def claim_history_def same_frame_def Let_def split: option.split)

lemma text_only_delta: "text_only m (snd (new_delta i d m))"
  by (simp add: text_only_def new_delta_def same_frame_def Let_def split: option.split)

lemma text_only_record: "text_only m (record_text i t d m)"
  by (simp add: text_only_def record_text_def record_message_text_def record_turn_text_def same_frame_def Let_def split: option.split)

lemma text_only_finish: "text_only m (finish_message i t x m)"
  by (simp add: text_only_def finish_message_def same_frame_def Let_def split: option.split)

lemma text_only_trans: "text_only a b \<Longrightarrow> text_only b c \<Longrightarrow> text_only a c"
  by (simp add: text_only_def same_frame_def)

lemma text_only_refl: "text_only m m"
  by (simp add: text_only_def)

lemma step_ok_text_only:
  assumes "text_only m m1"
  shows "step_ok dt m (silent m1)" "step_ok dt m (create_event dt i oa (Text_delta d) False t m1)"
  using assms by (auto simp: text_only_def intro!: step_ok_silent step_ok_create)

lemma step_text_delta: "step_ok dt m (map_text_delta dt r m)"
proof -
  define d where "d = or_else (re_delta r) []"
  define mid where "mid = present_text (re_message_id r)"
  define turn where "turn = present_text (re_turn_id r)"
  obtain x m1 where x: "(case mid of None \<Rightarrow> (Some d, m)
      | Some i \<Rightarrow> new_delta i d (case turn of None \<Rightarrow> m | Some t \<Rightarrow> claim_history i t d m)) = (x, m1)" by (rule prod.exhaust)
  have m1: "text_only m m1"
  proof (cases mid)
    case (Some i)
    define m0 where "m0 = (case turn of None \<Rightarrow> m | Some t \<Rightarrow> claim_history i t d m)"
    have "text_only m m0" by (simp add: m0_def text_only_claim text_only_refl split: option.split)
    moreover have "m1 = snd (new_delta i d m0)" using x Some by (simp add: m0_def)
    ultimately show ?thesis using text_only_trans text_only_delta by blast
  qed (use x in \<open>simp add: text_only_refl\<close>)
  show ?thesis
    unfolding map_text_delta_def Let_def d_def [symmetric] mid_def [symmetric] turn_def [symmetric] x
    using m1 text_only_trans [OF m1 text_only_record] by (simp add: step_ok_text_only split: option.split)
qed

lemma step_message_item: "step_ok dt m (map_message_item dt r turn item m)"
proof -
  have "text_only m (finish_message i turn x m\<lparr>em_text_by_turn := a\<rparr>)" for i x a
    using text_only_finish [of m i turn x] by (simp add: text_only_def same_frame_def)
  then show ?thesis
    by (simp add: map_message_item_def Let_def step_ok_text_only text_only_finish text_only_refl)
qed

lemma step_tool_call: "step_ok dt m (map_tool_call dt r turn item m)"
proof -
  have "step_ok dt m (create_event dt i oa (Tool_call \<lparr>tc_tool_call_id = c, tc_session_id = s, tc_turn_id = u,
      tc_tool_name = n, tc_arguments = a, tc_approval_required = False\<rparr>) False t
      (m\<lparr>em_tool_call_ids := insert c (em_tool_call_ids m)\<rparr>))" if "c \<notin> em_tool_call_ids m" for i oa c s u n a t
    by (rule step_ok_create) (use that in \<open>auto simp: same_frame_def\<close>)
  then show ?thesis by (simp add: map_tool_call_def step_ok_silent split: option.split)
qed

lemma step_tool_result: "step_ok dt m (map_tool_result dt r item m)"
proof -
  have "step_ok dt m (create_event dt i oa (Tool_result c a) False t
      (m\<lparr>em_tool_result_ids := insert c (em_tool_result_ids m)\<rparr>))" if "c \<notin> em_tool_result_ids m" for i oa c a t
    by (rule step_ok_create) (use that in \<open>auto simp: same_frame_def\<close>)
  then show ?thesis by (simp add: map_tool_result_def step_ok_silent split: option.split)
qed

lemma step_output_item: "step_ok dt m (map_output_item dt r m)"
  by (simp add: map_output_item_def Let_def step_message_item step_tool_call step_tool_result step_ok_silent
      split: option.split)

lemma once_key_terminal: "terminal_payload p \<Longrightarrow> once_key p t = map_option (Pair 3) t"
  by (cases p) auto

lemma step_terminal:
  assumes "terminal_payload p"
  shows "step_ok dt m (map_terminal dt r p m)"
proof (cases "present_text (re_turn_id r)")
  case (Some t)
  let ?m = "m\<lparr>em_terminal_turn_ids := insert t (em_terminal_turn_ids m)\<rparr>"
  have fr: "same_frame m ?m" by (auto simp: same_frame_def)
  have "step_ok dt m (create_event dt (re_id r) (re_occurred_at r) p True (re_turn_id r) ?m)" if "t \<notin> em_terminal_turn_ids m"
    by (rule step_ok_create) (use that fr present_text_Some [OF Some] assms in \<open>auto simp: once_key_terminal\<close>)
  then show ?thesis using Some fr by (simp add: map_terminal_def Let_def step_ok_silent split: option.split)
qed (simp add: map_terminal_def step_ok_silent)

lemma step_turn_started: "step_ok dt m (map_turn_started dt r m)"
proof (cases "present_text (re_turn_id r)")
  case (Some t)
  have "step_ok dt m (create_event dt (re_id r) (re_occurred_at r) (Turn_started x T_running) False (re_turn_id r)
      (m\<lparr>em_started_turn_ids := insert t (em_started_turn_ids m)\<rparr>))" if "t \<notin> em_started_turn_ids m" for x
    by (rule step_ok_create) (use that present_text_Some [OF Some] in \<open>auto simp: same_frame_def\<close>)
  then show ?thesis using Some by (simp add: map_turn_started_def step_ok_silent)
qed (simp add: map_turn_started_def step_ok_silent)

lemma step_session_created: "step_ok dt m (map_session_created dt r m)"
  by (auto simp: map_session_created_def intro!: step_ok_silent step_ok_create)

lemma step_by_type: "step_ok dt m (map_by_type dt r m)"
  by (simp add: map_by_type_def Let_def step_session_created step_turn_started step_text_delta step_output_item
      step_terminal map_failed_event_def step_ok_silent)

section \<open>Whole streams\<close>

text \<open>\<open>map_event\<close>, with the item registered before the case of its type is run.\<close>

lemma map_event_step:
  assumes "map_event dt r m = (res, m')"
  shows "same_frame m m'"
    and "res = Inr es \<Longrightarrow> (es = [] \<and> em_next_sequence m' = em_next_sequence m) \<or>
        (\<exists>e. es = [e] \<and> good_event dt m e \<and> em_next_sequence m' = em_next_sequence m + 1 \<and>
             (\<forall>k. event_once_key e = Some k \<longrightarrow> k \<notin> used_keys m \<and> k \<in> used_keys m'))"
proof -
  let ?G = "\<lambda>m0. same_frame m m' \<and> (\<forall>es. res = Inr es \<longrightarrow> (es = [] \<and> em_next_sequence m' = em_next_sequence m) \<or>
        (\<exists>e. es = [e] \<and> good_event dt m e \<and> em_next_sequence m' = em_next_sequence m + 1 \<and>
             (\<forall>k. event_once_key e = Some k \<longrightarrow> k \<notin> used_keys m \<and> k \<in> used_keys m')))"
  have by_type: "?G m" if "map_by_type dt r (m\<lparr>em_seen_item_ids := K\<rparr>) = (res, m')" for K
    using step_by_type [of dt "m\<lparr>em_seen_item_ids := K\<rparr>" r] unfolding that
    by (auto simp: step_ok_def same_frame_def good_event_def)
  have plain: "?G m" if "map_by_type dt r m = (res, m')"
    using by_type [of "em_seen_item_ids m"] that by simp
  have "?G m"
    using assms by_type plain unfolding map_event_def silent_def by (auto split: if_splits option.splits)
  then show "same_frame m m'"
    and "res = Inr es \<Longrightarrow> (es = [] \<and> em_next_sequence m' = em_next_sequence m) \<or>
        (\<exists>e. es = [e] \<and> good_event dt m e \<and> em_next_sequence m' = em_next_sequence m + 1 \<and>
             (\<forall>k. event_once_key e = Some k \<longrightarrow> k \<notin> used_keys m \<and> k \<in> used_keys m'))" by blast+
qed

lemma map_events_ConsE:
  assumes "map_events dt (r # rs) m = (Inr es, m')"
  obtains es1 m1 es2 where "map_event dt r m = (Inr es1, m1)" "map_events dt rs m1 = (Inr es2, m')" "es = es1 @ es2"
  using assms by (auto split: prod.splits sum.splits)

lemma map_events_typed:
  "map_events dt rs m = (Inr es, m') \<Longrightarrow>
    (\<forall>e \<in> set es. runtime_event_ok dt e \<and> ev_session_id e = em_session_id m
        \<and> (terminal_payload (ev_payload e) \<longleftrightarrow> ev_terminal e) \<and> (ev_terminal e \<longrightarrow> ev_turn_id e \<noteq> None))
    \<and> map ev_sequence es = [em_next_sequence m .. em_next_sequence m' - 1] \<and> em_next_sequence m \<le> em_next_sequence m'
    \<and> em_session_id m' = em_session_id m"
proof (induction rs arbitrary: m es)
  case (Cons r rs)
  obtain es1 m1 es2 where s: "map_event dt r m = (Inr es1, m1)" "map_events dt rs m1 = (Inr es2, m')" "es = es1 @ es2"
    using Cons.prems by (rule map_events_ConsE)
  note IH = Cons.IH [OF s(2)] and st = map_event_step [OF s(1)]
  have id: "em_session_id m1 = em_session_id m" using st(1) by (simp add: same_frame_def)
  consider "es1 = []" "em_next_sequence m1 = em_next_sequence m"
    | e where "es1 = [e]" "good_event dt m e" "em_next_sequence m1 = em_next_sequence m + 1" using st(2) [OF refl] by blast
  then show ?case
  proof cases
    case 1 then show ?thesis using IH id s(3) by simp
  next
    case 2 then show ?thesis using IH id s(3) by (auto simp: good_event_def upto_rec1)
  qed
qed simp

lemma map_events_once:
  "map_events dt rs m = (Inr es, m') \<Longrightarrow>
    distinct (List.map_filter event_once_key es) \<and> set (List.map_filter event_once_key es) \<inter> used_keys m = {}
    \<and> used_keys m \<union> set (List.map_filter event_once_key es) \<subseteq> used_keys m'"
proof (induction rs arbitrary: m es)
  case (Cons r rs)
  obtain es1 m1 es2 where s: "map_event dt r m = (Inr es1, m1)" "map_events dt rs m1 = (Inr es2, m')" "es = es1 @ es2"
    using Cons.prems by (rule map_events_ConsE)
  note IH = Cons.IH [OF s(2)] and st = map_event_step [OF s(1)]
  have keys: "used_keys m \<subseteq> used_keys m1" using st(1) by (simp add: same_frame_def)
  consider "es1 = []" | e where "es1 = [e]" "event_once_key e = None"
    | e k where "es1 = [e]" "event_once_key e = Some k" "k \<notin> used_keys m" "k \<in> used_keys m1"
    using st(2) [OF refl] by (metis option.exhaust)
  then show ?case
    using IH keys s(3) by cases (auto simp: map_filter_simps)
qed (simp add: map_filter_simps)

section \<open>Redelivery\<close>

text \<open>The stream without what was seen before: the first delivery of every item, and without the
  types the mapper ignores.\<close>

fun first_deliveries :: "string set \<Rightarrow> raw_event list \<Rightarrow> raw_event list" where
  "first_deliveries seen [] = []"
| "first_deliveries seen (r # rs) =
     (if ignored_type (re_type r) then first_deliveries seen rs
      else case item_key r of
          None \<Rightarrow> r # first_deliveries seen rs
        | Some k \<Rightarrow> if k \<in> seen then first_deliveries seen rs else r # first_deliveries (insert k seen) rs)"

lemma item_key_item_id: "present_text (re_item_id r) = Some i \<Longrightarrow> item_key r = Some i"
  by (cases "re_item_id r") (auto simp: item_key_def present_text_def or_else_def split: if_splits)

lemma map_by_type_seen: "em_seen_item_ids (snd (map_by_type dt r m)) = em_seen_item_ids m"
  using step_by_type [of dt m r] by (simp add: step_ok_def)

lemma map_event_cases:
  assumes "em_historical_item_ids m \<subseteq> em_seen_item_ids m"
  shows "ignored_type (re_type r) \<Longrightarrow> map_event dt r m = silent m"
    and "item_key r = Some k \<Longrightarrow> k \<in> em_seen_item_ids m \<Longrightarrow> map_event dt r m = silent m"
    and "\<not> ignored_type (re_type r) \<Longrightarrow> item_key r = None \<Longrightarrow> em_seen_item_ids (snd (map_event dt r m)) = em_seen_item_ids m"
    and "\<not> ignored_type (re_type r) \<Longrightarrow> item_key r = Some k \<Longrightarrow> k \<notin> em_seen_item_ids m \<Longrightarrow>
      em_seen_item_ids (snd (map_event dt r m)) = insert k (em_seen_item_ids m)"
proof -
  have h: "(case present_text (re_item_id r) of None \<Rightarrow> False | Some i \<Rightarrow> i \<in> em_historical_item_ids m) = False"
    if "item_key r = None \<or> (\<exists>k. item_key r = Some k \<and> k \<notin> em_seen_item_ids m)"
    using that assms item_key_item_id [of r] by (cases "present_text (re_item_id r)") auto
  show "ignored_type (re_type r) \<Longrightarrow> map_event dt r m = silent m"
    and "item_key r = Some k \<Longrightarrow> k \<in> em_seen_item_ids m \<Longrightarrow> map_event dt r m = silent m"
    by (simp_all add: map_event_def)
  show "\<not> ignored_type (re_type r) \<Longrightarrow> item_key r = None \<Longrightarrow> em_seen_item_ids (snd (map_event dt r m)) = em_seen_item_ids m"
    using h by (simp add: map_event_def map_by_type_seen)
  show "\<not> ignored_type (re_type r) \<Longrightarrow> item_key r = Some k \<Longrightarrow> k \<notin> em_seen_item_ids m \<Longrightarrow>
      em_seen_item_ids (snd (map_event dt r m)) = insert k (em_seen_item_ids m)"
    using h by (simp add: map_event_def map_by_type_seen)
qed

lemma map_events_first_deliveries:
  "em_historical_item_ids m \<subseteq> em_seen_item_ids m \<Longrightarrow>
    map_events dt (first_deliveries (em_seen_item_ids m) rs) m = map_events dt rs m"
proof (induction rs arbitrary: m)
  case (Cons r rs)
  note c = map_event_cases [OF Cons.prems, of r]
  have skip: "map_events dt (r # rs) m = map_events dt rs m" if "map_event dt r m = silent m"
    using that by (simp add: silent_def split: prod.split sum.split)
  have keep: "map_events dt (r # first_deliveries S rs) m = map_events dt (r # rs) m"
    if "em_seen_item_ids (snd (map_event dt r m)) = S" "em_seen_item_ids m \<subseteq> S" for S
  proof (cases "map_event dt r m")
    case (Pair res m1)
    then have "em_historical_item_ids m1 \<subseteq> em_seen_item_ids m1"
      using map_event_step(1) [OF Pair] Cons.prems that by (auto simp: same_frame_def)
    then show ?thesis using Cons.IH [of m1] that Pair by (simp split: sum.split)
  qed
  show ?case
  proof (cases "ignored_type (re_type r)")
    case True then show ?thesis using skip c(1) Cons.IH [OF Cons.prems] by (simp del: map_events.simps)
  next
    case ign: False
    show ?thesis
    proof (cases "item_key r")
      case None then show ?thesis using ign keep c(3) by (simp del: map_events.simps)
    next
      case (Some k)
      then show ?thesis using ign keep [OF c(4) [OF ign Some]] skip [OF c(2) [OF Some]] Cons.IH [OF Cons.prems]
        by (simp add: subset_insertI del: map_events.simps)
    qed
  qed
qed simp

section \<open>Properties\<close>

lemma new_event_mapper_fields:
  "em_session_id (new_event_mapper s o') = s" "em_next_sequence (new_event_mapper s o') = eo_starting_sequence o'"
  "em_seen_item_ids (new_event_mapper s o') = set (eo_seen_item_ids o')"
  "em_historical_item_ids (new_event_mapper s o') = set (eo_seen_item_ids o')"
  "used_keys (new_event_mapper s o') = Pair 0 ` set (eo_started_turn_ids o') \<union> Pair 1 ` set (eo_historical_tool_call_ids o')
     \<union> Pair 2 ` set (eo_historical_tool_result_ids o') \<union> Pair 3 ` set (eo_terminal_turn_ids o')"
  by (simp_all add: new_event_mapper_def used_keys_def)

lemma sequence_InrE:
  assumes "map_omnigent_event_sequence dt s rs o' = Inr es"
  obtains m' where "map_events dt rs (new_event_mapper s o') = (Inr es, m')"
  using assms by (cases "map_events dt rs (new_event_mapper s o')") (auto simp: map_omnigent_event_sequence_def)

lemma keyed_once: "distinct (List.map_filter f xs) \<Longrightarrow> length (filter (\<lambda>x. f x = Some k) xs) \<le> 1"
proof (induction xs)
  case (Cons x xs)
  have "filter (\<lambda>x. f x = Some k) xs = []" if "f x = Some k" "k \<notin> set (List.map_filter f xs)"
    using that by (auto simp: filter_empty_conv map_filter_def image_iff)
  then show ?case using Cons by (cases "f x") (auto simp: map_filter_simps)
qed simp

lemma filter_length_mono: "(\<And>x. x \<in> set xs \<Longrightarrow> P x \<Longrightarrow> Q x) \<Longrightarrow> length (filter P xs) \<le> length (filter Q xs)"
  by (induction xs) (auto intro: le_SucI)

lemma single_terminal_of_keys:
  assumes "distinct (List.map_filter event_once_key es)"
  shows "require_single_terminal_event (filter (\<lambda>e. ev_turn_id e = Some t) es) = None"
proof -
  have "length (filter (\<lambda>e. terminal_payload (ev_payload e)) (filter (\<lambda>e. ev_turn_id e = Some t) es))
      = length (filter (\<lambda>e. ev_turn_id e = Some t \<and> terminal_payload (ev_payload e)) es)" by simp
  also have "\<dots> \<le> length (filter (\<lambda>e. event_once_key e = Some (3, t)) es)"
    by (rule filter_length_mono) (auto simp: event_once_key_def once_key_terminal)
  also have "\<dots> \<le> 1" by (rule keyed_once [OF assms])
  finally show ?thesis by (simp add: require_single_terminal_event_def)
qed

text \<open>C23: Every event of a mapped stream passes the schema and belongs to the session, it is marked
  terminal exactly when its type ends a turn and then it names the turn, and the sequence numbers run
  from the starting one without a gap.\<close>

theorem event_stream_typed:
  assumes "map_omnigent_event_sequence dt session rs o' = Inr es"
  shows "(\<forall>e \<in> set es. runtime_event_ok dt e \<and> ev_session_id e = session
        \<and> (terminal_payload (ev_payload e) \<longleftrightarrow> ev_terminal e) \<and> (ev_terminal e \<longrightarrow> ev_turn_id e \<noteq> None))
      \<and> map ev_sequence es = [eo_starting_sequence o' .. eo_starting_sequence o' + int (length es) - 1]"
proof -
  obtain m' where m: "map_events dt rs (new_event_mapper session o') = (Inr es, m')" using assms by (rule sequence_InrE)
  note t = map_events_typed [OF m, unfolded new_event_mapper_fields]
  have q: "map ev_sequence es = [eo_starting_sequence o'..em_next_sequence m' - 1]" "eo_starting_sequence o' \<le> em_next_sequence m'"
    using t by blast+
  have "length es = nat (em_next_sequence m' - eo_starting_sequence o')"
    using arg_cong [OF q(1), of length] by simp
  then have "em_next_sequence m' = eo_starting_sequence o' + int (length es)" using q(2) by simp
  then show ?thesis using t by simp
qed

text \<open>C12: However often the stream repeats itself, a turn starts and ends at most once in the mapped
  events and a tool call and its result appear at most once; none of them repeats what the options
  say was seen before, and the check for several terminal events never fails on the events of a turn.\<close>

theorem events_once:
  assumes "map_omnigent_event_sequence dt session rs o' = Inr es"
  shows "distinct (List.map_filter event_once_key es)
    \<and> (\<forall>t. require_single_terminal_event (filter (\<lambda>e. ev_turn_id e = Some t) es) = None)
    \<and> set (List.map_filter event_once_key es) \<inter> (Pair 0 ` set (eo_started_turn_ids o')
        \<union> Pair 1 ` set (eo_historical_tool_call_ids o') \<union> Pair 2 ` set (eo_historical_tool_result_ids o')
        \<union> Pair 3 ` set (eo_terminal_turn_ids o')) = {}"
proof -
  obtain m' where m: "map_events dt rs (new_event_mapper session o') = (Inr es, m')" using assms by (rule sequence_InrE)
  note o = map_events_once [OF m, unfolded new_event_mapper_fields]
  show ?thesis using conjunct1 [OF o] conjunct1 [OF conjunct2 [OF o]] by (simp add: single_terminal_of_keys)
qed

text \<open>C22: Mapping a stream in which items are delivered again gives what mapping the first delivery of
  every item gives, the thrown value included.\<close>

theorem redelivery_silent:
  "map_omnigent_event_sequence dt session rs o' =
   map_omnigent_event_sequence dt session (first_deliveries (set (eo_seen_item_ids o')) rs) o'"
  using map_events_first_deliveries [of "new_event_mapper session o'"]
  by (simp add: map_omnigent_event_sequence_def new_event_mapper_fields)

section \<open>A stream\<close>

definition example_raw :: "string \<Rightarrow> string \<Rightarrow> raw_event" where
  "example_raw i ty = \<lparr>re_id = i, re_type = ty, re_turn_id = Some ''t'', re_occurred_at = ''now'', re_item_id = None,
     re_turn_alias_id = None, re_status = None, re_reason = None, re_call_id = None, re_message = None,
     re_message_id = Some ''m'', re_delta = Some ''hi'', re_output_text = Some ''hi'', re_failure = None, re_item = None\<rparr>"

definition example_stream :: "raw_event list" where
  "example_stream = [example_raw ''1'' ''turn.started'', example_raw ''2'' ''response.output_text.delta'',
     example_raw ''2'' ''response.output_text.delta'', example_raw ''3'' ''response.completed'', example_raw ''4'' ''turn.completed'']"

definition example_event :: "string \<Rightarrow> int \<Rightarrow> event_payload \<Rightarrow> bool \<Rightarrow> runtime_event" where
  "example_event i n p term = \<lparr>ev_event_id = i, ev_sequence = n, ev_session_id = ''s'', ev_turn_id = Some ''t'',
     ev_occurred_at = ''now'', ev_payload = p, ev_terminal = term\<rparr>"

definition example_events :: "runtime_event list" where
  "example_events = [example_event ''1'' 1 (Turn_started ''Omnigent turn t'' T_running) False,
     example_event ''2'' 2 (Text_delta ''hi'') False, example_event ''3'' 3 (Turn_completed (Some ''hi'')) True]"

lemma example_mapped:
  "map_omnigent_event_sequence (\<lambda>x. x = ''now'') ''s'' example_stream no_mapper_options = Inr example_events"
  by code_simp

theorem event_stream_typed_witness:
  "map ev_sequence example_events = [1 .. 1 + int (length example_events) - 1]"
  using event_stream_typed [OF example_mapped] by (simp add: no_mapper_options_def)

theorem events_once_witness:
  "distinct (List.map_filter event_once_key example_events)
    \<and> require_single_terminal_event (filter (\<lambda>e. ev_turn_id e = Some ''t'') example_events) = None"
  using events_once [OF example_mapped] by blast

end
