(* ===== verification/TruncatedJson.thy ===== *)
theory TruncatedJson
  imports JsString
begin

text \<open>
  The recogniser of truncated JSON (\<open>truncatedJson\<close> of \<open>state-ledger/src/ledger-snapshot.ts\<close>), by
  which the reader of the ledger tells a torn write from corruption. A text is the list of its
  UTF-8 bytes; the recogniser treats every character outside ASCII alike, so bytes serve as well.
\<close>

section \<open>Tokens\<close>

definition code_of :: "char \<Rightarrow> nat" where
  "code_of c = of_char c"

definition json_blank_char :: "char \<Rightarrow> bool" where
  "json_blank_char c \<longleftrightarrow> code_of c \<in> {9, 10, 13, 32}"

definition json_digit :: "char \<Rightarrow> bool" where
  "json_digit c \<longleftrightarrow> 48 \<le> code_of c \<and> code_of c \<le> 57"

definition json_hex :: "char \<Rightarrow> bool" where
  "json_hex c \<longleftrightarrow> json_digit c \<or> (97 \<le> code_of c \<and> code_of c \<le> 102) \<or> (65 \<le> code_of c \<and> code_of c \<le> 70)"

definition quote_char :: char where "quote_char = CHR 0x22"

definition escape_char :: char where "escape_char = CHR 0x5C"

definition simple_escape :: "char \<Rightarrow> bool" where
  "simple_escape e \<longleftrightarrow> e = quote_char \<or> e = escape_char \<or> e \<in> set ''/bfnrt''"

datatype string_scan = Scan_complete string | Scan_partial | Scan_ascii_partial | Scan_invalid

text \<open>The scan of a string after its opening quote; the number counts the hexadecimal digits of an
  escape that are still to come.\<close>

fun scan_string :: "nat \<Rightarrow> string \<Rightarrow> string_scan" where
  "scan_string (Suc n) [] = Scan_ascii_partial"
| "scan_string (Suc n) (c # s) = (if json_hex c then scan_string n s else Scan_invalid)"
| "scan_string 0 [] = Scan_partial"
| "scan_string 0 (c # s) =
     (if c = quote_char then Scan_complete s
      else if code_of c < 32 then Scan_invalid
      else if c \<noteq> escape_char then scan_string 0 s
      else case s of
          [] \<Rightarrow> Scan_ascii_partial
        | e # s' \<Rightarrow>
            if simple_escape e then scan_string 0 s'
            else if e = CHR ''u'' then scan_string 4 s' else Scan_invalid)"

definition string_truncated :: "bool \<Rightarrow> string_scan \<Rightarrow> bool" where
  "string_truncated incomplete r \<longleftrightarrow> r = Scan_partial \<or> (r = Scan_ascii_partial \<and> \<not> incomplete)"

definition number_char :: "char \<Rightarrow> bool" where
  "number_char c \<longleftrightarrow> json_digit c \<or> c \<in> set ''.eE+-''"

text \<open>The regular expressions of a number: each part is matched from the left and the rest returned.\<close>

definition drop_minus :: "string \<Rightarrow> string" where
  "drop_minus s = (case s of [] \<Rightarrow> [] | c # r \<Rightarrow> if c = CHR ''-'' then r else s)"

definition drop_sign :: "string \<Rightarrow> string" where
  "drop_sign s = (case s of [] \<Rightarrow> [] | c # r \<Rightarrow> if c = CHR ''-'' \<or> c = CHR ''+'' then r else s)"

definition number_int :: "string \<Rightarrow> string option" where
  "number_int s = (case s of [] \<Rightarrow> None | c # r \<Rightarrow>
     if c = CHR ''0'' then Some r else if json_digit c then Some (dropWhile json_digit r) else None)"

definition number_fraction :: "string \<Rightarrow> string option" where
  "number_fraction s = (case s of [] \<Rightarrow> Some s | c # r \<Rightarrow>
     if c \<noteq> CHR ''.'' then Some s
     else case r of [] \<Rightarrow> None | d # r' \<Rightarrow> if json_digit d then Some (dropWhile json_digit r') else None)"

definition exponent_char :: "char \<Rightarrow> bool" where
  "exponent_char c \<longleftrightarrow> c = CHR ''e'' \<or> c = CHR ''E''"

definition full_number :: "string \<Rightarrow> bool" where
  "full_number s = (case Option.bind (number_int (drop_minus s)) number_fraction of
       None \<Rightarrow> False
     | Some [] \<Rightarrow> True
     | Some (c # r) \<Rightarrow> exponent_char c \<and> drop_sign r \<noteq> [] \<and> list_all json_digit (drop_sign r))"

definition partial_number :: "string \<Rightarrow> bool" where
  "partial_number s = (s = ''-'' \<or> number_int (drop_minus s) = Some ''.''
     \<or> (case Option.bind (number_int (drop_minus s)) number_fraction of
          None \<Rightarrow> False
        | Some [] \<Rightarrow> False
        | Some (c # r) \<Rightarrow> exponent_char c \<and> (r = [] \<or> r = ''+'' \<or> r = ''-'')))"

section \<open>The recogniser\<close>

datatype frame_kind = F_root | F_array | F_object

datatype frame_state = Want_value | Value_or_end | Want_key | Key_or_end | Want_colon | Want_comma | At_end

type_synonym frame = "frame_kind \<times> frame_state"

definition closing :: "frame_kind \<Rightarrow> char" where
  "closing k = (if k = F_array then CHR '']'' else CHR ''}'')"

definition after_value :: "frame_kind \<Rightarrow> frame_state" where
  "after_value k = (if k = F_root then At_end else Want_comma)"

definition after_comma :: "frame_kind \<Rightarrow> frame_state" where
  "after_comma k = (if k = F_array then Want_value else Want_key)"

definition opened_frame :: "char \<Rightarrow> frame" where
  "opened_frame c = (if c = CHR ''{'' then (F_object, Key_or_end) else (F_array, Value_or_end))"

definition json_literal :: "char \<Rightarrow> string" where
  "json_literal c = (if c = CHR ''t'' then ''true'' else if c = CHR ''f'' then ''false'' else ''null'')"

lemma scan_string_length: "scan_string n s = Scan_complete r \<Longrightarrow> length r < length s"
  by (induction n s rule: scan_string.induct) (auto split: if_splits list.splits)

function truncated_run :: "bool \<Rightarrow> frame list \<Rightarrow> string \<Rightarrow> bool" where
  "truncated_run incomplete frames [] \<longleftrightarrow> \<not> incomplete \<and> (1 < length frames \<or> snd (last frames) \<noteq> At_end)"
| "truncated_run incomplete frames (c # s) \<longleftrightarrow>
     (if json_blank_char c then truncated_run incomplete frames s
      else case frames of
        [] \<Rightarrow> False
      | (k, st) # fs \<Rightarrow>
          if st = At_end then False
          else if st = Want_colon then (if c = CHR '':'' then truncated_run incomplete ((k, Want_value) # fs) s else False)
          else if st = Want_comma then
            (if c = closing k then truncated_run incomplete fs s
             else if c \<noteq> CHR '','' then False
             else truncated_run incomplete ((k, after_comma k) # fs) s)
          else if (st = Key_or_end \<or> st = Value_or_end) \<and> c = closing k then truncated_run incomplete fs s
          else if st = Want_key \<or> st = Key_or_end then
            (if c \<noteq> quote_char then False
             else case scan_string 0 s of
                 Scan_complete s' \<Rightarrow> truncated_run incomplete ((k, Want_colon) # fs) s'
               | r \<Rightarrow> string_truncated incomplete r)
          else if c = CHR ''{'' \<or> c = CHR ''['' then truncated_run incomplete (opened_frame c # (k, after_value k) # fs) s
          else if c = quote_char then
            (case scan_string 0 s of
                 Scan_complete s' \<Rightarrow> truncated_run incomplete ((k, after_value k) # fs) s'
               | r \<Rightarrow> string_truncated incomplete r)
          else if c \<in> set ''tfn'' then
            (if \<not> starts_with (take (length (json_literal c)) (c # s)) (json_literal c) then False
             else if length (c # s) < length (json_literal c) then \<not> incomplete
             else truncated_run incomplete ((k, after_value k) # fs) (drop (length (json_literal c)) (c # s)))
          else if c = CHR ''-'' \<or> json_digit c then
            (if full_number (c # takeWhile number_char s)
             then truncated_run incomplete ((k, after_value k) # fs) (dropWhile number_char s)
             else \<not> incomplete \<and> dropWhile number_char s = [] \<and> partial_number (c # takeWhile number_char s))
          else False)"
  by pat_completeness auto

termination
proof (relation "measure (\<lambda>(i, fs, s). length s)"; clarsimp)
  show "scan_string 0 s = Scan_complete s' \<Longrightarrow> length s' < Suc (length s)" for s s'
    using scan_string_length by fastforce
  show "scan_string 0 s = Scan_complete s' \<Longrightarrow> length s' < Suc (length s)" for s s'
    using scan_string_length by fastforce
  show "length (dropWhile number_char s) < Suc (length s)" for s
    using length_dropWhile_le [of number_char s] by simp
qed (auto simp: json_literal_def)

definition truncated_json :: "bool \<Rightarrow> string \<Rightarrow> bool" where
  "truncated_json incomplete text = truncated_run incomplete [(F_root, Want_value)] text"

end
