(* ===== verification/LedgerSnapshot.thy ===== *)
theory LedgerSnapshot
  imports TruncatedJson LedgerScope Json
begin

text \<open>
  Reading the ledger (\<open>state-ledger/src/ledger-snapshot.ts\<close>) and its manifest (\<open>migrations.ts\<close>,
  \<open>schema.ts\<close>). The ledger file is a list of bytes. \<open>JSON.parse\<close>, the schema of a record and
  \<open>JSON.stringify\<close> of a record are the fields of \<open>ledger_codec\<close>; texts are UTF-8 bytes. The manifest
  file is the value it parses to, with its size.
\<close>

section \<open>Errors\<close>

datatype read_code = Ledger_corruption | Unsupported_schema | Snapshot_limit | Incomplete_snapshot

datatype ledger_error = Read_error read_code "nat option" | Other_error thrown

section \<open>Decoding UTF-8\<close>

text \<open>The number of bytes that follow a lead byte, and the bounds of the first of them.\<close>

definition utf8_lead :: "nat \<Rightarrow> (nat \<times> nat \<times> nat) option" where
  "utf8_lead n = (if 194 \<le> n \<and> n \<le> 223 then Some (1, 128, 191)
     else if n = 224 then Some (2, 160, 191)
     else if n = 237 then Some (2, 128, 159)
     else if 225 \<le> n \<and> n \<le> 239 then Some (2, 128, 191)
     else if n = 240 then Some (3, 144, 191)
     else if 241 \<le> n \<and> n \<le> 243 then Some (3, 128, 191)
     else if n = 244 then Some (3, 128, 143)
     else None)"

text \<open>The decoder: the bytes of whole characters, and whether the input ends inside one; \<open>None\<close> when
  the input is malformed.\<close>

fun utf8_run :: "(nat \<times> nat \<times> nat) option \<Rightarrow> string \<Rightarrow> string \<Rightarrow> (string \<times> bool) option" where
  "utf8_run None pending [] = Some ([], False)"
| "utf8_run (Some _) pending [] = Some ([], True)"
| "utf8_run None pending (b # bs) =
     (if code_of b < 128 then map_option (apfst (Cons b)) (utf8_run None [] bs)
      else case utf8_lead (code_of b) of None \<Rightarrow> None | Some st \<Rightarrow> utf8_run (Some st) [b] bs)"
| "utf8_run (Some (n, lo, hi)) pending (b # bs) =
     (if lo \<le> code_of b \<and> code_of b \<le> hi
      then if n \<le> 1 then map_option (apfst (\<lambda>t. pending @ b # t)) (utf8_run None [] bs)
           else utf8_run (Some (n - 1, 128, 191)) (pending @ [b]) bs
      else None)"

definition byte_order_mark :: string where
  "byte_order_mark = [CHR 0xEF, CHR 0xBB, CHR 0xBF]"

definition strip_mark :: "string \<Rightarrow> string" where
  "strip_mark t = (if starts_with byte_order_mark t then drop 3 t else t)"

definition decode_stream :: "string \<Rightarrow> (string \<times> bool) option" where
  "decode_stream bytes = map_option (apfst strip_mark) (utf8_run None [] bytes)"

definition decode_text :: "string \<Rightarrow> string option" where
  "decode_text bytes = (case decode_stream bytes of Some (t, False) \<Rightarrow> Some t | _ \<Rightarrow> None)"

text \<open>The white space \<open>trim\<close> removes, at the front of a text of UTF-8 bytes.\<close>

fun blank_text :: "string \<Rightarrow> bool" where
  "blank_text (a # b # c # s) \<longleftrightarrow>
     (if code_of a = 32 \<or> (9 \<le> code_of a \<and> code_of a \<le> 13) then blank_text (b # c # s)
      else if code_of a = 194 \<and> code_of b = 160 then blank_text (c # s)
      else ((code_of a = 239 \<and> code_of b = 187 \<and> code_of c = 191)
         \<or> (code_of a = 225 \<and> code_of b = 154 \<and> code_of c = 128)
         \<or> (code_of a = 226 \<and> code_of b = 128 \<and> (code_of c \<le> 138 \<or> code_of c \<in> {168, 169, 175}))
         \<or> (code_of a = 226 \<and> code_of b = 129 \<and> code_of c = 159)
         \<or> (code_of a = 227 \<and> code_of b = 128 \<and> code_of c = 128)) \<and> blank_text s)"
| "blank_text [a, b] \<longleftrightarrow> (code_of a = 194 \<and> code_of b = 160) \<or>
     ((code_of a = 32 \<or> (9 \<le> code_of a \<and> code_of a \<le> 13)) \<and> (code_of b = 32 \<or> (9 \<le> code_of b \<and> code_of b \<le> 13)))"
| "blank_text [a] \<longleftrightarrow> code_of a = 32 \<or> (9 \<le> code_of a \<and> code_of a \<le> 13)"
| "blank_text [] \<longleftrightarrow> True"

section \<open>Records\<close>

record ledger_codec =
  co_parse :: "string \<Rightarrow> json option"
  co_schema :: "json \<Rightarrow> ledger_record option"
  co_render :: "ledger_record \<Rightarrow> string"

definition current_schema_version :: int where
  "current_schema_version = 1"

text \<open>\<open>json.schemaVersion > CURRENT_STATE_LEDGER_SCHEMA_VERSION\<close>, where it is a number.\<close>

definition newer_schema :: "json \<Rightarrow> bool" where
  "newer_schema j = (case j of J_obj r \<Rightarrow> (case map_of r ''schemaVersion'' of
       Some (J_num (Fin q)) \<Rightarrow> of_int current_schema_version < q
     | Some (J_num PosInf) \<Rightarrow> True
     | _ \<Rightarrow> False) | _ \<Rightarrow> False)"

datatype record_failure = Failed_read read_code nat | Failed_syntax | Failed_scope

type_synonym seen_records = "int \<times> string set"

definition parse_record :: "ledger_codec \<Rightarrow> string \<Rightarrow> nat \<Rightarrow> seen_records \<Rightarrow> record_failure + ledger_record \<times> seen_records" where
  "parse_record co text start seen = (case co_parse co text of
       None \<Rightarrow> Inl Failed_syntax
     | Some j \<Rightarrow>
         if newer_schema j then Inl (Failed_read Unsupported_schema start)
         else case co_schema co j of
             None \<Rightarrow> Inl (Failed_read Ledger_corruption start)
           | Some r \<Rightarrow>
               if lr_schema_version r \<noteq> current_schema_version \<or> max_safe < \<bar>lr_sequence r\<bar>
                  \<or> lr_sequence r \<le> fst seen \<or> lr_record_id r \<in> snd seen
               then Inl (Failed_read Ledger_corruption start)
               else case normalize_ledger_scope r of
                   Inl _ \<Rightarrow> Inl Failed_scope
                 | Inr r' \<Rightarrow> Inr (r', lr_sequence r', insert (lr_record_id r') (snd seen)))"

definition newline_char :: char where
  "newline_char = CHR 0x0A"

lemma index_of_less: "index_of c s = Some n \<Longrightarrow> n < length s"
  by (induction s arbitrary: n) (auto split: if_splits)

text \<open>The loop over the complete lines: the records, the offset and bytes of the tail.\<close>

function parse_lines :: "ledger_codec \<Rightarrow> nat \<Rightarrow> seen_records \<Rightarrow> string
    \<Rightarrow> ledger_error + ledger_record list \<times> nat \<times> string \<times> seen_records" where
  "parse_lines co offset seen raw = (case index_of newline_char raw of
       None \<Rightarrow> Inr ([], offset, raw, seen)
     | Some n \<Rightarrow> (case decode_text (take n raw) of
         None \<Rightarrow> Inl (Read_error Ledger_corruption (Some offset))
       | Some line \<Rightarrow>
           if blank_text line then parse_lines co (offset + Suc n) seen (drop (Suc n) raw)
           else (case parse_record co line offset seen of
               Inl (Failed_read code start) \<Rightarrow> Inl (Read_error code (Some start))
             | Inl _ \<Rightarrow> Inl (Read_error Ledger_corruption (Some offset))
             | Inr (r, seen') \<Rightarrow> (case parse_lines co (offset + Suc n) seen' (drop (Suc n) raw) of
                 Inl e \<Rightarrow> Inl e
               | Inr (rs, rest) \<Rightarrow> Inr (r # rs, rest)))))"
  by pat_completeness auto

termination
  by (relation "measure (\<lambda>(co, offset, seen, raw). length raw)") (auto dest: index_of_less)

declare parse_lines.simps [simp del]

datatype snapshot_status = Snap_complete | Snap_incomplete_tail

record ledger_snapshot =
  sn_status :: snapshot_status
  sn_records :: "ledger_record list"
  sn_byte_length :: nat
  sn_complete_bytes :: nat
  sn_last_sequence :: int
  sn_pending_record :: "ledger_record option"

definition parse_tail :: "ledger_codec \<Rightarrow> string \<Rightarrow> nat \<Rightarrow> seen_records \<Rightarrow> ledger_error + ledger_record option \<times> seen_records" where
  "parse_tail co tail offset seen = (case decode_stream tail of
       None \<Rightarrow> Inl (Read_error Ledger_corruption (Some offset))
     | Some (text, incomplete) \<Rightarrow>
         if incomplete
         then if co_parse co text = None \<and> truncated_json True text then Inr (None, seen)
              else Inl (Read_error Ledger_corruption (Some offset))
         else (case parse_record co text offset seen of
             Inl (Failed_read code start) \<Rightarrow> Inl (Read_error code (Some start))
           | Inl Failed_syntax \<Rightarrow>
               if truncated_json False text then Inr (None, seen) else Inl (Read_error Ledger_corruption (Some offset))
           | Inl Failed_scope \<Rightarrow> Inl (Read_error Ledger_corruption (Some offset))
           | Inr (r, seen') \<Rightarrow> Inr (Some r, seen')))"

definition parse_bytes :: "ledger_codec \<Rightarrow> string \<Rightarrow> ledger_error + ledger_snapshot" where
  "parse_bytes co raw = (case parse_lines co 0 (0, {}) raw of
       Inl e \<Rightarrow> Inl e
     | Inr (rs, offset, tail, seen) \<Rightarrow>
         if tail = []
         then Inr \<lparr>sn_status = Snap_complete, sn_records = rs, sn_byte_length = length raw, sn_complete_bytes = length raw,
                sn_last_sequence = fst seen, sn_pending_record = None\<rparr>
         else (case parse_tail co tail offset seen of
             Inl e \<Rightarrow> Inl e
           | Inr (pending, seen') \<Rightarrow> Inr \<lparr>sn_status = Snap_incomplete_tail, sn_records = rs, sn_byte_length = length raw,
                sn_complete_bytes = offset, sn_last_sequence = fst seen', sn_pending_record = pending\<rparr>))"

section \<open>The manifest\<close>

record store_manifest =
  sm_record_count :: int
  sm_last_sequence :: int
  sm_created_at :: string
  sm_updated_at :: string
  sm_recovered_tail_truncations :: int

definition field_count :: "json_record \<Rightarrow> string \<Rightarrow> int option" where
  "field_count r k = (case map_of r k of
       Some (J_num x) \<Rightarrow> (case safe_integer x of Some n \<Rightarrow> if 0 \<le> n then Some n else None | None \<Rightarrow> None)
     | _ \<Rightarrow> None)"

definition field_date :: "(string \<Rightarrow> bool) \<Rightarrow> json_record \<Rightarrow> string \<Rightarrow> string option" where
  "field_date dt r k = (case field_text r k of Some s \<Rightarrow> if dt s then Some s else None | None \<Rightarrow> None)"

text \<open>The fields both versions of the manifest have, with the count of truncations given.\<close>

definition manifest_fields :: "(string \<Rightarrow> bool) \<Rightarrow> json_record \<Rightarrow> int \<Rightarrow> store_manifest option" where
  "manifest_fields dt r truncations = (case (field_count r ''recordCount'', field_count r ''lastSequence'',
         field_date dt r ''createdAt'', field_date dt r ''updatedAt'') of
       (Some n, Some s, Some c, Some u) \<Rightarrow> Some \<lparr>sm_record_count = n, sm_last_sequence = s, sm_created_at = c,
          sm_updated_at = u, sm_recovered_tail_truncations = truncations\<rparr>
     | _ \<Rightarrow> None)"

text \<open>\<open>storeManifestSchema\<close>: the version and the manifest.\<close>

definition store_manifest_of :: "(string \<Rightarrow> bool) \<Rightarrow> json \<Rightarrow> (int \<times> store_manifest) option" where
  "store_manifest_of dt j = (case j of
       J_obj r \<Rightarrow> (case (field_text r ''schema'', field_count r ''schemaVersion'', field_count r ''recoveredTailTruncations'') of
           (Some s, Some v, Some t) \<Rightarrow>
             if s = ''state_ledger_store_manifest.v0.1'' \<and> 0 < v then map_option (Pair v) (manifest_fields dt r t) else None
         | _ \<Rightarrow> None)
     | _ \<Rightarrow> None)"

text \<open>\<open>migrateLegacyManifest\<close>.\<close>

definition migrate_legacy_manifest :: "(string \<Rightarrow> bool) \<Rightarrow> json \<Rightarrow> store_manifest option" where
  "migrate_legacy_manifest dt j = (case j of
       J_obj r \<Rightarrow> if field_text r ''schema'' = Some ''state_ledger_store_manifest.v0'' \<and> map_of r ''schemaVersion'' = Some (J_num (Fin 0))
         then manifest_fields dt r 0 else None
     | _ \<Rightarrow> None)"

definition create_empty_manifest :: "string \<Rightarrow> store_manifest" where
  "create_empty_manifest timestamp = \<lparr>sm_record_count = 0, sm_last_sequence = 0, sm_created_at = timestamp,
     sm_updated_at = timestamp, sm_recovered_tail_truncations = 0\<rparr>"

definition json_int :: "int \<Rightarrow> json" where
  "json_int n = J_num (Fin (of_int n))"

definition manifest_json :: "store_manifest \<Rightarrow> json" where
  "manifest_json m = J_obj [(''schema'', J_str ''state_ledger_store_manifest.v0.1''), (''schemaVersion'', json_int current_schema_version),
     (''recordCount'', json_int (sm_record_count m)), (''lastSequence'', json_int (sm_last_sequence m)),
     (''createdAt'', J_str (sm_created_at m)), (''updatedAt'', J_str (sm_updated_at m)),
     (''recoveredTailTruncations'', json_int (sm_recovered_tail_truncations m))]"

text \<open>The manifest file: the value it parses to (\<open>None\<close> when it is not JSON) and its size.\<close>

type_synonym manifest_file = "json option \<times> nat"

definition read_store_manifest :: "(string \<Rightarrow> bool) \<Rightarrow> manifest_file option \<Rightarrow> ledger_error + store_manifest option" where
  "read_store_manifest dt file = (case file of
       None \<Rightarrow> Inr None
     | Some (None, _) \<Rightarrow> Inl (Read_error Ledger_corruption None)
     | Some (Some j, _) \<Rightarrow>
         if newer_schema j then Inl (Read_error Unsupported_schema None)
         else (case store_manifest_of dt j of
             Some (v, m) \<Rightarrow> if v \<noteq> current_schema_version then Inl (Read_error Unsupported_schema None) else Inr (Some m)
           | None \<Rightarrow> (case migrate_legacy_manifest dt j of
               None \<Rightarrow> Inl (Read_error Ledger_corruption None)
             | Some m \<Rightarrow> Inr (Some m))))"

record migration_result =
  mg_created :: bool
  mg_migrated :: bool
  mg_from_version :: int
  mg_to_version :: int
  mg_manifest :: store_manifest
  mg_steps :: "string list"

text \<open>\<open>migrateStoreManifest\<close>: the result and, where it writes, the value written.\<close>

definition migrate_store_manifest :: "(string \<Rightarrow> bool) \<Rightarrow> string \<Rightarrow> manifest_file option
    \<Rightarrow> ledger_error + migration_result \<times> json option" where
  "migrate_store_manifest dt now file = (case file of
       None \<Rightarrow> let m = create_empty_manifest now in
         Inr (\<lparr>mg_created = True, mg_migrated = False, mg_from_version = 0, mg_to_version = current_schema_version,
           mg_manifest = m, mg_steps = [''created_manifest_v1'']\<rparr>, Some (manifest_json m))
     | Some (None, _) \<Rightarrow> Inl (Read_error Ledger_corruption None)
     | Some (Some j, _) \<Rightarrow>
         if newer_schema j then Inl (Read_error Unsupported_schema None)
         else (case store_manifest_of dt j of
             Some (v, m) \<Rightarrow>
               if v \<noteq> current_schema_version then Inl (Read_error Unsupported_schema None)
               else Inr (\<lparr>mg_created = False, mg_migrated = False, mg_from_version = v, mg_to_version = v, mg_manifest = m,
                 mg_steps = []\<rparr>, None)
           | None \<Rightarrow> (case migrate_legacy_manifest dt j of
               None \<Rightarrow> Inl (Read_error Ledger_corruption None)
             | Some m \<Rightarrow> Inr (\<lparr>mg_created = False, mg_migrated = True, mg_from_version = 0, mg_to_version = current_schema_version,
                 mg_manifest = m, mg_steps = [''manifest_v0_to_v1'']\<rparr>, Some (manifest_json m)))))"

section \<open>A snapshot of the files\<close>

record ledger_files =
  lf_manifest :: "manifest_file option"
  lf_ledger :: "string option"

definition default_max_snapshot_bytes :: int where
  "default_max_snapshot_bytes = 67108864"

text \<open>One attempt; the flag says whether the files were the same before and after it.\<close>

definition read_attempt :: "ledger_codec \<Rightarrow> (string \<Rightarrow> bool) \<Rightarrow> ledger_files \<Rightarrow> ledger_error + ledger_snapshot" where
  "read_attempt co dt fs = (case read_store_manifest dt (lf_manifest fs) of
       Inl e \<Rightarrow> Inl e
     | Inr m \<Rightarrow>
         if lf_ledger fs = None \<and> (case m of None \<Rightarrow> False | Some m' \<Rightarrow> 0 < sm_record_count m')
         then Inl (Read_error Ledger_corruption None)
         else parse_bytes co (or_else (lf_ledger fs) []))"

definition over_limit :: "nat \<Rightarrow> ledger_files \<Rightarrow> bool" where
  "over_limit max_bytes fs \<longleftrightarrow> (case lf_manifest fs of None \<Rightarrow> False | Some (_, bytes) \<Rightarrow> max_bytes < bytes)
     \<or> max_bytes < length (or_else (lf_ledger fs) [])"

text \<open>The attempts, each on the files it finds: \<open>None\<close> is the status in progress.\<close>

fun read_attempts :: "ledger_codec \<Rightarrow> (string \<Rightarrow> bool) \<Rightarrow> nat \<Rightarrow> (ledger_files \<times> bool) list \<Rightarrow> ledger_error + ledger_snapshot option" where
  "read_attempts co dt max_bytes [] = Inr None"
| "read_attempts co dt max_bytes ((fs, unchanged) # rest) =
     (if over_limit max_bytes fs then Inl (Read_error Snapshot_limit None)
      else if \<not> unchanged then read_attempts co dt max_bytes rest
      else case read_attempt co dt fs of Inl e \<Rightarrow> Inl e | Inr s \<Rightarrow> Inr (Some s))"

definition read_ledger_snapshot :: "ledger_codec \<Rightarrow> (string \<Rightarrow> bool) \<Rightarrow> int option \<Rightarrow> int option \<Rightarrow> (ledger_files \<times> bool) list
    \<Rightarrow> ledger_error + ledger_snapshot option" where
  "read_ledger_snapshot co dt max_bytes max_attempts seen =
     (let mb = or_else max_bytes default_max_snapshot_bytes; ma = or_else max_attempts 3 in
      if \<bar>mb\<bar> \<le> max_safe \<and> 0 < mb \<and> \<bar>ma\<bar> \<le> max_safe \<and> 0 < ma
      then read_attempts co dt (nat mb) (take (nat ma) seen)
      else Inl (Other_error (Plain_error ''Snapshot limits must be positive safe integers.'')))"

definition complete_snapshot_records :: "ledger_snapshot option \<Rightarrow> ledger_error + ledger_record list" where
  "complete_snapshot_records s = (case s of
       Some sn \<Rightarrow> if sn_status sn = Snap_complete then Inr (sn_records sn) else Inl (Read_error Incomplete_snapshot None)
     | None \<Rightarrow> Inl (Read_error Incomplete_snapshot None))"

end
