(* ===== verification/AppendOnlyStore.thy ===== *)
theory AppendOnlyStore
  imports LedgerSnapshot Retention
begin

text \<open>
  The append-only store of the ledger (\<open>state-ledger/src/append-only-store.ts\<close>). The state is the
  files of the store and the cache of the object; an operation returns a thrown value or a result,
  and the state after it, since a call that throws may have changed the files. The store lock is held
  by every operation, so an operation is one step. Clock and random identifiers are arguments.
\<close>

section \<open>State\<close>

record ledger_index =
  ix_updated_at :: string
  ix_by_kind :: "(ledger_kind \<times> int list) list"
  ix_by_session :: "(string \<times> int list) list"
  ix_by_task :: "(string \<times> int list) list"

record store_cache =
  ch_identity :: string
  ch_count :: int
  ch_last_sequence :: int
  ch_ids :: "string set"

record append_store =
  st_files :: ledger_files
  st_index :: "ledger_index option"
  st_recovery :: "string list"
  st_cache :: "store_cache option"

record append_record_input =
  ar_payload :: ledger_payload
  ar_session_id :: "string option"
  ar_turn_id :: "string option"
  ar_task_id :: "string option"
  ar_recorded_at :: "string option"
  ar_record_id :: "string option"
  ar_schema_version :: "int option"

text \<open>What the store uses of JSON, the schema library, the metadata rules and the file system:
  \<open>JSON.stringify\<close>, the schema of a record, the sizes of serialised values, and the identity
  (device, inode, size and times) of the ledger file.\<close>

record store_env =
  se_codec :: ledger_codec
  se_datetime :: "string \<Rightarrow> bool"
  se_metadata_error :: "append_record_input \<Rightarrow> thrown option"
  se_accepts :: "ledger_record \<Rightarrow> bool"
  se_payload_bytes :: "ledger_payload \<Rightarrow> int"
  se_manifest_bytes :: "json \<Rightarrow> nat"
  se_identity :: "string option \<Rightarrow> string"

record store_options =
  so_max_payload_bytes :: int
  so_max_snapshot_bytes :: int
  so_read_only :: bool

definition default_max_payload_bytes :: int where
  "default_max_payload_bytes = 16384"

definition new_store_options :: "int option \<Rightarrow> int option \<Rightarrow> bool option \<Rightarrow> ledger_error + store_options" where
  "new_store_options payload snapshot read_only =
     (let n = or_else snapshot default_max_snapshot_bytes in
      if max_safe < \<bar>n\<bar> \<or> n \<le> 0 then Inl (Other_error (Plain_error ''Snapshot limits must be positive safe integers.''))
      else Inr \<lparr>so_max_payload_bytes = or_else payload default_max_payload_bytes, so_max_snapshot_bytes = n,
             so_read_only = or_else read_only False\<rparr>)"

section \<open>Actions\<close>

type_synonym 'a action = "append_store \<Rightarrow> (ledger_error + 'a) \<times> append_store"

definition done_with :: "'a \<Rightarrow> 'a action" where
  "done_with x st = (Inr x, st)"

definition failing :: "ledger_error \<Rightarrow> 'a action" where
  "failing e st = (Inl e, st)"

definition from_result :: "ledger_error + 'a \<Rightarrow> 'a action" where
  "from_result r st = (r, st)"

definition bind_action :: "'a action \<Rightarrow> ('a \<Rightarrow> 'b action) \<Rightarrow> 'b action" where
  "bind_action m f st = (case m st of (Inl e, st') \<Rightarrow> (Inl e, st') | (Inr x, st') \<Rightarrow> f x st')"

definition require :: "bool \<Rightarrow> ledger_error \<Rightarrow> (unit \<Rightarrow> 'b action) \<Rightarrow> 'b action" where
  "require b e f = (if b then f () else failing e)"

definition change_store :: "(append_store \<Rightarrow> append_store) \<Rightarrow> unit action" where
  "change_store f st = (Inr (), f st)"

definition corrupt :: ledger_error where "corrupt = Read_error Ledger_corruption None"
definition limit_exceeded :: ledger_error where "limit_exceeded = Read_error Snapshot_limit None"

section \<open>Parts\<close>

definition set_ledger :: "string option \<Rightarrow> append_store \<Rightarrow> append_store" where
  "set_ledger l st = st\<lparr>st_files := (st_files st)\<lparr>lf_ledger := l\<rparr>\<rparr>"

definition ledger_bytes :: "append_store \<Rightarrow> string" where
  "ledger_bytes st = or_else (lf_ledger (st_files st)) []"

definition ledger_identity :: "store_env \<Rightarrow> append_store \<Rightarrow> string" where
  "ledger_identity env st = se_identity env (lf_ledger (st_files st))"

definition last_sequence_of :: "ledger_record list \<Rightarrow> int" where
  "last_sequence_of rs = (if rs = [] then 0 else lr_sequence (last rs))"

definition cache_records :: "store_env \<Rightarrow> ledger_record list \<Rightarrow> append_store \<Rightarrow> append_store" where
  "cache_records env rs st = st\<lparr>st_cache := Some \<lparr>ch_identity = ledger_identity env st, ch_count = int (length rs),
     ch_last_sequence = last_sequence_of rs, ch_ids = lr_record_id ` set rs\<rparr>\<rparr>"

definition manifest_fits :: "store_env \<Rightarrow> store_options \<Rightarrow> store_manifest \<Rightarrow> bool" where
  "manifest_fits env opts m \<longleftrightarrow> int (se_manifest_bytes env (manifest_json m)) \<le> so_max_snapshot_bytes opts"

definition write_store_manifest :: "store_env \<Rightarrow> store_manifest \<Rightarrow> unit action" where
  "write_store_manifest env m =
     (if store_manifest_of (se_datetime env) (manifest_json m) = None then failing (Other_error Schema_error)
      else change_store (\<lambda>st. st\<lparr>st_files := (st_files st)\<lparr>lf_manifest := Some (Some (manifest_json m), se_manifest_bytes env (manifest_json m))\<rparr>\<rparr>))"

definition read_manifest :: "store_env \<Rightarrow> store_manifest option action" where
  "read_manifest env st = (read_store_manifest (se_datetime env) (lf_manifest (st_files st)), st)"

definition read_snapshot :: "store_env \<Rightarrow> store_options \<Rightarrow> append_store \<Rightarrow> ledger_error + ledger_snapshot option" where
  "read_snapshot env opts st =
     read_ledger_snapshot (se_codec env) (se_datetime env) (Some (so_max_snapshot_bytes opts)) None [(st_files st, True)]"

definition list_records :: "store_env \<Rightarrow> store_options \<Rightarrow> append_store \<Rightarrow> ledger_error + ledger_record list" where
  "list_records env opts st = (case read_snapshot env opts st of Inl e \<Rightarrow> Inl e | Inr s \<Rightarrow> complete_snapshot_records s)"

record record_query =
  rq_kinds :: "ledger_kind list option"
  rq_session_id :: "string option"
  rq_turn_id :: "string option"
  rq_task_id :: "string option"

definition matches_query :: "record_query \<Rightarrow> ledger_record \<Rightarrow> bool" where
  "matches_query q r \<longleftrightarrow> (case rq_kinds q of None \<Rightarrow> True | Some ks \<Rightarrow> lr_kind r \<in> set ks)
     \<and> (rq_session_id q = None \<or> lr_session_id r = rq_session_id q)
     \<and> (rq_turn_id q = None \<or> lr_turn_id r = rq_turn_id q)
     \<and> (rq_task_id q = None \<or> lr_task_id r = rq_task_id q)"

definition query_records :: "store_env \<Rightarrow> store_options \<Rightarrow> record_query \<Rightarrow> append_store \<Rightarrow> ledger_error + ledger_record list" where
  "query_records env opts q st = (case list_records env opts st of Inl e \<Rightarrow> Inl e | Inr rs \<Rightarrow> Inr (filter (matches_query q) rs))"

definition push_bucket :: "'k \<Rightarrow> int \<Rightarrow> ('k \<times> int list) list \<Rightarrow> ('k \<times> int list) list" where
  "push_bucket k n m = map_set k (or_else (map_of m k) [] @ [n]) m"

definition build_index_snapshot :: "ledger_record list \<Rightarrow> string \<Rightarrow> ledger_index" where
  "build_index_snapshot rs updated_at = fold (\<lambda>r ix.
       ix\<lparr>ix_by_kind := push_bucket (lr_kind r) (lr_sequence r) (ix_by_kind ix),
          ix_by_session := (case lr_session_id r of None \<Rightarrow> ix_by_session ix | Some s \<Rightarrow> push_bucket s (lr_sequence r) (ix_by_session ix)),
          ix_by_task := (case lr_task_id r of None \<Rightarrow> ix_by_task ix | Some t \<Rightarrow> push_bucket t (lr_sequence r) (ix_by_task ix))\<rparr>)
     rs \<lparr>ix_updated_at = updated_at, ix_by_kind = [], ix_by_session = [], ix_by_task = []\<rparr>"

text \<open>\<open>writableRecords\<close>: the records, after a torn tail is finished with its newline or cut off.\<close>

definition repair_tail :: "store_options \<Rightarrow> ledger_snapshot \<Rightarrow> (ledger_record list \<times> int) action" where
  "repair_tail opts sn st = (case sn_pending_record sn of
       Some r \<Rightarrow>
         if so_max_snapshot_bytes opts < int (sn_byte_length sn) + 1 then failing limit_exceeded st
         else (Inr (sn_records sn @ [r], 0), set_ledger (Some (ledger_bytes st @ [newline_char])) st)
     | None \<Rightarrow> (Inr (sn_records sn, 1),
         set_ledger (Some (take (sn_complete_bytes sn) (ledger_bytes st)))
           (st\<lparr>st_recovery := st_recovery st @ [drop (sn_complete_bytes sn) (ledger_bytes st)]\<rparr>)))"

definition writable_records :: "store_env \<Rightarrow> store_options \<Rightarrow> (ledger_record list \<times> int) action" where
  "writable_records env opts st = (case read_snapshot env opts st of
       Inl e \<Rightarrow> failing e st
     | Inr None \<Rightarrow> failing (Read_error Incomplete_snapshot None) st
     | Inr (Some sn) \<Rightarrow>
         if sn_status sn = Snap_complete then done_with (sn_records sn, 0) st else repair_tail opts sn st)"

definition assert_bounded_payload :: "store_env \<Rightarrow> store_options \<Rightarrow> ledger_payload \<Rightarrow> ledger_error option" where
  "assert_bounded_payload env opts p = (let n = se_payload_bytes env p in
     if so_max_payload_bytes opts < n
     then Some (Other_error (Plain_error (''State ledger payload exceeds '' @ show_int (so_max_payload_bytes opts) @ '' bytes ('' @ show_int n @ '' bytes).'')))
     else None)"

definition read_only_error :: ledger_error where
  "read_only_error = Other_error (Plain_error ''State ledger is read-only.'')"

section \<open>Opening\<close>

definition initialize_store :: "store_env \<Rightarrow> store_options \<Rightarrow> string \<Rightarrow> unit action" where
  "initialize_store env opts now =
     require (\<not> so_read_only opts) read_only_error (\<lambda>_.
     bind_action (read_manifest env) (\<lambda>existing st.
       if existing = None \<and> lf_ledger (st_files st) \<noteq> None then failing corrupt st
       else bind_action (writable_records env opts) (\<lambda>(rs, truncations).
         let previous = or_else existing (create_empty_manifest now);
             m = previous\<lparr>sm_record_count := int (length rs),
                   sm_last_sequence := max (sm_last_sequence previous) (last_sequence_of rs), sm_updated_at := now,
                   sm_recovered_tail_truncations := sm_recovered_tail_truncations previous + truncations\<rparr>
         in require (manifest_fits env opts m) limit_exceeded (\<lambda>_.
            bind_action (change_store (\<lambda>st. st\<lparr>st_index := Some (build_index_snapshot rs (sm_updated_at m))\<rparr>)) (\<lambda>_.
            bind_action (write_store_manifest env m) (\<lambda>_.
            change_store (cache_records env rs))))) st))"

definition open_store :: "store_env \<Rightarrow> store_options \<Rightarrow> string \<Rightarrow> unit action" where
  "open_store env opts now = (if so_read_only opts then done_with () else initialize_store env opts now)"

definition get_manifest :: "store_env \<Rightarrow> string \<Rightarrow> append_store \<Rightarrow> ledger_error + store_manifest" where
  "get_manifest env now st = (case read_store_manifest (se_datetime env) (lf_manifest (st_files st)) of
       Inl e \<Rightarrow> Inl e
     | Inr m \<Rightarrow> Inr (or_else m (create_empty_manifest now)))"

text \<open>\<open>resetForTests\<close>: all files are removed and an empty manifest is written.\<close>

definition reset_for_tests :: "store_env \<Rightarrow> store_options \<Rightarrow> string \<Rightarrow> unit action" where
  "reset_for_tests env opts now =
     require (\<not> so_read_only opts) read_only_error (\<lambda>_.
     bind_action (change_store (\<lambda>st. \<lparr>st_files = \<lparr>lf_manifest = None, lf_ledger = None\<rparr>, st_index = None,
        st_recovery = [], st_cache = None\<rparr>)) (\<lambda>_ st.
     case migrate_store_manifest (se_datetime env) now (lf_manifest (st_files st)) of
       Inl e \<Rightarrow> failing e st
     | Inr (_, None) \<Rightarrow> done_with () st
     | Inr (_, Some j) \<Rightarrow>
         change_store (\<lambda>s. s\<lparr>st_files := (st_files s)\<lparr>lf_manifest := Some (Some j, se_manifest_bytes env j)\<rparr>\<rparr>) st))"

section \<open>Appending\<close>

fun ledger_kind_label :: "ledger_kind \<Rightarrow> string" where
  "ledger_kind_label K_session = ''session''"
| "ledger_kind_label K_turn = ''turn''"
| "ledger_kind_label K_runtime_event = ''runtime_event''"
| "ledger_kind_label K_route_decision = ''route_decision''"
| "ledger_kind_label K_limit_classification = ''limit_classification''"
| "ledger_kind_label K_identity_profile_status = ''identity_profile_status''"
| "ledger_kind_label K_provider_cooldown = ''provider_cooldown''"
| "ledger_kind_label K_worktree_lease = ''worktree_lease''"
| "ledger_kind_label K_approval_request = ''approval_request''"
| "ledger_kind_label K_approval_response = ''approval_response''"
| "ledger_kind_label K_capability_snapshot = ''capability_snapshot''"
| "ledger_kind_label K_evidence_ref = ''evidence_ref''"

definition new_record :: "append_record_input \<Rightarrow> int \<Rightarrow> string \<Rightarrow> string \<Rightarrow> ledger_record" where
  "new_record input sequence now uuid = \<lparr>
     lr_record_id = or_else (ar_record_id input)
       (ledger_kind_label (payload_kind (ar_payload input)) @ ''-'' @ show_int sequence @ ''-'' @ uuid),
     lr_sequence = sequence, lr_schema_version = current_schema_version,
     lr_recorded_at = or_else (ar_recorded_at input) now, lr_session_id = ar_session_id input,
     lr_turn_id = ar_turn_id input, lr_task_id = ar_task_id input, lr_payload = ar_payload input\<rparr>"

text \<open>The cache, read again when the ledger file is not the one it was made for.\<close>

definition current_cache :: "store_env \<Rightarrow> store_options \<Rightarrow> (store_cache \<times> int) action" where
  "current_cache env opts st = (case st_cache st of
       Some c \<Rightarrow> if ch_identity c = ledger_identity env st then done_with (c, 0) st
         else bind_action (writable_records env opts) (\<lambda>(rs, truncations) st'.
                (Inr (the (st_cache (cache_records env rs st')), truncations), cache_records env rs st')) st
     | None \<Rightarrow> bind_action (writable_records env opts) (\<lambda>(rs, truncations) st'.
                (Inr (the (st_cache (cache_records env rs st')), truncations), cache_records env rs st')) st)"

definition serialize_record :: "store_env \<Rightarrow> ledger_record \<Rightarrow> string" where
  "serialize_record env r = co_render (se_codec env) r @ [newline_char]"

text \<open>The writes of an append: the line, then the manifest, then the cache.\<close>

definition commit_append :: "store_env \<Rightarrow> store_cache \<Rightarrow> store_manifest \<Rightarrow> ledger_record \<Rightarrow> ledger_record action" where
  "commit_append env c m r =
     bind_action (change_store (\<lambda>st. set_ledger (Some (ledger_bytes st @ serialize_record env r)) (st\<lparr>st_cache := None\<rparr>))) (\<lambda>_.
     bind_action (write_store_manifest env m) (\<lambda>_.
     bind_action (change_store (\<lambda>st. st\<lparr>st_cache := Some (c\<lparr>ch_count := ch_count c + 1, ch_last_sequence := lr_sequence r,
        ch_ids := insert (lr_record_id r) (ch_ids c), ch_identity := ledger_identity env st\<rparr>)\<rparr>)) (\<lambda>_.
     done_with r)))"

text \<open>The checks of an append, in order: the record and the manifest to write.\<close>

definition prepare_append :: "store_env \<Rightarrow> store_options \<Rightarrow> string \<Rightarrow> string \<Rightarrow> append_record_input \<Rightarrow> store_manifest
    \<Rightarrow> store_cache \<Rightarrow> int \<Rightarrow> ledger_error + ledger_record \<times> store_manifest" where
  "prepare_append env opts now uuid input manifest c truncations =
     (let next = max (sm_last_sequence manifest) (ch_last_sequence c) + 1 in
      if max_safe < next then Inl corrupt
      else if ar_schema_version input \<noteq> None \<and> ar_schema_version input \<noteq> Some current_schema_version
      then Inl (Read_error Unsupported_schema None)
      else if \<not> se_accepts env (new_record input next now uuid) then Inl (Other_error Schema_error)
      else case normalize_ledger_scope (new_record input next now uuid) of
          Inl e \<Rightarrow> Inl (Other_error e)
        | Inr r \<Rightarrow> (case assert_bounded_payload env opts (lr_payload r) of
            Some e \<Rightarrow> Inl e
          | None \<Rightarrow>
              if lr_record_id r \<in> ch_ids c then Inl corrupt
              else let m = manifest\<lparr>sm_record_count := ch_count c + 1, sm_last_sequence := next, sm_updated_at := now,
                     sm_recovered_tail_truncations := sm_recovered_tail_truncations manifest + truncations\<rparr>
                   in if manifest_fits env opts m then Inr (r, m) else Inl limit_exceeded))"

definition append_record :: "store_env \<Rightarrow> store_options \<Rightarrow> string \<Rightarrow> string \<Rightarrow> append_record_input \<Rightarrow> ledger_record action" where
  "append_record env opts now uuid input =
     require (\<not> so_read_only opts) read_only_error (\<lambda>_.
     case se_metadata_error env input of Some e \<Rightarrow> failing (Other_error e) | None \<Rightarrow>
     bind_action (read_manifest env) (\<lambda>existing. case existing of None \<Rightarrow> failing corrupt | Some manifest \<Rightarrow>
     bind_action (current_cache env opts) (\<lambda>(c, truncations).
     bind_action (from_result (prepare_append env opts now uuid input manifest c truncations)) (\<lambda>(r, m) st.
       if so_max_snapshot_bytes opts < int (length (ledger_bytes st)) + int (length (serialize_record env r))
       then failing limit_exceeded st
       else commit_append env c m r st))))"

section \<open>Compaction\<close>

text \<open>The check of the kept records, in order.\<close>

fun check_kept :: "store_env \<Rightarrow> store_options \<Rightarrow> int \<Rightarrow> int option \<Rightarrow> string set \<Rightarrow> ledger_record list \<Rightarrow> ledger_error + ledger_record list" where
  "check_kept env opts newest prev ids [] = Inr []"
| "check_kept env opts newest prev ids (k # ks) =
     (if \<not> se_accepts env k then Inl (Other_error Schema_error)
      else case normalize_ledger_scope k of
          Inl e \<Rightarrow> Inl (Other_error e)
        | Inr r \<Rightarrow>
            if lr_schema_version r \<noteq> current_schema_version then Inl (Read_error Unsupported_schema None)
            else (case assert_bounded_payload env opts (lr_payload r) of
                Some e \<Rightarrow> Inl e
              | None \<Rightarrow>
                  if newest < lr_sequence r \<or> (case prev of None \<Rightarrow> False | Some p \<Rightarrow> lr_sequence r \<le> p) \<or> lr_record_id r \<in> ids
                  then Inl corrupt
                  else (case check_kept env opts newest (Some (lr_sequence r)) (insert (lr_record_id r) ids) ks of
                      Inl e \<Rightarrow> Inl e
                    | Inr rs \<Rightarrow> Inr (r # rs))))"

record compaction_result =
  cr_kept_records :: "ledger_record list"
  cr_pruned_records :: "ledger_record list"
  cr_manifest :: store_manifest

definition serialize_records :: "store_env \<Rightarrow> ledger_record list \<Rightarrow> string" where
  "serialize_records env rs = concat (map (serialize_record env) rs)"

text \<open>The checks of a compaction, in order: the kept records, and the manifests written before and
  after the ledger is replaced.\<close>

definition prepare_compaction :: "store_env \<Rightarrow> store_options \<Rightarrow> string \<Rightarrow> (ledger_record \<Rightarrow> ledger_record list \<Rightarrow> bool)
    \<Rightarrow> store_manifest \<Rightarrow> ledger_record list \<Rightarrow> int \<Rightarrow> ledger_error + ledger_record list \<times> store_manifest \<times> store_manifest" where
  "prepare_compaction env opts now keep previous rs truncations =
     (let manifest = previous\<lparr>sm_last_sequence := max (sm_last_sequence previous) (last_sequence_of rs),
            sm_recovered_tail_truncations := sm_recovered_tail_truncations previous + truncations\<rparr>
      in case check_kept env opts (sm_last_sequence manifest) None {} (filter (\<lambda>r. keep r rs) rs) of
          Inl e \<Rightarrow> Inl e
        | Inr kept \<Rightarrow>
            let m = manifest\<lparr>sm_record_count := int (length kept), sm_updated_at := now\<rparr>
            in if manifest_fits env opts manifest \<and> manifest_fits env opts m
                 \<and> int (length (serialize_records env kept)) \<le> so_max_snapshot_bytes opts
               then Inr (kept, manifest, m) else Inl limit_exceeded)"

text \<open>The writes of a compaction: the manifest with the last sequence first, then the ledger, the
  indexes and the manifest again.\<close>

definition commit_compaction :: "store_env \<Rightarrow> ledger_record list \<Rightarrow> store_manifest \<Rightarrow> store_manifest \<Rightarrow> unit action" where
  "commit_compaction env kept manifest m =
     bind_action (write_store_manifest env manifest) (\<lambda>_.
     bind_action (change_store (\<lambda>st. set_ledger (Some (serialize_records env kept)) (st\<lparr>st_cache := None\<rparr>))) (\<lambda>_.
     bind_action (change_store (\<lambda>st. st\<lparr>st_index := Some (build_index_snapshot kept (sm_updated_at m))\<rparr>)) (\<lambda>_.
     bind_action (write_store_manifest env m) (\<lambda>_.
     change_store (cache_records env kept)))))"

definition compact_records :: "store_env \<Rightarrow> store_options \<Rightarrow> string \<Rightarrow> (ledger_record \<Rightarrow> ledger_record list \<Rightarrow> bool)
    \<Rightarrow> compaction_result action" where
  "compact_records env opts now keep =
     require (\<not> so_read_only opts) read_only_error (\<lambda>_.
     bind_action (read_manifest env) (\<lambda>existing. case existing of None \<Rightarrow> failing corrupt | Some previous \<Rightarrow>
     bind_action (writable_records env opts) (\<lambda>(rs, truncations).
     bind_action (from_result (prepare_compaction env opts now keep previous rs truncations)) (\<lambda>(kept, manifest, m).
     bind_action (commit_compaction env kept manifest m) (\<lambda>_.
     done_with \<lparr>cr_kept_records = kept, cr_pruned_records = filter (\<lambda>r. \<not> keep r rs) rs, cr_manifest = m\<rparr>)))))"

text \<open>\<open>applyRetentionPolicy\<close>: the kept sequences are selected once, on the records of the ledger.\<close>

definition apply_retention_policy :: "store_env \<Rightarrow> store_options \<Rightarrow> string \<Rightarrow> retention_policy \<Rightarrow> int \<Rightarrow> compaction_result action" where
  "apply_retention_policy env opts now policy at_ms =
     compact_records env opts now (\<lambda>r rs. lr_sequence r \<in> select_retention_sequences rs policy at_ms)"

end
