(* ===== verification/JsonGrammar.thy ===== *)
theory JsonGrammar
  imports TruncatedJson
begin

text \<open>
  The grammar of JSON texts (RFC 8259), the reference against which the recogniser of truncated texts
  is proved exact, and its tokens: strings and numbers.
\<close>

section \<open>The grammar\<close>

definition json_blank :: "string \<Rightarrow> bool" where
  "json_blank w \<longleftrightarrow> list_all json_blank_char w"

inductive json_chars :: "string \<Rightarrow> bool" where
  chars_nil: "json_chars []"
| chars_plain: "32 \<le> code_of c \<Longrightarrow> c \<noteq> quote_char \<Longrightarrow> c \<noteq> escape_char \<Longrightarrow> json_chars s \<Longrightarrow> json_chars (c # s)"
| chars_escape: "simple_escape e \<Longrightarrow> json_chars s \<Longrightarrow> json_chars (escape_char # e # s)"
| chars_hex: "json_hex a \<Longrightarrow> json_hex b \<Longrightarrow> json_hex c \<Longrightarrow> json_hex d \<Longrightarrow> json_chars s \<Longrightarrow>
    json_chars (escape_char # CHR ''u'' # a # b # c # d # s)"

definition json_string :: "string \<Rightarrow> bool" where
  "json_string s \<longleftrightarrow> (\<exists>b. s = quote_char # b @ [quote_char] \<and> json_chars b)"

definition digits1 :: "string \<Rightarrow> bool" where
  "digits1 s \<longleftrightarrow> s \<noteq> [] \<and> list_all json_digit s"

definition json_number :: "string \<Rightarrow> bool" where
  "json_number s \<longleftrightarrow> (\<exists>minus int frac ex. s = minus @ int @ frac @ ex
     \<and> minus \<in> {[], ''-''}
     \<and> (int = ''0'' \<or> (digits1 int \<and> hd int \<noteq> CHR ''0''))
     \<and> (frac = [] \<or> (\<exists>ds. frac = CHR ''.'' # ds \<and> digits1 ds))
     \<and> (ex = [] \<or> (\<exists>x sign ds. ex = x # sign @ ds \<and> exponent_char x \<and> sign \<in> {[], ''+'', ''-''} \<and> digits1 ds)))"

inductive json_value :: "string \<Rightarrow> bool" and json_elements :: "string \<Rightarrow> bool" and json_members :: "string \<Rightarrow> bool" where
  value_literal: "v \<in> {''true'', ''false'', ''null''} \<Longrightarrow> json_value v"
| value_number: "json_number v \<Longrightarrow> json_value v"
| value_string: "json_string v \<Longrightarrow> json_value v"
| value_empty_array: "json_blank w \<Longrightarrow> json_value (CHR ''['' # w @ '']'')"
| value_array: "json_elements y \<Longrightarrow> json_value (CHR ''['' # y @ '']'')"
| value_empty_object: "json_blank w \<Longrightarrow> json_value (CHR ''{'' # w @ ''}'')"
| value_object: "json_members y \<Longrightarrow> json_value (CHR ''{'' # y @ ''}'')"
| elements_one: "json_blank w \<Longrightarrow> json_value v \<Longrightarrow> json_blank w' \<Longrightarrow> json_elements (w @ v @ w')"
| elements_more: "json_blank w \<Longrightarrow> json_value v \<Longrightarrow> json_blank w' \<Longrightarrow> json_elements y \<Longrightarrow>
    json_elements (w @ v @ w' @ CHR '','' # y)"
| members_one: "json_blank w \<Longrightarrow> json_string k \<Longrightarrow> json_blank u \<Longrightarrow> json_blank w1 \<Longrightarrow> json_value v \<Longrightarrow> json_blank w' \<Longrightarrow>
    json_members (w @ k @ u @ CHR '':'' # w1 @ v @ w')"
| members_more: "json_blank w \<Longrightarrow> json_string k \<Longrightarrow> json_blank u \<Longrightarrow> json_blank w1 \<Longrightarrow> json_value v \<Longrightarrow> json_blank w' \<Longrightarrow>
    json_members y \<Longrightarrow> json_members (w @ k @ u @ CHR '':'' # w1 @ v @ w' @ CHR '','' # y)"

definition json_text :: "string \<Rightarrow> bool" where
  "json_text s \<longleftrightarrow> (\<exists>w v w'. s = w @ v @ w' \<and> json_blank w \<and> json_value v \<and> json_blank w')"

section \<open>Strings\<close>

lemma quote_escape [simp]: "escape_char \<noteq> quote_char" "code_of escape_char = 92" "code_of quote_char = 34"
  "quote_char \<noteq> escape_char" "CHR ''u'' \<noteq> quote_char" "CHR ''u'' \<noteq> escape_char" "\<not> simple_escape (CHR ''u'')"
  by (simp_all add: escape_char_def quote_char_def code_of_def simple_escape_def)

definition plain_char :: "char \<Rightarrow> bool" where
  "plain_char c \<longleftrightarrow> 32 \<le> code_of c \<and> c \<noteq> quote_char \<and> c \<noteq> escape_char"

lemma scan_equations [simp]:
  "scan_string 0 (quote_char # s) = Scan_complete s"
  "plain_char c \<Longrightarrow> scan_string 0 (c # s) = scan_string 0 s"
  "code_of c < 32 \<Longrightarrow> scan_string 0 (c # s) = Scan_invalid"
  "scan_string 0 [escape_char] = Scan_ascii_partial"
  "simple_escape e \<Longrightarrow> scan_string 0 (escape_char # e # s) = scan_string 0 s"
  "scan_string 0 (escape_char # CHR ''u'' # s) = scan_string 4 s"
  "\<not> simple_escape e \<Longrightarrow> e \<noteq> CHR ''u'' \<Longrightarrow> scan_string 0 (escape_char # e # s) = Scan_invalid"
proof -
  show "code_of c < 32 \<Longrightarrow> scan_string 0 (c # s) = Scan_invalid"
    using quote_escape by (cases "c = quote_char") auto
qed (simp_all add: plain_char_def)

declare scan_string.simps(4) [simp del]

lemma scan_induct [case_names hex_end hex_digit hex_bad finish quote control plain esc_end esc esc_u esc_bad]:
  assumes "\<And>n. P (Suc n) []" "\<And>n c s. json_hex c \<Longrightarrow> P n s \<Longrightarrow> P (Suc n) (c # s)" "\<And>n c s. \<not> json_hex c \<Longrightarrow> P (Suc n) (c # s)"
    "P 0 []" "\<And>s. P 0 (quote_char # s)" "\<And>c s. code_of c < 32 \<Longrightarrow> P 0 (c # s)" "\<And>c s. plain_char c \<Longrightarrow> P 0 s \<Longrightarrow> P 0 (c # s)"
    "P 0 [escape_char]" "\<And>e s. simple_escape e \<Longrightarrow> P 0 s \<Longrightarrow> P 0 (escape_char # e # s)"
    "\<And>s. P 4 s \<Longrightarrow> P 0 (escape_char # CHR ''u'' # s)"
    "\<And>e s. \<not> simple_escape e \<Longrightarrow> e \<noteq> CHR ''u'' \<Longrightarrow> P 0 (escape_char # e # s)"
  shows "P n s"
proof (induction n s rule: scan_string.induct)
  case (2 n c s) then show ?case using assms(2,3) by blast
next
  case (4 c s)
  consider "c = quote_char" | "code_of c < 32" | "plain_char c" | "c = escape_char"
    unfolding plain_char_def by linarith
  then show ?case
  proof cases
    case 3 then show ?thesis using assms(7) 4(1) by (auto simp: plain_char_def)
  next
    case esc: 4
    show ?thesis
    proof (cases s)
      case (Cons e s')
      then show ?thesis using assms(9,10,11) 4(2,3) esc by (cases "simple_escape e"; cases "e = CHR ''u''") auto
    qed (use esc assms(8) in simp)
  qed (use assms(5,6) in simp_all)
qed (use assms in simp_all)

lemma scan_hex: "json_hex a \<Longrightarrow> json_hex b \<Longrightarrow> json_hex c \<Longrightarrow> json_hex d \<Longrightarrow>
    scan_string 4 (a # b # c # d # s) = scan_string 0 s"
  by (simp add: numeral_eq_Suc)

lemma scan_chars: "json_chars b \<Longrightarrow> scan_string 0 (b @ quote_char # r) = Scan_complete r"
  by (induction b rule: json_chars.induct) (simp_all add: scan_hex plain_char_def)

lemma scan_complete_chars:
  "scan_string n s = Scan_complete r \<Longrightarrow> \<exists>h b. s = h @ b @ quote_char # r \<and> length h = n \<and> list_all json_hex h \<and> json_chars b"
proof (induction n s rule: scan_induct)
  case (hex_digit n c s)
  then obtain h b where "s = h @ b @ quote_char # r" "length h = n" "list_all json_hex h" "json_chars b" by auto
  then show ?case using hex_digit(1) by (intro exI [of _ "c # h"] exI [of _ b]) simp
next
  case (quote s) then show ?case by (intro exI [of _ "[]"]) (simp add: chars_nil)
next
  case (plain c s)
  then obtain b where "s = b @ quote_char # r" "json_chars b" by auto
  then show ?case using plain(1) chars_plain [of c b] by (intro exI [of _ "[]"] exI [of _ "c # b"]) (simp add: plain_char_def)
next
  case (esc e s)
  then obtain b where "s = b @ quote_char # r" "json_chars b" by auto
  then show ?case using esc(1) chars_escape [of e b] by (intro exI [of _ "[]"] exI [of _ "escape_char # e # b"]) simp
next
  case (esc_u s)
  then obtain h b where h: "s = h @ b @ quote_char # r" "length h = 4" "list_all json_hex h" "json_chars b" by auto
  then obtain h1 h2 h3 h4 where "h = [h1, h2, h3, h4]" by (auto simp: numeral_eq_Suc length_Suc_conv)
  then show ?case using h chars_hex [of h1 h2 h3 h4 b]
    by (intro exI [of _ "[]"] exI [of _ "escape_char # CHR ''u'' # h @ b"]) simp
qed simp_all

lemma scan_complete_iff: "scan_string 0 s = Scan_complete r \<longleftrightarrow> (\<exists>b. s = b @ quote_char # r \<and> json_chars b)"
  using scan_complete_chars [of 0 s r] scan_chars by auto

lemma scan_append_complete: "scan_string n s = Scan_complete r \<Longrightarrow> scan_string n (s @ u) = Scan_complete (r @ u)"
  by (induction n s rule: scan_induct) simp_all

lemma scan_append_invalid: "scan_string n s = Scan_invalid \<Longrightarrow> scan_string n (s @ u) = Scan_invalid"
  by (induction n s rule: scan_induct) simp_all

text \<open>A partial string can be completed, outside an escape by whatever follows.\<close>

lemma scan_partial_append: "scan_string n s = Scan_partial \<Longrightarrow> scan_string n (s @ u) = scan_string 0 u"
  by (induction n s rule: scan_induct) simp_all

lemma scan_ascii_append: "scan_string n s = Scan_ascii_partial \<Longrightarrow> \<exists>u. scan_string n (s @ u @ quote_char # r) = Scan_complete r"
proof (induction n s rule: scan_induct)
  case (hex_end n)
  have "scan_string m (replicate m (CHR ''0'') @ quote_char # r) = Scan_complete r" for m
    by (induction m) (simp_all add: json_hex_def json_digit_def code_of_def)
  from this [of "Suc n"] show ?case by (metis append_Nil)
next
  case esc_end
  show ?case by (intro exI [of _ "''n''"]) (simp add: simple_escape_def)
qed simp_all

text \<open>No character outside ASCII can come next inside an escape.\<close>

lemma wide_char:
  assumes "128 \<le> code_of c"
  shows "\<not> json_hex c" "plain_char c" "\<not> simple_escape c" "c \<noteq> CHR ''u''" "\<not> json_blank_char c"
  using assms by (auto simp: json_hex_def json_digit_def quote_char_def escape_char_def code_of_def plain_char_def
      simple_escape_def json_blank_char_def)

lemma scan_ascii_wide: "scan_string n s = Scan_ascii_partial \<Longrightarrow> 128 \<le> code_of c \<Longrightarrow> scan_string n (s @ c # u) = Scan_invalid"
  by (induction n s rule: scan_induct) (simp_all add: wide_char)

section \<open>Numbers\<close>

text \<open>What follows the integer and the fraction of a number.\<close>

fun exponent_rest :: "string \<Rightarrow> bool" where
  "exponent_rest [] \<longleftrightarrow> True"
| "exponent_rest (c # r) \<longleftrightarrow> exponent_char c \<and> drop_sign r \<noteq> [] \<and> list_all json_digit (drop_sign r)"

fun exponent_open :: "string \<Rightarrow> bool" where
  "exponent_open [] \<longleftrightarrow> False"
| "exponent_open (c # r) \<longleftrightarrow> exponent_char c \<and> (r = [] \<or> r = ''+'' \<or> r = ''-'')"

definition number_rest :: "string \<Rightarrow> string option" where
  "number_rest s = Option.bind (number_int (drop_minus s)) number_fraction"

lemma full_number_alt: "full_number s \<longleftrightarrow> (case number_rest s of None \<Rightarrow> False | Some r \<Rightarrow> exponent_rest r)"
  by (auto simp: full_number_def number_rest_def split: option.splits list.splits)

lemma partial_number_alt: "partial_number s \<longleftrightarrow> s = ''-'' \<or> number_int (drop_minus s) = Some ''.''
    \<or> (case number_rest s of None \<Rightarrow> False | Some r \<Rightarrow> exponent_open r)"
  by (auto simp: partial_number_def number_rest_def split: option.splits list.splits)

lemma not_digit [simp]: "\<not> json_digit (CHR ''.'')" "\<not> json_digit (CHR ''-'')" "\<not> json_digit (CHR ''+'')"
  "\<not> json_digit (CHR ''e'')" "\<not> json_digit (CHR ''E'')" "json_digit (CHR ''0'')"
  by (simp_all add: json_digit_def code_of_def)

lemma exponent_not_digit [simp]: "exponent_char c \<Longrightarrow> \<not> json_digit c" "\<not> exponent_char (CHR ''.'')"
  by (auto simp: exponent_char_def)

lemma dropWhile_digits_append: "dropWhile json_digit (r @ v) =
    (if dropWhile json_digit r = [] then dropWhile json_digit v else dropWhile json_digit r @ v)"
  by (induction r) auto

lemma number_int_append:
  assumes "number_int t = Some r" "r \<noteq> []"
  shows "number_int (t @ v) = Some (r @ v)"
  using assms by (cases t) (auto simp: number_int_def dropWhile_digits_append split: if_splits)

lemma number_int_None: "t \<noteq> [] \<Longrightarrow> number_int t = None \<Longrightarrow> number_int (t @ v) = None"
  by (cases t) (auto simp: number_int_def split: if_splits)

lemma number_fraction_append:
  assumes "number_fraction t = Some r" "r \<noteq> []"
  shows "number_fraction (t @ v) = Some (r @ v)"
  using assms by (cases t; cases "tl t") (auto simp: number_fraction_def dropWhile_digits_append split: if_splits)

lemma number_fraction_None: "t \<noteq> ''.'' \<Longrightarrow> number_fraction t = None \<Longrightarrow> number_fraction (t @ v) = None"
  by (cases t; cases "tl t") (auto simp: number_fraction_def split: if_splits)

lemma drop_minus_append: "s \<noteq> [] \<Longrightarrow> drop_minus (s @ v) = drop_minus s @ v"
  by (cases s) (auto simp: drop_minus_def)

lemma drop_minus_Nil: "s \<noteq> [] \<Longrightarrow> drop_minus s = [] \<Longrightarrow> s = ''-''"
  by (cases s) (auto simp: drop_minus_def split: if_splits)

lemma exponent_append:
  "exponent_rest (r @ v) \<Longrightarrow> r \<noteq> [] \<Longrightarrow> exponent_rest r \<or> exponent_open r"
proof (cases r)
  case (Cons c r')
  assume e: "exponent_rest (r @ v)"
  then have c: "exponent_char c" "drop_sign (r' @ v) \<noteq> []" "list_all json_digit (drop_sign (r' @ v))" using Cons by simp_all
  show ?thesis
  proof (cases r')
    case Nil then show ?thesis using c Cons by simp
  next
    case (Cons d r'')
    then show ?thesis using c \<open>r = c # r'\<close> by (cases r'') (auto simp: drop_sign_def split: if_splits)
  qed
qed simp

lemma exponent_open_0: "exponent_open r \<Longrightarrow> exponent_rest (r @ ''0'') \<and> \<not> exponent_rest r"
  by (cases r) (auto simp: drop_sign_def)

text \<open>A text starts a number without being one exactly when the second regular expression matches.\<close>

lemma partial_number_iff:
  assumes "s \<noteq> []"
  shows "partial_number s \<longleftrightarrow> (\<exists>v. full_number (s @ v)) \<and> \<not> full_number s"
proof
  assume "partial_number s"
  then consider "s = ''-''" | "number_int (drop_minus s) = Some ''.''"
    | r where "number_rest s = Some r" "exponent_open r"
    by (auto simp: partial_number_alt split: option.splits)
  then show "(\<exists>v. full_number (s @ v)) \<and> \<not> full_number s"
  proof cases
    case 1
    have "full_number ''-0''" "\<not> full_number ''-''"
      by (simp_all add: full_number_def number_int_def number_fraction_def drop_minus_def)
    then show ?thesis using 1 by (metis append_Cons append_Nil)
  next
    case 2
    then have "number_int (drop_minus (s @ ''0'')) = Some ''.0''"
      using number_int_append [OF 2] by (simp add: drop_minus_append [OF assms])
    then have "full_number (s @ ''0'')" by (simp add: full_number_def number_fraction_def)
    moreover have "\<not> full_number s" using 2 by (simp add: full_number_def number_fraction_def)
    ultimately show ?thesis by blast
  next
    case 3
    obtain i where i: "number_int (drop_minus s) = Some i" "number_fraction i = Some r"
      using 3(1) by (auto simp: number_rest_def bind_eq_Some_conv)
    have "r \<noteq> []" using 3(2) by auto
    then have "i \<noteq> []" using i(2) by (auto simp: number_fraction_def)
    have "number_rest (s @ ''0'') = Some (r @ ''0'')"
      unfolding number_rest_def drop_minus_append [OF assms]
      using number_int_append [OF i(1) \<open>i \<noteq> []\<close>] number_fraction_append [OF i(2) \<open>r \<noteq> []\<close>] by simp
    then have "full_number (s @ ''0'')" using exponent_open_0 [OF 3(2)] by (simp add: full_number_alt)
    moreover have "\<not> full_number s" using 3 exponent_open_0 by (simp add: full_number_alt)
    ultimately show ?thesis by blast
  qed
next
  assume "(\<exists>v. full_number (s @ v)) \<and> \<not> full_number s"
  then obtain v where v: "full_number (s @ v)" and n: "\<not> full_number s" by blast
  show "partial_number s"
  proof (rule ccontr)
    assume p: "\<not> partial_number s"
    have "drop_minus s \<noteq> []" using p drop_minus_Nil [OF assms] by (auto simp: partial_number_alt)
    moreover have "number_int (drop_minus s @ v) \<noteq> None"
      using v by (cases "number_int (drop_minus s @ v)") (simp_all add: full_number_def drop_minus_append [OF assms])
    ultimately obtain i where i: "number_int (drop_minus s) = Some i" using number_int_None [of "drop_minus s" v]
      by (cases "number_int (drop_minus s)") auto
    have "i \<noteq> []" using n i by (auto simp: full_number_def number_fraction_def)
    note i' = number_int_append [OF i this, of v]
    have "number_fraction (i @ v) \<noteq> None" using v i'
      by (cases "number_fraction (i @ v)") (simp_all add: full_number_def drop_minus_append [OF assms])
    moreover have "i \<noteq> ''.''" using p i by (auto simp: partial_number_alt)
    ultimately obtain r where r: "number_fraction i = Some r" using number_fraction_None [of i v] by (cases "number_fraction i") auto
    have "r \<noteq> []" using n i r by (auto simp: full_number_def)
    have "exponent_rest (r @ v)" using v i' number_fraction_append [OF r \<open>r \<noteq> []\<close>, of v]
      by (simp add: full_number_alt number_rest_def drop_minus_append [OF assms])
    then have "exponent_rest r \<or> exponent_open r" using exponent_append \<open>r \<noteq> []\<close> by blast
    then show False using n p i r by (auto simp: full_number_alt partial_number_alt number_rest_def)
  qed
qed

lemma digits1_Cons: "digits1 s \<longleftrightarrow> (\<exists>d ds. s = d # ds \<and> json_digit d \<and> list_all json_digit ds)"
  by (cases s) (auto simp: digits1_def)

lemma dropWhile_digits: "list_all json_digit ds \<Longrightarrow> \<not> (r \<noteq> [] \<and> json_digit (hd r)) \<Longrightarrow> dropWhile json_digit (ds @ r) = r"
  by (induction ds) (auto simp: dropWhile_eq_self_iff)

lemma span_digits: "\<exists>ds. r = ds @ dropWhile json_digit r \<and> list_all json_digit ds"
  by (intro exI [of _ "takeWhile json_digit r"]) (auto simp: list_all_iff dest: set_takeWhileD)

lemma exponent_rest_iff: "exponent_rest s \<longleftrightarrow>
    s = [] \<or> (\<exists>x sign ds. s = x # sign @ ds \<and> exponent_char x \<and> sign \<in> {[], ''+'', ''-''} \<and> digits1 ds)"
proof (cases s)
  case (Cons c r)
  have "\<exists>sign. sign \<in> {[], ''+'', ''-''} \<and> r = sign @ drop_sign r" by (cases r) (auto simp: drop_sign_def)
  then obtain sign where sign: "sign \<in> {[], ''+'', ''-''}" "r = sign @ drop_sign r" by blast
  have unsign: "drop_sign (g @ ds) = ds" if "g \<in> {[], ''+'', ''-''}" "digits1 ds" for g ds
    using that by (auto simp: drop_sign_def digits1_Cons)
  show ?thesis
  proof
    assume "exponent_rest s"
    then have "exponent_char c" "digits1 (drop_sign r)" using Cons by (simp_all add: digits1_def)
    then show "s = [] \<or> (\<exists>x sign ds. s = x # sign @ ds \<and> exponent_char x \<and> sign \<in> {[], ''+'', ''-''} \<and> digits1 ds)"
      using sign Cons by blast
  next
    assume "s = [] \<or> (\<exists>x sign ds. s = x # sign @ ds \<and> exponent_char x \<and> sign \<in> {[], ''+'', ''-''} \<and> digits1 ds)"
    then obtain g ds where "r = g @ ds" "exponent_char c" "g \<in> {[], ''+'', ''-''}" "digits1 ds" using Cons by auto
    then show "exponent_rest s" using unsign Cons by (simp add: digits1_def)
  qed
qed simp

lemma number_fraction_iff:
  assumes "t = [] \<or> exponent_char (hd t)"
  shows "number_fraction s = Some t \<longleftrightarrow> (\<exists>f. s = f @ t \<and> (f = [] \<or> (\<exists>ds. f = CHR ''.'' # ds \<and> digits1 ds)))"
proof
  assume "number_fraction s = Some t"
  then consider "t = s" | d r' where "s = CHR ''.'' # d # r'" "json_digit d" "t = dropWhile json_digit r'"
    by (auto simp: number_fraction_def split: list.splits if_splits)
  then show "\<exists>f. s = f @ t \<and> (f = [] \<or> (\<exists>ds. f = CHR ''.'' # ds \<and> digits1 ds))"
  proof cases
    case 2
    then obtain ds where "r' = ds @ t" "list_all json_digit ds" using span_digits by blast
    then show ?thesis using 2 by (intro exI [of _ "CHR ''.'' # d # ds"]) (simp add: digits1_def)
  qed simp
next
  have t: "\<not> (t \<noteq> [] \<and> json_digit (hd t))" "t \<noteq> [] \<longrightarrow> hd t \<noteq> CHR ''.''" using assms by auto
  assume "\<exists>f. s = f @ t \<and> (f = [] \<or> (\<exists>ds. f = CHR ''.'' # ds \<and> digits1 ds))"
  then consider "s = t" | d ds where "s = CHR ''.'' # d # ds @ t" "json_digit d" "list_all json_digit ds"
    by (auto simp: digits1_Cons)
  then show "number_fraction s = Some t"
    by cases (use t dropWhile_digits [OF _ t(1)] in \<open>auto simp: number_fraction_def split: list.splits\<close>)
qed

lemma number_int_iff:
  assumes "t = [] \<or> \<not> json_digit (hd t)"
  shows "number_int s = Some t \<longleftrightarrow> (\<exists>i. s = i @ t \<and> (i = ''0'' \<or> (digits1 i \<and> hd i \<noteq> CHR ''0'')))"
proof
  assume "number_int s = Some t"
  then consider "s = CHR ''0'' # t" | d r' where "s = d # r'" "json_digit d" "d \<noteq> CHR ''0''" "t = dropWhile json_digit r'"
    by (auto simp: number_int_def split: list.splits if_splits)
  then show "\<exists>i. s = i @ t \<and> (i = ''0'' \<or> (digits1 i \<and> hd i \<noteq> CHR ''0''))"
  proof cases
    case 2
    then obtain ds where "r' = ds @ t" "list_all json_digit ds" using span_digits by blast
    then show ?thesis using 2 by (intro exI [of _ "d # ds"]) (simp add: digits1_def)
  qed simp
next
  assume "\<exists>i. s = i @ t \<and> (i = ''0'' \<or> (digits1 i \<and> hd i \<noteq> CHR ''0''))"
  then consider "s = CHR ''0'' # t" | d ds where "s = d # ds @ t" "json_digit d" "d \<noteq> CHR ''0''" "list_all json_digit ds"
    by (auto simp: digits1_Cons)
  then show "number_int s = Some t"
    by cases (use assms in \<open>auto simp: number_int_def dropWhile_digits\<close>)
qed

lemma full_number_iff: "full_number s \<longleftrightarrow> json_number s"
proof
  assume "full_number s"
  then obtain i e where i: "number_int (drop_minus s) = Some i" and e: "number_fraction i = Some e" "exponent_rest e"
    by (auto simp: full_number_alt number_rest_def bind_eq_Some_conv split: option.splits)
  have e': "e = [] \<or> exponent_char (hd e)" using e(2) by (cases e) auto
  obtain f where f: "i = f @ e" "f = [] \<or> (\<exists>ds. f = CHR ''.'' # ds \<and> digits1 ds)" using e(1) number_fraction_iff [OF e'] by blast
  have "i = [] \<or> \<not> json_digit (hd i)" using f e' by auto
  then obtain n where n: "drop_minus s = n @ i" "n = ''0'' \<or> (digits1 n \<and> hd n \<noteq> CHR ''0'')" using i number_int_iff by blast
  have "\<exists>m. s = m @ drop_minus s \<and> m \<in> {[], ''-''}" by (cases s) (auto simp: drop_minus_def)
  then obtain m where m: "s = m @ drop_minus s" "m \<in> {[], ''-''}" by blast
  have s: "s = m @ n @ f @ e" using m(1) n(1) f(1) by simp
  show "json_number s" unfolding json_number_def
    by (rule exI [of _ m], rule exI [of _ n], rule exI [of _ f], rule exI [of _ e], intro conjI)
      (rule s, rule m(2), rule n(2), rule f(2), rule e(2) [unfolded exponent_rest_iff])
next
  assume "json_number s"
  then obtain m n f e where s: "s = m @ n @ f @ e" "m \<in> {[], ''-''}" and n: "n = ''0'' \<or> (digits1 n \<and> hd n \<noteq> CHR ''0'')"
    and f: "f = [] \<or> (\<exists>ds. f = CHR ''.'' # ds \<and> digits1 ds)" and e: "exponent_rest e"
    unfolding json_number_def exponent_rest_iff by blast
  have e': "e = [] \<or> exponent_char (hd e)" using e by (cases e) auto
  have "drop_minus s = n @ f @ e" using s n by (auto simp: drop_minus_def digits1_Cons)
  moreover have "f @ e = [] \<or> \<not> json_digit (hd (f @ e))" using f e' by (auto simp: hd_append)
  ultimately have "number_int (drop_minus s) = Some (f @ e)" using n by (simp add: number_int_iff)
  moreover have "number_fraction (f @ e) = Some e" using f by (simp add: number_fraction_iff [OF e'])
  ultimately show "full_number s" using e by (simp add: full_number_alt number_rest_def)
qed

lemma number_char_digits: "digits1 ds \<Longrightarrow> list_all number_char ds"
  by (simp add: digits1_def number_char_def list_all_iff)

lemma number_char_signs: "number_char (CHR ''.'')" "number_char (CHR ''-'')" "number_char (CHR ''+'')" "number_char (CHR ''0'')"
  "exponent_char c \<Longrightarrow> number_char c"
  by (auto simp: number_char_def exponent_char_def)

lemma number_chars:
  assumes "json_number v"
  shows "list_all number_char v"
proof -
  obtain m n f e where v: "v = m @ n @ f @ e" "m \<in> {[], ''-''}" "n = ''0'' \<or> (digits1 n \<and> hd n \<noteq> CHR ''0'')"
    "f = [] \<or> (\<exists>ds. f = CHR ''.'' # ds \<and> digits1 ds)"
    "e = [] \<or> (\<exists>x sign ds. e = x # sign @ ds \<and> exponent_char x \<and> sign \<in> {[], ''+'', ''-''} \<and> digits1 ds)"
    using assms unfolding json_number_def by blast
  have "list_all number_char m" "list_all number_char n" "list_all number_char f" "list_all number_char e"
    using v(2-5) by (auto simp: number_char_signs number_char_digits)
  then show ?thesis using v(1) by simp
qed

lemma number_head:
  assumes "json_number v"
  shows "\<exists>c r. v = c # r \<and> (c = CHR ''-'' \<or> json_digit c)"
proof -
  obtain m n f e where v: "v = m @ n @ f @ e" "m \<in> {[], ''-''}" "n = ''0'' \<or> (digits1 n \<and> hd n \<noteq> CHR ''0'')"
    using assms unfolding json_number_def by blast
  then show ?thesis by (auto simp: digits1_Cons)
qed

end
