(* ===== verification/TruncatedJsonExact.thy ===== *)
theory TruncatedJsonExact
  imports JsonGrammar
begin

text \<open>
  The recogniser of truncated JSON is exact: it accepts precisely the proper prefixes of JSON texts.
  The proof gives every stack of frames the set of texts that complete it, and shows that a step of
  the recogniser removes a token from the front of them.
\<close>

section \<open>What completes a frame\<close>

definition array_end :: "string \<Rightarrow> bool" where
  "array_end x \<longleftrightarrow> (\<exists>w. json_blank w \<and> (x = w @ '']'' \<or> (\<exists>y. json_elements y \<and> x = w @ CHR '','' # y @ '']'')))"

definition object_end :: "string \<Rightarrow> bool" where
  "object_end x \<longleftrightarrow> (\<exists>w. json_blank w \<and> (x = w @ ''}'' \<or> (\<exists>y. json_members y \<and> x = w @ CHR '','' # y @ ''}'')))"

fun tail_text :: "frame_kind \<Rightarrow> frame_state \<Rightarrow> string \<Rightarrow> bool" where
  "tail_text F_root Want_value x \<longleftrightarrow> json_text x"
| "tail_text F_root At_end x \<longleftrightarrow> json_blank x"
| "tail_text F_array Want_value x \<longleftrightarrow> (\<exists>y. json_elements y \<and> x = y @ '']'')"
| "tail_text F_array Value_or_end x \<longleftrightarrow> (\<exists>w. json_blank w \<and> x = w @ '']'') \<or> (\<exists>y. json_elements y \<and> x = y @ '']'')"
| "tail_text F_array Want_comma x \<longleftrightarrow> array_end x"
| "tail_text F_object Want_key x \<longleftrightarrow> (\<exists>y. json_members y \<and> x = y @ ''}'')"
| "tail_text F_object Key_or_end x \<longleftrightarrow> (\<exists>w. json_blank w \<and> x = w @ ''}'') \<or> (\<exists>y. json_members y \<and> x = y @ ''}'')"
| "tail_text F_object Want_comma x \<longleftrightarrow> object_end x"
| "tail_text F_object Want_value x \<longleftrightarrow> (\<exists>w v r. x = w @ v @ r \<and> json_blank w \<and> json_value v \<and> object_end r)"
| "tail_text F_object Want_colon x \<longleftrightarrow>
     (\<exists>w1 w v r. x = w1 @ CHR '':'' # w @ v @ r \<and> json_blank w1 \<and> json_blank w \<and> json_value v \<and> object_end r)"
| "tail_text _ _ x \<longleftrightarrow> False"

text \<open>The first token of a text, for a frame kind and state; it never starts with a blank.\<close>

definition value_core :: "frame_kind \<Rightarrow> string \<Rightarrow> bool" where
  "value_core k x \<longleftrightarrow> (\<exists>v r. x = v @ r \<and> json_value v \<and> tail_text k (after_value k) r)"

definition key_core :: "frame_kind \<Rightarrow> string \<Rightarrow> bool" where
  "key_core k x \<longleftrightarrow> (\<exists>s r. x = s @ r \<and> json_string s \<and> tail_text k Want_colon r)"

fun core_text :: "frame_kind \<Rightarrow> frame_state \<Rightarrow> string \<Rightarrow> bool" where
  "core_text k At_end x \<longleftrightarrow> x = []"
| "core_text k Want_value x \<longleftrightarrow> value_core k x"
| "core_text k Value_or_end x \<longleftrightarrow> x = [closing k] \<or> value_core k x"
| "core_text k Want_key x \<longleftrightarrow> key_core k x"
| "core_text k Key_or_end x \<longleftrightarrow> x = [closing k] \<or> key_core k x"
| "core_text k Want_colon x \<longleftrightarrow> (\<exists>y. x = CHR '':'' # y \<and> tail_text k Want_value y)"
| "core_text k Want_comma x \<longleftrightarrow> x = [closing k] \<or> (\<exists>y. x = CHR '','' # y \<and> tail_text k (after_comma k) y)"

definition valid_frame :: "frame_kind \<Rightarrow> frame_state \<Rightarrow> bool" where
  "valid_frame k st \<longleftrightarrow> (k = F_root \<and> (st = Want_value \<or> st = At_end))
     \<or> (k = F_array \<and> (st = Want_value \<or> st = Value_or_end \<or> st = Want_comma))
     \<or> (k = F_object \<and> (st = Want_key \<or> st = Key_or_end \<or> st = Want_colon \<or> st = Want_value \<or> st = Want_comma))"

definition skipping :: "(string \<Rightarrow> bool) \<Rightarrow> string \<Rightarrow> bool" where
  "skipping P x \<longleftrightarrow> (\<exists>w r. x = w @ r \<and> json_blank w \<and> P r)"

lemma json_blank_simps [simp]: "json_blank []" "json_blank (c # w) \<longleftrightarrow> json_blank_char c \<and> json_blank w"
  "json_blank (w @ w') \<longleftrightarrow> json_blank w \<and> json_blank w'"
  by (simp_all add: json_blank_def)

lemma skipping_Nil: "skipping P [] \<longleftrightarrow> P []"
  by (simp add: skipping_def)

lemma skipping_nonblank:
  assumes "\<not> json_blank_char c"
  shows "skipping P (c # s) \<longleftrightarrow> P (c # s)"
proof
  assume "skipping P (c # s)"
  then obtain w r where wr: "c # s = w @ r" "json_blank w" "P r" unfolding skipping_def by blast
  then have "w = []" using assms by (cases w) auto
  then show "P (c # s)" using wr by simp
next
  assume "P (c # s)"
  then show "skipping P (c # s)" unfolding skipping_def by (metis append_Nil json_blank_simps(1))
qed

lemma skipping_blank:
  assumes "json_blank_char c" "\<And>s. \<not> P (c # s)"
  shows "skipping P (c # s) \<longleftrightarrow> skipping P s"
proof
  assume "skipping P (c # s)"
  then obtain w r where wr: "c # s = w @ r" "json_blank w" "P r" unfolding skipping_def by blast
  then obtain w' where "w = c # w'" using assms(2) by (cases w) auto
  then show "skipping P s" using wr unfolding skipping_def by auto
next
  assume "skipping P s"
  then obtain w r where "s = w @ r" "json_blank w" "P r" unfolding skipping_def by blast
  then show "skipping P (c # s)" using assms(1) unfolding skipping_def by (intro exI [of _ "c # w"] exI [of _ r]) simp
qed

lemma elements_iff: "json_elements y \<longleftrightarrow> (\<exists>w v r. y = w @ v @ r \<and> json_blank w \<and> json_value v
    \<and> (json_blank r \<or> (\<exists>w' y'. r = w' @ CHR '','' # y' \<and> json_blank w' \<and> json_elements y')))"
  by (subst json_elements.simps) blast

lemma members_iff: "json_members y \<longleftrightarrow> (\<exists>w k u w1 v r. y = w @ k @ u @ CHR '':'' # w1 @ v @ r \<and> json_blank w \<and> json_string k
    \<and> json_blank u \<and> json_blank w1 \<and> json_value v
    \<and> (json_blank r \<or> (\<exists>w' y'. r = w' @ CHR '','' # y' \<and> json_blank w' \<and> json_members y')))"
  by (subst json_members.simps) blast

lemma elements_end: "(\<exists>y. json_elements y \<and> x = y @ '']'') \<longleftrightarrow>
    (\<exists>w v r. x = w @ v @ r \<and> json_blank w \<and> json_value v \<and> array_end r)" (is "?l \<longleftrightarrow> ?r")
proof
  assume ?l
  then obtain y where y: "json_elements y" "x = y @ '']''" by blast
  obtain w v r where x: "y = w @ v @ r" "json_blank w" "json_value v"
    "json_blank r \<or> (\<exists>w' y'. r = w' @ CHR '','' # y' \<and> json_blank w' \<and> json_elements y')"
    using iffD1 [OF elements_iff y(1)] by blast
  have "array_end (r @ '']'')" using x(4) unfolding array_end_def by auto
  moreover have "x = w @ v @ r @ '']''" using x(1) y(2) by simp
  ultimately show ?r using x(2,3) by blast
next
  assume ?r
  then obtain w v r w' where "x = w @ v @ r" and b: "json_blank w" "json_value v" "json_blank w'"
    and "r = w' @ '']'' \<or> (\<exists>y. json_elements y \<and> r = w' @ CHR '','' # y @ '']'')" unfolding array_end_def by blast
  then have "x = (w @ v @ w') @ '']'' \<or> (\<exists>y. json_elements y \<and> x = (w @ v @ w' @ CHR '','' # y) @ '']'')" by auto
  then show ?l using elements_one [OF b] elements_more [OF b] by blast
qed

lemma members_end: "(\<exists>y. json_members y \<and> x = y @ ''}'') \<longleftrightarrow>
    (\<exists>w s r. x = w @ s @ r \<and> json_blank w \<and> json_string s \<and> tail_text F_object Want_colon r)" (is "?l \<longleftrightarrow> ?r")
proof
  assume ?l
  then obtain y where y: "json_members y" "x = y @ ''}''" by blast
  obtain w k u w1 v r where x: "y = w @ k @ u @ CHR '':'' # w1 @ v @ r" "json_blank w" "json_string k"
    "json_blank u" "json_blank w1" "json_value v"
    "json_blank r \<or> (\<exists>w' y'. r = w' @ CHR '','' # y' \<and> json_blank w' \<and> json_members y')"
    using iffD1 [OF members_iff y(1)] by blast
  have "object_end (r @ ''}'')" using x(7) unfolding object_end_def by auto
  then have "tail_text F_object Want_colon (u @ CHR '':'' # w1 @ v @ r @ ''}'')"
    unfolding tail_text.simps using x(4-6) by blast
  moreover have "x = w @ k @ u @ CHR '':'' # w1 @ v @ r @ ''}''" using x(1) y(2) by simp
  ultimately show ?r using x(2,3) by blast
next
  assume ?r
  then obtain w s u w1 v r w' where "x = w @ s @ u @ CHR '':'' # w1 @ v @ r"
    and b: "json_blank w" "json_string s" "json_blank u" "json_blank w1" "json_value v" "json_blank w'"
    and "r = w' @ ''}'' \<or> (\<exists>y. json_members y \<and> r = w' @ CHR '','' # y @ ''}'')" unfolding tail_text.simps object_end_def by blast
  then have "x = (w @ s @ u @ CHR '':'' # w1 @ v @ w') @ ''}'' \<or>
      (\<exists>y. json_members y \<and> x = (w @ s @ u @ CHR '':'' # w1 @ v @ w' @ CHR '','' # y) @ ''}'')" by auto
  then show ?l using members_one [OF b] members_more [OF b] by blast
qed

lemma tail_skipping:
  assumes "valid_frame k st"
  shows "tail_text k st x \<longleftrightarrow> skipping (core_text k st) x"
proof -
  have v: "skipping (value_core k) x \<longleftrightarrow> (\<exists>w v r. x = w @ v @ r \<and> json_blank w \<and> json_value v \<and> tail_text k (after_value k) r)" for k x
    unfolding skipping_def value_core_def by blast
  have k: "skipping (key_core k) x \<longleftrightarrow> (\<exists>w s r. x = w @ s @ r \<and> json_blank w \<and> json_string s \<and> tail_text k Want_colon r)" for k x
    unfolding skipping_def key_core_def by blast
  have or: "skipping (\<lambda>x. x = [c] \<or> Q x) x \<longleftrightarrow> (\<exists>w. json_blank w \<and> x = w @ [c]) \<or> skipping Q x" for c Q x
    unfolding skipping_def by blast
  have comma: "skipping (\<lambda>x. \<exists>y. x = c # y \<and> P y) x \<longleftrightarrow> (\<exists>w y. json_blank w \<and> P y \<and> x = w @ c # y)" for c P x
    unfolding skipping_def by blast
  have core: "core_text k Want_value = value_core k" "core_text k Want_key = key_core k"
    "core_text k Value_or_end = (\<lambda>x. x = [closing k] \<or> value_core k x)"
    "core_text k Key_or_end = (\<lambda>x. x = [closing k] \<or> key_core k x)"
    "core_text k Want_colon = (\<lambda>x. \<exists>y. x = CHR '':'' # y \<and> tail_text k Want_value y)"
    "core_text k Want_comma = (\<lambda>x. x = [closing k] \<or> (\<exists>y. x = CHR '','' # y \<and> tail_text k (after_comma k) y))"
    for k by (rule ext, simp)+
  note after = after_value_def after_comma_def closing_def
  consider "k = F_root" "st = Want_value" | "k = F_root" "st = At_end" | "k = F_array" "st = Want_value"
    | "k = F_array" "st = Value_or_end" | "k = F_array" "st = Want_comma" | "k = F_object" "st = Want_key"
    | "k = F_object" "st = Key_or_end" | "k = F_object" "st = Want_colon" | "k = F_object" "st = Want_value"
    | "k = F_object" "st = Want_comma" using assms unfolding valid_frame_def by blast
  then show ?thesis
  proof cases
    case 1 then show ?thesis by (simp add: core v after json_text_def)
  next
    case 2 then show ?thesis by (auto simp: skipping_def)
  next
    case 3 then show ?thesis by (simp add: core v after elements_end)
  next
    case 4 then show ?thesis by (simp add: core or v after elements_end)
  next
    case 5 then show ?thesis by (simp add: core or comma after array_end_def) blast
  next
    case 6 then show ?thesis unfolding 6 core k tail_text.simps(6) members_end by simp
  next
    case 7 then show ?thesis unfolding 7 core k or tail_text.simps(7) members_end by (simp add: after)
  next
    case 8 show ?thesis unfolding 8 core comma tail_text.simps by blast
  next
    case 9 then show ?thesis by (simp add: core v after)
  next
    case 10 then show ?thesis by (simp add: core or comma after object_end_def) blast
  qed
qed

section \<open>The first character of a value\<close>

definition literal_char :: "char \<Rightarrow> bool" where
  "literal_char c \<longleftrightarrow> c \<in> set ''tfn''"

definition number_start :: "char \<Rightarrow> bool" where
  "number_start c \<longleftrightarrow> c = CHR ''-'' \<or> json_digit c"

lemma literal_charE: "literal_char c \<Longrightarrow> (c = CHR ''t'' \<Longrightarrow> P) \<Longrightarrow> (c = CHR ''f'' \<Longrightarrow> P) \<Longrightarrow> (c = CHR ''n'' \<Longrightarrow> P) \<Longrightarrow> P"
  by (auto simp: literal_char_def)

text \<open>The kinds of first characters exclude each other.\<close>

lemma starts_distinct [simp]:
  "\<not> literal_char quote_char" "\<not> literal_char (CHR ''['')" "\<not> literal_char (CHR ''{'')"
  "\<not> literal_char (CHR '']'')" "\<not> literal_char (CHR ''}'')"
  "\<not> number_start quote_char" "\<not> number_start (CHR ''['')" "\<not> number_start (CHR ''{'')"
  "\<not> number_start (CHR '']'')" "\<not> number_start (CHR ''}'')"
  "quote_char \<noteq> CHR ''[''" "quote_char \<noteq> CHR ''{''" "quote_char \<noteq> CHR '']''" "quote_char \<noteq> CHR ''}''"
  "CHR ''['' \<noteq> quote_char" "CHR ''{'' \<noteq> quote_char" "CHR '']'' \<noteq> quote_char" "CHR ''}'' \<noteq> quote_char"
  by (simp_all add: literal_char_def number_start_def json_digit_def quote_char_def code_of_def)

lemma literal_not_number: "literal_char c \<Longrightarrow> \<not> number_start c"
  by (erule literal_charE) (simp_all add: number_start_def json_digit_def code_of_def)

lemma not_blank [simp]: "\<not> json_blank_char quote_char" "\<not> json_blank_char (CHR ''['')" "\<not> json_blank_char (CHR ''{'')"
  "\<not> json_blank_char (CHR '']'')" "\<not> json_blank_char (CHR ''}'')" "\<not> json_blank_char (CHR '','')" "\<not> json_blank_char (CHR '':'')"
  by (simp_all add: json_blank_char_def code_of_def quote_char_def)

lemma start_not_blank: "literal_char c \<or> number_start c \<Longrightarrow> \<not> json_blank_char c"
  by (auto simp: literal_char_def number_start_def json_blank_char_def json_digit_def code_of_def)

lemma json_literal_head: "literal_char c \<Longrightarrow> \<exists>r. json_literal c = c # r"
  by (erule literal_charE) (simp_all add: json_literal_def)

lemma json_literals: "json_literal (CHR ''t'') = ''true''" "json_literal (CHR ''f'') = ''false''" "json_literal (CHR ''n'') = ''null''"
  "literal_char (CHR ''t'')" "literal_char (CHR ''f'')" "literal_char (CHR ''n'')"
  by (simp_all add: json_literal_def literal_char_def)

lemma literal_iff: "(v = ''true'' \<or> v = ''false'' \<or> v = ''null'') \<longleftrightarrow> (\<exists>c r. v = c # r \<and> literal_char c \<and> v = json_literal c)"
proof
  assume "v = ''true'' \<or> v = ''false'' \<or> v = ''null''"
  then show "\<exists>c r. v = c # r \<and> literal_char c \<and> v = json_literal c" using json_literals by metis
next
  assume "\<exists>c r. v = c # r \<and> literal_char c \<and> v = json_literal c"
  then show "v = ''true'' \<or> v = ''false'' \<or> v = ''null''" by (metis json_literals(1-3) literal_charE)
qed

lemma json_value_iff: "json_value v \<longleftrightarrow>
    (\<exists>c r. v = c # r \<and> ((literal_char c \<and> v = json_literal c) \<or> (number_start c \<and> json_number v)
      \<or> (c = quote_char \<and> (\<exists>b. r = b @ [quote_char] \<and> json_chars b))
      \<or> (c = CHR ''['' \<and> tail_text F_array Value_or_end r) \<or> (c = CHR ''{'' \<and> tail_text F_object Key_or_end r)))"
proof -
  have "json_value v \<longleftrightarrow> (v = ''true'' \<or> v = ''false'' \<or> v = ''null'') \<or> json_number v \<or> json_string v
      \<or> (\<exists>r. v = CHR ''['' # r \<and> tail_text F_array Value_or_end r) \<or> (\<exists>r. v = CHR ''{'' # r \<and> tail_text F_object Key_or_end r)"
    (is "_ \<longleftrightarrow> ?r")
  proof
    assume "json_value v"
    then show ?r
    proof (cases rule: json_value.cases)
      case (value_empty_array w)
      then have "tail_text F_array Value_or_end (w @ '']'')" by auto
      then show ?thesis using value_empty_array(1) by blast
    next
      case (value_array y)
      then have "tail_text F_array Value_or_end (y @ '']'')" by auto
      then show ?thesis using value_array(1) by blast
    next
      case (value_empty_object w)
      then have "tail_text F_object Key_or_end (w @ ''}'')" by auto
      then show ?thesis using value_empty_object(1) by blast
    next
      case (value_object y)
      then have "tail_text F_object Key_or_end (y @ ''}'')" by auto
      then show ?thesis using value_object(1) by blast
    qed simp_all
  next
    assume ?r
    then show "json_value v" unfolding tail_text.simps
      using value_literal [of v] value_number [of v] value_string [of v] value_array value_empty_array value_object value_empty_object by blast
  qed
  also have "json_number v \<longleftrightarrow> (\<exists>c r. v = c # r \<and> number_start c \<and> json_number v)"
    using number_head [of v] unfolding number_start_def by blast
  finally show ?thesis unfolding literal_iff json_string_def by blast
qed

lemma ex_snoc_append: "(\<exists>v r. a = v @ r \<and> (\<exists>b. v = b @ [q] \<and> C b) \<and> T r) \<longleftrightarrow> (\<exists>r. (\<exists>b. a = b @ q # r \<and> C b) \<and> T r)"
proof
  assume "\<exists>v r. a = v @ r \<and> (\<exists>b. v = b @ [q] \<and> C b) \<and> T r"
  then obtain b r where b: "a = (b @ [q]) @ r" "C b" "T r" by blast
  have "a = b @ q # r" using b(1) by simp
  then show "\<exists>r. (\<exists>b. a = b @ q # r \<and> C b) \<and> T r" using b by blast
next
  assume "\<exists>r. (\<exists>b. a = b @ q # r \<and> C b) \<and> T r"
  then obtain b r where b: "a = b @ q # r" "C b" "T r" by blast
  have "a = (b @ [q]) @ r" using b(1) by simp
  then show "\<exists>v r. a = v @ r \<and> (\<exists>b. v = b @ [q] \<and> C b) \<and> T r" using b by blast
qed

lemma value_core_starts:
  shows "literal_char c \<Longrightarrow> value_core k (c # a) \<longleftrightarrow> (\<exists>r. c # a = json_literal c @ r \<and> tail_text k (after_value k) r)"
    and "number_start c \<Longrightarrow> value_core k (c # a) \<longleftrightarrow> (\<exists>v r. c # a = v @ r \<and> json_number v \<and> tail_text k (after_value k) r)"
    and "value_core k (quote_char # a) \<longleftrightarrow> (\<exists>r. scan_string 0 a = Scan_complete r \<and> tail_text k (after_value k) r)"
    and "value_core k (CHR ''['' # a) \<longleftrightarrow> (\<exists>x r. a = x @ r \<and> tail_text F_array Value_or_end x \<and> tail_text k (after_value k) r)"
    and "value_core k (CHR ''{'' # a) \<longleftrightarrow> (\<exists>x r. a = x @ r \<and> tail_text F_object Key_or_end x \<and> tail_text k (after_value k) r)"
    and "\<not> literal_char c \<Longrightarrow> \<not> number_start c \<Longrightarrow> c \<noteq> quote_char \<Longrightarrow> c \<noteq> CHR ''['' \<Longrightarrow> c \<noteq> CHR ''{'' \<Longrightarrow> \<not> value_core k (c # a)"
    and "\<not> value_core k []"
proof -
  have vc: "value_core k (c # a) \<longleftrightarrow> (\<exists>v r. a = v @ r \<and> json_value (c # v) \<and> tail_text k (after_value k) r)" for c
  proof
    assume "value_core k (c # a)"
    then obtain v r where v: "c # a = v @ r" "json_value v" "tail_text k (after_value k) r" unfolding value_core_def by blast
    obtain c' v' where "v = c' # v'" using json_value_iff [of v] v(2) by blast
    then have "v = c # v'" "a = v' @ r" using v(1) by simp_all
    then show "\<exists>v r. a = v @ r \<and> json_value (c # v) \<and> tail_text k (after_value k) r" using v by blast
  next
    assume "\<exists>v r. a = v @ r \<and> json_value (c # v) \<and> tail_text k (after_value k) r"
    then show "value_core k (c # a)" unfolding value_core_def by (metis append_Cons)
  qed
  show "value_core k (c # a) \<longleftrightarrow> (\<exists>r. c # a = json_literal c @ r \<and> tail_text k (after_value k) r)" if "literal_char c"
  proof -
    have "json_value (c # v) \<longleftrightarrow> c # v = json_literal c" for v
      unfolding json_value_iff [of "c # v"] using that literal_not_number [OF that] by (auto simp del: tail_text.simps)
    then show ?thesis unfolding vc by (metis append_Cons list.inject json_literal_head [OF that])
  qed
  show "value_core k (c # a) \<longleftrightarrow> (\<exists>v r. c # a = v @ r \<and> json_number v \<and> tail_text k (after_value k) r)" if "number_start c"
  proof -
    have "json_value (c # v) \<longleftrightarrow> json_number (c # v)" for v
      unfolding json_value_iff [of "c # v"] using that literal_not_number [of c] by (auto simp del: tail_text.simps)
    then have "value_core k (c # a) \<longleftrightarrow> (\<exists>v r. a = v @ r \<and> json_number (c # v) \<and> tail_text k (after_value k) r)"
      unfolding vc by simp
    also have "\<dots> \<longleftrightarrow> (\<exists>v r. c # a = v @ r \<and> json_number v \<and> tail_text k (after_value k) r)"
    proof
      assume "\<exists>v r. a = v @ r \<and> json_number (c # v) \<and> tail_text k (after_value k) r"
      then show "\<exists>v r. c # a = v @ r \<and> json_number v \<and> tail_text k (after_value k) r" by (metis append_Cons)
    next
      assume "\<exists>v r. c # a = v @ r \<and> json_number v \<and> tail_text k (after_value k) r"
      then obtain v r where v: "c # a = v @ r" "json_number v" "tail_text k (after_value k) r" by blast
      obtain c' v' where "v = c' # v'" using number_head [OF v(2)] by blast
      then have "v = c # v'" "a = v' @ r" using v(1) by simp_all
      then show "\<exists>v r. a = v @ r \<and> json_number (c # v) \<and> tail_text k (after_value k) r" using v by blast
    qed
    finally show ?thesis .
  qed
  have "json_value (quote_char # v) \<longleftrightarrow> (\<exists>b. v = b @ [quote_char] \<and> json_chars b)" for v
    unfolding json_value_iff [of "quote_char # v"] by (auto simp del: tail_text.simps)
  then show "value_core k (quote_char # a) \<longleftrightarrow> (\<exists>r. scan_string 0 a = Scan_complete r \<and> tail_text k (after_value k) r)"
    unfolding vc scan_complete_iff by (simp only: ex_snoc_append)
  have "json_value (CHR ''['' # v) \<longleftrightarrow> tail_text F_array Value_or_end v" for v
    unfolding json_value_iff [of "CHR ''['' # v"] by (auto simp del: tail_text.simps)
  then show "value_core k (CHR ''['' # a) \<longleftrightarrow> (\<exists>x r. a = x @ r \<and> tail_text F_array Value_or_end x \<and> tail_text k (after_value k) r)"
    unfolding vc by blast
  have "json_value (CHR ''{'' # v) \<longleftrightarrow> tail_text F_object Key_or_end v" for v
    unfolding json_value_iff [of "CHR ''{'' # v"] by (auto simp del: tail_text.simps)
  then show "value_core k (CHR ''{'' # a) \<longleftrightarrow> (\<exists>x r. a = x @ r \<and> tail_text F_object Key_or_end x \<and> tail_text k (after_value k) r)"
    unfolding vc by blast
  show "\<not> literal_char c \<Longrightarrow> \<not> number_start c \<Longrightarrow> c \<noteq> quote_char \<Longrightarrow> c \<noteq> CHR ''['' \<Longrightarrow> c \<noteq> CHR ''{'' \<Longrightarrow> \<not> value_core k (c # a)"
    unfolding vc json_value_iff [of "c # _"] by blast
  show "\<not> value_core k []" unfolding value_core_def using json_value_iff by auto
qed

lemma key_core_starts:
  shows "key_core k (quote_char # a) \<longleftrightarrow> (\<exists>r. scan_string 0 a = Scan_complete r \<and> tail_text k Want_colon r)"
    and "c \<noteq> quote_char \<Longrightarrow> \<not> key_core k (c # a)" and "\<not> key_core k []"
proof -
  have "key_core k x \<longleftrightarrow> (\<exists>b r. x = quote_char # b @ quote_char # r \<and> json_chars b \<and> tail_text k Want_colon r)" for x
  proof
    assume "key_core k x"
    then obtain b r where b: "x = (quote_char # b @ [quote_char]) @ r" "json_chars b" "tail_text k Want_colon r"
      unfolding key_core_def json_string_def by blast
    have "x = quote_char # b @ quote_char # r" using b(1) by simp
    then show "\<exists>b r. x = quote_char # b @ quote_char # r \<and> json_chars b \<and> tail_text k Want_colon r" using b(2,3) by blast
  next
    assume "\<exists>b r. x = quote_char # b @ quote_char # r \<and> json_chars b \<and> tail_text k Want_colon r"
    then obtain b r where "x = (quote_char # b @ [quote_char]) @ r" "json_chars b" "tail_text k Want_colon r" by auto
    then show "key_core k x" unfolding key_core_def json_string_def by blast
  qed
  then show "key_core k (quote_char # a) \<longleftrightarrow> (\<exists>r. scan_string 0 a = Scan_complete r \<and> tail_text k Want_colon r)"
    and "c \<noteq> quote_char \<Longrightarrow> \<not> key_core k (c # a)" and "\<not> key_core k []"
    unfolding scan_complete_iff by (simp_all del: tail_text.simps) blast
qed

end
