(* ===== verification/TruncatedJsonProperties.thy ===== *)
theory TruncatedJsonProperties
  imports TruncatedJsonExact
begin

text \<open>Stacks of frames, the steps of the recogniser, and its exactness.\<close>

section \<open>What completes a stack\<close>

fun stack_text :: "frame list \<Rightarrow> string \<Rightarrow> bool" where
  "stack_text [] x \<longleftrightarrow> x = []"
| "stack_text ((k, st) # fs) x \<longleftrightarrow> (\<exists>a b. x = a @ b \<and> tail_text k st a \<and> stack_text fs b)"

text \<open>The root is the bottom frame, and a frame under another is past a value.\<close>

fun wf_stack :: "frame list \<Rightarrow> bool" where
  "wf_stack [] \<longleftrightarrow> False"
| "wf_stack [(k, st)] \<longleftrightarrow> k = F_root \<and> valid_frame k st"
| "wf_stack ((k, st) # f # fs) \<longleftrightarrow> k \<noteq> F_root \<and> valid_frame k st \<and> snd f = after_value (fst f) \<and> wf_stack (f # fs)"

lemma wf_valid: "wf_stack ((k, st) # fs) \<Longrightarrow> valid_frame k st"
  by (cases fs) auto

lemma wf_update: "wf_stack ((k, st) # fs) \<Longrightarrow> valid_frame k st' \<Longrightarrow> wf_stack ((k, st') # fs)"
  by (cases fs) auto

lemma wf_pop: "wf_stack ((k, st) # fs) \<Longrightarrow> k \<noteq> F_root \<Longrightarrow> wf_stack fs \<and> fs \<noteq> []"
  by (cases fs) auto

lemma wf_root: "wf_stack ((F_root, st) # fs) \<Longrightarrow> fs = []"
  by (cases fs) auto

lemma wf_push: "wf_stack ((k, st) # fs) \<Longrightarrow> st \<noteq> At_end \<Longrightarrow> valid_frame k' st' \<Longrightarrow> k' \<noteq> F_root \<Longrightarrow>
    wf_stack ((k', st') # (k, after_value k) # fs)"
  using wf_update [of k st fs "after_value k"] wf_valid [of k st fs] by (auto simp: valid_frame_def after_value_def)

lemma wf_after:
  assumes "wf_stack ((k, st) # fs)"
  shows "wf_stack ((k, after_value k) # fs)"
  by (rule wf_update [OF assms]) (use wf_valid [OF assms] in \<open>auto simp: valid_frame_def after_value_def\<close>)

lemma valid_At_end: "valid_frame k At_end \<Longrightarrow> k = F_root"
  by (auto simp: valid_frame_def)

lemma last_update: "wf_stack ((k, st) # fs) \<Longrightarrow> snd (last ((k, st) # fs)) = At_end \<Longrightarrow> st \<noteq> At_end \<Longrightarrow>
    snd (last ((k', st') # fs)) = At_end \<and> snd (last fs) = At_end"
  by (cases fs) auto

lemma core_starts:
  assumes "\<not> literal_char c" "\<not> number_start c" "c \<notin> {quote_char, CHR ''['', CHR ''{'', CHR '']'', CHR ''}'', CHR '','', CHR '':''}"
  shows "\<not> core_text k st (c # s)"
proof -
  have "\<not> value_core k (c # s)" by (rule value_core_starts(6)) (use assms in auto)
  moreover have "\<not> key_core k (c # s)" by (rule key_core_starts(2)) (use assms in auto)
  ultimately show ?thesis using assms by (cases st) (simp_all add: closing_def)
qed

lemma core_nonblank: "json_blank_char c \<Longrightarrow> \<not> core_text k st (c # s)"
  using start_not_blank [of c] not_blank by (intro core_starts) blast+

lemma wide_core:
  assumes "128 \<le> code_of d"
  shows "\<not> core_text k st (d # s)"
proof (rule core_starts)
  have ne: "d \<noteq> x" if "code_of x < 128" for x using that assms by auto
  show "d \<notin> {quote_char, CHR ''['', CHR ''{'', CHR '']'', CHR ''}'', CHR '','', CHR '':''}"
    using ne by (simp add: code_of_def quote_char_def)
  show "\<not> literal_char d" using ne by (auto simp: literal_char_def code_of_def)
  show "\<not> number_start d" using ne assms by (auto simp: number_start_def json_digit_def code_of_def)
qed

lemma tail_Nil: "valid_frame k st \<Longrightarrow> tail_text k st [] \<longleftrightarrow> st = At_end"
  unfolding tail_skipping skipping_Nil
  by (cases st) (auto simp: value_core_starts key_core_starts)

lemma stack_Nil: "wf_stack F \<Longrightarrow> stack_text F [] \<longleftrightarrow> snd (hd F) = At_end"
proof (cases F)
  case (Cons f fs)
  obtain k st where f: "f = (k, st)" by (cases f)
  assume w: "wf_stack F"
  then have v: "valid_frame k st" using Cons f wf_valid by blast
  have "fs = []" if "st = At_end" using that valid_At_end v w wf_root Cons f by blast
  then show ?thesis using Cons f tail_Nil [OF v] by auto
qed simp

lemma run_Nil:
  assumes "wf_stack F"
  shows "truncated_run i F [] \<longleftrightarrow> \<not> i \<and> \<not> stack_text F []"
proof (cases F rule: wf_stack.cases)
  case 1 then show ?thesis using assms by simp
next
  case 2 then show ?thesis using stack_Nil [OF assms] by (simp del: stack_text.simps)
next
  case (3 k st f fs)
  then have "st \<noteq> At_end" using assms valid_At_end [of k] by auto
  then show ?thesis using 3 stack_Nil [OF assms] by (simp del: stack_text.simps)
qed

lemma stack_blank:
  assumes "wf_stack ((k, st) # fs)" "json_blank_char c"
  shows "stack_text ((k, st) # fs) (c # s) \<longleftrightarrow> stack_text ((k, st) # fs) s"
proof -
  note v = wf_valid [OF assms(1)]
  have t: "tail_text k st (c # a) \<longleftrightarrow> tail_text k st a" for a
    unfolding tail_skipping [OF v] by (rule skipping_blank [OF assms(2), where P = "core_text k st"], rule core_nonblank [OF assms(2)])
  have "\<not> (tail_text k st [] \<and> stack_text fs (c # s))"
    using tail_Nil [OF v] valid_At_end v wf_root assms(1) by fastforce
  then show ?thesis using t by (auto simp: Cons_eq_append_conv simp del: tail_text.simps)
qed

lemma stack_core:
  assumes "wf_stack ((k, st) # fs)" "\<not> json_blank_char c"
  shows "stack_text ((k, st) # fs) (c # s) \<longleftrightarrow> (\<exists>a b. s = a @ b \<and> core_text k st (c # a) \<and> stack_text fs b)"
proof -
  note v = wf_valid [OF assms(1)]
  have t: "tail_text k st (c # a) \<longleftrightarrow> core_text k st (c # a)" for a
    unfolding tail_skipping [OF v] by (rule skipping_nonblank [OF assms(2)])
  have "\<not> (tail_text k st [] \<and> stack_text fs (c # s))"
    using tail_Nil [OF v] valid_At_end v wf_root assms(1) by fastforce
  then show ?thesis using t by (auto simp: Cons_eq_append_conv simp del: tail_text.simps core_text.simps)
qed

lemma stack_exists: "wf_stack F \<Longrightarrow> \<exists>u. stack_text F u"
proof (induction F rule: wf_stack.induct)
  case (2 k st)
  have "json_value ''null''" by (rule value_literal) simp
  then have "json_text ''null''" unfolding json_text_def by (intro exI [of _ "[]"] exI [of _ "''null''"]) simp
  then show ?case using 2 by (auto simp: valid_frame_def intro: exI [of _ "[]"])
next
  case (3 k st f fs)
  then obtain u where u: "stack_text (f # fs) u" by auto
  have n: "json_value ''null''" by (rule value_literal) simp
  have b: "json_blank []" by simp
  have ends: "array_end '']''" "object_end ''}''" unfolding array_end_def object_end_def using b by blast+
  have s: "json_string [quote_char, quote_char]" unfolding json_string_def using chars_nil by fastforce
  have "tail_text F_array Want_value (''null'' @ '']'')"
    unfolding tail_text.simps elements_end using n b ends by (metis append_Nil)
  then have arr: "\<exists>x. tail_text F_array Want_value x" "\<exists>x. tail_text F_array Value_or_end x"
    unfolding tail_text.simps by blast+
  have "tail_text F_object Want_value (''null'' @ ''}'')" unfolding tail_text.simps using n b ends by (metis append_Nil)
  then have val: "\<exists>x. tail_text F_object Want_value x" by blast
  have colon: "tail_text F_object Want_colon ([] @ CHR '':'' # [] @ ''null'' @ ''}'')"
    unfolding tail_text.simps using n b ends by blast
  have "tail_text F_object Want_key ([] @ [quote_char, quote_char] @ ([] @ CHR '':'' # [] @ ''null'' @ ''}''))"
    unfolding tail_text.simps(6) members_end using b s colon by blast
  then have key: "\<exists>x. tail_text F_object Want_key x" "\<exists>x. tail_text F_object Key_or_end x"
    unfolding tail_text.simps by blast+
  have comma: "\<exists>x. tail_text F_array Want_comma x" "\<exists>x. tail_text F_object Want_comma x"
    unfolding tail_text.simps using ends by blast+
  have "valid_frame k st" "k \<noteq> F_root" using 3(2) by simp_all
  then have "\<exists>x. tail_text k st x" unfolding valid_frame_def using arr val colon key comma by blast
  then show ?case using u by auto
qed simp

section \<open>The front of a stack text\<close>

lemma scan_split:
  "(\<exists>a b. s = a @ b \<and> (\<exists>r. scan_string 0 a = Scan_complete r \<and> T r) \<and> U b)
    \<longleftrightarrow> (\<exists>s'. scan_string 0 s = Scan_complete s' \<and> (\<exists>r b. s' = r @ b \<and> T r \<and> U b))" (is "?l \<longleftrightarrow> ?r")
proof
  assume ?l
  then show ?r using scan_append_complete by blast
next
  assume ?r
  then obtain r b q where "s = (q @ quote_char # r) @ b" "json_chars q" "T r" "U b" unfolding scan_complete_iff by auto
  then show ?l unfolding scan_complete_iff by blast
qed

lemma stack_At_end: "wf_stack ((k, At_end) # fs) \<Longrightarrow> \<not> json_blank_char c \<Longrightarrow> \<not> stack_text ((k, At_end) # fs) (c # s)"
  using stack_core [of k At_end fs c s] by simp

lemma stack_colon: "wf_stack ((k, Want_colon) # fs) \<Longrightarrow> \<not> json_blank_char c \<Longrightarrow>
    stack_text ((k, Want_colon) # fs) (c # s) \<longleftrightarrow> c = CHR '':'' \<and> stack_text ((k, Want_value) # fs) s"
  using stack_core [of k Want_colon fs c s] by (auto simp del: tail_text.simps)

lemma stack_comma: "wf_stack ((k, Want_comma) # fs) \<Longrightarrow> \<not> json_blank_char c \<Longrightarrow>
    stack_text ((k, Want_comma) # fs) (c # s) \<longleftrightarrow>
      (c = closing k \<and> stack_text fs s) \<or> (c = CHR '','' \<and> stack_text ((k, after_comma k) # fs) s)"
  using stack_core [of k Want_comma fs c s] by (auto simp del: tail_text.simps)

lemma stack_close:
  assumes "wf_stack ((k, st) # fs)" "st = Value_or_end \<or> st = Key_or_end" "c = closing k"
  shows "stack_text ((k, st) # fs) (c # s) \<longleftrightarrow> stack_text fs s"
proof -
  have c: "c = CHR '']'' \<or> c = CHR ''}''" using assms(3) by (auto simp: closing_def)
  have "\<not> value_core k (c # a)" "\<not> key_core k (c # a)" for a
    by (rule value_core_starts(6) key_core_starts(2); use c in auto)+
  then have "core_text k st (c # a) \<longleftrightarrow> a = []" for a using assms by auto
  moreover have "\<not> json_blank_char c" using c by auto
  ultimately show ?thesis using stack_core [OF assms(1)] by simp
qed

lemma stack_key:
  assumes "wf_stack ((k, st) # fs)" "st = Want_key \<or> (st = Key_or_end \<and> c \<noteq> closing k)" "\<not> json_blank_char c"
  shows "stack_text ((k, st) # fs) (c # s) \<longleftrightarrow>
    c = quote_char \<and> (\<exists>s'. scan_string 0 s = Scan_complete s' \<and> stack_text ((k, Want_colon) # fs) s')"
proof -
  have core: "core_text k st (c # a) \<longleftrightarrow> key_core k (c # a)" for a using assms(2) by auto
  show ?thesis
  proof (cases "c = quote_char")
    case True
    show ?thesis unfolding stack_core [OF assms(1,3)] core unfolding True key_core_starts(1) stack_text.simps
      by (simp add: scan_split del: tail_text.simps)
  next
    case False then show ?thesis using stack_core [OF assms(1,3)] core key_core_starts(2) by blast
  qed
qed

lemma stack_value:
  assumes "wf_stack ((k, st) # fs)" "st = Want_value \<or> (st = Value_or_end \<and> c \<noteq> closing k)" "\<not> json_blank_char c"
  shows "stack_text ((k, st) # fs) (c # s) \<longleftrightarrow> (\<exists>a b. s = a @ b \<and> value_core k (c # a) \<and> stack_text fs b)"
proof -
  have "core_text k st (c # a) \<longleftrightarrow> value_core k (c # a)" for a using assms(2) by auto
  then show ?thesis unfolding stack_core [OF assms(1,3)] by simp
qed

lemma split_assoc: "(\<exists>a b. s = a @ b \<and> (\<exists>x r. a = x @ r \<and> P x \<and> Q r) \<and> U b)
    \<longleftrightarrow> (\<exists>x y. s = x @ y \<and> P x \<and> (\<exists>r b. y = r @ b \<and> Q r \<and> U b))"
proof
  assume "\<exists>a b. s = a @ b \<and> (\<exists>x r. a = x @ r \<and> P x \<and> Q r) \<and> U b"
  then obtain x r b where x: "s = x @ (r @ b)" "P x" "Q r" "U b" by auto
  show "\<exists>x y. s = x @ y \<and> P x \<and> (\<exists>r b. y = r @ b \<and> Q r \<and> U b)"
    by (rule exI [of _ x], rule exI [of _ "r @ b"]) (use x in blast)
next
  assume "\<exists>x y. s = x @ y \<and> P x \<and> (\<exists>r b. y = r @ b \<and> Q r \<and> U b)"
  then obtain x r b where x: "s = (x @ r) @ b" "P x" "Q r" "U b" by auto
  show "\<exists>a b. s = a @ b \<and> (\<exists>x r. a = x @ r \<and> P x \<and> Q r) \<and> U b"
    by (rule exI [of _ "x @ r"], rule exI [of _ b]) (use x in blast)
qed

lemma value_front:
  fixes k :: frame_kind and fs :: "frame list"
  defines "F \<equiv> \<lambda>c s. \<exists>a b. s = a @ b \<and> value_core k (c # a) \<and> stack_text fs b" and "T \<equiv> (k, after_value k) # fs"
  shows "c = CHR ''{'' \<or> c = CHR ''['' \<Longrightarrow> F c s \<longleftrightarrow> stack_text (opened_frame c # T) s"
    and "F quote_char s \<longleftrightarrow> (\<exists>s'. scan_string 0 s = Scan_complete s' \<and> stack_text T s')"
    and "literal_char c \<Longrightarrow> F c s \<longleftrightarrow> (\<exists>r. c # s = json_literal c @ r \<and> stack_text T r)"
    and "number_start c \<Longrightarrow> F c s \<longleftrightarrow> (\<exists>v r. c # s = v @ r \<and> json_number v \<and> stack_text T r)"
    and "\<not> literal_char c \<Longrightarrow> \<not> number_start c \<Longrightarrow> c \<noteq> quote_char \<Longrightarrow> c \<noteq> CHR ''['' \<Longrightarrow> c \<noteq> CHR ''{'' \<Longrightarrow> \<not> F c s"
proof -
  show "F c s \<longleftrightarrow> stack_text (opened_frame c # T) s" if "c = CHR ''{'' \<or> c = CHR ''[''"
  proof -
    obtain k' st' where o: "opened_frame c = (k', st')" by (cases "opened_frame c")
    have "value_core k (c # a) \<longleftrightarrow> (\<exists>x r. a = x @ r \<and> tail_text k' st' x \<and> tail_text k (after_value k) r)" for a
      using that
    proof
      assume "c = CHR ''{''" then show ?thesis using o value_core_starts(5) [of k a] by (simp add: opened_frame_def del: tail_text.simps)
    next
      assume "c = CHR ''[''" then show ?thesis using o value_core_starts(4) [of k a] by (simp add: opened_frame_def del: tail_text.simps)
    qed
    then show ?thesis unfolding F_def T_def o stack_text.simps by (simp only: split_assoc)
  qed
  show "F quote_char s \<longleftrightarrow> (\<exists>s'. scan_string 0 s = Scan_complete s' \<and> stack_text T s')"
    unfolding F_def T_def value_core_starts(3) stack_text.simps by (rule scan_split)
  show "F c s \<longleftrightarrow> (\<exists>r. c # s = json_literal c @ r \<and> stack_text T r)" if lit: "literal_char c"
  proof -
    obtain l where "json_literal c = c # l" using json_literal_head [OF lit] by blast
    then show ?thesis unfolding F_def T_def value_core_starts(1) [OF lit] stack_text.simps
      using split_assoc [of s "\<lambda>x. x = l" "tail_text k (after_value k)" "stack_text fs"] by (simp del: tail_text.simps)
  qed
  show "F c s \<longleftrightarrow> (\<exists>v r. c # s = v @ r \<and> json_number v \<and> stack_text T r)" if num: "number_start c"
  proof
    assume "F c s"
    then obtain a b v r where "s = a @ b" "c # a = v @ r" "json_number v" "tail_text k (after_value k) r" "stack_text fs b"
      unfolding F_def value_core_starts(2) [OF num] by blast
    moreover from this have "c # s = v @ (r @ b)" by (metis append_Cons append_assoc)
    ultimately show "\<exists>v r. c # s = v @ r \<and> json_number v \<and> stack_text T r" unfolding T_def stack_text.simps by blast
  next
    assume "\<exists>v r. c # s = v @ r \<and> json_number v \<and> stack_text T r"
    then obtain v r a b where v: "c # s = v @ r" "json_number v" "r = a @ b" "tail_text k (after_value k) a" "stack_text fs b"
      unfolding T_def stack_text.simps by blast
    obtain v' where "v = c # v'" using number_head [OF v(2)] v(1) by auto
    then have "s = (v' @ a) @ b" "c # (v' @ a) = v @ a" using v by simp_all
    then show "F c s" unfolding F_def value_core_starts(2) [OF num] using v by blast
  qed
  show "\<not> literal_char c \<Longrightarrow> \<not> number_start c \<Longrightarrow> c \<noteq> quote_char \<Longrightarrow> c \<noteq> CHR ''['' \<Longrightarrow> c \<noteq> CHR ''{'' \<Longrightarrow> \<not> F c s"
    unfolding F_def using value_core_starts(6) by blast
qed

text \<open>What follows a value starts with a separator.\<close>

lemma after_head:
  assumes "wf_stack ((k, after_value k) # fs)" "stack_text ((k, after_value k) # fs) (d # r)"
  shows "json_blank_char d \<or> d = CHR '','' \<or> d = closing k"
proof (cases "json_blank_char d")
  case False
  then show ?thesis using assms stack_At_end [of k fs d r] stack_comma [of k fs d r]
    by (cases "k = F_root") (auto simp: after_value_def simp del: stack_text.simps)
qed simp

lemma separator: "json_blank_char d \<or> d = CHR '','' \<or> d = closing k \<Longrightarrow> \<not> number_char d \<and> code_of d < 128"
  by (cases "k = F_array") (auto simp: json_blank_char_def number_char_def json_digit_def code_of_def closing_def)

section \<open>The steps of the recogniser\<close>

declare truncated_run.simps [simp del]

text \<open>A step removes a token from the front, or no text of the stack starts like this, or the input
  ends inside a token.\<close>

definition removes :: "frame list \<Rightarrow> string \<Rightarrow> bool" where
  "removes F t \<longleftrightarrow> (\<exists>F' s'. wf_stack F' \<and> length s' < length t \<and> (\<forall>i. truncated_run i F t \<longleftrightarrow> truncated_run i F' s')
     \<and> (\<forall>u. stack_text F (t @ u) \<longleftrightarrow> stack_text F' (s' @ u)) \<and> (snd (last F) = At_end \<longrightarrow> snd (last F') = At_end))"

definition refuses :: "frame list \<Rightarrow> string \<Rightarrow> bool" where
  "refuses F t \<longleftrightarrow> (\<forall>i. \<not> truncated_run i F t) \<and> (\<forall>u. \<not> stack_text F (t @ u))"

definition ends_inside :: "frame list \<Rightarrow> string \<Rightarrow> bool" where
  "ends_inside F t \<longleftrightarrow> (truncated_run False F t \<longleftrightarrow> \<not> stack_text F t) \<and> (\<exists>u. stack_text F (t @ u))
     \<and> (\<forall>d. 128 \<le> code_of d \<longrightarrow> (truncated_run True F t \<longleftrightarrow> (\<exists>u. stack_text F (t @ d # u))))
     \<and> (snd (last F) = At_end \<longrightarrow> \<not> stack_text F t)"

definition steps_well :: "frame list \<Rightarrow> string \<Rightarrow> bool" where
  "steps_well F t \<longleftrightarrow> removes F t \<or> refuses F t \<or> ends_inside F t"

lemma removesI: "wf_stack F' \<Longrightarrow> length s' < length t \<Longrightarrow> (\<And>i. truncated_run i F t \<longleftrightarrow> truncated_run i F' s') \<Longrightarrow>
    (\<And>u. stack_text F (t @ u) \<longleftrightarrow> stack_text F' (s' @ u)) \<Longrightarrow> (snd (last F) = At_end \<Longrightarrow> snd (last F') = At_end) \<Longrightarrow>
    steps_well F t"
  unfolding steps_well_def removes_def by blast

lemma refusesI: "(\<And>i. \<not> truncated_run i F t) \<Longrightarrow> (\<And>u. \<not> stack_text F (t @ u)) \<Longrightarrow> steps_well F t"
  unfolding steps_well_def refuses_def by blast

text \<open>A step through a string, for a stack whose texts are those of \<open>T\<close> after the string.\<close>

lemma string_step:
  assumes run: "\<And>i. truncated_run i F (c # s) \<longleftrightarrow> (case scan_string 0 s of
        Scan_complete s' \<Rightarrow> truncated_run i T s' | r \<Rightarrow> string_truncated i r)"
    and front: "\<And>x. stack_text F (c # x) \<longleftrightarrow> (\<exists>s'. scan_string 0 x = Scan_complete s' \<and> stack_text T s')"
    and T: "wf_stack T" "snd (last F) = At_end \<Longrightarrow> snd (last T) = At_end"
  shows "steps_well F (c # s)"
proof (cases "scan_string 0 s")
  case (Scan_complete s')
  show ?thesis
    by (rule removesI [OF T(1), of s'])
      (use run front T(2) Scan_complete scan_string_length [OF Scan_complete] scan_append_complete [OF Scan_complete] in auto)
next
  case Scan_invalid
  show ?thesis
    by (rule refusesI) (use run front Scan_invalid scan_append_invalid [OF Scan_invalid] in \<open>auto simp: string_truncated_def\<close>)
next
  case Scan_partial
  obtain u where u: "stack_text T u" using stack_exists [OF T(1)] by blast
  have q: "scan_string 0 (s @ quote_char # u) = Scan_complete u" using scan_partial_append [OF Scan_partial] by simp
  have w: "scan_string 0 (s @ d # quote_char # u) = Scan_complete u" if "128 \<le> code_of d" for d
    using scan_partial_append [OF Scan_partial] wide_char(2) [OF that] by simp
  have w': "\<exists>x. stack_text F (c # s @ d # x)" if "128 \<le> code_of d" for d
    unfolding front using w [OF that] u by blast
  have "truncated_run i F (c # s)" for i using run Scan_partial by (simp add: string_truncated_def)
  then have "ends_inside F (c # s)" unfolding ends_inside_def
    using front u q w' Scan_partial by auto
  then show ?thesis unfolding steps_well_def by blast
next
  case Scan_ascii_partial
  obtain u where u: "stack_text T u" using stack_exists [OF T(1)] by blast
  obtain q where q: "scan_string 0 (s @ q @ quote_char # u) = Scan_complete u" using scan_ascii_append [OF Scan_ascii_partial] by blast
  have w: "scan_string 0 (s @ d # x) = Scan_invalid" if "128 \<le> code_of d" for d x
    using scan_ascii_wide [OF Scan_ascii_partial that] .
  have "ends_inside F (c # s)" unfolding ends_inside_def
    using run front u q w Scan_ascii_partial by (auto simp: string_truncated_def)
  then show ?thesis unfolding steps_well_def by blast
qed

lemma compare_lists:
  obtains (full) r where "t = l @ r" | (short) r where "l = t @ r" "r \<noteq> []"
    | (clash) p x y a b where "t = p @ x # a" "l = p @ y # b" "x \<noteq> y"
proof -
  have "(\<exists>r. t = l @ r) \<or> (\<exists>r. l = t @ r \<and> r \<noteq> []) \<or> (\<exists>p x y a b. t = p @ x # a \<and> l = p @ y # b \<and> x \<noteq> y)"
  proof (induction t arbitrary: l)
    case (Cons c t)
    show ?case
    proof (cases l)
      case l: (Cons d l')
      show ?thesis
      proof (cases "c = d")
        case True
        from Cons [of l'] show ?thesis unfolding l True
        proof (elim disjE exE conjE)
          fix p x y a b assume "t = p @ x # a" "l' = p @ y # b" "x \<noteq> y"
          then have "d # t = (d # p) @ x # a" "d # l' = (d # p) @ y # b" "x \<noteq> y" by simp_all
          then show "(\<exists>r. d # t = (d # l') @ r) \<or> (\<exists>r. d # l' = (d # t) @ r \<and> r \<noteq> []) \<or>
              (\<exists>p x y a b. d # t = p @ x # a \<and> d # l' = p @ y # b \<and> x \<noteq> y)" by blast
        qed simp_all
      qed (use l in \<open>metis append_Nil\<close>)
    qed simp
  qed auto
  then show thesis using full short clash by blast
qed

lemma literal_step:
  assumes l: "literal_char c"
    and run: "\<And>i. truncated_run i F (c # s) \<longleftrightarrow>
        (if \<not> starts_with (take (length (json_literal c)) (c # s)) (json_literal c) then False
         else if length (c # s) < length (json_literal c) then \<not> i
         else truncated_run i T (drop (length (json_literal c)) (c # s)))"
    and front: "\<And>x. stack_text F (c # x) \<longleftrightarrow> (\<exists>r. c # x = json_literal c @ r \<and> stack_text T r)"
    and T: "wf_stack T" "snd (last F) = At_end \<Longrightarrow> snd (last T) = At_end"
  shows "steps_well F (c # s)"
proof -
  let ?l = "json_literal c" and ?t = "c # s"
  obtain l' where l': "?l = c # l'" using json_literal_head [OF l] by blast
  have ascii: "list_all (\<lambda>d. code_of d < 128) ?l"
    using l by (rule literal_charE) (simp_all add: json_literal_def code_of_def)
  show ?thesis
  proof (cases rule: compare_lists [of ?t ?l])
    case (clash p x y a b)
    have "\<not> stack_text F (?t @ u)" for u
    proof
      assume "stack_text F (?t @ u)"
      then obtain r where "?t @ u = ?l @ r" using front [of "s @ u"] by auto
      then show False unfolding clash(1,2) using clash(3) by simp
    qed
    moreover have "\<not> starts_with (take (length ?l) ?t) ?l"
      unfolding clash(1,2) starts_with_def using clash(3) by (simp add: min_def)
    ultimately show ?thesis using run by (intro refusesI) auto
  next
    case (short r)
    have sw: "starts_with (take (length ?l) ?t) ?l" "length ?t < length ?l"
      unfolding short(1) starts_with_def using short(2) by simp_all
    obtain u where u: "stack_text T u" using stack_exists [OF T(1)] by blast
    have "stack_text F (?t @ r @ u)" using front [of "s @ r @ u"] u short(1) by (metis append_Cons append_assoc)
    moreover have "\<not> stack_text F ?t"
    proof
      assume "stack_text F ?t"
      then obtain x where "?t = ?l @ x" using front [of s] by blast
      then show False using sw(2) by (metis length_append not_add_less1)
    qed
    moreover have "\<not> stack_text F (?t @ d # x)" if d: "128 \<le> code_of d" for d x
    proof
      assume "stack_text F (?t @ d # x)"
      then obtain y where "?t @ d # x = ?l @ y" using front [of "s @ d # x"] by auto
      then have "hd r = d" using short by (cases r) auto
      moreover have "hd r \<in> set ?l" unfolding short(1) using short(2) by simp
      ultimately show False using ascii d by (auto simp: list_all_iff)
    qed
    ultimately have "ends_inside F ?t" unfolding ends_inside_def using run sw by auto
    then show ?thesis unfolding steps_well_def by blast
  next
    case (full r)
    show ?thesis
    proof (rule removesI [OF T(1), of r])
      show "length r < length ?t" unfolding full l' by simp
      show "truncated_run i F ?t \<longleftrightarrow> truncated_run i T r" for i unfolding run unfolding full by (simp add: starts_with_def)
      show "stack_text F (?t @ u) \<longleftrightarrow> stack_text T (r @ u)" for u
        using front [of "s @ u"] full by (metis append_Cons append_assoc same_append_eq)
    qed (use T(2) in simp)
  qed
qed

lemma number_start_char: "number_start c \<Longrightarrow> number_char c"
  by (auto simp: number_start_def number_char_def)

lemma span_append:
  assumes "dropWhile P s \<noteq> []"
  shows "takeWhile P (s @ u) = takeWhile P s" "dropWhile P (s @ u) = dropWhile P s @ u"
  using assms by (induction s) auto

lemma span_all: "dropWhile P s = [] \<Longrightarrow> takeWhile P (s @ u) = s @ takeWhile P u \<and> dropWhile P (s @ u) = dropWhile P u"
  by (induction s) (auto split: if_splits)

lemma number_step:
  assumes c: "number_start c"
    and run: "\<And>i. truncated_run i F (c # s) \<longleftrightarrow>
        (if full_number (c # takeWhile number_char s) then truncated_run i T (dropWhile number_char s)
         else \<not> i \<and> dropWhile number_char s = [] \<and> partial_number (c # takeWhile number_char s))"
    and front: "\<And>x. stack_text F (c # x) \<longleftrightarrow> (\<exists>v r. c # x = v @ r \<and> json_number v \<and> stack_text T r)"
    and T: "wf_stack T" "\<And>d r. stack_text T (d # r) \<Longrightarrow> \<not> number_char d \<and> code_of d < 128"
      "snd (last F) = At_end \<Longrightarrow> snd (last T) = At_end \<and> snd (hd T) \<noteq> At_end"
  shows "steps_well F (c # s)"
proof -
  have N: "stack_text F (c # x) \<longleftrightarrow> full_number (c # takeWhile number_char x) \<and> stack_text T (dropWhile number_char x)" for x
  proof
    assume "stack_text F (c # x)"
    then obtain v r where v: "c # x = v @ r" "json_number v" "stack_text T r" using front by blast
    obtain v' where v': "v = c # v'" "x = v' @ r" using number_head [OF v(2)] v(1) by auto
    have nc: "\<And>d. d \<in> set v' \<Longrightarrow> number_char d" using number_chars [OF v(2)] v'(1) by (simp add: list_all_iff)
    have "takeWhile number_char r = [] \<and> dropWhile number_char r = r" using T(2) v(3) by (cases r) auto
    then have "takeWhile number_char x = v'" "dropWhile number_char x = r" unfolding v'(2) using nc by simp_all
    then show "full_number (c # takeWhile number_char x) \<and> stack_text T (dropWhile number_char x)"
      using v v' by (simp add: full_number_iff)
  next
    assume r: "full_number (c # takeWhile number_char x) \<and> stack_text T (dropWhile number_char x)"
    have "c # x = (c # takeWhile number_char x) @ dropWhile number_char x" by simp
    then show "stack_text F (c # x)" unfolding front using r full_number_iff by blast
  qed
  obtain u where u: "stack_text T u" using stack_exists [OF T(1)] by blast
  have u0: "takeWhile number_char u = []" "dropWhile number_char u = u" using T(2) u by (cases u; auto)+
  let ?n = "c # takeWhile number_char s" and ?r = "dropWhile number_char s"
  show ?thesis
  proof (cases "?r = []")
    case False
    note sp = span_append [OF False]
    show ?thesis
    proof (cases "full_number ?n")
      case True
      show ?thesis
        by (rule removesI [OF T(1), of ?r])
          (use run N sp True T(3) length_dropWhile_le [of number_char s] in \<open>auto simp: le_imp_less_Suc\<close>)
    next
      case n: False
      show ?thesis by (rule refusesI) (use run N sp n False in auto)
    qed
  next
    case True
    have s: "takeWhile number_char s = s" using True by (simp add: takeWhile_eq_all_conv dropWhile_eq_Nil_conv)
    have sp: "takeWhile number_char (s @ x) = s @ takeWhile number_char x" "dropWhile number_char (s @ x) = dropWhile number_char x" for x
      using span_all [OF True] by simp_all
    have wide: "takeWhile number_char (d # x) = []" "dropWhile number_char (d # x) = d # x" "\<not> stack_text T (d # x)"
      if "128 \<le> code_of d" for d x
      using that T(2) [of d x] by (auto simp: number_char_def json_digit_def code_of_def)
    show ?thesis
    proof (cases "full_number (c # s)")
      case full: True
      have "stack_text F (c # s @ u)" unfolding N using sp full u u0 by simp
      moreover have "stack_text F (c # s) \<longleftrightarrow> stack_text T []" unfolding N s True using full by simp
      moreover have "truncated_run i F (c # s) \<longleftrightarrow> \<not> i \<and> \<not> stack_text T []" for i
        unfolding run s True using full run_Nil [OF T(1)] by simp
      moreover have "\<not> stack_text F (c # s @ d # x)" if "128 \<le> code_of d" for d x
        unfolding N sp using wide [OF that] by simp
      moreover have "snd (last F) = At_end \<longrightarrow> \<not> stack_text T []" using T(3) stack_Nil [OF T(1)] by blast
      ultimately have "ends_inside F (c # s)" unfolding ends_inside_def by auto
      then show ?thesis unfolding steps_well_def by blast
    next
      case nf: False
      have r: "truncated_run i F (c # s) \<longleftrightarrow> \<not> i \<and> partial_number (c # s)" for i unfolding run s True using nf by simp
      show ?thesis
      proof (cases "partial_number (c # s)")
        case True
        then obtain v where v: "full_number (c # s @ v)" using partial_number_iff [of "c # s"] by auto
        have "list_all number_char v" using number_chars [of "c # s @ v"] v by (simp add: full_number_iff)
        then have "takeWhile number_char (v @ u) = v" "dropWhile number_char (v @ u) = u"
          using u0 by (induction v) auto
        then have "stack_text F (c # s @ v @ u)" unfolding N sp using v u by simp
        moreover have "\<not> stack_text F (c # s)" unfolding N s using nf by simp
        moreover have "\<not> stack_text F (c # s @ d # x)" if "128 \<le> code_of d" for d x
          unfolding N sp using wide [OF that] by simp
        ultimately have "ends_inside F (c # s)" unfolding ends_inside_def using r True by auto
        then show ?thesis unfolding steps_well_def by blast
      next
        case False
        have "\<not> full_number (c # s @ takeWhile number_char x)" for x
          using partial_number_iff [of "c # s"] False nf by auto
        then show ?thesis by (intro refusesI) (use r False N sp in auto)
      qed
    qed
  qed
qed

lemma wide_not_blank: "json_blank_char c \<Longrightarrow> code_of c < 128"
  by (auto simp: json_blank_char_def)

lemma run_steps_well:
  assumes w: "wf_stack ((k, st) # fs)"
  shows "steps_well ((k, st) # fs) (c # s)"
proof -
  let ?F = "(k, st) # fs" and ?T = "(k, after_value k) # fs"
  note v = wf_valid [OF w]
  note run = truncated_run.simps(2) [of _ ?F c s]
  have lst: "snd (last ((k', st') # fs)) = At_end" if "snd (last ?F) = At_end" "st \<noteq> At_end" for k' st'
    using last_update [OF w that] by blast
  have root: "k \<noteq> F_root" if "snd (last ?F) = At_end" "st \<noteq> At_end"
    using that w wf_root by auto
  show ?thesis
  proof (cases "json_blank_char c")
    case True
    show ?thesis by (rule removesI [OF w, of s]) (use True stack_blank [OF w True] run in auto)
  next
    case nb: False
    have upd: "steps_well ?F (c # s)" if "\<And>i. truncated_run i ?F (c # s) \<longleftrightarrow> truncated_run i ((k, st') # fs) s"
      "\<And>x. stack_text ?F (c # x) \<longleftrightarrow> stack_text ((k, st') # fs) x" "valid_frame k st'" "st \<noteq> At_end" for st'
      by (rule removesI [OF wf_update [OF w that(3)], of s]) (use that lst in auto)
    have pop: "steps_well ?F (c # s)" if "\<And>i. truncated_run i ?F (c # s) \<longleftrightarrow> truncated_run i fs s"
      "\<And>x. stack_text ?F (c # x) \<longleftrightarrow> stack_text fs x" "k \<noteq> F_root" "st \<noteq> At_end"
      by (rule removesI [of fs s]) (use that wf_pop [OF w that(3)] last_update [OF w _ that(4)] in auto)
    note front = stack_value [OF w _ nb]
    consider (At_end) "st = At_end" | (colon) "st = Want_colon" | (comma) "st = Want_comma"
      | (close) "st = Value_or_end \<or> st = Key_or_end" "c = closing k"
      | (key) "st = Want_key \<or> (st = Key_or_end \<and> c \<noteq> closing k)"
      | (val) "st = Want_value \<or> (st = Value_or_end \<and> c \<noteq> closing k)"
      by (cases st) auto
    then show ?thesis
    proof cases
      case At_end
      show ?thesis by (rule refusesI) (use At_end stack_At_end [of k fs c] w nb run in auto)
    next
      case colon
      have k: "valid_frame k Want_value" using v colon by (auto simp: valid_frame_def)
      show ?thesis
      proof (cases "c = CHR '':''")
        case True
        show ?thesis by (rule upd [OF _ _ k]) (use colon w stack_colon [of k fs c] True nb run in auto)
      next
        case False
        show ?thesis by (rule refusesI) (use colon w stack_colon [of k fs c] False nb run in auto)
      qed
    next
      case comma
      have k: "valid_frame k (after_comma k)" "k \<noteq> F_root" using v comma by (auto simp: valid_frame_def after_comma_def)
      have d: "closing k \<noteq> CHR '',''" by (simp add: closing_def)
      consider "c = closing k" | "c = CHR '',''" | "c \<noteq> closing k" "c \<noteq> CHR '',''" by blast
      then show ?thesis
      proof cases
        case 1 show ?thesis by (rule pop [OF _ _ k(2)]) (use comma w stack_comma [of k fs c] 1 d nb run in auto)
      next
        case 2 show ?thesis by (rule upd [OF _ _ k(1)]) (use comma w stack_comma [of k fs c] 2 d nb run in auto)
      next
        case 3 show ?thesis by (rule refusesI) (use comma w stack_comma [of k fs c] 3 nb run in auto)
      qed
    next
      case close
      have k: "k \<noteq> F_root" using v close(1) by (auto simp: valid_frame_def)
      have r: "truncated_run i ?F (c # s) \<longleftrightarrow> truncated_run i fs s" for i
      proof -
        have n: "\<not> json_blank_char (closing k)" using nb close(2) by simp
        show ?thesis using close(1)
          by (rule disjE; unfold run; unfold close(2)) (simp_all only: n if_False if_True simp_thms list.case prod.case frame_state.distinct)
      qed
      have "st \<noteq> At_end" using close(1) by auto
      then show ?thesis by (rule pop [OF r stack_close [OF w close] k])
    next
      case key
      have k: "wf_stack ((k, Want_colon) # fs)" by (rule wf_update [OF w]) (use v key in \<open>auto simp: valid_frame_def\<close>)
      show ?thesis
      proof (cases "c = quote_char")
        case True
        have r: "truncated_run i ?F (c # s) \<longleftrightarrow> (case scan_string 0 s of
            Scan_complete s' \<Rightarrow> truncated_run i ((k, Want_colon) # fs) s' | r \<Rightarrow> string_truncated i r)" for i
          using key
        proof
          assume "st = Want_key" then show ?thesis using True nb unfolding run by simp
        next
          assume "st = Key_or_end \<and> c \<noteq> closing k" then show ?thesis using True nb unfolding run by simp
        qed
        have t: "stack_text ?F (c # x) \<longleftrightarrow> (\<exists>s'. scan_string 0 x = Scan_complete s' \<and> stack_text ((k, Want_colon) # fs) s')" for x
          using stack_key [OF w key nb, of x] True by simp
        have "st \<noteq> At_end" using key by auto
        then show ?thesis using string_step [OF r t k] lst by blast
      next
        case False
        have "\<not> truncated_run i ?F (c # s)" for i using key
        proof
          assume "st = Want_key" then show ?thesis using False nb unfolding run by simp
        next
          assume "st = Key_or_end \<and> c \<noteq> closing k" then show ?thesis using False nb unfolding run by simp
        qed
        then show ?thesis using stack_key [OF w key nb] False by (intro refusesI) simp_all
      qed
    next
      case val
      note T = wf_after [OF w] and tx = front [OF val] and F = value_front [where fs = fs and k = k]
      have st: "st \<noteq> At_end" using val by auto
      have head: "stack_text ?T (d # r) \<Longrightarrow> \<not> number_char d \<and> code_of d < 128" for d r
        using after_head [OF T] separator by blast
      have c: "(st = Key_or_end \<or> st = Value_or_end) \<and> c = closing k \<longleftrightarrow> False" using val by auto
      have run': "truncated_run i ?F (c # s) \<longleftrightarrow>
          (if c = CHR ''{'' \<or> c = CHR ''['' then truncated_run i (opened_frame c # ?T) s
           else if c = quote_char then (case scan_string 0 s of Scan_complete s' \<Rightarrow> truncated_run i ?T s' | r \<Rightarrow> string_truncated i r)
           else if literal_char c then
            (if \<not> starts_with (take (length (json_literal c)) (c # s)) (json_literal c) then False
             else if length (c # s) < length (json_literal c) then \<not> i
             else truncated_run i ?T (drop (length (json_literal c)) (c # s)))
           else if number_start c then
            (if full_number (c # takeWhile number_char s) then truncated_run i ?T (dropWhile number_char s)
             else \<not> i \<and> dropWhile number_char s = [] \<and> partial_number (c # takeWhile number_char s))
           else False)" for i
        using val
      proof
        assume "st = Want_value"
        then show ?thesis using nb unfolding run by (simp add: literal_char_def number_start_def cong: if_cong)
      next
        assume "st = Value_or_end \<and> c \<noteq> closing k"
        then show ?thesis using nb unfolding run by (simp add: literal_char_def number_start_def cong: if_cong)
      qed
      consider "c = CHR ''{'' \<or> c = CHR ''[''" | "c = quote_char" | "literal_char c" | "number_start c"
        | "\<not> literal_char c" "\<not> number_start c" "c \<noteq> quote_char" "c \<noteq> CHR ''[''" "c \<noteq> CHR ''{''" by blast
      then show ?thesis
      proof cases
        case 1
        have o: "wf_stack (opened_frame c # ?T)" unfolding opened_frame_def
          using wf_push [OF w st, of F_object Key_or_end] wf_push [OF w st, of F_array Value_or_end]
          by (simp add: valid_frame_def del: wf_stack.simps)
        show ?thesis by (rule removesI [OF o, of s]) (use 1 tx F(1) run' lst [OF _ st] in auto)
      next
        case 2
        show ?thesis by (rule string_step [OF _ _ T]) (use 2 tx F(2) run' lst [OF _ st] in auto)
      next
        case 3
        have "c \<noteq> CHR ''{''" "c \<noteq> CHR ''[''" "c \<noteq> quote_char" using 3 starts_distinct by blast+
        then show ?thesis by (intro literal_step [OF 3 _ _ T]) (use 3 tx F(3) run' lst [OF _ st] in auto)
      next
        case 4
        have "c \<noteq> CHR ''{''" "c \<noteq> CHR ''[''" "c \<noteq> quote_char" "\<not> literal_char c" using 4 starts_distinct literal_not_number by blast+
        moreover have "after_value k \<noteq> At_end" if "snd (last ?F) = At_end" using root [OF that st] by (simp add: after_value_def)
        ultimately show ?thesis by (intro number_step [OF 4 _ _ T head]) (use 4 tx F(4) run' lst [OF _ st] in auto)
      next
        case 5
        show ?thesis by (rule refusesI) (use 5 tx F(5) run' in auto)
      qed
    qed
  qed
qed

section \<open>Exactness\<close>

lemma run_exact:
  "wf_stack F \<Longrightarrow> truncated_run False F t \<longleftrightarrow> (\<exists>u. stack_text F (t @ u)) \<and> \<not> stack_text F t"
proof (induction "length t" arbitrary: F t rule: less_induct)
  case less
  show ?case
  proof (cases t)
    case Nil then show ?thesis using run_Nil [OF less.prems] stack_exists [OF less.prems] by simp
  next
    case (Cons c s)
    obtain k st fs where F: "F = (k, st) # fs" using less.prems by (cases F rule: wf_stack.cases) auto
    have "steps_well F t" unfolding F Cons using less.prems F by (intro run_steps_well) simp
    then show ?thesis unfolding steps_well_def
    proof (elim disjE)
      assume "removes F t"
      then obtain F' s' where r: "wf_stack F'" "length s' < length t" "\<And>i. truncated_run i F t \<longleftrightarrow> truncated_run i F' s'"
        "\<And>u. stack_text F (t @ u) \<longleftrightarrow> stack_text F' (s' @ u)" unfolding removes_def by blast
      have "stack_text F t \<longleftrightarrow> stack_text F' s'" using r(4) [of "[]"] by simp
      then show ?thesis using less.hyps [OF r(2,1)] r by simp
    next
      assume r: "refuses F t"
      then have "\<not> stack_text F (t @ u)" for u unfolding refuses_def by blast
      then show ?thesis using r unfolding refuses_def by blast
    qed (simp add: ends_inside_def)
  qed
qed

lemma run_exact_wide:
  assumes "128 \<le> code_of d"
  shows "wf_stack F \<Longrightarrow> truncated_run True F t \<longleftrightarrow> (\<exists>u. stack_text F (t @ d # u))"
proof (induction "length t" arbitrary: F t rule: less_induct)
  case less
  obtain k st fs where F: "F = (k, st) # fs" using less.prems by (cases F rule: wf_stack.cases) auto
  show ?case
  proof (cases t)
    case Nil
    have "\<not> stack_text F (d # u)" for u
      unfolding F using stack_core [OF less.prems [unfolded F] wide_char(5) [OF assms]] wide_core [OF assms] by simp
    then show ?thesis using Nil run_Nil [OF less.prems] by simp
  next
    case (Cons c s)
    have "steps_well F t" unfolding F Cons using less.prems F by (intro run_steps_well) simp
    then show ?thesis unfolding steps_well_def
    proof (elim disjE)
      assume "removes F t"
      then obtain F' s' where r: "wf_stack F'" "length s' < length t" "\<And>i. truncated_run i F t \<longleftrightarrow> truncated_run i F' s'"
        "\<And>u. stack_text F (t @ u) \<longleftrightarrow> stack_text F' (s' @ u)" unfolding removes_def by blast
      then show ?thesis using less.hyps [OF r(2,1)] by simp
    next
      assume r: "refuses F t"
      then have "\<not> stack_text F (t @ u)" for u unfolding refuses_def by blast
      then show ?thesis using r unfolding refuses_def by blast
    qed (use assms in \<open>simp add: ends_inside_def\<close>)
  qed
qed

text \<open>A stack that ends with a bracket has no text that continues another one, blanks apart.\<close>

lemma stack_prefix_free:
  "wf_stack F \<Longrightarrow> snd (last F) = At_end \<Longrightarrow> stack_text F t \<Longrightarrow> stack_text F (t @ u) \<Longrightarrow> json_blank u"
proof (induction "length t" arbitrary: F t rule: less_induct)
  case less
  obtain k st fs where F: "F = (k, st) # fs" using less.prems(1) by (cases F rule: wf_stack.cases) auto
  show ?case
  proof (cases t)
    case Nil
    then have "st = At_end" using stack_Nil [OF less.prems(1)] less.prems(3) F by simp
    then have "k = F_root" "fs = []" using valid_At_end wf_valid wf_root less.prems(1) F by blast+
    then show ?thesis using less.prems(4) Nil F \<open>st = At_end\<close> by simp
  next
    case (Cons c s)
    have "steps_well F t" unfolding F Cons using less.prems(1) F by (intro run_steps_well) simp
    then show ?thesis unfolding steps_well_def
    proof (elim disjE)
      assume "removes F t"
      then obtain F' s' where r: "wf_stack F'" "length s' < length t"
        "\<And>u. stack_text F (t @ u) \<longleftrightarrow> stack_text F' (s' @ u)" "snd (last F) = At_end \<longrightarrow> snd (last F') = At_end"
        unfolding removes_def by blast
      then show ?thesis using less.hyps [OF r(2,1)] less.prems r(3) [of "[]"] r(3) [of u] by simp
    next
      assume "refuses F t"
      then show ?thesis using less.prems(4) unfolding refuses_def by blast
    next
      assume "ends_inside F t"
      then show ?thesis using less.prems(2,3) unfolding ends_inside_def by blast
    qed
  qed
qed

lemma root_text: "stack_text [(F_root, Want_value)] x \<longleftrightarrow> json_text x"
  by simp

lemma truncated_json_iff: "truncated_json False t \<longleftrightarrow> (\<exists>u. json_text (t @ u)) \<and> \<not> json_text t"
  using run_exact [of "[(F_root, Want_value)]" t] by (simp add: truncated_json_def valid_frame_def)

lemma truncated_json_wide: "128 \<le> code_of d \<Longrightarrow> truncated_json True t \<longleftrightarrow> (\<exists>u. json_text (t @ d # u))"
  using run_exact_wide [of d "[(F_root, Want_value)]" t] by (simp add: truncated_json_def valid_frame_def)

text \<open>No proper prefix of an object that ends with its bracket is a JSON text.\<close>

lemma object_prefix_free:
  assumes "json_text (CHR ''{'' # t @ u)" "json_text (CHR ''{'' # t)"
  shows "json_blank u"
proof -
  have w: "wf_stack [(F_root, Want_value)]" "wf_stack [(F_object, Key_or_end), (F_root, At_end)]"
    by (simp_all add: valid_frame_def after_value_def)
  have j: "json_text (CHR ''{'' # x) \<longleftrightarrow> stack_text [(F_object, Key_or_end), (F_root, At_end)] x" for x
    unfolding root_text [symmetric]
    using stack_value [OF w(1), of "CHR ''{''" x] value_front(1) [where c = "CHR ''{''" and s = x and k = F_root and fs = "[]"]
    by (simp add: opened_frame_def after_value_def del: stack_text.simps)
  show ?thesis using stack_prefix_free [OF w(2), of t u] assms unfolding j by simp
qed

text \<open>C24: The recogniser of truncated texts is exact: it accepts a text precisely when the text is not
  itself JSON and some continuation makes it so. When the text lost the last bytes of a character
  outside ASCII, it accepts precisely when some continuation that starts with such a character is JSON.\<close>

theorem truncated_json_exact:
  "(truncated_json False t \<longleftrightarrow> (\<exists>u. json_text (t @ u)) \<and> \<not> json_text t)
    \<and> (128 \<le> code_of d \<longrightarrow> (truncated_json True t \<longleftrightarrow> (\<exists>u. json_text (t @ d # u))))"
  by (intro conjI impI truncated_json_iff truncated_json_wide)

theorem truncated_json_exact_witness:
  "\<exists>u. json_text (''{'' @ [quote_char] @ CHR 0xC3 # u)"
proof -
  have "truncated_json True (''{'' @ [quote_char])" "128 \<le> code_of (CHR 0xC3)" by code_simp+
  then show ?thesis using truncated_json_exact [of "''{'' @ [quote_char]" "CHR 0xC3"] by simp
qed

end
