(* ===== verification/LedgerLog.thy ===== *)
theory LedgerLog
  imports AppendOnlyStore TruncatedJsonProperties
begin

text \<open>
  The ledger file as a log: what the reader makes of a serialised list of records, and of one whose
  last line was cut short by a crash. What is relied on of JSON, the schema and UTF-8 is \<open>codec_ok\<close>.
\<close>

section \<open>What is relied on\<close>

text \<open>The text of a record reads back as the record, is an object on one line, and is valid UTF-8.\<close>

definition renders_well :: "store_env \<Rightarrow> ledger_record \<Rightarrow> bool" where
  "renders_well env r \<longleftrightarrow>
     (\<exists>j. co_parse (se_codec env) (co_render (se_codec env) r) = Some j \<and> co_schema (se_codec env) j = Some r \<and> \<not> newer_schema j)
     \<and> (\<exists>b. co_render (se_codec env) r = CHR ''{'' # b @ ''}'')
     \<and> newline_char \<notin> set (co_render (se_codec env) r)
     \<and> utf8_run None [] (co_render (se_codec env) r) = Some (co_render (se_codec env) r, False)"

text \<open>\<open>JSON.parse\<close> accepts only JSON texts, and what the schema accepts renders well once its scope
  is filled in.\<close>

definition codec_ok :: "store_env \<Rightarrow> bool" where
  "codec_ok env \<longleftrightarrow> (\<forall>t j. co_parse (se_codec env) t = Some j \<longrightarrow> json_text t)
     \<and> (\<forall>r r'. se_accepts env r \<longrightarrow> normalize_ledger_scope r = Inr r' \<longrightarrow> renders_well env r')"

definition stored_record :: "store_env \<Rightarrow> ledger_record \<Rightarrow> bool" where
  "stored_record env r \<longleftrightarrow> renders_well env r \<and> scoped_record r \<and> lr_schema_version r = current_schema_version
     \<and> \<bar>lr_sequence r\<bar> \<le> max_safe"

fun log_from :: "store_env \<Rightarrow> seen_records \<Rightarrow> ledger_record list \<Rightarrow> bool" where
  "log_from env seen [] \<longleftrightarrow> True"
| "log_from env seen (r # rs) \<longleftrightarrow> stored_record env r \<and> fst seen < lr_sequence r \<and> lr_record_id r \<notin> snd seen
     \<and> log_from env (lr_sequence r, insert (lr_record_id r) (snd seen)) rs"

fun seen_after :: "seen_records \<Rightarrow> ledger_record list \<Rightarrow> seen_records" where
  "seen_after seen [] = seen"
| "seen_after seen (r # rs) = seen_after (lr_sequence r, insert (lr_record_id r) (snd seen)) rs"

section \<open>UTF-8\<close>

text \<open>The bytes of the character being read.\<close>

definition pending_bytes :: "(nat \<times> nat \<times> nat) option \<Rightarrow> string \<Rightarrow> string" where
  "pending_bytes st p = (if st = None then [] else p)"

lemma utf8_run_prefix: "utf8_run st p (xs @ ys) \<noteq> None \<Longrightarrow> utf8_run st p xs \<noteq> None"
  by (induction st p xs rule: utf8_run.induct) (auto split: if_splits option.splits)

lemma utf8_run_text:
  "utf8_run st p xs = Some (t, b) \<Longrightarrow> st \<noteq> None \<longrightarrow> p \<noteq> [] \<and> 128 \<le> code_of (hd p) \<Longrightarrow>
    \<exists>rest. pending_bytes st p @ xs = t @ rest \<and> (if b then rest \<noteq> [] \<and> 128 \<le> code_of (hd rest) else rest = [])"
proof (induction st p xs arbitrary: t b rule: utf8_run.induct)
  case (2 v p)
  then show ?case by (auto simp: pending_bytes_def)
next
  case (3 p c cs)
  show ?case
  proof (cases "code_of c < 128")
    case True
    then obtain t' where t': "utf8_run None [] cs = Some (t', b)" "t = c # t'" using 3(3) by auto
    then show ?thesis using 3(1) [OF True t'(1)] by (simp add: pending_bytes_def)
  next
    case False
    then obtain s where s: "utf8_lead (code_of c) = Some s" "utf8_run (Some s) [c] cs = Some (t, b)"
      using 3(3) by (auto split: option.splits)
    show ?thesis using 3(2) [OF False s] False by (simp add: pending_bytes_def)
  qed
next
  case (4 n lo hi p c cs)
  have in_range: "lo \<le> code_of c \<and> code_of c \<le> hi" using 4(3) by (auto split: if_splits)
  show ?case
  proof (cases "n \<le> 1")
    case True
    then obtain t' where t': "utf8_run None [] cs = Some (t', b)" "t = p @ c # t'" using 4(3) in_range by auto
    then show ?thesis using 4(1) [OF in_range True t'(1)] by (simp add: pending_bytes_def)
  next
    case False
    then have r: "utf8_run (Some (n - 1, 128, 191)) (p @ [c]) cs = Some (t, b)" using 4(3) in_range by simp
    show ?thesis using 4(2) [OF in_range False r] 4(4) by (simp add: pending_bytes_def)
  qed
qed (simp add: pending_bytes_def)

lemma utf8_cut:
  assumes "utf8_run None [] (xs @ ys) = Some (z, False)"
  shows "utf8_run None [] xs = Some (xs, False) \<or>
    (\<exists>t d rest. utf8_run None [] xs = Some (t, True) \<and> xs = t @ d # rest \<and> 128 \<le> code_of d)"
proof -
  obtain t b where t: "utf8_run None [] xs = Some (t, b)" using utf8_run_prefix [of None "[]" xs ys] assms by auto
  obtain rest where r: "xs = t @ rest" "if b then rest \<noteq> [] \<and> 128 \<le> code_of (hd rest) else rest = []"
    using utf8_run_text [OF t] by (auto simp: pending_bytes_def)
  show ?thesis
  proof (cases b)
    case True
    then obtain d rest' where "rest = d # rest'" using r(2) by (cases rest) auto
    then show ?thesis using t r True by auto
  qed (use t r in simp)
qed

section \<open>Lines\<close>

lemma strip_mark_brace: "t = [] \<or> hd t = CHR ''{'' \<Longrightarrow> strip_mark t = t"
  by (cases t) (auto simp: strip_mark_def starts_with_def byte_order_mark_def)

lemma blank_text_brace: "\<not> blank_text (CHR ''{'' # s)"
  by (cases s; cases "tl s") (auto simp: code_of_def)

lemma rendered:
  assumes "stored_record env r"
  obtains b j where "co_render (se_codec env) r = CHR ''{'' # b @ ''}''" "newline_char \<notin> set (co_render (se_codec env) r)"
    "utf8_run None [] (co_render (se_codec env) r) = Some (co_render (se_codec env) r, False)"
    "co_parse (se_codec env) (co_render (se_codec env) r) = Some j" "co_schema (se_codec env) j = Some r" "\<not> newer_schema j"
  using assms unfolding stored_record_def renders_well_def by blast

lemma parse_rendered:
  assumes "stored_record env r" "fst seen < lr_sequence r" "lr_record_id r \<notin> snd seen"
  shows "parse_record (se_codec env) (co_render (se_codec env) r) start seen
      = Inr (r, lr_sequence r, insert (lr_record_id r) (snd seen))"
proof -
  obtain j where j: "co_parse (se_codec env) (co_render (se_codec env) r) = Some j" "co_schema (se_codec env) j = Some r" "\<not> newer_schema j"
    using rendered [OF assms(1)] by metis
  have "normalize_ledger_scope r = Inr r" "lr_schema_version r = current_schema_version" "\<bar>lr_sequence r\<bar> \<le> max_safe"
    using assms(1) normalize_scoped by (auto simp: stored_record_def)
  then show ?thesis using j assms by (simp add: parse_record_def)
qed

lemma parse_line_step:
  assumes "stored_record env r" "fst seen < lr_sequence r" "lr_record_id r \<notin> snd seen"
  shows "parse_lines (se_codec env) offset seen (serialize_record env r @ raw) =
    (case parse_lines (se_codec env) (offset + length (serialize_record env r)) (lr_sequence r, insert (lr_record_id r) (snd seen)) raw of
       Inl e \<Rightarrow> Inl e | Inr (rs, rest) \<Rightarrow> Inr (r # rs, rest))"
proof -
  obtain b where b: "co_render (se_codec env) r = CHR ''{'' # b @ ''}''" "newline_char \<notin> set (co_render (se_codec env) r)"
    "utf8_run None [] (co_render (se_codec env) r) = Some (co_render (se_codec env) r, False)"
    using rendered [OF assms(1)] by metis
  have "decode_text (co_render (se_codec env) r) = Some (co_render (se_codec env) r)"
    using b(1,3) strip_mark_brace [of "co_render (se_codec env) r"] by (simp add: decode_text_def decode_stream_def)
  moreover have "\<not> blank_text (co_render (se_codec env) r)" unfolding b(1) by (rule blank_text_brace)
  moreover have "index_of newline_char (serialize_record env r @ raw) = Some (length (co_render (se_codec env) r))"
    unfolding serialize_record_def using index_of_append [OF b(2), of raw] by simp
  ultimately show ?thesis
    by (subst parse_lines.simps) (simp add: serialize_record_def parse_rendered [OF assms])
qed

lemma parse_lines_serialized:
  "log_from env seen rs \<Longrightarrow> parse_lines (se_codec env) offset seen (serialize_records env rs @ raw) =
    (case parse_lines (se_codec env) (offset + length (serialize_records env rs)) (seen_after seen rs) raw of
       Inl e \<Rightarrow> Inl e | Inr (rs', rest) \<Rightarrow> Inr (rs @ rs', rest))"
proof (induction rs arbitrary: seen offset)
  case Nil
  then show ?case by (simp add: serialize_records_def split: sum.split)
next
  case (Cons r rs)
  have s: "serialize_records env (r # rs) @ raw = serialize_record env r @ (serialize_records env rs @ raw)"
    by (simp add: serialize_records_def)
  show ?case
    unfolding s using Cons parse_line_step [of env r seen offset "serialize_records env rs @ raw"]
    by (simp add: serialize_records_def add.assoc split: sum.split)
qed

lemma no_newline_lines: "newline_char \<notin> set raw \<Longrightarrow> parse_lines co offset seen raw = Inr ([], offset, raw, seen)"
  by (subst parse_lines.simps) (simp add: iffD2 [OF index_of_None])

lemma parse_bytes_log:
  assumes "log_from env (0, {}) rs"
  shows "parse_bytes (se_codec env) (serialize_records env rs) = Inr \<lparr>sn_status = Snap_complete, sn_records = rs,
     sn_byte_length = length (serialize_records env rs), sn_complete_bytes = length (serialize_records env rs),
     sn_last_sequence = fst (seen_after (0, {}) rs), sn_pending_record = None\<rparr>"
  using parse_lines_serialized [OF assms, of 0 "[]"] by (simp add: parse_bytes_def no_newline_lines)

text \<open>With a tail that has no newline, the tail decides.\<close>

lemma parse_bytes_tail:
  assumes "log_from env (0, {}) rs" "newline_char \<notin> set tail" "tail \<noteq> []"
    "parse_tail (se_codec env) tail (length (serialize_records env rs)) (seen_after (0, {}) rs) = Inr (pending, seen)"
  shows "parse_bytes (se_codec env) (serialize_records env rs @ tail) = Inr \<lparr>sn_status = Snap_incomplete_tail, sn_records = rs,
     sn_byte_length = length (serialize_records env rs @ tail), sn_complete_bytes = length (serialize_records env rs),
     sn_last_sequence = fst seen, sn_pending_record = pending\<rparr>"
  using parse_lines_serialized [OF assms(1), of 0 tail] assms(2-4) by (simp add: parse_bytes_def no_newline_lines)

section \<open>A line cut short\<close>

lemma cut_not_json:
  assumes "codec_ok env" "stored_record env r" "co_render (se_codec env) r = t @ u" "u \<noteq> []"
  shows "\<not> json_text t"
proof
  assume t: "json_text t"
  obtain b j where b: "co_render (se_codec env) r = CHR ''{'' # b @ ''}''" "co_parse (se_codec env) (co_render (se_codec env) r) = Some j"
    using rendered [OF assms(2)] by metis
  have whole: "json_text (t @ u)" using assms(1,3) b(2) unfolding codec_ok_def by metis
  show False
  proof (cases t)
    case Nil
    then show False using t by (auto simp: json_text_def json_value_iff)
  next
    case (Cons c t')
    then have c: "c = CHR ''{''" using assms(3) b(1) by simp
    have "json_blank u" using object_prefix_free [of t' u] whole t Cons c by simp
    moreover have "last u = CHR ''}''" using assms(3,4) b(1) by (metis last_ConsR last_appendR last_snoc snoc_eq_iff_butlast)
    ultimately show False using assms(4) not_blank(5) last_in_set [of u] by (auto simp: json_blank_def list_all_iff)
  qed
qed

lemma parse_tail_cut:
  assumes ok: "codec_ok env" and r: "stored_record env r" "co_render (se_codec env) r = x @ y" and ne: "x \<noteq> []" "y \<noteq> []"
  shows "parse_tail (se_codec env) x offset seen = Inr (None, seen)"
proof -
  obtain b j where b: "co_render (se_codec env) r = CHR ''{'' # b @ ''}''" "co_parse (se_codec env) (co_render (se_codec env) r) = Some j"
    "utf8_run None [] (co_render (se_codec env) r) = Some (co_render (se_codec env) r, False)"
    using rendered [OF r(1)] by metis
  have whole: "json_text (x @ y)" using ok r(2) b(2) unfolding codec_ok_def by metis
  have hd_x: "hd x = CHR ''{''" using b(1) r(2) ne(1) by (cases x) auto
  have unparsed: "co_parse (se_codec env) t = None" "\<not> json_text t" if "x @ y = t @ u" "u \<noteq> []" for t u
    using cut_not_json [OF ok r(1), of t u] r(2) ok that unfolding codec_ok_def by (cases "co_parse (se_codec env) t"; auto)+
  consider "utf8_run None [] x = Some (x, False)"
    | t d rest where "utf8_run None [] x = Some (t, True)" "x = t @ d # rest" "128 \<le> code_of d"
    using utf8_cut [of x y "x @ y"] b(3) r(2) by auto
  then show ?thesis
  proof cases
    case 1
    have "truncated_json False x" using truncated_json_iff [of x] whole unparsed(2) [OF refl ne(2)] by blast
    then show ?thesis using 1 strip_mark_brace [of x] hd_x unparsed(1) [OF refl ne(2)]
      by (simp add: parse_tail_def decode_stream_def parse_record_def)
  next
    case 2
    have "strip_mark t = t" using hd_x 2(2) by (cases t) (auto intro!: strip_mark_brace)
    moreover have "truncated_json True t" using truncated_json_wide [OF 2(3), of t] whole 2(2) by (metis append_Cons append_assoc)
    moreover have "co_parse (se_codec env) t = None" using unparsed(1) [of t "d # rest @ y"] 2(2) by simp
    ultimately show ?thesis using 2(1) by (simp add: parse_tail_def decode_stream_def)
  qed
qed

lemma parse_tail_whole:
  assumes "stored_record env r" "fst seen < lr_sequence r" "lr_record_id r \<notin> snd seen"
  shows "parse_tail (se_codec env) (co_render (se_codec env) r) offset seen
    = Inr (Some r, lr_sequence r, insert (lr_record_id r) (snd seen))"
proof -
  obtain b where "co_render (se_codec env) r = CHR ''{'' # b @ ''}''"
    "utf8_run None [] (co_render (se_codec env) r) = Some (co_render (se_codec env) r, False)"
    using rendered [OF assms(1)] by metis
  then show ?thesis
    using strip_mark_brace [of "co_render (se_codec env) r"] parse_rendered [OF assms]
    by (simp add: parse_tail_def decode_stream_def)
qed

lemma seen_after_log: "seen_after seen rs = (if rs = [] then fst seen else lr_sequence (last rs), lr_record_id ` set rs \<union> snd seen)"
  by (induction rs arbitrary: seen) auto

lemma log_from_append: "log_from env seen (rs @ qs) \<longleftrightarrow> log_from env seen rs \<and> log_from env (seen_after seen rs) qs"
  by (induction rs arbitrary: seen) auto

lemma log_from_snoc: "log_from env (0, {}) (rs @ [r]) \<longleftrightarrow> log_from env (0, {}) rs \<and> stored_record env r
    \<and> last_sequence_of rs < lr_sequence r \<and> lr_record_id r \<notin> lr_record_id ` set rs"
  by (auto simp: log_from_append seen_after_log last_sequence_of_def)

text \<open>The reader on a log whose last line stops after any number of bytes.\<close>

lemma parse_torn:
  assumes "codec_ok env" "log_from env (0, {}) (rs @ [r])" "serialize_record env r = x @ y"
  shows "\<exists>sn. parse_bytes (se_codec env) (serialize_records env rs @ x) = Inr sn \<and> sn_records sn = (if y = [] then rs @ [r] else rs)
    \<and> sn_status sn = (if x = [] \<or> y = [] then Snap_complete else Snap_incomplete_tail)
    \<and> sn_pending_record sn = (if y = [newline_char] then Some r else None)
    \<and> (y \<noteq> [] \<longrightarrow> sn_complete_bytes sn = length (serialize_records env rs))
    \<and> sn_byte_length sn = length (serialize_records env rs @ x)"
proof -
  have log: "log_from env (0, {}) rs" and r: "stored_record env r"
    and s: "fst (seen_after (0, {}) rs) < lr_sequence r" "lr_record_id r \<notin> snd (seen_after (0, {}) rs)"
    using assms(2) by (auto simp: log_from_append)
  obtain b where b: "co_render (se_codec env) r = CHR ''{'' # b @ ''}''" "newline_char \<notin> set (co_render (se_codec env) r)"
    using rendered [OF r] by metis
  consider (all) "y = []" | (none) "x = []" "y \<noteq> []" "y \<noteq> [newline_char]"
    | (line) "y = [newline_char]" "x = co_render (se_codec env) r"
    | (cut) z where "x \<noteq> []" "z \<noteq> []" "y = z @ [newline_char]" "co_render (se_codec env) r = x @ z"
  proof (cases y rule: rev_cases)
    case (snoc z c)
    then have z: "c = newline_char" "co_render (se_codec env) r = x @ z" using assms(3) by (simp_all add: serialize_record_def)
    have x: "x \<noteq> []" if "z = []" using z(2) b(1) that by auto
    show ?thesis
    proof (cases "z = []")
      case True
      then show ?thesis using line z snoc by simp
    next
      case False
      then show ?thesis using none cut [of z] z snoc by (cases "x = []") auto
    qed
  qed (use all in simp)
  then show ?thesis
  proof cases
    case all
    have "serialize_records env rs @ x = serialize_records env (rs @ [r])" using assms(3) all by (simp add: serialize_records_def)
    then show ?thesis using parse_bytes_log [OF assms(2)] all by simp
  next
    case none then show ?thesis using parse_bytes_log [OF log] by simp
  next
    case line
    have "x \<noteq> []" using line(2) b(1) by simp
    then show ?thesis
      using parse_bytes_tail [OF log _ _ parse_tail_whole [OF r s]] line b(2) by auto
  next
    case cut
    have "newline_char \<notin> set x" using b(2) cut(4) by simp
    then have "parse_bytes (se_codec env) (serialize_records env rs @ x) = Inr \<lparr>sn_status = Snap_incomplete_tail, sn_records = rs,
       sn_byte_length = length (serialize_records env rs @ x), sn_complete_bytes = length (serialize_records env rs),
       sn_last_sequence = fst (seen_after (0, {}) rs), sn_pending_record = None\<rparr>"
      by (rule parse_bytes_tail [OF log _ cut(1) parse_tail_cut [OF assms(1) r cut(4,1,2)]])
    moreover have "y \<noteq> [newline_char]" "y \<noteq> []" using cut(2,3) by auto
    ultimately show ?thesis using cut(1) by simp
  qed
qed

end
