(* ===== verification/StoreProperties.thy ===== *)
theory StoreProperties
  imports LedgerLog
begin

text \<open>
  The append-only store refines a log of records with a high-water mark of sequence numbers: an append
  adds one record at the end with a new sequence number or changes nothing, a compaction removes
  records and keeps the mark, and a crash inside an append leaves the log as before or after it.
\<close>

section \<open>The abstract log of a store\<close>

definition cache_matches :: "store_cache \<Rightarrow> ledger_record list \<Rightarrow> bool" where
  "cache_matches c rs \<longleftrightarrow> ch_count c = int (length rs) \<and> ch_last_sequence c = last_sequence_of rs \<and> ch_ids c = lr_record_id ` set rs"

definition store_state :: "store_env \<Rightarrow> append_store \<Rightarrow> ledger_record list \<Rightarrow> store_manifest \<Rightarrow> bool" where
  "store_state env st rs m \<longleftrightarrow> log_from env (0, {}) rs \<and> ledger_bytes st = serialize_records env rs
     \<and> read_store_manifest (se_datetime env) (lf_manifest (st_files st)) = Inr (Some m)
     \<and> (lf_ledger (st_files st) = None \<longrightarrow> sm_record_count m = 0)
     \<and> (\<forall>c. st_cache st = Some c \<longrightarrow> ch_identity c = ledger_identity env st \<longrightarrow> cache_matches c rs)"

text \<open>No sequence number up to the high-water mark is given again.\<close>

definition high_water :: "ledger_record list \<Rightarrow> store_manifest \<Rightarrow> int" where
  "high_water rs m = max (sm_last_sequence m) (last_sequence_of rs)"

lemmas action_simps = bind_action_def done_with_def failing_def change_store_def from_result_def

lemma field_count_bounds: "field_count r k = Some n \<Longrightarrow> 0 \<le> n \<and> n \<le> max_safe"
  by (auto simp: field_count_def safe_integer_def split: option.splits json.splits jsnum.splits if_splits)

lemma field_count_json_int: "map_of r k = Some (json_int n) \<Longrightarrow> field_count r k = (if 0 \<le> n \<and> n \<le> max_safe then Some n else None)"
  by (simp add: field_count_def json_int_def safe_integer_def)

lemma read_manifest_nonneg:
  assumes "read_store_manifest dt file = Inr (Some m)"
  shows "0 \<le> sm_last_sequence m" "0 \<le> sm_record_count m"
proof -
  obtain r t where "manifest_fields dt r t = Some m"
    using assms by (auto simp: read_store_manifest_def store_manifest_of_def migrate_legacy_manifest_def
        split: option.splits prod.splits if_splits json.splits)
  then show "0 \<le> sm_last_sequence m" "0 \<le> sm_record_count m"
    using field_count_bounds by (fastforce simp: manifest_fields_def split: option.splits)+
qed

lemma store_manifest_of_json: "store_manifest_of dt (manifest_json m) = Some p \<Longrightarrow> p = (current_schema_version, m)"
proof -
  let ?r = "[(''schema'', J_str ''state_ledger_store_manifest.v0.1''), (''schemaVersion'', json_int current_schema_version),
     (''recordCount'', json_int (sm_record_count m)), (''lastSequence'', json_int (sm_last_sequence m)),
     (''createdAt'', J_str (sm_created_at m)), (''updatedAt'', J_str (sm_updated_at m)),
     (''recoveredTailTruncations'', json_int (sm_recovered_tail_truncations m))]"
  have f: "field_text ?r ''schema'' = Some ''state_ledger_store_manifest.v0.1''" by (simp add: field_text_def)
  have v: "field_count ?r ''schemaVersion'' = Some 1"
    using field_count_json_int [of ?r "''schemaVersion''" current_schema_version]
    by (simp add: current_schema_version_def max_safe_def)
  have c: "field_count ?r ''recordCount'' = (if 0 \<le> sm_record_count m \<and> sm_record_count m \<le> max_safe then Some (sm_record_count m) else None)"
    "field_count ?r ''lastSequence'' = (if 0 \<le> sm_last_sequence m \<and> sm_last_sequence m \<le> max_safe then Some (sm_last_sequence m) else None)"
    "field_count ?r ''recoveredTailTruncations'' = (if 0 \<le> sm_recovered_tail_truncations m \<and> sm_recovered_tail_truncations m \<le> max_safe
        then Some (sm_recovered_tail_truncations m) else None)"
    by (rule field_count_json_int, simp)+
  have d: "field_date dt ?r ''createdAt'' = (if dt (sm_created_at m) then Some (sm_created_at m) else None)"
    "field_date dt ?r ''updatedAt'' = (if dt (sm_updated_at m) then Some (sm_updated_at m) else None)"
    by (simp_all add: field_date_def field_text_def)
  assume "store_manifest_of dt (manifest_json m) = Some p"
  then show ?thesis
    unfolding store_manifest_of_def manifest_json_def json.case manifest_fields_def f v c d
    by (auto simp: current_schema_version_def split: if_splits)
qed

lemma not_newer_manifest: "\<not> newer_schema (manifest_json m)"
  by (simp add: newer_schema_def manifest_json_def json_int_def current_schema_version_def)

lemma written_manifest:
  assumes "write_store_manifest env m st = (Inr (), st')"
  shows "st' = st\<lparr>st_files := (st_files st)\<lparr>lf_manifest := Some (Some (manifest_json m), se_manifest_bytes env (manifest_json m))\<rparr>\<rparr>"
    and "read_store_manifest (se_datetime env) (lf_manifest (st_files st')) = Inr (Some m)"
proof -
  obtain p where p: "store_manifest_of (se_datetime env) (manifest_json m) = Some p"
    using assms by (auto simp: write_store_manifest_def action_simps split: if_splits)
  show st': "st' = st\<lparr>st_files := (st_files st)\<lparr>lf_manifest := Some (Some (manifest_json m), se_manifest_bytes env (manifest_json m))\<rparr>\<rparr>"
    using assms p by (simp add: write_store_manifest_def action_simps)
  show "read_store_manifest (se_datetime env) (lf_manifest (st_files st')) = Inr (Some m)"
    using p store_manifest_of_json [OF p] by (simp add: st' read_store_manifest_def not_newer_manifest)
qed

lemma write_manifest_cases:
  "write_store_manifest env m st = (Inl e, st') \<Longrightarrow> st' = st"
  by (auto simp: write_store_manifest_def action_simps split: if_splits)

section \<open>Reading a store\<close>

lemma read_snapshot_cases:
  assumes "0 < so_max_snapshot_bytes opts" "so_max_snapshot_bytes opts \<le> max_safe"
  shows "read_snapshot env opts st =
    (if over_limit (nat (so_max_snapshot_bytes opts)) (st_files st) then Inl limit_exceeded
     else case read_attempt (se_codec env) (se_datetime env) (st_files st) of Inl e \<Rightarrow> Inl e | Inr s \<Rightarrow> Inr (Some s))"
  using assms by (simp add: read_snapshot_def read_ledger_snapshot_def limit_exceeded_def Let_def or_else_def max_safe_def)

definition good_options :: "store_options \<Rightarrow> bool" where
  "good_options opts \<longleftrightarrow> 0 < so_max_snapshot_bytes opts \<and> so_max_snapshot_bytes opts \<le> max_safe"

lemma read_attempt_state:
  assumes "read_store_manifest (se_datetime env) (lf_manifest (st_files st)) = Inr (Some m)"
    "lf_ledger (st_files st) = None \<longrightarrow> sm_record_count m = 0"
  shows "read_attempt (se_codec env) (se_datetime env) (st_files st) = parse_bytes (se_codec env) (ledger_bytes st)"
  using assms by (auto simp: read_attempt_def ledger_bytes_def)

lemma writable_records_state:
  assumes "good_options opts" "store_state env st rs m"
  shows "writable_records env opts st = (Inr (rs, 0), st) \<or> (\<exists>e. writable_records env opts st = (Inl e, st))"
proof -
  have "read_attempt (se_codec env) (se_datetime env) (st_files st) = parse_bytes (se_codec env) (serialize_records env rs)"
    using assms(2) read_attempt_state unfolding store_state_def by metis
  then show ?thesis
    using assms parse_bytes_log [of env rs] read_snapshot_cases [of opts env st]
    by (auto simp: good_options_def store_state_def writable_records_def action_simps split: if_splits)
qed

lemma cache_records_state: "store_state env st rs m \<Longrightarrow> store_state env (cache_records env rs st) rs m"
  by (auto simp: store_state_def cache_records_def cache_matches_def ledger_identity_def ledger_bytes_def)

lemma current_cache_state:
  assumes "good_options opts" "store_state env st rs m"
  shows "(\<exists>c st'. current_cache env opts st = (Inr (c, 0), st') \<and> cache_matches c rs \<and> store_state env st' rs m
            \<and> st_files st' = st_files st)
    \<or> (\<exists>e. current_cache env opts st = (Inl e, st))"
proof -
  have again: "(\<exists>c st'. bind_action (writable_records env opts) (\<lambda>(rs, truncations) st'.
                (Inr (the (st_cache (cache_records env rs st')), truncations), cache_records env rs st')) st = (Inr (c, 0), st')
            \<and> cache_matches c rs \<and> store_state env st' rs m \<and> st_files st' = st_files st)
      \<or> (\<exists>e. bind_action (writable_records env opts) (\<lambda>(rs, truncations) st'.
                (Inr (the (st_cache (cache_records env rs st')), truncations), cache_records env rs st')) st = (Inl e, st))"
    using writable_records_state [OF assms] cache_records_state [OF assms(2)]
    by (auto simp: bind_action_def cache_records_def cache_matches_def)
  show ?thesis
  proof (cases "st_cache st")
    case None then show ?thesis using again by (simp add: current_cache_def)
  next
    case (Some c)
    then show ?thesis
    proof (cases "ch_identity c = ledger_identity env st")
      case True
      then have "current_cache env opts st = (Inr (c, 0), st)" using Some by (simp add: current_cache_def done_with_def)
      then show ?thesis using assms(2) Some True by (auto simp: store_state_def)
    qed (use Some again in \<open>simp add: current_cache_def\<close>)
  qed
qed

section \<open>Appending\<close>

lemma prepared:
  assumes "prepare_append env opts now uuid input manifest c truncations = Inr (r, m)"
  shows "\<exists>r0. se_accepts env r0 \<and> normalize_ledger_scope r0 = Inr r"
    "lr_sequence r = max (sm_last_sequence manifest) (ch_last_sequence c) + 1" "lr_sequence r \<le> max_safe"
    "lr_schema_version r = current_schema_version" "lr_payload r = ar_payload input" "lr_record_id r \<notin> ch_ids c"
    "m = manifest\<lparr>sm_record_count := ch_count c + 1, sm_last_sequence := lr_sequence r, sm_updated_at := now,
       sm_recovered_tail_truncations := sm_recovered_tail_truncations manifest + truncations\<rparr>"
proof -
  let ?r0 = "new_record input (max (sm_last_sequence manifest) (ch_last_sequence c) + 1) now uuid"
  have n: "normalize_ledger_scope ?r0 = Inr r" and acc: "se_accepts env ?r0"
    and rest: "max (sm_last_sequence manifest) (ch_last_sequence c) + 1 \<le> max_safe" "lr_record_id r \<notin> ch_ids c"
    and m: "m = manifest\<lparr>sm_record_count := ch_count c + 1, sm_last_sequence := max (sm_last_sequence manifest) (ch_last_sequence c) + 1,
       sm_updated_at := now, sm_recovered_tail_truncations := sm_recovered_tail_truncations manifest + truncations\<rparr>"
    using assms by (auto simp: prepare_append_def Let_def split: if_splits sum.splits option.splits)
  note f = normalize_ledger_scope_Inr [OF n]
  show "\<exists>r0. se_accepts env r0 \<and> normalize_ledger_scope r0 = Inr r" using n acc by blast
  show seq: "lr_sequence r = max (sm_last_sequence manifest) (ch_last_sequence c) + 1" using f by (simp add: new_record_def)
  show "lr_sequence r \<le> max_safe" using rest seq by simp
  show "lr_schema_version r = current_schema_version" "lr_payload r = ar_payload input" using f by (simp_all add: new_record_def)
  show "lr_record_id r \<notin> ch_ids c" using rest by simp
  show "m = manifest\<lparr>sm_record_count := ch_count c + 1, sm_last_sequence := lr_sequence r, sm_updated_at := now,
       sm_recovered_tail_truncations := sm_recovered_tail_truncations manifest + truncations\<rparr>" using m seq by simp
qed

lemma serialize_snoc: "serialize_records env (rs @ [r]) = serialize_records env rs @ serialize_record env r"
  by (simp add: serialize_records_def)

text \<open>The state after the line is written, whatever the manifest says.\<close>

lemma state_after_line:
  assumes "store_state env st rs m" "log_from env (0, {}) (rs @ [r])"
  shows "store_state env (set_ledger (Some (ledger_bytes st @ serialize_record env r)) (st\<lparr>st_cache := None\<rparr>)) (rs @ [r]) m"
  using assms by (simp add: store_state_def set_ledger_def ledger_bytes_def serialize_snoc or_else_def)

lemma commit_append_state:
  assumes st: "store_state env st rs m" and log: "log_from env (0, {}) (rs @ [r])" and c: "cache_matches c rs"
  shows "(\<exists>st'. commit_append env c m' r st = (Inr r, st') \<and> store_state env st' (rs @ [r]) m')
    \<or> (\<exists>e st'. commit_append env c m' r st = (Inl e, st') \<and> store_state env st' (rs @ [r]) m)"
proof -
  let ?s = "set_ledger (Some (ledger_bytes st @ serialize_record env r)) (st\<lparr>st_cache := None\<rparr>)"
  note s = state_after_line [OF st log]
  show ?thesis
  proof (cases "write_store_manifest env m' ?s")
    case (Pair res s2)
    show ?thesis
    proof (cases res)
      case (Inl e)
      then have "commit_append env c m' r st = (Inl e, ?s)"
        using Pair write_manifest_cases [of env m' ?s e s2] by (simp add: commit_append_def action_simps)
      then show ?thesis using s by blast
    next
      case (Inr u)
      note w = written_manifest [of env m' ?s s2] Pair Inr
      let ?c = "c\<lparr>ch_count := ch_count c + 1, ch_last_sequence := lr_sequence r, ch_ids := insert (lr_record_id r) (ch_ids c),
          ch_identity := ledger_identity env s2\<rparr>"
      have "commit_append env c m' r st = (Inr r, s2\<lparr>st_cache := Some ?c\<rparr>)"
        using Pair Inr by (simp add: commit_append_def action_simps)
      moreover have "store_state env (s2\<lparr>st_cache := Some ?c\<rparr>) (rs @ [r]) m'"
        using w c s unfolding store_state_def
        by (auto simp: set_ledger_def ledger_bytes_def or_else_def cache_matches_def last_sequence_of_def ledger_identity_def)
      ultimately show ?thesis by blast
    qed
  qed
qed

lemma last_sequence_bound:
  assumes "log_from env (0, {}) rs"
  shows "0 \<le> last_sequence_of rs" "r \<in> set rs \<Longrightarrow> lr_sequence r \<le> last_sequence_of rs" "last_sequence_of rs \<le> max_safe"
proof -
  have "0 \<le> last_sequence_of rs \<and> (\<forall>r \<in> set rs. lr_sequence r \<le> last_sequence_of rs) \<and> last_sequence_of rs \<le> max_safe"
    using assms
  proof (induction rs rule: rev_induct)
    case Nil then show ?case by (simp add: last_sequence_of_def max_safe_def)
  next
    case (snoc q rs)
    then have i: "0 \<le> last_sequence_of rs" "\<forall>r \<in> set rs. lr_sequence r \<le> last_sequence_of rs" "last_sequence_of rs < lr_sequence q"
      "\<bar>lr_sequence q\<bar> \<le> max_safe" by (auto simp: log_from_snoc stored_record_def)
    have "last_sequence_of (rs @ [q]) = lr_sequence q" by (simp add: last_sequence_of_def)
    then show ?case using i by fastforce
  qed
  then show "0 \<le> last_sequence_of rs" "r \<in> set rs \<Longrightarrow> lr_sequence r \<le> last_sequence_of rs" "last_sequence_of rs \<le> max_safe" by blast+
qed

text \<open>An append to a log: one new record at the end, above the high-water mark.\<close>

definition log_grows :: "store_env \<Rightarrow> ledger_record list \<Rightarrow> store_manifest \<Rightarrow> append_record_input \<Rightarrow> ledger_record \<Rightarrow> bool" where
  "log_grows env rs m input r \<longleftrightarrow> log_from env (0, {}) (rs @ [r]) \<and> high_water rs m < lr_sequence r
     \<and> lr_payload r = ar_payload input"

lemma prepared_grows:
  assumes ok: "codec_ok env" and st: "store_state env st rs m" and c: "cache_matches c rs"
    and p: "prepare_append env opts now uuid input m c truncations = Inr (r, m')"
  shows "log_grows env rs m input r" "sm_last_sequence m' = lr_sequence r"
proof -
  note q = prepared [OF p]
  have log: "log_from env (0, {}) rs" and nonneg: "0 \<le> sm_last_sequence m"
    using st read_manifest_nonneg(1) unfolding store_state_def by blast+
  have hw: "high_water rs m < lr_sequence r" using q(2) c by (simp add: high_water_def cache_matches_def)
  have "scoped_record r" using q(1) normalize_ledger_scope_Inr by blast
  moreover have "renders_well env r" using q(1) ok unfolding codec_ok_def by blast
  ultimately have "stored_record env r" using q(3,4) hw nonneg last_sequence_bound(1) [OF log] by (simp add: stored_record_def high_water_def)
  moreover have "last_sequence_of rs < lr_sequence r" using hw by (simp add: high_water_def)
  ultimately have "log_from env (0, {}) (rs @ [r])" using log q(6) c by (simp add: log_from_snoc cache_matches_def)
  then show "log_grows env rs m input r" using hw q(5) by (simp add: log_grows_def)
  show "sm_last_sequence m' = lr_sequence r" unfolding q(7) by simp
qed

lemma append_record_outcome:
  assumes ok: "codec_ok env" and opts: "good_options opts" and st: "store_state env st rs m"
  shows "(\<exists>r st' m'. append_record env opts now uuid input st = (Inr r, st') \<and> log_grows env rs m input r
        \<and> store_state env st' (rs @ [r]) m' \<and> high_water (rs @ [r]) m' = lr_sequence r)
    \<or> (\<exists>e st'. append_record env opts now uuid input st = (Inl e, st') \<and>
        (store_state env st' rs m \<or> (\<exists>r. log_grows env rs m input r \<and> store_state env st' (rs @ [r]) m)))"
proof (cases "so_read_only opts \<or> se_metadata_error env input \<noteq> None")
  case True
  then show ?thesis using st by (auto simp: append_record_def require_def action_simps)
next
  case False
  have man: "read_store_manifest (se_datetime env) (lf_manifest (st_files st)) = Inr (Some m)"
    using st unfolding store_state_def by blast
  consider e where "current_cache env opts st = (Inl e, st)"
    | c st1 where "current_cache env opts st = (Inr (c, 0), st1)" "cache_matches c rs" "store_state env st1 rs m"
    using current_cache_state [OF opts st] by blast
  then show ?thesis
  proof cases
    case 1
    then show ?thesis using False man st by (auto simp: append_record_def require_def action_simps read_manifest_def)
  next
    case (2 c st1)
    show ?thesis
    proof (cases "prepare_append env opts now uuid input m c 0")
      case (Inl e)
      then show ?thesis using False man 2 by (auto simp: append_record_def require_def action_simps read_manifest_def)
    next
      case (Inr p)
      obtain r m' where p: "p = (r, m')" by (cases p)
      note g = prepared_grows [OF ok 2(3,2) Inr [unfolded p]]
      have run: "append_record env opts now uuid input st =
          (if so_max_snapshot_bytes opts < int (length (ledger_bytes st1)) + int (length (serialize_record env r))
           then (Inl limit_exceeded, st1) else commit_append env c m' r st1)"
        using False man 2 Inr p by (simp add: append_record_def require_def action_simps read_manifest_def)
      have hw: "high_water (rs @ [r]) m' = lr_sequence r" using g(2) by (simp add: high_water_def last_sequence_of_def)
      have log: "log_from env (0, {}) (rs @ [r])" using g(1) by (simp add: log_grows_def)
      show ?thesis
      proof (cases "so_max_snapshot_bytes opts < int (length (ledger_bytes st1)) + int (length (serialize_record env r))")
        case True
        then show ?thesis using run 2(3) by auto
      next
        case False
        then show ?thesis using run commit_append_state [OF 2(3) log 2(2), of m'] g(1) hw by auto
      qed
    qed
  qed
qed

section \<open>Crashes\<close>

text \<open>The files after a crash that left the bytes \<open>x\<close> of a line; the process starts without a cache.\<close>

definition torn_store :: "append_store \<Rightarrow> string \<Rightarrow> append_store" where
  "torn_store st x = set_ledger (Some (ledger_bytes st @ x)) (st\<lparr>st_cache := None\<rparr>)"

definition torn_fits :: "store_options \<Rightarrow> append_store \<Rightarrow> string \<Rightarrow> bool" where
  "torn_fits opts st x \<longleftrightarrow> int (length (ledger_bytes st @ x)) + 1 \<le> so_max_snapshot_bytes opts
     \<and> (case lf_manifest (st_files st) of None \<Rightarrow> True | Some (_, bytes) \<Rightarrow> int bytes \<le> so_max_snapshot_bytes opts)"

lemma torn_reads:
  assumes ok: "codec_ok env" and opts: "good_options opts" and st: "store_state env st rs m"
    and log: "log_from env (0, {}) (rs @ [r])" and xy: "serialize_record env r = x @ y"
    and limit: "\<not> over_limit (nat (so_max_snapshot_bytes opts)) (st_files (torn_store st x))"
  shows "\<exists>sn. read_snapshot env opts (torn_store st x) = Inr (Some sn) \<and> sn_records sn = (if y = [] then rs @ [r] else rs)
    \<and> sn_status sn = (if x = [] \<or> y = [] then Snap_complete else Snap_incomplete_tail)
    \<and> sn_pending_record sn = (if y = [newline_char] then Some r else None)
    \<and> (y \<noteq> [] \<longrightarrow> sn_complete_bytes sn = length (serialize_records env rs))
    \<and> sn_byte_length sn = length (serialize_records env rs @ x)"
proof -
  have b: "ledger_bytes (torn_store st x) = serialize_records env rs @ x" "lf_ledger (st_files (torn_store st x)) \<noteq> None"
    "read_store_manifest (se_datetime env) (lf_manifest (st_files (torn_store st x))) = Inr (Some m)"
    using st by (simp_all add: torn_store_def set_ledger_def ledger_bytes_def store_state_def or_else_def)
  have "read_attempt (se_codec env) (se_datetime env) (st_files (torn_store st x)) = parse_bytes (se_codec env) (serialize_records env rs @ x)"
    using read_attempt_state [OF b(3)] b(1,2) by simp
  then show ?thesis
    using parse_torn [OF ok log xy] opts limit by (auto simp: read_snapshot_cases good_options_def)
qed

definition recovered_records :: "ledger_record list \<Rightarrow> ledger_record \<Rightarrow> string \<Rightarrow> ledger_record list" where
  "recovered_records rs r y = (if y = [] \<or> y = [newline_char] then rs @ [r] else rs)"

lemma torn_writable:
  assumes ok: "codec_ok env" and opts: "good_options opts" and st: "store_state env st rs m"
    and log: "log_from env (0, {}) (rs @ [r])" and xy: "serialize_record env r = x @ y"
  shows "(\<exists>e. writable_records env opts (torn_store st x) = (Inl e, torn_store st x) \<and> \<not> torn_fits opts st x) \<or>
    (\<exists>st'. writable_records env opts (torn_store st x) =
        (Inr (recovered_records rs r y, if x = [] \<or> y = [] \<or> y = [newline_char] then 0 else 1), st')
      \<and> store_state env st' (recovered_records rs r y) m \<and> st_cache st' = None
      \<and> st_recovery st' = st_recovery st @ (if x = [] \<or> y = [] \<or> y = [newline_char] then [] else [x]))"
proof (cases "over_limit (nat (so_max_snapshot_bytes opts)) (st_files (torn_store st x))")
  case True
  then have "writable_records env opts (torn_store st x) = (Inl limit_exceeded, torn_store st x)"
    using opts by (simp add: writable_records_def read_snapshot_cases good_options_def action_simps)
  moreover have "\<not> torn_fits opts st x"
    using True opts by (auto simp: over_limit_def torn_fits_def torn_store_def set_ledger_def ledger_bytes_def or_else_def
        good_options_def nat_less_iff split: option.splits)
  ultimately show ?thesis by blast
next
  case False
  obtain sn where sn: "read_snapshot env opts (torn_store st x) = Inr (Some sn)" "sn_records sn = (if y = [] then rs @ [r] else rs)"
    "sn_status sn = (if x = [] \<or> y = [] then Snap_complete else Snap_incomplete_tail)"
    "sn_pending_record sn = (if y = [newline_char] then Some r else None)"
    "y \<noteq> [] \<longrightarrow> sn_complete_bytes sn = length (serialize_records env rs)"
    "sn_byte_length sn = length (serialize_records env rs @ x)"
    using torn_reads [OF ok opts st log xy False] by blast
  have bytes: "ledger_bytes st = serialize_records env rs" using st by (simp add: store_state_def)
  have tb: "ledger_bytes (torn_store st x) = serialize_records env rs @ x"
    using bytes by (simp add: torn_store_def set_ledger_def ledger_bytes_def or_else_def)
  have state: "store_state env (set_ledger (Some (serialize_records env qs)) (torn_store st x\<lparr>st_recovery := q\<rparr>)) qs m"
    if "log_from env (0, {}) qs" for qs q
    using st that by (simp add: store_state_def torn_store_def set_ledger_def ledger_bytes_def or_else_def)
  have same: "set_ledger (Some (ledger_bytes (torn_store st x))) (torn_store st x\<lparr>st_recovery := st_recovery st\<rparr>) = torn_store st x"
    by (simp add: torn_store_def set_ledger_def ledger_bytes_def or_else_def)
  have logs: "log_from env (0, {}) rs" "log_from env (0, {}) (rs @ [r])" using log by (auto simp: log_from_snoc)
  have "stored_record env r" using log by (simp add: log_from_snoc)
  then obtain b where "co_render (se_codec env) r = CHR ''{'' # b @ ''}''" by (rule rendered)
  then have none: "x \<noteq> []" if "y = [newline_char]" using that xy by (auto simp: serialize_record_def)
  consider (whole) "y = []" | (empty) "x = []" "y \<noteq> []" "y \<noteq> [newline_char]" | (line) "y = [newline_char]" "x \<noteq> []"
    | (cut) "x \<noteq> []" "y \<noteq> []" "y \<noteq> [newline_char]" using none by blast
  then show ?thesis
  proof cases
    case whole
    have "serialize_records env rs @ x = serialize_records env (rs @ [r])" using xy whole by (simp add: serialize_snoc)
    then have "store_state env (torn_store st x) (rs @ [r]) m" using state [OF logs(2), of "st_recovery st"] same tb by simp
    then show ?thesis using whole sn by (simp add: writable_records_def action_simps recovered_records_def torn_store_def set_ledger_def)
  next
    case empty
    then have "store_state env (torn_store st x) rs m" using state [OF logs(1), of "st_recovery st"] same tb by simp
    then show ?thesis using empty sn by (simp add: writable_records_def action_simps recovered_records_def torn_store_def set_ledger_def)
  next
    case line
    have b: "serialize_records env rs @ x @ [newline_char] = serialize_records env (rs @ [r])" using xy line by (simp add: serialize_snoc)
    show ?thesis
    proof (cases "so_max_snapshot_bytes opts < int (sn_byte_length sn) + 1")
      case True
      then have "writable_records env opts (torn_store st x) = (Inl limit_exceeded, torn_store st x)"
        using line sn by (simp add: writable_records_def repair_tail_def action_simps)
      moreover have "\<not> torn_fits opts st x" using True sn(6) bytes by (simp add: torn_fits_def)
      ultimately show ?thesis by blast
    next
      case fits: False
      let ?s = "set_ledger (Some (serialize_records env (rs @ [r]))) (torn_store st x)"
      have "writable_records env opts (torn_store st x) = (Inr (rs @ [r], 0), ?s)"
        using line sn fits tb b by (simp add: writable_records_def repair_tail_def action_simps)
      moreover have "store_state env ?s (rs @ [r]) m"
        using state [OF logs(2), of "st_recovery st"] by (simp add: torn_store_def set_ledger_def)
      ultimately show ?thesis using line by (auto simp: recovered_records_def torn_store_def set_ledger_def)
    qed
  next
    case cut
    let ?s = "set_ledger (Some (serialize_records env rs)) (torn_store st x\<lparr>st_recovery := st_recovery st @ [x]\<rparr>)"
    have "writable_records env opts (torn_store st x) = (Inr (rs, 1), ?s)"
      using cut sn tb by (simp add: writable_records_def repair_tail_def action_simps torn_store_def set_ledger_def)
    moreover have "store_state env ?s rs m" by (rule state [OF logs(1)])
    ultimately show ?thesis using cut by (auto simp: recovered_records_def torn_store_def set_ledger_def)
  qed
qed

section \<open>Opening and compaction\<close>

lemma high_water_cases: "high_water rs m = sm_last_sequence m \<or> high_water rs m = last_sequence_of rs"
  by (simp add: high_water_def max_def)

text \<open>What \<open>initialize\<close> does with the records it found.\<close>

lemma initialize_outcome:
  assumes init: "initialize_store env opts now st = (Inr u, st')" and w: "writable_records env opts st = (Inr (rs, t), st1)"
    and s1: "log_from env (0, {}) rs" "ledger_bytes st1 = serialize_records env rs"
    and man: "read_store_manifest (se_datetime env) (lf_manifest (st_files st)) = Inr existing"
  shows "\<exists>m'. store_state env st' rs m' \<and> sm_last_sequence m' = max (sm_last_sequence (or_else existing (create_empty_manifest now))) (last_sequence_of rs)
    \<and> ledger_bytes st' = ledger_bytes st1"
proof -
  let ?p = "or_else existing (create_empty_manifest now)"
  let ?m = "?p\<lparr>sm_record_count := int (length rs), sm_last_sequence := max (sm_last_sequence ?p) (last_sequence_of rs), sm_updated_at := now,
      sm_recovered_tail_truncations := sm_recovered_tail_truncations ?p + t\<rparr>"
  let ?s2 = "st1\<lparr>st_index := Some (build_index_snapshot rs (sm_updated_at ?m))\<rparr>"
  obtain u' s3 where s3: "write_store_manifest env ?m ?s2 = (Inr u', s3)" and st': "st' = cache_records env rs s3"
    using init w man
    by (auto simp: initialize_store_def require_def action_simps read_manifest_def Let_def split: if_splits prod.splits sum.splits)
  have s3': "write_store_manifest env ?m ?s2 = (Inr (), s3)" using s3 by simp
  note wm = written_manifest [OF s3']
  have "lf_ledger (st_files s3) = None \<longrightarrow> int (length rs) = 0"
  proof
    assume "lf_ledger (st_files s3) = None"
    then have "serialize_records env rs = []" using s1(2) by (simp add: wm(1) ledger_bytes_def or_else_def)
    then show "int (length rs) = 0" by (cases rs) (auto simp: serialize_records_def serialize_record_def)
  qed
  moreover have "ledger_bytes s3 = serialize_records env rs" using s1(2) by (simp add: wm(1) ledger_bytes_def)
  ultimately have "store_state env (s3\<lparr>st_cache := None\<rparr>) rs ?m"
    using s1(1) wm(2) by (simp add: store_state_def ledger_bytes_def)
  then have "store_state env (cache_records env rs (s3\<lparr>st_cache := None\<rparr>)) rs ?m" by (rule cache_records_state)
  moreover have "cache_records env rs (s3\<lparr>st_cache := None\<rparr>) = st'" by (simp add: st' cache_records_def ledger_identity_def)
  moreover have "ledger_bytes st' = ledger_bytes st1" by (simp add: st' wm(1) cache_records_def ledger_bytes_def)
  ultimately show ?thesis by force
qed

definition empty_store :: append_store where
  "empty_store = \<lparr>st_files = \<lparr>lf_manifest = None, lf_ledger = None\<rparr>, st_index = None, st_recovery = [], st_cache = None\<rparr>"

lemma initialize_empty:
  assumes "good_options opts" "initialize_store env opts now empty_store = (Inr u, st')"
  shows "\<exists>m. store_state env st' [] m \<and> high_water [] m = 0"
proof -
  have man: "read_store_manifest (se_datetime env) (lf_manifest (st_files empty_store)) = Inr None"
    by (simp add: read_store_manifest_def empty_store_def)
  have "parse_bytes (se_codec env) [] = Inr \<lparr>sn_status = Snap_complete, sn_records = [], sn_byte_length = 0, sn_complete_bytes = 0,
      sn_last_sequence = 0, sn_pending_record = None\<rparr>"
    using parse_bytes_log [of env "[]"] by (simp add: serialize_records_def)
  moreover have "\<not> over_limit n (st_files empty_store)" for n by (simp add: over_limit_def empty_store_def or_else_def)
  ultimately have w: "writable_records env opts empty_store = (Inr ([], 0), empty_store)"
    using assms(1) by (simp add: writable_records_def read_snapshot_cases good_options_def read_attempt_def man action_simps)
      (simp add: empty_store_def or_else_def done_with_def)
  have b: "ledger_bytes empty_store = serialize_records env []" by (simp add: empty_store_def ledger_bytes_def serialize_records_def or_else_def)
  show ?thesis
    using initialize_outcome [OF assms(2) w _ b man]
    by (auto simp: high_water_def last_sequence_of_def create_empty_manifest_def or_else_def)
qed

lemma check_kept_stored:
  "check_kept env opts newest prev ids ks = Inr rs \<Longrightarrow> \<forall>k \<in> set ks. stored_record env k \<Longrightarrow> rs = ks"
proof (induction ks arbitrary: prev ids rs)
  case (Cons k ks)
  have n: "normalize_ledger_scope k = Inr k" using Cons.prems(2) normalize_scoped by (simp add: stored_record_def)
  obtain rs' where "check_kept env opts newest (Some (lr_sequence k)) (insert (lr_record_id k) ids) ks = Inr rs'" "rs = k # rs'"
    using Cons.prems(1) n by (auto split: if_splits option.splits sum.splits)
  then show ?case using Cons by simp
qed simp

lemma log_stored: "log_from env seen rs \<Longrightarrow> \<forall>k \<in> set rs. stored_record env k"
  by (induction rs arbitrary: seen) auto

lemma log_from_mono: "log_from env seen rs \<Longrightarrow> fst seen' \<le> fst seen \<Longrightarrow> snd seen' \<subseteq> snd seen \<Longrightarrow> log_from env seen' (filter P rs)"
proof (induction rs arbitrary: seen seen')
  case (Cons r rs)
  then have l: "log_from env (lr_sequence r, insert (lr_record_id r) (snd seen)) rs" by simp
  show ?case
  proof (cases "P r")
    case True
    have "log_from env (lr_sequence r, insert (lr_record_id r) (snd seen')) (filter P rs)"
      using Cons.prems(3) by (intro Cons.IH [OF l]) auto
    then show ?thesis using True Cons.prems by auto
  next
    case False
    then show ?thesis using Cons.IH [OF l, of seen'] Cons.prems by auto
  qed
qed simp

lemma log_from_filter: "log_from env (0, {}) rs \<Longrightarrow> log_from env (0, {}) (filter P rs)"
  by (erule log_from_mono) simp_all

lemma last_sequence_filter:
  assumes l: "log_from env (0, {}) rs"
  shows "last_sequence_of (filter P rs) \<le> last_sequence_of rs"
proof (cases "filter P rs = []")
  case True
  then have "last_sequence_of (filter P rs) = 0" by (simp only: last_sequence_of_def) simp
  then show ?thesis using last_sequence_bound(1) [OF l] by simp
next
  case False
  have "last (filter P rs) \<in> set rs" using False last_in_set [OF False] by simp
  then show ?thesis using last_sequence_bound(2) [OF l] False by (simp add: last_sequence_of_def)
qed

end
