(* ===== verification/LedgerProperties.thy ===== *)
theory LedgerProperties
  imports StoreProperties
begin

text \<open>Compaction, whole runs of a store with crashes, and the properties of the ledger.\<close>

section \<open>Compaction\<close>

lemma prepared_compaction:
  assumes st: "store_state env st rs m" and p: "prepare_compaction env opts now keep m rs 0 = Inr (kept, manifest, m')"
  shows "kept = filter (\<lambda>r. keep r rs) rs"
    "manifest = m\<lparr>sm_last_sequence := high_water rs m\<rparr>" "sm_last_sequence m' = high_water rs m" "sm_record_count m' = int (length kept)"
proof -
  have log: "log_from env (0, {}) rs" using st by (simp add: store_state_def)
  obtain ck where ck: "check_kept env opts (high_water rs m) None {} (filter (\<lambda>r. keep r rs) rs) = Inr ck"
    and eq: "kept = ck" "manifest = m\<lparr>sm_last_sequence := high_water rs m\<rparr>" "sm_last_sequence m' = high_water rs m"
      "sm_record_count m' = int (length ck)"
    using p by (auto simp: prepare_compaction_def high_water_def Let_def split: sum.splits if_splits)
  have "\<forall>k \<in> set (filter (\<lambda>r. keep r rs) rs). stored_record env k" using log_stored [OF log] by simp
  then have "ck = filter (\<lambda>r. keep r rs) rs" using check_kept_stored [OF ck] by blast
  then show "kept = filter (\<lambda>r. keep r rs) rs" "manifest = m\<lparr>sm_last_sequence := high_water rs m\<rparr>"
    "sm_last_sequence m' = high_water rs m" "sm_record_count m' = int (length kept)" using eq by simp_all
qed

lemma commit_compaction_state:
  assumes st: "store_state env st rs m" and log: "log_from env (0, {}) kept" and count: "sm_record_count manifest = sm_record_count m"
  shows "(\<exists>st'. commit_compaction env kept manifest m' st = (Inr (), st') \<and> store_state env st' kept m')
    \<or> (\<exists>e st'. commit_compaction env kept manifest m' st = (Inl e, st') \<and> (st' = st \<or> store_state env st' kept manifest))"
proof (cases "write_store_manifest env manifest st")
  case (Pair res s1)
  show ?thesis
  proof (cases res)
    case (Inl e)
    then show ?thesis using Pair write_manifest_cases [of env manifest st e s1] by (simp add: commit_compaction_def action_simps)
  next
    case (Inr u)
    let ?s2 = "set_ledger (Some (serialize_records env kept)) (s1\<lparr>st_cache := None\<rparr>)\<lparr>st_index := Some (build_index_snapshot kept (sm_updated_at m'))\<rparr>"
    have w1: "write_store_manifest env manifest st = (Inr (), s1)" using Pair Inr by simp
    have s2: "store_state env ?s2 kept manifest"
      using log written_manifest(2) [OF w1] by (simp add: store_state_def set_ledger_def ledger_bytes_def or_else_def)
    show ?thesis
    proof (cases "write_store_manifest env m' ?s2")
      case p3: (Pair res3 s3)
      show ?thesis
      proof (cases res3)
        case (Inl e)
        then have "commit_compaction env kept manifest m' st = (Inl e, ?s2)"
          using w1 p3 write_manifest_cases [of env m' ?s2 e s3] by (simp add: commit_compaction_def action_simps)
        then show ?thesis using s2 by blast
      next
        case (Inr u)
        then have w3: "write_store_manifest env m' ?s2 = (Inr (), s3)" using p3 by simp
        have "commit_compaction env kept manifest m' st = (Inr (), cache_records env kept s3)"
          using w1 w3 by (simp add: commit_compaction_def action_simps)
        moreover have "store_state env s3 kept m'"
          using s2 written_manifest [OF w3] by (simp add: store_state_def set_ledger_def ledger_bytes_def or_else_def)
        ultimately show ?thesis using cache_records_state by blast
      qed
    qed
  qed
qed

lemma compact_records_outcome:
  fixes keep :: "ledger_record \<Rightarrow> ledger_record list \<Rightarrow> bool"
  assumes opts: "good_options opts" and st: "store_state env st rs m"
  defines "kept \<equiv> filter (\<lambda>r. keep r rs) rs"
  shows "(\<exists>st' m'. compact_records env opts now keep st =
          (Inr \<lparr>cr_kept_records = kept, cr_pruned_records = filter (\<lambda>r. \<not> keep r rs) rs, cr_manifest = m'\<rparr>, st')
        \<and> store_state env st' kept m' \<and> sm_last_sequence m' = high_water rs m)
    \<or> (\<exists>e st' m'. compact_records env opts now keep st = (Inl e, st') \<and>
          (store_state env st' rs m' \<or> store_state env st' kept m') \<and> high_water rs m \<le> high_water kept m')
    \<or> (\<exists>e. compact_records env opts now keep st = (Inl e, st))"
proof (cases "so_read_only opts")
  case True
  then show ?thesis by (simp add: compact_records_def require_def action_simps)
next
  case False
  have man: "read_store_manifest (se_datetime env) (lf_manifest (st_files st)) = Inr (Some m)" and log: "log_from env (0, {}) rs"
    using st unfolding store_state_def by blast+
  consider e where "writable_records env opts st = (Inl e, st)" | "writable_records env opts st = (Inr (rs, 0), st)"
    using writable_records_state [OF opts st] by blast
  then show ?thesis
  proof cases
    case 1
    then show ?thesis using False man by (auto simp: compact_records_def require_def action_simps read_manifest_def)
  next
    case 2
    show ?thesis
    proof (cases "prepare_compaction env opts now keep m rs 0")
      case (Inl e)
      then show ?thesis using False man 2 by (auto simp: compact_records_def require_def action_simps read_manifest_def)
    next
      case (Inr p)
      obtain ks manifest m' where p: "p = (ks, manifest, m')" by (cases p)
      note q = prepared_compaction [OF st Inr [unfolded p]]
      have lk: "log_from env (0, {}) ks" unfolding q(1) by (rule log_from_filter [OF log])
      have count: "sm_record_count manifest = sm_record_count m" unfolding q(2) by simp
      have run: "compact_records env opts now keep st = (case commit_compaction env ks manifest m' st of
          (Inl e, s) \<Rightarrow> (Inl e, s)
        | (Inr _, s) \<Rightarrow> (Inr \<lparr>cr_kept_records = ks, cr_pruned_records = filter (\<lambda>r. \<not> keep r rs) rs, cr_manifest = m'\<rparr>, s))"
        using False man 2 Inr p
        by (simp add: compact_records_def require_def action_simps read_manifest_def split: prod.split sum.split)
      have hw: "high_water rs m \<le> high_water kept manifest" unfolding q(2) by (simp add: high_water_def)
      show ?thesis
        using commit_compaction_state [OF st lk count, of m'] run q(1,3) hw unfolding kept_def [symmetric] by auto
    qed
  qed
qed

section \<open>Runs\<close>

definition ledger_contents :: "store_env \<Rightarrow> store_options \<Rightarrow> append_store \<Rightarrow> ledger_record list" where
  "ledger_contents env opts st = (case list_records env opts st of Inl _ \<Rightarrow> [] | Inr rs \<Rightarrow> rs)"

text \<open>A store is opened on empty files, then records are appended and pruned; a process may crash
  with any part of a line written, and the store is opened again. The history holds the records whose
  append returned, \<open>gone\<close> those a compaction was told to prune.\<close>

inductive ledger_run :: "store_env \<Rightarrow> store_options \<Rightarrow> append_store \<Rightarrow> ledger_record list \<Rightarrow> ledger_record set \<Rightarrow> bool"
  for env opts where
  run_open: "initialize_store env opts now empty_store = (Inr (), st) \<Longrightarrow> ledger_run env opts st [] {}"
| run_append: "ledger_run env opts st history gone \<Longrightarrow> append_record env opts now uuid input st = (Inr r, st') \<Longrightarrow>
    ledger_run env opts st' (history @ [r]) gone"
| run_refused: "ledger_run env opts st history gone \<Longrightarrow> append_record env opts now uuid input st = (Inl e, st') \<Longrightarrow>
    ledger_run env opts st' history gone"
| run_crash: "ledger_run env opts st history gone \<Longrightarrow> current_cache env opts st = (Inr (c, t), st1) \<Longrightarrow>
    read_store_manifest (se_datetime env) (lf_manifest (st_files st1)) = Inr (Some m) \<Longrightarrow>
    prepare_append env opts now uuid input m c t = Inr (r, m') \<Longrightarrow> serialize_record env r = x @ y \<Longrightarrow>
    initialize_store env opts later (torn_store st1 x) = (Inr (), st') \<Longrightarrow> ledger_run env opts st' history gone"
| run_compact: "ledger_run env opts st history gone \<Longrightarrow> compact_records env opts now keep st = (res, st') \<Longrightarrow>
    ledger_run env opts st' history (gone \<union> {r. \<not> keep r (ledger_contents env opts st)})"

definition run_invariant :: "store_env \<Rightarrow> append_store \<Rightarrow> ledger_record list \<Rightarrow> ledger_record set \<Rightarrow> bool" where
  "run_invariant env st history gone \<longleftrightarrow> (\<exists>rs m. store_state env st rs m \<and> sorted_wrt (<) (map lr_sequence history)
     \<and> (\<forall>r \<in> set history. lr_sequence r \<le> high_water rs m \<and> (r \<in> set rs \<or> r \<in> gone)))"

lemma run_invariantI: "store_state env st rs m \<Longrightarrow> sorted_wrt (<) (map lr_sequence history) \<Longrightarrow>
    (\<And>r. r \<in> set history \<Longrightarrow> lr_sequence r \<le> high_water rs m \<and> (r \<in> set rs \<or> r \<in> gone)) \<Longrightarrow> run_invariant env st history gone"
  unfolding run_invariant_def by blast

lemma contents_state:
  assumes "good_options opts" "store_state env st rs m"
  shows "list_records env opts st = Inr rs \<or> list_records env opts st = Inl limit_exceeded"
proof -
  have "read_attempt (se_codec env) (se_datetime env) (st_files st) = parse_bytes (se_codec env) (serialize_records env rs)"
    using assms(2) read_attempt_state unfolding store_state_def by metis
  then show ?thesis
    using assms parse_bytes_log [of env rs] read_snapshot_cases [of opts env st]
    by (auto simp: good_options_def store_state_def list_records_def complete_snapshot_records_def split: if_splits)
qed

lemma unreadable:
  assumes "good_options opts" "store_state env st rs m" "list_records env opts st = Inl e"
  shows "\<exists>e. writable_records env opts st = (Inl e, st)"
proof -
  have "read_attempt (se_codec env) (se_datetime env) (st_files st) = parse_bytes (se_codec env) (serialize_records env rs)"
    using assms(2) read_attempt_state unfolding store_state_def by metis
  then show ?thesis
    using assms parse_bytes_log [of env rs] read_snapshot_cases [of opts env st]
    by (auto simp: good_options_def store_state_def list_records_def complete_snapshot_records_def writable_records_def
        action_simps split: if_splits)
qed

lemma high_water_grown: "log_grows env rs m input r \<Longrightarrow> high_water rs m \<le> high_water (rs @ [r]) m"
  by (auto simp: log_grows_def high_water_def last_sequence_of_def)

lemma run_invariant_append:
  assumes ok: "codec_ok env" "good_options opts" and inv: "run_invariant env st history gone"
    and a: "append_record env opts now uuid input st = (res, st')"
  shows "run_invariant env st' (history @ (case res of Inr r \<Rightarrow> [r] | Inl _ \<Rightarrow> [])) gone"
proof -
  obtain rs m where st: "store_state env st rs m" and s: "sorted_wrt (<) (map lr_sequence history)"
    and h: "\<forall>r \<in> set history. lr_sequence r \<le> high_water rs m \<and> (r \<in> set rs \<or> r \<in> gone)"
    using inv unfolding run_invariant_def by blast
  consider r m' where "res = Inr r" "log_grows env rs m input r" "store_state env st' (rs @ [r]) m'" "high_water (rs @ [r]) m' = lr_sequence r"
    | e where "res = Inl e" "store_state env st' rs m"
    | e r where "res = Inl e" "log_grows env rs m input r" "store_state env st' (rs @ [r]) m"
    using append_record_outcome [OF ok st, of now uuid input] a by auto
  then show ?thesis
  proof cases
    case 1
    have "high_water rs m < lr_sequence r" using 1(2) by (simp add: log_grows_def)
    then show ?thesis
      using s h 1(1,4) by (intro run_invariantI [OF 1(3)]) (force simp: sorted_wrt_append)+
  next
    case 2 then show ?thesis using s h by (auto intro!: run_invariantI)
  next
    case 3
    then show ?thesis using s h high_water_grown [OF 3(2)] by (intro run_invariantI [OF 3(3)]) force+
  qed
qed

lemma run_invariant_crash:
  assumes ok: "codec_ok env" "good_options opts" and inv: "run_invariant env st history gone"
    and c: "current_cache env opts st = (Inr (c, t), st1)"
    "read_store_manifest (se_datetime env) (lf_manifest (st_files st1)) = Inr (Some m0)"
    "prepare_append env opts now uuid input m0 c t = Inr (r, m')" "serialize_record env r = x @ y"
    and i: "initialize_store env opts later (torn_store st1 x) = (Inr (), st')"
  shows "run_invariant env st' history gone"
proof -
  obtain rs m where st: "store_state env st rs m" and s: "sorted_wrt (<) (map lr_sequence history)"
    and h: "\<forall>r \<in> set history. lr_sequence r \<le> high_water rs m \<and> (r \<in> set rs \<or> r \<in> gone)"
    using inv unfolding run_invariant_def by blast
  have st1: "store_state env st1 rs m" and cm: "cache_matches c rs" and t: "t = 0"
    using current_cache_state [OF ok(2) st] c(1) by auto
  have m0: "m0 = m" using st1 c(2) by (simp add: store_state_def)
  have log: "log_from env (0, {}) (rs @ [r])"
    using prepared_grows(1) [OF ok(1) st1 cm c(3) [unfolded m0]] by (simp add: log_grows_def)
  have man: "read_store_manifest (se_datetime env) (lf_manifest (st_files (torn_store st1 x))) = Inr (Some m)"
    using st1 by (simp add: store_state_def torn_store_def set_ledger_def)
  define rs' where "rs' = recovered_records rs r y"
  obtain n s2 where w: "writable_records env opts (torn_store st1 x) = (Inr (rs', n), s2)" and s2: "store_state env s2 rs' m"
    using torn_writable [OF ok st1 log c(4)] i man unfolding rs'_def [symmetric]
    by (auto simp: initialize_store_def require_def action_simps read_manifest_def split: if_splits)
  have "log_from env (0, {}) rs'" "ledger_bytes s2 = serialize_records env rs'" using s2 by (simp_all add: store_state_def)
  then obtain m2 where m2: "store_state env st' rs' m2" "sm_last_sequence m2 = max (sm_last_sequence m) (last_sequence_of rs')"
    using initialize_outcome [OF i w _ _ man] by (auto simp: or_else_def)
  have "last_sequence_of rs \<le> last_sequence_of rs'" "set rs \<subseteq> set rs'"
    using log by (auto simp: rs'_def recovered_records_def log_from_snoc last_sequence_of_def)
  then have "high_water rs m \<le> high_water rs' m2" "set rs \<subseteq> set rs'" using m2(2) by (simp_all add: high_water_def)
  then show ?thesis using s h by (intro run_invariantI [OF m2(1)]) force+
qed

lemma run_invariant_compact:
  assumes opts: "good_options opts" and inv: "run_invariant env st history gone"
    and c: "compact_records env opts now keep st = (res, st')"
  shows "run_invariant env st' history (gone \<union> {r. \<not> keep r (ledger_contents env opts st)})"
proof -
  obtain rs m where st: "store_state env st rs m" and s: "sorted_wrt (<) (map lr_sequence history)"
    and h: "\<forall>r \<in> set history. lr_sequence r \<le> high_water rs m \<and> (r \<in> set rs \<or> r \<in> gone)"
    using inv unfolding run_invariant_def by blast
  let ?kept = "filter (\<lambda>r. keep r rs) rs"
  have log: "log_from env (0, {}) rs" using st by (simp add: store_state_def)
  show ?thesis
  proof (cases "list_records env opts st")
    case (Inl e)
    then obtain e' where "writable_records env opts st = (Inl e', st)" using unreadable [OF opts st] by blast
    then have "st' = st" using c st
      by (auto simp: compact_records_def require_def action_simps read_manifest_def store_state_def split: if_splits)
    then show ?thesis using st s h by (intro run_invariantI [of env st' rs m]) auto
  next
    case (Inr rs')
    then have rs: "ledger_contents env opts st = rs" using contents_state [OF opts st] by (simp add: ledger_contents_def)
    have hk: "lr_sequence r \<le> n \<and> (r \<in> set ?kept \<or> r \<in> gone \<union> {r. \<not> keep r rs})"
      "lr_sequence r \<le> n \<and> (r \<in> set rs \<or> r \<in> gone \<union> {r. \<not> keep r rs})"
      if "r \<in> set history" "high_water rs m \<le> n" for r n using h that by force+
    have mono: "high_water ?kept m' \<le> high_water rs m'" for m'
      using last_sequence_filter [OF log, of "\<lambda>r. keep r rs"] by (simp add: high_water_def)
    consider m' where "store_state env st' ?kept m'" "high_water rs m \<le> high_water ?kept m'"
      | m' where "store_state env st' rs m'" "high_water rs m \<le> high_water ?kept m'" | "st' = st"
      using compact_records_outcome [OF opts st, of now keep] c by (fastforce simp: high_water_def)
    then show ?thesis
    proof cases
      case 1 then show ?thesis unfolding rs using s hk(1) by (intro run_invariantI [OF 1(1)]) blast+
    next
      case 2
      then have "high_water rs m \<le> high_water rs m'" using mono order_trans by blast
      then show ?thesis unfolding rs using s hk(2) by (intro run_invariantI [OF 2(1)]) blast+
    next
      case 3 then show ?thesis unfolding rs using s hk(2) st by (intro run_invariantI [of env st' rs m]) auto
    qed
  qed
qed

lemma ledger_run_invariant:
  assumes "ledger_run env opts st history gone" "codec_ok env" "good_options opts"
  shows "run_invariant env st history gone"
  using assms(1)
proof induction
  case (run_open now st)
  then obtain m where "store_state env st [] m" using initialize_empty [OF assms(3)] by blast
  then show ?case by (rule run_invariantI) simp_all
next
  case (run_append st history gone now uuid input r st')
  then show ?case using run_invariant_append [OF assms(2,3)] by fastforce
next
  case (run_refused st history gone now uuid input e st')
  then show ?case using run_invariant_append [OF assms(2,3)] by fastforce
next
  case (run_crash st history gone c t st1 m now uuid input r m' x y later st')
  show ?case by (rule run_invariant_crash [OF assms(2,3) run_crash.IH run_crash.hyps(2-6)])
next
  case (run_compact st history gone now keep res st')
  show ?case by (rule run_invariant_compact [OF assms(3) run_compact.IH run_compact.hyps(2)])
qed

section \<open>A ledger of two records\<close>

text \<open>A codec of two records, written as two distinct empty objects.\<close>

definition demo_entry :: "string \<Rightarrow> int \<Rightarrow> ledger_record" where
  "demo_entry i n = \<lparr>lr_record_id = i, lr_sequence = n, lr_schema_version = 1, lr_recorded_at = ''now'', lr_session_id = None,
     lr_turn_id = None, lr_task_id = None,
     lr_payload = P_evidence \<lparr>er_kind = ''log'', er_label = i, er_path = None, er_excerpt = None\<rparr>\<rparr>"

definition demo_text :: "ledger_record \<Rightarrow> string" where
  "demo_text r = (if lr_record_id r = ''a'' then ''{}'' else ''{ }'')"

definition demo_env :: store_env where
  "demo_env = \<lparr>
     se_codec = \<lparr>co_parse = (\<lambda>t. if t = ''{}'' then Some (J_str ''a'') else if t = ''{ }'' then Some (J_str ''b'') else None),
       co_schema = (\<lambda>j. if j = J_str ''a'' then Some (demo_entry ''a'' 1) else if j = J_str ''b'' then Some (demo_entry ''b'' 2) else None),
       co_render = demo_text\<rparr>,
     se_datetime = (\<lambda>_. True), se_metadata_error = (\<lambda>_. None),
     se_accepts = (\<lambda>r. r = demo_entry ''a'' 1 \<or> r = demo_entry ''b'' 2),
     se_payload_bytes = (\<lambda>_. 1), se_manifest_bytes = (\<lambda>_. 1),
     se_identity = (\<lambda>l. case l of None \<Rightarrow> ''absent'' | Some s \<Rightarrow> s)\<rparr>"

definition demo_options :: store_options where
  "demo_options = \<lparr>so_max_payload_bytes = 100, so_max_snapshot_bytes = 100, so_read_only = False\<rparr>"

definition demo_input :: "string \<Rightarrow> append_record_input" where
  "demo_input i = \<lparr>ar_payload = lr_payload (demo_entry i 0), ar_session_id = None, ar_turn_id = None, ar_task_id = None,
     ar_recorded_at = None, ar_record_id = Some i, ar_schema_version = None\<rparr>"

lemma demo_good: "good_options demo_options"
  by (simp add: good_options_def demo_options_def max_safe_def)

lemma demo_texts: "json_text ''{}''" "json_text ''{ }''"
proof -
  have "json_value (CHR ''{'' # [] @ ''}'')" "json_value (CHR ''{'' # '' '' @ ''}'')"
    by (intro value_empty_object; code_simp)+
  then show "json_text ''{}''" "json_text ''{ }''"
    unfolding json_text_def by (fastforce simp: json_blank_def intro: exI [of _ "[]"])+
qed

lemma demo_entry_inj: "demo_entry ''a'' 1 \<noteq> demo_entry ''b'' 2" by (simp add: demo_entry_def)

lemma demo_renders: "renders_well demo_env (demo_entry ''a'' 1)" "renders_well demo_env (demo_entry ''b'' 2)"
proof -
  have "utf8_run None [] ''{}'' = Some (''{}'', False)" "utf8_run None [] ''{ }'' = Some (''{ }'', False)"
    "newline_char \<notin> set ''{}''" "newline_char \<notin> set ''{ }''" by code_simp+
  then show "renders_well demo_env (demo_entry ''a'' 1)" "renders_well demo_env (demo_entry ''b'' 2)"
    by (simp_all add: renders_well_def demo_env_def demo_text_def demo_entry_def newer_schema_def)
qed

lemma demo_codec: "codec_ok demo_env"
proof -
  have "json_text t" if "co_parse (se_codec demo_env) t = Some j" for t j
    using that demo_texts by (simp add: demo_env_def split: if_splits)
  moreover have "renders_well demo_env r'" if "se_accepts demo_env r" "normalize_ledger_scope r = Inr r'" for r r'
  proof -
    have r: "r = demo_entry ''a'' 1 \<or> r = demo_entry ''b'' 2" using that(1) by (simp add: demo_env_def)
    have "scoped_record (demo_entry i n)" for i n by (simp add: scoped_record_def demo_entry_def)
    then have "r' = r" using that(2) r normalize_scoped by auto
    then show ?thesis using r demo_renders by auto
  qed
  ultimately show ?thesis by (simp add: codec_ok_def)
qed

definition demo_store :: append_store where
  "demo_store = snd (initialize_store demo_env demo_options ''now'' empty_store)"

lemma demo_opened: "fst (initialize_store demo_env demo_options ''now'' empty_store) = Inr ()"
  by code_simp

lemma demo_state: obtains m where "store_state demo_env demo_store [] m" "high_water [] m = 0"
  using initialize_empty [OF demo_good] demo_opened unfolding demo_store_def by (metis prod.collapse)

lemma demo_manifest: "read_store_manifest (\<lambda>_. True) (lf_manifest (st_files demo_store)) = Inr (Some (create_empty_manifest ''now''))"
  by code_simp

definition demo_store2 :: append_store where
  "demo_store2 = snd (append_record demo_env demo_options ''now'' ''u'' (demo_input ''a'') demo_store)"

lemma demo_appended: "append_record demo_env demo_options ''now'' ''u'' (demo_input ''a'') demo_store = (Inr (demo_entry ''a'' 1), demo_store2)"
proof -
  have "fst (append_record demo_env demo_options ''now'' ''u'' (demo_input ''a'') demo_store) = Inr (demo_entry ''a'' 1)" by code_simp
  then show ?thesis unfolding demo_store2_def by (metis prod.collapse)
qed

section \<open>The properties\<close>

text \<open>C4: The store refines its log: an append that returns adds exactly one record at the end of the
  log, with the payload given and a sequence number above every number ever used, which becomes the
  high-water mark; an append that throws leaves the log as it was, or, when only the write of the
  manifest failed, with the record in the log.\<close>

theorem append_refines_log:
  assumes "codec_ok env" "good_options opts" "store_state env st rs m"
  shows "case append_record env opts now uuid input st of
      (Inr r, st') \<Rightarrow> log_grows env rs m input r \<and> (\<exists>m'. store_state env st' (rs @ [r]) m' \<and> high_water (rs @ [r]) m' = lr_sequence r)
    | (Inl e, st') \<Rightarrow> store_state env st' rs m \<or> (\<exists>r. log_grows env rs m input r \<and> store_state env st' (rs @ [r]) m)"
  using append_record_outcome [OF assms, of now uuid input] by (auto split: prod.split sum.split)

theorem append_refines_log_witness:
  "\<exists>m'. store_state demo_env demo_store2 [demo_entry ''a'' 1] m' \<and> high_water [demo_entry ''a'' 1] m' = 1"
proof -
  obtain m where m: "store_state demo_env demo_store [] m" by (rule demo_state)
  show ?thesis using append_refines_log [OF demo_codec demo_good m, where now = "''now''" and uuid = "''u''" and input = "demo_input ''a''"]
    unfolding demo_appended by (simp add: demo_entry_def)
qed

text \<open>C5: A crash inside an append loses at most the record being written: whatever part of its line
  reached the file, the next access repairs the file to the log before or after the append (after it
  exactly when the text of the record is whole), and saves the bytes of a line it cuts off.\<close>

theorem torn_append_recovered:
  assumes "codec_ok env" "good_options opts" "store_state env st rs m" "cache_matches c rs"
    "prepare_append env opts now uuid input m c 0 = Inr (r, m')" "serialize_record env r = x @ y" "torn_fits opts st x"
  shows "\<exists>n st'. writable_records env opts (torn_store st x) = (Inr (recovered_records rs r y, n), st')
    \<and> store_state env st' (recovered_records rs r y) m
    \<and> st_recovery st' = st_recovery st @ (if x = [] \<or> y = [] \<or> y = [newline_char] then [] else [x])"
proof -
  have "log_from env (0, {}) (rs @ [r])" using prepared_grows(1) [OF assms(1,3,4,5)] by (simp add: log_grows_def)
  then show ?thesis using torn_writable [OF assms(1,2,3) _ assms(6)] assms(7) by blast
qed

theorem torn_append_recovered_witness:
  "\<exists>n st'. writable_records demo_env demo_options (torn_store demo_store ''{'') = (Inr ([], n), st') \<and> st_recovery st' = [''{'']"
proof -
  obtain m where m: "store_state demo_env demo_store [] m" by (rule demo_state)
  then have me: "m = create_empty_manifest ''now''" using demo_manifest by (simp add: store_state_def demo_env_def)
  let ?c = "\<lparr>ch_identity = ''absent'', ch_count = 0, ch_last_sequence = 0, ch_ids = {}\<rparr>"
  have c: "cache_matches ?c []" by (simp add: cache_matches_def last_sequence_of_def)
  have p: "prepare_append demo_env demo_options ''now'' ''u'' (demo_input ''a'') m ?c 0
      = Inr (demo_entry ''a'' 1, m\<lparr>sm_record_count := 1, sm_last_sequence := 1\<rparr>)" unfolding me by code_simp
  have s: "serialize_record demo_env (demo_entry ''a'' 1) = ''{'' @ ''}'' @ [newline_char]"
    "torn_fits demo_options demo_store ''{''" "st_recovery demo_store = []" by code_simp+
  then show ?thesis using torn_append_recovered [OF demo_codec demo_good m c p s(1,2)] by (auto simp: recovered_records_def)
qed

text \<open>C3: Over every run of a store, with appends, refused appends, compactions and crashes inside an
  append in any order, the records whose append returned have strictly increasing sequence numbers,
  and each of them is read back unless a compaction was told to prune it; reading fails only when the
  files exceed the snapshot limit.\<close>

theorem ledger_keeps_history:
  assumes "codec_ok env" "good_options opts" "ledger_run env opts st history gone"
  shows "sorted_wrt (<) (map lr_sequence history) \<and>
    (case list_records env opts st of Inr rs \<Rightarrow> set history - gone \<subseteq> set rs | Inl e \<Rightarrow> e = limit_exceeded)"
proof -
  obtain rs m where r: "store_state env st rs m" "sorted_wrt (<) (map lr_sequence history)"
    "\<forall>r \<in> set history. r \<in> set rs \<or> r \<in> gone"
    using ledger_run_invariant [OF assms(3,1,2)] unfolding run_invariant_def by blast
  then show ?thesis using contents_state [OF assms(2) r(1)] by (auto split: sum.split)
qed

theorem ledger_keeps_history_witness:
  "case list_records demo_env demo_options demo_store2 of Inr rs \<Rightarrow> demo_entry ''a'' 1 \<in> set rs | Inl e \<Rightarrow> e = limit_exceeded"
proof -
  have "initialize_store demo_env demo_options ''now'' empty_store = (Inr (), demo_store)"
    using demo_opened unfolding demo_store_def by (metis prod.collapse)
  from run_append [OF run_open [OF this] demo_appended]
  show ?thesis using ledger_keeps_history [OF demo_codec demo_good] by (fastforce split: sum.splits)
qed

text \<open>C31: A retention run that returns leaves exactly the records whose sequence number was selected on
  the whole ledger, in order, and reports the others as pruned; sequence numbers are never given again.
  One that throws leaves the ledger whole or pruned exactly so.\<close>

theorem retention_run_exact:
  fixes policy :: retention_policy and at_ms :: int
  assumes "good_options opts" "store_state env st rs m"
  defines "kept \<equiv> filter (\<lambda>r. lr_sequence r \<in> select_retention_sequences rs policy at_ms) rs"
  shows "case apply_retention_policy env opts now policy at_ms st of
      (Inr res, st') \<Rightarrow> cr_kept_records res = kept \<and> cr_pruned_records res = filter (\<lambda>r. r \<notin> set kept) rs
        \<and> store_state env st' kept (cr_manifest res) \<and> high_water kept (cr_manifest res) = high_water rs m
    | (Inl e, st') \<Rightarrow> \<exists>m'. (store_state env st' rs m' \<or> store_state env st' kept m') \<and> high_water rs m \<le> max (high_water kept m') (high_water rs m')"
proof -
  have log: "log_from env (0, {}) rs" using assms(2) by (simp add: store_state_def)
  have le: "last_sequence_of kept \<le> last_sequence_of rs" unfolding kept_def by (rule last_sequence_filter [OF log])
  have pruned: "filter (\<lambda>r. lr_sequence r \<notin> select_retention_sequences rs policy at_ms) rs = filter (\<lambda>r. r \<notin> set kept) rs"
    unfolding kept_def by (rule filter_cong) auto
  have hw: "high_water kept m' = high_water rs m" if "sm_last_sequence m' = high_water rs m" for m'
    using le that by (simp add: high_water_def)
  show ?thesis
    using compact_records_outcome [OF assms(1,2), of now "\<lambda>r rs. lr_sequence r \<in> select_retention_sequences rs policy at_ms"]
    unfolding apply_retention_policy_def [symmetric] kept_def [symmetric] pruned
    by (elim disjE exE conjE; simp add: hw; (use assms(2) in force)?)
qed

definition demo_policy :: retention_policy where
  "demo_policy = \<lparr>rp_prune_kinds = None, rp_max_age_ms = Some 0, rp_keep_latest_per_kind = None, rp_protected_record_ids = None,
     rp_non_root_kinds = None\<rparr>"

theorem retention_run_exact_witness:
  "case apply_retention_policy demo_env demo_options ''now'' demo_policy 0 demo_store2 of
      (Inr res, st') \<Rightarrow> set (cr_kept_records res) \<subseteq> {demo_entry ''a'' 1} \<and> high_water (cr_kept_records res) (cr_manifest res) = 1
    | (Inl e, st') \<Rightarrow> True"
proof -
  obtain m where m: "store_state demo_env demo_store [] m" by (rule demo_state)
  obtain m' where m': "store_state demo_env demo_store2 [demo_entry ''a'' 1] m'" "high_water [demo_entry ''a'' 1] m' = 1"
    using append_record_outcome [OF demo_codec demo_good m, where now = "''now''" and uuid = "''u''" and input = "demo_input ''a''"]
    unfolding demo_appended by (auto simp: demo_entry_def)
  show ?thesis
    using retention_run_exact [OF demo_good m'(1), where now = "''now''" and policy = demo_policy and at_ms = 0] m'(2)
    by (auto split: sum.splits prod.splits)
qed

end
