(* ===== verification/JsRegex.thy ===== *)
theory JsRegex
  imports JsString
begin

text \<open>
  Regular expressions of JavaScript, as far as \<open>test\<close> observes them: no captures, no lookahead. An
  assertion (\<open>^\<close>, \<open>$\<close>, \<open>\b\<close>, a lookbehind of one character) sees the characters before and after its
  position. The matcher works by derivatives and is proved to decide the spans of an expression.
\<close>

section \<open>Expressions and their spans\<close>

datatype regex = No_match | Empty_text | Chars "char \<Rightarrow> bool" | Look "char option \<Rightarrow> char option \<Rightarrow> bool"
  | Alt regex regex | Seq regex regex | Many regex

definition char_before :: "string \<Rightarrow> nat \<Rightarrow> char option" where
  "char_before s i = (if i = 0 then None else Some (s ! (i - 1)))"

definition char_after :: "string \<Rightarrow> nat \<Rightarrow> char option" where
  "char_after s i = (if i < length s then Some (s ! i) else None)"

text \<open>\<open>spans s r i j\<close>: the expression matches the text between two positions.\<close>

primrec spans :: "string \<Rightarrow> regex \<Rightarrow> nat \<Rightarrow> nat \<Rightarrow> bool" where
  "spans s No_match = (\<lambda>i j. False)"
| "spans s Empty_text = (\<lambda>i j. i = j)"
| "spans s (Chars P) = (\<lambda>i j. i < length s \<and> j = Suc i \<and> P (s ! i))"
| "spans s (Look A) = (\<lambda>i j. i = j \<and> A (char_before s i) (char_after s i))"
| "spans s (Alt a b) = (\<lambda>i j. spans s a i j \<or> spans s b i j)"
| "spans s (Seq a b) = (\<lambda>i j. \<exists>k. spans s a i k \<and> spans s b k j)"
| "spans s (Many a) = (spans s a)\<^sup>*\<^sup>*"

section \<open>Derivatives\<close>

primrec null_match :: "char option \<Rightarrow> char option \<Rightarrow> regex \<Rightarrow> bool" where
  "null_match p n No_match \<longleftrightarrow> False"
| "null_match p n Empty_text \<longleftrightarrow> True"
| "null_match p n (Chars P) \<longleftrightarrow> False"
| "null_match p n (Look A) \<longleftrightarrow> A p n"
| "null_match p n (Alt a b) \<longleftrightarrow> null_match p n a \<or> null_match p n b"
| "null_match p n (Seq a b) \<longleftrightarrow> null_match p n a \<and> null_match p n b"
| "null_match p n (Many a) \<longleftrightarrow> True"

fun alt_of :: "regex \<Rightarrow> regex \<Rightarrow> regex" where
  "alt_of No_match b = b"
| "alt_of a No_match = a"
| "alt_of a b = Alt a b"

fun seq_of :: "regex \<Rightarrow> regex \<Rightarrow> regex" where
  "seq_of No_match b = No_match"
| "seq_of Empty_text b = b"
| "seq_of a b = Seq a b"

primrec derivative :: "char option \<Rightarrow> char \<Rightarrow> regex \<Rightarrow> regex" where
  "derivative p c No_match = No_match"
| "derivative p c Empty_text = No_match"
| "derivative p c (Chars P) = (if P c then Empty_text else No_match)"
| "derivative p c (Look A) = No_match"
| "derivative p c (Alt a b) = alt_of (derivative p c a) (derivative p c b)"
| "derivative p c (Seq a b) = alt_of (seq_of (derivative p c a) b) (if null_match p (Some c) a then derivative p c b else No_match)"
| "derivative p c (Many a) = seq_of (derivative p c a) (Many a)"

definition head :: "string \<Rightarrow> char option" where
  "head s = (case s of [] \<Rightarrow> None | c # _ \<Rightarrow> Some c)"

definition hopeless :: "regex \<Rightarrow> bool" where
  "hopeless r \<longleftrightarrow> (case r of No_match \<Rightarrow> True | _ \<Rightarrow> False)"

fun match_prefix :: "char option \<Rightarrow> regex \<Rightarrow> string \<Rightarrow> bool" where
  "match_prefix p r [] \<longleftrightarrow> null_match p None r"
| "match_prefix p r (c # s) \<longleftrightarrow> null_match p (Some c) r \<or> (\<not> hopeless (derivative p c r) \<and> match_prefix (Some c) (derivative p c r) s)"

fun search :: "char option \<Rightarrow> regex \<Rightarrow> string \<Rightarrow> bool" where
  "search p r [] \<longleftrightarrow> null_match p None r"
| "search p r (c # s) \<longleftrightarrow> match_prefix p r (c # s) \<or> search (Some c) r s"

definition regex_test :: "regex \<Rightarrow> string \<Rightarrow> bool" where
  "regex_test r s = search None r s"

section \<open>The matcher decides the spans\<close>

lemma spans_le: "spans s r i j \<Longrightarrow> i \<le> j"
proof (induction r arbitrary: i j)
  case (Seq a b)
  then show ?case using order_trans by fastforce
next
  case (Many a)
  from Many.prems have "(spans s a)\<^sup>*\<^sup>* i j" by simp
  then show ?case
  proof induction
    case (step j k) then show ?case using Many.IH order_trans by blast
  qed simp
qed auto

lemma spans_inside: "spans s r i j \<Longrightarrow> i < j \<Longrightarrow> j \<le> length s"
proof (induction r arbitrary: i j)
  case (Seq a b)
  from Seq.prems obtain k where k: "spans s a i k" "spans s b k j" by auto
  show ?case
  proof (cases "k = j")
    case True then show ?thesis using Seq.IH(1) [OF k(1)] Seq.prems(2) by simp
  next
    case False then show ?thesis using Seq.IH(2) [OF k(2)] spans_le [OF k(2)] by simp
  qed
next
  case (Many a)
  from Many.prems have "(spans s a)\<^sup>*\<^sup>* i j" "i < j" by simp_all
  then show ?case
  proof (induction rule: rtranclp_induct)
    case (step k j)
    show ?case
    proof (cases "k = j")
      case True then show ?thesis using step by simp
    next
      case False then show ?thesis using Many.IH [OF step.hyps(2)] spans_le [OF step.hyps(2)] by simp
    qed
  qed simp
qed auto

lemma spans_empty: "spans s r i i \<longleftrightarrow> null_match (char_before s i) (char_after s i) r"
proof (induction r arbitrary: i)
  case (Seq a b)
  have "spans s (Seq a b) i i \<longleftrightarrow> spans s a i i \<and> spans s b i i"
    using spans_le [of s a i] spans_le [of s b _ i] by (auto dest: le_antisym)
  then show ?case using Seq.IH by simp
qed (auto simp: char_after_def)

lemma spans_alt_of [simp]: "spans s (alt_of a b) i j \<longleftrightarrow> spans s a i j \<or> spans s b i j"
  by (cases "(a, b)" rule: alt_of.cases) auto

lemma spans_seq_of [simp]: "spans s (seq_of a b) i j \<longleftrightarrow> (\<exists>k. spans s a i k \<and> spans s b k j)"
  by (cases "(a, b)" rule: seq_of.cases) auto

lemma many_first:
  assumes "(spans s a)\<^sup>*\<^sup>* i j" "i < j"
  shows "\<exists>k. spans s a i k \<and> i < k \<and> (spans s a)\<^sup>*\<^sup>* k j"
  using assms
proof (induction rule: converse_rtranclp_induct)
  case (step i k)
  show ?case
  proof (cases "i = k")
    case True then show ?thesis using step by simp
  next
    case False
    then have "i < k" using spans_le [OF step.hyps(1)] by simp
    then show ?thesis using step.hyps by blast
  qed
qed simp

lemma spans_step:
  assumes "i < length s"
  shows "i < j \<and> spans s r i j \<longleftrightarrow> spans s (derivative (char_before s i) (s ! i) r) (Suc i) j"
  using assms
proof (induction r arbitrary: j)
  case (Seq a b)
  have n: "null_match (char_before s i) (Some (s ! i)) a \<longleftrightarrow> spans s a i i"
    using Seq.prems by (simp add: spans_empty char_after_def)
  have "i < j \<and> spans s (Seq a b) i j \<longleftrightarrow>
      (\<exists>k. i < k \<and> spans s a i k \<and> spans s b k j) \<or> (spans s a i i \<and> i < j \<and> spans s b i j)"
  proof (intro iffI; (elim conjE disjE exE)?)
    assume "i < j" "spans s (Seq a b) i j"
    then obtain k where k: "spans s a i k" "spans s b k j" by auto
    then show "(\<exists>k. i < k \<and> spans s a i k \<and> spans s b k j) \<or> (spans s a i i \<and> i < j \<and> spans s b i j)"
      using spans_le [OF k(1)] \<open>i < j\<close> by (cases "i = k") auto
  next
    fix k assume "i < k" "spans s a i k" "spans s b k j"
    then show "i < j \<and> spans s (Seq a b) i j" using spans_le [of s b k j] by auto
  next
    assume "spans s a i i" "i < j" "spans s b i j"
    then show "i < j \<and> spans s (Seq a b) i j" by auto
  qed
  then show ?case using Seq.IH [OF Seq.prems] n by auto
next
  case (Many a)
  have "i < j \<and> spans s (Many a) i j \<longleftrightarrow> (\<exists>k. i < k \<and> spans s a i k \<and> (spans s a)\<^sup>*\<^sup>* k j)"
    using many_first [of s a i j] spans_le [of s "Many a" _ j]
    by (auto intro: converse_rtranclp_into_rtranclp dest: less_le_trans)
  then show ?case using Many.IH [OF Many.prems] by auto
next
  case (Alt a b)
  then show ?case by auto
qed (auto dest: less_imp_le)

lemma spans_derivative: "i < length s \<Longrightarrow> i < j \<Longrightarrow> spans s r i j \<longleftrightarrow> spans s (derivative (char_before s i) (s ! i) r) (Suc i) j"
  using spans_step by blast

lemma hopeless_spans: "hopeless r \<Longrightarrow> \<not> spans s r i j"
  by (cases r) (auto simp: hopeless_def)

lemma match_prefix_spans:
  "i \<le> length s \<Longrightarrow> match_prefix (char_before s i) r (drop i s) \<longleftrightarrow> (\<exists>j. spans s r i j)"
proof (induction "length s - i" arbitrary: i r)
  case 0
  then have i: "i = length s" by simp
  have "spans s r i j \<longleftrightarrow> j = i \<and> spans s r i i" for j
    using spans_le [of s r i j] spans_inside [of s r i j] i by (cases "j = i") auto
  then show ?case using i by (auto simp: spans_empty char_after_def)
next
  case (Suc n)
  then have i: "i < length s" by simp
  have before: "char_before s (Suc i) = Some (s ! i)" by (simp add: char_before_def)
  let ?d = "derivative (char_before s i) (s ! i) r"
  have "match_prefix (char_before s i) r (drop i s) \<longleftrightarrow> spans s r i i \<or> (\<not> hopeless ?d \<and> match_prefix (Some (s ! i)) ?d (drop (Suc i) s))"
    using i by (simp add: Cons_nth_drop_Suc [symmetric] spans_empty char_after_def)
  also have "\<dots> \<longleftrightarrow> spans s r i i \<or> (\<not> hopeless ?d \<and> (\<exists>j. spans s ?d (Suc i) j))"
    using Suc.hyps(1) [of "Suc i" ?d] Suc.hyps(2) i before by simp
  also have "\<dots> \<longleftrightarrow> spans s r i i \<or> (\<exists>j. spans s ?d (Suc i) j)" using hopeless_spans by blast
  also have "\<dots> \<longleftrightarrow> (\<exists>j. spans s r i j)"
    using spans_step [OF i, where r = r] spans_le [of s r i] by (metis le_neq_implies_less)
  finally show ?case .
qed

lemma search_spans: "i \<le> length s \<Longrightarrow> search (char_before s i) r (drop i s) \<longleftrightarrow> (\<exists>k j. i \<le> k \<and> k \<le> length s \<and> spans s r k j)"
proof (induction "length s - i" arbitrary: i)
  case 0
  then have i: "i = length s" by simp
  then have "search (char_before s i) r (drop i s) \<longleftrightarrow> (\<exists>j. spans s r i j)"
    using match_prefix_spans [of i s r] by simp
  then show ?case using i by (metis le_antisym order_refl)
next
  case (Suc n)
  then have i: "i < length s" by simp
  have before: "char_before s (Suc i) = Some (s ! i)" by (simp add: char_before_def)
  have "search (char_before s i) r (drop i s) \<longleftrightarrow> match_prefix (char_before s i) r (drop i s) \<or> search (char_before s (Suc i)) r (drop (Suc i) s)"
    using i before by (simp add: Cons_nth_drop_Suc [symmetric] del: match_prefix.simps)
  also have "\<dots> \<longleftrightarrow> (\<exists>j. spans s r i j) \<or> (\<exists>k j. Suc i \<le> k \<and> k \<le> length s \<and> spans s r k j)"
    using Suc.hyps(1) [of "Suc i"] Suc.hyps(2) i match_prefix_spans [of i s r] by simp
  also have "\<dots> \<longleftrightarrow> (\<exists>k j. i \<le> k \<and> k \<le> length s \<and> spans s r k j)"
    using i by (metis Suc_leD Suc_leI le_neq_implies_less less_imp_le order_refl)
  finally show ?case .
qed

lemma regex_test_spans: "regex_test r s \<longleftrightarrow> (\<exists>i j. i \<le> j \<and> i \<le> length s \<and> spans s r i j)"
proof -
  have "regex_test r s \<longleftrightarrow> (\<exists>i j. i \<le> length s \<and> spans s r i j)"
    using search_spans [of 0 s r] by (simp add: regex_test_def char_before_def)
  also have "\<dots> \<longleftrightarrow> (\<exists>i j. i \<le> j \<and> i \<le> length s \<and> spans s r i j)"
    by (intro ex_cong1) (use spans_le [of s r] in auto)
  finally show ?thesis .
qed

section \<open>Building expressions\<close>

definition lower_is :: "char \<Rightarrow> char \<Rightarrow> bool" where
  "lower_is c d \<longleftrightarrow> js_lower_char d = c"

definition same_char :: "char \<Rightarrow> char \<Rightarrow> bool" where
  "same_char c d \<longleftrightarrow> d = c"

definition exact_text :: "string \<Rightarrow> regex" where
  "exact_text s = foldr (\<lambda>c. Seq (Chars (same_char c))) s Empty_text"

text \<open>A text without regard to case, given in lower case.\<close>

definition any_case :: "string \<Rightarrow> regex" where
  "any_case s = foldr (\<lambda>c. Seq (Chars (lower_is c))) s Empty_text"

definition one_of :: "regex list \<Rightarrow> regex" where
  "one_of rs = foldr Alt rs No_match"

definition in_order :: "regex list \<Rightarrow> regex" where
  "in_order rs = foldr Seq rs Empty_text"

definition maybe :: "regex \<Rightarrow> regex" where
  "maybe r = Alt r Empty_text"

definition some_of :: "regex \<Rightarrow> regex" where
  "some_of r = Seq r (Many r)"

definition at_least :: "nat \<Rightarrow> regex \<Rightarrow> regex" where
  "at_least n r = foldr Seq (replicate n r) (Many r)"

definition exactly :: "nat \<Rightarrow> regex \<Rightarrow> regex" where
  "exactly n r = foldr Seq (replicate n r) Empty_text"

definition word_char :: "char \<Rightarrow> bool" where
  "word_char c \<longleftrightarrow> is_digit c \<or> c = CHR ''_'' \<or> (97 \<le> (of_char (js_lower_char c) :: int) \<and> (of_char (js_lower_char c) :: int) \<le> 122)"

definition edge_test :: "char option \<Rightarrow> char option \<Rightarrow> bool" where
  "edge_test p n \<longleftrightarrow> (case p of None \<Rightarrow> False | Some c \<Rightarrow> word_char c) \<noteq> (case n of None \<Rightarrow> False | Some c \<Rightarrow> word_char c)"

definition start_test :: "char option \<Rightarrow> char option \<Rightarrow> bool" where
  "start_test p n \<longleftrightarrow> p = None"

definition end_test :: "char option \<Rightarrow> char option \<Rightarrow> bool" where
  "end_test p n \<longleftrightarrow> n = None"

abbreviation edge :: regex where "edge \<equiv> Look edge_test"
abbreviation text_start :: regex where "text_start \<equiv> Look start_test"
abbreviation text_end :: regex where "text_end \<equiv> Look end_test"

text \<open>A match uses only characters of the text: an expression that cannot match a text over an
  alphabet matches no text over it.\<close>

primrec usable :: "string \<Rightarrow> regex \<Rightarrow> bool" where
  "usable cs No_match \<longleftrightarrow> False"
| "usable cs Empty_text \<longleftrightarrow> True"
| "usable cs (Chars P) \<longleftrightarrow> list_ex P cs"
| "usable cs (Look A) \<longleftrightarrow> True"
| "usable cs (Alt a b) \<longleftrightarrow> usable cs a \<or> usable cs b"
| "usable cs (Seq a b) \<longleftrightarrow> usable cs a \<and> usable cs b"
| "usable cs (Many a) \<longleftrightarrow> True"

lemma spans_usable: "spans s r i j \<Longrightarrow> set s \<subseteq> set cs \<Longrightarrow> usable cs r"
proof (induction r arbitrary: i j)
  case (Chars P)
  then have "s ! i \<in> set cs" "P (s ! i)" by auto
  then show ?case by (auto simp: list_ex_iff)
qed auto

lemma not_usable: "\<not> usable cs r \<Longrightarrow> set s \<subseteq> set cs \<Longrightarrow> \<not> regex_test r s"
  using spans_usable regex_test_spans by blast

end
