(* ===== verification/MetadataPatterns.thy ===== *)
theory MetadataPatterns
  imports JsRegex RuntimeCore LeaseScope
begin

text \<open>
  The patterns of \<open>core-contracts/src/redaction.ts\<close>: secrets in texts, secret-bearing paths,
  environment dumps and private recovery files. Flags: a pattern with \<open>i\<close> is built from
  \<open>any_case\<close> and from classes closed under case.
\<close>

section \<open>Character classes\<close>

definition alnum :: "char \<Rightarrow> bool" where
  "alnum c \<longleftrightarrow> word_char c \<and> c \<noteq> CHR ''_''"

definition letter :: "char \<Rightarrow> bool" where
  "letter c \<longleftrightarrow> alnum c \<and> \<not> is_digit c"

definition upper_letter :: "char \<Rightarrow> bool" where
  "upper_letter c \<longleftrightarrow> letter c \<and> js_lower_char c \<noteq> c"

definition upper_alnum :: "char \<Rightarrow> bool" where
  "upper_alnum c \<longleftrightarrow> upper_letter c \<or> is_digit c"

definition backslash :: char where
  "backslash = CHR 0x5C"

definition line_feed :: char where
  "line_feed = CHR 0x0A"

definition solid :: "char \<Rightarrow> bool" where "solid c \<longleftrightarrow> \<not> js_space c"
definition bearer_char :: "char \<Rightarrow> bool" where "bearer_char c \<longleftrightarrow> word_char c \<or> c \<in> set ''.~+/=-''"
definition key_char :: "char \<Rightarrow> bool" where "key_char c \<longleftrightarrow> word_char c \<or> c \<in> set ''.-''"
definition jwt_char :: "char \<Rightarrow> bool" where "jwt_char c \<longleftrightarrow> word_char c \<or> c = CHR ''-''"
definition scheme_char :: "char \<Rightarrow> bool" where "scheme_char c \<longleftrightarrow> alnum c \<or> c \<in> set ''+.-''"
definition userinfo_char :: "char \<Rightarrow> bool" where "userinfo_char c \<longleftrightarrow> solid c \<and> c \<notin> set ''/@''"
definition home_char :: "char \<Rightarrow> bool" where "home_char c \<longleftrightarrow> solid c \<and> c \<noteq> CHR ''/''"
definition drive_home_char :: "char \<Rightarrow> bool" where "drive_home_char c \<longleftrightarrow> home_char c \<and> c \<noteq> backslash"
definition any_slash :: "char \<Rightarrow> bool" where "any_slash c \<longleftrightarrow> c = CHR ''/'' \<or> c = backslash"
definition github_char :: "char \<Rightarrow> bool" where "github_char c \<longleftrightarrow> js_lower_char c \<in> set ''pousr''"
definition slack_char :: "char \<Rightarrow> bool" where "slack_char c \<longleftrightarrow> js_lower_char c \<in> set ''baprs''"
definition assign_char :: "char \<Rightarrow> bool" where "assign_char c \<longleftrightarrow> c = CHR ''='' \<or> c = CHR '':''"
definition env_char :: "char \<Rightarrow> bool" where "env_char c \<longleftrightarrow> upper_alnum c \<or> c = CHR ''_''"
definition outside_name :: "char \<Rightarrow> bool" where "outside_name c \<longleftrightarrow> \<not> (word_char c \<or> c \<in> set ''.-'')"

abbreviation one_char :: "char \<Rightarrow> regex" where "one_char c \<equiv> Chars (same_char c)"
abbreviation spaces :: regex where "spaces \<equiv> Many (Chars js_space)"
abbreviation word_tail :: regex where "word_tail \<equiv> Many (Chars word_char)"
abbreviation some_solid :: regex where "some_solid \<equiv> some_of (Chars solid)"

definition not_after_word :: "char option \<Rightarrow> char option \<Rightarrow> bool" where
  "not_after_word p n \<longleftrightarrow> (case p of None \<Rightarrow> True | Some c \<Rightarrow> \<not> word_char c)"

definition line_start :: "char option \<Rightarrow> char option \<Rightarrow> bool" where
  "line_start p n \<longleftrightarrow> p \<in> {None, Some line_feed, Some (CHR 0x0D)}"

section \<open>Secrets in texts\<close>

datatype secret_kind = Bearer_token | Api_key_token | Auth_assignment | Secret_env_assignment | Private_key
  | Aws_access_key | Jwt_token | Auth_header | Url_userinfo | Home_path

definition secret_kinds :: "secret_kind list" where
  "secret_kinds = [Bearer_token, Api_key_token, Auth_assignment, Secret_env_assignment, Private_key,
     Aws_access_key, Jwt_token, Auth_header, Url_userinfo, Home_path]"

definition env_secret_names :: "string list" where
  "env_secret_names = [''api_key'', ''token'', ''secret'', ''credential'', ''password'', ''key'']"

fun secret_pattern :: "secret_kind \<Rightarrow> regex" where
  "secret_pattern Bearer_token =
     in_order [edge, any_case ''bearer'', some_of (Chars js_space), at_least 8 (Chars bearer_char)]"
| "secret_pattern Api_key_token = in_order [edge, one_of [
       in_order [one_of [any_case ''sk-'', in_order [any_case ''gh'', Chars github_char, one_char CHR ''_''],
           in_order [any_case ''xox'', maybe (Chars slack_char), one_char CHR ''-''], any_case ''glpat-'', any_case ''aiza''],
         at_least 8 (Chars key_char)],
       in_order [any_case ''npm_'', at_least 8 (Chars alnum)]], edge]"
| "secret_pattern Auth_assignment = in_order [Look not_after_word,
     maybe (in_order [Chars letter, word_tail, one_char CHR ''_'']),
     one_of (map any_case [''password'', ''passwd'', ''token'', ''credential'', ''authorization'', ''api_key'', ''access_key'',
       ''client_secret'', ''secret_key'', ''service_role_key'', ''secret'']),
     spaces, Chars assign_char, spaces, some_solid]"
| "secret_pattern Secret_env_assignment = in_order [edge, any_case ''omnigent_'', word_tail,
     one_of (map any_case env_secret_names), spaces, one_char CHR ''='', spaces, some_solid]"
| "secret_pattern Private_key = in_order [exact_text ''-----BEGIN '',
     maybe (in_order [some_of (Chars upper_letter), one_char CHR '' '']), exact_text ''PRIVATE KEY-----'']"
| "secret_pattern Aws_access_key = in_order [edge, exact_text ''AKIA'', exactly 16 (Chars upper_alnum), edge]"
| "secret_pattern Jwt_token = in_order [edge, any_case ''eyj'', at_least 8 (Chars jwt_char), one_char CHR ''.'',
     at_least 8 (Chars jwt_char), one_char CHR ''.'', at_least 8 (Chars jwt_char), edge]"
| "secret_pattern Auth_header = in_order [edge, one_of (map any_case [''authorization'', ''x-api-key'', ''cookie'']),
     spaces, one_char CHR '':'', spaces, some_solid]"
| "secret_pattern Url_userinfo = in_order [edge, Chars letter, Many (Chars scheme_char), exact_text ''://'',
     some_of (Chars userinfo_char), one_char CHR '':'', some_of (Chars userinfo_char), one_char CHR ''@'']"
| "secret_pattern Home_path = one_of [
     in_order [one_char CHR ''/'', one_of [any_case ''home'', any_case ''users''], one_char CHR ''/'', some_of (Chars home_char)],
     in_order [Chars letter, one_char CHR '':'', Chars any_slash, any_case ''users'', Chars any_slash, some_of (Chars drive_home_char)]]"

definition env_dump_pattern :: regex where
  "env_dump_pattern = in_order [one_of [Look line_start, one_char line_feed],
     one_of (map exact_text [''HOME'', ''PATH'', ''PWD'', ''OPENAI_API_KEY'', ''ANTHROPIC_API_KEY'', ''GOOGLE_API_KEY'', ''AZURE_OPENAI_API_KEY'']
       @ [in_order [exact_text ''OMNIGENT_'', Many (Chars env_char),
            one_of (map exact_text [''API_KEY'', ''TOKEN'', ''SECRET'', ''CREDENTIAL'', ''PASSWORD'', ''KEY''])]]),
     one_char CHR ''='']"

definition private_recovery_pattern :: regex where
  "private_recovery_pattern = in_order [one_of [text_start, Chars outside_name], any_case ''.recovery'',
     one_of [Chars any_slash, text_end, Chars outside_name]]"

section \<open>Secret-bearing paths\<close>

abbreviation segment_start :: regex where "segment_start \<equiv> one_of [text_start, one_char CHR ''/'']"
abbreviation segment_end :: regex where "segment_end \<equiv> one_of [one_char CHR ''/'', text_end]"

definition secret_path_patterns :: "regex list" where
  "secret_path_patterns = [
     in_order [segment_start, any_case ''.env'', one_of [one_char CHR ''.'', text_end]],
     in_order [segment_start, exact_text ''.ssh'', segment_end],
     in_order [segment_start, one_of [in_order [any_case ''secret'', maybe (any_case ''s'')],
       in_order [any_case ''credential'', maybe (any_case ''s'')], any_case ''private''], segment_end],
     in_order [segment_start, one_of (map any_case [''.npmrc'', ''.netrc'', ''.git-credentials'']), text_end],
     in_order [segment_start, one_of (map any_case [''.kube/config'', ''.docker/config.json'']), text_end],
     in_order [segment_start, any_case ''id_'', one_of (map any_case [''rsa'', ''ed25519'', ''ecdsa'']), maybe (any_case ''.pub''), text_end],
     in_order [one_char CHR ''.'', one_of (map any_case [''pem'', ''p12'', ''key'', ''jks'', ''pfx'']), text_end],
     in_order [segment_start, exact_text ''.recovery'', segment_end]]"

definition is_secret_like_path :: "string \<Rightarrow> bool" where
  "is_secret_like_path p \<longleftrightarrow> (\<exists>r \<in> set secret_path_patterns. regex_test r p)"

definition secret_text :: "string \<Rightarrow> bool" where
  "secret_text s \<longleftrightarrow> (\<exists>k \<in> set secret_kinds. regex_test (secret_pattern k) s)"

section \<open>Texts over a small alphabet\<close>

lemma no_secret_text:
  assumes "list_all (\<lambda>k. \<not> usable cs (secret_pattern k)) secret_kinds" "set s \<subseteq> set cs"
  shows "\<not> secret_text s"
  using assms not_usable unfolding secret_text_def list_all_iff by blast

definition hash_alphabet :: string where
  "hash_alphabet = ''path:sha256:0123456789abcdef''"

lemma hash_alphabet_clean:
  "list_all (\<lambda>k. \<not> usable hash_alphabet (secret_pattern k)) secret_kinds"
  "\<not> usable hash_alphabet env_dump_pattern" "\<not> usable hash_alphabet private_recovery_pattern"
  by code_simp+

lemma demo_patterns:
  "secret_text ''Authorization: Bearer abcdefghij''" "secret_text ''see /home/bob/x''" "\<not> secret_text ''tokens are counted''"
  "is_secret_like_path ''config/.env.local''" "\<not> is_secret_like_path ''src/env.ts''"
  by code_simp+

end
