(* ===== verification/Redaction.thy ===== *)
theory Redaction
  imports MetadataPatterns JsNum HandoffData
begin

text \<open>
  Scanning, exporting and sanitising metadata (\<open>core-contracts/src/redaction.ts\<close>). A value of unknown
  type is a \<open>metadata\<close>; \<open>M_foreign\<close> is a function, a symbol, a bigint, a proxy or an object that is
  not inert. \<open>JSON.parse\<close> of a text, zod's datetime test and SHA-256 are fields of \<open>redaction_env\<close>.
  The limit of 64 on the depth is kept as the room left, 65 at the top.
\<close>

section \<open>Values\<close>

datatype metadata = M_undefined | M_null | M_bool bool | M_number jsnum | M_text string
  | M_list "metadata option list" | M_record "(string \<times> metadata) list" | M_foreign

record redaction_env =
  re_parse :: "string \<Rightarrow> metadata option"
  re_datetime :: "string \<Rightarrow> bool"
  re_sha256 :: "string \<Rightarrow> string"

datatype leak_reason = Depth_limit | Non_json | Private_recovery | Environment_dump | Secret_leak secret_kind
  | Provider_payload | Sensitive_field | Sensitive_field_name

type_synonym metadata_leak = "string \<times> leak_reason"

fun secret_label :: "secret_kind \<Rightarrow> string" where
  "secret_label Bearer_token = ''bearer token''"
| "secret_label Api_key_token = ''api key token''"
| "secret_label Auth_assignment = ''auth assignment''"
| "secret_label Secret_env_assignment = ''secret env assignment''"
| "secret_label Private_key = ''private key''"
| "secret_label Aws_access_key = ''aws access key''"
| "secret_label Jwt_token = ''jwt token''"
| "secret_label Auth_header = ''auth header''"
| "secret_label Url_userinfo = ''url userinfo''"
| "secret_label Home_path = ''home path''"

text \<open>The reason as messages give it, with spaces.\<close>

fun leak_label :: "leak_reason \<Rightarrow> string" where
  "leak_label Depth_limit = ''metadata depth limit''"
| "leak_label Non_json = ''non json metadata''"
| "leak_label Private_recovery = ''private recovery path''"
| "leak_label Environment_dump = ''environment dump''"
| "leak_label (Secret_leak k) = secret_label k"
| "leak_label Provider_payload = ''raw provider payload''"
| "leak_label Sensitive_field = ''sensitive field''"
| "leak_label Sensitive_field_name = ''sensitive field name''"

record scan_options =
  sc_allow_home_paths :: bool
  sc_inert_only :: bool

definition full_scan :: scan_options where
  "full_scan = \<lparr>sc_allow_home_paths = False, sc_inert_only = False\<rparr>"

section \<open>Fields\<close>

definition is_record :: "metadata \<Rightarrow> bool" where
  "is_record v \<longleftrightarrow> (case v of M_record _ \<Rightarrow> True | _ \<Rightarrow> False)"

definition is_text :: "metadata \<Rightarrow> bool" where
  "is_text v \<longleftrightarrow> (case v of M_text _ \<Rightarrow> True | _ \<Rightarrow> False)"

definition has_field :: "string list \<Rightarrow> metadata option \<Rightarrow> bool" where
  "has_field keys v \<longleftrightarrow> (case v of Some (M_record r) \<Rightarrow> (\<exists>k \<in> set keys. k \<in> fst ` set r) | _ \<Rightarrow> False)"

definition list_with :: "(string \<times> metadata) list \<Rightarrow> string \<Rightarrow> string list \<Rightarrow> bool" where
  "list_with r k keys \<longleftrightarrow> (case map_of r k of Some (M_list xs) \<Rightarrow> list_ex (has_field keys) xs | _ \<Rightarrow> False)"

definition provider_payload :: "(string \<times> metadata) list \<Rightarrow> bool" where
  "provider_payload r \<longleftrightarrow> list_with r ''choices'' [''message'', ''delta''] \<or> list_with r ''messages'' [''role'']
     \<or> list_with r ''candidates'' [''content'']
     \<or> (case map_of r ''anthropic_version'' of Some v \<Rightarrow> is_text v | None \<Rightarrow> False)
     \<or> (case map_of r ''providerPayload'' of Some v \<Rightarrow> is_record v | None \<Rightarrow> False)"

definition plain_name :: "string \<Rightarrow> string" where
  "plain_name key = js_lower (filter alnum key)"

definition sensitive_words :: "string list" where
  "sensitive_words = [''tokens'', ''passwords'', ''secrets'', ''cookies'', ''apikeys'']"

definition sensitive_endings :: "string list" where
  "sensitive_endings = [''password'', ''passwd'', ''token'', ''credential'', ''credentials'', ''authorization'', ''authheader'',
     ''apikey'', ''accesskey'', ''secret'', ''secretkey'', ''privatekey'', ''servicerolekey'', ''cookie'']"

definition sensitive_field :: "string \<Rightarrow> metadata \<Rightarrow> bool" where
  "sensitive_field key v \<longleftrightarrow> (let n = plain_name key in
     \<not> (n = ''fencingtoken'' \<or> (n = ''autorefreshtoken'' \<and> (case v of M_bool _ \<Rightarrow> True | _ \<Rightarrow> False)))
     \<and> (n \<in> set sensitive_words \<or> (\<exists>e \<in> set sensitive_endings. ends_with e n)))"

text \<open>\<open>redactedConfigPlaceholder\<close>, with \<open>redactedConfigValueSchema\<close>.\<close>

definition redacted_config_placeholder :: "redaction_env \<Rightarrow> metadata \<Rightarrow> bool" where
  "redacted_config_placeholder env v \<longleftrightarrow> (case v of
       M_record r \<Rightarrow> (\<forall>(k, _) \<in> set r. k \<in> set [''schema'', ''value'', ''reason'', ''updatedAt''])
         \<and> map_of r ''schema'' = Some (M_text ''redacted_config_value.v0.1'')
         \<and> map_of r ''value'' = Some (M_text ''[redacted]'')
         \<and> (case map_of r ''reason'' of Some (M_text t) \<Rightarrow> t \<noteq> [] | _ \<Rightarrow> False)
         \<and> (case map_of r ''updatedAt'' of None \<Rightarrow> True | Some M_undefined \<Rightarrow> True | Some (M_text t) \<Rightarrow> re_datetime env t | _ \<Rightarrow> False)
     | _ \<Rightarrow> False)"

definition redact_config_value :: "string \<Rightarrow> string option \<Rightarrow> metadata" where
  "redact_config_value reason updated_at = M_record [(''schema'', M_text ''redacted_config_value.v0.1''),
     (''value'', M_text ''[redacted]''), (''reason'', M_text reason),
     (''updatedAt'', case updated_at of None \<Rightarrow> M_undefined | Some t \<Rightarrow> M_text t)]"

definition redact_config_record :: "string list \<Rightarrow> string \<Rightarrow> (string \<times> metadata) list" where
  "redact_config_record keys reason = map (\<lambda>k. (k, redact_config_value reason None)) keys"

text \<open>A field \<open>env\<close> with nothing but texts.\<close>

definition environment_record :: "string \<Rightarrow> metadata \<Rightarrow> bool" where
  "environment_record key v \<longleftrightarrow> key \<in> {''env'', ''environment''} \<and> (case v of
       M_record r \<Rightarrow> r \<noteq> [] \<and> (\<forall>(_, x) \<in> set r. is_text x \<or> x = M_undefined) | _ \<Rightarrow> False)"

definition secret_name :: "string \<Rightarrow> bool" where
  "secret_name key \<longleftrightarrow> regex_test private_recovery_pattern key \<or> secret_text key"

definition simple_name :: "string \<Rightarrow> bool" where
  "simple_name key \<longleftrightarrow> key \<noteq> [] \<and> length key \<le> 64 \<and> (letter (hd key) \<or> hd key = CHR ''_'') \<and> list_all word_char key"

definition field_index :: "nat \<Rightarrow> string" where
  "field_index i = ''[field-'' @ show_int (int i) @ '']''"

definition field_path :: "string \<Rightarrow> string \<Rightarrow> nat \<Rightarrow> string" where
  "field_path path key i = path @ ''.'' @ (if simple_name key \<and> \<not> secret_text key then key else field_index i)"

section \<open>Scanning\<close>

definition text_leaks :: "scan_options \<Rightarrow> string \<Rightarrow> leak_reason list" where
  "text_leaks opts t =
     (if regex_test private_recovery_pattern t then [Private_recovery] else [])
     @ (if regex_test env_dump_pattern t then [Environment_dump] else [])
     @ map Secret_leak (filter (\<lambda>k. \<not> (sc_allow_home_paths opts \<and> k = Home_path) \<and> regex_test (secret_pattern k) t) secret_kinds)"

definition field_leaks :: "redaction_env \<Rightarrow> string \<Rightarrow> nat \<Rightarrow> string \<Rightarrow> metadata \<Rightarrow> metadata_leak list" where
  "field_leaks env path i key v =
     (if sensitive_field key v \<and> v \<noteq> M_undefined \<and> \<not> redacted_config_placeholder env v
      then [(field_path path key i, Sensitive_field)] else [])
     @ (if environment_record key v \<and> \<not> redacted_config_placeholder env v then [(field_path path key i, Environment_dump)] else [])
     @ (if secret_name key then [(path @ ''.'' @ field_index i, Sensitive_field_name)] else [])"

text \<open>What a text contains when it is itself JSON with a text, a list or a record inside.\<close>

definition nested_value :: "redaction_env \<Rightarrow> string \<Rightarrow> metadata option" where
  "nested_value env t = (case re_parse env t of
       Some (M_text s) \<Rightarrow> Some (M_text s)
     | Some (M_list xs) \<Rightarrow> Some (M_list xs)
     | Some (M_record r) \<Rightarrow> Some (M_record r)
     | _ \<Rightarrow> None)"

definition present_items :: "metadata option list \<Rightarrow> metadata list" where
  "present_items xs = map the (filter (\<lambda>x. x \<noteq> None) xs)"

text \<open>\<open>visit\<close>, with the room left below the limit of the depth.\<close>

fun visit :: "redaction_env \<Rightarrow> scan_options \<Rightarrow> nat \<Rightarrow> string \<Rightarrow> metadata \<Rightarrow> metadata_leak list" where
  "visit env opts 0 path v = [(path, Depth_limit)]"
| "visit env opts (Suc room) path v = (case v of
     M_number x \<Rightarrow> if \<not> sc_inert_only opts \<and> \<not> is_finite_num x then [(path, Non_json)] else []
   | M_foreign \<Rightarrow> [(path, Non_json)]
   | M_text t \<Rightarrow>
       if sc_inert_only opts then []
       else map (Pair path) (text_leaks opts t)
         @ (case nested_value env t of None \<Rightarrow> [] | Some w \<Rightarrow> visit env opts room path w)
   | M_list xs \<Rightarrow>
       if sc_inert_only opts
       then concat (map (\<lambda>(i, x). visit env opts room (path @ ''.'' @ field_index i) x) (enumerate 0 (present_items xs)))
       else concat (map (\<lambda>(i, x). case x of
             None \<Rightarrow> []
           | Some y \<Rightarrow> if y = M_undefined then [(path @ ''['' @ show_int (int i) @ '']'', Non_json)]
               else visit env opts room (path @ ''['' @ show_int (int i) @ '']'') y) (enumerate 0 xs))
   | M_record r \<Rightarrow>
       if sc_inert_only opts
       then concat (map (\<lambda>(i, k, x). visit env opts room (path @ ''.'' @ field_index i) x) (enumerate 0 r))
       else (if provider_payload r then [(path, Provider_payload)] else [])
         @ concat (map (\<lambda>(i, k, x). field_leaks env path i k x @ visit env opts room (field_path path k i) x) (enumerate 0 r))
   | _ \<Rightarrow> [])"

definition max_depth :: nat where "max_depth = 64"

definition scan_metadata_leaks :: "redaction_env \<Rightarrow> scan_options \<Rightarrow> metadata \<Rightarrow> metadata_leak list" where
  "scan_metadata_leaks env opts v = visit env opts (Suc max_depth) ''$'' v"

definition leak_message :: "metadata_leak \<Rightarrow> string" where
  "leak_message l = ''Metadata contains '' @ leak_label (snd l) @ ''.''"

definition assert_metadata_safe :: "redaction_env \<Rightarrow> bool \<Rightarrow> metadata \<Rightarrow> (thrown, unit) result" where
  "assert_metadata_safe env inert_only v =
     (case scan_metadata_leaks env (full_scan\<lparr>sc_inert_only := inert_only\<rparr>) v of
       [] \<Rightarrow> Inr ()
     | l # _ \<Rightarrow> Inl (Plain_error (leak_message l)))"

definition metadata_schema_check :: "redaction_env \<Rightarrow> metadata \<Rightarrow> string list" where
  "metadata_schema_check env v = map leak_message (scan_metadata_leaks env full_scan v)"

section \<open>Sanitising\<close>

text \<open>\<open>Buffer.byteLength\<close> of code units below 256.\<close>

definition utf8_length :: "string \<Rightarrow> int" where
  "utf8_length s = sum_list (map (\<lambda>c. if (of_char c :: int) < 128 then 1 else 2) s)"

definition default_metadata_text_max_bytes :: int where "default_metadata_text_max_bytes = 280"
definition default_untrusted_text_max_bytes :: int where "default_untrusted_text_max_bytes = 2048"

definition normalize_text :: "string \<Rightarrow> string \<Rightarrow> (thrown, string) result" where
  "normalize_text v label = (if js_trim v = [] then Inl (Plain_error (label @ '' must not be empty.'')) else Inr (js_trim v))"

definition assert_max_bytes :: "string \<Rightarrow> string \<Rightarrow> int \<Rightarrow> (thrown, unit) result" where
  "assert_max_bytes v label n = ensure (utf8_length v \<le> n)
     (Plain_error (label @ '' exceeds '' @ show_int n @ '' bytes ('' @ show_int (utf8_length v) @ '' bytes).''))"

definition sanitize_metadata_text :: "redaction_env \<Rightarrow> string \<Rightarrow> string \<Rightarrow> int \<Rightarrow> (thrown, string) result" where
  "sanitize_metadata_text env v label max_bytes =
     bindr (normalize_text v label) (\<lambda>t.
     bindr (assert_max_bytes v label max_bytes) (\<lambda>_.
     bindr (ensure (\<not> regex_test env_dump_pattern t) (Plain_error (label @ '' must not contain environment dump content.''))) (\<lambda>_.
     bindr (assert_metadata_safe env False (M_text t)) (\<lambda>_. Inr t))))"

definition to_slashes :: "string \<Rightarrow> string" where
  "to_slashes p = map (\<lambda>c. if c = backslash then CHR ''/'' else c) p"

text \<open>\<open>posix.normalize\<close>: the segments, a \<open>..\<close> above the start kept in a relative path only.\<close>

fun normal_segments :: "bool \<Rightarrow> string list \<Rightarrow> string list \<Rightarrow> string list" where
  "normal_segments relative acc [] = rev acc"
| "normal_segments relative acc (s # ss) =
     (if s = [] \<or> s = ''.'' then normal_segments relative acc ss
      else if s = ''..'' then
        (if acc \<noteq> [] \<and> hd acc \<noteq> ''..'' then normal_segments relative (tl acc) ss
         else if relative then normal_segments relative (s # acc) ss
         else normal_segments relative acc ss)
      else normal_segments relative (s # acc) ss)"

definition posix_normalize :: "string \<Rightarrow> string" where
  "posix_normalize p =
     (if p = [] then ''.''
      else let absolute = (hd p = CHR ''/''); trailing = (last p = CHR ''/'');
               body = join_with ''/'' (normal_segments (\<not> absolute) [] (split_on CHR ''/'' p)) in
        if body = [] then (if absolute then ''/'' else if trailing then ''./'' else ''.'')
        else (if absolute then ''/'' else []) @ body @ (if trailing then ''/'' else []))"

definition is_absolute :: "string \<Rightarrow> bool" where
  "is_absolute p \<longleftrightarrow> starts_with ''/'' p"

definition drive_path :: "(char \<Rightarrow> bool) \<Rightarrow> string \<Rightarrow> bool" where
  "drive_path slash p \<longleftrightarrow> (case p of a # b # c # _ \<Rightarrow> letter a \<and> b = CHR '':'' \<and> slash c | _ \<Rightarrow> False)"

definition sanitize_metadata_path :: "redaction_env \<Rightarrow> string \<Rightarrow> (thrown, string) result" where
  "sanitize_metadata_path env p =
     (let posix_path = to_slashes (js_trim p); collapsed = posix_normalize posix_path in
      bindr (ensure (\<not> (is_absolute p \<or> starts_with ''/'' posix_path \<or> drive_path (same_char CHR ''/'') posix_path))
        (Plain_error ''Evidence paths must be repo-relative metadata, not absolute paths.'')) (\<lambda>_.
      bindr (ensure (''..'' \<notin> set (split_on CHR ''/'' posix_path))
        (Plain_error ''Evidence paths must not traverse outside the repository.'')) (\<lambda>_.
      bindr (ensure (\<not> is_secret_like_path collapsed)
        (Plain_error ''Evidence paths must not reference secret-bearing locations.'')) (\<lambda>_.
      bindr (sanitize_metadata_text env p ''path'' default_metadata_text_max_bytes) (\<lambda>_. Inr collapsed)))))"

definition sanitize_workspace_path :: "redaction_env \<Rightarrow> string \<Rightarrow> string \<Rightarrow> (thrown, string) result" where
  "sanitize_workspace_path env p label =
     bindr (normalize_text p label) (\<lambda>t.
     bindr (assert_max_bytes p label default_untrusted_text_max_bytes) (\<lambda>_.
     bindr (ensure (\<not> is_secret_like_path (to_slashes t)) (Plain_error (label @ '' must not reference secret-bearing locations.''))) (\<lambda>_.
     case scan_metadata_leaks env (full_scan\<lparr>sc_allow_home_paths := True\<rparr>) (M_text t) of
       [] \<Rightarrow> Inr t
     | l # _ \<Rightarrow> Inl (Plain_error (''Workspace path contains '' @ (if snd l = Provider_payload then ''provider payload'' else leak_label (snd l)) @ ''.'')))))"

definition redacted_text_ok :: "redaction_env \<Rightarrow> redacted_text \<Rightarrow> bool" where
  "redacted_text_ok env t \<longleftrightarrow> rt_reason t \<noteq> [] \<and> rt_content t \<noteq> [] \<and> 0 < rt_byte_length t
     \<and> scan_metadata_leaks env full_scan (M_record [(''schema'', M_text ''redacted_text.v0.1''), (''redaction'', M_text ''content_redacted''),
          (''reason'', M_text (rt_reason t)), (''content'', M_text (rt_content t)),
          (''byteLength'', M_number (Fin (of_int (rt_byte_length t)))), (''truncated'', M_bool False)]) = []
     \<and> rt_byte_length t = utf8_length (rt_content t) \<and> rt_byte_length t \<le> default_untrusted_text_max_bytes"

definition redact_untrusted_text :: "redaction_env \<Rightarrow> string option \<Rightarrow> string option \<Rightarrow> int option \<Rightarrow> string \<Rightarrow> (thrown, redacted_text) result" where
  "redact_untrusted_text env label reason max_bytes v =
     (let label = or_else label ''untrusted evidence'' in
      bindr (normalize_text v label) (\<lambda>t.
      bindr (assert_max_bytes v label (or_else max_bytes default_untrusted_text_max_bytes)) (\<lambda>_.
      bindr (ensure (\<not> regex_test env_dump_pattern t) (Plain_error (label @ '' must not include environment dump content.''))) (\<lambda>_.
      bindr (assert_metadata_safe env False (M_text t)) (\<lambda>_.
        let x = \<lparr>rt_reason = or_else reason ''untrusted_evidence_excerpt'', rt_content = t, rt_byte_length = utf8_length t\<rparr> in
        if redacted_text_ok env x then Inr x else Inl Schema_error)))))"

definition runtime_evidence_kinds :: "string list" where
  "runtime_evidence_kinds = [''file'', ''log'', ''command'', ''test'', ''diff'']"

definition accepted :: "(thrown, 'a) result \<Rightarrow> bool" where
  "accepted r \<longleftrightarrow> (case r of Inl _ \<Rightarrow> False | Inr _ \<Rightarrow> True)"

definition evidence_ref_safe :: "redaction_env \<Rightarrow> evidence_ref \<Rightarrow> bool" where
  "evidence_ref_safe env e \<longleftrightarrow> er_kind e \<in> set runtime_evidence_kinds \<and> er_label e \<noteq> [] \<and> er_path e \<noteq> Some [] \<and> er_excerpt e \<noteq> Some []
     \<and> accepted (sanitize_metadata_text env (er_label e) ''evidence label'' default_metadata_text_max_bytes)
     \<and> (case er_path e of None \<Rightarrow> True | Some p \<Rightarrow> accepted (sanitize_metadata_path env p))
     \<and> (case er_excerpt e of None \<Rightarrow> True | Some x \<Rightarrow>
          accepted (sanitize_metadata_text env x ''evidence excerpt'' default_untrusted_text_max_bytes))"

section \<open>Exporting\<close>

definition opaque_hash :: "redaction_env \<Rightarrow> string \<Rightarrow> string" where
  "opaque_hash env p = ''path:sha256:'' @ re_sha256 env p"

definition hex_char :: "char \<Rightarrow> bool" where
  "hex_char c \<longleftrightarrow> c \<in> set ''0123456789abcdef''"

definition already_opaque :: "string \<Rightarrow> bool" where
  "already_opaque p \<longleftrightarrow> starts_with ''path:sha256:'' p \<and> length (drop 12 p) = 64 \<and> list_all hex_char (drop 12 p)"

definition opaque_export_path :: "redaction_env \<Rightarrow> string \<Rightarrow> (thrown, string) result" where
  "opaque_export_path env p =
     (if already_opaque p then Inr p
      else if is_absolute p \<or> drive_path (same_char CHR ''/'') (to_slashes p) \<or> secret_text p then Inr (opaque_hash env p)
      else sanitize_metadata_path env p)"

definition quote_or_space :: "char \<Rightarrow> bool" where
  "quote_or_space c \<longleftrightarrow> js_space c \<or> c = CHR 0x27 \<or> c = CHR 0x22"

definition path_tail_char :: "char \<Rightarrow> bool" where
  "path_tail_char c \<longleftrightarrow> \<not> quote_or_space c"

definition path_head :: "string \<Rightarrow> bool" where
  "path_head s \<longleftrightarrow> (case s of a # b # _ \<Rightarrow> a = CHR ''/'' \<and> (word_char b \<or> b \<in> set ''.~-'') | _ \<Rightarrow> False)"

text \<open>The replacement of the absolute paths that start a text or follow a space or a quote.\<close>

function export_paths :: "redaction_env \<Rightarrow> bool \<Rightarrow> string \<Rightarrow> string" where
  "export_paths env start [] = []"
| "export_paths env start (c # s) =
     (if start \<and> path_head (c # s)
      then opaque_hash env (takeWhile path_tail_char (c # s)) @ export_paths env False (dropWhile path_tail_char s)
      else if quote_or_space c \<and> path_head s
      then c # opaque_hash env (takeWhile path_tail_char s) @ export_paths env False (dropWhile path_tail_char (tl s))
      else c # export_paths env False s)"
  by pat_completeness auto

termination
  by (relation "measure (\<lambda>(env, start, s). length s)") (auto simp: le_imp_less_Suc length_dropWhile_le le_diff_conv intro!: le_less_trans [OF length_dropWhile_le])

definition export_text :: "redaction_env \<Rightarrow> string \<Rightarrow> string" where
  "export_text env t =
     (if is_secret_like_path (to_slashes t) then ''[redacted]''
      else if is_absolute t \<or> drive_path any_slash t
      then (if already_opaque t then t else opaque_hash env t)
      else if scan_metadata_leaks env full_scan (M_text t) \<noteq> [] then ''[redacted]''
      else export_paths env True t)"

definition kept_field :: "string \<times> metadata \<Rightarrow> bool" where
  "kept_field f \<longleftrightarrow> snd f \<noteq> M_undefined \<and> \<not> secret_name (fst f)"

text \<open>\<open>projectMetadataExport\<close>.\<close>

fun project :: "redaction_env \<Rightarrow> bool \<Rightarrow> nat \<Rightarrow> metadata \<Rightarrow> metadata" where
  "project env inert_only 0 v = M_text ''[redacted]''"
| "project env inert_only (Suc room) v = (case v of
     M_number x \<Rightarrow> if \<not> inert_only \<and> \<not> is_finite_num x then M_text ''[redacted]'' else v
   | M_foreign \<Rightarrow> M_text ''[redacted]''
   | M_text t \<Rightarrow> if inert_only then v else M_text (export_text env t)
   | M_list xs \<Rightarrow> M_list (map (map_option (\<lambda>x. if \<not> inert_only \<and> x = M_undefined then M_null else project env inert_only room x)) xs)
   | M_record r \<Rightarrow>
       if inert_only then M_record (map (\<lambda>(k, x). (k, project env inert_only room x)) r)
       else if provider_payload r then redact_config_value ''provider_payload_export'' None
       else M_record (map (\<lambda>(k, x). (k,
           if sensitive_field k x \<and> \<not> redacted_config_placeholder env x then redact_config_value ''metadata_export'' None
           else if environment_record k x then redact_config_value ''environment_export'' None
           else project env inert_only room x)) (filter kept_field r))
   | _ \<Rightarrow> v)"

definition project_metadata_export :: "redaction_env \<Rightarrow> bool \<Rightarrow> metadata \<Rightarrow> metadata" where
  "project_metadata_export env inert_only v = project env inert_only (Suc max_depth) v"

end
