(* ===== verification/LimitRules.thy ===== *)
theory LimitRules
  imports Redaction RateLimitActions JsObject
begin

text \<open>
  The classification of raw limit signals (\<open>rate-limit-catalog/src/rules.ts\<close>, \<open>classifier.ts\<close>,
  \<open>provider-rules.ts\<close>, \<open>harness-rules.ts\<close>). The text of a signal is lowered before it is matched, so
  the patterns are read without case. \<open>Date.parse\<close> of a header is an argument, since it takes any text.
\<close>

section \<open>Signals\<close>

datatype header_value = H_text string | H_number jsnum string

record classifier_input =
  ci_provider :: "string option"
  ci_harness :: "string option"
  ci_status_code :: "int option"
  ci_exit_code :: "int option"
  ci_body_text :: "string option"
  ci_stderr_text :: "string option"
  ci_stdout_text :: "string option"
  ci_headers :: "header_value obj option"
  ci_now :: "string option"

record normalized_signal =
  ns_provider :: "string option"
  ns_harness :: "string option"
  ns_status_code :: "int option"
  ns_combined_text :: string
  ns_headers :: "string obj"
  ns_retry_after_seconds :: "int option"
  ns_reset_at :: "string option"

record classification_match =
  cm_type :: limit_type
  cm_scope :: limit_scope
  cm_confidence :: rat
  cm_notes :: "string list option"

record classifier_env =
  ce_redaction :: redaction_env
  ce_date_parse :: "string \<Rightarrow> int option"

section \<open>Patterns\<close>

definition whole_word :: "string \<Rightarrow> regex" where
  "whole_word s = in_order [edge, any_case s, edge]"

definition word_of :: "regex list \<Rightarrow> regex" where
  "word_of rs = in_order ([edge] @ rs @ [edge])"

abbreviation plural :: regex where "plural \<equiv> maybe (any_case ''s'')"

definition policy_patterns :: "regex list" where
  "policy_patterns = [whole_word ''policy'', whole_word ''abuse'', whole_word ''safety'', any_case ''terms of service'',
     any_case ''trust and safety'', any_case ''blocked by review'']"

definition explicit_auth_patterns :: "regex list" where
  "explicit_auth_patterns = map whole_word [''unauthorized'', ''invalid api key'', ''expired api key'', ''authentication'', ''login required'']"

definition billing_problem_patterns :: "regex list" where
  "billing_problem_patterns = map whole_word [''billing'', ''payment required'', ''credit balance'']
     @ [word_of [any_case ''insufficient credit'', plural]] @ map whole_word [''account balance'', ''subscription'', ''reauth'']"

definition monthly_patterns :: "regex list" where
  "monthly_patterns = [whole_word ''insufficient_quota'', whole_word ''monthly'', word_of [any_case ''spend'', maybe (any_case ''ing''), any_case '' limit''],
     whole_word ''hard limit'', whole_word ''budget exhausted'', word_of [any_case ''credit'', plural, any_case '' exhausted'']]"

definition fixed_window_patterns :: "regex list" where
  "fixed_window_patterns = map whole_word [''quota exceeded'', ''daily quota'', ''daily limit'', ''window'']
     @ [word_of [any_case ''reset'', plural, any_case '' at''], whole_word ''until reset'',
        word_of [any_case ''usage '', one_of [any_case ''cap'', any_case ''limit'']], any_case ''resource_exhausted'']"

definition token_patterns :: "regex list" where
  "token_patterns = [word_of [any_case ''token'', plural, any_case '' per '', one_of (map any_case [''minute'', ''second'', ''hour''])],
     whole_word ''tpm'', word_of [any_case ''output token'', plural], word_of [any_case ''prompt token'', plural],
     word_of [any_case ''context token'', plural]]"

definition concurrency_patterns :: "regex list" where
  "concurrency_patterns = [word_of [any_case ''concurren'', one_of [any_case ''cy'', any_case ''t'']], whole_word ''too many active'',
     whole_word ''already in progress'', word_of [any_case ''parallel request'', plural], word_of [any_case ''active session'', plural]]"

definition acceleration_patterns :: "regex list" where
  "acceleration_patterns = [whole_word ''acceleration'', word_of [any_case ''ramp'', maybe (any_case ''ing''), any_case '' too quickly''],
     whole_word ''increasing too quickly'', whole_word ''gradually increase'']"

definition overload_patterns :: "regex list" where
  "overload_patterns = [word_of [any_case ''overload'', maybe (any_case ''ed'')]] @ map whole_word [''capacity'', ''server busy'',
     ''temporarily unavailable'', ''service unavailable'', ''try again later'', ''upstream unavailable'']"

definition burst_patterns :: "regex list" where
  "burst_patterns = map whole_word [''rate limit'', ''too many requests'', ''rpm''] @ [word_of [any_case ''request'', plural, any_case '' per minute'']]
     @ map whole_word [''slow down'', ''retry after'']"

definition non_limit_patterns :: "regex list" where
  "non_limit_patterns = map whole_word [''validation'', ''schema'', ''malformed'', ''missing required'', ''conflict'', ''duplicate'',
     ''unsupported'', ''payload'']"

definition limit_hint_patterns :: "regex list" where
  "limit_hint_patterns = map whole_word [''limit'', ''quota'', ''retry after'', ''too many requests''] @ [any_case ''resource_exhausted'',
     word_of [any_case ''concurren'', one_of [any_case ''cy'', any_case ''t'']], word_of [any_case ''overload'', maybe (any_case ''ed'')]]"

definition limit_words :: regex where
  "limit_words = one_of (map any_case [''limit'', ''remaining'', ''reset''])"

definition safe_header_pattern :: regex where
  "safe_header_pattern = in_order [text_start, one_of [
     any_case ''retry-after'',
     in_order [maybe (any_case ''x-''), any_case ''ratelimit-'', limit_words, maybe (in_order [any_case ''-'', one_of [any_case ''requests'', any_case ''tokens'']])],
     in_order [any_case ''x-rate-limit-'', limit_words],
     in_order [any_case ''anthropic-ratelimit-'', one_of [any_case ''requests'', any_case ''tokens''], any_case ''-'', limit_words]], text_end]"

definition count_pattern_hits :: "string \<Rightarrow> regex list \<Rightarrow> int" where
  "count_pattern_hits t rs = int (length (filter (\<lambda>r. regex_test r t) rs))"

section \<open>Confidence\<close>

fun base_confidence_by_type :: "limit_type \<Rightarrow> rat" where
  "base_confidence_by_type No_limit = fl (9 / 10)"
| "base_confidence_by_type Burst_rate_limit = fl (74 / 100)"
| "base_confidence_by_type Token_rate_limit = fl (78 / 100)"
| "base_confidence_by_type Concurrency_cap = fl (76 / 100)"
| "base_confidence_by_type Fixed_window_usage_cap = fl (82 / 100)"
| "base_confidence_by_type Monthly_spend_or_quota_cap = fl (86 / 100)"
| "base_confidence_by_type Acceleration_limit = fl (76 / 100)"
| "base_confidence_by_type Overload_or_transient = fl (72 / 100)"
| "base_confidence_by_type Auth_or_billing_problem = fl (84 / 100)"
| "base_confidence_by_type Abuse_or_policy_block = fl (86 / 100)"
| "base_confidence_by_type Unknown_limit = fl (42 / 100)"

definition clamp_confidence :: "rat \<Rightarrow> rat" where
  "clamp_confidence v = round2 (min (fl (99 / 100)) (max 0 v))"

definition boost_confidence :: "rat \<Rightarrow> rat \<Rightarrow> rat" where
  "boost_confidence v delta = clamp_confidence (fl (v + fl delta))"

section \<open>Normalising\<close>

definition normalize_header_value :: "header_value \<Rightarrow> string" where
  "normalize_header_value v = (case v of H_number _ s \<Rightarrow> s | H_text s \<Rightarrow> js_trim s)"

definition normalize_headers :: "header_value obj option \<Rightarrow> string obj" where
  "normalize_headers headers = (case headers of None \<Rightarrow> []
     | Some hs \<Rightarrow> fold (\<lambda>(k, v) r. obj_set (js_lower k) (normalize_header_value v) r) hs [])"

text \<open>\<open>replace(/\s+/g, " ")\<close>.\<close>

fun collapse_spaces :: "string \<Rightarrow> string" where
  "collapse_spaces [] = []"
| "collapse_spaces (c # s) = (if js_space c then (case s of
       d # _ \<Rightarrow> if js_space d then collapse_spaces s else CHR '' '' # collapse_spaces s
     | [] \<Rightarrow> '' '') else c # collapse_spaces s)"

definition truncate_text :: "redaction_env \<Rightarrow> string option \<Rightarrow> string option" where
  "truncate_text env v = (case v of None \<Rightarrow> None | Some t \<Rightarrow>
     if t = [] then None
     else let collapsed = js_trim (collapse_spaces
              (case project_metadata_export env False (M_text t) of M_text p \<Rightarrow> p | _ \<Rightarrow> ''[redacted]'')) in
       if collapsed = [] then None
       else if length collapsed \<le> 160 then Some collapsed
       else Some (take 157 collapsed @ ''...''))"

definition get_signal_text :: "classifier_input \<Rightarrow> string" where
  "get_signal_text i = join_with [line_feed] (filter (\<lambda>t. t \<noteq> []) (map the (filter (\<lambda>t. t \<noteq> None)
     [ci_body_text i, ci_stderr_text i, ci_stdout_text i])))"

definition digits_text :: "string \<Rightarrow> bool" where
  "digits_text s \<longleftrightarrow> s \<noteq> [] \<and> list_all is_digit s"

definition lower_letter :: "char \<Rightarrow> bool" where
  "lower_letter c \<longleftrightarrow> letter c \<and> \<not> upper_letter c"

definition http_date_pattern :: regex where
  "http_date_pattern = in_order [text_start, Chars upper_letter, exactly 2 (Chars lower_letter), exact_text '', '',
     exactly 2 (Chars is_digit), exact_text '' '', Chars upper_letter, exactly 2 (Chars lower_letter), exact_text '' '',
     exactly 4 (Chars is_digit), exact_text '' '', exactly 2 (Chars is_digit), exact_text '':'', exactly 2 (Chars is_digit),
     exact_text '':'', exactly 2 (Chars is_digit), exact_text '' GMT'', text_end]"

text \<open>\<open>Number\<close> of digits whose value is not safe rounds to a number that is not safe either.\<close>

definition parse_retry_after_value :: "classifier_env \<Rightarrow> string \<Rightarrow> int \<Rightarrow> int option" where
  "parse_retry_after_value env v now =
     (if digits_text v then (if int_of_digits v \<le> max_safe then Some (min 300 (int_of_digits v)) else None)
      else if \<not> regex_test http_date_pattern v then None
      else map_option (\<lambda>ms. min 300 (max 0 \<lceil>fl (fl (of_int (ms - now)) / 1000)\<rceil>)) (ce_date_parse env v))"

text \<open>A lowered text at a position, after the text before it: the digits \<open>parseRetryAfterFromText\<close>
  captures. After the digits no digit can follow, so they are the whole run.\<close>

definition strip_text :: "string \<Rightarrow> string \<Rightarrow> string option" where
  "strip_text p s = (if starts_with p s then Some (drop (length p) s) else None)"

definition strip_spaces :: "string \<Rightarrow> string option" where
  "strip_spaces s = (if s \<noteq> [] \<and> js_space (hd s) then Some (dropWhile js_space s) else None)"

definition seconds_unit :: regex where
  "seconds_unit = in_order [spaces, one_of [in_order [any_case ''second'', plural], in_order [any_case ''sec'', plural], any_case ''s''], edge]"

definition retry_digits_here :: "string \<Rightarrow> string option" where
  "retry_digits_here s =
     Option.bind (or_opt (strip_text ''retry'' s) (strip_text ''try again'' s)) (\<lambda>s.
     Option.bind (strip_spaces s) (\<lambda>s.
     Option.bind (or_opt (strip_text ''after'' s) (strip_text ''in'' s)) (\<lambda>s.
     Option.bind (strip_spaces s) (\<lambda>s.
       let ds = takeWhile is_digit s in
       if ds \<noteq> [] \<and> match_prefix (Some (last ds)) seconds_unit (dropWhile is_digit s) then Some ds else None))))"

fun first_match :: "(string \<Rightarrow> 'a option) \<Rightarrow> string \<Rightarrow> 'a option" where
  "first_match f [] = f []"
| "first_match f (c # s) = or_opt (f (c # s)) (first_match f s)"

definition parse_retry_after_from_text :: "classifier_env \<Rightarrow> string \<Rightarrow> int option" where
  "parse_retry_after_from_text env t = Option.bind (first_match retry_digits_here t) (\<lambda>ds. parse_retry_after_value env ds 0)"

definition parse_reset_value :: "classifier_env \<Rightarrow> string \<Rightarrow> string option" where
  "parse_reset_value env v =
     (if digits_text v then
        let n = int_of_digits v in
        if 1000000000000 < n then date_to_iso (Some n)
        else if 1000000000 < n then date_to_iso (Some (n * 1000)) else None
      else date_to_iso (ce_date_parse env v))"

definition reset_char :: "char \<Rightarrow> bool" where
  "reset_char c \<longleftrightarrow> is_digit c \<or> c \<in> set '':.+-''"

definition take_digits :: "nat \<Rightarrow> string \<Rightarrow> (string \<times> string) option" where
  "take_digits n s = (if length (take n s) = n \<and> list_all is_digit (take n s) then Some (take n s, drop n s) else None)"

definition reset_text_here :: "string \<Rightarrow> string option" where
  "reset_text_here s =
     Option.bind (or_opt (strip_text ''resets'' s) (strip_text ''reset'' s)) (\<lambda>s.
     Option.bind (strip_spaces s) (\<lambda>s.
     Option.bind (or_opt (strip_text ''at'' s) (strip_text ''on'' s)) (\<lambda>s.
     Option.bind (strip_spaces s) (\<lambda>s.
     Option.bind (take_digits 4 s) (\<lambda>(y, s).
     Option.bind (strip_text ''-'' s) (\<lambda>s.
     Option.bind (take_digits 2 s) (\<lambda>(m, s).
     Option.bind (strip_text ''-'' s) (\<lambda>s.
     Option.bind (take_digits 2 s) (\<lambda>(d, s).
     Option.bind (strip_text ''t'' s) (\<lambda>s.
       let time = takeWhile reset_char s in
       if time \<noteq> [] \<and> starts_with ''z'' (dropWhile reset_char s)
       then Some (y @ ''-'' @ m @ ''-'' @ d @ ''t'' @ time @ ''z'') else None))))))))))"

definition parse_reset_from_text :: "classifier_env \<Rightarrow> string \<Rightarrow> string option" where
  "parse_reset_from_text env t = Option.bind (first_match reset_text_here t) (parse_reset_value env)"

text \<open>The first safe header about a reset that parses.\<close>

fun reset_from_headers :: "classifier_env \<Rightarrow> string obj \<Rightarrow> string option" where
  "reset_from_headers env [] = None"
| "reset_from_headers env ((k, v) # hs) =
     (if \<not> regex_test safe_header_pattern k \<or> \<not> str_includes ''reset'' k then reset_from_headers env hs
      else or_opt (parse_reset_value env v) (reset_from_headers env hs))"

definition sanitize_signal :: "classifier_env \<Rightarrow> string \<Rightarrow> classifier_input \<Rightarrow> (thrown, normalized_signal) result" where
  "sanitize_signal env clock i = (case ce_date_parse env (or_else (ci_now i) clock) of
       None \<Rightarrow> Inl (Type_error ''Invalid classifier clock'')
     | Some now \<Rightarrow>
         let headers = normalize_headers (ci_headers i);
             combined = js_lower (js_trim (collapse_spaces (get_signal_text i)))
         in Inr \<lparr>ns_provider = ci_provider i, ns_harness = ci_harness i, ns_status_code = ci_status_code i,
              ns_combined_text = combined, ns_headers = headers,
              ns_retry_after_seconds = (case obj_get headers ''retry-after'' of
                  Some v \<Rightarrow> parse_retry_after_value env v now | None \<Rightarrow> parse_retry_after_from_text env combined),
              ns_reset_at = or_opt (parse_reset_from_text env combined) (reset_from_headers env headers)\<rparr>)"

section \<open>Matching\<close>

definition has_meaningful_limit_hints :: "normalized_signal \<Rightarrow> bool" where
  "has_meaningful_limit_hints s \<longleftrightarrow> 0 < count_pattern_hits (ns_combined_text s) limit_hint_patterns
     \<or> ns_retry_after_seconds s \<noteq> None \<or> ns_reset_at s \<noteq> None"

definition step8 :: rat where "step8 = fl (8 / 100)"
definition step4 :: rat where "step4 = fl (4 / 100)"

definition add_if :: "bool \<Rightarrow> rat \<Rightarrow> rat \<Rightarrow> rat" where
  "add_if b d x = (if b then fl (x + d) else x)"

definition create_match :: "limit_type \<Rightarrow> limit_scope \<Rightarrow> normalized_signal \<Rightarrow> int \<Rightarrow> string \<Rightarrow> classification_match" where
  "create_match ty scope s hits note =
     (let status = ns_status_code s;
          problem = (ty \<in> {Auth_or_billing_problem, Abuse_or_policy_block});
          c0 = base_confidence_by_type ty;
          c1 = add_if (status = Some 429 \<and> ty \<noteq> No_limit \<and> \<not> problem) step8 c0;
          c2 = add_if (status \<in> {Some 401, Some 402, Some 403} \<and> problem) step8 c1;
          c3 = add_if (status \<in> {Some 503, Some 529} \<and> ty = Overload_or_transient) step8 c2;
          c4 = add_if (ns_retry_after_seconds s \<noteq> None) step8 c3;
          c5 = add_if (ns_reset_at s \<noteq> None) step8 c4;
          c6 = add_if (or_else (ns_provider s) [] \<noteq> [] \<or> or_else (ns_harness s) [] \<noteq> []) step4 c5;
          c7 = fl (c6 + min step8 (fl (of_int (max 0 (hits - 1)) * step4)))
      in \<lparr>cm_type = ty, cm_scope = scope, cm_confidence = clamp_confidence c7,
           cm_notes = dedupe_notes ([Some note]
             @ (if ns_retry_after_seconds s \<noteq> None then [Some ''Observed retry-after evidence.''] else [])
             @ (if ns_reset_at s \<noteq> None then [Some ''Observed reset-time evidence.''] else []))\<rparr>)"

definition hits_or_one :: "int \<Rightarrow> int" where
  "hits_or_one n = (if n = 0 then 1 else n)"

definition quota_reset_evidence :: "normalized_signal \<Rightarrow> bool" where
  "quota_reset_evidence s \<longleftrightarrow> ns_reset_at s \<noteq> None \<and> (str_includes ''quota'' (ns_combined_text s)
     \<or> str_includes ''usage cap'' (ns_combined_text s) \<or> str_includes ''usage limit'' (ns_combined_text s))"

definition match_base_classification :: "normalized_signal \<Rightarrow> classification_match" where
  "match_base_classification s =
     (let t = ns_combined_text s; status = ns_status_code s; hits = count_pattern_hits t;
          auth = hits explicit_auth_patterns; billing = hits billing_problem_patterns in
      if 0 < hits policy_patterns
      then create_match Abuse_or_policy_block L_identity_profile s (hits policy_patterns) ''Matched policy or abuse language.''
      else if status = Some 401 \<or> status = Some 402 \<or> ((status = Some 403 \<or> status = None) \<and> 0 < auth + billing)
      then create_match Auth_or_billing_problem L_identity_profile s (auth + billing) ''Matched auth or billing failure language.''
      else if status = Some 503 \<or> status = Some 529 \<or> 0 < hits overload_patterns
      then create_match Overload_or_transient L_provider_family s (hits_or_one (hits overload_patterns)) ''Matched transient overload language.''
      else if 0 < hits concurrency_patterns
      then create_match Concurrency_cap L_session s (hits concurrency_patterns) ''Matched active-session or concurrency language.''
      else if 0 < hits acceleration_patterns
      then create_match Acceleration_limit L_provider_family s (hits acceleration_patterns) ''Matched acceleration or ramp-rate language.''
      else if 0 < hits monthly_patterns
      then create_match Monthly_spend_or_quota_cap L_organization s (hits monthly_patterns) ''Matched hard spend or monthly quota language.''
      else if 0 < hits fixed_window_patterns \<or> quota_reset_evidence s
      then create_match Fixed_window_usage_cap L_project s (hits_or_one (hits fixed_window_patterns)) ''Matched reset-bound quota language.''
      else if 0 < hits token_patterns
      then create_match Token_rate_limit L_model s (hits token_patterns) ''Matched token-based limit language.''
      else if status = Some 403 \<and> 0 < billing
      then create_match Auth_or_billing_problem L_identity_profile s billing ''Matched billing failure language.''
      else if 0 < hits burst_patterns \<or> (status = Some 429 \<and> ns_retry_after_seconds s \<noteq> None)
      then create_match Burst_rate_limit L_provider_family s (hits_or_one (hits burst_patterns)) ''Matched retryable request-rate language.''
      else if status = Some 429 \<and> 0 < hits non_limit_patterns \<and> \<not> has_meaningful_limit_hints s
      then create_match No_limit L_unknown s (hits non_limit_patterns) ''Matched non-limit validation language.''
      else if status = Some 429 \<or> has_meaningful_limit_hints s
      then create_match Unknown_limit L_unknown s (max 1 (hits limit_hint_patterns))
        ''Signal looked limit-like but stayed below a confident class boundary.''
      else create_match No_limit L_unknown s (max 1 (hits non_limit_patterns)) ''No limit-specific evidence was present.'')"

definition build_classification :: "classifier_env \<Rightarrow> classifier_input \<Rightarrow> normalized_signal \<Rightarrow> classification_match \<Rightarrow> limit_classification" where
  "build_classification env i s m =
     (let re = ce_redaction env;
          headers = map (\<lambda>(k, v). (k, export_text re v)) (filter (\<lambda>(k, _). regex_test safe_header_pattern k) (ns_headers s))
      in \<lparr>lc_type = cm_type m, lc_scope = cm_scope m, lc_confidence = cm_confidence m, lc_provider = ci_provider i,
           lc_harness = ci_harness i, lc_identity_profile_id = None, lc_session_id = None,
           lc_retry_after_seconds = map_option (\<lambda>n. Fin (of_int n)) (ns_retry_after_seconds s), lc_reset_at = ns_reset_at s,
           lc_raw_signal = \<lparr>rs_status_code = ci_status_code i, rs_exit_code = ci_exit_code i,
             rs_stderr_excerpt = truncate_text re (ci_stderr_text i),
             rs_stdout_excerpt = truncate_text re (or_opt (ci_body_text i) (ci_stdout_text i)),
             rs_headers = (if headers = [] then None else Some headers)\<rparr>,
           lc_routing_action = create_routing_action_for_limit_type (cm_type m) no_overrides, lc_notes = cm_notes m\<rparr>)"

definition classify_limit_signal :: "classifier_env \<Rightarrow> string \<Rightarrow> classifier_input \<Rightarrow> (thrown, limit_classification) result" where
  "classify_limit_signal env clock i =
     bindr (sanitize_signal env clock i) (\<lambda>s. Inr (build_classification env i s (match_base_classification s)))"

section \<open>Providers and harnesses\<close>

definition provider_aliases :: "(string \<times> string) list" where
  "provider_aliases = [(''anthropic'', ''anthropic-api''), (''anthropic-api'', ''anthropic-api''), (''generic'', ''generic-openai-compatible''),
     (''generic-openai-compatible'', ''generic-openai-compatible''), (''google'', ''google-api''), (''google-api'', ''google-api''),
     (''minimax'', ''minimax''), (''openai'', ''openai-api''), (''openai-api'', ''openai-api''), (''zai'', ''zai'')]"

definition provider_notes :: "(string \<times> string) list" where
  "provider_notes = [
     (''anthropic-api'', ''Provider-family hint: Anthropic reset and credit-balance signals stay provider scoped.''),
     (''generic-openai-compatible'', ''Provider-family hint: generic OpenAI-compatible providers reuse request-rate semantics.''),
     (''google-api'', ''Provider-family hint: Google quota metrics usually arrive as reset-bound RESOURCE_EXHAUSTED failures.''),
     (''minimax'', ''Provider-family hint: MiniMax failures often split balance problems from concurrency pressure.''),
     (''openai-api'', ''Provider-family hint: OpenAI-style RPM, TPM, and insufficient_quota language is expected.''),
     (''zai'', ''Provider-family hint: ZAI quota responses often carry explicit daily reset semantics.'')]"

definition harness_aliases :: "(string \<times> string) list" where
  "harness_aliases = [(''antigravity'', ''gemini-antigravity''), (''claude-code'', ''claude-code''), (''claude'', ''claude-code''),
     (''codex'', ''codex''), (''gemini-antigravity'', ''gemini-antigravity''), (''opencode'', ''opencode''), (''pi'', ''pi'')]"

definition harness_notes :: "(string \<times> string) list" where
  "harness_notes = [
     (''claude-code'', ''Harness hint: Claude Code limit signals should stay metadata only and reset aware.''),
     (''codex'', ''Harness hint: Codex CLI limit signals often mirror OpenAI RPM or TPM semantics.''),
     (''gemini-antigravity'', ''Harness hint: Gemini Antigravity emits acceleration pressure before hard caps.''),
     (''opencode'', ''Harness hint: OpenCode overloads should stay distinct from spend and quota failures.''),
     (''pi'', ''Harness hint: Pi harness pressure is usually concurrency or active-session bound.'')]"

text \<open>\<open>trim().toLowerCase().replace(/\s+/g, "-")\<close>.\<close>

definition family_slug :: "string \<Rightarrow> string" where
  "family_slug v = map (\<lambda>c. if js_space c then CHR ''-'' else c) (collapse_spaces (js_lower (js_trim v)))"

definition normalize_provider_family :: "string option \<Rightarrow> string option" where
  "normalize_provider_family v = (case v of None \<Rightarrow> None
     | Some t \<Rightarrow> if t = [] then None else Some (or_else (map_of provider_aliases (family_slug t)) (family_slug t)))"

definition with_family_note :: "limit_classification \<Rightarrow> string \<Rightarrow> limit_classification" where
  "with_family_note c note = c\<lparr>lc_confidence := boost_confidence (lc_confidence c) (5 / 100),
     lc_notes := dedupe_notes (map Some (or_else (lc_notes c) []) @ [Some note])\<rparr>"

definition classify_provider_signal :: "classifier_env \<Rightarrow> string \<Rightarrow> classifier_input \<Rightarrow> (thrown, limit_classification) result" where
  "classify_provider_signal env clock i =
     (let provider = normalize_provider_family (ci_provider i) in
      bindr (classify_limit_signal env clock (i\<lparr>ci_provider := provider\<rparr>)) (\<lambda>c.
        case provider of None \<Rightarrow> Inr c | Some p \<Rightarrow>
          if p = [] \<or> lc_type c = No_limit then Inr c
          else (case map_of provider_notes p of None \<Rightarrow> Inr c
            | Some note \<Rightarrow> Inr ((with_family_note c note)\<lparr>lc_provider := Some p\<rparr>))))"

text \<open>The aliases of harnesses are looked up without \<open>hasOwn\<close>: two slugs find a member of
  \<open>Object.prototype\<close> instead of a text. A classification with such a harness is not represented.\<close>

datatype harness_family = Harness_named string | Harness_inherited | Harness_none

definition inherited_names :: "string list" where
  "inherited_names = [''constructor'', ''__proto__'']"

definition normalize_harness_family :: "string option \<Rightarrow> harness_family" where
  "normalize_harness_family v = (case v of None \<Rightarrow> Harness_none
     | Some t \<Rightarrow> if t = [] then Harness_none
         else if family_slug t \<in> set inherited_names then Harness_inherited
         else Harness_named (or_else (map_of harness_aliases (family_slug t)) (family_slug t)))"

definition classify_harness_signal :: "classifier_env \<Rightarrow> string \<Rightarrow> classifier_input \<Rightarrow> (thrown, limit_classification) result option" where
  "classify_harness_signal env clock i = (case normalize_harness_family (ci_harness i) of
       Harness_inherited \<Rightarrow> None
     | Harness_none \<Rightarrow> Some (classify_limit_signal env clock (i\<lparr>ci_harness := None\<rparr>))
     | Harness_named h \<Rightarrow> Some (bindr (classify_limit_signal env clock (i\<lparr>ci_harness := Some h\<rparr>)) (\<lambda>c.
          if h = [] \<or> lc_type c = No_limit then Inr c
          else (case map_of harness_notes h of None \<Rightarrow> Inr c
            | Some note \<Rightarrow> Inr ((with_family_note c note)\<lparr>lc_harness := Some h\<rparr>)))))"

end
