(* ===== verification/RedactionProperties.thy ===== *)
theory RedactionProperties
  imports Redaction
begin

text \<open>What exporting and sanitising metadata guarantee.\<close>

section \<open>Paths\<close>

lemma split_on_ne [simp]: "split_on c s \<noteq> []"
  by (induction s) (auto split: list.split)

lemma split_on_free: "w \<in> set (split_on c s) \<Longrightarrow> c \<notin> set w"
proof (induction s arbitrary: w)
  case (Cons d s)
  obtain v vs where v: "split_on c s = v # vs" by (cases "split_on c s") auto
  show ?case
  proof (cases "d = c")
    case True
    then show ?thesis using Cons by auto
  next
    case False
    then have "w = d # v \<or> w \<in> set vs" using Cons.prems v by simp
    then show ?thesis using Cons.IH v False by auto
  qed
qed simp

lemma split_on_single: "c \<notin> set w \<Longrightarrow> split_on c w = [w]"
  by (induction w) auto

lemma split_on_append: "c \<notin> set w \<Longrightarrow> split_on c (w @ c # s) = w # split_on c s"
  by (induction w) auto

lemma split_on_join: "ws \<noteq> [] \<Longrightarrow> \<forall>w \<in> set ws. CHR ''/'' \<notin> set w \<Longrightarrow> split_on CHR ''/'' (join_with ''/'' ws) = ws"
  by (induction "''/''" ws rule: join_with.induct) (auto simp: split_on_single split_on_append)

lemma join_split: "join_with ''/'' (split_on CHR ''/'' s) = s"
proof (induction s)
  case (Cons d s)
  obtain w ws where w: "split_on CHR ''/'' s = w # ws" by (cases "split_on CHR ''/'' s") auto
  then show ?case using Cons.IH by (cases ws) auto
qed simp

lemma normal_segments_plain: "''..'' \<notin> set ss \<Longrightarrow> normal_segments relative acc ss = rev acc @ filter (\<lambda>s. s \<noteq> [] \<and> s \<noteq> ''.'') ss"
  by (induction relative acc ss rule: normal_segments.induct) auto

lemma join_Cons: "join_with ''/'' (w # ws) = w @ (if ws = [] then [] else CHR ''/'' # join_with ''/'' ws)"
  by (cases ws) auto

lemma length_join_filter: "ws \<noteq> [] \<Longrightarrow> length (join_with ''/'' (filter P ws)) \<le> length (join_with ''/'' ws)"
proof (induction ws)
  case (Cons w ws)
  then show ?case by (cases "filter P ws = []"; cases "ws = []") (auto simp: join_Cons)
qed simp

lemma split_on_snoc: "split_on c (s @ [c]) = split_on c s @ [[]]"
  by (induction s) (auto split: list.split)

lemma filter_nonempty_join: "\<forall>w \<in> set ws. w \<noteq> [] \<Longrightarrow> join_with ''/'' ws = [] \<longleftrightarrow> ws = []"
  by (cases ws) (auto simp: join_Cons)

text \<open>A relative path without \<open>..\<close> normalises to its segments without the empty ones and dots.\<close>

definition solid_segments :: "string \<Rightarrow> string list" where
  "solid_segments p = filter (\<lambda>s. s \<noteq> [] \<and> s \<noteq> ''.'') (split_on CHR ''/'' p)"

lemma normalize_plain:
  assumes "p \<noteq> []" "hd p \<noteq> CHR ''/''" "''..'' \<notin> set (split_on CHR ''/'' p)"
  shows "posix_normalize p = (if solid_segments p = [] then (if last p = CHR ''/'' then ''./'' else ''.'')
    else join_with ''/'' (solid_segments p) @ (if last p = CHR ''/'' then ''/'' else []))"
proof -
  have "join_with ''/'' (solid_segments p) = [] \<longleftrightarrow> solid_segments p = []"
    by (rule filter_nonempty_join) (simp add: solid_segments_def)
  then show ?thesis
    using assms normal_segments_plain [OF assms(3), of True "[]"] by (simp add: posix_normalize_def Let_def solid_segments_def)
qed

lemma normalized_safe:
  assumes p: "p \<noteq> []" "hd p \<noteq> CHR ''/''" "''..'' \<notin> set (split_on CHR ''/'' p)"
  shows "\<not> starts_with ''/'' (posix_normalize p)" "''..'' \<notin> set (split_on CHR ''/'' (posix_normalize p))"
    "length (posix_normalize p) \<le> length p"
proof -
  let ?ws = "solid_segments p"
  have ws: "\<forall>w \<in> set ?ws. CHR ''/'' \<notin> set w \<and> w \<noteq> [] \<and> w \<noteq> ''..''"
    using p(3) split_on_free by (auto simp: solid_segments_def)
  have split: "split_on CHR ''/'' (join_with ''/'' ?ws) = ?ws" if "?ws \<noteq> []" using split_on_join that ws by blast
  have hd: "\<not> starts_with ''/'' (join_with ''/'' ?ws @ t)" if ne: "?ws \<noteq> []" for t
  proof -
    obtain w ws' where w: "?ws = w # ws'" using ne by (cases ?ws) auto
    then have "w \<noteq> []" "CHR ''/'' \<notin> set w" using ws by auto
    then show ?thesis unfolding w by (cases w) (auto simp: join_Cons starts_with_def)
  qed
  show "\<not> starts_with ''/'' (posix_normalize p)"
    using hd by (auto simp: normalize_plain [OF p] starts_with_def)
  show "''..'' \<notin> set (split_on CHR ''/'' (posix_normalize p))"
    using ws split by (auto simp: normalize_plain [OF p] split_on_snoc)
  show "length (posix_normalize p) \<le> length p"
  proof (cases "last p = CHR ''/''")
    case True
    then obtain q where q: "p = q @ ''/''" using p(1) by (metis append_butlast_last_id)
    then have "q \<noteq> []" using p(2) by auto
    have "?ws = solid_segments q" using q by (simp add: solid_segments_def split_on_snoc)
    moreover have "length (join_with ''/'' (solid_segments q)) \<le> length q"
      using length_join_filter [of "split_on CHR ''/'' q"] by (simp add: solid_segments_def join_split)
    ultimately show ?thesis unfolding normalize_plain [OF p] using q \<open>q \<noteq> []\<close> by (auto simp: Suc_le_eq)
  next
    case False
    have "length (join_with ''/'' ?ws) \<le> length p"
      using length_join_filter [of "split_on CHR ''/'' p"] by (simp add: solid_segments_def join_split)
    then show ?thesis using False p(1) by (auto simp: normalize_plain [OF p] Suc_le_eq)
  qed
qed

lemma utf8_length_ge: "int (length s) \<le> utf8_length s"
  by (induction s) (auto simp: utf8_length_def)

lemma length_trim: "length (js_trim s) \<le> length s"
  unfolding js_trim_def by (metis length_dropWhile_le length_rev order_trans)

lemma sanitized_path:
  assumes "sanitize_metadata_path env p = Inr r"
  shows "\<not> is_absolute r \<and> ''..'' \<notin> set (split_on CHR ''/'' r) \<and> \<not> is_secret_like_path r \<and> int (length r) \<le> 280
    \<and> scan_metadata_leaks env full_scan (M_text (js_trim p)) = []"
proof -
  let ?q = "to_slashes (js_trim p)"
  have r: "r = posix_normalize ?q" "\<not> starts_with ''/'' ?q" "''..'' \<notin> set (split_on CHR ''/'' ?q)" "\<not> is_secret_like_path r"
    and t: "sanitize_metadata_text env p ''path'' default_metadata_text_max_bytes = Inr (js_trim p)"
    using assms by (auto simp: sanitize_metadata_path_def sanitize_metadata_text_def normalize_text_def res_simps Let_def)
  have s: "js_trim p \<noteq> []" "utf8_length p \<le> 280" "scan_metadata_leaks env full_scan (M_text (js_trim p)) = []"
    using t by (auto simp: sanitize_metadata_text_def normalize_text_def assert_max_bytes_def assert_metadata_safe_def res_simps
        default_metadata_text_max_bytes_def full_scan_def split: if_splits list.splits)
  have q: "?q \<noteq> []" "hd ?q \<noteq> CHR ''/''" using s(1) r(2) by (cases "js_trim p"; auto simp: to_slashes_def starts_with_def)+
  have "int (length ?q) \<le> 280" using s(2) utf8_length_ge [of p] length_trim [of p] by (simp add: to_slashes_def)
  then show ?thesis
    using normalized_safe [OF q r(3)] r(4) s(3) unfolding r(1) is_absolute_def by auto
qed

section \<open>Clean values\<close>

text \<open>A scan finds nothing, whatever the path it reports.\<close>

fun clean :: "redaction_env \<Rightarrow> nat \<Rightarrow> metadata \<Rightarrow> bool" where
  "clean env 0 v \<longleftrightarrow> False"
| "clean env (Suc n) v \<longleftrightarrow> (case v of
     M_number x \<Rightarrow> is_finite_num x
   | M_foreign \<Rightarrow> False
   | M_text t \<Rightarrow> text_leaks full_scan t = [] \<and> (case nested_value env t of None \<Rightarrow> True | Some w \<Rightarrow> clean env n w)
   | M_list xs \<Rightarrow> (\<forall>x. Some x \<in> set xs \<longrightarrow> x \<noteq> M_undefined \<and> clean env n x)
   | M_record r \<Rightarrow> \<not> provider_payload r \<and> (\<forall>(k, x) \<in> set r. field_leaks env [] 0 k x = [] \<and> clean env n x)
   | _ \<Rightarrow> True)"

lemma field_leaks_place: "field_leaks env path i k x = [] \<longleftrightarrow> field_leaks env path' i' k x = []"
  by (auto simp: field_leaks_def)

lemma ball_enumerate: "(\<forall>p \<in> set (enumerate 0 xs). P p) \<longleftrightarrow> (\<forall>i < length xs. P (i, xs ! i))"
  by (force simp: in_set_enumerate_eq)

lemma all_nth: "(\<forall>i < length xs. P (xs ! i)) \<longleftrightarrow> (\<forall>x \<in> set xs. P x)"
  by (simp add: all_set_conv_all_nth)

lemma visit_clean: "visit env full_scan n path v = [] \<longleftrightarrow> clean env n v"
proof (induction n arbitrary: path v)
  case (Suc n)
  have o: "\<not> sc_inert_only full_scan" by (simp add: full_scan_def)
  show ?case
  proof (cases v)
    case (M_text t)
    then show ?thesis using Suc o by (auto split: option.split)
  next
    case (M_list xs)
    have "visit env full_scan (Suc n) path v = [] \<longleftrightarrow> (\<forall>i < length xs. case xs ! i of None \<Rightarrow> True | Some y \<Rightarrow> y \<noteq> M_undefined \<and> clean env n y)"
      unfolding M_list using Suc o by (simp add: ball_enumerate split: option.split) blast
    also have "\<dots> \<longleftrightarrow> clean env (Suc n) v" unfolding M_list
      using all_nth [of xs "\<lambda>x. case x of None \<Rightarrow> True | Some y \<Rightarrow> y \<noteq> M_undefined \<and> clean env n y"]
      by (auto split: option.splits)
    finally show ?thesis .
  next
    case (M_record r)
    have f: "field_leaks env path i k x = [] \<longleftrightarrow> field_leaks env [] 0 k x = []" for i k x by (rule field_leaks_place)
    have "visit env full_scan (Suc n) path v = [] \<longleftrightarrow> \<not> provider_payload r
        \<and> (\<forall>i < length r. case r ! i of (k, x) \<Rightarrow> field_leaks env [] 0 k x = [] \<and> clean env n x)"
      unfolding M_record using Suc o by (simp add: ball_enumerate f split: prod.split)
    then show ?thesis unfolding M_record using all_nth [of r "\<lambda>(k, x). field_leaks env [] 0 k x = [] \<and> clean env n x"] by simp
  qed (use o in auto)
qed simp

lemma clean_mono: "clean env n v \<Longrightarrow> n \<le> m \<Longrightarrow> clean env m v"
proof (induction n arbitrary: m v)
  case (Suc n)
  obtain m' where m: "m = Suc m'" "n \<le> m'" using Suc.prems(2) by (cases m) auto
  show ?case using Suc.prems(1) Suc.IH [OF _ m(2)] unfolding m(1)
    by (cases v) (auto split: option.splits)
qed simp

lemma scan_clean: "scan_metadata_leaks env full_scan v = [] \<longleftrightarrow> clean env (Suc max_depth) v"
  unfolding scan_metadata_leaks_def by (rule visit_clean)

section \<open>Exports\<close>

text \<open>What an exported text is: masked, a hash, or a text in which a scan finds nothing, with the
  absolute paths in it replaced.\<close>

definition exported_text :: "redaction_env \<Rightarrow> string \<Rightarrow> bool" where
  "exported_text env t \<longleftrightarrow> t = ''[redacted]'' \<or> already_opaque t \<or> (\<exists>p. t = opaque_hash env p)
     \<or> (\<exists>u. scan_metadata_leaks env full_scan (M_text u) = [] \<and> \<not> is_secret_like_path (to_slashes u) \<and> t = export_paths env True u)"

text \<open>The masked content of a sensitive field.\<close>

definition masked :: "metadata \<Rightarrow> bool" where
  "masked v \<longleftrightarrow> v = M_text ''[redacted]'' \<or> (\<exists>r. v = M_record r \<and> map_of r ''value'' = Some (M_text ''[redacted]'')
     \<and> fst ` set r \<subseteq> {''schema'', ''value'', ''reason'', ''updatedAt''})"

fun exported :: "redaction_env \<Rightarrow> metadata \<Rightarrow> bool" where
  "exported env v \<longleftrightarrow> (case v of
     M_number x \<Rightarrow> is_finite_num x
   | M_foreign \<Rightarrow> False
   | M_text t \<Rightarrow> exported_text env t
   | M_list xs \<Rightarrow> (\<forall>x. Some x \<in> set xs \<longrightarrow> x \<noteq> M_undefined \<and> exported env x)
   | M_record r \<Rightarrow> (\<forall>(k, x) \<in> set r. \<not> secret_name k \<and> (sensitive_field k x \<longrightarrow> masked x)) \<and>
       ((\<exists>reason. v = redact_config_value reason None) \<or> (\<forall>(k, x) \<in> set r. exported env x))
   | _ \<Rightarrow> True)"

declare exported.simps [simp del]

lemma export_text_exported: "exported_text env (export_text env t)"
  by (auto simp: exported_text_def export_text_def)

lemma path_head_slash: "path_head s \<Longrightarrow> CHR ''/'' \<in> set s"
  by (auto simp: path_head_def split: list.splits)

lemma export_paths_plain: "CHR ''/'' \<notin> set s \<Longrightarrow> export_paths env b s = s"
proof (induction s arbitrary: b)
  case (Cons c s)
  have "\<not> path_head (c # s)" "\<not> path_head s" using Cons.prems path_head_slash by force+
  then show ?case using Cons by simp
qed simp

lemma export_masked_text: "export_text env ''[redacted]'' = ''[redacted]''"
proof -
  have "\<not> is_secret_like_path (to_slashes ''[redacted]'')" "\<not> is_absolute ''[redacted]''" "\<not> drive_path any_slash ''[redacted]''" by code_simp+
  then show ?thesis using export_paths_plain [of "''[redacted]''" env True] by (simp add: export_text_def)
qed

lemma placeholder_names: "k \<in> {''schema'', ''value'', ''reason'', ''updatedAt''} \<Longrightarrow> \<not> secret_name k \<and> \<not> sensitive_field k x"
proof -
  have s: "\<not> secret_name ''schema''" "\<not> secret_name ''value''" "\<not> secret_name ''reason''" "\<not> secret_name ''updatedAt''" by code_simp+
  have n: "plain_name ''schema'' = ''schema''" "plain_name ''value'' = ''value''" "plain_name ''reason'' = ''reason''"
    "plain_name ''updatedAt'' = ''updatedat''" by code_simp+
  have e: "list_all (\<lambda>k. k \<notin> set sensitive_words \<and> list_all (\<lambda>e. \<not> ends_with e k) sensitive_endings) [''schema'', ''value'', ''reason'', ''updatedat'']"
    by code_simp
  assume "k \<in> {''schema'', ''value'', ''reason'', ''updatedAt''}"
  then show ?thesis using s e by (auto simp: sensitive_field_def Let_def n list_all_iff)
qed

lemma config_value_exported: "exported env (redact_config_value reason None)"
  using placeholder_names by (subst exported.simps) (auto simp: redact_config_value_def split: prod.splits)

lemma config_value_masked: "masked (redact_config_value reason None)"
  by (simp add: masked_def redact_config_value_def)

lemma placeholder_payload:
  assumes "fst ` set r \<subseteq> {''schema'', ''value'', ''reason'', ''updatedAt''}"
  shows "\<not> provider_payload r"
proof -
  have "k \<notin> fst ` set r" if "k \<in> {''choices'', ''messages'', ''candidates'', ''anthropic_version'', ''providerPayload''}" for k
    using assms that by auto
  then have "map_of r k = None" if "k \<in> {''choices'', ''messages'', ''candidates'', ''anthropic_version'', ''providerPayload''}" for k
    using that by (simp add: map_of_eq_None_iff)
  then show ?thesis by (simp add: provider_payload_def list_with_def)
qed

lemma project_placeholder:
  assumes "redacted_config_placeholder env x"
  shows "masked (project env False n x)"
proof -
  obtain r where r: "x = M_record r" "\<forall>(k, _) \<in> set r. k \<in> {''schema'', ''value'', ''reason'', ''updatedAt''}"
    "map_of r ''value'' = Some (M_text ''[redacted]'')"
    using assms by (auto simp: redacted_config_placeholder_def split: metadata.splits)
  have keys: "fst ` set r \<subseteq> {''schema'', ''value'', ''reason'', ''updatedAt''}" using r(2) by auto
  show ?thesis
  proof (cases n)
    case 0 then show ?thesis by (simp add: masked_def)
  next
    case (Suc room)
    let ?f = "\<lambda>(k, x). (k, if sensitive_field k x \<and> \<not> redacted_config_placeholder env x then redact_config_value ''metadata_export'' None
       else if environment_record k x then redact_config_value ''environment_export'' None else project env False room x)"
    have p: "project env False n x = M_record (map ?f (filter kept_field r))"
      using Suc r(1) placeholder_payload [OF keys] by simp
    have "map_of (map ?f (filter kept_field r)) ''value'' = Some (M_text ''[redacted]'')"
      using r(3) keys
    proof (induction r)
      case (Cons f r)
      obtain k y where f: "f = (k, y)" by (cases f)
      have k: "k \<in> {''schema'', ''value'', ''reason'', ''updatedAt''}" using Cons.prems(2) f by auto
      show ?case
      proof (cases "k = ''value''")
        case True
        then have y: "y = M_text ''[redacted]''" using Cons.prems(1) f by simp
        have "project env False room y = M_text ''[redacted]''" unfolding y by (cases room) (simp_all add: export_masked_text)
        moreover have "kept_field f" using placeholder_names [OF k] f y by (simp add: kept_field_def)
        ultimately show ?thesis using True f placeholder_names [OF k, of y] by (simp add: environment_record_def)
      next
        case False
        then show ?thesis using Cons f by (cases "kept_field f") auto
      qed
    qed simp
    then show ?thesis unfolding p masked_def using keys by (auto split: prod.splits)
  qed
qed

lemma sensitive_field_shape: "sensitive_field k y \<Longrightarrow> \<not> sensitive_field k x \<Longrightarrow> \<exists>b. x = M_bool b"
  by (auto simp: sensitive_field_def Let_def split: metadata.splits)

lemma project_exported: "exported env (project env False n v)"
proof (induction n arbitrary: v)
  case 0
  then show ?case by (simp add: exported.simps exported_text_def)
next
  case (Suc n)
  show ?case
  proof (cases v)
    case (M_text t)
    then show ?thesis using export_text_exported by (simp add: exported.simps)
  next
    case (M_list xs)
    have "exported env M_null" by (simp add: exported.simps)
    moreover have "M_undefined \<noteq> project env False n x" if "x \<noteq> M_undefined" for x
      using that by (cases n; cases x) (simp_all add: redact_config_value_def)
    ultimately show ?thesis unfolding M_list using Suc by (subst exported.simps) (auto simp: map_option_case split: if_splits option.splits)
  next
    case (M_record r)
    show ?thesis
    proof (cases "provider_payload r")
      case True
      then show ?thesis using M_record config_value_exported by simp
    next
      case False
      let ?g = "\<lambda>k x. if sensitive_field k x \<and> \<not> redacted_config_placeholder env x then redact_config_value ''metadata_export'' None
        else if environment_record k x then redact_config_value ''environment_export'' None else project env False n x"
      have p: "project env False (Suc n) v = M_record (map (\<lambda>(k, x). (k, ?g k x)) (filter kept_field r))"
        using M_record False by simp
      have e: "exported env (?g k x)" for k x using Suc config_value_exported by simp
      have m: "masked (?g k x)" if s: "sensitive_field k (?g k x)" for k x
      proof (cases "sensitive_field k x")
        case True
        then show ?thesis using project_placeholder config_value_masked by (cases "environment_record k x") auto
      next
        case False
        obtain b where b: "x = M_bool b" using sensitive_field_shape [OF s False] by blast
        then have "?g k x = (case n of 0 \<Rightarrow> M_text ''[redacted]'' | _ \<Rightarrow> M_bool b)"
          using False by (cases n) (simp_all add: environment_record_def)
        then show ?thesis using s False b by (cases n) (auto simp: masked_def)
      qed
      show ?thesis unfolding p using e m by (subst exported.simps) (auto simp: kept_field_def)
    qed
  qed (simp_all add: exported.simps exported_text_def)
qed

section \<open>Nothing else is lost\<close>

fun embedded_path :: "string \<Rightarrow> bool" where
  "embedded_path [] \<longleftrightarrow> False"
| "embedded_path (c # s) \<longleftrightarrow> (quote_or_space c \<and> path_head s) \<or> embedded_path s"

definition plain_text :: "string \<Rightarrow> bool" where
  "plain_text t \<longleftrightarrow> \<not> is_secret_like_path (to_slashes t) \<and> \<not> is_absolute t \<and> \<not> drive_path any_slash t \<and> \<not> embedded_path t"

text \<open>No path that is hidden, nothing undefined, and no record of an environment.\<close>

fun plain_value :: "metadata \<Rightarrow> bool" where
  "plain_value v \<longleftrightarrow> (case v of
     M_text t \<Rightarrow> plain_text t
   | M_list xs \<Rightarrow> (\<forall>x. Some x \<in> set xs \<longrightarrow> plain_value x)
   | M_record r \<Rightarrow> (\<forall>(k, x) \<in> set r. x \<noteq> M_undefined \<and> \<not> environment_record k x \<and> plain_value x)
   | _ \<Rightarrow> True)"

declare plain_value.simps [simp del]

lemma export_paths_later: "\<not> embedded_path s \<Longrightarrow> export_paths env False s = s"
  by (induction s) auto

lemma export_paths_none: "\<not> embedded_path s \<Longrightarrow> \<not> is_absolute s \<Longrightarrow> export_paths env True s = s"
proof (cases s)
  case (Cons c t)
  assume "\<not> embedded_path s" "\<not> is_absolute s"
  moreover from this have "c \<noteq> CHR ''/''" using Cons by (simp add: is_absolute_def starts_with_def)
  then have "\<not> path_head (c # t)" by (cases t) (simp_all add: path_head_def)
  ultimately show ?thesis using Cons by (auto simp: export_paths_later)
qed simp

lemma project_clean:
  "clean env n v \<Longrightarrow> n \<le> Suc max_depth \<Longrightarrow> plain_value v \<Longrightarrow> project env False n v = v"
proof (induction n arbitrary: v)
  case (Suc n)
  show ?case
  proof (cases v)
    case (M_text t)
    have "scan_metadata_leaks env full_scan (M_text t) = []"
      using clean_mono [OF Suc.prems(1,2)] M_text by (simp add: scan_clean)
    then show ?thesis using Suc.prems(3) M_text
      by (simp add: plain_value.simps plain_text_def export_text_def export_paths_none)
  next
    case (M_list xs)
    have "map_option (\<lambda>x. if x = M_undefined then M_null else project env False n x) y = y" if "y \<in> set xs" for y
    proof (cases y)
      case (Some x)
      then have "x \<noteq> M_undefined" "clean env n x" "plain_value x"
        using Suc.prems(1,3) M_list that by (auto simp: plain_value.simps [of "M_list xs"])
      then show ?thesis using Suc.IH Suc.prems(2) Some by simp
    qed simp
    then show ?thesis unfolding M_list by (simp add: map_idI)
  next
    case (M_record r)
    have np: "\<not> provider_payload r" using Suc.prems(1) M_record by simp
    have f: "kept_field (k, x) \<and> \<not> (sensitive_field k x \<and> \<not> redacted_config_placeholder env x) \<and> \<not> environment_record k x
        \<and> project env False n x = x" if "(k, x) \<in> set r" for k x
    proof -
      have "field_leaks env [] 0 k x = []" "clean env n x" "x \<noteq> M_undefined" "\<not> environment_record k x" "plain_value x"
        using Suc.prems(1,3) M_record that by (auto simp: plain_value.simps [of "M_record r"])
      then show ?thesis using Suc.IH Suc.prems(2) by (auto simp: field_leaks_def kept_field_def split: if_splits)
    qed
    have "filter kept_field r = r" using f by (auto simp: filter_id_conv)
    moreover have "map (\<lambda>(k, x). (k, if sensitive_field k x \<and> \<not> redacted_config_placeholder env x then redact_config_value ''metadata_export'' None
        else if environment_record k x then redact_config_value ''environment_export'' None else project env False n x)) r = r"
      using f by (intro map_idI) auto
    ultimately show ?thesis using np unfolding M_record by simp
  qed (use Suc in auto)
qed simp

section \<open>The properties\<close>

definition demo_rules_env :: redaction_env where
  "demo_rules_env = \<lparr>re_parse = (\<lambda>_. None), re_datetime = (\<lambda>_. True), re_sha256 = (\<lambda>_. ''00'')\<rparr>"

text \<open>An export can fail the scan it serves: masking a number makes the field an environment dump.\<close>

lemma export_makes_dump:
  "scan_metadata_leaks demo_rules_env full_scan (project_metadata_export demo_rules_env False
     (M_record [(''env'', M_record [(''A'', M_number NaN), (''B'', M_text ''x'')])])) \<noteq> []"
  by code_simp

text \<open>A path can be accepted and returned in a form the scan refuses.\<close>

lemma sanitized_path_leaks:
  "sanitize_metadata_path demo_rules_env ''a/home//bob'' = Inr ''a/home/bob'' \<and>
   scan_metadata_leaks demo_rules_env full_scan (M_text ''a/home/bob'') = [(''$'', Secret_leak Home_path)]"
  by code_simp

text \<open>C7: An export of any value holds no finding of the scanner but the masked ones: every text is
  masked, a hash, or comes from a text in which the scanner finds nothing; no name of a field matches a
  secret; every sensitive field is masked; and no number is infinite. And nothing else is lost: a value
  in which the scanner finds nothing, with no path to hide, is exported unchanged.\<close>

theorem export_exact:
  "exported env (project_metadata_export env False v) \<and>
    (scan_metadata_leaks env full_scan v = [] \<longrightarrow> plain_value v \<longrightarrow> project_metadata_export env False v = v)"
  using project_exported [of env "Suc max_depth" v] project_clean [of env "Suc max_depth" v]
  unfolding project_metadata_export_def scan_clean by simp

theorem export_exact_witness:
  "project_metadata_export demo_rules_env False (M_record [(''note'', M_text ''ready'')]) = M_record [(''note'', M_text ''ready'')]"
proof -
  have "scan_metadata_leaks demo_rules_env full_scan (M_record [(''note'', M_text ''ready'')]) = []" by code_simp
  moreover have "plain_text ''ready''" by code_simp
  then have "plain_value (M_record [(''note'', M_text ''ready'')])" by (simp add: plain_value.simps environment_record_def)
  ultimately show ?thesis using export_exact by blast
qed

text \<open>A path the sanitiser accepts is relative, has no segment \<open>..\<close>, is none of the secret-bearing
  locations, has at most 280 characters, and the scanner finds nothing in the text it came from.\<close>

theorem sanitized_path_safe:
  assumes "sanitize_metadata_path env p = Inr r"
  shows "\<not> is_absolute r \<and> ''..'' \<notin> set (split_on CHR ''/'' r) \<and> \<not> is_secret_like_path r \<and> int (length r) \<le> 280
    \<and> scan_metadata_leaks env full_scan (M_text (js_trim p)) = []"
  by (rule sanitized_path [OF assms])

theorem sanitized_path_safe_witness: "\<not> is_secret_like_path ''src/a.ts''"
proof -
  have "sanitize_metadata_path demo_rules_env ''src//./a.ts'' = Inr ''src/a.ts''" by code_simp
  from sanitized_path_safe [OF this] show ?thesis by blast
qed

end
