(* ===== verification/LimitProperties.thy ===== *)
theory LimitProperties
  imports LimitRules RedactionProperties
begin

text \<open>What a classification of a limit signal guarantees, with the guardrails that act on it.\<close>

section \<open>Bounds\<close>

definition confidence_value :: "rat \<Rightarrow> bool" where
  "confidence_value q \<longleftrightarrow> (\<exists>k \<in> {0..99 :: int}. q = fl (of_int k / 100))"

lemma clamp_confidence_value: "confidence_value (clamp_confidence v)"
proof -
  let ?x = "min (fl (99 / 100)) (max 0 v)"
  have "to_fixed2 (fl (99 / 100)) = 99" by code_simp
  moreover have "to_fixed2 ?x \<le> to_fixed2 (fl (99 / 100))" unfolding to_fixed2_def by (intro floor_mono add_right_mono mult_left_mono) simp_all
  moreover have "0 \<le> fl (99 / 100)" by code_simp
  then have "0 \<le> to_fixed2 ?x" unfolding to_fixed2_def by (simp add: min_def)
  ultimately show ?thesis unfolding confidence_value_def clamp_confidence_def round2_def by (intro bexI [of _ "to_fixed2 ?x"]) auto
qed

definition retry_after_value :: "jsnum option \<Rightarrow> bool" where
  "retry_after_value r \<longleftrightarrow> (case r of None \<Rightarrow> True | Some x \<Rightarrow> \<exists>n \<in> {0..300 :: int}. x = Fin (of_int n))"

lemma retry_after_bounds: "parse_retry_after_value env v now = Some n \<Longrightarrow> 0 \<le> n \<and> n \<le> 300"
  using int_of_digits_nonneg [of v]
  by (auto simp: parse_retry_after_value_def digits_text_def split: if_splits)

lemma signal_retry_bounds: "sanitize_signal env clock i = Inr s \<Longrightarrow> ns_retry_after_seconds s = Some n \<Longrightarrow> 0 \<le> n \<and> n \<le> 300"
  using retry_after_bounds
  by (fastforce simp: sanitize_signal_def Let_def parse_retry_after_from_text_def bind_eq_Some_conv split: option.splits)

definition reset_value :: "string option \<Rightarrow> bool" where
  "reset_value r \<longleftrightarrow> (case r of None \<Rightarrow> True | Some t \<Rightarrow> \<exists>ms. date_to_iso (Some ms) = Some t)"

lemma date_to_iso_value: "date_to_iso d = Some t \<Longrightarrow> \<exists>ms. date_to_iso (Some ms) = Some t"
  by (cases d) (auto simp: date_to_iso_def)

lemma reset_value_parsed: "reset_value (parse_reset_value env v)"
  using date_to_iso_value by (auto simp: reset_value_def parse_reset_value_def Let_def split: option.split)

lemma reset_value_or: "reset_value a \<Longrightarrow> reset_value b \<Longrightarrow> reset_value (or_opt a b)"
  by (cases a) simp_all

lemma reset_from_headers_value: "reset_value (reset_from_headers env hs)"
  by (induction env hs rule: reset_from_headers.induct)
    (auto simp: reset_value_or reset_value_parsed, simp add: reset_value_def)

lemma signal_reset: "sanitize_signal env clock i = Inr s \<Longrightarrow> reset_value (ns_reset_at s)"
proof -
  assume a: "sanitize_signal env clock i = Inr s"
  obtain t where r: "ns_reset_at s = or_opt (parse_reset_from_text env t) (reset_from_headers env (ns_headers s))"
    using a by (auto simp: sanitize_signal_def Let_def split: option.splits)
  have "reset_value (parse_reset_from_text env t)"
    using reset_value_parsed [of env] by (cases "first_match reset_text_here t") (auto simp: parse_reset_from_text_def reset_value_def)
  then show ?thesis unfolding r using reset_value_or reset_from_headers_value by blast
qed

definition excerpt :: "string option \<Rightarrow> bool" where
  "excerpt x \<longleftrightarrow> (case x of None \<Rightarrow> True | Some t \<Rightarrow> t \<noteq> [] \<and> length t \<le> 160)"

lemma truncate_text_excerpt: "excerpt (truncate_text re v)"
  by (auto simp: excerpt_def truncate_text_def Let_def split: option.splits)

definition safe_headers :: "redaction_env \<Rightarrow> string obj option \<Rightarrow> bool" where
  "safe_headers re hs \<longleftrightarrow> (case hs of None \<Rightarrow> True
     | Some r \<Rightarrow> r \<noteq> [] \<and> (\<forall>(k, v) \<in> set r. regex_test safe_header_pattern k \<and> exported_text re v))"

definition bounded_classification :: "redaction_env \<Rightarrow> limit_classification \<Rightarrow> bool" where
  "bounded_classification re c \<longleftrightarrow> confidence_value (lc_confidence c) \<and> retry_after_value (lc_retry_after_seconds c)
     \<and> reset_value (lc_reset_at c) \<and> excerpt (rs_stderr_excerpt (lc_raw_signal c)) \<and> excerpt (rs_stdout_excerpt (lc_raw_signal c))
     \<and> safe_headers re (rs_headers (lc_raw_signal c))"

lemma match_confidence: "confidence_value (cm_confidence (match_base_classification s))"
  by (simp add: match_base_classification_def Let_def create_match_def clamp_confidence_value)

lemma classified:
  assumes "classify_limit_signal env clock i = Inr c"
  obtains s where "sanitize_signal env clock i = Inr s" "c = build_classification env i s (match_base_classification s)"
  using assms by (auto simp: classify_limit_signal_def res_simps)

lemma classify_bounded: "classify_limit_signal env clock i = Inr c \<Longrightarrow> bounded_classification (ce_redaction env) c"
proof (erule classified)
  fix s assume s: "sanitize_signal env clock i = Inr s" "c = build_classification env i s (match_base_classification s)"
  have "retry_after_value (lc_retry_after_seconds c)"
    using signal_retry_bounds [OF s(1)] unfolding s(2) by (auto simp: retry_after_value_def build_classification_def Let_def split: option.split)
  moreover have "safe_headers (ce_redaction env) (rs_headers (lc_raw_signal c))"
    unfolding s(2) using export_text_exported by (auto simp: safe_headers_def build_classification_def Let_def)
  ultimately show ?thesis
    using match_confidence [of s] signal_reset [OF s(1)] truncate_text_excerpt unfolding s(2)
    by (simp add: bounded_classification_def build_classification_def Let_def)
qed

lemma family_note_bounded: "bounded_classification re c \<Longrightarrow> bounded_classification re (with_family_note c n)"
  by (simp add: bounded_classification_def with_family_note_def boost_confidence_def clamp_confidence_value)

lemma bounded_fields [simp]:
  "bounded_classification re (c\<lparr>lc_provider := p\<rparr>) = bounded_classification re c"
  "bounded_classification re (c\<lparr>lc_harness := p\<rparr>) = bounded_classification re c"
  by (simp_all add: bounded_classification_def)

lemma provider_bounded: "classify_provider_signal env clock i = Inr c \<Longrightarrow> bounded_classification (ce_redaction env) c"
  using classify_bounded family_note_bounded
  by (fastforce simp: classify_provider_signal_def Let_def res_simps split: option.splits if_splits)

lemma harness_bounded: "classify_harness_signal env clock i = Some (Inr c) \<Longrightarrow> bounded_classification (ce_redaction env) c"
  using classify_bounded family_note_bounded
  by (fastforce simp: classify_harness_signal_def Let_def res_simps split: option.splits if_splits harness_family.splits)

section \<open>Retries\<close>

definition retryable_types :: "limit_type set" where
  "retryable_types = {Burst_rate_limit, Token_rate_limit, Concurrency_cap, Acceleration_limit, Overload_or_transient}"

lemma guardrail_types: "gd_allow_retry (guardrail_outcome c n m) \<Longrightarrow> 0 \<le> n \<Longrightarrow> lc_type c \<in> retryable_types"
  using guardrail_outcome_allows [of c n m]
  by (cases "lc_type c") (auto simp: retryable_types_def hard_stop_types_def or_else_def)

text \<open>What the text and the status of a retryable signal cannot be.\<close>

definition retryable_signal :: "normalized_signal \<Rightarrow> bool" where
  "retryable_signal s \<longleftrightarrow> (let t = ns_combined_text s; status = ns_status_code s; transient = (status \<in> {Some 503, Some 529}
        \<or> (\<exists>r \<in> set (overload_patterns @ concurrency_patterns @ acceleration_patterns). regex_test r t)) in
     (\<forall>r \<in> set policy_patterns. \<not> regex_test r t) \<and> status \<notin> {Some 401, Some 402}
     \<and> (status \<in> {None, Some 403} \<longrightarrow> (\<forall>r \<in> set (explicit_auth_patterns @ billing_problem_patterns). \<not> regex_test r t))
     \<and> (transient \<or> (\<forall>r \<in> set (monthly_patterns @ fixed_window_patterns). \<not> regex_test r t)))"

lemma hits_pos: "0 < count_pattern_hits t rs \<longleftrightarrow> (\<exists>r \<in> set rs. regex_test r t)"
  by (auto simp: count_pattern_hits_def filter_empty_conv)

lemma hits_nonneg: "0 \<le> count_pattern_hits t rs"
  by (simp add: count_pattern_hits_def)

lemma create_match_type [simp]: "cm_type (create_match ty sc s h n) = ty"
  by (simp add: create_match_def Let_def)

lemma retryable_match:
  assumes "cm_type (match_base_classification s) \<in> retryable_types"
  shows "retryable_signal s"
proof -
  let ?h = "count_pattern_hits (ns_combined_text s)"
  have sum: "0 < ?h explicit_auth_patterns + ?h billing_problem_patterns \<longleftrightarrow> 0 < ?h explicit_auth_patterns \<or> 0 < ?h billing_problem_patterns"
    using hits_nonneg [of "ns_combined_text s"] by (smt (verit))
  have "\<not> 0 < ?h policy_patterns \<and> ns_status_code s \<notin> {Some 401, Some 402}
     \<and> (ns_status_code s \<in> {None, Some 403} \<longrightarrow> \<not> 0 < ?h explicit_auth_patterns + ?h billing_problem_patterns)
     \<and> (ns_status_code s \<in> {Some 503, Some 529} \<or> 0 < ?h overload_patterns \<or> 0 < ?h concurrency_patterns \<or> 0 < ?h acceleration_patterns
       \<or> (\<not> 0 < ?h monthly_patterns \<and> \<not> 0 < ?h fixed_window_patterns))"
    using assms unfolding match_base_classification_def Let_def retryable_types_def
    by (auto split: if_splits)
  then show ?thesis unfolding retryable_signal_def Let_def sum unfolding hits_pos by auto
qed

lemma action_switch: "ra_same_provider_account_switch (routing_action_matrix ty) \<noteq> Switch_allowed_by_policy"
  by (cases ty) simp_all

lemma guardrails_keep_switch:
  "ra_same_provider_account_switch (lc_routing_action (gd_classification (guardrail_outcome c n m)))
    = ra_same_provider_account_switch (lc_routing_action c)"
  by (simp add: guardrail_outcome_def Let_def with_guardrail_update_def override_action_def no_overrides_def or_else_def)

lemma signal_retry_safe:
  assumes c: "classify_limit_signal env clock i = Inr c" and g: "apply_retry_guardrails c attempts max_attempts = Inr d"
  shows "ra_same_provider_account_switch (lc_routing_action (gd_classification d)) \<noteq> Switch_allowed_by_policy
    \<and> (gd_allow_retry d \<longrightarrow> (\<exists>s. sanitize_signal env clock i = Inr s \<and> retryable_signal s))"
proof -
  obtain s where s: "sanitize_signal env clock i = Inr s" "c = build_classification env i s (match_base_classification s)"
    using classified [OF c] by blast
  obtain n m where d: "safe_count attempts = Some n" "d = guardrail_outcome c n m" using g by (auto simp: res_simps)
  have t: "lc_type c = cm_type (match_base_classification s)" "lc_routing_action c = routing_action_matrix (cm_type (match_base_classification s))"
    unfolding s(2) by (simp_all add: build_classification_def Let_def create_routing_action_for_limit_type_def)
  have "gd_allow_retry d \<Longrightarrow> retryable_signal s"
    using guardrail_types [of c n m] retryable_match [of s] d safe_count_SomeD [OF d(1)] t(1) by simp
  then show ?thesis using s(1) action_switch guardrails_keep_switch [of c n m] d(2) t(2) by auto
qed

section \<open>The properties\<close>

definition demo_signal :: classifier_input where
  "demo_signal = \<lparr>ci_provider = Some ''OpenAI'', ci_harness = None, ci_status_code = Some 429, ci_exit_code = None,
     ci_body_text = None, ci_stderr_text = None, ci_stdout_text = None, ci_headers = Some [(''Retry-After'', H_text '' 20'')],
     ci_now = None\<rparr>"

definition demo_classifier :: classifier_env where
  "demo_classifier = \<lparr>ce_redaction = demo_rules_env, ce_date_parse = (\<lambda>_. Some 0)\<rparr>"

definition demo_normal :: normalized_signal where
  "demo_normal = \<lparr>ns_provider = Some ''OpenAI'', ns_harness = None, ns_status_code = Some 429, ns_combined_text = [],
     ns_headers = [(''retry-after'', ''20'')], ns_retry_after_seconds = Some 20, ns_reset_at = None\<rparr>"

lemma demo_sanitized: "sanitize_signal demo_classifier ''now'' demo_signal = Inr demo_normal"
  by code_simp

lemma demo_no_hits: "list_all (\<lambda>rs. count_pattern_hits [] rs = 0) [policy_patterns, explicit_auth_patterns, billing_problem_patterns,
    overload_patterns, concurrency_patterns, acceleration_patterns, monthly_patterns, fixed_window_patterns, token_patterns]"
  by code_simp

definition demo_limit :: limit_classification where
  "demo_limit = build_classification demo_classifier demo_signal demo_normal (match_base_classification demo_normal)"

lemma demo_classified: "classify_limit_signal demo_classifier ''now'' demo_signal = Inr demo_limit"
  by (simp add: classify_limit_signal_def demo_sanitized demo_limit_def)

lemma demo_limit_facts: "lc_type demo_limit = Burst_rate_limit" "lc_routing_action demo_limit = routing_action_matrix Burst_rate_limit"
proof -
  have "cm_type (match_base_classification demo_normal) = Burst_rate_limit"
    using demo_no_hits by (simp add: match_base_classification_def Let_def demo_normal_def quota_reset_evidence_def)
  then show "lc_type demo_limit = Burst_rate_limit" "lc_routing_action demo_limit = routing_action_matrix Burst_rate_limit"
    by (simp_all add: demo_limit_def build_classification_def Let_def create_routing_action_for_limit_type_def)
qed

text \<open>C33: A classification is bounded, through every entry: the confidence is a two-digit decimal below 1,
  a delay lies between 0 and 300 seconds, a reset is an ISO date, an excerpt has at most 160 characters, and
  only rate-limit headers are kept, with exported values.\<close>

theorem classification_bounds:
  "(classify_limit_signal env clock i = Inr c \<longrightarrow> bounded_classification (ce_redaction env) c) \<and>
   (classify_provider_signal env clock i = Inr c \<longrightarrow> bounded_classification (ce_redaction env) c) \<and>
   (classify_harness_signal env clock i = Some (Inr c) \<longrightarrow> bounded_classification (ce_redaction env) c)"
  by (intro conjI impI classify_bounded provider_bounded harness_bounded)

theorem classification_bounds_witness: "bounded_classification demo_rules_env demo_limit"
proof -
  have "ce_redaction demo_classifier = demo_rules_env" by (simp add: demo_classifier_def)
  then show ?thesis using classification_bounds [of demo_classifier "''now''" demo_signal demo_limit] demo_classified by simp
qed

text \<open>C25: From a raw signal to a retry: whatever the counts, the guardrails let a signal be retried only
  when its text has no policy language and its status is neither 401 nor 402; auth or billing language is
  excluded when there is no status or the status is 403 (with any other status such words do not stop a
  retry); and a quota or spending cap is named only beside a transient limit, which is a status 503 or 529 or
  the words of an overload, a concurrency or an acceleration limit. And no classification lets an account be
  switched by policy.\<close>

theorem classified_retry_safe:
  assumes "classify_limit_signal env clock i = Inr c" "apply_retry_guardrails c attempts max_attempts = Inr d"
  shows "ra_same_provider_account_switch (lc_routing_action (gd_classification d)) \<noteq> Switch_allowed_by_policy
    \<and> (gd_allow_retry d \<longrightarrow> (\<exists>s. sanitize_signal env clock i = Inr s \<and> retryable_signal s))"
  by (rule signal_retry_safe [OF assms])

theorem classified_retry_safe_witness: "\<exists>s. sanitize_signal demo_classifier ''now'' demo_signal = Inr s \<and> retryable_signal s"
proof -
  obtain d where d: "apply_retry_guardrails demo_limit (Fin 0) None = Inr d" "gd_allow_retry d"
  proof -
    have a: "ra_retry_same_session (lc_routing_action demo_limit)" by (simp add: demo_limit_facts(2))
    have "apply_retry_guardrails demo_limit (Fin 0) None = Inr (guardrail_outcome demo_limit 0 None)"
      using safe_count_of_int [of 0] by (auto simp: res_simps or_else_def max_safe_def)
    moreover have "gd_allow_retry (guardrail_outcome demo_limit 0 None)"
      unfolding guardrail_outcome_allows using a demo_limit_facts(1) by (simp add: hard_stop_types_def or_else_def)
    ultimately show ?thesis using that by blast
  qed
  show ?thesis using classified_retry_safe [OF demo_classified d(1)] d(2) by blast
qed

end
