(* ===== verification/SseStream.thy ===== *)
theory SseStream
  imports EventMapper JsDate "HOL-Library.AList"
begin

text \<open>
  The stream of server-sent events (\<open>omnigent-transport/src/sse-stream.ts\<close>): how text is cut into frames,
  which payloads are skipped, and the class \<open>OmnigentSseNormalizer\<close>, which decides to which turn an event
  belongs. Operations of the class are functions on the record \<open>sse_normalizer\<close>; a \<open>Map\<close> is an association
  list. \<open>normalize\<close> may throw after it has changed the object, so it returns the object in every case.
\<close>

section \<open>What the class is given\<close>

text \<open>
  The clock is a function of the ordinal of the frame; \<open>JSON.parse\<close> is a function with \<open>None\<close> for a text
  it refuses; \<open>sn_number\<close> prints a number that is not an integer below 1e21.
\<close>

record sse_env =
  sn_session_id :: string
  sn_prefix :: "string option"
  sn_now :: "int \<Rightarrow> string"
  sn_number :: "jsnum \<Rightarrow> string"
  sn_parse :: "string \<Rightarrow> json option"

definition omnigent_session_event_statuses :: "string list" where
  "omnigent_session_event_statuses = [''idle'', ''launching'', ''running'', ''waiting'', ''failed'']"

definition omnigent_response_statuses :: "string list" where
  "omnigent_response_statuses = [''queued'', ''in_progress'', ''completed'', ''failed'', ''incomplete'', ''cancelled'']"

definition omnigent_stream_event_types :: "string list" where
  "omnigent_stream_event_types = [
     ''browser.action_request'', ''session.created'', ''session.status'', ''session.input.consumed'', ''session.interrupted'',
     ''session.child_session.updated'', ''session.usage'', ''session.model'', ''session.model_options'', ''session.reasoning_effort'',
     ''session.collaboration_mode'', ''session.permission_mode'', ''session.title'', ''session.agent_changed'', ''session.todos'',
     ''session.terminal_pending'', ''session.sandbox_status'', ''session.skills'', ''session.superseded'', ''session.presence'',
     ''session.resource.created'', ''session.resource.deleted'', ''session.changed_files.invalidated'', ''session.terminal.activity'',
     ''session.heartbeat'', ''session.mcp_startup'', ''response.created'', ''response.queued'', ''response.in_progress'',
     ''response.output_text.delta'', ''response.output_item.done'', ''response.output_file.done'', ''response.reasoning.started'',
     ''response.reasoning_text.delta'', ''response.reasoning_summary_text.delta'', ''response.retry'', ''response.error'',
     ''response.compaction.in_progress'', ''response.compaction.completed'', ''response.compaction.failed'',
     ''response.client_task.cancel'', ''response.heartbeat'', ''response.elicitation_request'', ''response.elicitation_resolved'',
     ''response.policy_denied'', ''response.function_call_output.delta'', ''response.completed'', ''response.failed'',
     ''response.incomplete'', ''response.cancelled'', ''turn.started'', ''turn.completed'', ''turn.failed'', ''turn.cancelled'']"

section \<open>Values of unknown fields\<close>

definition as_record :: "json option \<Rightarrow> json_record option" where
  "as_record v = (case v of Some (J_obj r) \<Rightarrow> Some r | _ \<Rightarrow> None)"

definition record_field :: "json_record \<Rightarrow> string \<Rightarrow> json_record option" where
  "record_field r k = as_record (map_of r k)"

definition string_value :: "json option \<Rightarrow> string option" where
  "string_value v = (case v of Some (J_str s) \<Rightarrow> if s = [] then None else Some s | _ \<Rightarrow> None)"

definition number_value :: "json option \<Rightarrow> jsnum option" where
  "number_value v = (case v of Some (J_num x) \<Rightarrow> if is_finite_num x then Some x else None | _ \<Rightarrow> None)"

definition status_value :: "json option \<Rightarrow> string option" where
  "status_value v = (case v of Some (J_str s) \<Rightarrow>
     if s \<in> set (omnigent_session_event_statuses @ omnigent_response_statuses) then Some s else None | _ \<Rightarrow> None)"

text \<open>The same through an optional object, \<open>stringValue(r?.k)\<close>.\<close>

definition inner :: "json_record option \<Rightarrow> string \<Rightarrow> json option" where
  "inner r k = Option.bind r (\<lambda>x. map_of x k)"

definition error_message :: "json option \<Rightarrow> string option" where
  "error_message v = (case v of Some (J_str s) \<Rightarrow> Some s | Some (J_obj r) \<Rightarrow> string_value (map_of r ''message'') | _ \<Rightarrow> None)"

text \<open>\<open>r.k === null ? null : stringValue(r.k)\<close>.\<close>

definition nullable_text :: "json option \<Rightarrow> json option" where
  "nullable_text v = (if v = Some J_null then Some J_null else map_option J_str (string_value v))"

definition truncate_num :: "rat \<Rightarrow> int" where
  "truncate_num q = (if q < 0 then - \<lfloor>- q\<rfloor> else \<lfloor>q\<rfloor>)"

text \<open>
  \<open>new Date(seconds * 1000).toISOString()\<close>: a \<open>RangeError\<close> for a time no date can have. The product is
  rounded to binary64.
\<close>

definition seconds_to_iso :: "jsnum \<Rightarrow> (thrown, string) result" where
  "seconds_to_iso x = (case Option.bind (case x of Fin q \<Rightarrow> Some (truncate_num (fl (q * 1000))) | _ \<Rightarrow> None) (\<lambda>t. date_to_iso (Some t)) of
       None \<Rightarrow> Inl (Range_error ''Invalid time value'') | Some t \<Rightarrow> Inr t)"

definition epoch_to_iso :: "json option \<Rightarrow> (thrown, string option) result" where
  "epoch_to_iso v = (case number_value v of None \<Rightarrow> Inr None | Some x \<Rightarrow> bindr (seconds_to_iso x) (\<lambda>t. Inr (Some t)))"

definition known_task_fields :: "string list" where
  "known_task_fields = [''command'', ''description'', ''id'', ''status'', ''type'']"

definition task_field_ok :: "string \<times> json \<Rightarrow> bool" where
  "task_field_ok f \<longleftrightarrow> (case f of (k, v) \<Rightarrow> k \<notin> set known_task_fields \<or> (case v of J_null \<Rightarrow> True | J_str _ \<Rightarrow> True | _ \<Rightarrow> False))"

definition background_tasks :: "json option \<Rightarrow> json option" where
  "background_tasks v = (case v of
       Some J_null \<Rightarrow> Some J_null
     | Some (J_arr xs) \<Rightarrow> Some (J_arr (map (\<lambda>r. J_obj (filter task_field_ok r)) (List.map_filter (\<lambda>x. as_record (Some x)) xs)))
     | _ \<Rightarrow> None)"

definition as_bool :: "json option \<Rightarrow> bool option" where
  "as_bool v = (case v of Some (J_bool b) \<Rightarrow> Some b | _ \<Rightarrow> None)"

text \<open>A number in a template.\<close>

definition number_text :: "sse_env \<Rightarrow> jsnum \<Rightarrow> string" where
  "number_text env x = (case x of
       Fin q \<Rightarrow> if q = of_int \<lfloor>q\<rfloor> \<and> \<bar>q\<bar> < 10 ^ 21 then show_int \<lfloor>q\<rfloor> else sn_number env x
     | _ \<Rightarrow> sn_number env x)"

section \<open>Payloads\<close>

datatype sse_skip_reason = Skip_invalid_json | Skip_invalid_event_shape | Skip_non_object_payload | Skip_unknown_event_type

record sse_skip =
  sk_payload :: string
  sk_reason :: sse_skip_reason

definition response_end_types :: "string list" where
  "response_end_types = [''response.completed'', ''response.failed'', ''response.incomplete'', ''response.cancelled'']"

definition has_valid_event_shape :: "string \<Rightarrow> json_record \<Rightarrow> bool" where
  "has_valid_event_shape ty v =
     (if ty = ''response.elicitation_resolved'' then
        string_value (map_of v ''elicitation_id'') \<noteq> None
        \<and> (case map_of v ''action'' of None \<Rightarrow> True | Some J_null \<Rightarrow> True
           | Some (J_str s) \<Rightarrow> s \<in> set [''accept'', ''decline'', ''cancel''] | _ \<Rightarrow> False)
      else if ty = ''session.permission_mode'' then
        string_value (map_of v ''conversation_id'') \<noteq> None \<and> string_value (map_of v ''permission_mode'') \<noteq> None
      else if ty = ''session.title'' then
        string_value (map_of v ''conversation_id'') \<noteq> None \<and> string_value (map_of v ''title'') \<noteq> None
      else if ty \<notin> set (''response.created'' # response_end_types) then True
      else let response = record_field v ''response'' in
        string_value (inner response ''id'') \<noteq> None
        \<or> (ty = ''response.failed'' \<and> inner response ''status'' = Some (J_str ''failed''))
        \<or> (map_of v ''response'' = None \<and> string_value (map_of v ''id'') \<noteq> None \<and> string_value (map_of v ''sessionId'') \<noteq> None
           \<and> string_value (map_of v ''occurredAt'') \<noteq> None \<and> as_bool (map_of v ''terminal'') \<noteq> None))"

text \<open>A tagged event: its type and the object it is in. The end marker is neither an event nor a skip.\<close>

type_synonym tagged_event = "string \<times> json_record"

definition parse_frame_payload :: "sse_env \<Rightarrow> string \<Rightarrow> (sse_skip option, tagged_event) result" where
  "parse_frame_payload env payload =
     (if payload = ''[DONE]'' then Inl None
      else let skip = (\<lambda>reason. Inl (Some \<lparr>sk_payload = payload, sk_reason = reason\<rparr>)) in
        case sn_parse env payload of
          None \<Rightarrow> skip Skip_invalid_json
        | Some (J_obj r) \<Rightarrow> (case map_of r ''type'' of
              Some (J_str ty) \<Rightarrow>
                if ty \<notin> set omnigent_stream_event_types then skip Skip_unknown_event_type
                else if has_valid_event_shape ty r then Inr (ty, r) else skip Skip_invalid_event_shape
            | _ \<Rightarrow> skip Skip_unknown_event_type)
        | Some _ \<Rightarrow> skip Skip_non_object_payload)"

section \<open>The object\<close>

record sse_normalizer =
  nz_current :: "string option"
  nz_fallback :: "string option"
  nz_quarantine :: "string option"
  nz_known :: "string set"
  nz_ambiguous :: bool
  nz_pending :: "string list"
  nz_rejected :: "string set"
  nz_aliases :: "(string \<times> string) list"
  nz_tentative :: "(string \<times> string) list"
  nz_unbound :: "string list"
  nz_ordinal :: int

definition new_normalizer :: sse_normalizer where
  "new_normalizer = \<lparr>nz_current = None, nz_fallback = None, nz_quarantine = None, nz_known = {}, nz_ambiguous = False, nz_pending = [],
     nz_rejected = {}, nz_aliases = [], nz_tentative = [], nz_unbound = [], nz_ordinal = 0\<rparr>"

definition remove_unbound :: "string \<Rightarrow> sse_normalizer \<Rightarrow> sse_normalizer" where
  "remove_unbound t z = z\<lparr>nz_unbound := remove1 t (nz_unbound z)\<rparr>"

definition remove_pending :: "string \<Rightarrow> sse_normalizer \<Rightarrow> sse_normalizer" where
  "remove_pending t z = z\<lparr>nz_pending := remove1 t (nz_pending z)\<rparr>"

definition bind_response_alias :: "string \<Rightarrow> string \<Rightarrow> sse_normalizer \<Rightarrow> sse_normalizer" where
  "bind_response_alias r t z = remove_pending t (remove_unbound t
     (z\<lparr>nz_aliases := AList.update r t (nz_aliases z), nz_tentative := AList.delete r (nz_tentative z)\<rparr>))"

definition set_active_response_id :: "string option \<Rightarrow> sse_normalizer \<Rightarrow> sse_normalizer" where
  "set_active_response_id response z = (case response of
       None \<Rightarrow> z\<lparr>nz_current := None\<rparr>
     | Some r \<Rightarrow>
         if r \<in> nz_rejected z then z\<lparr>nz_current := None, nz_quarantine := Some r\<rparr>
         else let z = z\<lparr>nz_quarantine := None, nz_current := Some r\<rparr> in
           if r = [] then z
           else let z = z\<lparr>nz_known := insert r (nz_known z)\<rparr> in
             case nz_unbound z of
               [] \<Rightarrow> z
             | t # _ \<Rightarrow> if map_of (nz_aliases z) r = None then z\<lparr>nz_tentative := AList.update r t (nz_tentative z)\<rparr> else z)"

definition bind_response_id :: "string \<Rightarrow> string \<Rightarrow> sse_normalizer \<Rightarrow> sse_normalizer" where
  "bind_response_id r t z =
     (if r \<in> nz_rejected z then z else bind_response_alias r t (z\<lparr>nz_known := insert r (nz_known z)\<rparr>))"

definition untracked :: "string \<Rightarrow> sse_normalizer \<Rightarrow> bool" where
  "untracked t z \<longleftrightarrow> t \<notin> set (nz_unbound z) \<and> t \<notin> set (nz_pending z) \<and> t \<notin> set (map snd (nz_aliases z))"

definition track :: "string \<Rightarrow> sse_normalizer \<Rightarrow> sse_normalizer" where
  "track t z = (if untracked t z then z\<lparr>nz_unbound := nz_unbound z @ [t]\<rparr> else z)"

definition set_fallback_turn_id :: "string option \<Rightarrow> sse_normalizer \<Rightarrow> sse_normalizer" where
  "set_fallback_turn_id turn z = (case turn of
       None \<Rightarrow> z\<lparr>nz_fallback := None\<rparr>
     | Some t \<Rightarrow>
         if t \<in> nz_rejected z then z
         else track t (z\<lparr>nz_fallback := Some t, nz_quarantine := if nz_quarantine z = Some t then None else nz_quarantine z\<rparr>))"

definition drop_turn :: "string \<Rightarrow> (string \<times> string) list \<Rightarrow> (string \<times> string) list" where
  "drop_turn t m = filter (\<lambda>(_, a). a \<noteq> t) m"

definition remove_fallback_turn_id :: "string \<Rightarrow> sse_normalizer \<Rightarrow> sse_normalizer" where
  "remove_fallback_turn_id t z = remove_pending t (remove_unbound t
     (z\<lparr>nz_fallback := if nz_fallback z = Some t then None else nz_fallback z,
        nz_aliases := drop_turn t (nz_aliases z), nz_tentative := drop_turn t (nz_tentative z)\<rparr>))"

definition quarantine_fallback_turn_id :: "string \<Rightarrow> sse_normalizer \<Rightarrow> sse_normalizer" where
  "quarantine_fallback_turn_id t z = track t (z\<lparr>nz_rejected := insert t (nz_rejected z), nz_quarantine := Some t\<rparr>)"

definition reject_turn_id :: "string \<Rightarrow> sse_normalizer \<Rightarrow> sse_normalizer" where
  "reject_turn_id t z = (let z = remove_fallback_turn_id t (z\<lparr>nz_rejected := insert t (nz_rejected z)\<rparr>);
       z = z\<lparr>nz_known := nz_known z - {t}\<rparr> in
     if nz_current z = Some t then z\<lparr>nz_quarantine := Some t, nz_current := None\<rparr> else z)"

definition restore_rejected_turn_id :: "string \<Rightarrow> sse_normalizer \<Rightarrow> sse_normalizer" where
  "restore_rejected_turn_id t z = z\<lparr>nz_rejected := nz_rejected z - {t},
     nz_quarantine := if nz_quarantine z = Some t then None else nz_quarantine z\<rparr>"

definition replace_tracked :: "string \<Rightarrow> string \<Rightarrow> string list \<Rightarrow> string list" where
  "replace_tracked p n ts = (if p \<notin> set ts then ts
     else let i = length (takeWhile (\<lambda>t. t \<noteq> p) ts); us = remove1 p ts in
       if n \<in> set us then us else take i us @ n # drop i us)"

definition retarget :: "string \<Rightarrow> string \<Rightarrow> (string \<times> string) list \<Rightarrow> (string \<times> string) list" where
  "retarget p n m = map (\<lambda>(r, a). (r, if a = p then n else a)) m"

definition replace_fallback_turn_id :: "string \<Rightarrow> string \<Rightarrow> sse_normalizer \<Rightarrow> sse_normalizer" where
  "replace_fallback_turn_id p n z = (if p = n then z
     else z\<lparr>nz_fallback := if nz_fallback z = Some p then Some n else nz_fallback z,
       nz_unbound := replace_tracked p n (nz_unbound z), nz_pending := replace_tracked p n (nz_pending z),
       nz_aliases := retarget p n (nz_aliases z), nz_tentative := retarget p n (nz_tentative z)\<rparr>)"

section \<open>Whose event it is\<close>

record frame_facts =
  fi_response :: "json_record option"
  fi_data :: "json_record option"
  fi_item :: "json_record option"
  fi_passive :: bool
  fi_pre_allocation :: bool
  fi_nested :: "string option"
  fi_explicit :: "string option"
  fi_status :: "string option"
  fi_terminal :: bool

definition frame_identity :: "string \<Rightarrow> json_record \<Rightarrow> frame_facts" where
  "frame_identity ty raw = (let
     response = record_field raw ''response''; data = record_field raw ''data''; item = record_field raw ''item'';
     passive = (ty = ''session.permission_mode'' \<or> ty = ''session.title'');
     response_id = string_value (inner response ''id'');
     pre = (ty = ''response.failed'' \<and> response_id = None \<and> inner response ''status'' = Some (J_str ''failed''));
     explicit = (if passive \<or> pre then None
       else or_opt (string_value (map_of raw ''response_id'')) (or_opt (string_value (inner data ''response_id''))
         (string_value (inner item ''response_id''))));
     status = or_opt (status_value (map_of raw ''status'')) (status_value (inner response ''status''))
   in \<lparr>fi_response = response, fi_data = data, fi_item = item, fi_passive = passive, fi_pre_allocation = pre,
       fi_nested = (if passive then None else response_id), fi_explicit = explicit, fi_status = status,
       fi_terminal = (ty \<in> set response_end_types
         \<or> explicit \<noteq> None \<and> ty \<in> set [''turn.completed'', ''turn.failed'', ''turn.cancelled'']
         \<or> ty = ''session.status'' \<and> (status = Some ''failed'' \<or> status = Some ''idle'' \<and> explicit \<noteq> None))\<rparr>)"

definition official_id :: "frame_facts \<Rightarrow> string option" where
  "official_id i = or_opt (fi_nested i) (fi_explicit i)"

definition official_rejected :: "frame_facts \<Rightarrow> sse_normalizer \<Rightarrow> bool" where
  "official_rejected i z \<longleftrightarrow> (case official_id i of None \<Rightarrow> False | Some r \<Rightarrow> r \<in> nz_rejected z)"

definition note_quarantine :: "frame_facts \<Rightarrow> sse_normalizer \<Rightarrow> sse_normalizer" where
  "note_quarantine i z = (case official_id i of None \<Rightarrow> z
     | Some r \<Rightarrow> z\<lparr>nz_quarantine := if r \<in> nz_rejected z then Some r else None\<rparr>)"

definition turn_of :: "string \<Rightarrow> frame_facts \<Rightarrow> sse_normalizer \<Rightarrow> string option" where
  "turn_of ty i z =
     (let fallback = (if fi_terminal i \<and> official_id i = None \<and> nz_current z = None \<and> length (nz_unbound z) \<noteq> 1 then None else nz_fallback z) in
      if fi_passive i then None
      else if starts_with ''turn.'' ty then fi_explicit i
      else or_opt (official_id i) (or_opt (nz_current z) (or_opt (nz_quarantine z) fallback)))"

definition known_alias :: "frame_facts \<Rightarrow> sse_normalizer \<Rightarrow> string option" where
  "known_alias i z = (if fi_passive i then None else case official_id i of
       Some r \<Rightarrow> map_of (nz_aliases z) r
     | None \<Rightarrow> (case nz_current z of None \<Rightarrow> None | Some p \<Rightarrow> if p = [] then None else map_of (nz_aliases z) p))"

text \<open>The alias, whether it is confirmed, and the object after the event was bound.\<close>

type_synonym resolved = "string option \<times> bool \<times> sse_normalizer"

definition bind_if_confirmed :: "string \<Rightarrow> resolved \<Rightarrow> resolved" where
  "bind_if_confirmed r a = (case a of
     (Some t, True, z) \<Rightarrow> (Some t, True, bind_response_alias r t z) | _ \<Rightarrow> a)"

definition first_alias :: "bool \<Rightarrow> sse_normalizer \<Rightarrow> resolved" where
  "first_alias terminal z =
     (if \<not> terminal then (case nz_unbound z of
          [] \<Rightarrow> (None, False, z) | t # ts \<Rightarrow> (Some t, True, z\<lparr>nz_unbound := ts\<rparr>))
      else (case (nz_pending z, nz_unbound z) of
          (t # ts, []) \<Rightarrow> (Some t, \<not> nz_ambiguous z \<and> ts = [], z\<lparr>nz_pending := ts, nz_ambiguous := nz_ambiguous z \<and> ts \<noteq> []\<rparr>)
        | ([], t # _) \<Rightarrow> (Some t, True, z)
        | _ \<Rightarrow> (None, False, z)))"

definition resolve_alias :: "frame_facts \<Rightarrow> sse_normalizer \<Rightarrow> resolved" where
  "resolve_alias i z = (case official_id i of
       None \<Rightarrow> (known_alias i z, known_alias i z \<noteq> None, z)
     | Some r \<Rightarrow>
         if r \<in> nz_rejected z then (known_alias i z, known_alias i z \<noteq> None, z)
         else let (a, confirmed, z) = (case known_alias i z of
             Some t \<Rightarrow> (Some t, True, z)
           | None \<Rightarrow> (case map_of (nz_tentative z) r of
               Some t \<Rightarrow> (Some t, True, bind_response_alias r t z)
             | None \<Rightarrow> if r \<in> nz_known z then (None, False, z) else bind_if_confirmed r (first_alias (fi_terminal i) z)))
         in (a, confirmed, z\<lparr>nz_known := insert r (nz_known z)\<rparr>))"

section \<open>The event\<close>

record sse_event = raw_event +
  se_session_id :: string
  se_terminal :: bool
  se_alias_confirmed :: bool
  se_action :: "string option"
  se_action_id :: "string option"
  se_agent_id :: "json option"
  se_args :: "json_record option"
  se_attempt :: "jsnum option"
  se_background_task_count :: "jsnum option"
  se_background_tasks :: "json option"
  se_blocked_on :: "json option"
  se_child_session_id :: "string option"
  se_cleared_pending_id :: "string option"
  se_consumed_item_id :: "string option"
  se_conversation_id :: "string option"
  se_delay_seconds :: "jsnum option"
  se_elicitation_id :: "string option"
  se_error :: "json option"
  se_final :: "bool option"
  se_index :: "jsnum option"
  se_model :: "string option"
  se_permission_mode :: "string option"
  se_parent_session_id :: "json option"
  se_params :: "json_record option"
  se_phase :: "string option"
  se_reasoning_effort :: "string option"
  se_response_id :: "string option"
  se_sequence_number :: "jsnum option"
  se_servers :: "json_record option"
  se_source :: "string option"
  se_tool_name :: "string option"
  se_total_cost_usd :: "jsnum option"
  se_title :: "string option"
  se_usage_by_model :: "json_record option"

text \<open>An event with no field but those of an elicitation's end.\<close>

definition bare_event :: "string \<Rightarrow> string \<Rightarrow> string \<Rightarrow> string \<Rightarrow> sse_event" where
  "bare_event event_id ty session t = \<lparr>re_id = event_id, re_type = ty, re_turn_id = None, re_occurred_at = t, re_item_id = None,
     re_turn_alias_id = None, re_status = None, re_reason = None, re_call_id = None, re_message = None, re_message_id = None,
     re_delta = None, re_output_text = None, re_failure = None, re_item = None,
     se_session_id = session, se_terminal = False, se_alias_confirmed = False, se_action = None, se_action_id = None,
     se_agent_id = None, se_args = None, se_attempt = None, se_background_task_count = None, se_background_tasks = None,
     se_blocked_on = None, se_child_session_id = None, se_cleared_pending_id = None, se_consumed_item_id = None,
     se_conversation_id = None, se_delay_seconds = None, se_elicitation_id = None, se_error = None, se_final = None, se_index = None,
     se_model = None, se_permission_mode = None, se_parent_session_id = None, se_params = None, se_phase = None,
     se_reasoning_effort = None, se_response_id = None, se_sequence_number = None, se_servers = None, se_source = None,
     se_tool_name = None, se_total_cost_usd = None, se_title = None, se_usage_by_model = None\<rparr>"

definition occurred_at :: "sse_env \<Rightarrow> int \<Rightarrow> frame_facts \<Rightarrow> (thrown, string) result" where
  "occurred_at env ordinal i =
     bindr (epoch_to_iso (inner (fi_response i) ''completed_at'')) (\<lambda>a. case a of Some t \<Rightarrow> Inr t | None \<Rightarrow>
     bindr (epoch_to_iso (inner (fi_response i) ''created_at'')) (\<lambda>b. case b of Some t \<Rightarrow> Inr t | None \<Rightarrow>
     bindr (epoch_to_iso (inner (fi_data i) ''requested_at'')) (\<lambda>c. case c of Some t \<Rightarrow> Inr t | None \<Rightarrow> Inr (sn_now env ordinal))))"

definition identity_free :: "frame_facts \<Rightarrow> bool" where
  "identity_free i \<longleftrightarrow> fi_passive i \<or> fi_pre_allocation i"

definition item_of :: "frame_facts \<Rightarrow> json_record \<Rightarrow> string option" where
  "item_of i raw = (if identity_free i then None
     else or_opt (string_value (inner (fi_item i) ''id'')) (or_opt (string_value (map_of raw ''call_id''))
       (or_opt (string_value (map_of raw ''action_id'')) (or_opt (string_value (map_of raw ''elicitation_id''))
         (string_value (map_of raw ''file_id''))))))"

definition session_of :: "sse_env \<Rightarrow> json_record \<Rightarrow> string" where
  "session_of env raw = or_else (string_value (map_of raw ''conversation_id''))
     (or_else (string_value (map_of raw ''session_id'')) (sn_session_id env))"

definition event_id_of :: "sse_env \<Rightarrow> int \<Rightarrow> string \<Rightarrow> frame_facts \<Rightarrow> json_record \<Rightarrow> string" where
  "event_id_of env ordinal ty i raw = (let
     prefix = or_else (sn_prefix env) (session_of env raw);
     sequence = number_value (map_of raw ''sequence_number'');
     stream_ordinal = (case sequence of Some x \<Rightarrow> number_text env x | None \<Rightarrow> prefix @ '':'' @ show_int ordinal);
     synthetic = prefix @ '':'' @ ty @ '':'' @ (case sequence of Some x \<Rightarrow> number_text env x | None \<Rightarrow> show_int ordinal);
     index = (case number_value (map_of raw ''index'') of Some x \<Rightarrow> number_text env x | None \<Rightarrow> ''0'')
   in if identity_free i then synthetic
      else or_else (item_of i raw)
        (or_else (map_option (\<lambda>m. m @ '':'' @ index @ '':'' @ stream_ordinal) (string_value (map_of raw ''message_id'')))
        (or_else (map_option (\<lambda>r. r @ '':'' @ ty) (fi_nested i)) synthetic)))"

definition build_event :: "sse_env \<Rightarrow> int \<Rightarrow> string \<Rightarrow> frame_facts \<Rightarrow> json_record \<Rightarrow> string option \<Rightarrow> string option \<Rightarrow> bool \<Rightarrow> string \<Rightarrow> sse_event" where
  "build_event env ordinal ty i raw turn alias confirmed t = (let
     own = (\<lambda>x. if identity_free i then None else x);
     field = (\<lambda>k. string_value (map_of raw k)); number = (\<lambda>k. number_value (map_of raw k));
     failed = or_opt (error_message (inner (fi_response i) ''error'')) (error_message (map_of raw ''error''));
     details = Option.bind (fi_response i) (\<lambda>r. record_field r ''incomplete_details'')
   in \<lparr>re_id = event_id_of env ordinal ty i raw, re_type = ty, re_turn_id = turn, re_occurred_at = t, re_item_id = item_of i raw,
     re_turn_alias_id = alias, re_status = fi_status i,
     re_reason = or_opt (field ''reason'') (or_opt (string_value (inner details ''reason'')) failed),
     re_call_id = own (or_opt (field ''call_id'') (string_value (inner (fi_item i) ''call_id''))), re_message = failed,
     re_message_id = own (field ''message_id''), re_delta = field ''delta'', re_output_text = None,
     re_failure = map_option (\<lambda>m. \<lparr>ef_category = Some Backend_unavailable, ef_message = m, ef_status_code = None,
       ef_retry_after_seconds = None, ef_reset_at = None\<rparr>) failed,
     re_item = (if identity_free i then None else fi_item i),
     se_session_id = session_of env raw, se_terminal = fi_terminal i, se_alias_confirmed = confirmed,
     se_action = field ''action'', se_action_id = own (field ''action_id''), se_agent_id = nullable_text (map_of raw ''agent_id''),
     se_args = record_field raw ''args'', se_attempt = number ''attempt'', se_background_task_count = number ''background_task_count'',
     se_background_tasks = background_tasks (map_of raw ''background_tasks''), se_blocked_on = nullable_text (map_of raw ''blocked_on''),
     se_child_session_id = field ''child_session_id'', se_cleared_pending_id = string_value (inner (fi_data i) ''cleared_pending_id''),
     se_consumed_item_id = (if ty = ''session.input.consumed'' then string_value (inner (fi_data i) ''item_id'') else None),
     se_conversation_id = field ''conversation_id'', se_delay_seconds = number ''delay_seconds'',
     se_elicitation_id = own (field ''elicitation_id''),
     se_error = (case map_of raw ''error'' of None \<Rightarrow> inner (fi_response i) ''error'' | Some J_null \<Rightarrow> inner (fi_response i) ''error'' | Some v \<Rightarrow> Some v),
     se_final = as_bool (map_of raw ''final''), se_index = number ''index'', se_model = field ''model'',
     se_permission_mode = field ''permission_mode'', se_parent_session_id = nullable_text (map_of raw ''parent_session_id''),
     se_params = record_field raw ''params'', se_phase = field ''phase'', se_reasoning_effort = field ''reasoning_effort'',
     se_response_id = fi_explicit i, se_sequence_number = number ''sequence_number'', se_servers = record_field raw ''servers'',
     se_source = field ''source'', se_tool_name = field ''tool_name'', se_total_cost_usd = number ''total_cost_usd'',
     se_title = field ''title'', se_usage_by_model = record_field raw ''usage_by_model''\<rparr>)"

text \<open>What an end leaves behind; \<open>previous\<close> is the response current before the event.\<close>

text \<open>The end of a turn known only as the fallback: its response may still be named by a later event.\<close>

definition park_turn :: "frame_facts \<Rightarrow> string option \<Rightarrow> string option \<Rightarrow> sse_normalizer \<Rightarrow> sse_normalizer" where
  "park_turn i previous turn z = (case turn of
       None \<Rightarrow> z
     | Some t \<Rightarrow> if official_id i = None \<and> previous = None \<and> nz_fallback z = Some t
         then (let z = remove_unbound t z in if t \<in> set (nz_pending z) then z
           else z\<lparr>nz_ambiguous := nz_ambiguous z \<or> nz_pending z \<noteq> [], nz_pending := nz_pending z @ [t]\<rparr>)
         else z)"

definition release_alias :: "string option \<Rightarrow> bool \<Rightarrow> sse_normalizer \<Rightarrow> sse_normalizer" where
  "release_alias alias confirmed z = (case alias of
       Some a \<Rightarrow> if confirmed then remove_pending a (remove_unbound a z) else z | None \<Rightarrow> z)"

definition end_response :: "frame_facts \<Rightarrow> string option \<Rightarrow> string option \<Rightarrow> sse_normalizer \<Rightarrow> sse_normalizer" where
  "end_response i previous turn z =
     (if official_id i = previous \<or> official_id i = None \<and> turn = previous then z\<lparr>nz_current := None\<rparr> else z)"

definition end_fallback :: "string option \<Rightarrow> string option \<Rightarrow> sse_normalizer \<Rightarrow> sse_normalizer" where
  "end_fallback turn alias z = (if turn = nz_fallback z \<or> alias = nz_fallback z then z\<lparr>nz_fallback := None\<rparr> else z)"

definition settle_terminal :: "frame_facts \<Rightarrow> string option \<Rightarrow> string option \<Rightarrow> string option \<Rightarrow> bool \<Rightarrow> sse_normalizer \<Rightarrow> sse_normalizer" where
  "settle_terminal i previous turn alias confirmed z =
     end_fallback turn alias (end_response i previous turn (release_alias alias confirmed (park_turn i previous turn z)))"

definition settle_frame :: "frame_facts \<Rightarrow> string option \<Rightarrow> string option \<Rightarrow> string option \<Rightarrow> bool \<Rightarrow> sse_normalizer \<Rightarrow> sse_normalizer" where
  "settle_frame i previous turn alias confirmed z =
     (if fi_terminal i then settle_terminal i previous turn alias confirmed z
      else if official_id i \<noteq> None \<and> \<not> official_rejected i z then z\<lparr>nz_current := official_id i\<rparr> else z)"

definition normalize :: "sse_env \<Rightarrow> tagged_event \<Rightarrow> sse_normalizer \<Rightarrow> (thrown, sse_event) result \<times> sse_normalizer" where
  "normalize env tagged z0 = (let (ty, raw) = tagged; z = z0\<lparr>nz_ordinal := nz_ordinal z0 + 1\<rparr>; ordinal = nz_ordinal z in
     if ty = ''response.elicitation_resolved'' then
       (Inr ((bare_event (or_else (sn_prefix env) (sn_session_id env) @ '':'' @ ty @ '':'' @ show_int ordinal) ty (sn_session_id env) (sn_now env ordinal))
          \<lparr>se_action := string_value (map_of raw ''action''), se_elicitation_id := string_value (map_of raw ''elicitation_id'')\<rparr>), z)
     else let i = frame_identity ty raw; z = note_quarantine i z; turn = turn_of ty i z; (alias, confirmed, z') = resolve_alias i z in
       case occurred_at env ordinal i of
         Inl e \<Rightarrow> (Inl e, z')
       | Inr t \<Rightarrow> (Inr (build_event env ordinal ty i raw turn alias confirmed t),
           settle_frame i (nz_current z) turn alias confirmed z'))"

section \<open>Frames\<close>

definition carriage_return :: char where "carriage_return = CHR 0x0D"
definition newline :: char where "newline = CHR 0x0A"

text \<open>The rest after a line end \<open>\r?\n\<close>, and after an empty line \<open>\r?\n\r?\n\<close>.\<close>

fun after_line_end :: "string \<Rightarrow> string option" where
  "after_line_end [] = None"
| "after_line_end (c # s) = (if c = newline then Some s
     else if c = carriage_return then (case s of d # t \<Rightarrow> if d = newline then Some t else None | [] \<Rightarrow> None) else None)"

definition after_blank_line :: "string \<Rightarrow> string option" where
  "after_blank_line s = Option.bind (after_line_end s) after_line_end"

lemma after_line_end_less: "after_line_end s = Some r \<Longrightarrow> length r < length s"
  by (cases s) (auto split: if_splits list.splits)

lemma after_blank_line_less: "after_blank_line s = Some r \<Longrightarrow> length r < length s"
  by (fastforce simp: after_blank_line_def dest: after_line_end_less split: Option.bind_splits)

definition push_front :: "char \<Rightarrow> string list \<Rightarrow> string list" where
  "push_front c fs = (c # hd fs) # tl fs"

text \<open>\<open>split\<close> by either pattern.\<close>

function split_lines :: "string \<Rightarrow> string list" where
  "split_lines s = (case after_line_end s of Some r \<Rightarrow> [] # split_lines r
     | None \<Rightarrow> (case s of [] \<Rightarrow> [[]] | c # t \<Rightarrow> push_front c (split_lines t)))"
  by pat_completeness auto
termination by (relation "measure length") (auto dest: after_line_end_less)

function split_frames :: "string \<Rightarrow> string list" where
  "split_frames s = (case after_blank_line s of Some r \<Rightarrow> [] # split_frames r
     | None \<Rightarrow> (case s of [] \<Rightarrow> [[]] | c # t \<Rightarrow> push_front c (split_frames t)))"
  by pat_completeness auto
termination by (relation "measure length") (auto dest: after_blank_line_less)

declare split_lines.simps [simp del] split_frames.simps [simp del]

definition data_lines :: "string \<Rightarrow> string list" where
  "data_lines frame = map (\<lambda>l. js_trim (drop 5 l)) (filter (starts_with ''data:'') (split_lines frame))"

section \<open>The stream\<close>

datatype sse_output = Emitted sse_event | Skipped sse_skip

text \<open>What was given out, what was thrown, and the object.\<close>

type_synonym sse_run = "sse_output list \<times> thrown option \<times> sse_normalizer"

definition and_then :: "sse_run \<Rightarrow> (sse_normalizer \<Rightarrow> sse_run) \<Rightarrow> sse_run" where
  "and_then r k = (case r of (xs, Some e, z) \<Rightarrow> r
     | (xs, None, z) \<Rightarrow> (case k z of (ys, e, z') \<Rightarrow> (xs @ ys, e, z')))"

definition parse_frame :: "sse_env \<Rightarrow> string \<Rightarrow> sse_normalizer \<Rightarrow> sse_run" where
  "parse_frame env frame z =
     (if data_lines frame = [] then ([], None, z)
      else case parse_frame_payload env (join_with [newline] (data_lines frame)) of
        Inl None \<Rightarrow> ([], None, z)
      | Inl (Some k) \<Rightarrow> ([Skipped k], None, z)
      | Inr tagged \<Rightarrow> (case normalize env tagged z of
            (Inl e, z') \<Rightarrow> ([], Some e, z')
          | (Inr ev, z') \<Rightarrow> ([Emitted ev], None, z')))"

fun parse_frames :: "sse_env \<Rightarrow> string list \<Rightarrow> sse_normalizer \<Rightarrow> sse_run" where
  "parse_frames env [] z = ([], None, z)"
| "parse_frames env (f # fs) z = and_then (parse_frame env f z) (parse_frames env fs)"

text \<open>
  The reads of the loop: a decoded text, or what the reader threw. The read that says \<open>done\<close> is the last
  text, what the decoder still held.
\<close>

fun read_loop :: "sse_env \<Rightarrow> string \<Rightarrow> (thrown, string) result list \<Rightarrow> sse_normalizer \<Rightarrow> sse_run" where
  "read_loop env buffer [] z = (if js_trim buffer = [] then ([], None, z) else parse_frame env buffer z)"
| "read_loop env buffer (Inl e # rs) z = ([], Some e, z)"
| "read_loop env buffer (Inr chunk # rs) z =
     (let frames = split_frames (buffer @ chunk) in
      and_then (parse_frames env (butlast frames) z) (read_loop env (last frames) rs))"

text \<open>What a cancelled stream throws is dropped.\<close>

definition parse_omnigent_sse_stream :: "sse_env \<Rightarrow> bool \<Rightarrow> (thrown, string) result list \<Rightarrow> sse_normalizer \<Rightarrow> sse_run" where
  "parse_omnigent_sse_stream env cancelled reads z = (case read_loop env [] reads z of
     (xs, e, z') \<Rightarrow> (xs, if cancelled then None else e, z'))"

end
