(* ===== verification/SseProperties.thy ===== *)
theory SseProperties
  imports SseStream
begin

text \<open>
  The stream does not depend on how its text arrives in chunks; the queues of the normalizer stay
  consistent; and the events of a response are followed to one turn.
\<close>

section \<open>Chunks\<close>

lemma after_line_end_append: "after_line_end s = Some r \<Longrightarrow> after_line_end (s @ t) = Some (r @ t)"
  by (cases s) (auto split: if_splits list.splits)

lemma after_blank_line_append: "after_blank_line s = Some r \<Longrightarrow> after_blank_line (s @ t) = Some (r @ t)"
  by (auto simp: after_blank_line_def bind_eq_Some_conv dest: after_line_end_append)

text \<open>A blank line that ends behind a text starts with all of the text.\<close>

definition blank_starts :: "string list" where
  "blank_starts = [[], [newline], [carriage_return], [carriage_return, newline], [newline, carriage_return],
     [carriage_return, newline, carriage_return]]"

lemma newline_return [simp]: "newline \<noteq> carriage_return" "carriage_return \<noteq> newline"
  by (simp_all add: newline_def carriage_return_def)

lemma line_end_cut:
  assumes "after_line_end s = None" "after_line_end (s @ t) = Some r" shows "s = [] \<or> s = [carriage_return]"
proof (cases s)
  case (Cons c s') then show ?thesis using assms by (cases s') (auto split: if_splits list.splits)
qed simp

lemma line_end_shape: "after_line_end s = Some r \<Longrightarrow> s = newline # r \<or> s = carriage_return # newline # r"
  by (cases s) (auto split: if_splits list.splits)

lemma blank_line_cut:
  assumes "after_blank_line s = None" "after_blank_line (s @ t) = Some r" shows "s \<in> set blank_starts"
proof (cases "after_line_end s")
  case None
  then show ?thesis using assms(2) line_end_cut [OF None] by (auto simp: after_blank_line_def bind_eq_Some_conv blank_starts_def)
next
  case (Some u)
  then have "after_line_end u = None" "after_line_end (u @ t) = Some r"
    using assms after_line_end_append [OF Some, of t] by (auto simp: after_blank_line_def)
  from line_end_cut [OF this] show ?thesis using line_end_shape [OF Some] by (auto simp: blank_starts_def)
qed

lemma split_frames_None: "after_blank_line (c # s) = None \<Longrightarrow> split_frames (c # s) = push_front c (split_frames s)"
  by (simp add: split_frames.simps [of "c # s"])

lemma split_frames_Some: "after_blank_line s = Some r \<Longrightarrow> split_frames s = [] # split_frames r"
  by (simp add: split_frames.simps [of s])

lemma split_frames_Nil [simp]: "split_frames [] = [[]]"
  by (simp add: split_frames.simps after_blank_line_def)

lemma split_frames_ne [simp]: "split_frames s \<noteq> []"
  by (subst split_frames.simps) (auto simp: push_front_def split: option.splits list.splits)

lemma split_blank_start: "s \<in> set blank_starts \<Longrightarrow> split_frames s = [s]"
  by (auto simp: blank_starts_def split_frames_None after_blank_line_def push_front_def)

lemma split_frames_single: "split_frames s = [f] \<Longrightarrow> f = s"
proof (induction s arbitrary: f rule: split_frames.induct)
  case (1 s)
  show ?case
  proof (cases "after_blank_line s")
    case (Some r) then show ?thesis using "1.prems" by (simp add: split_frames_Some)
  next
    case None
    show ?thesis
    proof (cases s)
      case (Cons c t)
      with "1.prems" None have "split_frames t = [hd (split_frames t)]" "f = c # hd (split_frames t)"
        by (auto simp: split_frames_None push_front_def intro: list.expand)
      with "1.IH"(1) [OF None Cons] Cons show ?thesis by blast
    qed (use 1 in simp)
  qed
qed

lemma push_front_append: "fs \<noteq> [] \<Longrightarrow> push_front c (fs @ gs) = push_front c fs @ gs"
  by (cases fs) (auto simp: push_front_def)

lemma split_frames_append: "split_frames (s @ t) = butlast (split_frames s) @ split_frames (last (split_frames s) @ t)"
proof (induction s rule: split_frames.induct)
  case (1 s)
  show ?case
  proof (cases "after_blank_line s")
    case (Some r)
    then show ?thesis using "1.IH"(2) [OF Some] after_blank_line_append [OF Some, of t] by (simp add: split_frames_Some)
  next
    case None
    show ?thesis
    proof (cases s)
      case (Cons c u)
      show ?thesis
      proof (cases "after_blank_line (s @ t)")
        case None': None
        let ?fs = "split_frames u"
        have s: "split_frames (s @ t) = push_front c (split_frames (u @ t))" "split_frames s = push_front c ?fs"
          using None None' by (simp_all add: Cons split_frames_None)
        show ?thesis
        proof (cases "butlast ?fs = []")
          case True
          then have "?fs = [last ?fs]" by (metis append_butlast_last_id append_Nil split_frames_ne)
          then have "?fs = [u]" using split_frames_single by metis
          then show ?thesis by (simp add: s(2) push_front_def) (simp add: Cons)
        next
          case False
          have "split_frames (s @ t) = push_front c (butlast ?fs) @ split_frames (last ?fs @ t)"
            using s(1) "1.IH"(1) [OF None Cons] False by (simp add: push_front_append)
          moreover obtain f g gs where "?fs = f # g # gs" using False by (cases ?fs; cases "tl ?fs") auto
          then have "butlast (push_front c ?fs) = push_front c (butlast ?fs)" "last (push_front c ?fs) = last ?fs"
            by (simp_all add: push_front_def)
          ultimately show ?thesis by (simp add: s(2))
        qed
      next
        case (Some r)
        then show ?thesis using split_blank_start [OF blank_line_cut [OF None Some]] by simp
      qed
    qed simp
  qed
qed


lemma and_then_assoc: "and_then (and_then r f) g = and_then r (\<lambda>z. and_then (f z) g)"
  by (auto simp: and_then_def split: prod.splits option.splits)

lemma and_then_unit [simp]: "and_then ([], None, z) f = f z"
  by (simp add: and_then_def split: prod.splits)

lemma parse_frames_append: "parse_frames env (fs @ gs) z = and_then (parse_frames env fs z) (parse_frames env gs)"
  by (induction fs arbitrary: z) (auto simp: and_then_assoc intro!: arg_cong2 [where f = and_then] ext)

text \<open>Two reads are one.\<close>

lemma read_loop_merge: "read_loop env b (Inr c # Inr d # rs) z = read_loop env b (Inr (c @ d) # rs) z"
proof -
  let ?fs = "split_frames (b @ c)"
  have "split_frames (b @ c @ d) = butlast ?fs @ split_frames (last ?fs @ d)"
    using split_frames_append [of "b @ c" d] by simp
  moreover have "read_loop env x (Inr d # rs) = (\<lambda>z. and_then (parse_frames env (butlast (split_frames (x @ d))) z)
      (read_loop env (last (split_frames (x @ d))) rs))" for x
    by (rule ext) (simp add: Let_def)
  ultimately show ?thesis
    by (simp add: Let_def butlast_append parse_frames_append and_then_assoc)
qed

lemma read_loop_concat: "read_loop env b (Inr c # map Inr cs @ rs) z = read_loop env b (Inr (c @ concat cs) # rs) z"
proof (induction cs arbitrary: c)
  case (Cons d cs)
  have "read_loop env b (Inr c # map Inr (d # cs) @ rs) z = read_loop env b (Inr (c @ d) # map Inr cs @ rs) z"
    by (simp only: list.map append_Cons read_loop_merge)
  then show ?case by (simp only: Cons.IH concat.simps append_assoc)
qed simp

lemma read_loop_empty: "read_loop env [] (Inr [] # rs) z = read_loop env [] rs z"
  by (simp add: Let_def)

lemma read_loop_chunks: "read_loop env [] (map Inr cs @ rs) z = read_loop env [] (Inr (concat cs) # rs) z"
proof (cases cs)
  case Nil then show ?thesis by (simp only: list.map concat.simps append_Nil read_loop_empty)
next
  case (Cons c ds) then show ?thesis by (simp only: list.map append_Cons read_loop_concat concat.simps)
qed

section \<open>The queues\<close>

text \<open>What the callers of the object do.\<close>

datatype sse_op = Set_active "string option" | Bind_response string string | Set_fallback "string option" | Remove_fallback string
  | Quarantine_fallback string | Reject_turn string | Restore_turn string | Replace_fallback string string | Normalize_frame tagged_event

fun sse_step :: "sse_env \<Rightarrow> sse_op \<Rightarrow> sse_normalizer \<Rightarrow> sse_normalizer" where
  "sse_step env (Set_active r) z = set_active_response_id r z"
| "sse_step env (Bind_response r t) z = bind_response_id r t z"
| "sse_step env (Set_fallback t) z = set_fallback_turn_id t z"
| "sse_step env (Remove_fallback t) z = remove_fallback_turn_id t z"
| "sse_step env (Quarantine_fallback t) z = quarantine_fallback_turn_id t z"
| "sse_step env (Reject_turn t) z = reject_turn_id t z"
| "sse_step env (Restore_turn t) z = restore_rejected_turn_id t z"
| "sse_step env (Replace_fallback p n) z = replace_fallback_turn_id p n z"
| "sse_step env (Normalize_frame f) z = snd (normalize env f z)"

text \<open>Turns are renamed by replaceFallbackTurnId, which does not look at what the new name stands for. A renaming
  merges two turns when one of the two names waits and a response is bound to the other, or the other waits
  for its late events.\<close>

definition turns_of :: "(string \<times> string) list \<Rightarrow> string set" where
  "turns_of m = snd ` set m"

definition past_waiting :: "sse_normalizer \<Rightarrow> string \<Rightarrow> bool" where
  "past_waiting z t \<longleftrightarrow> t \<in> set (nz_pending z) \<or> t \<in> turns_of (nz_aliases z)"

fun merges_turns :: "sse_normalizer \<Rightarrow> sse_op \<Rightarrow> bool" where
  "merges_turns z (Replace_fallback p n) \<longleftrightarrow> p \<noteq> n
     \<and> (p \<in> set (nz_unbound z) \<and> past_waiting z n \<or> n \<in> set (nz_unbound z) \<and> past_waiting z p)"
| "merges_turns z _ \<longleftrightarrow> False"

inductive sse_reachable :: "sse_env \<Rightarrow> sse_normalizer \<Rightarrow> bool" for env where
  start: "sse_reachable env new_normalizer"
| step: "sse_reachable env z \<Longrightarrow> \<not> merges_turns z p \<Longrightarrow> sse_reachable env (sse_step env p z)"

text \<open>A turn waits at most once, in one queue, and not when a response is bound to it.\<close>

definition queues_ok :: "sse_normalizer \<Rightarrow> bool" where
  "queues_ok z \<longleftrightarrow> distinct (nz_unbound z) \<and> distinct (nz_pending z) \<and> distinct (map fst (nz_aliases z))
     \<and> (\<forall>t \<in> set (nz_unbound z). t \<notin> set (nz_pending z) \<and> t \<notin> turns_of (nz_aliases z))"

lemma set_remove1_distinct [simp]: "distinct xs \<Longrightarrow> set (remove1 x xs) = set xs - {x}"
  by (simp add: set_remove1_eq)

lemma turns_update: "b \<in> turns_of (AList.update r t m) \<Longrightarrow> b = t \<or> b \<in> turns_of m"
  unfolding turns_of_def by (induction m) (auto split: if_splits)

lemma turns_drop: "turns_of (drop_turn t m) = turns_of m - {t}"
  by (auto simp: turns_of_def drop_turn_def)

lemma turns_retarget: "turns_of (retarget p n m) = (if p \<in> turns_of m then insert n (turns_of m - {p}) else turns_of m)"
  by (force simp: turns_of_def retarget_def split: if_splits)

lemma keys_kept: "map fst (retarget p n m) = map fst m" "distinct (map fst m) \<Longrightarrow> distinct (map fst (drop_turn t m))"
  by (auto simp: retarget_def drop_turn_def distinct_map comp_def split_beta intro: inj_on_subset)

lemma untracked_iff: "untracked t z \<longleftrightarrow> t \<notin> set (nz_unbound z) \<and> t \<notin> set (nz_pending z) \<and> t \<notin> turns_of (nz_aliases z)"
  by (simp add: untracked_def turns_of_def)

lemma bind_queues: "queues_ok z \<Longrightarrow> queues_ok (bind_response_alias r t z)"
  by (auto simp: queues_ok_def bind_response_alias_def remove_pending_def remove_unbound_def distinct_update dest!: turns_update)

lemma track_queues: "queues_ok z \<Longrightarrow> queues_ok (track t z)"
  by (auto simp: queues_ok_def track_def untracked_iff)

text \<open>Only the queues and the bindings matter.\<close>

lemma queues_same:
  assumes "queues_ok z" "nz_unbound z' = nz_unbound z" "nz_pending z' = nz_pending z" "nz_aliases z' = nz_aliases z"
  shows "queues_ok z'"
  using assms by (simp add: queues_ok_def)

lemma drop_queues: "queues_ok z \<Longrightarrow> queues_ok (z\<lparr>nz_fallback := f, nz_aliases := drop_turn t (nz_aliases z), nz_tentative := m\<rparr>)"
  by (simp add: queues_ok_def turns_drop keys_kept)

lemma remove_queues: "queues_ok z \<Longrightarrow> queues_ok (remove_unbound t z)" "queues_ok z \<Longrightarrow> queues_ok (remove_pending t z)"
  by (simp_all add: queues_ok_def remove_unbound_def remove_pending_def)

lemma replace_tracked_set:
  assumes "distinct ts"
  shows "set (replace_tracked p n ts) = (if p \<in> set ts then insert n (set ts - {p}) else set ts) \<and> distinct (replace_tracked p n ts)"
proof (cases "p \<in> set ts \<and> n \<notin> set (remove1 p ts)")
  case True
  let ?us = "remove1 p ts"
  obtain xs ys where r: "replace_tracked p n ts = xs @ n # ys" and us: "xs @ ys = ?us"
    using True by (auto simp: replace_tracked_def Let_def)
  have "set xs \<union> set ys = set ts - {p}" using us assms by (metis set_append set_remove1_distinct)
  moreover have "distinct (xs @ ys)" "n \<notin> set xs \<union> set ys" using us assms True by (simp, metis set_append)
  ultimately show ?thesis using True by (simp add: r) blast
qed (auto simp: replace_tracked_def Let_def assms)

text \<open>A renaming keeps the queues consistent exactly when it merges nothing.\<close>

lemma replace_queues:
  assumes "queues_ok z" shows "queues_ok (replace_fallback_turn_id p n z) \<longleftrightarrow> \<not> merges_turns z (Replace_fallback p n)"
proof (cases "p = n")
  case False
  have q: "distinct (nz_unbound z)" "distinct (nz_pending z)" "distinct (map fst (nz_aliases z))"
      "\<And>t. t \<in> set (nz_unbound z) \<Longrightarrow> t \<notin> set (nz_pending z) \<and> t \<notin> turns_of (nz_aliases z)"
    using assms by (auto simp: queues_ok_def)
  show ?thesis
    using False q(3,4) by (auto simp: queues_ok_def replace_fallback_turn_id_def keys_kept past_waiting_def turns_retarget
      replace_tracked_set [OF q(1)] replace_tracked_set [OF q(2)] split: if_splits)
qed (simp add: assms replace_fallback_turn_id_def)

lemma first_queues: "queues_ok z \<Longrightarrow> first_alias terminal z = (a, confirmed, z') \<Longrightarrow> queues_ok z'"
  by (auto simp: first_alias_def queues_ok_def split: if_splits list.splits)

lemma confirmed_queues: "queues_ok (snd (snd x)) \<Longrightarrow> queues_ok (snd (snd (bind_if_confirmed r x)))"
  by (auto simp: bind_if_confirmed_def bind_queues split: option.splits bool.splits prod.splits)

lemma known_queues: "queues_ok (z\<lparr>nz_known := k\<rparr>) = queues_ok z"
  by (simp add: queues_ok_def)

lemma resolve_queues: assumes "queues_ok z" shows "queues_ok (snd (snd (resolve_alias i z)))"
proof -
  have "queues_ok (snd (snd (first_alias (fi_terminal i) z)))"
    using first_queues [OF assms] by (cases "first_alias (fi_terminal i) z") auto
  from confirmed_queues [OF this] show ?thesis
    using assms by (simp add: resolve_alias_def bind_queues known_queues split: option.split prod.split) (metis snd_conv)
qed

lemma settle_queues: "queues_ok z \<Longrightarrow> queues_ok (settle_frame i previous turn a c z)"
proof -
  assume z: "queues_ok z"
  have park: "queues_ok (park_turn i previous turn z)"
    using z by (auto simp: park_turn_def queues_ok_def remove_unbound_def Let_def split: option.split)
  have release: "queues_ok (release_alias a c z)" if "queues_ok z" for z
    using that by (simp add: release_alias_def remove_queues split: option.split)
  have rest: "queues_ok (end_fallback turn a (end_response i previous turn z)) = queues_ok z" for z
    by (simp add: end_fallback_def end_response_def queues_ok_def)
  show ?thesis
    using z release [OF park] by (simp add: settle_frame_def settle_terminal_def rest) (simp add: queues_ok_def)
qed

lemma note_queues: "queues_ok z \<Longrightarrow> queues_ok (note_quarantine i (z\<lparr>nz_ordinal := k\<rparr>))"
  by (simp add: note_quarantine_def queues_ok_def split: option.split)

lemma ordinal_queues: "queues_ok (z\<lparr>nz_ordinal := k\<rparr>) = queues_ok z"
  by (simp add: queues_ok_def)

lemma normalize_queues: assumes "queues_ok z" shows "queues_ok (snd (normalize env f z))"
proof -
  obtain ty raw where f: "f = (ty, raw)" by (cases f)
  let ?z = "note_quarantine (frame_identity ty raw) (z\<lparr>nz_ordinal := nz_ordinal z + 1\<rparr>)"
  have "queues_ok (snd (snd (resolve_alias (frame_identity ty raw) ?z)))"
    by (rule resolve_queues [OF note_queues [OF assms]])
  then show ?thesis
    using assms by (auto simp: normalize_def f Let_def settle_queues ordinal_queues split: prod.split sum.split)
qed

lemma sse_step_queues: "queues_ok z \<Longrightarrow> \<not> merges_turns z p \<Longrightarrow> queues_ok (sse_step env p z)"
proof (cases p)
  case (Set_active r)
  then show "queues_ok z \<Longrightarrow> queues_ok (sse_step env p z)"
    by (auto simp: set_active_response_id_def Let_def queues_ok_def split: option.split list.split)
next
  case (Bind_response r t)
  then show "queues_ok z \<Longrightarrow> queues_ok (sse_step env p z)" by (simp add: bind_response_id_def bind_queues known_queues)
next
  case (Set_fallback t)
  then show "queues_ok z \<Longrightarrow> queues_ok (sse_step env p z)"
    by (auto simp: set_fallback_turn_id_def intro!: track_queues split: option.split) (auto simp: queues_ok_def)
next
  case (Remove_fallback t)
  then show "queues_ok z \<Longrightarrow> queues_ok (sse_step env p z)" by (simp add: remove_fallback_turn_id_def remove_queues drop_queues)
next
  case (Quarantine_fallback t)
  then show "queues_ok z \<Longrightarrow> queues_ok (sse_step env p z)"
    by (auto simp: quarantine_fallback_turn_id_def intro!: track_queues) (auto simp: queues_ok_def)
next
  case (Reject_turn t)
  have "queues_ok (remove_fallback_turn_id t (z\<lparr>nz_rejected := insert t (nz_rejected z)\<rparr>))" if "queues_ok z"
    unfolding remove_fallback_turn_id_def by (intro remove_queues drop_queues) (use that in \<open>simp add: queues_ok_def\<close>)
  then show "queues_ok z \<Longrightarrow> queues_ok (sse_step env p z)" using Reject_turn by (simp add: reject_turn_id_def Let_def queues_ok_def)
next
  case (Restore_turn t)
  then show "queues_ok z \<Longrightarrow> queues_ok (sse_step env p z)" by (simp add: restore_rejected_turn_id_def queues_ok_def)
next
  case (Replace_fallback a b)
  then show "queues_ok z \<Longrightarrow> \<not> merges_turns z p \<Longrightarrow> queues_ok (sse_step env p z)" by (simp add: replace_queues)
next
  case (Normalize_frame f)
  then show "queues_ok z \<Longrightarrow> queues_ok (sse_step env p z)" by (simp add: normalize_queues)
qed

lemma reachable_queues: "sse_reachable env z \<Longrightarrow> queues_ok z"
proof (induction rule: sse_reachable.induct)
  case start show ?case by (simp add: queues_ok_def new_normalizer_def)
qed (rule sse_step_queues)

lemma merging_breaks: "queues_ok z \<Longrightarrow> merges_turns z p \<Longrightarrow> \<not> queues_ok (sse_step env p z)"
  by (cases p) (simp_all add: replace_queues)

section \<open>Following a response\<close>

definition frame_response :: "tagged_event \<Rightarrow> string option" where
  "frame_response f = (case f of (ty, raw) \<Rightarrow> if ty = ''response.elicitation_resolved'' then None else official_id (frame_identity ty raw))"

definition ends_turn :: "tagged_event \<Rightarrow> bool" where
  "ends_turn f \<longleftrightarrow> (case f of (ty, raw) \<Rightarrow> fi_terminal (frame_identity ty raw))"

definition belongs :: "string \<Rightarrow> sse_event \<Rightarrow> bool" where
  "belongs t ev \<longleftrightarrow> re_turn_alias_id ev = Some t \<and> se_alias_confirmed ev"

lemma official_not_passive: "official_id (frame_identity ty raw) = Some r \<Longrightarrow> \<not> fi_passive (frame_identity ty raw)"
  by (auto simp: frame_identity_def official_id_def Let_def)

lemma normalize_official:
  assumes "frame_response (ty, raw) = Some r" "normalize env (ty, raw) z = (Inr ev, z')" "r \<notin> nz_rejected z"
  obtains z1 turn a c z2 where "z1 = z\<lparr>nz_ordinal := nz_ordinal z + 1, nz_quarantine := None\<rparr>"
    and "official_id (frame_identity ty raw) = Some r" and "resolve_alias (frame_identity ty raw) z1 = (a, c, z2)"
    and "re_turn_alias_id ev = a" and "se_alias_confirmed ev = c"
    and "z' = settle_frame (frame_identity ty raw) (nz_current z) turn a c z2"
proof -
  have ty: "ty \<noteq> ''response.elicitation_resolved''" and r: "official_id (frame_identity ty raw) = Some r"
    using assms(1) by (auto simp: frame_response_def split: if_splits)
  let ?z = "z\<lparr>nz_ordinal := nz_ordinal z + 1, nz_quarantine := None\<rparr>"
  have z: "note_quarantine (frame_identity ty raw) (z\<lparr>nz_ordinal := nz_ordinal z + 1\<rparr>) = ?z"
    using assms(3) r by (simp add: note_quarantine_def)
  obtain a c z2 where a: "resolve_alias (frame_identity ty raw) ?z = (a, c, z2)" by (cases "resolve_alias (frame_identity ty raw) ?z") auto
  show thesis
    using assms(2) ty a by (auto simp: normalize_def Let_def z build_event_def intro: that [OF refl r a] split: sum.splits)
qed

lemma settled_response:
  assumes "official_id i = Some r" "r \<notin> nz_rejected z"
  shows "settle_frame i previous turn (Some t) True z = (if fi_terminal i
     then end_fallback turn (Some t) (end_response i previous turn (remove_pending t (remove_unbound t z))) else z\<lparr>nz_current := Some r\<rparr>)"
  using assms by (simp add: settle_frame_def settle_terminal_def park_turn_def release_alias_def official_rejected_def split: option.split)

lemma bound_frame:
  assumes "frame_response f = Some r" "normalize env f z = (Inr ev, z')" "r \<notin> nz_rejected z" "map_of (nz_aliases z) r = Some t"
  shows "belongs t ev \<and> map_of (nz_aliases z') r = Some t \<and> nz_rejected z' = nz_rejected z
    \<and> (if ends_turn f then nz_unbound z' = remove1 t (nz_unbound z) \<and> nz_pending z' = remove1 t (nz_pending z) \<and> nz_fallback z' \<noteq> Some t
         \<and> nz_current z' = (if nz_current z = Some r then None else nz_current z)
       else nz_unbound z' = nz_unbound z \<and> nz_pending z' = nz_pending z \<and> nz_current z' = Some r)"
proof -
  obtain ty raw where f: "f = (ty, raw)" by (cases f)
  let ?i = "frame_identity ty raw"
  obtain z1 turn a c z2 where n: "z1 = z\<lparr>nz_ordinal := nz_ordinal z + 1, nz_quarantine := None\<rparr>" "official_id ?i = Some r"
      "resolve_alias ?i z1 = (a, c, z2)" "re_turn_alias_id ev = a" "se_alias_confirmed ev = c"
      "z' = settle_frame ?i (nz_current z) turn a c z2"
    using normalize_official [OF assms(1,2) [unfolded f] assms(3)] by metis
  have a: "a = Some t" "c" "z2 = z1\<lparr>nz_known := insert r (nz_known z)\<rparr>"
    using n(2,3) assms(3,4) official_not_passive [OF n(2)] by (auto simp: resolve_alias_def known_alias_def n(1))
  have "r \<notin> nz_rejected z2" using assms(3) by (simp add: a n(1))
  from settled_response [OF n(2) this] show ?thesis
    using n a assms(4) by (auto simp: belongs_def f ends_turn_def end_fallback_def end_response_def remove_pending_def remove_unbound_def)
qed

lemma first_frame:
  assumes "frame_response f = Some r" "normalize env f z = (Inr ev, z')" "\<not> ends_turn f" "r \<notin> nz_rejected z" "r \<notin> nz_known z"
    "map_of (nz_aliases z) r = None" "map_of (nz_tentative z) r = None" "nz_unbound z = t # ts" "queues_ok z"
  shows "belongs t ev \<and> map_of (nz_aliases z') r = Some t \<and> nz_rejected z' = nz_rejected z \<and> nz_unbound z' = ts
    \<and> nz_pending z' = nz_pending z \<and> nz_current z' = Some r"
proof -
  obtain ty raw where f: "f = (ty, raw)" by (cases f)
  let ?i = "frame_identity ty raw"
  obtain z1 turn a c z2 where n: "z1 = z\<lparr>nz_ordinal := nz_ordinal z + 1, nz_quarantine := None\<rparr>" "official_id ?i = Some r"
      "resolve_alias ?i z1 = (a, c, z2)" "re_turn_alias_id ev = a" "se_alias_confirmed ev = c"
      "z' = settle_frame ?i (nz_current z) turn a c z2"
    using normalize_official [OF assms(1,2) [unfolded f] assms(4)] by metis
  have t: "t \<notin> set ts" "t \<notin> set (nz_pending z)" using assms(8,9) by (auto simp: queues_ok_def)
  have live: "\<not> fi_terminal ?i" using assms(3) by (simp add: f ends_turn_def)
  have a: "a = Some t" "c" "z2 = (bind_response_alias r t (z1\<lparr>nz_unbound := ts\<rparr>))\<lparr>nz_known := insert r (nz_known z)\<rparr>"
    using n(2,3) assms(4-8) official_not_passive [OF n(2)] live
    by (auto simp: resolve_alias_def known_alias_def n(1) first_alias_def bind_if_confirmed_def bind_response_alias_def
        remove_pending_def remove_unbound_def)
  have "r \<notin> nz_rejected z2" using assms(4) by (simp add: a n(1) bind_response_alias_def remove_pending_def remove_unbound_def)
  from settled_response [OF n(2) this] show ?thesis
    using n a t live by (simp add: belongs_def bind_response_alias_def remove_pending_def remove_unbound_def update_conv' remove1_idem)
qed

fun normalize_all :: "sse_env \<Rightarrow> tagged_event list \<Rightarrow> sse_normalizer \<Rightarrow> (thrown, sse_event list) result \<times> sse_normalizer" where
  "normalize_all env [] z = (Inr [], z)"
| "normalize_all env (f # fs) z = (case normalize env f z of
     (Inl e, z') \<Rightarrow> (Inl e, z')
   | (Inr ev, z') \<Rightarrow> (case normalize_all env fs z' of (Inl e, z'') \<Rightarrow> (Inl e, z'') | (Inr evs, z'') \<Rightarrow> (Inr (ev # evs), z'')))"

lemma normalize_all_Cons:
  "normalize_all env (f # fs) z = (Inr evs, z'') \<longleftrightarrow>
     (\<exists>ev z' rest. normalize env f z = (Inr ev, z') \<and> normalize_all env fs z' = (Inr rest, z'') \<and> evs = ev # rest)"
  by (auto split: prod.splits sum.splits)

lemma normalize_all_append:
  "normalize_all env (fs @ gs) z = (Inr evs, z'') \<longleftrightarrow>
     (\<exists>xs z' ys. normalize_all env fs z = (Inr xs, z') \<and> normalize_all env gs z' = (Inr ys, z'') \<and> evs = xs @ ys)"
  by (induction fs arbitrary: z evs) (auto simp del: normalize_all.simps(2) simp: normalize_all_Cons)

lemma followed:
  assumes "normalize_all env fs z = (Inr evs, z')" "\<forall>f \<in> set fs. frame_response f = Some r \<and> \<not> ends_turn f"
    "r \<notin> nz_rejected z" "map_of (nz_aliases z) r = Some t" "nz_current z = Some r"
  shows "(\<forall>ev \<in> set evs. belongs t ev) \<and> map_of (nz_aliases z') r = Some t \<and> nz_rejected z' = nz_rejected z
    \<and> nz_unbound z' = nz_unbound z \<and> nz_pending z' = nz_pending z \<and> nz_current z' = Some r"
  using assms
proof (induction fs arbitrary: z evs)
  case (Cons f fs)
  obtain ev z1 rest where n: "normalize env f z = (Inr ev, z1)" "normalize_all env fs z1 = (Inr rest, z')" "evs = ev # rest"
    using Cons.prems(1) by (auto simp: normalize_all_Cons simp del: normalize_all.simps)
  have b: "belongs t ev" "map_of (nz_aliases z1) r = Some t" "nz_rejected z1 = nz_rejected z" "nz_unbound z1 = nz_unbound z"
      "nz_pending z1 = nz_pending z" "nz_current z1 = Some r"
    using bound_frame [OF _ n(1) Cons.prems(3,4)] Cons.prems(2) by auto
  from Cons.IH [OF n(2)] Cons.prems(2,3) b show ?case by (simp add: n(3))
qed simp

lemma response_followed:
  assumes run: "normalize_all env (f # fs @ [e]) z = (Inr evs, z')" and q: "queues_ok z"
    and frames: "\<forall>g \<in> set (f # fs @ [e]). frame_response g = Some r" "\<forall>g \<in> set (f # fs). \<not> ends_turn g" "ends_turn e"
    and new: "r \<notin> nz_rejected z" "r \<notin> nz_known z" "map_of (nz_aliases z) r = None" "map_of (nz_tentative z) r = None"
    and turn: "nz_unbound z = t # ts"
  shows "(\<forall>ev \<in> set evs. belongs t ev) \<and> nz_unbound z' = ts \<and> nz_pending z' = nz_pending z \<and> nz_current z' = None \<and> nz_fallback z' \<noteq> Some t"
proof -
  obtain ev z1 xs z2 x where n: "normalize env f z = (Inr ev, z1)" "normalize_all env fs z1 = (Inr xs, z2)"
      "normalize env e z2 = (Inr x, z')" "evs = ev # xs @ [x]"
    using run by (auto simp: normalize_all_Cons normalize_all_append simp del: normalize_all.simps(2))
  have b: "belongs t ev" "map_of (nz_aliases z1) r = Some t" "nz_rejected z1 = nz_rejected z" "nz_unbound z1 = ts"
      "nz_pending z1 = nz_pending z" "nz_current z1 = Some r"
    using first_frame [OF _ n(1) _ new turn q] frames by auto
  have c: "\<forall>ev \<in> set xs. belongs t ev" "map_of (nz_aliases z2) r = Some t" "nz_rejected z2 = nz_rejected z"
      "nz_unbound z2 = ts" "nz_pending z2 = nz_pending z" "nz_current z2 = Some r"
    using followed [OF n(2), of r t] frames new(1) b by auto
  have "t \<notin> set ts" "t \<notin> set (nz_pending z)" using q turn by (auto simp: queues_ok_def)
  then show ?thesis
    using bound_frame [OF _ n(3), of r t] frames c new(1) b(1) by (simp add: n(4) remove1_idem)
qed

section \<open>Frames without effect\<close>

definition passive_frame :: "tagged_event \<Rightarrow> bool" where
  "passive_frame f \<longleftrightarrow> fst f = ''session.permission_mode'' \<or> fst f = ''session.title''"

definition rejected_frame :: "sse_normalizer \<Rightarrow> tagged_event \<Rightarrow> bool" where
  "rejected_frame z f \<longleftrightarrow> (\<exists>r \<in> nz_rejected z. frame_response f = Some r) \<and> \<not> ends_turn f"

lemma passive_inert:
  assumes "passive_frame f"
  shows "snd (normalize env f z) = z\<lparr>nz_ordinal := nz_ordinal z + 1\<rparr>
    \<and> (case fst (normalize env f z) of Inl _ \<Rightarrow> True | Inr ev \<Rightarrow> re_turn_id ev = None \<and> re_turn_alias_id ev = None \<and> \<not> se_terminal ev)"
proof -
  obtain ty raw where f: "f = (ty, raw)" by (cases f)
  let ?i = "frame_identity ty raw"
  have i: "fi_passive ?i" "official_id ?i = None" "\<not> fi_terminal ?i" and ty: "ty \<noteq> ''response.elicitation_resolved''"
    using assms by (auto simp: f passive_frame_def frame_identity_def official_id_def Let_def response_end_types_def)
  then show ?thesis
    by (simp add: f normalize_def Let_def note_quarantine_def resolve_alias_def known_alias_def turn_of_def settle_frame_def build_event_def
        split: sum.split)
qed

lemma rejected_inert:
  assumes "rejected_frame z f"
  shows "snd (normalize env f z) = z\<lparr>nz_ordinal := nz_ordinal z + 1, nz_quarantine := frame_response f\<rparr>"
proof -
  obtain ty raw where f: "f = (ty, raw)" by (cases f)
  let ?i = "frame_identity ty raw"
  obtain r where r: "r \<in> nz_rejected z" "official_id ?i = Some r" "ty \<noteq> ''response.elicitation_resolved''" "\<not> fi_terminal ?i"
    using assms by (auto simp: rejected_frame_def f frame_response_def ends_turn_def split: if_splits)
  then show ?thesis
    by (simp add: f normalize_def Let_def note_quarantine_def resolve_alias_def settle_frame_def official_rejected_def frame_response_def
        split: sum.split)
qed

section \<open>A small stream\<close>

definition demo_sse_env :: sse_env where
  "demo_sse_env = \<lparr>sn_session_id = ''s'', sn_prefix = None, sn_now = (\<lambda>_. ''now''), sn_number = (\<lambda>_. []), sn_parse = (\<lambda>_. None)\<rparr>"

definition demo_frame :: "string \<Rightarrow> tagged_event" where
  "demo_frame ty = (ty, [(''type'', J_str ty), (''response'', J_obj [(''id'', J_str ''r'')])])"

definition demo_waiting :: sse_normalizer where
  "demo_waiting = set_fallback_turn_id (Some ''t'') new_normalizer"

lemma demo_frames:
  "frame_response (demo_frame ''response.created'') = Some ''r''" "frame_response (demo_frame ''response.completed'') = Some ''r''"
  "\<not> ends_turn (demo_frame ''response.created'')" "ends_turn (demo_frame ''response.completed'')"
  by code_simp+

lemma demo_followed:
  "case normalize_all demo_sse_env (demo_frame ''response.created'' # [] @ [demo_frame ''response.completed'']) demo_waiting of
     (Inr evs, z) \<Rightarrow> length evs = Suc (Suc 0) | _ \<Rightarrow> False"
  by code_simp

text \<open>A time no date can have is thrown out of the stream, where a payload that is not an event is skipped.\<close>

lemma bad_time_thrown: "epoch_to_iso (Some (J_num (Fin 8640000000001))) = Inl (Range_error ''Invalid time value'')"
  by code_simp

text \<open>A first turn bound to a response, while a second one waits: the second must not be renamed to the first.\<close>

definition demo_bound :: sse_normalizer where
  "demo_bound = sse_step demo_sse_env (Set_fallback (Some ''b''))
     (sse_step demo_sse_env (Normalize_frame (demo_frame ''response.created'')) (sse_step demo_sse_env (Set_fallback (Some ''a'')) new_normalizer))"

lemma demo_bound_queues: "nz_unbound demo_bound = [''b'']" "nz_pending demo_bound = []" "nz_aliases demo_bound = [(''r'', ''a'')]"
  by code_simp+

text \<open>C19: The events a stream gives, what it skips, what it throws and the state it leaves depend on the text
  that arrives, not on how the text is cut into chunks.\<close>

theorem chunking_irrelevant:
  assumes "concat cs = concat ds"
  shows "parse_omnigent_sse_stream env cancelled (map Inr cs @ rest) z = parse_omnigent_sse_stream env cancelled (map Inr ds @ rest) z"
  by (simp only: parse_omnigent_sse_stream_def read_loop_chunks assms)

theorem chunking_irrelevant_witness:
  "\<forall>env z. parse_omnigent_sse_stream env False [Inr ''data: 1'', Inr [newline], Inr [newline]] z
     = parse_omnigent_sse_stream env False [Inr (''data: 1'' @ [newline, newline])] z"
  using chunking_irrelevant [of "[''data: 1'', [newline], [newline]]" "[''data: 1'' @ [newline, newline]]" _ False "[]"] by simp

text \<open>C20: As long as no renaming merges two turns, the callers may do whatever they want and frames may arrive in
  any order: a turn waits at most once, in one queue only, and never while a response is bound to it, and a
  response is bound to one turn. The restriction is the least possible: in every such state the next call or
  frame keeps all this exactly when it is not a renaming where one name waits and the other is bound to a
  response or waits for late events.\<close>

theorem waiting_turns_consistent:
  assumes "sse_reachable env z"
  shows "queues_ok z \<and> (\<forall>p. queues_ok (sse_step env p z) \<longleftrightarrow> \<not> merges_turns z p)"
  using reachable_queues [OF assms] sse_step_queues merging_breaks by blast

theorem waiting_turns_consistent_witness:
  "queues_ok demo_bound \<and> \<not> queues_ok (replace_fallback_turn_id ''b'' ''a'' demo_bound) \<and> queues_ok (replace_fallback_turn_id ''b'' ''c'' demo_bound)"
proof -
  have "sse_reachable demo_sse_env demo_bound" unfolding demo_bound_def
    by (intro sse_reachable.intros) (simp_all only: merges_turns.simps not_False_eq_True)
  then have q: "queues_ok demo_bound \<and> (\<forall>p. queues_ok (sse_step demo_sse_env p demo_bound) \<longleftrightarrow> \<not> merges_turns demo_bound p)"
    by (rule waiting_turns_consistent)
  have "merges_turns demo_bound (Replace_fallback ''b'' ''a'')" "\<not> merges_turns demo_bound (Replace_fallback ''b'' ''c'')"
    by (simp_all add: past_waiting_def demo_bound_queues turns_of_def)
  then show ?thesis using q by (metis sse_step.simps(8))
qed

text \<open>C17: The first event of a new response binds it to the turn that has waited longest; every later event
  of the response up to its end is reported, confirmed, for that turn; then the turn waits nowhere and is
  no longer the fallback, and the other waiting turns are as before.\<close>

theorem turn_followed:
  assumes "normalize_all env (f # fs @ [e]) z = (Inr evs, z')" and "queues_ok z"
    and "\<forall>g \<in> set (f # fs @ [e]). frame_response g = Some r" and "\<forall>g \<in> set (f # fs). \<not> ends_turn g" and "ends_turn e"
    and "r \<notin> nz_rejected z" and "r \<notin> nz_known z" and "map_of (nz_aliases z) r = None" and "map_of (nz_tentative z) r = None"
    and "nz_unbound z = t # ts"
  shows "(\<forall>ev \<in> set evs. belongs t ev) \<and> nz_unbound z' = ts \<and> nz_pending z' = nz_pending z \<and> nz_current z' = None \<and> nz_fallback z' \<noteq> Some t"
  by (rule response_followed [OF assms])

theorem turn_followed_witness:
  "\<exists>evs z. normalize_all demo_sse_env [demo_frame ''response.created'', demo_frame ''response.completed''] demo_waiting = (Inr evs, z)
     \<and> (\<forall>ev \<in> set evs. belongs ''t'' ev) \<and> nz_unbound z = [] \<and> nz_fallback z = None"
proof -
  obtain evs z where n: "normalize_all demo_sse_env (demo_frame ''response.created'' # [] @ [demo_frame ''response.completed'']) demo_waiting = (Inr evs, z)"
    using demo_followed by (auto split: prod.splits sum.splits)
  have q: "queues_ok demo_waiting" "nz_unbound demo_waiting = [''t'']" "''r'' \<notin> nz_rejected demo_waiting" "''r'' \<notin> nz_known demo_waiting"
      "map_of (nz_aliases demo_waiting) ''r'' = None" "map_of (nz_tentative demo_waiting) ''r'' = None"
    by (simp_all add: demo_waiting_def set_fallback_turn_id_def new_normalizer_def track_def untracked_def queues_ok_def turns_of_def)
  have "case normalize_all demo_sse_env (demo_frame ''response.created'' # [] @ [demo_frame ''response.completed'']) demo_waiting of
     (_, z) \<Rightarrow> nz_fallback z = None" by code_simp
  then show ?thesis using turn_followed [OF n q(1) _ _ _ q(3-6) q(2)] n demo_frames by auto
qed

text \<open>Events of the permission mode and the title belong to no turn and change nothing but the count of
  frames; an event of a rejected response, unless it is an end, changes nothing but the count and the
  quarantine.\<close>

theorem inert_frames:
  "(passive_frame f \<longrightarrow> snd (normalize env f z) = z\<lparr>nz_ordinal := nz_ordinal z + 1\<rparr>
      \<and> (case fst (normalize env f z) of Inl _ \<Rightarrow> True | Inr ev \<Rightarrow> re_turn_id ev = None \<and> re_turn_alias_id ev = None \<and> \<not> se_terminal ev))
    \<and> (rejected_frame z f \<longrightarrow> snd (normalize env f z) = z\<lparr>nz_ordinal := nz_ordinal z + 1, nz_quarantine := frame_response f\<rparr>)"
  using passive_inert rejected_inert by blast

theorem inert_frames_witness:
  "snd (normalize demo_sse_env (demo_frame ''response.created'') (reject_turn_id ''r'' new_normalizer))
     = (reject_turn_id ''r'' new_normalizer)\<lparr>nz_ordinal := 1, nz_quarantine := Some ''r''\<rparr>"
proof -
  have "rejected_frame (reject_turn_id ''r'' new_normalizer) (demo_frame ''response.created'')" by code_simp
  moreover have "nz_ordinal (reject_turn_id ''r'' new_normalizer) = 0" by code_simp
  ultimately show ?thesis using inert_frames [of "demo_frame ''response.created''" demo_sse_env "reject_turn_id ''r'' new_normalizer"] demo_frames(1) by simp
qed

end
