(* ===== verification/OmnigentHistory.thy ===== *)
theory OmnigentHistory
  imports SseStream
begin

text \<open>
  The mapping of a stored history to runtime events (\<open>omnigent-transport/src/history-mapper.ts\<close>): a history
  of raw events, and a conversation whose items are messages, tool calls, tool outputs and errors. A \<open>Set\<close>
  is the list of its members in the order they were added. What is thrown leaves nothing behind.
\<close>

record mapped_history =
  mh_session_id :: string
  mh_events :: "runtime_event list"
  mh_seen_item_ids :: "string list"
  mh_started_turn_ids :: "string list"
  mh_terminal_turn_ids :: "string list"
  mh_text_by_turn :: "string \<rightharpoonup> string"
  mh_text_by_message :: "string \<rightharpoonup> string"
  mh_messages :: "string \<rightharpoonup> historical_message list"
  mh_tool_call_ids :: "string list"
  mh_tool_result_ids :: "string list"
  mh_sequence :: int

definition new_history :: "string \<Rightarrow> mapped_history" where
  "new_history session = \<lparr>mh_session_id = session, mh_events = [], mh_seen_item_ids = [], mh_started_turn_ids = [], mh_terminal_turn_ids = [],
     mh_text_by_turn = Map.empty, mh_text_by_message = Map.empty, mh_messages = Map.empty, mh_tool_call_ids = [], mh_tool_result_ids = [],
     mh_sequence = 1\<rparr>"

definition add_member :: "string \<Rightarrow> string list \<Rightarrow> string list" where
  "add_member x xs = (if x \<in> set xs then xs else xs @ [x])"

text \<open>The page a caller sees.\<close>

definition history_page :: "int option \<Rightarrow> runtime_event list \<Rightarrow> runtime_event list \<times> int" where
  "history_page after es = (let page = (case after of None \<Rightarrow> es | Some n \<Rightarrow> filter (\<lambda>e. n < ev_sequence e) es) in
     (page, if page = [] then or_else after 0 else ev_sequence (last page)))"

section \<open>Raw events\<close>

definition turn_texts :: "runtime_event list \<Rightarrow> (string \<rightharpoonup> string)" where
  "turn_texts es = foldl (\<lambda>m e. case (ev_payload e, present_text (ev_turn_id e)) of
       (Text_delta d, Some t) \<Rightarrow> m(t \<mapsto> or_else (m t) [] @ d) | _ \<Rightarrow> m) Map.empty es"

definition message_texts :: "raw_event list \<Rightarrow> (string \<rightharpoonup> string)" where
  "message_texts rs = foldl (\<lambda>m r. case (present_text (re_message_id r), present_text (re_delta r)) of
       (Some i, Some d) \<Rightarrow> if re_type r = ''response.output_text.delta'' then m(i \<mapsto> or_else (m i) [] @ d) else m | _ \<Rightarrow> m) Map.empty rs"

definition members :: "('a \<Rightarrow> string option) \<Rightarrow> 'a list \<Rightarrow> string list" where
  "members f xs = uniq (List.map_filter f xs)"

definition call_id_of :: "runtime_event \<Rightarrow> string option" where
  "call_id_of e = (case ev_payload e of Tool_call c \<Rightarrow> Some (tc_tool_call_id c) | _ \<Rightarrow> None)"

definition result_id_of :: "runtime_event \<Rightarrow> string option" where
  "result_id_of e = (case ev_payload e of Tool_result i _ \<Rightarrow> Some i | _ \<Rightarrow> None)"

definition started_turn_of :: "runtime_event \<Rightarrow> string option" where
  "started_turn_of e = (case ev_payload e of Turn_started _ _ \<Rightarrow> present_text (ev_turn_id e) | _ \<Rightarrow> None)"

definition terminal_turn_of :: "runtime_event \<Rightarrow> string option" where
  "terminal_turn_of e = (if ev_terminal e then present_text (ev_turn_id e) else None)"

text \<open>The identifiers seen are those the mapper has seen, a set.\<close>

definition map_omnigent_history :: "(string \<Rightarrow> bool) \<Rightarrow> string \<Rightarrow> raw_event list \<Rightarrow> event_mapper_options
    \<Rightarrow> (thrown, mapped_history \<times> string set) result" where
  "map_omnigent_history dt session rs o' = (case map_events dt rs (new_event_mapper session (o'\<lparr>eo_legacy := True\<rparr>)) of
       (Inl e, _) \<Rightarrow> Inl e
     | (Inr es, m) \<Rightarrow> Inr (\<lparr>mh_session_id = session, mh_events = es, mh_seen_item_ids = [],
         mh_started_turn_ids = members started_turn_of es, mh_terminal_turn_ids = members terminal_turn_of es,
         mh_text_by_turn = turn_texts es, mh_text_by_message = message_texts rs, mh_messages = Map.empty,
         mh_tool_call_ids = members call_id_of es, mh_tool_result_ids = members result_id_of es, mh_sequence = em_next_sequence m\<rparr>,
         em_seen_item_ids m))"

section \<open>Conversations\<close>

text \<open>An item; \<open>ci_data\<close> is the whole object.\<close>

record conversation_item =
  ci_id :: string
  ci_response_id :: string
  ci_type :: string
  ci_created_at :: jsnum
  ci_data :: json_record

definition content_text :: "conversation_item \<Rightarrow> string list" where
  "content_text item = (if map_of (ci_data item) ''is_meta'' = Some (J_bool True) then []
     else List.map_filter (\<lambda>b. case b of J_obj r \<Rightarrow> field_text r ''text'' | _ \<Rightarrow> None) (or_else (field_array (ci_data item) ''content'') []))"

definition append_event :: "(string \<Rightarrow> bool) \<Rightarrow> string \<Rightarrow> string \<Rightarrow> string \<Rightarrow> bool \<Rightarrow> event_payload \<Rightarrow> mapped_history
    \<Rightarrow> (thrown, mapped_history) result" where
  "append_event dt event_id t turn terminal payload h =
     bindr (create_runtime_event dt \<lparr>ev_event_id = event_id, ev_sequence = mh_sequence h, ev_session_id = mh_session_id h,
       ev_turn_id = Some turn, ev_occurred_at = t, ev_payload = payload, ev_terminal = terminal\<rparr>) (\<lambda>e.
     Inr (h\<lparr>mh_events := mh_events h @ [e], mh_sequence := mh_sequence h + 1\<rparr>))"

definition has_role :: "conversation_item \<Rightarrow> string \<Rightarrow> bool" where
  "has_role item r \<longleftrightarrow> map_of (ci_data item) ''role'' = Some (J_str r)"

definition started_message :: "conversation_item \<Rightarrow> string" where
  "started_message item = (let default = ''Omnigent turn '' @ ci_response_id item; joined = join_with [newline] (content_text item) in
     if ci_type item = ''message'' \<and> has_role item ''user'' \<and> joined \<noteq> [] then joined else default)"

definition ensure_started :: "(string \<Rightarrow> bool) \<Rightarrow> conversation_item \<Rightarrow> string \<Rightarrow> mapped_history \<Rightarrow> (thrown, mapped_history) result" where
  "ensure_started dt item t h = (let turn = ci_response_id item in
     if turn \<in> set (mh_started_turn_ids h) then Inr h
     else append_event dt (ci_id item @ '':turn-started'') t turn False (Turn_started (started_message item) T_running)
       (h\<lparr>mh_started_turn_ids := mh_started_turn_ids h @ [turn]\<rparr>))"

fun append_texts :: "(string \<Rightarrow> bool) \<Rightarrow> conversation_item \<Rightarrow> string \<Rightarrow> int \<Rightarrow> string list \<Rightarrow> mapped_history \<Rightarrow> (thrown, mapped_history) result" where
  "append_texts dt item t i [] h = Inr h"
| "append_texts dt item t i (d # ds) h =
     bindr (append_event dt (ci_id item @ '':text:'' @ show_int i) t (ci_response_id item) False (Text_delta d) h)
       (append_texts dt item t (i + 1) ds)"

definition record_item_text :: "conversation_item \<Rightarrow> mapped_history \<Rightarrow> mapped_history" where
  "record_item_text item h = (let turn = ci_response_id item; joined = concat (content_text item) in
     h\<lparr>mh_text_by_turn := (mh_text_by_turn h)(turn \<mapsto> or_else (mh_text_by_turn h turn) [] @ joined),
       mh_text_by_message := (mh_text_by_message h)(ci_id item \<mapsto> joined),
       mh_messages := (if content_text item = [] then mh_messages h
         else (mh_messages h)(turn \<mapsto> or_else (mh_messages h turn) [] @ [(ci_id item, joined)]))\<rparr>)"

definition append_terminal :: "(string \<Rightarrow> bool) \<Rightarrow> string \<Rightarrow> string \<Rightarrow> string \<Rightarrow> event_payload \<Rightarrow> mapped_history \<Rightarrow> (thrown, mapped_history) result" where
  "append_terminal dt event_id t turn payload h =
     append_event dt event_id t turn True payload (h\<lparr>mh_terminal_turn_ids := mh_terminal_turn_ids h @ [turn]\<rparr>)"

definition map_message :: "(string \<Rightarrow> bool) \<Rightarrow> conversation_item \<Rightarrow> string \<Rightarrow> mapped_history \<Rightarrow> (thrown, mapped_history) result" where
  "map_message dt item t h =
     (if map_of (ci_data item) ''is_meta'' = Some (J_bool True) \<or> \<not> (has_role item ''user'' \<or> has_role item ''assistant'') then Inr h
      else bindr (ensure_started dt item t h) (\<lambda>h.
        if has_role item ''user'' then Inr h
        else bindr (append_texts dt item t 0 (content_text item) (record_item_text item h)) (\<lambda>h.
          if map_of (ci_data item) ''interrupted'' = Some (J_bool True) \<and> ci_response_id item \<notin> set (mh_terminal_turn_ids h)
          then append_terminal dt (ci_id item @ '':cancelled'') t (ci_response_id item) (Turn_cancelled (Some ''interrupted'')) h
          else Inr h)))"

definition map_function_call :: "(string \<Rightarrow> bool) \<Rightarrow> conversation_item \<Rightarrow> string \<Rightarrow> mapped_history \<Rightarrow> (thrown, mapped_history) result" where
  "map_function_call dt item t h =
     (case (present_text (field_text (ci_data item) ''call_id''), present_text (field_text (ci_data item) ''name'')) of
        (Some call, Some tool) \<Rightarrow> bindr (ensure_started dt item t h) (\<lambda>h.
          append_event dt (ci_id item) t (ci_response_id item) False (Tool_call \<lparr>tc_tool_call_id = call, tc_session_id = mh_session_id h,
              tc_turn_id = ci_response_id item, tc_tool_name = tool, tc_arguments = map_of (ci_data item) ''arguments'', tc_approval_required = False\<rparr>)
            (h\<lparr>mh_tool_call_ids := add_member call (mh_tool_call_ids h)\<rparr>))
      | _ \<Rightarrow> Inr h)"

definition map_function_output :: "(string \<Rightarrow> bool) \<Rightarrow> conversation_item \<Rightarrow> string \<Rightarrow> mapped_history \<Rightarrow> (thrown, mapped_history) result" where
  "map_function_output dt item t h =
     (case present_text (field_text (ci_data item) ''call_id'') of
        Some call \<Rightarrow> bindr (ensure_started dt item t h) (\<lambda>h.
          append_event dt (ci_id item) t (ci_response_id item) False (Tool_result call (map_of (ci_data item) ''output''))
            (h\<lparr>mh_tool_result_ids := add_member call (mh_tool_result_ids h)\<rparr>))
      | None \<Rightarrow> Inr h)"

definition map_error_item :: "(string \<Rightarrow> bool) \<Rightarrow> conversation_item \<Rightarrow> string \<Rightarrow> mapped_history \<Rightarrow> (thrown, mapped_history) result" where
  "map_error_item dt item t h =
     (if ci_response_id item \<in> set (mh_terminal_turn_ids h) then Inr h
      else bindr (ensure_started dt item t h) (append_terminal dt (ci_id item) t (ci_response_id item)
        (Turn_failed (create_runtime_failure Omnigent Backend_unavailable
          (or_else (field_text (ci_data item) ''message'') ''Omnigent persisted a terminal error.'') True Scope_turn))))"

definition map_conversation_item :: "(string \<Rightarrow> bool) \<Rightarrow> conversation_item \<Rightarrow> mapped_history \<Rightarrow> (thrown, mapped_history) result" where
  "map_conversation_item dt item h =
     bindr (seconds_to_iso (ci_created_at item)) (\<lambda>t.
     let h = h\<lparr>mh_seen_item_ids := add_member (ci_id item) (mh_seen_item_ids h)\<rparr> in
       if ci_type item = ''message'' then map_message dt item t h
       else if ci_type item = ''function_call'' then map_function_call dt item t h
       else if ci_type item = ''function_call_output'' then map_function_output dt item t h
       else if ci_type item = ''error'' then map_error_item dt item t h
       else Inr h)"

fun map_conversation_items :: "(string \<Rightarrow> bool) \<Rightarrow> conversation_item list \<Rightarrow> mapped_history \<Rightarrow> (thrown, mapped_history) result" where
  "map_conversation_items dt [] h = Inr h"
| "map_conversation_items dt (i # is) h = bindr (map_conversation_item dt i h) (map_conversation_items dt is)"

definition map_omnigent_conversation_history :: "(string \<Rightarrow> bool) \<Rightarrow> string \<Rightarrow> conversation_item list \<Rightarrow> (thrown, mapped_history) result" where
  "map_omnigent_conversation_history dt session items = map_conversation_items dt items (new_history session)"

text \<open>The mapper that continues a history (\<open>streamEvents\<close> of \<open>http-provider.ts\<close>).\<close>

definition continued_options :: "int \<Rightarrow> mapped_history \<Rightarrow> event_mapper_options" where
  "continued_options start h = \<lparr>eo_historical_messages = mh_messages h, eo_historical_text_by_message = mh_text_by_message h,
     eo_historical_tool_call_ids = mh_tool_call_ids h, eo_historical_tool_result_ids = mh_tool_result_ids h, eo_legacy = False,
     eo_seen_item_ids = mh_seen_item_ids h, eo_starting_sequence = start, eo_started_turn_ids = mh_started_turn_ids h,
     eo_terminal_turn_ids = mh_terminal_turn_ids h\<rparr>"

end
