(* ===== verification/SessionSequence.thy ===== *)
theory SessionSequence
  imports OmnigentHistory LedgerReplay
begin

text \<open>
  The numbers a session's events are delivered under (\<open>streamEvents\<close> and \<open>resequenceRuntimeEvents\<close> of
  \<open>omnigent-transport/src/http-provider.ts\<close>): a provider remembers the number of every event it has
  delivered by the event's key, so that a history that is read again keeps its numbers. A stream is followed
  without a cursor, by one call at a time; the raw events are those the provider does not drop. What is
  thrown ends the stream; the events before it are those of the run without the failing one.
\<close>

section \<open>Keys\<close>

text \<open>\<open>eventId.replace(/:text:(\d+)$/, ":$1")\<close>.\<close>

definition text_event_name :: "string \<Rightarrow> string" where
  "text_event_name i = (let ds = takeWhile is_digit (rev i); us = dropWhile is_digit (rev i) in
     if ds \<noteq> [] \<and> starts_with (rev '':text:'') us then rev (drop 6 us) @ '':'' @ rev ds else i)"

text \<open>A template prints a missing turn as undefined.\<close>

definition turn_in_key :: "runtime_event \<Rightarrow> string" where
  "turn_in_key e = ''turn:'' @ or_else (ev_turn_id e) ''undefined'' @ '':''"

definition runtime_event_sequence_key :: "runtime_event \<Rightarrow> string" where
  "runtime_event_sequence_key e = (case ev_payload e of
       Turn_started _ _ \<Rightarrow> turn_in_key e @ ''started''
     | Turn_completed _ \<Rightarrow> turn_in_key e @ event_type (ev_payload e)
     | Turn_failed _ \<Rightarrow> turn_in_key e @ event_type (ev_payload e)
     | Turn_cancelled _ \<Rightarrow> turn_in_key e @ event_type (ev_payload e)
     | Turn_timed_out _ \<Rightarrow> turn_in_key e @ event_type (ev_payload e)
     | Text_delta _ \<Rightarrow> ''text:'' @ text_event_name (ev_event_id e)
     | Tool_call c \<Rightarrow> ''tool-call:'' @ tc_tool_call_id c
     | Tool_result i _ \<Rightarrow> ''tool-result:'' @ i
     | p \<Rightarrow> event_type p @ '':'' @ ev_event_id e)"

section \<open>Numbering\<close>

text \<open>The entries of one session in \<open>eventSequences\<close> and \<open>nextEventSequences\<close>.\<close>

record sequencing =
  sq_numbers :: "string \<rightharpoonup> int"
  sq_next :: int

definition new_sequencing :: sequencing where
  "new_sequencing = \<lparr>sq_numbers = Map.empty, sq_next = 1\<rparr>"

fun resequence_events :: "runtime_event list \<Rightarrow> sequencing \<Rightarrow> runtime_event list \<times> sequencing" where
  "resequence_events [] q = ([], q)"
| "resequence_events (e # es) q =
     (let k = runtime_event_sequence_key e;
          n = or_else (sq_numbers q k) (sq_next q);
          q1 = (if sq_numbers q k = None then q\<lparr>sq_numbers := (sq_numbers q)(k \<mapsto> n), sq_next := sq_next q + 1\<rparr> else q);
          (ds, q2) = resequence_events es q1
      in (e\<lparr>ev_sequence := n\<rparr> # ds, q2))"

definition resequence_runtime_events :: "int \<Rightarrow> runtime_event list \<Rightarrow> sequencing \<Rightarrow> runtime_event list \<times> sequencing" where
  "resequence_runtime_events sequence_floor es q = resequence_events es (q\<lparr>sq_next := max (sq_next q) (sequence_floor + 1)\<rparr>)"

definition starting_sequence :: "sequencing \<Rightarrow> int option \<Rightarrow> int" where
  "starting_sequence q after = max (sq_next q - 1) (or_else after 0) + 1"

section \<open>A stream\<close>

fun stream_events :: "(string \<Rightarrow> bool) \<Rightarrow> raw_event list \<Rightarrow> event_mapper \<Rightarrow> sequencing
    \<Rightarrow> (thrown, runtime_event list \<times> sequencing) result" where
  "stream_events dt [] m q = Inr ([], q)"
| "stream_events dt (r # rs) m q = (case map_event dt r m of
       (Inl e, _) \<Rightarrow> Inl e
     | (Inr es, m1) \<Rightarrow> (let (ds, q1) = resequence_runtime_events 0 es q in
         bindr (stream_events dt rs m1 q1) (\<lambda>(ds', q2). Inr (filter (\<lambda>e. 0 < ev_sequence e) ds @ ds', q2))))"

text \<open>What is delivered of the stored history, and then of the stream.\<close>

definition follow_session :: "(string \<Rightarrow> bool) \<Rightarrow> string \<Rightarrow> mapped_history \<Rightarrow> raw_event list \<Rightarrow> sequencing
    \<Rightarrow> (thrown, runtime_event list \<times> runtime_event list \<times> sequencing) result" where
  "follow_session dt session h rs q =
     (let (hs, q1) = resequence_runtime_events 0 (mh_events h) q;
          m = new_event_mapper session (continued_options (starting_sequence q1 None) h)
      in bindr (stream_events dt rs m q1) (\<lambda>(ds, q2). Inr (filter (\<lambda>e. 0 < ev_sequence e) hs, ds, q2)))"

text \<open>The states earlier calls leave, with or without a cursor.\<close>

inductive numbered :: "sequencing \<Rightarrow> bool" where
  fresh: "numbered new_sequencing"
| again: "numbered q \<Longrightarrow> numbered (snd (resequence_runtime_events sequence_floor es q))"

section \<open>One number per key\<close>

definition numbers_ok :: "sequencing \<Rightarrow> bool" where
  "numbers_ok q \<longleftrightarrow> 1 \<le> sq_next q \<and> (\<forall>k n. sq_numbers q k = Some n \<longrightarrow> 1 \<le> n \<and> n < sq_next q)
     \<and> (\<forall>k k' n. sq_numbers q k = Some n \<longrightarrow> sq_numbers q k' = Some n \<longrightarrow> k = k')"

lemma key_of_number [simp]: "runtime_event_sequence_key (e\<lparr>ev_sequence := n\<rparr>) = runtime_event_sequence_key e"
  by (simp add: runtime_event_sequence_key_def turn_in_key_def split: event_payload.split)

text \<open>What one numbering does: the events are as before but for their numbers, the numbers given before are
  kept, an event has the number of its key, and the new numbers follow one another.\<close>

definition new_numbers :: "sequencing \<Rightarrow> runtime_event list \<Rightarrow> int set" where
  "new_numbers q ds = ev_sequence ` {d \<in> set ds. sq_numbers q (runtime_event_sequence_key d) = None}"

definition numbering :: "runtime_event list \<Rightarrow> sequencing \<Rightarrow> runtime_event list \<Rightarrow> sequencing \<Rightarrow> bool" where
  "numbering es q ds q' \<longleftrightarrow> map (\<lambda>d. d\<lparr>ev_sequence := 0\<rparr>) ds = map (\<lambda>e. e\<lparr>ev_sequence := 0\<rparr>) es
     \<and> numbers_ok q' \<and> sq_numbers q \<subseteq>\<^sub>m sq_numbers q' \<and> sq_next q \<le> sq_next q'
     \<and> (\<forall>d \<in> set ds. sq_numbers q' (runtime_event_sequence_key d) = Some (ev_sequence d))
     \<and> new_numbers q ds = {sq_next q ..< sq_next q'}"

lemma numbering_keeps:
  assumes "numbering es q ds q'" "sq_numbers q k = Some n" shows "sq_numbers q' k = Some n"
proof -
  have "sq_numbers q \<subseteq>\<^sub>m sq_numbers q'" using assms(1) by (simp add: numbering_def)
  then show ?thesis using assms(2) unfolding map_le_def by (metis domI)
qed

lemma resequence_numbering: "numbers_ok q \<Longrightarrow> resequence_events es q = (ds, q') \<Longrightarrow> numbering es q ds q'"
proof (induction es arbitrary: q ds)
  case (Cons e es)
  define k where "k = runtime_event_sequence_key e"
  show ?case
  proof (cases "sq_numbers q k")
    case None
    let ?q1 = "q\<lparr>sq_numbers := (sq_numbers q)(k \<mapsto> sq_next q), sq_next := sq_next q + 1\<rparr>"
    obtain ds1 where ds: "ds = e\<lparr>ev_sequence := sq_next q\<rparr> # ds1" and r: "resequence_events es ?q1 = (ds1, q')"
      using Cons.prems(2) None by (auto simp: k_def Let_def or_else_def split: prod.splits)
    have "numbers_ok ?q1" using Cons.prems(1) by (auto simp: numbers_ok_def) force+
    then have n: "numbering es ?q1 ds1 q'" by (rule Cons.IH [OF _ r])
    have up: "(sq_numbers q)(k \<mapsto> sq_next q) \<subseteq>\<^sub>m sq_numbers q'" using n by (simp add: numbering_def)
    have at_k: "sq_numbers q' k = Some (sq_next q)" using up by (auto simp: map_le_def)
    have le: "sq_numbers q \<subseteq>\<^sub>m sq_numbers q'"
      unfolding map_le_def
    proof
      fix a assume a: "a \<in> dom (sq_numbers q)"
      then have "a \<noteq> k" using None by blast
      then show "sq_numbers q a = sq_numbers q' a" using up a unfolding map_le_def by (metis dom_fun_upd fun_upd_other insertI2 option.distinct(1))
    qed
    have keyed: "\<forall>d \<in> set ds1. sq_numbers q' (runtime_event_sequence_key d) = Some (ev_sequence d)" using n by (simp add: numbering_def)
    have "{d \<in> set ds. sq_numbers q (runtime_event_sequence_key d) = None} = insert (e\<lparr>ev_sequence := sq_next q\<rparr>)
        ({d \<in> set ds1. runtime_event_sequence_key d = k} \<union> {d \<in> set ds1. sq_numbers ?q1 (runtime_event_sequence_key d) = None})"
      using None by (auto simp: ds k_def)
    moreover have "ev_sequence ` {d \<in> set ds1. runtime_event_sequence_key d = k} \<subseteq> {sq_next q}" using keyed at_k by force
    ultimately have "new_numbers q ds = insert (sq_next q) (new_numbers ?q1 ds1)" by (auto simp: new_numbers_def image_Un)
    also have "\<dots> = {sq_next q ..< sq_next q'}" using n by (auto simp: numbering_def)
    finally show ?thesis using n at_k le keyed by (auto simp: numbering_def ds k_def)
  next
    case (Some n)
    obtain ds1 where ds: "ds = e\<lparr>ev_sequence := n\<rparr> # ds1" and r: "resequence_events es q = (ds1, q')"
      using Cons.prems(2) Some by (auto simp: k_def Let_def or_else_def split: prod.splits)
    have n': "numbering es q ds1 q'" by (rule Cons.IH [OF Cons.prems(1) r])
    have at_k: "sq_numbers q' k = Some n" by (rule numbering_keeps [OF n' Some])
    have "{d \<in> set ds. sq_numbers q (runtime_event_sequence_key d) = None} = {d \<in> set ds1. sq_numbers q (runtime_event_sequence_key d) = None}"
      using Some by (auto simp: ds k_def)
    then have "new_numbers q ds = new_numbers q ds1" unfolding new_numbers_def by (rule arg_cong)
    then show ?thesis using n' at_k by (auto simp: numbering_def ds k_def)
  qed
qed (simp add: numbering_def new_numbers_def)

lemma numbering_new: "numbering es q ds q' \<Longrightarrow> new_numbers q ds = {sq_next q ..< sq_next q'}"
  by (simp add: numbering_def)

lemma numbering_numbers:
  assumes "numbering es q ds q'"
  shows "\<forall>d \<in> set ds. \<forall>e \<in> set ds. ev_sequence d = ev_sequence e \<longleftrightarrow> runtime_event_sequence_key d = runtime_event_sequence_key e"
    and "\<forall>e \<in> set ds. \<forall>n. sq_numbers q (runtime_event_sequence_key e) = Some n \<longrightarrow> ev_sequence e = n"
proof -
  have k: "\<forall>d \<in> set ds. sq_numbers q' (runtime_event_sequence_key d) = Some (ev_sequence d)"
    and inj: "\<And>a b n. sq_numbers q' a = Some n \<Longrightarrow> sq_numbers q' b = Some n \<Longrightarrow> a = b"
    using assms by (auto simp: numbering_def numbers_ok_def)
  show "\<forall>d \<in> set ds. \<forall>e \<in> set ds. ev_sequence d = ev_sequence e \<longleftrightarrow> runtime_event_sequence_key d = runtime_event_sequence_key e"
    using k inj by (metis option.inject)
  show "\<forall>e \<in> set ds. \<forall>n. sq_numbers q (runtime_event_sequence_key e) = Some n \<longrightarrow> ev_sequence e = n"
    using k numbering_keeps [OF assms] by (metis option.inject)
qed

lemma floor_ok: "numbers_ok q \<Longrightarrow> numbers_ok (q\<lparr>sq_next := max (sq_next q) n\<rparr>)"
  by (force simp: numbers_ok_def)

lemma numbered_ok: "numbered q \<Longrightarrow> numbers_ok q"
proof (induction rule: numbered.induct)
  case (again q sequence_floor es)
  obtain ds q' where r: "resequence_runtime_events sequence_floor es q = (ds, q')" by fastforce
  then show ?case
    using resequence_numbering [OF floor_ok [OF again.IH]] by (auto simp: resequence_runtime_events_def numbering_def)
qed (simp add: numbers_ok_def new_sequencing_def)

text \<open>Numbering in two steps is numbering at once, and without a cursor nothing is left out.\<close>

lemma resequence_append:
  "resequence_events (as @ bs) q = (let (cs, q1) = resequence_events as q; (ds, q2) = resequence_events bs q1 in (cs @ ds, q2))"
  by (induction as arbitrary: q) (simp_all add: Let_def split_beta)

lemma resequence_no_floor: "1 \<le> sq_next q \<Longrightarrow> resequence_runtime_events 0 es q = resequence_events es q"
  by (simp add: resequence_runtime_events_def max_def)

lemma numbered_positive:
  assumes "numbers_ok q" "resequence_events es q = (ds, q')"
  shows "filter (\<lambda>e. 0 < ev_sequence e) ds = ds" "numbers_ok q'"
proof -
  have n: "numbering es q ds q'" by (rule resequence_numbering [OF assms])
  then have "0 < ev_sequence d" if "d \<in> set ds" for d using that by (force simp: numbering_def numbers_ok_def)
  then show "filter (\<lambda>e. 0 < ev_sequence e) ds = ds" by (simp add: filter_id_conv)
  show "numbers_ok q'" using n by (simp add: numbering_def)
qed

lemma stream_events_mapped:
  assumes "stream_events dt rs m q = Inr (ds, q')" "numbers_ok q"
  shows "\<exists>es m'. map_events dt rs m = (Inr es, m') \<and> resequence_events es q = (ds, q')"
  using assms
proof (induction rs arbitrary: m q ds)
  case (Cons r rs)
  obtain es1 m1 where m: "map_event dt r m = (Inr es1, m1)"
    using Cons.prems(1) by (auto split: prod.splits sum.splits)
  obtain ds1 q1 where r: "resequence_events es1 q = (ds1, q1)" by fastforce
  have q: "1 \<le> sq_next q" using Cons.prems(2) by (simp add: numbers_ok_def)
  note ok = numbered_positive [OF Cons.prems(2) r]
  obtain ds2 where s: "stream_events dt rs m1 q1 = Inr (ds2, q')" and ds: "ds = ds1 @ ds2"
    using Cons.prems(1) m r ok(1) by (auto simp: resequence_no_floor [OF q] res_simps split: sum.splits)
  obtain es2 m' where "map_events dt rs m1 = (Inr es2, m')" "resequence_events es2 q1 = (ds2, q')"
    using Cons.IH [OF s ok(2)] by blast
  then show ?case using m r ds by (simp add: resequence_append)
qed simp

lemma follow_session_mapped:
  assumes "follow_session dt session h rs q = Inr (hs, ds, q')" "numbers_ok q"
  shows "\<exists>q1 es m'. resequence_events (mh_events h) q = (hs, q1) \<and> resequence_events es q1 = (ds, q') \<and> numbers_ok q1
    \<and> map_events dt rs (new_event_mapper session (continued_options (sq_next q1) h)) = (Inr es, m')"
proof -
  obtain hs1 q1 where r: "resequence_events (mh_events h) q = (hs1, q1)" by fastforce
  have q: "1 \<le> sq_next q" using assms(2) by (simp add: numbers_ok_def)
  note ok = numbered_positive [OF assms(2) r]
  have start: "starting_sequence q1 None = sq_next q1"
    using ok(2) by (simp add: starting_sequence_def or_else_def numbers_ok_def)
  have "hs = hs1" and s: "stream_events dt rs (new_event_mapper session (continued_options (sq_next q1) h)) q1 = Inr (ds, q')"
    using assms(1) ok(1) by (auto simp: follow_session_def resequence_no_floor [OF q] r start res_simps split: sum.splits)
  with stream_events_mapped [OF s ok(2)] r ok(2) show ?thesis by blast
qed

end
