(* ===== verification/HistoryProperties.thy ===== *)
theory HistoryProperties
  imports SessionSequence EventMapperProperties
begin

text \<open>
  What a mapped conversation records agrees with its events; a mapper that continues it repeats neither a
  start nor an end of a turn nor a tool call or its result; and what a session delivers has one number per key.
\<close>

section \<open>Events added to a history\<close>

definition delta_of :: "string \<Rightarrow> runtime_event \<Rightarrow> string" where
  "delta_of t e = (case ev_payload e of Text_delta d \<Rightarrow> if ev_turn_id e = Some t then d else [] | _ \<Rightarrow> [])"

definition history_event :: "(string \<Rightarrow> bool) \<Rightarrow> string \<Rightarrow> runtime_event \<Rightarrow> bool" where
  "history_event dt session e \<longleftrightarrow> runtime_event_ok dt e \<and> ev_session_id e = session \<and> ev_turn_id e \<noteq> None
     \<and> (terminal_payload (ev_payload e) \<longleftrightarrow> ev_terminal e)"

text \<open>
  The record agrees with the events; \<open>pend\<close> is the text recorded whose events are still to come. Every
  event comes after the start of its turn, or is the start.
\<close>

definition history_ok :: "(string \<Rightarrow> bool) \<Rightarrow> string \<Rightarrow> (string \<Rightarrow> string) \<Rightarrow> mapped_history \<Rightarrow> bool" where
  "history_ok dt session pend h \<longleftrightarrow> mh_session_id h = session \<and> (\<forall>e \<in> set (mh_events h). history_event dt session e)
     \<and> map ev_sequence (mh_events h) = [1 .. mh_sequence h - 1] \<and> 1 \<le> mh_sequence h
     \<and> List.map_filter started_turn_of (mh_events h) = mh_started_turn_ids h \<and> distinct (mh_started_turn_ids h)
     \<and> List.map_filter terminal_turn_of (mh_events h) = mh_terminal_turn_ids h \<and> distinct (mh_terminal_turn_ids h)
     \<and> set (List.map_filter call_id_of (mh_events h)) = set (mh_tool_call_ids h)
     \<and> set (List.map_filter result_id_of (mh_events h)) = set (mh_tool_result_ids h)
     \<and> (\<forall>t. or_else (mh_text_by_turn h t) [] = concat (map (delta_of t) (mh_events h)) @ pend t)
     \<and> (\<forall>xs e ys. mh_events h = xs @ e # ys \<longrightarrow> the (ev_turn_id e) \<in> set (List.map_filter started_turn_of (xs @ [e])))"

abbreviation no_text :: "string \<Rightarrow> string" where "no_text \<equiv> \<lambda>_. []"

lemma append_event_Inr:
  "append_event dt i t turn terminal payload h = Inr h' \<longleftrightarrow>
     (let e = \<lparr>ev_event_id = i, ev_sequence = mh_sequence h, ev_session_id = mh_session_id h, ev_turn_id = Some turn, ev_occurred_at = t,
        ev_payload = payload, ev_terminal = terminal\<rparr> in
      runtime_event_ok dt e \<and> h' = h\<lparr>mh_events := mh_events h @ [e], mh_sequence := mh_sequence h + 1\<rparr>)"
  by (auto simp: append_event_def create_runtime_event_def res_simps Let_def split: if_splits)

lemma map_filter_snoc: "List.map_filter f (xs @ [x]) = List.map_filter f xs @ (case f x of None \<Rightarrow> [] | Some y \<Rightarrow> [y])"
  by (auto simp: List.map_filter_def split: option.splits)

lemma present_turn: "t \<noteq> [] \<Longrightarrow> present_text (Some t) = Some t"
  by (simp add: present_text_def)

lemma history_snoc:
  assumes h: "history_ok dt session pend h" and e: "history_event dt (mh_session_id h) e" "ev_sequence e = mh_sequence h" "ev_turn_id e = Some t"
    and s: "mh_started_turn_ids h' = mh_started_turn_ids h @ (case started_turn_of e of None \<Rightarrow> [] | Some u \<Rightarrow> [u])"
      "\<And>u. started_turn_of e = Some u \<Longrightarrow> u \<notin> set (mh_started_turn_ids h)" "t \<in> set (mh_started_turn_ids h')"
    and z: "mh_terminal_turn_ids h' = mh_terminal_turn_ids h @ (case terminal_turn_of e of None \<Rightarrow> [] | Some u \<Rightarrow> [u])"
      "\<And>u. terminal_turn_of e = Some u \<Longrightarrow> u \<notin> set (mh_terminal_turn_ids h)"
    and c: "set (mh_tool_call_ids h') = set (mh_tool_call_ids h) \<union> set_option (call_id_of e)"
      "set (mh_tool_result_ids h') = set (mh_tool_result_ids h) \<union> set_option (result_id_of e)"
    and x: "\<And>u. pend u = delta_of u e @ pend' u" "mh_text_by_turn h' = mh_text_by_turn h"
    and f: "mh_events h' = mh_events h @ [e]" "mh_sequence h' = mh_sequence h + 1" "mh_session_id h' = mh_session_id h"
  shows "history_ok dt session pend' h'"
proof -
  have first: "the (ev_turn_id g) \<in> set (List.map_filter started_turn_of (xs @ [g]))" if "mh_events h @ [e] = xs @ g # ys" for xs g ys
  proof (cases ys rule: rev_cases)
    case Nil
    then have "xs @ [g] = mh_events h @ [e]" using that by simp
    moreover from this have "g = e" by simp
    ultimately show ?thesis
      using h s(1,3) e(3) by (simp add: history_ok_def map_filter_snoc)
  next
    case (snoc zs w)
    then show ?thesis using that h by (auto simp: history_ok_def)
  qed
  have "[1 .. mh_sequence h] = [1 .. mh_sequence h - 1] @ [mh_sequence h]"
    using h upto_rec2 [of 1 "mh_sequence h"] by (simp add: history_ok_def)
  then show ?thesis
    using h e s z c x f first unfolding history_ok_def
    by (auto simp: map_filter_snoc split: option.splits)
qed

section \<open>Items\<close>

definition event_at :: "mapped_history \<Rightarrow> string \<Rightarrow> string \<Rightarrow> string \<Rightarrow> bool \<Rightarrow> event_payload \<Rightarrow> runtime_event" where
  "event_at h i t turn terminal payload = \<lparr>ev_event_id = i, ev_sequence = mh_sequence h, ev_session_id = mh_session_id h,
     ev_turn_id = Some turn, ev_occurred_at = t, ev_payload = payload, ev_terminal = terminal\<rparr>"

lemma started_history:
  assumes "history_ok dt session pend h" "ensure_started dt item t h = Inr h'"
  shows "history_ok dt session pend h' \<and> ci_response_id item \<in> set (mh_started_turn_ids h') \<and> mh_terminal_turn_ids h' = mh_terminal_turn_ids h"
proof (cases "ci_response_id item \<in> set (mh_started_turn_ids h)")
  case True then show ?thesis using assms by (simp add: ensure_started_def)
next
  case False
  let ?e = "event_at h (ci_id item @ '':turn-started'') t (ci_response_id item) False (Turn_started (started_message item) T_running)"
  have a: "runtime_event_ok dt ?e" "h' = h\<lparr>mh_started_turn_ids := mh_started_turn_ids h @ [ci_response_id item], mh_events := mh_events h @ [?e],
      mh_sequence := mh_sequence h + 1\<rparr>"
    using assms(2) False by (auto simp: ensure_started_def append_event_Inr event_at_def Let_def)
  have t: "started_turn_of ?e = Some (ci_response_id item)"
    using a(1) by (auto simp: event_at_def started_turn_of_def runtime_event_ok_def intro: present_turn)
  have "history_ok dt session pend h'"
    by (rule history_snoc [OF assms(1), of ?e "ci_response_id item"])
      (use a t False in \<open>auto simp: history_event_def event_at_def terminal_turn_of_def call_id_of_def result_id_of_def delta_of_def\<close>)
  then show ?thesis by (simp add: a(2))
qed

text \<open>An event that is neither a start nor an end.\<close>

lemma plain_history:
  assumes h: "history_ok dt session pend h" and a: "append_event dt i t turn False payload (h\<lparr>mh_tool_call_ids := cs, mh_tool_result_ids := rs\<rparr>) = Inr h'"
    and s: "turn \<in> set (mh_started_turn_ids h)" and p: "\<not> terminal_payload payload" "\<And>m s. payload \<noteq> Turn_started m s"
    and c: "set cs = set (mh_tool_call_ids h) \<union> (case payload of Tool_call c \<Rightarrow> {tc_tool_call_id c} | _ \<Rightarrow> {})"
      "set rs = set (mh_tool_result_ids h) \<union> (case payload of Tool_result j _ \<Rightarrow> {j} | _ \<Rightarrow> {})"
    and x: "\<And>u. pend u = (case payload of Text_delta d \<Rightarrow> if u = turn then d else [] | _ \<Rightarrow> []) @ pend' u"
  shows "history_ok dt session pend' h' \<and> mh_started_turn_ids h' = mh_started_turn_ids h \<and> mh_terminal_turn_ids h' = mh_terminal_turn_ids h"
proof -
  let ?e = "event_at h i t turn False payload"
  have a: "runtime_event_ok dt ?e" "h' = h\<lparr>mh_tool_call_ids := cs, mh_tool_result_ids := rs, mh_events := mh_events h @ [?e],
      mh_sequence := mh_sequence h + 1\<rparr>"
    using a by (auto simp: append_event_Inr event_at_def Let_def)
  have t: "started_turn_of ?e = None" "terminal_turn_of ?e = None"
    using p by (auto simp: started_turn_of_def terminal_turn_of_def event_at_def split: event_payload.split)
  have d: "pend u = delta_of u ?e @ pend' u" for u
    using x [of u] by (auto simp: delta_of_def event_at_def split: event_payload.split)
  have "history_ok dt session pend' h'"
    by (rule history_snoc [OF h, of ?e turn])
      (use a t s p c d in \<open>auto simp: history_event_def event_at_def call_id_of_def result_id_of_def split: event_payload.splits\<close>)
  then show ?thesis by (simp add: a(2))
qed

lemma terminal_history:
  assumes h: "history_ok dt session no_text h" and a: "append_terminal dt i t turn payload h = Inr h'" and s: "turn \<in> set (mh_started_turn_ids h)"
    and p: "terminal_payload payload" and new: "turn \<notin> set (mh_terminal_turn_ids h)"
  shows "history_ok dt session no_text h'"
proof -
  let ?e = "event_at h i t turn True payload"
  have a: "runtime_event_ok dt ?e" "h' = h\<lparr>mh_terminal_turn_ids := mh_terminal_turn_ids h @ [turn], mh_events := mh_events h @ [?e],
      mh_sequence := mh_sequence h + 1\<rparr>"
    using a by (auto simp: append_terminal_def append_event_Inr event_at_def Let_def)
  have t: "started_turn_of ?e = None" "call_id_of ?e = None" "result_id_of ?e = None" "delta_of u ?e = []" for u
    using p by (auto simp: started_turn_of_def call_id_of_def result_id_of_def delta_of_def event_at_def split: event_payload.splits)
  have z: "terminal_turn_of ?e = Some turn"
    using a(1) by (auto simp: event_at_def terminal_turn_of_def runtime_event_ok_def intro: present_turn)
  show ?thesis
    by (rule history_snoc [OF h, of ?e turn]) (use a t z s p new in \<open>auto simp: history_event_def event_at_def\<close>)
qed

lemma texts_history:
  assumes "append_texts dt item t i ds h = Inr h'" "ci_response_id item \<in> set (mh_started_turn_ids h)"
    "history_ok dt session (\<lambda>u. if u = ci_response_id item then concat ds else []) h"
  shows "history_ok dt session no_text h' \<and> mh_started_turn_ids h' = mh_started_turn_ids h \<and> mh_terminal_turn_ids h' = mh_terminal_turn_ids h"
  using assms
proof (induction ds arbitrary: i h)
  case Nil
  have "(\<lambda>u. if u = ci_response_id item then concat [] else []) = no_text" by auto
  with Nil show ?case by simp
next
  case (Cons d ds)
  let ?turn = "ci_response_id item"
  obtain h1 where 1: "append_event dt (ci_id item @ '':text:'' @ show_int i) t ?turn False (Text_delta d) h = Inr h1"
      and 2: "append_texts dt item t (i + 1) ds h1 = Inr h'"
    using Cons.prems(1) by (auto simp: res_simps)
  have "history_ok dt session (\<lambda>u. if u = ?turn then concat ds else []) h1 \<and> mh_started_turn_ids h1 = mh_started_turn_ids h
      \<and> mh_terminal_turn_ids h1 = mh_terminal_turn_ids h"
    by (rule plain_history [OF Cons.prems(3), where cs = "mh_tool_call_ids h" and rs = "mh_tool_result_ids h" and payload = "Text_delta d"])
      (use 1 Cons.prems(2) in auto)
  with Cons.IH [OF 2] Cons.prems(2) show ?case by simp
qed

lemma recorded_text:
  "history_ok dt session no_text h \<Longrightarrow> history_ok dt session (\<lambda>u. if u = ci_response_id item then concat (content_text item) else []) (record_item_text item h)"
  by (auto simp: history_ok_def record_item_text_def Let_def)

lemma seen_history: "history_ok dt session pend (h\<lparr>mh_seen_item_ids := xs\<rparr>) = history_ok dt session pend h"
  by (simp add: history_ok_def)

lemma set_add_member [simp]: "set (add_member x xs) = insert x (set xs)"
  by (auto simp: add_member_def)

lemma message_history:
  assumes "history_ok dt session no_text h" "map_message dt item t h = Inr h'" shows "history_ok dt session no_text h'"
proof -
  let ?turn = "ci_response_id item"
  consider "h' = h"
    | h1 where "ensure_started dt item t h = Inr h1" "h' = h1"
    | h1 h2 where "ensure_started dt item t h = Inr h1" "append_texts dt item t 0 (content_text item) (record_item_text item h1) = Inr h2" "h' = h2"
    | h1 h2 where "ensure_started dt item t h = Inr h1" "append_texts dt item t 0 (content_text item) (record_item_text item h1) = Inr h2"
        "?turn \<notin> set (mh_terminal_turn_ids h2)" "append_terminal dt (ci_id item @ '':cancelled'') t ?turn (Turn_cancelled (Some ''interrupted'')) h2 = Inr h'"
    using assms(2) by (auto simp: map_message_def res_simps split: if_splits)
  then show ?thesis
  proof cases
    case 1 then show ?thesis using assms by simp
  next
    case (2 h1) then show ?thesis using started_history [OF assms(1)] by simp
  next
    case (3 h1 h2)
    have "?turn \<in> set (mh_started_turn_ids (record_item_text item h1))" "history_ok dt session no_text h1"
      using started_history [OF assms(1) 3(1)] by (auto simp: record_item_text_def Let_def)
    then show ?thesis using texts_history [OF 3(2)] recorded_text 3(3) by blast
  next
    case (4 h1 h2)
    have "?turn \<in> set (mh_started_turn_ids (record_item_text item h1))" "history_ok dt session no_text h1"
      using started_history [OF assms(1) 4(1)] by (auto simp: record_item_text_def Let_def)
    then have "history_ok dt session no_text h2" "?turn \<in> set (mh_started_turn_ids h2)"
      using texts_history [OF 4(2) _ recorded_text] by auto
    then show ?thesis using terminal_history [OF _ 4(4) _ _ 4(3)] by simp
  qed
qed

lemma call_history:
  assumes "history_ok dt session no_text h" "map_function_call dt item t h = Inr h'" shows "history_ok dt session no_text h'"
proof (cases "h' = h")
  case False
  let ?turn = "ci_response_id item"
  obtain call tool h1 where 1: "ensure_started dt item t h = Inr h1"
      and 2: "append_event dt (ci_id item) t ?turn False (Tool_call \<lparr>tc_tool_call_id = call, tc_session_id = mh_session_id h1, tc_turn_id = ?turn,
        tc_tool_name = tool, tc_arguments = map_of (ci_data item) ''arguments'', tc_approval_required = False\<rparr>)
        (h1\<lparr>mh_tool_call_ids := add_member call (mh_tool_call_ids h1)\<rparr>) = Inr h'"
    using assms(2) False by (auto simp: map_function_call_def res_simps split: option.splits)
  have h1: "history_ok dt session no_text h1" "?turn \<in> set (mh_started_turn_ids h1)" using started_history [OF assms(1) 1] by auto
  have "history_ok dt session no_text h' \<and> mh_started_turn_ids h' = mh_started_turn_ids h1 \<and> mh_terminal_turn_ids h' = mh_terminal_turn_ids h1"
    by (rule plain_history [OF h1(1), where cs = "add_member call (mh_tool_call_ids h1)" and rs = "mh_tool_result_ids h1"
        and payload = "Tool_call \<lparr>tc_tool_call_id = call, tc_session_id = mh_session_id h1, tc_turn_id = ?turn,
          tc_tool_name = tool, tc_arguments = map_of (ci_data item) ''arguments'', tc_approval_required = False\<rparr>"]) (use 2 h1 in auto)
  then show ?thesis by blast
qed (use assms in simp)

lemma output_history:
  assumes "history_ok dt session no_text h" "map_function_output dt item t h = Inr h'" shows "history_ok dt session no_text h'"
proof (cases "h' = h")
  case False
  let ?turn = "ci_response_id item"
  obtain call h1 where 1: "ensure_started dt item t h = Inr h1"
      and 2: "append_event dt (ci_id item) t ?turn False (Tool_result call (map_of (ci_data item) ''output''))
        (h1\<lparr>mh_tool_result_ids := add_member call (mh_tool_result_ids h1)\<rparr>) = Inr h'"
    using assms(2) False by (auto simp: map_function_output_def res_simps split: option.splits)
  have h1: "history_ok dt session no_text h1" "?turn \<in> set (mh_started_turn_ids h1)" using started_history [OF assms(1) 1] by auto
  have "history_ok dt session no_text h' \<and> mh_started_turn_ids h' = mh_started_turn_ids h1 \<and> mh_terminal_turn_ids h' = mh_terminal_turn_ids h1"
    by (rule plain_history [OF h1(1), where cs = "mh_tool_call_ids h1" and rs = "add_member call (mh_tool_result_ids h1)"
        and payload = "Tool_result call (map_of (ci_data item) ''output'')"]) (use 2 h1 in auto)
  then show ?thesis by blast
qed (use assms in simp)

lemma error_history:
  assumes "history_ok dt session no_text h" "map_error_item dt item t h = Inr h'" shows "history_ok dt session no_text h'"
proof (cases "ci_response_id item \<in> set (mh_terminal_turn_ids h)")
  case True then show ?thesis using assms by (simp add: map_error_item_def)
next
  case False
  obtain h1 payload where 1: "ensure_started dt item t h = Inr h1" and 2: "append_terminal dt (ci_id item) t (ci_response_id item) payload h1 = Inr h'"
      and p: "terminal_payload payload"
    using assms(2) False by (auto simp: map_error_item_def res_simps)
  show ?thesis using started_history [OF assms(1) 1] terminal_history [OF _ 2 _ p] False by auto
qed

lemma item_history:
  assumes "history_ok dt session no_text h" "map_conversation_item dt item h = Inr h'" shows "history_ok dt session no_text h'"
proof -
  let ?h = "h\<lparr>mh_seen_item_ids := add_member (ci_id item) (mh_seen_item_ids h)\<rparr>"
  have h: "history_ok dt session no_text ?h" using assms(1) by (simp add: seen_history)
  show ?thesis
    using assms(2) message_history [OF h] call_history [OF h] output_history [OF h] error_history [OF h] h
    by (auto simp: map_conversation_item_def res_simps Let_def split: if_splits)
qed

lemma conversation_history:
  assumes "map_omnigent_conversation_history dt session items = Inr h" shows "history_ok dt session no_text h"
proof -
  have "history_ok dt session no_text h'" if "map_conversation_items dt items h = Inr h'" "history_ok dt session no_text h" for items h h'
    using that by (induction items arbitrary: h) (auto simp: res_simps dest: item_history)
  moreover have "history_ok dt session no_text (new_history session)" by (simp add: history_ok_def new_history_def map_filter_simps)
  ultimately show ?thesis using assms by (auto simp: map_omnigent_conversation_history_def)
qed

lemma in_map_filter: "y \<in> set (List.map_filter f xs) \<longleftrightarrow> (\<exists>x \<in> set xs. f x = Some y)"
  by (force simp: List.map_filter_def)

section \<open>Continuing a history\<close>

text \<open>Starts and ends of turns.\<close>

definition boundary_key :: "runtime_event \<Rightarrow> (nat \<times> string) option" where
  "boundary_key e = (case event_once_key e of Some (k, t) \<Rightarrow> if k = 0 \<or> k = 3 then Some (k, t) else None | None \<Rightarrow> None)"

lemma boundary_key_cases:
  assumes "history_event dt s e"
  shows "boundary_key e = (case started_turn_of e of Some t \<Rightarrow> Some (0, t) | None \<Rightarrow> map_option (Pair 3) (terminal_turn_of e))"
  using assms
  by (cases "ev_payload e")
    (auto simp: boundary_key_def event_once_key_def started_turn_of_def terminal_turn_of_def history_event_def runtime_event_ok_def present_text_def
       split: option.splits)

lemma boundary_keys_map:
  assumes "\<forall>e \<in> set es. history_event dt s e"
  shows "k \<in> set (List.map_filter boundary_key es) \<longleftrightarrow>
    (\<exists>t. k = (0, t) \<and> t \<in> set (List.map_filter started_turn_of es)) \<or> (\<exists>t. k = (3, t) \<and> t \<in> set (List.map_filter terminal_turn_of es))"
proof -
  have "boundary_key e = Some k \<longleftrightarrow> (\<exists>t. k = (0, t) \<and> started_turn_of e = Some t) \<or> (\<exists>t. k = (3, t) \<and> terminal_turn_of e = Some t)"
    if "e \<in> set es" for e
  proof -
    have h: "history_event dt s e" using assms that by blast
    have "terminal_turn_of e = None" if "started_turn_of e \<noteq> None"
      using that h by (cases "ev_payload e") (auto simp: started_turn_of_def terminal_turn_of_def history_event_def)
    then show ?thesis using boundary_key_cases [OF h] by (auto split: option.splits)
  qed
  then show ?thesis by (auto simp: in_map_filter)
qed

lemma distinct_boundary_keys:
  assumes "\<forall>e \<in> set es. history_event dt s e" "distinct (List.map_filter started_turn_of es)" "distinct (List.map_filter terminal_turn_of es)"
  shows "distinct (List.map_filter boundary_key es)"
  using assms
proof (induction es)
  case (Cons e es)
  have e: "history_event dt s e" and es: "\<forall>e \<in> set es. history_event dt s e" using Cons.prems(1) by auto
  show ?case
    using Cons boundary_key_cases [OF e] boundary_keys_map [OF es]
    by (auto simp: map_filter_simps split: option.splits)
qed (simp add: map_filter_simps)

lemma boundary_key_once: "boundary_key e = None \<or> boundary_key e = event_once_key e"
  by (auto simp: boundary_key_def split: option.splits)

lemma boundary_keys_once: "set (List.map_filter boundary_key es) \<subseteq> set (List.map_filter event_once_key es)"
proof
  fix k assume "k \<in> set (List.map_filter boundary_key es)"
  then obtain e where "e \<in> set es" "boundary_key e = Some k" by (auto simp: in_map_filter)
  with boundary_key_once [of e] show "k \<in> set (List.map_filter event_once_key es)" by (auto simp: in_map_filter)
qed

lemma distinct_sub: "distinct (List.map_filter event_once_key es) \<Longrightarrow> distinct (List.map_filter boundary_key es)"
proof (induction es)
  case (Cons e es)
  then show ?case using boundary_keys_once [of es] boundary_key_once [of e] by (auto simp: map_filter_simps split: option.splits)
qed (simp add: map_filter_simps)

lemma map_filter_append: "List.map_filter f (xs @ ys) = List.map_filter f xs @ List.map_filter f ys"
  by (simp add: List.map_filter_def)

lemma history_keys:
  assumes "history_ok dt session pend h" "k \<in> set (List.map_filter event_once_key (mh_events h))"
  shows "k \<in> Pair 0 ` set (mh_started_turn_ids h) \<union> Pair 1 ` set (mh_tool_call_ids h) \<union> Pair 2 ` set (mh_tool_result_ids h)
    \<union> Pair 3 ` set (mh_terminal_turn_ids h)"
proof -
  obtain e where e: "e \<in> set (mh_events h)" "event_once_key e = Some k" using assms(2) by (auto simp: in_map_filter)
  have h: "history_event dt session e" using assms(1) e(1) by (simp add: history_ok_def)
  have m: "y \<in> set (List.map_filter f (mh_events h))" if "f e = Some y" for f :: "runtime_event \<Rightarrow> string option" and y
    using e(1) that by (auto simp: in_map_filter)
  have s: "started_turn_of e = Some y \<Longrightarrow> y \<in> set (mh_started_turn_ids h)" "terminal_turn_of e = Some y \<Longrightarrow> y \<in> set (mh_terminal_turn_ids h)"
    "call_id_of e = Some y \<Longrightarrow> y \<in> set (mh_tool_call_ids h)" "result_id_of e = Some y \<Longrightarrow> y \<in> set (mh_tool_result_ids h)" for y
    using m [of started_turn_of y] m [of terminal_turn_of y] m [of call_id_of y] m [of result_id_of y] assms(1) by (auto simp: history_ok_def)
  obtain t where t: "ev_turn_id e = Some t" "t \<noteq> []" using h by (auto simp: history_event_def runtime_event_ok_def)
  show ?thesis
    using s e(2) t h by (cases "ev_payload e")
      (auto simp: event_once_key_def started_turn_of_def terminal_turn_of_def call_id_of_def result_id_of_def history_event_def present_text_def)
qed

text \<open>A new number changes neither the keys nor anything else of an event.\<close>

lemma renumbered_filter:
  assumes "\<And>e. f (e\<lparr>ev_sequence := 0\<rparr>) = f e" "map (\<lambda>d. d\<lparr>ev_sequence := 0\<rparr>) ds = map (\<lambda>e. e\<lparr>ev_sequence := 0\<rparr>) es"
  shows "List.map_filter f ds = List.map_filter f es"
proof -
  have "List.map_filter f (map (\<lambda>d. d\<lparr>ev_sequence := 0\<rparr>) xs) = List.map_filter f xs" for xs
    by (induction xs) (simp_all add: map_filter_simps assms(1) split: option.split)
  then show ?thesis using assms(2) by metis
qed

lemma once_key_of_number: "event_once_key (e\<lparr>ev_sequence := n\<rparr>) = event_once_key e" "boundary_key (e\<lparr>ev_sequence := n\<rparr>) = boundary_key e"
  by (simp_all add: event_once_key_def boundary_key_def)

lemma same_but_number:
  assumes "d\<lparr>ev_sequence := 0\<rparr> = e\<lparr>ev_sequence := (0::int)\<rparr>"
  shows "ev_event_id d = ev_event_id e \<and> ev_session_id d = ev_session_id e \<and> ev_turn_id d = ev_turn_id e
    \<and> ev_occurred_at d = ev_occurred_at e \<and> ev_payload d = ev_payload e"
  using assms by (cases d; cases e) simp

lemma renumbered_ok:
  assumes "map (\<lambda>d. d\<lparr>ev_sequence := 0\<rparr>) ds = map (\<lambda>e. e\<lparr>ev_sequence := 0\<rparr>) es" "d \<in> set ds" "0 < ev_sequence d"
    and "\<forall>e \<in> set es. runtime_event_ok dt e \<and> ev_session_id e = session"
  shows "runtime_event_ok dt d \<and> ev_session_id d = session"
proof -
  have "d\<lparr>ev_sequence := 0\<rparr> \<in> (\<lambda>e. e\<lparr>ev_sequence := 0\<rparr>) ` set es" using assms(1,2) by (metis image_eqI list.set_map)
  then obtain e where e: "e \<in> set es" "d\<lparr>ev_sequence := 0\<rparr> = e\<lparr>ev_sequence := 0\<rparr>" by blast
  then show ?thesis using assms(3) bspec [OF assms(4) e(1)] same_but_number [OF e(2)] by (auto simp: runtime_event_ok_def)
qed

text \<open>The history and the stream that continues it.\<close>

definition repeats_nothing :: "runtime_event list \<Rightarrow> runtime_event list \<Rightarrow> bool" where
  "repeats_nothing hs es \<longleftrightarrow> distinct (List.map_filter boundary_key (hs @ es)) \<and> distinct (List.map_filter event_once_key es)
     \<and> set (List.map_filter event_once_key es) \<inter> set (List.map_filter event_once_key hs) = {}"

lemma continued_history:
  assumes h: "map_omnigent_conversation_history dt session items = Inr h"
    and es: "map_events dt rs (new_event_mapper session (continued_options start h)) = (Inr es, m')"
  shows "repeats_nothing (mh_events h) es \<and> (\<forall>e \<in> set (mh_events h @ es). runtime_event_ok dt e \<and> ev_session_id e = session)"
proof -
  let ?o = "continued_options start h"
  have ok: "history_ok dt session no_text h" by (rule conversation_history [OF h])
  have hs: "\<forall>e \<in> set (mh_events h). history_event dt session e" using ok by (simp add: history_ok_def)
  note typed = map_events_typed [OF es, unfolded new_event_mapper_fields]
  note once = map_events_once [OF es, unfolded new_event_mapper_fields]
  have keys: "set (List.map_filter event_once_key (mh_events h)) \<subseteq> used_keys (new_event_mapper session ?o)"
    using history_keys [OF ok] by (auto simp: new_event_mapper_fields continued_options_def)
  have disjoint: "set (List.map_filter event_once_key es) \<inter> set (List.map_filter event_once_key (mh_events h)) = {}"
    using once keys by (auto simp: new_event_mapper_fields)
  have "distinct (List.map_filter boundary_key (mh_events h))"
    using distinct_boundary_keys [OF hs] ok by (simp add: history_ok_def)
  then have "distinct (List.map_filter boundary_key (mh_events h @ es))"
    using distinct_sub [of es] once disjoint boundary_keys_once [of es] boundary_keys_once [of "mh_events h"] by (auto simp: map_filter_append)
  then show ?thesis using once hs typed disjoint by (auto simp: history_event_def repeats_nothing_def)
qed

lemma followed_history:
  assumes h: "map_omnigent_conversation_history dt session items = Inr h" and q: "numbers_ok q"
    and run: "follow_session dt session h rs q = Inr (hs, ds, q')"
  shows "repeats_nothing hs ds \<and> (\<forall>e \<in> set (hs @ ds). runtime_event_ok dt e \<and> ev_session_id e = session)
    \<and> (\<exists>es. numbering (mh_events h @ es) q (hs @ ds) q') \<and> map (\<lambda>d. d\<lparr>ev_sequence := 0\<rparr>) hs = map (\<lambda>e. e\<lparr>ev_sequence := 0\<rparr>) (mh_events h)"
proof -
  obtain q1 es m' where r: "resequence_events (mh_events h) q = (hs, q1)" "resequence_events es q1 = (ds, q')" "numbers_ok q1"
    and m: "map_events dt rs (new_event_mapper session (continued_options (sq_next q1) h)) = (Inr es, m')"
    using follow_session_mapped [OF run q] by blast
  have n: "numbering (mh_events h @ es) q (hs @ ds) q'" by (rule resequence_numbering [OF q]) (simp add: resequence_append r)
  have same: "map (\<lambda>d. d\<lparr>ev_sequence := 0\<rparr>) hs = map (\<lambda>e. e\<lparr>ev_sequence := 0\<rparr>) (mh_events h)"
      "map (\<lambda>d. d\<lparr>ev_sequence := 0\<rparr>) ds = map (\<lambda>e. e\<lparr>ev_sequence := 0\<rparr>) es"
    using resequence_numbering [OF q r(1)] resequence_numbering [OF r(3,2)] by (simp_all add: numbering_def)
  note c = continued_history [OF h m]
  have f: "List.map_filter event_once_key hs = List.map_filter event_once_key (mh_events h)" "List.map_filter event_once_key ds = List.map_filter event_once_key es"
      "List.map_filter boundary_key hs = List.map_filter boundary_key (mh_events h)" "List.map_filter boundary_key ds = List.map_filter boundary_key es"
    by (rule renumbered_filter, rule once_key_of_number, rule same)+
  have "repeats_nothing hs ds" using c by (simp add: repeats_nothing_def map_filter_append f)
  moreover have "0 < ev_sequence d" if "d \<in> set (hs @ ds)" for d using n that unfolding numbering_def numbers_ok_def by fastforce
  then have "runtime_event_ok dt d \<and> ev_session_id d = session" if "d \<in> set (hs @ ds)" for d
    using renumbered_ok [of "hs @ ds" "mh_events h @ es" d dt session] same c that by simp
  ultimately show ?thesis using n same(1) by blast
qed

section \<open>A small conversation\<close>

definition demo_item :: "string \<Rightarrow> string \<Rightarrow> json_record \<Rightarrow> conversation_item" where
  "demo_item i ty data = \<lparr>ci_id = i, ci_response_id = ''t'', ci_type = ty, ci_created_at = Fin 0, ci_data = data\<rparr>"

definition demo_conversation :: "conversation_item list" where
  "demo_conversation = [demo_item ''a'' ''message'' [(''role'', J_str ''user'')],
     demo_item ''b'' ''message'' [(''role'', J_str ''assistant''), (''content'', J_arr [J_obj [(''text'', J_str ''hi'')]])],
     demo_item ''c'' ''function_call'' [(''call_id'', J_str ''k''), (''name'', J_str ''ls'')]]"

text \<open>The history, and the events of a stream that starts and ends its turn again.\<close>

definition demo_replay :: "(thrown, mapped_history \<times> runtime_event list \<times> runtime_event list \<times> sequencing) result" where
  "demo_replay = bindr (map_omnigent_conversation_history (\<lambda>_. True) ''s'' demo_conversation) (\<lambda>h.
     bindr (follow_session (\<lambda>_. True) ''s'' h [example_raw ''x'' ''response.created'', example_raw ''y'' ''response.completed''] new_sequencing)
       (\<lambda>r. Inr (h, r)))"

lemma demo_replayed: "case demo_replay of Inr (h, hs, es, q) \<Rightarrow> map ev_sequence (hs @ es) = [1, 2, 3, 4] \<and> length es = Suc 0 | Inl _ \<Rightarrow> False"
  by code_simp

text \<open>Two items with the identifier of one call are two events, delivered under one number.\<close>

lemma repeated_call_delivered:
  "case bindr (map_omnigent_conversation_history (\<lambda>_. True) ''s'' [demo_item ''c'' ''function_call'' [(''call_id'', J_str ''k''), (''name'', J_str ''ls'')],
       demo_item ''d'' ''function_call'' [(''call_id'', J_str ''k''), (''name'', J_str ''ls'')]]) (\<lambda>h. follow_session (\<lambda>_. True) ''s'' h [] new_sequencing) of
     Inr (hs, es, q) \<Rightarrow> map ev_sequence hs = [1, 2, 2] | Inl _ \<Rightarrow> False"
  by code_simp

text \<open>An error item with an empty message makes the whole history unreadable.\<close>

lemma empty_error_refused:
  "case map_omnigent_conversation_history (\<lambda>_. True) ''s'' [demo_item ''e'' ''error'' [(''message'', J_str [])]] of
     Inl e \<Rightarrow> e = Schema_error | Inr _ \<Rightarrow> False"
  by code_simp



text \<open>C18: Whatever has been delivered of a session before, when its history is read and then followed by a stream,
  without a cursor and with no other delivery of the session in between: all delivered events are typed, the history is delivered as it is mapped, in the history and the stream
  together a turn starts and ends at most once, and the stream gives no start, end, tool call or result twice
  or again after the history (the history repeats a call exactly when the stored items do). Two delivered
  events have the same number exactly when they have the same key, an event that was delivered before keeps its
  number, and the numbers that are new follow the last ones without a gap.\<close>

theorem history_continued:
  assumes "map_omnigent_conversation_history dt session items = Inr h" and "numbered q"
    and "follow_session dt session h rs q = Inr (hs, es, q')"
  shows "(\<forall>e \<in> set (hs @ es). runtime_event_ok dt e \<and> ev_session_id e = session)
    \<and> map (\<lambda>e. e\<lparr>ev_sequence := 0\<rparr>) hs = map (\<lambda>e. e\<lparr>ev_sequence := 0\<rparr>) (mh_events h)
    \<and> repeats_nothing hs es
    \<and> (\<forall>d \<in> set (hs @ es). \<forall>e \<in> set (hs @ es). ev_sequence d = ev_sequence e \<longleftrightarrow> runtime_event_sequence_key d = runtime_event_sequence_key e)
    \<and> (\<forall>e \<in> set (hs @ es). \<forall>n. sq_numbers q (runtime_event_sequence_key e) = Some n \<longrightarrow> ev_sequence e = n)
    \<and> new_numbers q (hs @ es) = {sq_next q ..< sq_next q'}"
proof -
  note f = followed_history [OF assms(1) numbered_ok [OF assms(2)] assms(3)]
  then obtain xs where n: "numbering xs q (hs @ es) q'" by blast
  from f numbering_numbers [OF n] show ?thesis by (simp add: numbering_new [OF n])
qed

theorem history_continued_witness:
  "\<exists>h hs es q. demo_replay = Inr (h, hs, es, q) \<and> repeats_nothing hs es \<and> new_numbers new_sequencing (hs @ es) = {1 ..< sq_next q}"
proof -
  obtain h hs es q where r: "demo_replay = Inr (h, hs, es, q)" using demo_replayed by (auto split: sum.splits)
  then have "map_omnigent_conversation_history (\<lambda>_. True) ''s'' demo_conversation = Inr h"
    "follow_session (\<lambda>_. True) ''s'' h [example_raw ''x'' ''response.created'', example_raw ''y'' ''response.completed''] new_sequencing = Inr (hs, es, q)"
    by (auto simp: demo_replay_def res_simps)
  from history_continued [OF this(1) numbered.fresh this(2)] have "repeats_nothing hs es" "new_numbers new_sequencing (hs @ es) = {1 ..< sq_next q}"
    by (simp_all only: new_sequencing_def sequencing.simps)
  with r show ?thesis by blast
qed

end
