(* ===== verification/Spec2Isabelle.thy ===== *)
theory Spec2Isabelle
  imports StateMachines LeaseProperties RoutePlanner LaunchGate RouteReplay ReplayProperties RetentionProperties CliProperties LeaseArbiter EventMapperProperties LedgerProperties LimitProperties HandoffProperties SseProperties HistoryProperties
begin

text \<open>
  A verification library for omniagent-plus: a control plane that routes agent work to provider
  accounts, arbitrates leases on code, reads the event streams of agents, and keeps a ledger of what
  happened. Paths are under \<open>src/packages\<close>.

  \<^bold>\<open>How the parts interact.\<close> A command (\<open>cli\<close>) is parsed into a request. The coordinator builds the
  pool of identities from the catalogue of limits and the active turns, plans a route, has the lease
  arbiter take a lease on the code the task writes, and stores the decision; the launch gate lets a
  session or a turn start only through a stored decision. The transport maps the raw events of an
  agent to typed events, which drive the state machines of turns and sessions. Everything is appended
  to the ledger, which is replayed into a read model and pruned by retention.

  \<^bold>\<open>Foundations.\<close>

  \<^item> \<open>Prelude\<close>: results (\<open>'e + 'a\<close>), options, JavaScript arrays, the stable sort, strings.
    \<open>JsObject\<close>: objects as dictionaries in enumeration order. \<open>JsMap\<close>: \<open>Map\<close> in insertion order.
    \<open>JsNum\<close>: numbers and rounding to binary64. \<open>JsDate\<close>: \<open>Date.parse\<close>, \<open>toISOString\<close> and the
    contract timestamp. \<open>JsString\<close>: case, trimming, searching. \<open>Json\<close>: values of \<open>JSON.parse\<close>.
  \<^item> \<open>RuntimeCore\<close>: the data of \<open>core-contracts/src\<close> (failures, limits, events, identities, route
    decisions, worktree leases) as datatypes and records, and the values code throws.
    \<open>LedgerData\<close>, \<open>HandoffData\<close>, \<open>UiData\<close>: the records of the ledger (\<open>state-ledger.ts\<close>), of
    handoff packets (\<open>handoff-packet.ts\<close>) and of the read model (\<open>ui-read-model.ts\<close>).

  \<^bold>\<open>Components.\<close>

  \<^item> \<open>StateMachines\<close>: \<open>core-contracts/src/state-machines.ts\<close>.
  \<^item> \<open>LeaseScope\<close>, \<open>LeaseStore\<close>, \<open>LeaseFacts\<close>, \<open>LeaseProperties\<close>: the lease contract
    (\<open>core-contracts/src/coordination-contract.ts\<close>) and the local lease store
    (\<open>worktree-leasing/src/lease-store.ts\<close>). The state is the content of \<open>consiliency-leases.json\<close>;
    each operation is a function from a file to a thrown value or a result and the next file.
  \<^item> \<open>CoordinationInbox\<close>, \<open>InboxProperties\<close>: the message schema and the local inbox of
    \<open>state-ledger/src/coordination-channel.ts\<close>. \<open>LeaseArbiter\<close>: \<open>coordinator/src/lease-arbiter.ts\<close>
    over any store with the laws of the locale \<open>lease_provider\<close>, interpreted on the local store.
  \<^item> \<open>RateLimitActions\<close>: \<open>rate-limit-catalog/src/routing-action.ts\<close> and \<open>retry-guardrails.ts\<close>.
    \<open>RetryPolicy\<close>: \<open>coordinator/src/cooldowns.ts\<close>, \<open>retry-guardrails.ts\<close>, \<open>failure-policy.ts\<close>.
  \<^item> \<open>ActiveTurns\<close>: \<open>coordinator/src/active-turns.ts\<close>, the object \<open>ActiveTurnAccounting\<close> as a record
    of its two fields. \<open>Portability\<close>, \<open>IdentityPool\<close>, \<open>RoutePlanner\<close>: \<open>portability.ts\<close>,
    \<open>adaptive-concurrency.ts\<close>, \<open>identity-pool.ts\<close>, \<open>route-planner.ts\<close> of the coordinator.
  \<^item> \<open>RouteStore\<close>, \<open>RouteReplay\<close>: \<open>coordinator/src/route-store.ts\<close> and \<open>replay.ts\<close>.
    \<open>LaunchGate\<close>: \<open>launch-gate.ts\<close>, as computations that record every call they make.
  \<^item> \<open>TruncatedJson\<close>, \<open>JsonGrammar\<close>, \<open>TruncatedJsonExact\<close>, \<open>TruncatedJsonProperties\<close>: the recogniser
    \<open>truncatedJson\<close> of \<open>state-ledger/src/ledger-snapshot.ts\<close> and the grammar of RFC 8259 it is measured
    against. \<open>LedgerSnapshot\<close>: the reader of the ledger file, byte by byte, and of its manifest
    (\<open>ledger-snapshot.ts\<close>, \<open>migrations.ts\<close>, \<open>schema.ts\<close>). \<open>AppendOnlyStore\<close>: \<open>append-only-store.ts\<close>;
    an operation returns a thrown value or a result together with the state of the files, since a
    call that throws may have written. \<open>LedgerLog\<close>, \<open>StoreProperties\<close>, \<open>LedgerProperties\<close>: the store
    refines a log of records with a high-water mark.
  \<^item> \<open>LedgerScope\<close>, \<open>Retention\<close>, \<open>RetentionProperties\<close>: \<open>normalizeLedgerScope\<close> of \<open>schema.ts\<close> and
    \<open>state-ledger/src/retention.ts\<close>. \<open>LedgerReplay\<close>, \<open>ReplayProperties\<close>: \<open>state-ledger/src/replay.ts\<close>.
  \<^item> \<open>EventMapper\<close>, \<open>EventMapperProperties\<close>: \<open>omnigent-transport/src/event-mapper.ts\<close> and the event
    schema of \<open>core-contracts/src/events.ts\<close>. \<open>SseStream\<close>, \<open>SseProperties\<close>: \<open>sse-stream.ts\<close>, which cuts a
    text into frames and assigns events to turns; the class \<open>OmnigentSseNormalizer\<close> is the record
    \<open>sse_normalizer\<close>. \<open>OmnigentHistory\<close>, \<open>SessionSequence\<close>, \<open>HistoryProperties\<close>: \<open>history-mapper.ts\<close>, the mapper
    \<open>http-provider.ts\<close> continues a history with, and the numbers it delivers the events of a session under.
  \<^item> \<open>JsRegex\<close>: regular expressions without captures, matched by derivatives, proved to decide their
    spans. \<open>MetadataPatterns\<close>, \<open>Redaction\<close>, \<open>RedactionProperties\<close>: \<open>core-contracts/src/redaction.ts\<close>, its
    patterns, its scanner of metadata and its sanitisers. \<open>HandoffPacket\<close>, \<open>HandoffProperties\<close>:
    \<open>handoff-packet.ts\<close> and \<open>handoff-renderer.ts\<close> of \<open>core-contracts\<close>.
  \<^item> \<open>LimitRules\<close>, \<open>LimitProperties\<close>: \<open>rules.ts\<close>, \<open>classifier.ts\<close>, \<open>provider-rules.ts\<close> and
    \<open>harness-rules.ts\<close> of \<open>rate-limit-catalog/src\<close>.
  \<^item> \<open>ParseArgs\<close>, \<open>CliArgs\<close>, \<open>CliRequests\<close>, \<open>CliProperties\<close>: \<open>parseArgs\<close> of \<open>node:util\<close> for the
    options used, and \<open>cli/src/args.ts\<close>, \<open>command-registry.ts\<close> and \<open>errors.ts\<close>.

  \<^bold>\<open>How code becomes definitions.\<close> A function that throws returns \<open>thrown + 'a\<close>; \<open>Inl\<close> leaves the
  state as it was, unless the state is returned too. An absent optional field is \<open>None\<close>. A JavaScript
  number that code checks before use is a \<open>jsnum\<close> (NaN, the infinities, or a rational); arithmetic on
  fractions is rounded by \<open>fl\<close> at every operation. What code reads from outside is an argument: the
  clock, \<open>randomUUID\<close>, zod's datetime test (\<open>dt\<close>), \<open>localeCompare\<close> (\<open>lc\<close>, with the laws of the locale
  \<open>collation\<close>), \<open>JSON.parse\<close> and SHA-256 where metadata is scanned or hidden, and the answers of stores and providers.

  \<^bold>\<open>What the lemmas show.\<close> The properties are numbered C1, C2, ... in the theories: the mutual
  exclusion of hard leases over all reachable files and in arbitration; the exact conditions of each
  store operation; a ledger that keeps its history over appends, compactions and crashes in any order,
  and a reader that recovers from every torn line; exact accounting of active turns; the soundness of
  route selection, of the launch gate and of retries; streams mapped once and typed,
  whatever the chunks they come in, each event to its turn, and continued from a history without
  repetition, under one number per event; exports, packets and prompts that hold no secret a scan finds and no instruction that
  evidence brings; bounded classifications of limits; the least closed set kept by retention; a read model that agrees with the records; bounded requests of the command
  line; and the agreement of rounded scores with exact ones.

  \<^bold>\<open>Bounds and termination.\<close> No definition needs fuel; the scanner of metadata stops at the depth
  64 of the code, its first argument. Most loops are structural recursions over
  lists. The others end by a proved measure: the climb to the root of a session (\<open>climb\<close>, the sessions
  not yet visited), the passes of retention (\<open>retain_loop\<close>, the records not yet kept), the recogniser
  and the reader of lines (\<open>truncated_run\<close>, \<open>parse_lines\<close>, the bytes left), the cutting of a stream (\<open>split_frames\<close>, the text left), and the recursions on
  numbers (decimal digits, binary logarithm). The limits of the code (10000 leases and events, 500 rows
  of a page, 300 seconds of delay, 64 MiB of a snapshot) are kept.

  \<^bold>\<open>Not modelled.\<close> File locks, child processes, sockets, HTTP and git, the Supabase stores, the lease manager and the
  clean-up of worktrees, the mapping of transport failures, the provider objects over HTTP (but for the numbers of their events) and over the
  command line, the isolation of identities, the commands of the command line behind their requests, and
  the adapters; the manifest lists each of these with its reason.
\<close>

end
